(* ===== verification/GoPrelude.thy ===== *)
theory GoPrelude
  imports Main "HOL-Library.Multiset"
begin

text \<open>
  What the components share: the fragment of Go's language and standard library that the
  modelled code uses, as executable functions, and the generic lemmas about it.

  A Go \<open>string\<close> is a byte sequence, so it is a HOL \<^typ>\<open>string\<close> (a list of 8-bit characters). The functions
  of package \<open>strings\<close> keep their Go names. White space is what \<open>unicode.IsSpace\<close> accepts: each
  such rune is listed by its UTF-8 encoding, and since the first byte of an encoding never occurs
  inside another one, matching encodings at byte positions agrees with Go's rune-wise scan.

  A Go \<open>int\<close> has 64 bits: \<^term>\<open>wrap64\<close> is the two's complement wrap-around, applied wherever an
  addition of the source can leave the range.
\<close>

named_theorems go_str \<open>rewrite rules for the string functions\<close>
named_theorems go_time \<open>rewrite rules for times and dates\<close>

subsection \<open>64-bit integers\<close>

definition MaxInt64 :: int where
  "MaxInt64 = 9223372036854775807"

definition MinInt64 :: int where
  "MinInt64 = - 9223372036854775808"

definition in_int64 :: "int \<Rightarrow> bool" where
  "in_int64 n \<longleftrightarrow> MinInt64 \<le> n \<and> n \<le> MaxInt64"

definition wrap64 :: "int \<Rightarrow> int" where
  "wrap64 n = (n + 9223372036854775808) mod 18446744073709551616 - 9223372036854775808"

subsection \<open>Package strings\<close>

definition HasPrefix :: "string \<Rightarrow> string \<Rightarrow> bool" where
  "HasPrefix s p \<longleftrightarrow> take (length p) s = p"

definition TrimPrefix :: "string \<Rightarrow> string \<Rightarrow> string" where
  "TrimPrefix s p = (if HasPrefix s p then drop (length p) s else s)"

definition HasSuffix :: "string \<Rightarrow> string \<Rightarrow> bool" where
  "HasSuffix s p \<longleftrightarrow> length p \<le> length s \<and> drop (length s - length p) s = p"

definition TrimSuffix :: "string \<Rightarrow> string \<Rightarrow> string" where
  "TrimSuffix s x = (if HasSuffix s x then take (length s - length x) s else s)"

fun IndexByte :: "string \<Rightarrow> char \<Rightarrow> nat option" where
  "IndexByte [] c = None"
| "IndexByte (x # xs) c = (if x = c then Some 0 else map_option Suc (IndexByte xs c))"

fun Index :: "string \<Rightarrow> string \<Rightarrow> nat option" where
  "Index [] sub = (if sub = [] then Some 0 else None)"
| "Index (x # xs) sub =
     (if HasPrefix (x # xs) sub then Some 0 else map_option Suc (Index xs sub))"

fun LastIndexByte :: "string \<Rightarrow> char \<Rightarrow> nat option" where
  "LastIndexByte [] c = None"
| "LastIndexByte (x # xs) c =
     (case LastIndexByte xs c of
        Some i \<Rightarrow> Some (Suc i)
      | None \<Rightarrow> if x = c then Some 0 else None)"

definition CountByte :: "string \<Rightarrow> char \<Rightarrow> nat" where
  "CountByte s c = length (filter (\<lambda>x. x = c) s)"

text \<open>\<open>strings.Split\<close> with a separator of one byte: the separators cut the string into
  one more piece than there are separators, so the result is never empty.\<close>

fun Split :: "string \<Rightarrow> char \<Rightarrow> string list" where
  "Split [] c = [[]]"
| "Split (x # xs) c =
     (if x = c then [] # Split xs c
      else (case Split xs c of [] \<Rightarrow> [[x]] | p # ps \<Rightarrow> (x # p) # ps))"

text \<open>\<open>strings.SplitN(s, sep, 2)\<close>: at the first separator only.\<close>

definition SplitN2 :: "string \<Rightarrow> char \<Rightarrow> string list" where
  "SplitN2 s c = (case IndexByte s c of None \<Rightarrow> [s] | Some i \<Rightarrow> [take i s, drop (Suc i) s])"

fun Join :: "string list \<Rightarrow> string \<Rightarrow> string" where
  "Join [] sep = []"
| "Join [x] sep = x"
| "Join (x # y # ys) sep = x @ sep @ Join (y # ys) sep"

text \<open>\<open>strings.TrimRight\<close> with a cutset of one ASCII byte.\<close>

definition TrimRightByte :: "string \<Rightarrow> char \<Rightarrow> string" where
  "TrimRightByte s c = rev (dropWhile (\<lambda>x. x = c) (rev s))"

text \<open>The UTF-8 encodings of the runes \<open>unicode.IsSpace\<close> accepts.\<close>

definition space_encodings :: "string list" where
  "space_encodings =
     [[CHR 0x20], [CHR 0x09], [CHR 0x0A], [CHR 0x0B], [CHR 0x0C], [CHR 0x0D],
      [CHR 0xC2, CHR 0x85], [CHR 0xC2, CHR 0xA0], [CHR 0xE1, CHR 0x9A, CHR 0x80],
      [CHR 0xE2, CHR 0x80, CHR 0x80], [CHR 0xE2, CHR 0x80, CHR 0x81],
      [CHR 0xE2, CHR 0x80, CHR 0x82], [CHR 0xE2, CHR 0x80, CHR 0x83],
      [CHR 0xE2, CHR 0x80, CHR 0x84], [CHR 0xE2, CHR 0x80, CHR 0x85],
      [CHR 0xE2, CHR 0x80, CHR 0x86], [CHR 0xE2, CHR 0x80, CHR 0x87],
      [CHR 0xE2, CHR 0x80, CHR 0x88], [CHR 0xE2, CHR 0x80, CHR 0x89],
      [CHR 0xE2, CHR 0x80, CHR 0x8A], [CHR 0xE2, CHR 0x80, CHR 0xA8],
      [CHR 0xE2, CHR 0x80, CHR 0xA9], [CHR 0xE2, CHR 0x80, CHR 0xAF],
      [CHR 0xE2, CHR 0x81, CHR 0x9F], [CHR 0xE3, CHR 0x80, CHR 0x80]]"

text \<open>The length of the white-space rune at the start of a string, 0 when there is none.\<close>

definition space_len :: "string \<Rightarrow> nat" where
  "space_len s = (case find (HasPrefix s) space_encodings of None \<Rightarrow> 0 | Some e \<Rightarrow> length e)"

definition rspace_len :: "string \<Rightarrow> nat" where
  "rspace_len r = (case find (HasPrefix r) (map rev space_encodings) of
     None \<Rightarrow> 0 | Some e \<Rightarrow> length e)"

function trim_left :: "string \<Rightarrow> string" where
  "trim_left s =
     (if s \<noteq> [] \<and> space_len s > 0 then trim_left (drop (space_len s) s) else s)"
  by pat_completeness auto
termination
  by (relation "measure length") auto

function trim_rev :: "string \<Rightarrow> string" where
  "trim_rev r =
     (if r \<noteq> [] \<and> rspace_len r > 0 then trim_rev (drop (rspace_len r) r) else r)"
  by pat_completeness auto
termination
  by (relation "measure length") auto

declare trim_left.simps [simp del] trim_rev.simps [simp del]

definition TrimSpace :: "string \<Rightarrow> string" where
  "TrimSpace s = rev (trim_rev (rev (trim_left s)))"

text \<open>\<open>strings.Fields\<close>: \<open>cur\<close> is the field being read.\<close>

function fields_from :: "string \<Rightarrow> string \<Rightarrow> string list" where
  "fields_from cur s =
     (if s = [] then (if cur = [] then [] else [cur])
      else if space_len s > 0
           then (if cur = [] then [] else [cur]) @ fields_from [] (drop (space_len s) s)
           else fields_from (cur @ [hd s]) (tl s))"
  by pat_completeness auto
termination
  by (relation "measure (\<lambda>(cur, s). length s)") (auto simp: neq_Nil_conv)

declare fields_from.simps [simp del]

definition Fields :: "string \<Rightarrow> string list" where
  "Fields s = fields_from [] s"

subsection \<open>Decimal numbers: package strconv\<close>

definition is_digit :: "char \<Rightarrow> bool" where
  "is_digit c \<longleftrightarrow> 48 \<le> (of_char c :: nat) \<and> (of_char c :: nat) \<le> 57"

definition digit_val :: "char \<Rightarrow> int" where
  "digit_val c = int (of_char c :: nat) - 48"

definition digit_char :: "int \<Rightarrow> char" where
  "digit_char d = char_of (nat (48 + d))"

definition digits_val :: "string \<Rightarrow> int" where
  "digits_val s = foldl (\<lambda>a c. 10 * a + digit_val c) 0 s"

definition all_digits :: "string \<Rightarrow> bool" where
  "all_digits s \<longleftrightarrow> s \<noteq> [] \<and> list_all is_digit s"

text \<open>\<open>strconv.Atoi\<close>: an optional sign, then decimal digits only; an error (\<^const>\<open>None\<close>) when the
  syntax is wrong or the value does not fit an \<open>int\<close>.\<close>

definition Atoi :: "string \<Rightarrow> int option" where
  "Atoi s =
     (let neg = (s \<noteq> [] \<and> hd s = CHR ''-'');
          body = (if s \<noteq> [] \<and> (hd s = CHR ''-'' \<or> hd s = CHR ''+'') then tl s else s)
      in if \<not> all_digits body then None
         else let v = (if neg then - digits_val body else digits_val body)
              in if in_int64 v then Some v else None)"

text \<open>\<open>strconv.ParseUint(s, 10, 64)\<close>: digits only, at most \<open>2^64 - 1\<close>.\<close>

definition ParseUint64 :: "string \<Rightarrow> int option" where
  "ParseUint64 s =
     (if \<not> all_digits s then None
      else if digits_val s \<le> 18446744073709551615 then Some (digits_val s) else None)"

text \<open>The decimal digits of a number, and a number padded with zeros to a width as package \<open>time\<close>
  prints the parts of a date.\<close>

fun dec :: "nat \<Rightarrow> string" where
  "dec n = (if n < 10 then [digit_char (int n)] else dec (n div 10) @ [digit_char (int (n mod 10))])"

declare dec.simps [simp del]

definition appendInt :: "int \<Rightarrow> nat \<Rightarrow> string" where
  "appendInt x w =
     (let ds = dec (nat \<bar>x\<bar>)
      in (if x < 0 then ''-'' else []) @ replicate (w - length ds) (CHR ''0'') @ ds)"

subsection \<open>Lemmas on integers and strings\<close>

lemma wrap64_id: "in_int64 n \<Longrightarrow> wrap64 n = n"
  by (simp add: in_int64_def wrap64_def MaxInt64_def MinInt64_def)

lemma wrap64_over:
  assumes "MaxInt64 < n" "n \<le> 3 * MaxInt64"
  shows "wrap64 n = n - 18446744073709551616"
proof -
  have "(n + 9223372036854775808) mod 18446744073709551616
      = (n + 9223372036854775808 - 18446744073709551616) mod 18446744073709551616"
    by (rule minus_mod_self2 [symmetric])
  also have "\<dots> = n + 9223372036854775808 - 18446744073709551616"
    using assms by (intro mod_pos_pos_trivial) (simp_all add: MaxInt64_def)
  finally show ?thesis by (simp add: wrap64_def)
qed

lemma HasPrefix_append [go_str]: "HasPrefix (p @ s) p"
  by (simp add: HasPrefix_def)

lemma HasPrefix_iff [go_str]: "HasPrefix s p \<longleftrightarrow> (\<exists>r. s = p @ r)"
  by (metis HasPrefix_def append_eq_conv_conj append_take_drop_id)

lemma IndexByte_Some:
  "IndexByte s c = Some i \<Longrightarrow> i < length s \<and> s ! i = c \<and> c \<notin> set (take i s)"
  by (induction s c arbitrary: i rule: IndexByte.induct) (auto split: if_splits)

lemma IndexByte_None: "IndexByte s c = None \<longleftrightarrow> c \<notin> set s"
  by (induction s c rule: IndexByte.induct) auto

lemma IndexByte_append: "c \<notin> set a \<Longrightarrow> IndexByte (a @ c # b) c = Some (length a)"
  by (induction a) auto

lemma Split_not_Nil [simp]: "Split s c \<noteq> []"
  by (induction s c rule: Split.induct) (auto split: list.splits)

lemma Split_length_le: "p \<in> set (Split s c) \<Longrightarrow> length p \<le> length s"
  by (induction s c arbitrary: p rule: Split.induct)
    (auto split: list.splits if_splits simp: le_SucI)

lemma Split_no_sep: "p \<in> set (Split s c) \<Longrightarrow> c \<notin> set p"
  by (induction s c arbitrary: p rule: Split.induct) (auto split: list.splits if_splits)

lemma Split_sep: "Split (a @ c # b) c = Split a c @ Split b c"
  by (induction a c rule: Split.induct) (auto split: list.splits)

lemma Split_Join: "Join (Split s c) [c] = s"
proof (induction s c rule: Split.induct)
  case (2 x xs c)
  obtain p ps where e: "Split xs c = p # ps" by (cases "Split xs c") auto
  show ?case using 2 e by (cases ps) auto
qed simp

lemma set_Join: "set (Join ps sep) \<subseteq> (\<Union>p\<in>set ps. set p) \<union> set sep"
  by (induction ps sep rule: Join.induct) auto

lemma Join_hd: "p \<noteq> [] \<Longrightarrow> Join (p # ps) sep \<noteq> [] \<and> hd (Join (p # ps) sep) = hd p"
  by (cases ps) simp_all

lemma Split_single: "c \<notin> set p \<Longrightarrow> Split p c = [p]"
  by (induction p) auto

lemma Split_of_Join:
  "\<forall>p\<in>set ps. c \<notin> set p \<Longrightarrow> ps \<noteq> [] \<Longrightarrow> Split (Join ps [c]) c = ps"
proof (induction ps "[c]" rule: Join.induct)
  case (3 x y ys)
  have "Split (x @ c # z) c = x # Split z c" if "c \<notin> set x" for x z
    using that by (induction x) auto
  then show ?case using 3 by simp
qed (simp_all add: Split_single)

lemma digit_val_range: "is_digit c \<Longrightarrow> 0 \<le> digit_val c \<and> digit_val c \<le> 9"
  by (simp add: is_digit_def digit_val_def)

lemma digits_val_append1: "digits_val (s @ [c]) = 10 * digits_val s + digit_val c"
  by (simp add: digits_val_def)

lemma digits_val_bounds: "list_all is_digit s \<Longrightarrow> 0 \<le> digits_val s \<and> digits_val s < 10 ^ length s"
proof (induction s rule: rev_induct)
  case Nil then show ?case by (simp add: digits_val_def)
next
  case (snoc c s) then show ?case using digit_val_range [of c] by (simp add: digits_val_append1)
qed

lemma Atoi_in_int64: "Atoi s = Some n \<Longrightarrow> in_int64 n"
  by (auto simp: Atoi_def Let_def split: if_splits)

lemma Atoi_short: "Atoi s = Some n \<Longrightarrow> n < 10 ^ length s"
proof -
  assume a: "Atoi s = Some n"
  define body where "body = (if s \<noteq> [] \<and> (hd s = CHR ''-'' \<or> hd s = CHR ''+'') then tl s else s)"
  have n: "n \<le> digits_val body" and d: "list_all is_digit body"
    using a digits_val_bounds [of body]
    by (auto simp: Atoi_def Let_def body_def all_digits_def split: if_splits)
  have "length body \<le> length s" by (simp add: body_def)
  then have "(10::int) ^ length body \<le> 10 ^ length s" by (intro power_increasing) auto
  then show ?thesis using n digits_val_bounds [OF d] by linarith
qed

lemma digit_char_val:
  assumes "0 \<le> d" "d \<le> 9"
  shows "is_digit (digit_char d)" "digit_val (digit_char d) = d"
proof -
  have "nat (48 + d) < 256" using assms by simp
  then have "(of_char (digit_char d) :: nat) = nat (48 + d)"
    by (simp add: digit_char_def)
  then show "is_digit (digit_char d)" "digit_val (digit_char d) = d"
    using assms by (auto simp: is_digit_def digit_val_def)
qed

lemma dec_digits: "list_all is_digit (dec n)" "dec n \<noteq> []" "digits_val (dec n) = int n"
proof -
  have "list_all is_digit (dec n) \<and> dec n \<noteq> [] \<and> digits_val (dec n) = int n"
  proof (induction n rule: dec.induct)
    case (1 n)
    show ?case
    proof (cases "n < 10")
      case True
      then show ?thesis
        by (simp add: dec.simps [of n] digit_char_val digits_val_def)
    next
      case False
      have d: "dec n = dec (n div 10) @ [digit_char (int (n mod 10))]"
        using False by (simp add: dec.simps [of n])
      have "0 \<le> int (n mod 10)" "int (n mod 10) \<le> 9" by simp_all
      note c = digit_char_val [OF this]
      have "10 * int (n div 10) + int (n mod 10) = int n" by presburger
      with 1 [OF False] c show ?thesis unfolding d by (simp only: digits_val_append1) auto
    qed
  qed
  then show "list_all is_digit (dec n)" "dec n \<noteq> []" "digits_val (dec n) = int n" by auto
qed

lemma dec_length_le: "n < 10 ^ k \<Longrightarrow> 0 < k \<Longrightarrow> length (dec n) \<le> k"
proof (induction n arbitrary: k rule: dec.induct)
  case (1 n)
  show ?case
  proof (cases "n < 10")
    case True
    then show ?thesis using 1 by (simp add: dec.simps [of n])
  next
    case False
    obtain j where j: "k = Suc j" using \<open>0 < k\<close> by (cases k) simp_all
    have "0 < j" using False \<open>n < 10 ^ k\<close> j by (cases j) simp_all
    moreover have "n div 10 < 10 ^ j" using \<open>n < 10 ^ k\<close> j by (simp add: less_mult_imp_div_less)
    ultimately have "length (dec (n div 10)) \<le> j" using 1(1) False by blast
    then show ?thesis using False j by (simp add: dec.simps [of n])
  qed
qed

lemma digits_val_zeros: "digits_val (replicate k (CHR ''0'') @ s) = digits_val s"
proof -
  have "digit_val (CHR ''0'') = 0" by (simp add: digit_val_def)
  then show ?thesis by (induction k) (simp_all add: digits_val_def)
qed

lemma appendInt_digits:
  assumes "0 \<le> x"
  shows "list_all is_digit (appendInt x w)" "digits_val (appendInt x w) = x" "w \<le> length (appendInt x w)"
    "x < 10 ^ w \<Longrightarrow> 0 < w \<Longrightarrow> length (appendInt x w) = w"
proof -
  have "is_digit (CHR ''0'')" by (simp add: is_digit_def)
  then show "list_all is_digit (appendInt x w)" "digits_val (appendInt x w) = x" "w \<le> length (appendInt x w)"
    using assms dec_digits [of "nat x"]
    by (auto simp: appendInt_def Let_def digits_val_zeros list_all_iff)
  assume "x < 10 ^ w" "0 < w"
  then have "length (dec (nat x)) \<le> w" using assms by (intro dec_length_le) (auto simp: nat_less_iff)
  then show "length (appendInt x w) = w" using assms by (simp add: appendInt_def Let_def)
qed

lemma is_digit_no_dash: "list_all is_digit s \<Longrightarrow> CHR ''-'' \<notin> set s"
  by (auto simp: list_all_iff is_digit_def)

lemma appendInt_inj: "appendInt x w = appendInt y w \<Longrightarrow> x = y"
proof -
  assume e: "appendInt x w = appendInt y w"
  have neg: "appendInt z w = CHR ''-'' # appendInt (- z) w" if "z < 0" for z
    using that by (simp add: appendInt_def Let_def)
  have dash: "CHR ''-'' \<notin> set (appendInt z w)" if "0 \<le> z" for z
    using appendInt_digits(1) [OF that] is_digit_no_dash by blast
  have nonneg: "u = v" if "0 \<le> u" "0 \<le> v" "appendInt u w = appendInt v w" for u v
    using appendInt_digits(2) [OF that(1), of w] appendInt_digits(2) [OF that(2), of w] that(3)
    by (metis (no_types))
  show "x = y"
  proof (cases "0 \<le> x"; cases "0 \<le> y")
    assume n: "\<not> 0 \<le> x" "\<not> 0 \<le> y"
    then have "appendInt (- x) w = appendInt (- y) w" using e neg [of x] neg [of y] by (metis list.inject not_le)
    then have "- x = - y" using n by (intro nonneg) linarith+
    then show ?thesis by simp
  next
    assume "0 \<le> x" "\<not> 0 \<le> y"
    then show ?thesis using e neg [of y] dash [of x] by (metis list.set_intros(1) not_le)
  next
    assume "\<not> 0 \<le> x" "0 \<le> y"
    then show ?thesis using e neg [of x] dash [of y] by (metis list.set_intros(1) not_le)
  qed (use e nonneg in blast)
qed

end
