(* ===== verification/GoTime.thy ===== *)
theory GoTime
  imports GoPrelude
begin

text \<open>
  Package \<open>time\<close>, as far as the scheduler, the retention code and the scrub policies use it.

  A \<open>time.Time\<close> is an instant: the nanoseconds since 0001-01-01 00:00:00 UTC, Go's zero time, so
  that \<open>IsZero\<close> is \<open>t = 0\<close> and \<open>Truncate\<close> rounds down to a multiple counted from 0. A
  \<open>*time.Location\<close> is the function that gives the zone's offset in seconds at a UTC second counted
  from the same origin; the wall clock of an instant is the instant plus that offset. The accessors
  of a \<open>Time\<close> depend on the location it carries, so they take it as an argument. \<open>time.Date\<close> follows
  the lookup that the standard library does: the offset in force at the wall-clock second read as
  UTC, corrected once by the offset in force at the instant this gives.

  The calendar is the proleptic Gregorian one; days are counted from 0001-01-01, a Monday.
\<close>

type_synonym time = int
type_synonym location = "int \<Rightarrow> int"
type_synonym duration = int

definition Second :: duration where "Second = 1000000000"
definition Minute :: duration where "Minute = 60 * Second"
definition Hour :: duration where "Hour = 60 * Minute"

definition UTC :: location where
  "UTC = (\<lambda>_. 0)"

definition FixedZone :: "int \<Rightarrow> location" where
  "FixedZone off = (\<lambda>_. off)"

definition loc_or_utc :: "location option \<Rightarrow> location" where
  "loc_or_utc l = (case l of None \<Rightarrow> UTC | Some l \<Rightarrow> l)"

subsection \<open>The calendar\<close>

definition leap :: "int \<Rightarrow> bool" where
  "leap y \<longleftrightarrow> y mod 4 = 0 \<and> (y mod 100 \<noteq> 0 \<or> y mod 400 = 0)"

definition days_before_year :: "int \<Rightarrow> int" where
  "days_before_year y = 365 * (y - 1) + (y - 1) div 4 - (y - 1) div 100 + (y - 1) div 400"

definition days_before_month :: "bool \<Rightarrow> int \<Rightarrow> int" where
  "days_before_month l m =
     (if m \<le> 1 then 0 else if m = 2 then 31
      else (if l then 1 else 0) +
        (if m = 3 then 59 else if m = 4 then 90 else if m = 5 then 120 else if m = 6 then 151
         else if m = 7 then 181 else if m = 8 then 212 else if m = 9 then 243
         else if m = 10 then 273 else if m = 11 then 304 else if m = 12 then 334 else 365))"

definition days_in_month :: "int \<Rightarrow> int \<Rightarrow> int" where
  "days_in_month y m = days_before_month (leap y) (m + 1) - days_before_month (leap y) m"

definition days_from_civil :: "int \<Rightarrow> int \<Rightarrow> int \<Rightarrow> int" where
  "days_from_civil y m d = days_before_year y + days_before_month (leap y) m + (d - 1)"

definition civil_year :: "int \<Rightarrow> int" where
  "civil_year n =
     (let y = (400 * n) div 146097 + 1
      in if n < days_before_year y then y - 1
         else if days_before_year (y + 1) \<le> n then y + 1 else y)"

definition year_day :: "int \<Rightarrow> int" where
  "year_day n = n - days_before_year (civil_year n)"

definition month_of_yday :: "bool \<Rightarrow> int \<Rightarrow> int" where
  "month_of_yday l d =
     (if d < days_before_month l 2 then 1 else if d < days_before_month l 3 then 2
      else if d < days_before_month l 4 then 3 else if d < days_before_month l 5 then 4
      else if d < days_before_month l 6 then 5 else if d < days_before_month l 7 then 6
      else if d < days_before_month l 8 then 7 else if d < days_before_month l 9 then 8
      else if d < days_before_month l 10 then 9 else if d < days_before_month l 11 then 10
      else if d < days_before_month l 12 then 11 else 12)"

definition civil_month :: "int \<Rightarrow> int" where
  "civil_month n = month_of_yday (leap (civil_year n)) (year_day n)"

definition civil_day :: "int \<Rightarrow> int" where
  "civil_day n = year_day n - days_before_month (leap (civil_year n)) (civil_month n) + 1"

definition week_day :: "int \<Rightarrow> int" where
  "week_day n = (n + 1) mod 7"

subsection \<open>Instants in a location\<close>

definition unix_sec :: "time \<Rightarrow> int" where
  "unix_sec t = t div Second"

definition wall :: "location \<Rightarrow> time \<Rightarrow> int" where
  "wall loc t = unix_sec t + loc (unix_sec t)"

definition wall_day :: "location \<Rightarrow> time \<Rightarrow> int" where
  "wall_day loc t = wall loc t div 86400"

definition Year_of :: "location \<Rightarrow> time \<Rightarrow> int" where
  "Year_of loc t = civil_year (wall_day loc t)"

definition Month_of :: "location \<Rightarrow> time \<Rightarrow> int" where
  "Month_of loc t = civil_month (wall_day loc t)"

definition Day_of :: "location \<Rightarrow> time \<Rightarrow> int" where
  "Day_of loc t = civil_day (wall_day loc t)"

definition Weekday_of :: "location \<Rightarrow> time \<Rightarrow> int" where
  "Weekday_of loc t = week_day (wall_day loc t)"

definition Hour_of :: "location \<Rightarrow> time \<Rightarrow> int" where
  "Hour_of loc t = wall loc t mod 86400 div 3600"

definition Minute_of :: "location \<Rightarrow> time \<Rightarrow> int" where
  "Minute_of loc t = wall loc t mod 3600 div 60"

definition Truncate :: "time \<Rightarrow> duration \<Rightarrow> time" where
  "Truncate t d = (if d \<le> 0 then t else t - t mod d)"

text \<open>\<open>t.Sub(u)\<close> saturates at the bounds of a \<open>Duration\<close>.\<close>

definition Sub :: "time \<Rightarrow> time \<Rightarrow> duration" where
  "Sub t u = max MinInt64 (min MaxInt64 (t - u))"

text \<open>\<open>time.Date\<close> for a date that is already normalised, at a whole minute.\<close>

definition Date :: "int \<Rightarrow> int \<Rightarrow> int \<Rightarrow> int \<Rightarrow> int \<Rightarrow> location \<Rightarrow> time" where
  "Date y m d h mi loc =
     (let w = days_from_civil y m d * 86400 + h * 3600 + mi * 60;
          off = loc w
      in (if off \<noteq> 0 then w - loc (w - off) else w) * Second)"

text \<open>\<open>ISOWeek\<close>: the year and week of the Thursday of the instant's week.\<close>

definition iso_thursday :: "int \<Rightarrow> int" where
  "iso_thursday n = (let d = 4 - week_day n in n + (if d = 4 then - 3 else d))"

definition ISOWeek :: "location \<Rightarrow> time \<Rightarrow> int \<times> int" where
  "ISOWeek loc t =
     (let th = iso_thursday (wall_day loc t) in (civil_year th, year_day th div 7 + 1))"

subsection \<open>Calendar lemmas\<close>

lemma div_pred_int:
  fixes n k :: int
  assumes "0 < k"
  shows "(n - 1) div k = n div k - (if n mod k = 0 then 1 else 0)"
proof -
  have e: "n = k * (n div k) + n mod k" by simp
  have r: "0 \<le> n mod k" "n mod k < k" using assms by simp_all
  show ?thesis
  proof (cases "n mod k = 0")
    case True
    with e have "n - 1 = k * (n div k - 1) + (k - 1)" by (simp add: algebra_simps)
    then have "(n - 1) div k = n div k - 1" by (rule int_div_pos_eq) (use assms in auto)
    then show ?thesis using True by simp
  next
    case False
    with e r have "n - 1 = k * (n div k) + (n mod k - 1)" "0 \<le> n mod k - 1" "n mod k - 1 < k"
      by (auto simp: algebra_simps)
    then have "(n - 1) div k = n div k" by (rule int_div_pos_eq)
    then show ?thesis using False by simp
  qed
qed

lemma days_before_year_step:
  "days_before_year (y + 1) = days_before_year y + (if leap y then 366 else 365)"
proof -
  have "y mod 400 = 0 \<Longrightarrow> y mod 100 = 0" "y mod 100 = 0 \<Longrightarrow> y mod 4 = 0"
    by (auto simp: mod_eq_0_iff_dvd intro: dvd_trans [of _ 400] dvd_trans [of _ 100])
  then show ?thesis
    unfolding days_before_year_def leap_def by (auto simp: div_pred_int)
qed

lemma days_before_year_linear:
  fixes k a b c r s t :: int
  assumes "4 * a + r = k" "100 * b + s = k" "400 * c + t = k"
    and "0 \<le> r" "r < 4" "0 \<le> s" "s < 100" "0 \<le> t" "t < 400"
  shows "146097 * k - 799 \<le> 400 * (365 * k + a - b + c)
    \<and> 400 * (365 * k + a - b + c) \<le> 146097 * k + 399"
proof -
  have "100 * k - 300 \<le> 400 * a" "400 * a \<le> 100 * k" using assms by linarith+
  moreover have "4 * k - 396 \<le> 400 * b" "400 * b \<le> 4 * k" using assms by linarith+
  moreover have "k - 399 \<le> 400 * c" "400 * c \<le> k" using assms by linarith+
  ultimately show ?thesis by auto
qed

lemma days_before_year_bounds:
  "146097 * (y - 1) - 799 \<le> 400 * days_before_year y"
  "400 * days_before_year y \<le> 146097 * (y - 1) + 399"
  using days_before_year_linear [of "(y - 1) div 4" "(y - 1) mod 4" "y - 1" "(y - 1) div 100"
      "(y - 1) mod 100" "(y - 1) div 400" "(y - 1) mod 400"]
  unfolding days_before_year_def by simp_all

lemma days_before_year_Suc_bounds:
  "days_before_year y + 365 \<le> days_before_year (y + 1)"
  "days_before_year (y + 1) \<le> days_before_year y + 366"
  by (simp_all add: days_before_year_step)

lemma civil_year_bounds:
  "days_before_year (civil_year n) \<le> n" "n < days_before_year (civil_year n + 1)"
proof -
  define y where "y = (400 * n) div 146097 + 1"
  have "146097 * (400 * n div 146097) + 400 * n mod 146097 = 400 * n" by simp
  moreover have "0 \<le> 400 * n mod 146097" "400 * n mod 146097 < 146097" by simp_all
  ultimately have k: "146097 * (y - 1) \<le> 400 * n" "400 * n < 146097 * y"
    unfolding y_def by simp_all
  note b = days_before_year_bounds [of y] days_before_year_bounds [of "y + 1"]
    days_before_year_bounds [of "y - 1"] days_before_year_bounds [of "y + 2"]
  have 1: "days_before_year (y - 1) \<le> n" using k b by simp
  have 2: "n < days_before_year (y + 2)" using k b by simp
  show "days_before_year (civil_year n) \<le> n" "n < days_before_year (civil_year n + 1)"
    using 1 2 unfolding civil_year_def Let_def y_def [symmetric]
    by (auto simp: algebra_simps)
qed

lemma days_before_year_mono: "y \<le> z \<Longrightarrow> days_before_year y \<le> days_before_year z"
proof (induction z rule: int_ge_induct)
  case base then show ?case by simp
next
  case (step i) then show ?case using days_before_year_Suc_bounds(1) [of i] by linarith
qed

lemma civil_year_unique:
  assumes "days_before_year y \<le> n" "n < days_before_year (y + 1)"
  shows "civil_year n = y"
proof -
  have "\<not> y + 1 \<le> civil_year n"
    using days_before_year_mono [of "y + 1" "civil_year n"] civil_year_bounds(1) [of n] assms
    by linarith
  moreover have "\<not> civil_year n + 1 \<le> y"
    using days_before_year_mono [of "civil_year n + 1" y] civil_year_bounds(2) [of n] assms
    by linarith
  ultimately show ?thesis by linarith
qed

lemma civil_year_mono: "m \<le> n \<Longrightarrow> civil_year m \<le> civil_year n"
proof (rule ccontr)
  assume "m \<le> n" "\<not> civil_year m \<le> civil_year n"
  then have "days_before_year (civil_year n + 1) \<le> days_before_year (civil_year m)"
    by (intro days_before_year_mono) linarith
  with \<open>m \<le> n\<close> civil_year_bounds(1) [of m] civil_year_bounds(2) [of n] show False by linarith
qed

lemma year_day_bounds: "0 \<le> year_day n" "year_day n < (if leap (civil_year n) then 366 else 365)"
  using civil_year_bounds [of n] unfolding year_day_def by (auto simp: days_before_year_step)

lemma month_of_yday_range: "1 \<le> month_of_yday l d" "month_of_yday l d \<le> 12"
  unfolding month_of_yday_def by simp_all

lemma month_of_yday_bounds:
  assumes "0 \<le> d" "d < (if l then 366 else 365)"
  shows "days_before_month l (month_of_yday l d) \<le> d"
    and "d < days_before_month l (month_of_yday l d + 1)"
  using assms unfolding month_of_yday_def
  by (cases l; simp add: days_before_month_def)+

lemma month_of_yday_unique:
  assumes "1 \<le> m" "m \<le> 12" "days_before_month l m \<le> d" "d < days_before_month l (m + 1)"
  shows "month_of_yday l d = m"
proof -
  have "m = 1 \<or> m = 2 \<or> m = 3 \<or> m = 4 \<or> m = 5 \<or> m = 6 \<or> m = 7 \<or> m = 8 \<or> m = 9 \<or> m = 10
    \<or> m = 11 \<or> m = 12" using assms(1,2) by presburger
  then show ?thesis using assms(3,4) unfolding month_of_yday_def
    by (elim disjE; cases l; simp add: days_before_month_def)
qed

lemma days_before_month_13: "days_before_month l 13 = (if l then 366 else 365)"
  by (simp add: days_before_month_def)

lemma civil_month_range: "1 \<le> civil_month n" "civil_month n \<le> 12"
  by (simp_all add: civil_month_def month_of_yday_range)

lemma civil_month_bounds:
  "days_from_civil (civil_year n) (civil_month n) 1 \<le> n"
  "n < days_before_year (civil_year n)
        + days_before_month (leap (civil_year n)) (civil_month n + 1)"
  using month_of_yday_bounds [OF year_day_bounds [of n]]
  by (simp_all add: civil_month_def days_from_civil_def year_day_def)

lemma days_before_month_le_year: "days_before_month l m \<le> (if l then 366 else 365)"
  by (simp add: days_before_month_def)

lemma civil_day_ge_1: "1 \<le> civil_day n"
  using civil_month_bounds(1) [of n] by (simp add: civil_day_def days_from_civil_def year_day_def)

lemma civil_day_le_month: "civil_day n \<le> days_in_month (civil_year n) (civil_month n)"
  using civil_month_bounds(2) [of n]
  by (simp add: civil_day_def days_in_month_def year_day_def)

lemma days_from_civil_of: "days_from_civil (civil_year n) (civil_month n) (civil_day n) = n"
  by (simp add: days_from_civil_def civil_day_def year_day_def)

text \<open>The days from a month's first to the next month's first, exclusive, are that month's.\<close>

lemma civil_in_month:
  assumes "1 \<le> m" "m \<le> 12"
    and "days_from_civil y m 1 \<le> n"
    and "n < days_before_year y + days_before_month (leap y) (m + 1)"
  shows "civil_year n = y" "civil_month n = m"
proof -
  have pos: "0 \<le> days_before_month (leap y) m" by (simp add: days_before_month_def)
  show y: "civil_year n = y"
    using assms(3,4) pos days_before_month_le_year [of "leap y" "m + 1"]
    by (intro civil_year_unique) (simp_all add: days_from_civil_def days_before_year_step)
  show "civil_month n = m"
    unfolding civil_month_def y year_day_def
    using assms by (intro month_of_yday_unique) (simp_all add: days_from_civil_def)
qed

lemma civil_of_days_from_civil:
  assumes "1 \<le> m" "m \<le> 12" "1 \<le> d" "d \<le> days_in_month y m"
  shows "civil_year (days_from_civil y m d) = y"
    and "civil_month (days_from_civil y m d) = m"
    and "civil_day (days_from_civil y m d) = d"
proof -
  have b: "days_from_civil y m 1 \<le> days_from_civil y m d"
    "days_from_civil y m d < days_before_year y + days_before_month (leap y) (m + 1)"
    using assms by (simp_all add: days_from_civil_def days_in_month_def)
  show y: "civil_year (days_from_civil y m d) = y" and m: "civil_month (days_from_civil y m d) = m"
    using civil_in_month [OF assms(1,2) b] by simp_all
  show "civil_day (days_from_civil y m d) = d"
    unfolding civil_day_def m y year_day_def by (simp add: days_from_civil_def)
qed

definition next_month :: "int \<Rightarrow> int \<Rightarrow> int \<times> int" where
  "next_month y m = (if m + 1 > 12 then (y + 1, 1) else (y, m + 1))"

lemma days_from_civil_next_month:
  assumes "1 \<le> m" "m \<le> 12"
  shows "(case next_month y m of (y', m') \<Rightarrow> days_from_civil y' m' 1)
    = days_before_year y + days_before_month (leap y) (m + 1)"
  using assms days_before_month_13 [of "leap y"]
  by (cases "m = 12")
    (auto simp: next_month_def days_from_civil_def days_before_year_step days_before_month_def)

lemma civil_until_next_month:
  assumes "n \<le> k" "k < (case next_month (civil_year n) (civil_month n) of
      (y', m') \<Rightarrow> days_from_civil y' m' 1)"
  shows "civil_year k = civil_year n" "civil_month k = civil_month n"
  using civil_in_month [OF civil_month_range [of n], of "civil_year n" k] assms
    civil_month_bounds(1) [of n]
  by (simp_all add: days_from_civil_next_month [OF civil_month_range])

lemma before_next_month:
  "n < (case next_month (civil_year n) (civil_month n) of (y', m') \<Rightarrow> days_from_civil y' m' 1)"
  using civil_month_bounds(2) [of n]
  by (simp add: days_from_civil_next_month [OF civil_month_range])

subsection \<open>Locations with one offset\<close>

text \<open>
  The contract the scheduler's time arithmetic relies on: the zone has the same offset at every
  instant, a whole number of minutes. UTC and every fixed-offset zone keep it; a zone with daylight
  saving time does not.
\<close>

lemma div_less_iff_int:
  fixes k u x :: int
  assumes "0 < k"
  shows "u div k < x \<longleftrightarrow> u < x * k"
proof
  assume "u div k < x"
  then have "(u div k + 1) * k \<le> x * k" using assms by (intro mult_right_mono) auto
  moreover have "u - u mod k = (u div k) * k" by (rule minus_mod_eq_div_mult)
  moreover have "u mod k < k" using assms by simp
  ultimately show "u < x * k" unfolding distrib_right by linarith
next
  assume u: "u < x * k"
  show "u div k < x"
  proof (rule ccontr)
    assume "\<not> u div k < x"
    then have "x * k \<le> (u div k) * k" using assms by (intro mult_right_mono) auto
    moreover have "u - u mod k = (u div k) * k" by (rule minus_mod_eq_div_mult)
    moreover have "0 \<le> u mod k" using assms by simp
    ultimately show False using u by linarith
  qed
qed

lemma Second_pos [simp]: "0 < Second" "Second \<noteq> 0"
  by (simp_all add: Second_def)

lemma hour_split: "(w::int) div 3600 = w mod 86400 div 3600 + 24 * (w div 86400)"
proof -
  have "w = w mod 86400 + (24 * (w div 86400)) * 3600" by simp
  then have "w div 3600 = (w mod 86400 + (24 * (w div 86400)) * 3600) div 3600" by simp
  also have "\<dots> = w mod 86400 div 3600 + 24 * (w div 86400)"
    by (subst div_mult_self1) simp_all
  finally show ?thesis .
qed

lemma hour_of_wall: "(w::int) mod 86400 div 3600 = w div 3600 mod 24"
proof -
  have "0 \<le> w mod 86400 div 3600" by (simp add: pos_imp_zdiv_nonneg_iff)
  moreover have "w mod 86400 div 3600 < 24" by (simp add: div_less_iff_int)
  ultimately show ?thesis by (subst hour_split [of w]) simp
qed

lemma whole_minutes_mult: "(x * 86400) mod 60 = (0::int)" "(x * 3600) mod 60 = (0::int)"
  using mod_mult_self2_is_0 [of "x * 1440" "60::int"] mod_mult_self2_is_0 [of "x * 60" "60::int"]
  by simp_all

lemma minute_split: "(w::int) div 60 = w mod 3600 div 60 + 60 * (w div 3600)"
proof -
  have "w = w mod 3600 + (60 * (w div 3600)) * 60" by simp
  then have "w div 60 = (w mod 3600 + (60 * (w div 3600)) * 60) div 60" by simp
  also have "\<dots> = w mod 3600 div 60 + 60 * (w div 3600)"
    by (subst div_mult_self1) simp_all
  finally show ?thesis .
qed

lemma Truncate_Minute:
  "Truncate t Minute mod Minute = 0" "Truncate t Minute \<le> t" "t < Truncate t Minute + Minute"
  "t mod Minute = 0 \<Longrightarrow> Truncate t Minute = t"
  "Minute \<le> t \<Longrightarrow> Minute \<le> Truncate t Minute"
proof -
  have m: "0 < Minute" by (simp add: Minute_def)
  have e: "Truncate t Minute = t div Minute * Minute"
    using m by (simp add: Truncate_def minus_mod_eq_div_mult)
  show "Truncate t Minute mod Minute = 0" by (simp add: e)
  show "Truncate t Minute \<le> t" "t < Truncate t Minute + Minute"
    using m pos_mod_bound [OF m, of t] pos_mod_sign [OF m, of t] by (simp_all add: Truncate_def)
  show "t mod Minute = 0 \<Longrightarrow> Truncate t Minute = t" by (simp add: Truncate_def)
  assume "Minute \<le> t"
  then have "1 \<le> t div Minute" using zdiv_mono1 [of Minute t Minute] m by simp
  then have "1 * Minute \<le> t div Minute * Minute" using m by (intro mult_right_mono) auto
  then show "Minute \<le> Truncate t Minute" by (simp add: e)
qed

lemma minute_grid:
  assumes "u mod Minute = 0" "p mod Minute = 0"
  shows "p < u \<longleftrightarrow> p + Minute \<le> u"
proof -
  have m: "0 < Minute" by (simp add: Minute_def)
  have "(u - p) mod Minute = 0" using assms by (metis diff_self mod_0 mod_diff_eq)
  then obtain k where k: "u - p = Minute * k" by (metis mod_eq_0_iff_dvd dvdE)
  have "p < u \<longleftrightarrow> 0 < Minute * k" using k by linarith
  also have "\<dots> \<longleftrightarrow> 1 \<le> k" using m by (simp add: zero_less_mult_iff int_one_le_iff_zero_less)
  also have "\<dots> \<longleftrightarrow> Minute * 1 \<le> Minute * k" using m by (simp only: mult_le_cancel_left_pos)
  finally show ?thesis using k by linarith
qed

lemma duration_units: "Minute = 60 * Second" "Hour = 3600 * Second"
  by (simp_all add: Minute_def Hour_def)

locale steady_location =
  fixes loc :: location and off :: int
  assumes steady: "loc s = off"
    and whole_minutes: "off mod 60 = 0"
begin

lemma wall_steady: "wall loc t = t div Second + off"
  by (simp add: wall_def unix_sec_def steady)

lemma Date_steady:
  "Date y m d h mi loc
     = (days_from_civil y m d * 86400 + h * 3600 + mi * 60 - off) * Second"
  by (simp add: Date_def steady Let_def)

lemma before_iff_wall: "u < (w - off) * Second \<longleftrightarrow> wall loc u < w"
  using div_less_iff_int [of Second u "w - off"] by (auto simp: wall_steady)

lemma wall_at: "wall loc ((w - off) * Second) = w"
  by (simp add: wall_steady)

lemma wall_mono: "t \<le> u \<Longrightarrow> wall loc t \<le> wall loc u"
  by (simp add: wall_steady zdiv_mono1)

lemma wall_add: "wall loc (t + k * Second) = wall loc t + k"
  using div_mult_self1 [of Second t k] by (simp add: wall_steady)

lemma wall_on_minute: "t mod Minute = 0 \<Longrightarrow> wall loc t mod 60 = 0"
proof -
  assume "t mod Minute = 0"
  then obtain k where "t = k * Minute" by (metis mod_eq_0_iff_dvd dvdE mult.commute)
  then have "t = (k * 60) * Second" by (simp add: Minute_def)
  then have "wall loc t = k * 60 + off" using Second_pos by (simp add: wall_steady)
  then show ?thesis using whole_minutes by (simp add: mod_add_eq)
qed

lemma on_minute_of_wall: "w mod 60 = 0 \<Longrightarrow> (w - off) * Second mod Minute = 0"
proof -
  assume "w mod 60 = 0"
  then have "(w - off) mod 60 = 0" using whole_minutes by (simp add: mod_diff_eq [symmetric])
  then obtain k where "w - off = k * 60" by (metis mod_eq_0_iff_dvd dvdE mult.commute)
  then show ?thesis by (simp add: Minute_def)
qed

end

interpretation utc: steady_location UTC 0
  by unfold_locales (simp_all add: UTC_def)

lemma steady_FixedZone: "off mod 60 = 0 \<Longrightarrow> steady_location (FixedZone off) off"
  by unfold_locales (simp_all add: FixedZone_def)

end
