(* ===== verification/Cron.thy ===== *)
theory Cron
  imports GoTime
begin

text \<open>
  \<^verbatim>\<open>internal/host/scheduler/cron.go\<close>: the five-field cron parser and the computation of the next
  firing time.

  The two loops of this file that have no structural bound are \<^theory_text>\<open>partial_function (option)\<close>s: the loop that
  collects a stepped range adds with 64-bit wrap-around, and the skip-ahead loop of \<open>NextAfter\<close> jumps to the
  next month, day, hour or minute. \<^const>\<open>None\<close> is "does not return", and it is passed on by the callers.
\<close>

subsection \<open>Data\<close>

record CronField =
  wildcard :: bool
  vals :: "int list"

record CronExpr =
  cMinute :: CronField
  cHour :: CronField
  cDom :: CronField
  cMon :: CronField
  cDow :: CronField
  craw :: string

record fieldRange =
  rmin :: int
  rmax :: int

definition rngMinute :: fieldRange where "rngMinute = \<lparr>rmin = 0, rmax = 59\<rparr>"
definition rngHour :: fieldRange where "rngHour = \<lparr>rmin = 0, rmax = 23\<rparr>"
definition rngDom :: fieldRange where "rngDom = \<lparr>rmin = 1, rmax = 31\<rparr>"
definition rngMon :: fieldRange where "rngMon = \<lparr>rmin = 1, rmax = 12\<rparr>"
definition rngDow :: fieldRange where "rngDow = \<lparr>rmin = 0, rmax = 6\<rparr>"

datatype field_err =
    EmptyField
  | EmptyListItem string
  | BadStep string
  | BadRangeStart string
  | BadRangeEnd string
  | RangeReversed int int
  | BadValue string
  | OutOfRange int int string

datatype cron_err =
    ExpectedFiveFields nat string
  | InMinute field_err
  | InHour field_err
  | InDom field_err
  | InMonth field_err
  | InDow field_err

subsection \<open>The parser\<close>

text \<open>The step suffix of a list item: what precedes the first slash, and the step after it.\<close>

definition parse_step :: "string \<Rightarrow> field_err + string \<times> int" where
  "parse_step part =
     (case IndexByte part (CHR ''/'') of
        None \<Rightarrow> Inr (part, 1)
      | Some i \<Rightarrow>
          let body = take i part; stepStr = drop (Suc i) part
          in case Atoi stepStr of
               None \<Rightarrow> Inl (BadStep stepStr)
             | Some n \<Rightarrow> if n \<le> 0 then Inl (BadStep stepStr) else Inr (body, n))"

text \<open>The body of a list item: the star, a range or a single value.\<close>

definition parse_body :: "string \<Rightarrow> fieldRange \<Rightarrow> field_err + int \<times> int" where
  "parse_body body r =
     (if body = ''*'' then Inr (rmin r, rmax r)
      else if CHR ''-'' \<in> set body then
        (let rp = SplitN2 body (CHR ''-'')
         in case Atoi (rp ! 0) of
              None \<Rightarrow> Inl (BadRangeStart (rp ! 0))
            | Some a \<Rightarrow>
                (case Atoi (rp ! 1) of
                   None \<Rightarrow> Inl (BadRangeEnd (rp ! 1))
                 | Some b \<Rightarrow> if a > b then Inl (RangeReversed a b) else Inr (a, b)))
      else
        (case Atoi body of
           None \<Rightarrow> Inl (BadValue body)
         | Some n \<Rightarrow> Inr (n, n)))"

text \<open>\<open>for v := lo; v <= hi; v += step { set[v] = ... }\<close>\<close>

partial_function (option) collect :: "int \<Rightarrow> int \<Rightarrow> int \<Rightarrow> int list \<Rightarrow> int list option" where
  "collect v hi step acc =
     (if v \<le> hi then collect (wrap64 (v + step)) hi step (v # acc) else Some acc)"

declare collect.simps [code]

text \<open>The loop over the comma-separated items; \<open>acc\<close> holds the keys of the set.\<close>

fun parse_items ::
  "string \<Rightarrow> fieldRange \<Rightarrow> string list \<Rightarrow> int list \<Rightarrow> (field_err + int list) option" where
  "parse_items s r [] acc = Some (Inr acc)"
| "parse_items s r (part # parts) acc =
     (if part = [] then Some (Inl (EmptyListItem s))
      else case parse_step part of
        Inl e \<Rightarrow> Some (Inl e)
      | Inr (body, step) \<Rightarrow>
          (case parse_body body r of
             Inl e \<Rightarrow> Some (Inl e)
           | Inr (lo, hi) \<Rightarrow>
               if lo < rmin r \<or> hi > rmax r then Some (Inl (OutOfRange (rmin r) (rmax r) part))
               else (case collect lo hi step acc of
                       None \<Rightarrow> None
                     | Some acc' \<Rightarrow> parse_items s r parts acc')))"

definition parseField :: "string \<Rightarrow> fieldRange \<Rightarrow> (field_err + CronField) option" where
  "parseField s r =
     (if s = [] then Some (Inl EmptyField)
      else if s = ''*'' then Some (Inr \<lparr>wildcard = True, vals = []\<rparr>)
      else (case parse_items s r (Split s (CHR '','')) [] of
              None \<Rightarrow> None
            | Some (Inl e) \<Rightarrow> Some (Inl e)
            | Some (Inr vs) \<Rightarrow> Some (Inr \<lparr>wildcard = False, vals = sort (remdups vs)\<rparr>)))"

definition then_field ::
  "(field_err + CronField) option \<Rightarrow> (field_err \<Rightarrow> cron_err)
     \<Rightarrow> (CronField \<Rightarrow> (cron_err + 'a) option) \<Rightarrow> (cron_err + 'a) option" where
  "then_field p wrap k =
     (case p of None \<Rightarrow> None | Some (Inl e) \<Rightarrow> Some (Inl (wrap e)) | Some (Inr f) \<Rightarrow> k f)"

definition ParseCron :: "string \<Rightarrow> (cron_err + CronExpr) option" where
  "ParseCron expr =
     (let parts = Fields (TrimSpace expr)
      in if length parts \<noteq> 5 then Some (Inl (ExpectedFiveFields (length parts) expr))
         else then_field (parseField (parts ! 0) rngMinute) InMinute (\<lambda>mi.
              then_field (parseField (parts ! 1) rngHour) InHour (\<lambda>hr.
              then_field (parseField (parts ! 2) rngDom) InDom (\<lambda>dom.
              then_field (parseField (parts ! 3) rngMon) InMonth (\<lambda>mon.
              then_field (parseField (parts ! 4) rngDow) InDow (\<lambda>dow.
                Some (Inr \<lparr>cMinute = mi, cHour = hr, cDom = dom, cMon = mon, cDow = dow,
                            craw = expr\<rparr>)))))))"

subsection \<open>Matching\<close>

text \<open>The scan stops at the first value that is larger.\<close>

fun scan_values :: "int list \<Rightarrow> int \<Rightarrow> bool" where
  "scan_values [] v = False"
| "scan_values (x # xs) v = (if x = v then True else if x > v then False else scan_values xs v)"

definition matches :: "CronField \<Rightarrow> int \<Rightarrow> bool" where
  "matches f v = (if wildcard f then True else scan_values (vals f) v)"

text \<open>The day fields: \<open>matchTime\<close> and \<open>NextAfter\<close> contain the same switch.\<close>

definition day_ok :: "CronExpr \<Rightarrow> location \<Rightarrow> time \<Rightarrow> bool" where
  "day_ok c loc t =
     (let domWild = wildcard (cDom c); dowWild = wildcard (cDow c);
          dom = matches (cDom c) (Day_of loc t); dow = matches (cDow c) (Weekday_of loc t)
      in if domWild \<and> dowWild then True
         else if domWild then dow
         else if dowWild then dom
         else dom \<or> dow)"

definition matchTime :: "CronExpr \<Rightarrow> location \<Rightarrow> time \<Rightarrow> bool" where
  "matchTime c loc t =
     (if \<not> matches (cMinute c) (Minute_of loc t) then False
      else if \<not> matches (cHour c) (Hour_of loc t) then False
      else if \<not> matches (cMon c) (Month_of loc t) then False
      else day_ok c loc t)"

subsection \<open>The next firing time\<close>

definition nextMonthStart :: "time \<Rightarrow> location \<Rightarrow> time" where
  "nextMonthStart t loc =
     (let y = Year_of loc t; m = Month_of loc t + 1
      in if m > 12 then Date (y + 1) 1 1 0 0 loc else Date y m 1 0 0 loc)"

definition nextDayStart :: "time \<Rightarrow> location \<Rightarrow> time" where
  "nextDayStart t loc =
     (let t2 = t + 24 * Hour
      in Date (Year_of loc t2) (Month_of loc t2) (Day_of loc t2) 0 0 loc)"

definition nextHourStart :: "time \<Rightarrow> location \<Rightarrow> time" where
  "nextHourStart t loc =
     (let t2 = t + Hour
      in Date (Year_of loc t2) (Month_of loc t2) (Day_of loc t2) (Hour_of loc t2) 0 loc)"

partial_function (option) next_loop ::
  "CronExpr \<Rightarrow> location \<Rightarrow> int \<Rightarrow> time \<Rightarrow> time option" where
  "next_loop c loc endYear t =
     (if Year_of loc t \<le> endYear then
        (if \<not> matches (cMon c) (Month_of loc t) then next_loop c loc endYear (nextMonthStart t loc)
         else if \<not> day_ok c loc t then next_loop c loc endYear (nextDayStart t loc)
         else if \<not> matches (cHour c) (Hour_of loc t)
              then next_loop c loc endYear (nextHourStart t loc)
         else if \<not> matches (cMinute c) (Minute_of loc t)
              then next_loop c loc endYear (t + Minute)
         else Some t)
      else Some 0)"

declare next_loop.simps [code]

definition NextAfter :: "CronExpr \<Rightarrow> time \<Rightarrow> location option \<Rightarrow> time option" where
  "NextAfter c t0 l =
     (let loc = loc_or_utc l;
          t = Truncate t0 Minute + Minute
      in next_loop c loc (Year_of loc t + 8) t)"

definition ShouldFireBetween ::
  "CronExpr \<Rightarrow> time \<Rightarrow> time \<Rightarrow> location option \<Rightarrow> bool option" where
  "ShouldFireBetween c prev0 now0 l =
     (let loc = loc_or_utc l; now = Truncate now0 Minute
      in if prev0 = 0 then Some (matchTime c loc now)
         else let prev = Truncate prev0 Minute
              in if \<not> now > prev then Some False
                 else (case NextAfter c prev (Some loc) of
                         None \<Rightarrow> None
                       | Some nxt \<Rightarrow> if nxt = 0 then Some False else Some (\<not> nxt > now)))"

subsection \<open>Specification\<close>

text \<open>What a list item admits: the values from \<open>lo\<close> to \<open>hi\<close> in steps of \<open>step\<close>.\<close>

definition item_admits :: "fieldRange \<Rightarrow> string \<Rightarrow> int \<Rightarrow> bool" where
  "item_admits r part v =
     (case parse_step part of
        Inl _ \<Rightarrow> False
      | Inr (body, step) \<Rightarrow>
          (case parse_body body r of
             Inl _ \<Rightarrow> False
           | Inr (lo, hi) \<Rightarrow> lo \<le> v \<and> v \<le> hi \<and> step dvd v - lo))"

definition range_ok :: "fieldRange \<Rightarrow> bool" where
  "range_ok r \<longleftrightarrow> 0 \<le> rmin r \<and> rmin r \<le> rmax r \<and> rmax r \<le> 59"

definition field_ok :: "fieldRange \<Rightarrow> CronField \<Rightarrow> bool" where
  "field_ok r f \<longleftrightarrow> sorted (vals f) \<and> distinct (vals f)
     \<and> list_all (\<lambda>v. rmin r \<le> v \<and> v \<le> rmax r) (vals f)"

definition cron_ok :: "CronExpr \<Rightarrow> bool" where
  "cron_ok c \<longleftrightarrow> field_ok rngMinute (cMinute c) \<and> field_ok rngHour (cHour c)
     \<and> field_ok rngDom (cDom c) \<and> field_ok rngMon (cMon c) \<and> field_ok rngDow (cDow c)"

text \<open>
  What \<open>NextAfter\<close> promises: the least whole minute from \<open>t\<close> on that matches, up to the end of
  \<open>endYear\<close>, and the zero time when there is none.
\<close>

definition least_match :: "CronExpr \<Rightarrow> location \<Rightarrow> int \<Rightarrow> time \<Rightarrow> time \<Rightarrow> bool" where
  "least_match c loc endYear t r \<longleftrightarrow>
     (if r = 0 then \<forall>u \<ge> t. u mod Minute = 0 \<longrightarrow> Year_of loc u \<le> endYear \<longrightarrow> \<not> matchTime c loc u
      else t \<le> r \<and> r mod Minute = 0 \<and> Year_of loc r \<le> endYear \<and> matchTime c loc r
        \<and> (\<forall>u. t \<le> u \<longrightarrow> u < r \<longrightarrow> u mod Minute = 0 \<longrightarrow> \<not> matchTime c loc u))"

text \<open>The jump one turn of the loop makes when the instant does not match.\<close>

definition jump :: "CronExpr \<Rightarrow> location \<Rightarrow> time \<Rightarrow> time" where
  "jump c loc t =
     (if \<not> matches (cMon c) (Month_of loc t) then nextMonthStart t loc
      else if \<not> day_ok c loc t then nextDayStart t loc
      else if \<not> matches (cHour c) (Hour_of loc t) then nextHourStart t loc
      else t + Minute)"

fun jumps :: "nat \<Rightarrow> CronExpr \<Rightarrow> location \<Rightarrow> int \<Rightarrow> time \<Rightarrow> time option" where
  "jumps 0 c loc endYear t = Some t"
| "jumps (Suc n) c loc endYear t =
     (if Year_of loc t \<le> endYear \<and> \<not> matchTime c loc t
      then jumps n c loc endYear (jump c loc t) else None)"

text \<open>US Eastern time around 2 November 2025, when the clocks go back at 06:00 UTC.\<close>

definition us_eastern :: location where
  "us_eastern = (\<lambda>s. if s < 63897660000 then - 14400 else - 18000)"

subsection \<open>The collecting loop\<close>

lemma collect_no_wrap:
  assumes "MinInt64 \<le> v" "hi + step \<le> MaxInt64" "0 < step"
  shows "\<exists>vs. collect v hi step acc = Some vs
    \<and> set vs = set acc \<union> {u. v \<le> u \<and> u \<le> hi \<and> step dvd u - v}"
  using assms(1)
proof (induction "nat (hi + 1 - v)" arbitrary: v acc rule: less_induct)
  case less
  show ?case
  proof (cases "v \<le> hi")
    case False
    then show ?thesis by (auto simp: collect.simps)
  next
    case True
    have w: "wrap64 (v + step) = v + step"
      using True less.prems assms by (intro wrap64_id) (simp add: in_int64_def MinInt64_def)
    obtain vs where vs: "collect (v + step) hi step (v # acc) = Some vs"
      "set vs = set (v # acc) \<union> {u. v + step \<le> u \<and> u \<le> hi \<and> step dvd u - (v + step)}"
      using less.hyps [of "v + step" "v # acc"] True less.prems assms by auto
    have dvd: "step dvd u - (v + step) \<longleftrightarrow> step dvd u - v" for u
      using dvd_add_left_iff [of step step "u - (v + step)"] by (simp add: algebra_simps)
    have next_in: "step dvd u - v \<Longrightarrow> v \<le> u \<Longrightarrow> u \<noteq> v \<Longrightarrow> v + step \<le> u" for u
      using zdvd_imp_le [of step "u - v"] by auto
    have "collect v hi step acc = Some vs"
      using True vs(1) by (subst collect.simps) (simp add: w)
    moreover have "set vs = set acc \<union> {u. v \<le> u \<and> u \<le> hi \<and> step dvd u - v}"
      unfolding vs(2) dvd using True next_in assms(3) by fastforce
    ultimately show ?thesis by blast
  qed
qed

text \<open>A step close to the largest \<open>int\<close> wraps around, but two wraps move the value down, so the loop
  still stops.\<close>

lemma collect_wrap_terminates:
  assumes "0 \<le> hi" "hi \<le> 100" "MaxInt64 - 100 < step" "step \<le> MaxInt64"
    and "- 300 \<le> v" "v \<le> 100"
  shows "\<exists>vs. collect v hi step acc = Some vs"
  using assms(5,6)
proof (induction "nat (v + 300)" arbitrary: v acc rule: less_induct)
  case less
  consider "hi < v" | "v \<le> hi" "v + step \<le> MaxInt64" | "v \<le> hi" "MaxInt64 < v + step" by linarith
  then show ?case
  proof cases
    case 1
    then show ?thesis by (simp add: collect.simps)
  next
    case 2
    then have "wrap64 (v + step) = v + step"
      using less.prems assms by (intro wrap64_id) (simp add: in_int64_def MinInt64_def MaxInt64_def)
    moreover have "hi < v + step" using less.prems assms by (simp add: MaxInt64_def)
    ultimately show ?thesis using 2 by (simp add: collect.simps)
  next
    case 3
    define u where "u = v + step - 18446744073709551616"
    define z where "z = u + step"
    have u: "wrap64 (v + step) = u"
      unfolding u_def using 3 less.prems assms by (intro wrap64_over) (simp_all add: MaxInt64_def)
    have z: "wrap64 (u + step) = z"
      unfolding u_def z_def using 3 less.prems assms
      by (intro wrap64_id) (simp add: in_int64_def MinInt64_def MaxInt64_def)
    have uhi: "u \<le> hi" using less.prems assms by (simp add: u_def MaxInt64_def)
    have zr: "z < v" "- 300 \<le> z" "z \<le> 100"
      using 3 less.prems assms by (auto simp: z_def u_def MaxInt64_def)
    obtain vs where "collect z hi step (u # v # acc) = Some vs"
      using less.hyps [of z "u # v # acc"] zr less.prems by auto
    then have "collect u hi step (v # acc) = Some vs"
      using uhi z by (subst collect.simps) simp
    then show ?thesis using 3 u by (subst collect.simps) auto
  qed
qed

lemma collect_terminates:
  assumes "0 \<le> lo" "0 \<le> hi" "lo \<le> 100" "hi \<le> 100" "0 < step" "step \<le> MaxInt64"
  shows "\<exists>vs. collect lo hi step acc = Some vs"
proof (cases "step \<le> MaxInt64 - 100")
  case True
  then show ?thesis
    using collect_no_wrap [of lo hi step acc] assms by (auto simp: MinInt64_def)
next
  case False
  then show ?thesis using collect_wrap_terminates [of hi step lo acc] assms by auto
qed

subsection \<open>The parser\<close>

lemma ranges_ok [simp]:
  "range_ok rngMinute" "range_ok rngHour" "range_ok rngDom" "range_ok rngMon" "range_ok rngDow"
  by (simp_all add: range_ok_def rngMinute_def rngHour_def rngDom_def rngMon_def rngDow_def)

lemma parse_step_bounds:
  assumes "parse_step part = Inr (body, step)"
  shows "0 < step" "step \<le> MaxInt64" "step \<le> 10 ^ length part"
proof -
  have "0 < step \<and> step \<le> MaxInt64 \<and> step \<le> 10 ^ length part"
  proof (cases "IndexByte part (CHR ''/'')")
    case None
    then show ?thesis using assms by (auto simp: parse_step_def MaxInt64_def)
  next
    case (Some i)
    then have n: "Atoi (drop (Suc i) part) = Some step" "0 < step"
      using assms by (auto simp: parse_step_def Let_def split: option.splits if_splits)
    have "(10::int) ^ length (drop (Suc i) part) \<le> 10 ^ length part"
      by (intro power_increasing) auto
    then have "step \<le> 10 ^ length part" using Atoi_short [OF n(1)] by linarith
    then show ?thesis using n Atoi_in_int64 [OF n(1)] by (auto simp: in_int64_def)
  qed
  then show "0 < step" "step \<le> MaxInt64" "step \<le> 10 ^ length part" by auto
qed

lemma parse_body_le: "range_ok r \<Longrightarrow> parse_body body r = Inr (lo, hi) \<Longrightarrow> lo \<le> hi"
  by (auto simp: parse_body_def range_ok_def Let_def split: if_splits option.splits)

lemma parse_items_total:
  "range_ok r \<Longrightarrow> \<exists>res. parse_items s r parts acc = Some res"
proof (induction s r parts acc rule: parse_items.induct)
  case (2 s r part parts acc)
  show ?case
  proof (cases "parse_step part")
    case (Inr bs)
    obtain body step where bs: "bs = (body, step)" by (cases bs)
    show ?thesis
    proof (cases "parse_body body r")
      case (Inr lh)
      obtain lo hi where lh: "lh = (lo, hi)" by (cases lh)
      note st = parse_step_bounds [OF \<open>parse_step part = Inr bs\<close> [unfolded bs]]
      show ?thesis
      proof (cases "part = [] \<or> lo < rmin r \<or> hi > rmax r")
        case False
        have "lo \<le> hi" using parse_body_le "2.prems" Inr lh by blast
        then obtain vs where "collect lo hi step acc = Some vs"
          using collect_terminates [of lo hi step acc] False "2.prems" st
          by (auto simp: range_ok_def)
        then show ?thesis
          using "2.IH" "2.prems" False \<open>parse_step part = Inr bs\<close> bs Inr lh by auto
      qed (use \<open>parse_step part = Inr bs\<close> bs Inr lh in auto)
    qed (use Inr bs in auto)
  qed auto
qed simp

lemma parse_items_values:
  assumes "range_ok r" "\<forall>p \<in> set parts. length p \<le> 18"
    and "parse_items s r parts acc = Some (Inr vs)"
  shows "set vs = set acc \<union> {v. \<exists>p \<in> set parts. item_admits r p v}
    \<and> (\<forall>p \<in> set parts. \<forall>v. item_admits r p v \<longrightarrow> rmin r \<le> v \<and> v \<le> rmax r)"
  using assms
proof (induction s r parts acc rule: parse_items.induct)
  case (2 s r part parts acc)
  obtain body step lo hi acc' where p: "part \<noteq> []" "parse_step part = Inr (body, step)"
    "parse_body body r = Inr (lo, hi)" "rmin r \<le> lo" "hi \<le> rmax r"
    "collect lo hi step acc = Some acc'" "parse_items s r parts acc' = Some (Inr vs)"
    using "2.prems"(3) by (auto split: if_splits sum.splits prod.splits option.splits)
  have "step \<le> 10 ^ 18"
    using parse_step_bounds(3) [OF p(2)] "2.prems"(2)
      power_increasing [of "length part" 18 "10::int"] by simp
  then have "hi + step \<le> MaxInt64" "MinInt64 \<le> lo"
    using p(4,5) "2.prems"(1) by (auto simp: range_ok_def MaxInt64_def MinInt64_def)
  then have "set acc' = set acc \<union> {u. lo \<le> u \<and> u \<le> hi \<and> step dvd u - lo}"
    using collect_no_wrap [of lo hi step acc] parse_step_bounds(1) [OF p(2)] p(6) by auto
  then have acc': "set acc' = set acc \<union> {v. item_admits r part v}"
    using p(2,3) by (auto simp: item_admits_def)
  have rng: "item_admits r part v \<Longrightarrow> rmin r \<le> v \<and> v \<le> rmax r" for v
    using p(2-5) by (auto simp: item_admits_def)
  show ?case
    using "2.IH" [OF p(1) p(2) refl p(3) refl _ p(6)] "2.prems"(1,2) p acc' rng by auto
qed simp

lemma scan_values_sorted: "sorted xs \<Longrightarrow> scan_values xs v \<longleftrightarrow> v \<in> set xs"
  by (induction xs v rule: scan_values.induct) auto

lemma parseField_total: "range_ok r \<Longrightarrow> \<exists>res. parseField s r = Some res"
  using parse_items_total [of r s "Split s (CHR '','')" "[]"]
  by (auto simp: parseField_def split: sum.splits)

lemma parseField_sorted:
  "parseField s r = Some (Inr f) \<Longrightarrow> sorted (vals f) \<and> distinct (vals f)"
  by (auto simp: parseField_def split: if_splits option.splits sum.splits)

lemma then_field_total:
  "\<exists>r. p = Some r \<Longrightarrow> (\<And>f. \<exists>r. k f = Some r) \<Longrightarrow> \<exists>r. then_field p w k = Some r"
  by (auto simp: then_field_def split: sum.splits)

subsection \<open>The skip-ahead loop in a steady location\<close>

lemma matchTime_iff:
  "matchTime c loc t \<longleftrightarrow> matches (cMon c) (Month_of loc t) \<and> day_ok c loc t
     \<and> matches (cHour c) (Hour_of loc t) \<and> matches (cMinute c) (Minute_of loc t)"
  by (auto simp: matchTime_def)

context steady_location
begin

lemma Year_le_iff: "Year_of loc t \<le> y \<longleftrightarrow> t < (days_before_year (y + 1) * 86400 - off) * Second"
proof -
  have "Year_of loc t \<le> y \<longleftrightarrow> wall_day loc t < days_before_year (y + 1)"
  proof
    assume "Year_of loc t \<le> y"
    then show "wall_day loc t < days_before_year (y + 1)"
      using civil_year_bounds(2) [of "wall_day loc t"]
        days_before_year_mono [of "Year_of loc t + 1" "y + 1"] by (simp add: Year_of_def)
  next
    assume "wall_day loc t < days_before_year (y + 1)"
    then show "Year_of loc t \<le> y"
      using civil_year_bounds(1) [of "wall_day loc t"]
        days_before_year_mono [of "y + 1" "Year_of loc t"] by (force simp: Year_of_def)
  qed
  also have "\<dots> \<longleftrightarrow> wall loc t < days_before_year (y + 1) * 86400"
    by (simp add: wall_day_def div_less_iff_int)
  finally show ?thesis by (simp add: before_iff_wall)
qed

lemma nextMonthStart_steady:
  "nextMonthStart t loc =
     ((case next_month (Year_of loc t) (Month_of loc t) of (y, m) \<Rightarrow> days_from_civil y m 1) * 86400
       - off) * Second"
  by (simp add: nextMonthStart_def next_month_def Date_steady Let_def)

lemma nextDayStart_steady:
  "nextDayStart t loc = ((wall_day loc t + 1) * 86400 - off) * Second"
proof -
  have "t + 24 * Hour = t + 86400 * Second" by (simp add: duration_units)
  then have "wall loc (t + 24 * Hour) = wall loc t + 86400" by (simp only: wall_add)
  then have "wall_day loc (t + 24 * Hour) = wall_day loc t + 1" by (simp add: wall_day_def)
  then show ?thesis
    by (simp add: nextDayStart_def Date_steady Let_def Year_of_def Month_of_def Day_of_def
        days_from_civil_of)
qed

lemma nextHourStart_steady:
  "nextHourStart t loc = ((wall loc t div 3600 + 1) * 3600 - off) * Second"
proof -
  have t2: "wall loc (t + Hour) = wall loc t + 3600"
    using wall_add [of t 3600] by (simp add: duration_units)
  have t2': "(wall loc t + 3600) div 3600 = wall loc t div 3600 + 1" by simp
  have h: "w div 86400 * 86400 + (w mod 86400 div 3600) * 3600 = w div 3600 * 3600" for w :: int
    by (subst hour_split [of w]) simp
  show ?thesis
    by (simp add: nextHourStart_def Date_steady Let_def Year_of_def Month_of_def Day_of_def
        Hour_of_def days_from_civil_of wall_day_def t2 h t2')
qed

text \<open>Each jump goes forward, to a whole minute, and stays in the month, day or hour it leaves.\<close>

lemma month_jump:
  assumes "t \<le> u" "u < nextMonthStart t loc"
  shows "Month_of loc u = Month_of loc t"
proof -
  have "wall_day loc t \<le> wall_day loc u"
    using wall_mono [OF assms(1)] by (simp add: wall_day_def zdiv_mono1)
  moreover have "wall_day loc u <
      (case next_month (Year_of loc t) (Month_of loc t) of (y, m) \<Rightarrow> days_from_civil y m 1)"
    using assms(2) unfolding nextMonthStart_steady before_iff_wall
    by (simp add: wall_day_def div_less_iff_int)
  ultimately show ?thesis
    using civil_until_next_month(2) [of "wall_day loc t" "wall_day loc u"]
    by (simp add: Month_of_def Year_of_def)
qed

lemma day_jump:
  assumes "t \<le> u" "u < nextDayStart t loc"
  shows "wall_day loc u = wall_day loc t"
proof -
  have "wall_day loc t \<le> wall_day loc u"
    using wall_mono [OF assms(1)] by (simp add: wall_day_def zdiv_mono1)
  moreover have "wall_day loc u < wall_day loc t + 1"
    using assms(2) unfolding nextDayStart_steady before_iff_wall
    by (simp add: wall_day_def div_less_iff_int)
  ultimately show ?thesis by simp
qed

lemma hour_jump:
  assumes "t \<le> u" "u < nextHourStart t loc"
  shows "Hour_of loc u = Hour_of loc t"
proof -
  have "wall loc t div 3600 \<le> wall loc u div 3600"
    using wall_mono [OF assms(1)] by (simp add: zdiv_mono1)
  moreover have "wall loc u div 3600 < wall loc t div 3600 + 1"
    using assms(2) unfolding nextHourStart_steady before_iff_wall by (simp add: div_less_iff_int)
  ultimately have "wall loc u div 3600 = wall loc t div 3600" by simp
  then show ?thesis by (simp add: Hour_of_def hour_of_wall)
qed

lemma jumps_forward: "t < nextMonthStart t loc" "t < nextDayStart t loc" "t < nextHourStart t loc"
proof -
  show "t < nextMonthStart t loc"
    unfolding nextMonthStart_steady before_iff_wall
    using before_next_month [of "wall_day loc t"]
    by (simp add: wall_day_def div_less_iff_int Year_of_def Month_of_def)
  show "t < nextDayStart t loc"
    unfolding nextDayStart_steady before_iff_wall
    using div_less_iff_int [of 86400 "wall loc t" "wall_day loc t + 1"] by (simp add: wall_day_def)
  show "t < nextHourStart t loc"
    unfolding nextHourStart_steady before_iff_wall
    using div_less_iff_int [of 3600 "wall loc t" "wall loc t div 3600 + 1"] by simp
qed

lemma jumps_on_minute:
  "nextMonthStart t loc mod Minute = 0" "nextDayStart t loc mod Minute = 0"
  "nextHourStart t loc mod Minute = 0"
  unfolding nextMonthStart_steady nextDayStart_steady nextHourStart_steady
  by (rule on_minute_of_wall, rule whole_minutes_mult)+

text \<open>
  One turn of the loop that does not return: it jumps forward to a whole minute, and no whole minute
  it jumps over matches.
\<close>

lemma skip_no_match:
  assumes "t mod Minute = 0" "u mod Minute = 0" "t \<le> u"
  shows "\<not> matches (cMon c) (Month_of loc t) \<Longrightarrow> u < nextMonthStart t loc \<Longrightarrow> \<not> matchTime c loc u"
    and "\<not> day_ok c loc t \<Longrightarrow> u < nextDayStart t loc \<Longrightarrow> \<not> matchTime c loc u"
    and "\<not> matches (cHour c) (Hour_of loc t) \<Longrightarrow> u < nextHourStart t loc \<Longrightarrow> \<not> matchTime c loc u"
    and "\<not> matches (cMinute c) (Minute_of loc t) \<Longrightarrow> u < t + Minute \<Longrightarrow> \<not> matchTime c loc u"
proof -
  show "\<not> matches (cMon c) (Month_of loc t) \<Longrightarrow> u < nextMonthStart t loc \<Longrightarrow> \<not> matchTime c loc u"
    using month_jump [OF assms(3)] by (simp add: matchTime_def)
  show "\<not> day_ok c loc t \<Longrightarrow> u < nextDayStart t loc \<Longrightarrow> \<not> matchTime c loc u"
    using day_jump [OF assms(3)]
    by (simp add: matchTime_def day_ok_def Day_of_def Weekday_of_def)
  show "\<not> matches (cHour c) (Hour_of loc t) \<Longrightarrow> u < nextHourStart t loc \<Longrightarrow> \<not> matchTime c loc u"
    using hour_jump [OF assms(3)] by (simp add: matchTime_def)
  assume m: "\<not> matches (cMinute c) (Minute_of loc t)" "u < t + Minute"
  have "(u - t) mod Minute = 0" using assms(1,2) by (metis diff_self mod_0 mod_diff_eq)
  then have "u = t" using m(2) assms(3) by (simp add: mod_pos_pos_trivial)
  then show "\<not> matchTime c loc u" using m(1) by (simp add: matchTime_def)
qed

lemma least_match_skip:
  assumes "least_match c loc endYear t' r" "t \<le> t'" "0 < t'"
    and "\<And>u. u mod Minute = 0 \<Longrightarrow> t \<le> u \<Longrightarrow> u < t' \<Longrightarrow> \<not> matchTime c loc u"
  shows "least_match c loc endYear t r"
  using assms unfolding least_match_def by (metis linorder_not_le order_trans)

lemma next_loop_least:
  assumes "t mod Minute = 0" "0 < t"
  shows "\<exists>r. next_loop c loc endYear t = Some r \<and> least_match c loc endYear t r"
  using assms
proof (induction "nat ((days_before_year (endYear + 1) * 86400 - off) * Second - t)"
    arbitrary: t rule: less_induct)
  case less
  define lim where "lim = (days_before_year (endYear + 1) * 86400 - off) * Second"
  have step: "\<exists>r. next_loop c loc endYear t = Some r \<and> least_match c loc endYear t r"
    if y: "Year_of loc t \<le> endYear" and n: "next_loop c loc endYear t = next_loop c loc endYear t'"
      and t': "t < t'" "t' mod Minute = 0"
      and skip: "\<And>u. u mod Minute = 0 \<Longrightarrow> t \<le> u \<Longrightarrow> u < t' \<Longrightarrow> \<not> matchTime c loc u" for t'
  proof -
    have "t < lim" using y by (simp add: Year_le_iff lim_def)
    then have "nat (lim - t') < nat (lim - t)" using t' by simp
    then obtain r where "next_loop c loc endYear t' = Some r" "least_match c loc endYear t' r"
      using less.hyps [of t'] less.prems t' by (auto simp: lim_def)
    then show ?thesis using least_match_skip [of c endYear t' r t] n t' skip less.prems by auto
  qed
  note skips = skip_no_match [OF less.prems(1)]
  show ?case
  proof (cases "Year_of loc t \<le> endYear")
    case False
    have "\<not> Year_of loc u \<le> endYear" if "t \<le> u" for u
      using False that by (simp add: Year_le_iff)
    then show ?thesis using False by (subst next_loop.simps) (simp add: least_match_def)
  next
    case y: True
    consider "\<not> matches (cMon c) (Month_of loc t)"
      | "matches (cMon c) (Month_of loc t)" "\<not> day_ok c loc t"
      | "matches (cMon c) (Month_of loc t)" "day_ok c loc t" "\<not> matches (cHour c) (Hour_of loc t)"
      | "matches (cMon c) (Month_of loc t)" "day_ok c loc t" "matches (cHour c) (Hour_of loc t)"
        "\<not> matches (cMinute c) (Minute_of loc t)"
      | "matchTime c loc t" unfolding matchTime_iff by blast
    then show ?thesis
    proof cases
      case 1
      show ?thesis by (rule step [OF y, of "nextMonthStart t loc"])
        (use 1 y jumps_forward jumps_on_minute skips(1) in \<open>simp_all add: next_loop.simps [of c loc endYear t]\<close>)
    next
      case 2
      show ?thesis by (rule step [OF y, of "nextDayStart t loc"])
        (use 2 y jumps_forward jumps_on_minute skips(2) in \<open>simp_all add: next_loop.simps [of c loc endYear t]\<close>)
    next
      case 3
      show ?thesis by (rule step [OF y, of "nextHourStart t loc"])
        (use 3 y jumps_forward jumps_on_minute skips(3) in \<open>simp_all add: next_loop.simps [of c loc endYear t]\<close>)
    next
      case 4
      show ?thesis by (rule step [OF y, of "t + Minute"])
        (use 4 y skips(4) less.prems in \<open>simp_all add: next_loop.simps [of c loc endYear t] Minute_def\<close>)
    next
      case 5
      then have "next_loop c loc endYear t = Some t"
        using y by (subst next_loop.simps) (simp add: matchTime_def split: if_splits)
      then show ?thesis using 5 y less.prems by (auto simp: least_match_def)
    qed
  qed
qed

end

subsection \<open>The skip-ahead loop where the clocks go back\<close>

lemma next_loop_jump:
  assumes "Year_of loc t \<le> endYear" "\<not> matchTime c loc t"
  shows "next_loop c loc endYear t = next_loop c loc endYear (jump c loc t)"
  using assms by (subst next_loop.simps) (auto simp: jump_def matchTime_iff)

lemma next_loop_jumps:
  "jumps n c loc endYear t = Some t' \<Longrightarrow> next_loop c loc endYear t = next_loop c loc endYear t'"
  by (induction n c loc endYear t rule: jumps.induct)
    (auto split: if_splits simp: next_loop_jump)

lemma next_loop_stuck:
  assumes "Year_of loc t0 \<le> endYear" "\<not> matchTime c loc t0" "jump c loc t0 = t0"
  shows "next_loop c loc endYear t0 = None"
proof (cases "next_loop c loc endYear t0")
  case (Some r)
  have "(c, loc, endYear, t0) \<noteq> (c, loc, endYear, t0)"
  proof (rule next_loop.raw_induct
      [where P = "\<lambda>c' loc' y t r. (c', loc', y, t) \<noteq> (c, loc, endYear, t0)", OF _ Some])
    fix f c' loc' y t r
    assume IH: "\<And>c' loc' y t r. f c' loc' y t = Some r \<Longrightarrow> (c', loc', y, t) \<noteq> (c, loc, endYear, t0)"
      and eq: "(if Year_of loc' t \<le> y then
          (if \<not> matches (cMon c') (Month_of loc' t) then f c' loc' y (nextMonthStart t loc')
           else if \<not> day_ok c' loc' t then f c' loc' y (nextDayStart t loc')
           else if \<not> matches (cHour c') (Hour_of loc' t) then f c' loc' y (nextHourStart t loc')
           else if \<not> matches (cMinute c') (Minute_of loc' t) then f c' loc' y (t + Minute)
           else Some t)
        else Some 0) = Some r"
    show "(c', loc', y, t) \<noteq> (c, loc, endYear, t0)"
    proof
      assume "(c', loc', y, t) = (c, loc, endYear, t0)"
      then have "f c loc endYear t0 = Some r"
        using eq assms by (auto simp: jump_def matchTime_iff split: if_splits)
      with IH show False by blast
    qed
  qed
  then show ?thesis by simp
qed simp

subsection \<open>Properties\<close>

definition nightly :: CronExpr where
  "nightly = \<lparr>cMinute = \<lparr>wildcard = False, vals = [59]\<rparr>, cHour = \<lparr>wildcard = False, vals = [23]\<rparr>,
     cDom = \<lparr>wildcard = True, vals = []\<rparr>, cMon = \<lparr>wildcard = True, vals = []\<rparr>,
     cDow = \<lparr>wildcard = True, vals = []\<rparr>, craw = ''59 23 * * *''\<rparr>"

lemma ParseCron_total: "\<exists>r. ParseCron s = Some r"
  unfolding ParseCron_def Let_def
  by (auto intro!: then_field_total parseField_total)

context steady_location
begin

lemma NextAfter_steady:
  assumes "0 < t"
  shows "\<exists>r. NextAfter c t (Some loc) = Some r
    \<and> least_match c loc (Year_of loc (Truncate t Minute + Minute) + 8) (Truncate t Minute + Minute) r"
proof -
  have "(Truncate t Minute + Minute) mod Minute = 0" by (simp add: Truncate_Minute(1) mod_add_right_eq)
  moreover have "0 < Truncate t Minute + Minute" using Truncate_Minute(3) [of t] assms by linarith
  ultimately show ?thesis
    using next_loop_least by (simp add: NextAfter_def loc_or_utc_def Let_def)
qed

lemma ShouldFireBetween_total:
  assumes "prev = 0 \<or> Minute \<le> prev"
  shows "\<exists>b. ShouldFireBetween c prev now (Some loc) = Some b"
proof (cases "prev = 0 \<or> \<not> Truncate now Minute > Truncate prev Minute")
  case False
  then have "Minute \<le> Truncate prev Minute" using assms Truncate_Minute(5) [of prev] by blast
  moreover have "0 < Minute" by (simp add: Minute_def)
  ultimately have "0 < Truncate prev Minute" by linarith
  then obtain r where "NextAfter c (Truncate prev Minute) (Some loc) = Some r" using NextAfter_steady by blast
  then show ?thesis by (auto simp: ShouldFireBetween_def loc_or_utc_def Let_def)
qed (auto simp: ShouldFireBetween_def loc_or_utc_def Let_def)

lemma Year_mono: "t \<le> u \<Longrightarrow> Year_of loc t \<le> Year_of loc u"
  using Year_le_iff [of u "Year_of loc u"] Year_le_iff [of t "Year_of loc u"] by simp

lemma ShouldFireBetween_steady:
  assumes "Minute \<le> prev" "Truncate prev Minute < Truncate now Minute"
    and "Year_of loc (Truncate now Minute) \<le> Year_of loc (Truncate prev Minute + Minute) + 8"
  shows "ShouldFireBetween c prev now (Some loc) =
    Some (\<exists>u. Truncate prev Minute < u \<and> u \<le> Truncate now Minute \<and> u mod Minute = 0
            \<and> matchTime c loc u)"
proof -
  define p n where "p = Truncate prev Minute" and "n = Truncate now Minute"
  have m: "0 < Minute" by (simp add: Minute_def)
  have p: "p mod Minute = 0" "0 < p" "Truncate p Minute = p"
    using Truncate_Minute(1,5) [of prev] assms(1) m Truncate_Minute(4) [of p] by (auto simp: p_def)
  obtain r where r: "NextAfter c p (Some loc) = Some r"
    "least_match c loc (Year_of loc (p + Minute) + 8) (p + Minute) r"
    using NextAfter_steady [OF p(2), of c] p(3) by auto
  have y: "Year_of loc u \<le> Year_of loc (p + Minute) + 8" if "u \<le> n" for u
    using Year_mono [OF that] assms(3) by (simp add: p_def n_def)
  have "(if r = 0 then False else \<not> n < r)
    \<longleftrightarrow> (\<exists>u. p < u \<and> u \<le> n \<and> u mod Minute = 0 \<and> matchTime c loc u)"
  proof (cases "r = 0")
    case True
    then show ?thesis using r(2) y minute_grid [OF _ p(1)] by (auto simp: least_match_def)
  next
    case False
    then have l: "p + Minute \<le> r" "r mod Minute = 0" "matchTime c loc r"
      "\<And>u. p + Minute \<le> u \<Longrightarrow> u < r \<Longrightarrow> u mod Minute = 0 \<Longrightarrow> \<not> matchTime c loc u"
      using r(2) by (auto simp: least_match_def)
    have "p < r" using l(1) m by linarith
    then show ?thesis
      using False l minute_grid [OF _ p(1)] by (metis linorder_not_less order_le_less_trans)
  qed
  then show ?thesis
    using assms r(1) m unfolding ShouldFireBetween_def p_def n_def
    by (auto simp: Let_def loc_or_utc_def)
qed

end

text \<open>
  C3. In a location with one offset, \<open>NextAfter\<close> returns for every expression and every instant
  after the zero time, and what it returns is the least matching whole minute after the
  instant's minute, up to the end of the eighth year after it, or the zero time when no minute matches.
\<close>

theorem NextAfter_least:
  assumes "\<forall>s. loc s = off" "off mod 60 = 0" "0 < t"
  shows "\<exists>r. NextAfter c t (Some loc) = Some r
    \<and> least_match c loc (Year_of loc (Truncate t Minute + Minute) + 8) (Truncate t Minute + Minute) r"
proof -
  have "steady_location loc off" by unfold_locales (use assms in auto)
  then show ?thesis using assms(3) by (rule steady_location.NextAfter_steady)
qed

theorem NextAfter_least_witness:
  "(\<forall>s. FixedZone 19800 s = 19800) \<and> (19800::int) mod 60 = 0
   \<and> (\<exists>r. NextAfter nightly (Date 2025 11 1 23 59 (FixedZone 19800)) (Some (FixedZone 19800)) = Some r
    \<and> least_match nightly (FixedZone 19800)
        (Year_of (FixedZone 19800) (Truncate (Date 2025 11 1 23 59 (FixedZone 19800)) Minute + Minute) + 8)
        (Truncate (Date 2025 11 1 23 59 (FixedZone 19800)) Minute + Minute) r)"
proof -
  have p: "0 < Date 2025 11 1 23 59 (FixedZone 19800)" by code_simp
  have z: "\<forall>s. FixedZone 19800 s = 19800" "(19800::int) mod 60 = 0" by (simp_all add: FixedZone_def)
  show ?thesis using z NextAfter_least [OF z p, of nightly] by blast
qed

text \<open>
  C38. Where the clocks go back the loop of \<open>NextAfter\<close> need not return: a nightly schedule for 23:59 in
  US Eastern time, last fired on 1 November 2025, is never evaluated again, because the jump from
  01:00 to the next hour comes back to the same instant. The comment of \<open>nextHourStart\<close> says that it
  avoids exactly such loops.
\<close>

theorem NextAfter_hangs_at_fall_back:
  "ParseCron ''59 23 * * *'' = Some (Inr nightly)
   \<and> ShouldFireBetween nightly (Date 2025 11 1 23 59 us_eastern) (Date 2025 11 2 0 0 us_eastern)
       (Some us_eastern) = None"
proof
  show "ParseCron ''59 23 * * *'' = Some (Inr nightly)" by code_simp
  define stuck where "stuck = Date 2025 11 2 1 0 us_eastern"
  have p: "Date 2025 11 1 23 59 us_eastern \<noteq> 0"
    "Truncate (Date 2025 11 2 0 0 us_eastern) Minute > Truncate (Date 2025 11 1 23 59 us_eastern) Minute"
    by code_simp+
  have t: "Truncate (Truncate (Date 2025 11 1 23 59 us_eastern) Minute) Minute + Minute
      = Date 2025 11 2 0 0 us_eastern" by code_simp
  have y: "Year_of us_eastern (Date 2025 11 2 0 0 us_eastern) + 8 = 2033" by code_simp
  have "jumps 1 nightly us_eastern 2033 (Date 2025 11 2 0 0 us_eastern) = Some stuck"
    unfolding stuck_def by code_simp
  then have "next_loop nightly us_eastern 2033 (Date 2025 11 2 0 0 us_eastern)
      = next_loop nightly us_eastern 2033 stuck" by (rule next_loop_jumps)
  also have "\<dots> = None"
    unfolding stuck_def by (rule next_loop_stuck; code_simp)
  finally have "NextAfter nightly (Truncate (Date 2025 11 1 23 59 us_eastern) Minute) (Some us_eastern) = None"
    by (simp add: NextAfter_def Let_def loc_or_utc_def t y)
  then show "ShouldFireBetween nightly (Date 2025 11 1 23 59 us_eastern) (Date 2025 11 2 0 0 us_eastern)
       (Some us_eastern) = None"
    using p by (simp add: ShouldFireBetween_def Let_def loc_or_utc_def)
qed

text \<open>\<open>ParseCron\<close> returns, an expression or an error, for every string.\<close>

theorem ParseCron_returns: "\<exists>r. ParseCron s = Some r"
  by (rule ParseCron_total)

text \<open>
  A parsed field matches exactly the values its comma-separated items admit, all of them in the
  field's range, for a field of at most 18 bytes (longer ones can hold a step that overflows); its values
  are sorted and distinct, which the early exit of \<open>matches\<close> relies on.
\<close>

theorem parseField_meaning:
  assumes "range_ok r" "length s \<le> 18" "s \<noteq> ''*''" "parseField s r = Some (Inr f)"
  shows "field_ok r f
    \<and> (\<forall>v. matches f v \<longleftrightarrow> (\<exists>p \<in> set (Split s (CHR '','')). item_admits r p v))"
proof -
  obtain vs where vs: "parse_items s r (Split s (CHR '','')) [] = Some (Inr vs)"
    "f = \<lparr>wildcard = False, vals = sort (remdups vs)\<rparr>"
    using assms(3,4) by (auto simp: parseField_def split: if_splits option.splits sum.splits)
  have "\<forall>p \<in> set (Split s (CHR '','')). length p \<le> 18"
    using Split_length_le assms(2) le_trans by blast
  from parse_items_values [OF assms(1) this vs(1)] show ?thesis
    unfolding vs(2) field_ok_def matches_def by (auto simp: scan_values_sorted list_all_iff)
qed

theorem parseField_meaning_witness:
  "\<exists>f. parseField ''1-10/3,40'' rngMinute = Some (Inr f) \<and> field_ok rngMinute f
     \<and> (\<forall>v. matches f v \<longleftrightarrow> (\<exists>p \<in> set (Split ''1-10/3,40'' (CHR '','')). item_admits rngMinute p v))"
proof -
  have "parseField ''1-10/3,40'' rngMinute
      = Some (Inr \<lparr>wildcard = False, vals = [1, 4, 7, 10, 40]\<rparr>)" by code_simp
  then show ?thesis
    using parseField_meaning [of rngMinute "''1-10/3,40''" "\<lparr>wildcard = False, vals = [1, 4, 7, 10, 40]\<rparr>"]
    by simp
qed

text \<open>
  A step near the largest \<open>int\<close> overflows in the collecting loop: the minute field \<open>5/9223372036854775807\<close>
  is accepted and matches the minutes 1 and 3 as well as 5, and it holds values outside the range 0 to 59.
\<close>

theorem parseField_step_overflow:
  "\<exists>f. parseField ''5/9223372036854775807'' rngMinute = Some (Inr f)
     \<and> matches f 1 \<and> matches f 3 \<and> matches f 5 \<and> \<not> field_ok rngMinute f"
proof -
  have "parseField ''5/9223372036854775807'' rngMinute
      = Some (Inr \<lparr>wildcard = False, vals =
          [- 9223372036854775808, - 9223372036854775806, - 9223372036854775804, - 1, 1, 3, 5]\<rparr>)"
    by code_simp
  then show ?thesis by (auto simp: matches_def field_ok_def rngMinute_def)
qed

text \<open>
  In a location with one offset, \<open>ShouldFireBetween\<close> decides whether some whole minute after the
  previous firing's minute and up to the present one matches, when the two are less than eight
  calendar years apart; on the first evaluation it decides whether the present minute matches.
\<close>

theorem ShouldFireBetween_correct:
  assumes "\<forall>s. loc s = off" "off mod 60 = 0" "prev = 0 \<or> Minute \<le> prev"
    and "Year_of loc (Truncate now Minute) \<le> Year_of loc (Truncate prev Minute + Minute) + 8"
  shows "ShouldFireBetween c prev now (Some loc) =
    Some (if prev = 0 then matchTime c loc (Truncate now Minute)
          else \<exists>u. Truncate prev Minute < u \<and> u \<le> Truncate now Minute \<and> u mod Minute = 0
            \<and> matchTime c loc u)"
proof (cases "prev = 0 \<or> \<not> Truncate now Minute > Truncate prev Minute")
  case True
  then show ?thesis by (auto simp: ShouldFireBetween_def loc_or_utc_def Let_def)
next
  case False
  have "steady_location loc off" by unfold_locales (use assms in auto)
  then show ?thesis using steady_location.ShouldFireBetween_steady [of loc off prev now c] False assms by auto
qed

theorem ShouldFireBetween_correct_witness:
  "(Minute \<le> Date 2025 11 1 23 59 UTC)
   \<and> ShouldFireBetween nightly (Date 2025 11 1 23 59 UTC) (Date 2025 11 3 8 30 UTC) (Some UTC) =
    Some (\<exists>u. Truncate (Date 2025 11 1 23 59 UTC) Minute < u
            \<and> u \<le> Truncate (Date 2025 11 3 8 30 UTC) Minute \<and> u mod Minute = 0
            \<and> matchTime nightly UTC u)"
proof -
  have z: "\<forall>s. UTC s = 0" "(0::int) mod 60 = 0" by (simp_all add: UTC_def)
  have m: "Minute \<le> Date 2025 11 1 23 59 UTC" by code_simp
  have n: "Date 2025 11 1 23 59 UTC \<noteq> 0" by code_simp
  have y: "Year_of UTC (Truncate (Date 2025 11 3 8 30 UTC) Minute)
      \<le> Year_of UTC (Truncate (Date 2025 11 1 23 59 UTC) Minute + Minute) + 8" by code_simp
  show ?thesis using m n ShouldFireBetween_correct [OF z disjI2 [OF m] y, of nightly] by simp
qed

end
