(* ===== verification/Retention.thy ===== *)
theory Retention
  imports GoTime
begin

text \<open>
  \<^verbatim>\<open>internal/host/scheduler/retention.go\<close>: the names of scheduled snapshots, and which of them a
  retention policy keeps.

  A snapshot's name carries its time, \<open><prefix>-YYYY-MM-DD-HHMM\<close>; a policy keeps, for each of five
  calendar classes, the earliest snapshot of each of the most recent buckets. Bucket keys are
  the strings the code builds; that they are convex in time is proved for each of the five.
\<close>

subsection \<open>Data\<close>

record RetentionPolicy =
  Hourly :: int
  Daily :: int
  Weekly :: int
  Monthly :: int
  Yearly :: int

record SnapInfo =
  siName :: string
  siTime :: time

subsection \<open>Snapshot names\<close>

text \<open>The parts of a date as package \<open>time\<close> formats them.\<close>

definition fmt_day :: "location \<Rightarrow> time \<Rightarrow> string" where
  "fmt_day loc t =
     appendInt (Year_of loc t) 4 @ ''-'' @ appendInt (Month_of loc t) 2 @ ''-'' @ appendInt (Day_of loc t) 2"

definition fmt_snap :: "location \<Rightarrow> time \<Rightarrow> string" where
  "fmt_snap loc t =
     fmt_day loc t @ ''-'' @ appendInt (Hour_of loc t) 2 @ appendInt (Minute_of loc t) 2"

text \<open>\<open>getnum\<close> of package \<open>time\<close>: two digits, or one when the field is not fixed.\<close>

definition getnum :: "string \<Rightarrow> bool \<Rightarrow> (int \<times> string) option" where
  "getnum s fixed =
     (case s of
        [] \<Rightarrow> None
      | a # r \<Rightarrow>
          if \<not> is_digit a then None
          else (case r of
                  b # r' \<Rightarrow>
                    if is_digit b then Some (digit_val a * 10 + digit_val b, r')
                    else if fixed then None else Some (digit_val a, r)
                | [] \<Rightarrow> if fixed then None else Some (digit_val a, r)))"

definition skip_dash :: "string \<Rightarrow> string option" where
  "skip_dash s = (case s of c # r \<Rightarrow> if c = CHR ''-'' then Some r else None | [] \<Rightarrow> None)"

text \<open>\<open>time.ParseInLocation\<close> with the layout \<open>2006-01-02-1504\<close>.\<close>

definition parse_snap :: "string \<Rightarrow> location \<Rightarrow> time option" where
  "parse_snap s loc =
     (if length s < 4 \<or> \<not> list_all is_digit (take 4 s) then None
      else let y = digits_val (take 4 s) in
        Option.bind (skip_dash (drop 4 s)) (\<lambda>s.
        Option.bind (getnum s True) (\<lambda>(m, s).
        if m \<le> 0 \<or> 12 < m then None
        else Option.bind (skip_dash s) (\<lambda>s.
        Option.bind (getnum s True) (\<lambda>(d, s).
        Option.bind (skip_dash s) (\<lambda>s.
        Option.bind (getnum s False) (\<lambda>(h, s).
        if h < 0 \<or> 24 \<le> h then None
        else Option.bind (getnum s True) (\<lambda>(mi, s).
        if mi < 0 \<or> 60 \<le> mi then None
        else if s \<noteq> [] then None
        else if d < 1 \<or> days_in_month y m < d then None
        else Some (Date y m d h mi loc)))))))))"

definition ParsedSnapTime :: "string \<Rightarrow> string \<Rightarrow> location option \<Rightarrow> time option" where
  "ParsedSnapTime short prefix l =
     (let loc = loc_or_utc l; wantPrefix = prefix @ ''-''
      in if \<not> HasPrefix short wantPrefix then None
         else parse_snap (drop (length wantPrefix) short) loc)"

definition FormatSnapTime :: "string \<Rightarrow> location \<Rightarrow> time \<Rightarrow> string" where
  "FormatSnapTime prefix loc t = prefix @ ''-'' @ fmt_snap loc t"

subsection \<open>Bucket keys\<close>

text \<open>\<open>for n > 0 { i--; buf[i] = '0' + n%10; n /= 10 }\<close>: the buffer is filled from its end.\<close>

function itoa_loop :: "int \<Rightarrow> string \<Rightarrow> string" where
  "itoa_loop n buf =
     (if n > 0 then itoa_loop (n div 10) (digit_char (n mod 10) # buf) else buf)"
  by pat_completeness auto
termination
  by (relation "measure (\<lambda>(n, buf). nat n)") auto

declare itoa_loop.simps [simp del]

definition formatInt :: "int \<Rightarrow> string" where
  "formatInt n =
     (if n = 0 then ''0''
      else let neg = n < 0;
               m = (if neg then wrap64 (- n) else n);
               buf = itoa_loop m []
           in if neg then CHR ''-'' # buf else buf)"

definition itoa :: "int \<Rightarrow> string" where
  "itoa n = formatInt n"

definition formatWeek :: "int \<Rightarrow> int \<Rightarrow> string" where
  "formatWeek y w =
     (let ws = replicate (2 - length (itoa w)) (CHR ''0'') @ itoa w
      in itoa y @ ''-W'' @ ws)"

type_synonym keyFn = "time \<Rightarrow> string"

definition hourKey :: keyFn where
  "hourKey t = fmt_day UTC t @ ''-'' @ appendInt (Hour_of UTC t) 2"

definition dayKey :: keyFn where
  "dayKey t = fmt_day UTC t"

definition monthKey :: keyFn where
  "monthKey t = appendInt (Year_of UTC t) 4 @ ''-'' @ appendInt (Month_of UTC t) 2"

definition yearKey :: keyFn where
  "yearKey t = appendInt (Year_of UTC t) 4"

definition weekKey :: keyFn where
  "weekKey t = (case ISOWeek UTC t of (y, w) \<Rightarrow> formatWeek y w)"

subsection \<open>Keeping\<close>

fun bucket_loop :: "keyFn \<Rightarrow> SnapInfo list \<Rightarrow> string set \<Rightarrow> SnapInfo list" where
  "bucket_loop k [] seen = []"
| "bucket_loop k (s # ss) seen =
     (let key = k (siTime s)
      in if key \<in> seen then bucket_loop k ss seen
         else s # bucket_loop k ss (insert key seen))"

definition bucketEarliest :: "SnapInfo list \<Rightarrow> keyFn \<Rightarrow> SnapInfo list" where
  "bucketEarliest sortedAsc k = bucket_loop k sortedAsc {}"

definition keepN :: "SnapInfo list \<Rightarrow> int \<Rightarrow> string set \<Rightarrow> string set" where
  "keepN b n keep =
     (if n \<le> 0 \<or> b = [] then keep
      else let start = int (length b) - n;
               start = (if start < 0 then 0 else start)
           in keep \<union> set (map siName (drop (nat start) b)))"

definition classifyKeep :: "SnapInfo list \<Rightarrow> RetentionPolicy \<Rightarrow> string set" where
  "classifyKeep snaps p =
     (if snaps = [] then {}
      else let srt = sort_key siTime snaps;
               hourly = bucketEarliest srt hourKey;
               daily = bucketEarliest srt dayKey;
               weekly = bucketEarliest srt weekKey;
               monthly = bucketEarliest srt monthKey;
               yearly = bucketEarliest srt yearKey
           in keepN yearly (Yearly p) (keepN monthly (Monthly p) (keepN weekly (Weekly p)
                (keepN daily (Daily p) (keepN hourly (Hourly p) {})))))"

definition PartitionRetention :: "SnapInfo list \<Rightarrow> RetentionPolicy \<Rightarrow> SnapInfo list \<times> SnapInfo list" where
  "PartitionRetention snaps p =
     (let keepSet = classifyKeep snaps p
      in (filter (\<lambda>s. siName s \<in> keepSet) snaps, filter (\<lambda>s. siName s \<notin> keepSet) snaps))"

subsection \<open>Names round-trip\<close>

lemma getnum_appendInt:
  assumes "0 \<le> x" "x < 100"
  shows "getnum (appendInt x 2 @ r) f = Some (x, r)"
proof -
  have l: "length (appendInt x 2) = 2" using appendInt_digits(4) [OF assms(1), of 2] assms(2) by simp
  then obtain a b where ab: "appendInt x 2 = [a, b]" by (auto simp: length_Suc_conv numeral_2_eq_2)
  have "is_digit a" "is_digit b" "digit_val a * 10 + digit_val b = x"
    using appendInt_digits(1,2) [OF assms(1), of 2] unfolding ab by (auto simp: digits_val_def)
  then show ?thesis by (simp add: ab getnum_def)
qed

lemma skip_dash_append: "skip_dash (''-'' @ r) = Some r"
  by (simp add: skip_dash_def)

lemma month_day_ranges:
  "1 \<le> Month_of loc t" "Month_of loc t \<le> 12" "1 \<le> Day_of loc t"
  "Day_of loc t \<le> days_in_month (Year_of loc t) (Month_of loc t)" "Day_of loc t < 100"
proof -
  show "1 \<le> Month_of loc t" "Month_of loc t \<le> 12" "1 \<le> Day_of loc t"
    "Day_of loc t \<le> days_in_month (Year_of loc t) (Month_of loc t)"
    by (simp_all add: Month_of_def civil_month_range Day_of_def civil_day_ge_1 Year_of_def civil_day_le_month)
  have "days_in_month y m < 100" for y m by (simp add: days_in_month_def days_before_month_def)
  then show "Day_of loc t < 100"
    using civil_day_le_month [of "wall_day loc t"] by (simp add: Day_of_def order_le_less_trans)
qed

lemma clock_ranges:
  "0 \<le> Hour_of loc t" "Hour_of loc t < 24" "0 \<le> Minute_of loc t" "Minute_of loc t < 60"
  by (simp_all add: Hour_of_def Minute_of_def pos_imp_zdiv_nonneg_iff div_less_iff_int)

lemma parse_snap_fmt:
  assumes "0 \<le> Year_of loc t" "Year_of loc t \<le> 9999"
  shows "parse_snap (fmt_snap loc t) l
    = Some (Date (Year_of loc t) (Month_of loc t) (Day_of loc t) (Hour_of loc t) (Minute_of loc t) l)"
proof -
  have y: "length (appendInt (Year_of loc t) 4) = 4" "list_all is_digit (appendInt (Year_of loc t) 4)"
    "digits_val (appendInt (Year_of loc t) 4) = Year_of loc t"
    using appendInt_digits [OF assms(1), of 4] assms(2) by simp_all
  note r = month_day_ranges [of loc t] clock_ranges [of loc t]
  have g: "getnum (appendInt (Month_of loc t) 2 @ s) f = Some (Month_of loc t, s)"
    "getnum (appendInt (Day_of loc t) 2 @ s) f = Some (Day_of loc t, s)"
    "getnum (appendInt (Hour_of loc t) 2 @ s) f = Some (Hour_of loc t, s)"
    "getnum (appendInt (Minute_of loc t) 2 @ s) f = Some (Minute_of loc t, s)" for s f
    using r by (simp_all add: getnum_appendInt)
  show ?thesis
    unfolding parse_snap_def fmt_snap_def fmt_day_def
    using y r g(4) [of "[]" True]
    by (simp add: g skip_dash_def Let_def)
qed

context steady_location
begin

lemma Date_of_parts:
  "Date (Year_of loc t) (Month_of loc t) (Day_of loc t) (Hour_of loc t) (Minute_of loc t) loc
     = Truncate t Minute"
proof -
  define q where "q = t div Second"
  obtain k where k: "off = k * 60"
    using whole_minutes by (metis mod_eq_0_iff_dvd dvdE mult.commute)
  have w: "wall loc t = q + off" by (simp add: wall_steady q_def)
  have "(q + off) div 60 = q div 60 + k" by (simp add: k)
  then have "(q + off) div 86400 * 86400 + (q + off) mod 86400 div 3600 * 3600
      + (q + off) mod 3600 div 60 * 60 - off = q div 60 * 60"
    using minute_split [of "q + off"] hour_split [of "q + off"] k by linarith
  moreover have "Truncate t Minute = q div 60 * 60 * Second"
  proof -
    have "t div Minute = q div 60"
      by (simp add: q_def Minute_def zdiv_zmult2_eq mult.commute)
    moreover have "0 < Minute" by (simp add: Minute_def)
    ultimately show ?thesis by (simp add: Truncate_def minus_mod_eq_div_mult) (simp add: Minute_def)
  qed
  moreover have "Date (Year_of loc t) (Month_of loc t) (Day_of loc t) (Hour_of loc t) (Minute_of loc t) loc
      = ((q + off) div 86400 * 86400 + (q + off) mod 86400 div 3600 * 3600
         + (q + off) mod 3600 div 60 * 60 - off) * Second"
    by (simp only: Date_steady Year_of_def Month_of_def Day_of_def Hour_of_def Minute_of_def wall_day_def
        days_from_civil_of w)
  ultimately show ?thesis by (simp only:)
qed

end

subsection \<open>Bucket keys number the calendar's intervals\<close>

text \<open>The seconds of a Go time are a 64-bit integer.\<close>

definition go_time :: "time \<Rightarrow> bool" where
  "go_time t \<longleftrightarrow> in_int64 (t div Second)"

lemma itoa_loop_dec: "0 < n \<Longrightarrow> itoa_loop n buf = dec (nat n) @ buf"
proof (induction n buf rule: itoa_loop.induct)
  case (1 n buf)
  show ?case
  proof (cases "n < 10")
    case True
    then have "n div 10 = 0" "n mod 10 = n" "nat n < 10" using 1(2) by simp_all
    then show ?thesis using True 1(2)
      by (simp add: itoa_loop.simps [of n] itoa_loop.simps [of 0] dec.simps [of "nat n"])
  next
    case False
    then have q: "0 < n div 10" by (simp add: pos_imp_zdiv_pos_iff)
    have d: "nat (n div 10) = nat n div 10" "n mod 10 = int (nat n mod 10)" and n: "\<not> nat n < 10"
      using False by (simp_all add: nat_div_distrib zmod_int)
    have "itoa_loop n buf = dec (nat (n div 10)) @ digit_char (n mod 10) # buf"
      using 1(1) [OF 1(2) q] 1(2) by (subst itoa_loop.simps) simp
    also have "\<dots> = dec (nat n) @ buf"
      using n unfolding d by (subst (2) dec.simps) simp
    finally show ?thesis .
  qed
qed

lemma formatInt_appendInt:
  assumes "\<bar>n\<bar> \<le> MaxInt64"
  shows "formatInt n = appendInt n 0"
proof -
  have "wrap64 (- n) = - n" using assms by (intro wrap64_id) (auto simp: in_int64_def MaxInt64_def MinInt64_def abs_le_iff)
  moreover have "dec 0 = ''0''" by code_simp
  ultimately show ?thesis
    by (auto simp: formatInt_def appendInt_def Let_def itoa_loop_dec)
qed

lemma formatWeek_appendInt:
  assumes "\<bar>y\<bar> \<le> MaxInt64" "0 \<le> w" "w < 100"
  shows "formatWeek y w = appendInt y 0 @ ''-W'' @ appendInt w 2" "length (itoa w) \<le> 2"
proof -
  have w: "itoa w = dec (nat w)"
    using assms(2,3) formatInt_appendInt [of w] by (simp add: itoa_def MaxInt64_def appendInt_def)
  then show "formatWeek y w = appendInt y 0 @ ''-W'' @ appendInt w 2"
    using assms formatInt_appendInt [of y] by (simp add: formatWeek_def appendInt_def itoa_def Let_def)
  show "length (itoa w) \<le> 2" unfolding w using assms(3) by (intro dec_length_le) simp_all
qed

lemma appendInt_2:
  "0 \<le> x \<Longrightarrow> x < 100 \<Longrightarrow> length (appendInt x 2) = 2"
  using appendInt_digits(4) [of x 2] by simp

lemma fixed_tail_eq:
  "length c = length d \<Longrightarrow> a @ s @ c = b @ s @ d \<longleftrightarrow> a = b \<and> c = d"
  using append_eq_append_conv [of "a @ s" "b @ s" c d] by simp

lemma appendInt_eq_iff: "appendInt x w = appendInt y w \<longleftrightarrow> x = y"
  using appendInt_inj by blast

lemma month_key_eq:
  "appendInt (Year_of l t) 4 @ ''-'' @ appendInt (Month_of l t) 2
     = appendInt (Year_of l u) 4 @ ''-'' @ appendInt (Month_of l u) 2
   \<longleftrightarrow> Year_of l t = Year_of l u \<and> Month_of l t = Month_of l u"
  using fixed_tail_eq [of "appendInt (Month_of l t) 2" "appendInt (Month_of l u) 2"]
    month_day_ranges(1,2) [of l t] month_day_ranges(1,2) [of l u]
  by (simp add: appendInt_2 appendInt_eq_iff)

lemma fmt_day_eq: "fmt_day l t = fmt_day l u \<longleftrightarrow> wall_day l t = wall_day l u"
proof -
  have "fmt_day l t = fmt_day l u \<longleftrightarrow>
      Year_of l t = Year_of l u \<and> Month_of l t = Month_of l u \<and> Day_of l t = Day_of l u"
    using fixed_tail_eq [of "appendInt (Day_of l t) 2" "appendInt (Day_of l u) 2"
        "appendInt (Year_of l t) 4 @ ''-'' @ appendInt (Month_of l t) 2" "''-''"
        "appendInt (Year_of l u) 4 @ ''-'' @ appendInt (Month_of l u) 2"]
      month_day_ranges(3,5) [of l t] month_day_ranges(3,5) [of l u] month_key_eq [of l t u]
    by (simp add: fmt_day_def appendInt_2 appendInt_eq_iff)
  also have "\<dots> \<longleftrightarrow> wall_day l t = wall_day l u"
    unfolding Year_of_def Month_of_def Day_of_def by (metis days_from_civil_of)
  finally show ?thesis .
qed

lemma civil_months_mono:
  assumes "m \<le> n"
  shows "12 * civil_year m + civil_month m \<le> 12 * civil_year n + civil_month n"
proof (cases "civil_year m = civil_year n")
  case False
  then have "civil_year m + 1 \<le> civil_year n" using civil_year_mono [OF assms] by simp
  then show ?thesis using civil_month_range [of m] civil_month_range [of n] by linarith
next
  case True
  have step: "(if d < c then x else y) \<le> (if e < c then x else z)" if "d \<le> e" "x \<le> z" "y \<le> z"
    for c d e x y z :: int using that by simp
  have "month_of_yday l d \<le> month_of_yday l e" if "d \<le> e" for l d e
    unfolding month_of_yday_def by (intro step that order_refl) simp_all
  then show ?thesis using True assms by (simp add: civil_month_def year_day_def)
qed

lemma iso_thursday_form: "iso_thursday n = 7 * (n div 7) + 3"
proof -
  have "n - n mod 7 = 7 * (n div 7)" by (simp add: minus_mod_eq_mult_div)
  moreover have "(n + 1) mod 7 = (n mod 7 + 1) mod 7" by (simp add: mod_add_left_eq)
  then have "(n + 1) mod 7 = (if n mod 7 = 6 then 0 else n mod 7 + 1)"
    using pos_mod_bound [of 7 n] pos_mod_sign [of 7 n] by (auto intro: mod_pos_pos_trivial)
  moreover have "n mod 7 + 1 \<noteq> 0" using pos_mod_sign [of 7 n] by linarith
  ultimately show ?thesis unfolding iso_thursday_def week_day_def Let_def by (simp split: if_splits)
qed

lemma iso_week_range: "1 \<le> year_day n div 7 + 1" "year_day n div 7 + 1 \<le> 53"
proof -
  have "0 \<le> year_day n" "year_day n < 366"
    using year_day_bounds [of n] by (auto split: if_splits)
  then show "1 \<le> year_day n div 7 + 1" "year_day n div 7 + 1 \<le> 53" by auto
qed

lemma iso_week_eq:
  "civil_year (iso_thursday m) = civil_year (iso_thursday n)
     \<and> year_day (iso_thursday m) div 7 = year_day (iso_thursday n) div 7
   \<longleftrightarrow> m div 7 = n div 7"
proof
  assume e: "civil_year (iso_thursday m) = civil_year (iso_thursday n)
     \<and> year_day (iso_thursday m) div 7 = year_day (iso_thursday n) div 7"
  define c where "c = days_before_year (civil_year (iso_thursday n))"
  have "(iso_thursday m - c) div 7 = (iso_thursday n - c) div 7"
    using conjunct1 [OF e] conjunct2 [OF e] unfolding year_day_def c_def by simp
  then have "(7 * (m div 7) + 3 - c) div 7 = (7 * (n div 7) + 3 - c) div 7"
    by (simp only: iso_thursday_form)
  moreover have "(7 * x + 3 - c) div 7 = x + (3 - c) div 7" for x
    using div_mult_self2 [of 7 "3 - c" x] by (simp add: algebra_simps)
  ultimately show "m div 7 = n div 7" by simp
qed (simp add: iso_thursday_form)

lemma civil_year_int64:
  assumes "\<bar>n\<bar> \<le> 1000000000000000"
  shows "\<bar>civil_year n\<bar> \<le> MaxInt64"
proof -
  have "146097 * (civil_year n - 1) - 799 \<le> 400 * n"
    using days_before_year_bounds(1) [of "civil_year n"] civil_year_bounds(1) [of n] by linarith
  moreover have "400 * n \<le> 146097 * civil_year n + 399"
    using days_before_year_bounds(2) [of "civil_year n + 1"] civil_year_bounds(2) [of n] by simp
  moreover have "- 1000000000000000 \<le> n" "n \<le> 1000000000000000" using assms by simp_all
  ultimately have "- 9223372036854775807 \<le> civil_year n" "civil_year n \<le> 9223372036854775807"
    by simp_all
  then show ?thesis unfolding MaxInt64_def abs_le_iff by simp
qed

lemma weekKey_form:
  assumes "go_time t"
  shows "weekKey t = appendInt (civil_year (iso_thursday (wall_day UTC t))) 0 @ ''-W''
    @ appendInt (year_day (iso_thursday (wall_day UTC t)) div 7 + 1) 2"
proof -
  define d where "d = wall_day UTC t"
  have "d = t div Second div 86400" by (simp add: d_def wall_day_def utc.wall_steady)
  moreover have "MinInt64 \<le> t div Second" "t div Second \<le> MaxInt64"
    using assms by (simp_all add: go_time_def in_int64_def)
  ultimately have "- 900000000000000 \<le> d" "d \<le> 900000000000000" by (auto simp: MinInt64_def MaxInt64_def)
  then have "\<bar>iso_thursday d\<bar> \<le> 1000000000000000" unfolding iso_thursday_form by simp
  from civil_year_int64 [OF this] iso_week_range [of "iso_thursday d"] show ?thesis
    by (simp add: weekKey_def ISOWeek_def d_def Let_def formatWeek_appendInt(1))
qed

subsection \<open>What the policy keeps\<close>

text \<open>
  The contract of a retention class, stated without the code's lists: \<open>earliest k snaps h\<close> says that
  \<open>h\<close> is the earliest snapshot of its bucket (the first one listed, among equal times), and
  \<open>newer k snaps h\<close> counts the buckets later than the one of \<open>h\<close>.
\<close>

definition earliest :: "keyFn \<Rightarrow> SnapInfo list \<Rightarrow> SnapInfo \<Rightarrow> bool" where
  "earliest k snaps h \<longleftrightarrow> h \<in> set snaps
     \<and> (\<forall>u\<in>set snaps. k (siTime u) = k (siTime h) \<longrightarrow> siTime h \<le> siTime u)
     \<and> hd (filter (\<lambda>u. siTime u = siTime h) snaps) = h"

definition newer :: "keyFn \<Rightarrow> SnapInfo list \<Rightarrow> SnapInfo \<Rightarrow> nat" where
  "newer k snaps h =
     card ((\<lambda>u. k (siTime u)) ` {u \<in> set snaps. siTime h < siTime u \<and> k (siTime u) \<noteq> k (siTime h)})"

definition classes :: "RetentionPolicy \<Rightarrow> (keyFn \<times> int) list" where
  "classes p =
     [(hourKey, Hourly p), (dayKey, Daily p), (weekKey, Weekly p), (monthKey, Monthly p), (yearKey, Yearly p)]"

lemma set_bucket_loop:
  "h \<in> set (bucket_loop k ss seen) \<longleftrightarrow>
     h \<in> set ss \<and> k (siTime h) \<notin> seen \<and> hd (filter (\<lambda>u. k (siTime u) = k (siTime h)) ss) = h"
  by (induction ss arbitrary: seen) (auto simp: Let_def)

lemma hd_filter_self: "xs \<noteq> [] \<Longrightarrow> P (hd xs) \<Longrightarrow> hd (filter P xs) = hd xs"
  by (cases xs) simp_all

lemma hd_bucket_earliest:
  assumes h: "h \<in> set snaps"
  shows "hd (filter (\<lambda>u. k (siTime u) = k (siTime h)) (sort_key siTime snaps)) = h
    \<longleftrightarrow> earliest k snaps h"
proof -
  define F where "F = filter (\<lambda>u. k (siTime u) = k (siTime h)) (sort_key siTime snaps)"
  have F: "F \<noteq> []" "set F = {u \<in> set snaps. k (siTime u) = k (siTime h)}"
    using h by (auto simp: F_def filter_empty_conv)
  have hdF: "hd F \<in> set F" using F(1) by (rule hd_in_set)
  have "sorted (map siTime F)" unfolding F_def by (rule sorted_filter) simp
  then have min: "siTime (hd F) \<le> siTime u" if "u \<in> set F" for u
    using that F(1) by (cases F) auto
  have tie: "hd F = hd (filter (\<lambda>u. siTime u = siTime (hd F)) snaps)"
  proof -
    have "hd F = hd (filter (\<lambda>u. siTime u = siTime (hd F)) F)" using F(1) by (simp add: hd_filter_self)
    also have "filter (\<lambda>u. siTime u = siTime (hd F)) F
        = filter (\<lambda>u. siTime u = siTime (hd F)) (sort_key siTime snaps)"
      using hdF F(2) by (auto simp: F_def intro!: filter_cong)
    also have "\<dots> = filter (\<lambda>u. siTime u = siTime (hd F)) snaps"
      using sort_key_stable [of siTime "siTime (hd F)" snaps] by (simp add: eq_commute)
    finally show ?thesis .
  qed
  have "hd F = h" if "earliest k snaps h"
  proof -
    have "siTime h \<le> siTime (hd F)" using that hdF F(2) by (auto simp: earliest_def)
    moreover have "siTime (hd F) \<le> siTime h" using min h F(2) by auto
    ultimately show ?thesis using tie that by (simp add: earliest_def)
  qed
  moreover have "earliest k snaps h" if "hd F = h"
    using that h min tie F(2) by (auto simp: earliest_def)
  ultimately show ?thesis unfolding F_def by blast
qed

lemma set_bucketEarliest:
  "h \<in> set (bucketEarliest (sort_key siTime snaps) k) \<longleftrightarrow> earliest k snaps h"
  using hd_bucket_earliest [of h snaps k]
  by (auto simp: bucketEarliest_def set_bucket_loop earliest_def)

lemma in_set_drop: "x \<in> set (drop m b) \<longleftrightarrow> (\<exists>j<length b. m \<le> j \<and> x = b ! j)"
proof
  assume "x \<in> set (drop m b)"
  then obtain j where "j < length b - m" "x = b ! (m + j)" by (auto simp: in_set_conv_nth)
  then show "\<exists>j<length b. m \<le> j \<and> x = b ! j" by (intro exI [of _ "m + j"]) simp
next
  assume "\<exists>j<length b. m \<le> j \<and> x = b ! j"
  then obtain j where "j < length b" "m \<le> j" "x = b ! j" by blast
  then show "x \<in> set (drop m b)" by (auto simp: in_set_conv_nth intro!: exI [of _ "j - m"])
qed

lemma strict_rank:
  assumes "sorted_wrt (\<lambda>a b. f a < (f b :: int)) b" "h \<in> set b"
  shows "h \<in> set (drop (length b - n) b) \<longleftrightarrow> card {g \<in> set b. f h < f g} < n"
proof -
  obtain i where i: "i < length b" "h = b ! i" using assms(2) by (auto simp: in_set_conv_nth)
  have lt: "f (b ! x) < f (b ! y) \<longleftrightarrow> x < y" if "x < length b" "y < length b" for x y
    using sorted_wrt_nth_less [OF assms(1), of x y] sorted_wrt_nth_less [OF assms(1), of y x] that
    by (metis less_asym linorder_neqE_nat less_irrefl)
  then have d: "distinct b" by (auto simp: distinct_conv_nth) (metis less_irrefl nat_neq_iff)
  have "{g \<in> set b. f h < f g} = set (drop (Suc i) b)"
    using i lt by (auto simp: in_set_drop in_set_conv_nth [of _ b] Suc_le_eq)
  then have "card {g \<in> set b. f h < f g} = length b - Suc i"
    using d by (simp add: distinct_card)
  moreover have "h \<in> set (drop (length b - n) b) \<longleftrightarrow> length b - n \<le> i"
    using i d by (auto simp: in_set_drop nth_eq_iff_index_eq)
  ultimately show ?thesis using i(1) by simp linarith
qed

text \<open>
  A bucket key numbers consecutive intervals of time: two times have the same key just when a
  monotone integer index agrees on them.
\<close>

locale bucket_key =
  fixes k :: keyFn and idx :: "time \<Rightarrow> int"
  assumes idx_mono: "t \<le> u \<Longrightarrow> idx t \<le> idx u"
    and key_eq: "go_time t \<Longrightarrow> go_time u \<Longrightarrow> k t = k u \<longleftrightarrow> idx t = idx u"
begin

lemma bucket_loop_strict:
  assumes "sorted (map siTime ss)" "\<forall>s\<in>set ss. go_time (siTime s)"
  shows "sorted_wrt (\<lambda>a b. idx (siTime a) < idx (siTime b)) (bucket_loop k ss seen)"
  using assms
proof (induction ss arbitrary: seen)
  case (Cons s ss)
  have "idx (siTime s) < idx (siTime h)"
    if "h \<in> set (bucket_loop k ss (insert (k (siTime s)) seen))" for h
  proof -
    have "h \<in> set ss" "k (siTime h) \<noteq> k (siTime s)" using that by (auto simp: set_bucket_loop)
    moreover then have "idx (siTime s) \<le> idx (siTime h)" using Cons.prems by (auto intro: idx_mono)
    ultimately show ?thesis using Cons.prems key_eq [of "siTime h" "siTime s"] by auto
  qed
  then show ?case using Cons by (simp add: Let_def)
qed simp

lemma newer_eq:
  assumes g: "\<forall>s\<in>set snaps. go_time (siTime s)" and h: "h \<in> set snaps"
  shows "newer k snaps h
    = card {g \<in> set (bucketEarliest (sort_key siTime snaps) k). idx (siTime h) < idx (siTime g)}"
    (is "_ = card ?B")
proof -
  define b where "b = bucketEarliest (sort_key siTime snaps) k"
  have mem: "x \<in> set b \<Longrightarrow> x \<in> set snaps" for x
    by (simp add: b_def set_bucketEarliest earliest_def)
  have inj: "inj_on (\<lambda>u. k (siTime u)) (set b)"
    unfolding b_def bucketEarliest_def by (auto simp: inj_on_def set_bucket_loop)
  have rep: "\<exists>v\<in>set b. k (siTime v) = k (siTime u)" if "u \<in> set snaps" for u
  proof -
    define F where "F = filter (\<lambda>x. k (siTime x) = k (siTime u)) (sort_key siTime snaps)"
    have "hd F \<in> set F" using that by (intro hd_in_set) (auto simp: F_def filter_empty_conv)
    then have "hd F \<in> set b" "k (siTime (hd F)) = k (siTime u)"
      by (auto simp: F_def b_def bucketEarliest_def set_bucket_loop)
    then show ?thesis by blast
  qed
  have later: "siTime h < siTime u \<and> k (siTime u) \<noteq> k (siTime h) \<longleftrightarrow> idx (siTime h) < idx (siTime u)"
    if "u \<in> set snaps" for u
    using that g h key_eq [of "siTime u" "siTime h"] idx_mono [of "siTime h" "siTime u"]
      idx_mono [of "siTime u" "siTime h"] by fastforce
  have same: "idx (siTime u) = idx (siTime v)" if "k (siTime u) = k (siTime v)" "u \<in> set snaps" "v \<in> set snaps" for u v
    using that g key_eq by blast
  have "(\<lambda>u. k (siTime u)) ` {u \<in> set snaps. siTime h < siTime u \<and> k (siTime u) \<noteq> k (siTime h)}
      = (\<lambda>u. k (siTime u)) ` ?B" (is "?f ` ?A = _")
  proof
    show "?f ` ?A \<subseteq> ?f ` ?B"
    proof
      fix y assume "y \<in> ?f ` ?A"
      then obtain u where u: "u \<in> set snaps" "idx (siTime h) < idx (siTime u)" "y = ?f u"
        using later by blast
      obtain v where v: "v \<in> set b" "?f v = ?f u" using rep [OF u(1)] by blast
      then have "idx (siTime v) = idx (siTime u)" using same mem u(1) by blast
      then show "y \<in> ?f ` ?B" using u v by (auto simp: b_def intro!: image_eqI [of _ _ v])
    qed
    show "?f ` ?B \<subseteq> ?f ` ?A" using mem later unfolding b_def by blast
  qed
  moreover have "card (?f ` ?B) = card ?B"
    using inj by (intro card_image) (auto simp: b_def intro: inj_on_subset)
  ultimately show ?thesis by (simp add: newer_def)
qed

lemma keepN_class:
  assumes g: "\<forall>s\<in>set snaps. go_time (siTime s)"
  shows "keepN (bucketEarliest (sort_key siTime snaps) k) n keep
    = keep \<union> {siName h | h. earliest k snaps h \<and> int (newer k snaps h) < n}"
proof -
  define b where "b = bucketEarliest (sort_key siTime snaps) k"
  have "sorted_wrt (\<lambda>a b. idx (siTime a) < idx (siTime b)) b"
    unfolding b_def bucketEarliest_def using g by (intro bucket_loop_strict) auto
  then have r: "h \<in> set (drop (length b - nat n) b) \<longleftrightarrow> int (newer k snaps h) < n"
    if "h \<in> set b" for h
    using strict_rank [of "\<lambda>s. idx (siTime s)" b h "nat n"] newer_eq [OF g, of h] that
    by (auto simp: b_def set_bucketEarliest earliest_def)
  have mem: "h \<in> set b \<longleftrightarrow> earliest k snaps h" for h by (simp add: b_def set_bucketEarliest)
  have "{h. earliest k snaps h \<and> int (newer k snaps h) < n} = set (drop (length b - nat n) b)"
    using r mem in_set_dropD [of _ "length b - nat n" b] by blast
  then have "{siName h | h. earliest k snaps h \<and> int (newer k snaps h) < n}
      = siName ` set (drop (length b - nat n) b)" by blast
  moreover have "nat (if int (length b) - n < 0 then 0 else int (length b) - n) = length b - nat n" if "0 < n"
    using that by auto
  moreover have "drop (length b - nat n) b = []" if "n \<le> 0" using that by simp
  ultimately show ?thesis by (auto simp: keepN_def b_def [symmetric] Let_def)
qed

end

lemma key_index_mono: "t \<le> u \<Longrightarrow> 0 < d \<Longrightarrow> wall UTC t div d \<le> wall UTC u div d"
  using utc.wall_mono by (rule zdiv_mono1)

lemma hour_index_eq:
  "(x::int) div 3600 = y div 3600 \<longleftrightarrow> x div 86400 = y div 86400 \<and> x mod 86400 div 3600 = y mod 86400 div 3600"
proof
  assume e: "x div 3600 = y div 3600"
  have "w div 86400 = w div 3600 div 24" for w :: int by (simp add: zdiv_zmult2_eq [symmetric])
  then show "x div 86400 = y div 86400 \<and> x mod 86400 div 3600 = y mod 86400 div 3600"
    unfolding hour_of_wall using e by metis
next
  assume "x div 86400 = y div 86400 \<and> x mod 86400 div 3600 = y mod 86400 div 3600"
  then show "x div 3600 = y div 3600" by (metis hour_split)
qed

interpretation hour_bucket: bucket_key hourKey "\<lambda>t. wall UTC t div 3600"
proof
  fix t u :: time
  show "wall UTC t div 3600 \<le> wall UTC u div 3600" if "t \<le> u" using key_index_mono [OF that] by simp
  have "hourKey t = hourKey u \<longleftrightarrow> wall_day UTC t = wall_day UTC u \<and> Hour_of UTC t = Hour_of UTC u"
    using fixed_tail_eq [of "appendInt (Hour_of UTC t) 2" "appendInt (Hour_of UTC u) 2"]
    by (simp add: hourKey_def fmt_day_eq clock_ranges appendInt_eq_iff appendInt_2 order_less_trans [OF clock_ranges(2)])
  also have "\<dots> \<longleftrightarrow> wall UTC t div 3600 = wall UTC u div 3600"
    unfolding Hour_of_def wall_day_def by (rule hour_index_eq [symmetric])
  finally show "hourKey t = hourKey u \<longleftrightarrow> wall UTC t div 3600 = wall UTC u div 3600" .
qed

interpretation day_bucket: bucket_key dayKey "\<lambda>t. wall UTC t div 86400"
  using key_index_mono by unfold_locales (simp_all add: dayKey_def fmt_day_eq wall_day_def)

interpretation week_bucket: bucket_key weekKey "\<lambda>t. wall UTC t div 86400 div 7"
proof
  fix t u :: time
  show "wall UTC t div 86400 div 7 \<le> wall UTC u div 86400 div 7" if "t \<le> u"
    using key_index_mono [OF that, of 86400] by (simp add: zdiv_mono1)
  assume "go_time t" "go_time u"
  then show "weekKey t = weekKey u \<longleftrightarrow> wall UTC t div 86400 div 7 = wall UTC u div 86400 div 7"
    using iso_week_eq [of "wall_day UTC t" "wall_day UTC u"] iso_week_range
      fixed_tail_eq [of "appendInt (year_day (iso_thursday (wall_day UTC t)) div 7 + 1) 2"
        "appendInt (year_day (iso_thursday (wall_day UTC u)) div 7 + 1) 2"]
    by (simp add: weekKey_form appendInt_eq_iff appendInt_2 wall_day_def order_le_less_trans [OF iso_week_range(2)])
qed

interpretation month_bucket: bucket_key monthKey
  "\<lambda>t. 12 * civil_year (wall_day UTC t) + civil_month (wall_day UTC t)"
proof
  fix t u :: time
  show "12 * civil_year (wall_day UTC t) + civil_month (wall_day UTC t)
      \<le> 12 * civil_year (wall_day UTC u) + civil_month (wall_day UTC u)" if "t \<le> u"
    using key_index_mono [OF that, of 86400] by (simp add: civil_months_mono wall_day_def)
  show "monthKey t = monthKey u \<longleftrightarrow> 12 * civil_year (wall_day UTC t) + civil_month (wall_day UTC t)
      = 12 * civil_year (wall_day UTC u) + civil_month (wall_day UTC u)"
    using civil_month_range [of "wall_day UTC t"] civil_month_range [of "wall_day UTC u"]
    unfolding monthKey_def month_key_eq unfolding Year_of_def Month_of_def by arith
qed

interpretation year_bucket: bucket_key yearKey "\<lambda>t. civil_year (wall_day UTC t)"
  using key_index_mono
  by unfold_locales (simp_all add: yearKey_def appendInt_eq_iff Year_of_def wall_day_def civil_year_mono)

lemmas keepN_classes = hour_bucket.keepN_class day_bucket.keepN_class week_bucket.keepN_class
  month_bucket.keepN_class year_bucket.keepN_class

lemma classifyKeep_sets:
  assumes "\<forall>s\<in>set snaps. go_time (siTime s)"
  shows "classifyKeep snaps p =
    {siName h | h k n. (k, n) \<in> set (classes p) \<and> earliest k snaps h \<and> int (newer k snaps h) < n}"
proof (cases "snaps = []")
  case True
  then show ?thesis by (simp add: classifyKeep_def earliest_def)
next
  case False
  then show ?thesis
    by (auto simp: classifyKeep_def classes_def Let_def keepN_classes [OF assms])
qed

lemma kept_again:
  assumes h: "earliest k snaps h" and kept: "h \<in> set (filter P snaps)"
  shows "earliest k (filter P snaps) h" "newer k (filter P snaps) h \<le> newer k snaps h"
proof -
  have "filter (\<lambda>u. siTime u = siTime h) snaps \<noteq> []"
    using h by (auto simp: earliest_def filter_empty_conv)
  then have "hd (filter P (filter (\<lambda>u. siTime u = siTime h) snaps)) = h"
    using hd_filter_self [of "filter (\<lambda>u. siTime u = siTime h) snaps" P] h kept
    by (simp add: earliest_def del: filter_filter)
  then have "hd (filter (\<lambda>u. siTime u = siTime h) (filter P snaps)) = h"
    by (simp add: conj_commute)
  then show "earliest k (filter P snaps) h" using h kept by (auto simp: earliest_def)
  show "newer k (filter P snaps) h \<le> newer k snaps h"
    unfolding newer_def by (intro card_mono) auto
qed

lemma PartitionRetention_again:
  assumes "\<forall>s\<in>set snaps. go_time (siTime s)"
  shows "PartitionRetention (fst (PartitionRetention snaps p)) p = (fst (PartitionRetention snaps p), [])"
proof -
  define K where "K = filter (\<lambda>s. siName s \<in> classifyKeep snaps p) snaps"
  have g: "\<forall>s\<in>set K. go_time (siTime s)" using assms by (auto simp: K_def)
  have "siName s \<in> classifyKeep K p" if "s \<in> set K" for s
  proof -
    have kp: "siName s \<in> classifyKeep snaps p" using that by (simp add: K_def)
    obtain h k n where h: "siName h = siName s" "(k, n) \<in> set (classes p)" "earliest k snaps h"
      "int (newer k snaps h) < n"
      using kp unfolding classifyKeep_sets [OF assms] by force
    have "h \<in> set snaps" using h(3) by (simp add: earliest_def)
    then have "h \<in> set K" using that h(1) by (simp add: K_def)
    note kept_again [OF h(3) this [unfolded K_def], folded K_def]
    then have "earliest k K h" "int (newer k K h) < n" using h(4) by simp_all
    then show ?thesis unfolding classifyKeep_sets [OF g] using h(1,2) by (metis (mono_tags, lifting) mem_Collect_eq)
  qed
  then have "PartitionRetention K p = (K, [])"
    by (simp add: PartitionRetention_def Let_def filter_True filter_False)
  then show ?thesis by (simp add: PartitionRetention_def Let_def K_def)
qed

definition sample_snaps :: "SnapInfo list" where
  "sample_snaps =
     [\<lparr>siName = ''b'', siTime = 900000000000\<rparr>, \<lparr>siName = ''a'', siTime = 0\<rparr>,
      \<lparr>siName = ''c'', siTime = 7200000000000\<rparr>]"

definition sample_policy :: RetentionPolicy where
  "sample_policy = \<lparr>Hourly = 1, Daily = 1, Weekly = 0, Monthly = 0, Yearly = 0\<rparr>"

lemma sample_go_time: "\<forall>s\<in>set sample_snaps. go_time (siTime s)"
  by code_simp

subsection \<open>Properties\<close>

text \<open>
  C4. The retention engine keeps exactly what its policy promises. For each of the five classes
  (hourly, daily, weekly by ISO week, monthly, yearly) with count \<open>n\<close>, the names kept are those of the
  earliest snapshot of every bucket that has fewer than \<open>n\<close> later buckets, and nothing else is
  kept. The times are the ones Go can represent; the statement speaks of buckets as sets of
  snapshots and not of the sorted lists the code builds.
\<close>

theorem classifyKeep_exact:
  assumes "\<forall>s\<in>set snaps. go_time (siTime s)"
  shows "classifyKeep snaps p =
    {siName h | h k n. (k, n) \<in> set (classes p) \<and> earliest k snaps h \<and> int (newer k snaps h) < n}"
  using assms by (rule classifyKeep_sets)

theorem classifyKeep_exact_witness:
  "list_all (\<lambda>s. go_time (siTime s)) sample_snaps
   \<and> classifyKeep sample_snaps sample_policy = {''a'', ''c''}
   \<and> classifyKeep sample_snaps sample_policy =
    {siName h | h k n. (k, n) \<in> set (classes sample_policy) \<and> earliest k sample_snaps h
       \<and> int (newer k sample_snaps h) < n}"
proof -
  have "classifyKeep sample_snaps sample_policy = {''a'', ''c''}" by code_simp
  with sample_go_time show ?thesis using classifyKeep_exact [of sample_snaps sample_policy] by (simp only: list_all_iff)
qed

text \<open>
  Pruning is idempotent: applying the same policy to the snapshots it kept keeps all of them and
  drops none. A second pass never removes a snapshot because an unrelated one is gone.
\<close>

theorem PartitionRetention_idempotent:
  assumes "\<forall>s\<in>set snaps. go_time (siTime s)"
  shows "PartitionRetention (fst (PartitionRetention snaps p)) p = (fst (PartitionRetention snaps p), [])"
  using assms by (rule PartitionRetention_again)

theorem PartitionRetention_idempotent_witness:
  "list_all (\<lambda>s. go_time (siTime s)) sample_snaps
   \<and> PartitionRetention (fst (PartitionRetention sample_snaps sample_policy)) sample_policy
     = (fst (PartitionRetention sample_snaps sample_policy), [])"
  using sample_go_time PartitionRetention_idempotent [of sample_snaps sample_policy] by (simp only: list_all_iff)



end
