(* ===== verification/HostExec.thy ===== *)
theory HostExec
  imports GoPrelude "HOL-Library.List_Lexorder" "HOL-Library.Char_ord"
begin

text \<open>
  \<^verbatim>\<open>internal/host/exec\<close>: how the rest of the program reaches the host, and the parts of package
  \<open>bufio\<close> and of Go's error values the wrappers share.

  An error is known by the format string it was built from; \<open>%w\<close> keeps the wrapped error. A command
  runner is a parameter: a function of the binary, its arguments and the state of the host.
  A Go map is an association list with distinct keys.
\<close>

subsection \<open>Errors\<close>

datatype error =
    Errorf string
  | Wrapf string error
  | HostError string "string list" int string

text \<open>\<open>errors.As(err, &he)\<close> for a \<open>*HostError\<close>, and its \<open>Stderr\<close>.\<close>

fun host_stderr :: "error \<Rightarrow> string option" where
  "host_stderr (Errorf f) = None"
| "host_stderr (Wrapf f e) = host_stderr e"
| "host_stderr (HostError bin args code stderr) = Some stderr"

fun errors_Is :: "error \<Rightarrow> error \<Rightarrow> bool" where
  "errors_Is (Wrapf f e) t \<longleftrightarrow> Wrapf f e = t \<or> errors_Is e t"
| "errors_Is e t \<longleftrightarrow> e = t"

definition Contains :: "string \<Rightarrow> string \<Rightarrow> bool" where
  "Contains s sub \<longleftrightarrow> Index s sub \<noteq> None"

definition ContainsByte :: "string \<Rightarrow> char \<Rightarrow> bool" where
  "ContainsByte s c \<longleftrightarrow> IndexByte s c \<noteq> None"

definition stderr_contains :: "error \<Rightarrow> string \<Rightarrow> bool" where
  "stderr_contains e sub = (case host_stderr e of None \<Rightarrow> False | Some s \<Rightarrow> Contains s sub)"

type_synonym 'a result = "error + 'a"

text \<open>\<open>if err != nil { return nil, err }\<close> for a call that returns only an error, and for one that returns
  a value.\<close>

definition check :: "error option \<Rightarrow> 'a result \<Rightarrow> 'a result" where
  "check e r = (case e of Some x \<Rightarrow> Inl x | None \<Rightarrow> r)"

definition bindE :: "'a result \<Rightarrow> ('a \<Rightarrow> 'b result) \<Rightarrow> 'b result" where
  "bindE r f = (case r of Inl e \<Rightarrow> Inl e | Inr x \<Rightarrow> f x)"

definition wrapE :: "string \<Rightarrow> 'a result \<Rightarrow> 'a result" where
  "wrapE f r = (case r of Inl e \<Rightarrow> Inl (Wrapf f e) | Inr x \<Rightarrow> Inr x)"

definition wrap_err :: "string \<Rightarrow> error option \<Rightarrow> error option" where
  "wrap_err f e = map_option (Wrapf f) e"

fun seqE :: "'a result list \<Rightarrow> 'a list result" where
  "seqE [] = Inr []"
| "seqE (r # rs) = bindE r (\<lambda>x. bindE (seqE rs) (\<lambda>xs. Inr (x # xs)))"

lemma bindE_Inr [simp]: "bindE (Inr x) f = f x" and bindE_Inl [simp]: "bindE (Inl e) f = Inl e"
  by (simp_all add: bindE_def)

lemma check_None [simp]: "check None r = r" and check_Some [simp]: "check (Some e) r = Inl e"
  by (simp_all add: check_def)

lemma wrapE_simps [simp]: "wrapE f (Inr x) = Inr x" "wrapE f (Inl e) = Inl (Wrapf f e)"
  by (simp_all add: wrapE_def)

lemma check_eq_Inr: "check e r = Inr x \<longleftrightarrow> e = None \<and> r = Inr x"
  by (cases e) simp_all

lemma bindE_eq_Inr: "bindE r f = Inr y \<longleftrightarrow> (\<exists>x. r = Inr x \<and> f x = Inr y)"
  by (cases r) simp_all

lemma wrapE_eq_Inr: "wrapE f r = Inr x \<longleftrightarrow> r = Inr x"
  by (cases r) simp_all

lemmas result_simps = check_eq_Inr bindE_eq_Inr wrapE_eq_Inr

lemma seqE_eq_Inr: "seqE rs = Inr xs \<longleftrightarrow> rs = map Inr xs"
  by (induction rs arbitrary: xs) (auto simp: bindE_eq_Inr Cons_eq_map_conv)

subsection \<open>Runners\<close>

text \<open>
  A runner returns the standard output with an optional error and the new state of the host. The managers'
  \<open>Runner\<close> field, when nil, stands for \<open>exec.Run\<close>: the model takes the runner that was resolved.
\<close>

type_synonym 'w runner = "string \<Rightarrow> string list \<Rightarrow> 'w \<Rightarrow> (string \<times> error option) \<times> 'w"

text \<open>Build the arguments, give up on an error, else run the command and drop its output.\<close>

definition run_args :: "'w runner \<Rightarrow> string \<Rightarrow> string list result \<Rightarrow> 'w \<Rightarrow> error option \<times> 'w" where
  "run_args run bin args w =
     (case args of
        Inl e \<Rightarrow> (Some e, w)
      | Inr a \<Rightarrow> (case run bin a w of ((_, err), w') \<Rightarrow> (err, w')))"

text \<open>The same for a command whose output is parsed.\<close>

definition run_parse :: "'w runner \<Rightarrow> string \<Rightarrow> string list result \<Rightarrow> (string \<Rightarrow> 'a result) \<Rightarrow> 'w \<Rightarrow> 'a result \<times> 'w" where
  "run_parse run bin args parse w =
     (case args of
        Inl e \<Rightarrow> (Inl e, w)
      | Inr a \<Rightarrow> (case run bin a w of ((out, err), w') \<Rightarrow> (check err (parse out), w')))"

text \<open>A runner that records every command line it is given.\<close>

type_synonym cmdline = "string \<times> string list"

definition logged :: "'w runner \<Rightarrow> (cmdline list \<times> 'w) runner" where
  "logged run bin args s =
     (case run bin args (snd s) of (r, w') \<Rightarrow> (r, (fst s @ [(bin, args)], w')))"

lemma run_args_logged:
  "fst (snd (run_args (logged run) bin args s))
     = fst s @ (case args of Inl _ \<Rightarrow> [] | Inr a \<Rightarrow> [(bin, a)])"
  by (auto simp: run_args_def logged_def split: sum.splits prod.splits)

lemma run_parse_logged:
  "fst (snd (run_parse (logged run) bin args p s))
     = fst s @ (case args of Inl _ \<Rightarrow> [] | Inr a \<Rightarrow> [(bin, a)])"
  by (auto simp: run_parse_def logged_def split: sum.splits prod.splits)

lemmas logged_simps = run_args_logged run_parse_logged

text \<open>
  An argument that starts with a dash is read by the tool as an option. A command line is safe for a
  set of options when every such argument is one of them.
\<close>

definition dashed :: "string \<Rightarrow> bool" where
  "dashed a \<longleftrightarrow> HasPrefix a ''-''"

definition safe_args :: "string list \<Rightarrow> string list \<Rightarrow> bool" where
  "safe_args flags args \<longleftrightarrow> list_all (\<lambda>a. dashed a \<longrightarrow> a \<in> set flags) args"

lemma safe_args_simps [simp]:
  "safe_args fl []" "safe_args fl (a # as) \<longleftrightarrow> (dashed a \<longrightarrow> a \<in> set fl) \<and> safe_args fl as"
  "safe_args fl (as @ bs) \<longleftrightarrow> safe_args fl as \<and> safe_args fl bs"
  by (simp_all add: safe_args_def)

lemma dashed_Cons [simp]: "dashed (c # s) \<longleftrightarrow> c = CHR ''-''" and dashed_Nil [simp]: "\<not> dashed []"
  by (auto simp: dashed_def HasPrefix_def)

text \<open>An option that is written when a condition holds.\<close>

definition flag_if :: "bool \<Rightarrow> string \<Rightarrow> string list" where
  "flag_if b f = (if b then [f] else [])"

lemma flag_if_safe [simp]: "safe_args fl (flag_if b f) \<longleftrightarrow> \<not> b \<or> (dashed f \<longrightarrow> f \<in> set fl)"
  by (simp add: flag_if_def)

lemma dashed_iff: "HasPrefix a ''-'' \<longleftrightarrow> dashed a"
  by (simp add: dashed_def)

definition safe_result :: "string list \<Rightarrow> string list result \<Rightarrow> bool" where
  "safe_result flags r \<longleftrightarrow> (case r of Inl _ \<Rightarrow> True | Inr args \<Rightarrow> safe_args flags args)"

lemma safe_result_simps [simp]:
  "safe_result fl (Inl e)" "safe_result fl (Inr a) \<longleftrightarrow> safe_args fl a"
  "safe_result fl (check err r) \<longleftrightarrow> (err = None \<longrightarrow> safe_result fl r)"
  "safe_result fl (wrapE m r) \<longleftrightarrow> safe_result fl r"
  by (cases err; cases r; simp add: safe_result_def)+

text \<open>The commands a logged operation adds are safe when its arguments are.\<close>

lemma run_args_safe:
  "safe_result fl args \<Longrightarrow> \<forall>c\<in>set (fst s). safe_args fl (snd c)
    \<Longrightarrow> \<forall>c\<in>set (fst (snd (run_args (logged run) bin args s))). safe_args fl (snd c)"
  by (auto simp: run_args_logged safe_result_def split: sum.splits)

subsection \<open>Sorted keys of a map\<close>

type_synonym props = "(string \<times> string) list"

definition sorted_keys :: "props \<Rightarrow> string list" where
  "sorted_keys m = sort (map fst m)"

definition lookup_or_empty :: "props \<Rightarrow> string \<Rightarrow> string" where
  "lookup_or_empty m k = (case map_of m k of Some v \<Rightarrow> v | None \<Rightarrow> [])"

text \<open>The repeated \<open>-o k=v\<close> options, in the order of the sorted keys.\<close>

definition prop_flags :: "props \<Rightarrow> string list" where
  "prop_flags m = concat (map (\<lambda>k. [''-o'', k @ ''='' @ lookup_or_empty m k]) (sorted_keys m))"

text \<open>
  The operands a tool sees when options may stand anywhere: \<open>fl\<close> are the options without a value, \<open>vf\<close>
  those that take the next argument; any other argument with a dash is an unknown option.
\<close>

fun operands :: "string list \<Rightarrow> string list \<Rightarrow> string list \<Rightarrow> string list option" where
  "operands fl vf [] = Some []"
| "operands fl vf (a # as) =
     (if a \<in> set vf then (case as of [] \<Rightarrow> None | _ # bs \<Rightarrow> operands fl vf bs)
      else if dashed a then (if a \<in> set fl then operands fl vf as else None)
      else map_option (\<lambda>os. a # os) (operands fl vf as))"

definition reads_as :: "string list \<Rightarrow> string list \<Rightarrow> string list result \<Rightarrow> string list \<Rightarrow> bool" where
  "reads_as fl vf r ops \<longleftrightarrow> (case r of Inl _ \<Rightarrow> True | Inr args \<Rightarrow> operands fl vf (tl args) = Some ops)"

lemma reads_as_simps [simp]:
  "reads_as fl vf (Inl e) ops" "reads_as fl vf (Inr a) ops \<longleftrightarrow> operands fl vf (tl a) = Some ops"
  "reads_as fl vf (check err r) ops \<longleftrightarrow> (err = None \<longrightarrow> reads_as fl vf r ops)"
  by (cases err; simp add: reads_as_def)+

declare operands.simps(2) [simp del]

lemma operands_flag [simp]:
  "dashed f \<Longrightarrow> f \<notin> set vf \<Longrightarrow> f \<in> set fl \<Longrightarrow> operands fl vf (f # as) = operands fl vf as"
  by (simp add: operands.simps(2))

lemma operands_value [simp]: "f \<in> set vf \<Longrightarrow> operands fl vf (f # v # as) = operands fl vf as"
  by (simp add: operands.simps(2))

lemma operands_flag_if [simp]:
  "f \<in> set fl \<Longrightarrow> f \<notin> set vf \<Longrightarrow> dashed f \<Longrightarrow> operands fl vf (flag_if b f @ as) = operands fl vf as"
  by (simp add: flag_if_def)

lemma operands_name [simp]:
  "\<not> dashed a \<Longrightarrow> list_all dashed vf \<Longrightarrow> operands fl vf (a # as) = map_option (\<lambda>os. a # os) (operands fl vf as)"
  by (auto simp: list_all_iff operands.simps(2))

lemma operands_prop_flags [simp]:
  "''-o'' \<in> set vf \<Longrightarrow> operands fl vf (prop_flags m @ as) = operands fl vf as"
proof -
  assume o: "''-o'' \<in> set vf"
  have "operands fl vf (concat (map (\<lambda>k. [''-o'', g k]) ks) @ as) = operands fl vf as" for g ks
    using o by (induction ks) simp_all
  then show ?thesis unfolding prop_flags_def .
qed

subsection \<open>Lines of output\<close>

text \<open>
  \<open>bufio.Scanner\<close> with \<open>ScanLines\<close>: lines end at a line feed, a carriage return before it is dropped, and
  the text after the last line feed is a line unless it is empty. A line that does not fit the
  buffer of \<open>cap\<close> bytes ends the scan with \<open>ErrTooLong\<close>.
\<close>

definition LF :: char where "LF = CHR 0x0A"

definition TAB :: char where "TAB = CHR 0x09"

definition drop_cr :: "string \<Rightarrow> string" where
  "drop_cr l = (if l \<noteq> [] \<and> last l = CHR 0x0D then butlast l else l)"

definition raw_lines :: "string \<Rightarrow> string list" where
  "raw_lines data = (let ls = Split data LF in if last ls = [] then butlast ls else ls)"

definition ErrTooLong :: error where
  "ErrTooLong = Errorf ''bufio.Scanner: token too long''"

definition scan_lines :: "int \<Rightarrow> string \<Rightarrow> string list \<times> error option" where
  "scan_lines cap data =
     (let ls = raw_lines data; ok = takeWhile (\<lambda>l. int (length l) < cap) ls
      in (map drop_cr ok, if length ok = length ls then None else Some ErrTooLong))"

definition MaxScanTokenSize :: int where
  "MaxScanTokenSize = 65536"

text \<open>
  The loop every parser of this kind has: skip empty lines, parse each other line, stop at the first
  error, and at the end report the error of the scanner.
\<close>

definition scan_rows :: "int \<Rightarrow> (string \<Rightarrow> 'a result) \<Rightarrow> string \<Rightarrow> 'a list result" where
  "scan_rows cap parse data =
     (case scan_lines cap data of
        (ls, err) \<Rightarrow> bindE (seqE (map parse (filter (\<lambda>l. l \<noteq> []) ls))) (\<lambda>rows. check err (Inr rows)))"

definition num_error :: error where
  "num_error = Errorf ''strconv: parsing %q: invalid number''"

definition of_opt :: "error \<Rightarrow> 'a option \<Rightarrow> 'a result" where
  "of_opt e x = (case x of None \<Rightarrow> Inl e | Some v \<Rightarrow> Inr v)"

text \<open>\<open>parseUint\<close> of the packages \<open>pool\<close>, \<open>dataset\<close> and \<open>snapshot\<close>: a dash is zero.\<close>

definition parseUint :: "string \<Rightarrow> int result" where
  "parseUint s = (if s = ''-'' then Inr 0 else of_opt num_error (ParseUint64 s))"

definition ParseInt64 :: "string \<Rightarrow> int result" where
  "ParseInt64 s = of_opt num_error (Atoi s)"

lemma scan_rows_Inr:
  "scan_rows cap parse data = Inr rows \<longleftrightarrow>
     snd (scan_lines cap data) = None
     \<and> map parse (filter (\<lambda>l. l \<noteq> []) (fst (scan_lines cap data))) = map Inr rows"
  by (cases "scan_lines cap data") (auto simp: scan_rows_def result_simps seqE_eq_Inr)

end
