(* ===== verification/ZfsNames.thy ===== *)
theory ZfsNames
  imports HostExec
begin

text \<open>
  \<^verbatim>\<open>internal/host/zfs/names/names.go\<close>: the validators of pool, dataset and snapshot names that guard
  every command line. A name is checked byte by byte: a rune outside ASCII is made of bytes outside
  ASCII, and none of them is an allowed character.
\<close>

subsection \<open>The validators\<close>

definition maxNameLen :: int where
  "maxNameLen = 255"

definition reservedPoolNames :: "string list" where
  "reservedPoolNames =
     [''mirror'', ''raidz'', ''raidz1'', ''raidz2'', ''raidz3'', ''draid'', ''spare'', ''log'', ''cache'', ''special'']"

definition in_range :: "char \<Rightarrow> char \<Rightarrow> char \<Rightarrow> bool" where
  "in_range lo hi c \<longleftrightarrow> (of_char lo :: nat) \<le> of_char c \<and> (of_char c :: nat) \<le> of_char hi"

definition isAlpha :: "char \<Rightarrow> bool" where
  "isAlpha r \<longleftrightarrow> in_range (CHR ''a'') (CHR ''z'') r \<or> in_range (CHR ''A'') (CHR ''Z'') r"

definition isAllowedComponent :: "char \<Rightarrow> bool" where
  "isAllowedComponent r \<longleftrightarrow> isAlpha r \<or> in_range (CHR ''0'') (CHR ''9'') r
     \<or> r = CHR ''_'' \<or> r = CHR ''-'' \<or> r = CHR ''.'' \<or> r = CHR '':''"

definition ValidatePoolName :: "string \<Rightarrow> error option" where
  "ValidatePoolName s =
     (if s = [] then Some (Errorf ''pool name empty'')
      else if int (length s) > maxNameLen then Some (Errorf ''pool name too long'')
      else if s \<in> set reservedPoolNames then Some (Errorf ''pool name %q is reserved'')
      else if \<not> isAlpha (hd s) then Some (Errorf ''pool name must start with a letter'')
      else if \<not> list_all isAllowedComponent s then Some (Errorf ''pool name has illegal character %q'')
      else None)"

fun validate_components :: "string list \<Rightarrow> error option" where
  "validate_components [] = None"
| "validate_components (p # ps) =
     (if p = [] then Some (Errorf ''dataset name has empty component'')
      else if HasPrefix p ''-'' then Some (Errorf ''dataset component cannot start with '-' '')
      else if \<not> list_all isAllowedComponent p then Some (Errorf ''dataset component has illegal character %q'')
      else validate_components ps)"

definition ValidateDatasetName :: "string \<Rightarrow> error option" where
  "ValidateDatasetName s =
     (if s = [] then Some (Errorf ''dataset name empty'')
      else if int (length s) > maxNameLen then Some (Errorf ''dataset name too long'')
      else if ContainsByte s (CHR ''@'') then Some (Errorf ''dataset name cannot contain '@' '')
      else let parts = Split s (CHR ''/'')
           in if length parts = 0 \<or> hd parts = [] then Some (Errorf ''dataset name must start with pool'')
              else case ValidatePoolName (hd parts) of
                     Some e \<Rightarrow> Some (Wrapf ''invalid pool component: %w'' e)
                   | None \<Rightarrow> validate_components (tl parts))"

definition ValidateSnapshotName :: "string \<Rightarrow> error option" where
  "ValidateSnapshotName s =
     (case IndexByte s (CHR ''@'') of
        None \<Rightarrow> Some (Errorf ''snapshot name must contain '<dataset>@<short>' '')
      | Some at \<Rightarrow>
          if at = 0 then Some (Errorf ''snapshot name must contain '<dataset>@<short>' '')
          else if CountByte s (CHR ''@'') \<noteq> 1 then Some (Errorf ''snapshot name must contain exactly one '@' '')
          else case ValidateDatasetName (take at s) of
                 Some e \<Rightarrow> Some e
               | None \<Rightarrow>
                   let short = drop (Suc at) s
                   in if short = [] then Some (Errorf ''snapshot short name empty'')
                      else if HasPrefix short ''-'' then Some (Errorf ''snapshot short name cannot start with '-' '')
                      else if \<not> list_all isAllowedComponent short
                           then Some (Errorf ''snapshot short name has illegal character %q'')
                      else None)"

subsection \<open>The grammar the validators accept\<close>

text \<open>A component: not empty, no leading dash, allowed characters only. A pool name also starts with a letter.\<close>

definition component :: "string \<Rightarrow> bool" where
  "component p \<longleftrightarrow> p \<noteq> [] \<and> hd p \<noteq> CHR ''-'' \<and> list_all isAllowedComponent p"

definition pool_name :: "string \<Rightarrow> bool" where
  "pool_name p \<longleftrightarrow> component p \<and> isAlpha (hd p) \<and> p \<notin> set reservedPoolNames"

definition dataset_name :: "string \<Rightarrow> bool" where
  "dataset_name s \<longleftrightarrow> int (length s) \<le> maxNameLen
     \<and> (\<exists>p cs. s = Join (p # cs) ''/'' \<and> pool_name p \<and> list_all component cs)"

lemma not_allowed:
  "\<not> isAllowedComponent (CHR ''@'')" "\<not> isAllowedComponent (CHR ''/'')" "\<not> isAllowedComponent (CHR ''#'')"
  "\<not> isAllowedComponent (CHR '' '')" "\<not> isAllowedComponent (CHR 0x09)" "\<not> isAllowedComponent (CHR 0x0A)"
  "\<not> isAlpha (CHR ''-'')"
  by code_simp+

lemma component_no_sep: "component p \<Longrightarrow> CHR ''/'' \<notin> set p" "component p \<Longrightarrow> CHR ''@'' \<notin> set p"
  using not_allowed by (auto simp: component_def list_all_iff)

lemma HasPrefix_dash: "HasPrefix p ''-'' \<longleftrightarrow> p \<noteq> [] \<and> hd p = CHR ''-''"
  by (cases p) (auto simp: HasPrefix_def)

lemma ValidatePoolName_iff: "ValidatePoolName s = None \<longleftrightarrow> pool_name s \<and> int (length s) \<le> maxNameLen"
  using not_allowed(7) by (auto simp: ValidatePoolName_def pool_name_def component_def)

lemma validate_components_iff: "validate_components ps = None \<longleftrightarrow> list_all component ps"
  by (induction ps) (auto simp: component_def HasPrefix_dash)

lemma ContainsByte_iff: "ContainsByte s c \<longleftrightarrow> c \<in> set s"
  by (induction s) (auto simp: ContainsByte_def)

lemma dataset_name_chars:
  assumes "dataset_name s"
  shows "list_all (\<lambda>c. isAllowedComponent c \<or> c = CHR ''/'') s" "s \<noteq> []" "isAlpha (hd s)" "\<not> dashed s"
    "CHR ''@'' \<notin> set s"
proof -
  obtain p cs where s: "s = Join (p # cs) ''/''" "pool_name p" "list_all component cs"
    using assms by (auto simp: dataset_name_def)
  have p: "p \<noteq> []" "isAlpha (hd p)" using s(2) by (auto simp: pool_name_def component_def)
  show "s \<noteq> []" and a: "isAlpha (hd s)" using Join_hd [OF p(1)] p(2) s(1) by simp_all
  then show "\<not> dashed s" using not_allowed(7) by (cases s) auto
  have "isAllowedComponent c" if "q \<in> set (p # cs)" "c \<in> set q" for q c
    using that s(2,3) by (auto simp: pool_name_def component_def list_all_iff)
  then have "(\<Union>q\<in>set (p # cs). set q) \<union> set ''/'' \<subseteq> {c. isAllowedComponent c \<or> c = CHR ''/''}" by auto
  then show "list_all (\<lambda>c. isAllowedComponent c \<or> c = CHR ''/'') s"
    using set_Join [of "p # cs" "''/''"] unfolding s(1) list_all_iff by blast
  then show "CHR ''@'' \<notin> set s" using not_allowed(1) by (auto simp: list_all_iff)
qed

lemma ValidateDatasetName_iff: "ValidateDatasetName s = None \<longleftrightarrow> dataset_name s"
proof
  assume v: "ValidateDatasetName s = None"
  define parts where "parts = Split s (CHR ''/'')"
  have ok: "int (length s) \<le> maxNameLen" "ValidatePoolName (hd parts) = None" "validate_components (tl parts) = None"
    using v by (auto simp: ValidateDatasetName_def Let_def parts_def split: if_splits option.splits)
  have "s = Join (hd parts # tl parts) ''/''"
    using Split_Join [of s "CHR ''/''"] Split_not_Nil [of s "CHR ''/''"] by (simp add: parts_def)
  then show "dataset_name s"
    using ok unfolding dataset_name_def ValidatePoolName_iff validate_components_iff by blast
next
  assume d: "dataset_name s"
  then obtain p cs where s: "s = Join (p # cs) ''/''" "pool_name p" "list_all component cs"
    and l: "int (length s) \<le> maxNameLen" by (auto simp: dataset_name_def)
  have "\<forall>q\<in>set (p # cs). CHR ''/'' \<notin> set q"
    using s(2,3) component_no_sep(1) by (auto simp: pool_name_def list_all_iff)
  then have sp: "Split s (CHR ''/'') = p # cs" unfolding s(1) by (intro Split_of_Join) simp_all
  have "length p \<le> length s" unfolding s(1) by (cases cs) simp_all
  then have "ValidatePoolName p = None" using s(2) l by (simp add: ValidatePoolName_iff)
  moreover have "p \<noteq> []" using s(2) by (simp add: pool_name_def component_def)
  ultimately show "ValidateDatasetName s = None"
    using l s(3) sp dataset_name_chars(2,5) [OF d]
    by (simp add: ValidateDatasetName_def Let_def ContainsByte_iff validate_components_iff)
qed

definition snapshot_name :: "string \<Rightarrow> bool" where
  "snapshot_name s \<longleftrightarrow> (\<exists>d n. s = d @ ''@'' @ n \<and> dataset_name d \<and> component n)"

lemma CountByte_append: "CountByte (a @ b) c = CountByte a c + CountByte b c"
  by (simp add: CountByte_def)

lemma CountByte_0: "CountByte s c = 0 \<longleftrightarrow> c \<notin> set s"
  by (auto simp: CountByte_def filter_empty_conv)

lemma ValidateSnapshotName_accepts: "ValidateSnapshotName s = None \<longleftrightarrow> snapshot_name s"
proof
  assume v: "ValidateSnapshotName s = None"
  then obtain at where at: "IndexByte s (CHR ''@'') = Some at"
    by (cases "IndexByte s (CHR ''@'')") (auto simp: ValidateSnapshotName_def)
  then have "s = take at s @ ''@'' @ drop (Suc at) s"
    using IndexByte_Some [OF at] id_take_nth_drop [of at s] by simp
  moreover have "dataset_name (take at s)" "component (drop (Suc at) s)"
    using v at by (auto simp: ValidateSnapshotName_def component_def HasPrefix_dash Let_def
        ValidateDatasetName_iff split: if_splits option.splits)
  ultimately show "snapshot_name s" unfolding snapshot_name_def by blast
next
  assume "snapshot_name s"
  then obtain d n where s: "s = d @ ''@'' @ n" "dataset_name d" "component n" by (auto simp: snapshot_name_def)
  have no: "CHR ''@'' \<notin> set d" "CHR ''@'' \<notin> set n"
    using dataset_name_chars(5) [OF s(2)] component_no_sep(2) [OF s(3)] by blast+
  then have "IndexByte s (CHR ''@'') = Some (length d)" "CountByte s (CHR ''@'') = 1"
    unfolding s(1) by (auto simp: IndexByte_append CountByte_def filter_empty_conv)
  then show "ValidateSnapshotName s = None"
    using s dataset_name_chars(2) [OF s(2)] ValidateDatasetName_iff [THEN iffD2, OF s(2)]
    by (simp add: ValidateSnapshotName_def component_def HasPrefix_dash Let_def)
qed

lemma snapshot_name_not_dashed: "snapshot_name s \<Longrightarrow> \<not> dashed s"
  using dataset_name_chars(2,4) by (auto simp: snapshot_name_def dashed_def HasPrefix_dash)

lemma pool_name_not_dashed: "pool_name s \<Longrightarrow> \<not> dashed s"
  by (auto simp: pool_name_def component_def dashed_def HasPrefix_dash)

lemmas names_valid = ValidatePoolName_iff ValidateDatasetName_iff ValidateSnapshotName_accepts

lemmas names_not_dashed = snapshot_name_not_dashed pool_name_not_dashed dataset_name_chars(4)

subsection \<open>Properties\<close>

text \<open>
  The snapshot-name validator accepts exactly the names of the form \<open>dataset@short\<close>: at most 255 bytes
  before the \<open>@\<close>, slash-separated components that are not empty, do not start with a dash and hold only
  letters, digits and \<open>_-.:\<close>, a first component that starts with a letter and is no reserved word,
  and a short name that is such a component. In particular an accepted name is never read as an option.
\<close>

theorem ValidateSnapshotName_grammar:
  "(ValidateSnapshotName s = None) =
     (\<exists>p cs n. s = Join (p # cs) ''/'' @ ''@'' @ n \<and> length (Join (p # cs) ''/'') \<le> 255
        \<and> pool_name p \<and> list_all component cs \<and> component n \<and> \<not> dashed s)"
proof -
  have "ValidateSnapshotName s = None \<longleftrightarrow> snapshot_name s \<and> \<not> dashed s"
    using ValidateSnapshotName_accepts snapshot_name_not_dashed by blast
  then show ?thesis by (auto simp: snapshot_name_def dataset_name_def maxNameLen_def)
qed

end
