(* ===== verification/ZfsSnapshot.thy ===== *)
theory ZfsSnapshot
  imports ZfsNames
begin

text \<open>
  \<^verbatim>\<open>internal/host/zfs/snapshot\<close>: the wrapper of the \<open>zfs\<close> tool for snapshots and holds. Every operation
  checks its names, builds a command line and runs it; the runner and the binary are parameters.
\<close>

subsection \<open>Data\<close>

record Snapshot =
  snName :: string
  snDataset :: string
  snShortName :: string
  snUsedBytes :: int
  snReferencedBytes :: int
  snCreationUnix :: int

record Hold =
  hoSnapshot :: string
  hoTag :: string
  hoCreationUnix :: int

subsection \<open>Parsers\<close>

text \<open>One line of \<open>parseList\<close>.\<close>

definition parse_row :: "string \<Rightarrow> Snapshot result" where
  "parse_row line =
     (let f = Split line TAB
      in if length f \<noteq> 4 then Inl (Errorf ''zfs snapshot list: 4 fields expected, got %d in %q'')
         else case IndexByte (f ! 0) (CHR ''@'') of
                None \<Rightarrow> Inl (Errorf ''snapshot name missing '@': %q'')
              | Some at \<Rightarrow>
                  if at = 0 then Inl (Errorf ''snapshot name missing '@': %q'')
                  else bindE (parseUint (f ! 1)) (\<lambda>used.
                       bindE (parseUint (f ! 2)) (\<lambda>refd.
                       bindE (ParseInt64 (f ! 3)) (\<lambda>creation.
                       Inr \<lparr>snName = f ! 0, snDataset = take at (f ! 0), snShortName = drop (Suc at) (f ! 0),
                            snUsedBytes = used, snReferencedBytes = refd, snCreationUnix = creation\<rparr>))))"

definition parseList :: "string \<Rightarrow> Snapshot list result" where
  "parseList data = scan_rows MaxScanTokenSize parse_row data"

definition parse_hold :: "string \<Rightarrow> Hold result" where
  "parse_hold line =
     (let f = Split line TAB
      in if length f \<noteq> 3 then Inl (Errorf ''zfs holds: 3 fields expected, got %d in %q'')
         else bindE (wrapE ''zfs holds: bad timestamp %q: %w'' (ParseInt64 (f ! 2))) (\<lambda>ts.
              Inr \<lparr>hoSnapshot = f ! 0, hoTag = f ! 1, hoCreationUnix = ts\<rparr>))"

definition parseHolds :: "string \<Rightarrow> Hold list result" where
  "parseHolds data = scan_rows MaxScanTokenSize parse_hold data"

subsection \<open>Command lines\<close>

definition listArgs :: "string \<Rightarrow> string list" where
  "listArgs root =
     [''list'', ''-H'', ''-p'', ''-t'', ''snapshot'', ''-o'', ''name,used,referenced,creation'']
       @ (if root \<noteq> [] then [''-r'', root] else [])"

definition buildCreateArgs :: "string \<Rightarrow> string \<Rightarrow> bool \<Rightarrow> string list result" where
  "buildCreateArgs ds short recursive =
     (let full = ds @ ''@'' @ short
      in check (ValidateSnapshotName full) (Inr ([''snapshot''] @ flag_if recursive ''-r'' @ [full])))"

definition destroyArgs :: "string \<Rightarrow> string list result" where
  "destroyArgs name = check (ValidateSnapshotName name) (Inr [''destroy'', name])"

definition rollbackArgs :: "string \<Rightarrow> string list result" where
  "rollbackArgs snap = check (ValidateSnapshotName snap) (Inr [''rollback'', ''-r'', snap])"

definition validateHoldTag :: "string \<Rightarrow> error option" where
  "validateHoldTag tag =
     (if tag = [] then Some (Errorf ''hold tag empty'')
      else if HasPrefix tag ''-'' then Some (Errorf ''hold tag cannot start with '-' '')
      else if \<not> list_all (\<lambda>r. in_range (CHR ''a'') (CHR ''z'') r \<or> in_range (CHR ''A'') (CHR ''Z'') r
             \<or> in_range (CHR ''0'') (CHR ''9'') r \<or> r = CHR ''-'' \<or> r = CHR ''_'' \<or> r = CHR ''.'') tag
           then Some (Errorf ''hold tag has illegal character %q'')
      else None)"

definition buildHoldArgs :: "string \<Rightarrow> string \<Rightarrow> bool \<Rightarrow> string list result" where
  "buildHoldArgs snap tag recursive =
     check (ValidateSnapshotName snap) (check (validateHoldTag tag)
       (Inr ([''hold''] @ flag_if recursive ''-r'' @ [tag, snap])))"

definition buildReleaseArgs :: "string \<Rightarrow> string \<Rightarrow> bool \<Rightarrow> string list result" where
  "buildReleaseArgs snap tag recursive =
     check (ValidateSnapshotName snap) (check (validateHoldTag tag)
       (Inr ([''release''] @ flag_if recursive ''-r'' @ [tag, snap])))"

definition buildHoldsArgs :: "string \<Rightarrow> string list result" where
  "buildHoldsArgs snap = check (ValidateSnapshotName snap) (Inr [''holds'', ''-H'', ''-p'', snap])"

subsection \<open>Operations\<close>

definition snapshot_List :: "'w runner \<Rightarrow> string \<Rightarrow> string \<Rightarrow> 'w \<Rightarrow> Snapshot list result \<times> 'w" where
  "snapshot_List run bin root w = run_parse run bin (Inr (listArgs root)) parseList w"

definition snapshot_Create :: "'w runner \<Rightarrow> string \<Rightarrow> string \<Rightarrow> string \<Rightarrow> bool \<Rightarrow> 'w \<Rightarrow> error option \<times> 'w" where
  "snapshot_Create run bin ds short recursive w = run_args run bin (buildCreateArgs ds short recursive) w"

definition snapshot_Destroy :: "'w runner \<Rightarrow> string \<Rightarrow> string \<Rightarrow> 'w \<Rightarrow> error option \<times> 'w" where
  "snapshot_Destroy run bin name w = run_args run bin (destroyArgs name) w"

definition snapshot_Rollback :: "'w runner \<Rightarrow> string \<Rightarrow> string \<Rightarrow> 'w \<Rightarrow> error option \<times> 'w" where
  "snapshot_Rollback run bin snap w = run_args run bin (rollbackArgs snap) w"

definition snapshot_Hold :: "'w runner \<Rightarrow> string \<Rightarrow> string \<Rightarrow> string \<Rightarrow> bool \<Rightarrow> 'w \<Rightarrow> error option \<times> 'w" where
  "snapshot_Hold run bin snap tag recursive w = run_args run bin (buildHoldArgs snap tag recursive) w"

definition snapshot_Release :: "'w runner \<Rightarrow> string \<Rightarrow> string \<Rightarrow> string \<Rightarrow> bool \<Rightarrow> 'w \<Rightarrow> error option \<times> 'w" where
  "snapshot_Release run bin snap tag recursive w = run_args run bin (buildReleaseArgs snap tag recursive) w"

definition snapshot_Holds :: "'w runner \<Rightarrow> string \<Rightarrow> string \<Rightarrow> 'w \<Rightarrow> Hold list result \<times> 'w" where
  "snapshot_Holds run bin snap w = run_parse run bin (buildHoldsArgs snap) parseHolds w"

subsection \<open>Lemmas\<close>

lemma validateHoldTag_not_dashed: "validateHoldTag tag = None \<Longrightarrow> \<not> dashed tag"
  by (auto simp: validateHoldTag_def dashed_def split: if_splits)

definition snapshot_flags :: "string list" where
  "snapshot_flags = [''-r'', ''-H'', ''-p'']"

lemmas snapshot_args_defs = buildCreateArgs_def destroyArgs_def rollbackArgs_def buildHoldArgs_def
  buildReleaseArgs_def buildHoldsArgs_def

lemma snapshot_args_safe:
  "safe_result snapshot_flags (buildCreateArgs ds short r)"
  "safe_result snapshot_flags (destroyArgs n)" "safe_result snapshot_flags (rollbackArgs n)"
  "safe_result snapshot_flags (buildHoldArgs n tag r)" "safe_result snapshot_flags (buildReleaseArgs n tag r)"
  "safe_result snapshot_flags (buildHoldsArgs n)"
  using names_not_dashed(1) validateHoldTag_not_dashed
  by (auto simp: snapshot_args_defs Let_def names_valid snapshot_flags_def)

text \<open>A parsed row's parts make up its name.\<close>

lemma parse_row_name:
  assumes "parse_row line = Inr s"
  shows "snName s = snDataset s @ ''@'' @ snShortName s" "snDataset s \<noteq> []" "CHR ''@'' \<notin> set (snDataset s)"
proof -
  define f where "f = Split line TAB"
  obtain at where at: "IndexByte (f ! 0) (CHR ''@'') = Some at" "at \<noteq> 0"
    and s: "snName s = f ! 0" "snDataset s = take at (f ! 0)" "snShortName s = drop (Suc at) (f ! 0)"
    using assms by (auto simp: parse_row_def f_def [symmetric] Let_def result_simps split: if_splits option.splits)
  have i: "at < length (f ! 0)" "f ! 0 ! at = CHR ''@''" "CHR ''@'' \<notin> set (take at (f ! 0))"
    using IndexByte_Some [OF at(1)] by auto
  show "snName s = snDataset s @ ''@'' @ snShortName s"
    using id_take_nth_drop [OF i(1)] i(2) by (simp add: s)
  show "snDataset s \<noteq> []" "CHR ''@'' \<notin> set (snDataset s)" using at(2) i by (auto simp: s)
qed

lemma parseList_rows:
  assumes "parseList data = Inr rows" "s \<in> set rows"
  shows "\<exists>line. parse_row line = Inr s"
proof -
  have "Inr s \<in> set (map Inr rows :: Snapshot result list)" using assms(2) by auto
  then show ?thesis
    using assms(1) unfolding parseList_def scan_rows_Inr by (metis (no_types, lifting) in_set_conv_nth length_map nth_map)
qed

lemma snapshot_List_names:
  assumes "fst (snapshot_List run bin root w) = Inr rows" "s \<in> set rows"
  shows "snName s = snDataset s @ ''@'' @ snShortName s" "snDataset s \<noteq> []" "CHR ''@'' \<notin> set (snDataset s)"
proof -
  obtain out where "parseList out = Inr rows"
    using assms(1) by (auto simp: snapshot_List_def run_parse_def result_simps split: prod.splits)
  then obtain line where "parse_row line = Inr s" using parseList_rows assms(2) by blast
  then show "snName s = snDataset s @ ''@'' @ snShortName s" "snDataset s \<noteq> []" "CHR ''@'' \<notin> set (snDataset s)"
    by (rule parse_row_name)+
qed

end
