(* ===== verification/ZfsDataset.thy ===== *)
theory ZfsDataset
  imports ZfsNames
begin

text \<open>
  \<^verbatim>\<open>internal/host/zfs/dataset\<close> (\<open>dataset.go\<close>, \<open>parser.go\<close>, \<open>write.go\<close>, \<open>dataset_extra.go\<close>): filesystems and
  volumes, clones, keys, send and receive streams, diffs and bookmarks. As for pools, every operation
  is a command line and a runner; the two stream operations run with a stream runner.
\<close>

subsection \<open>Data\<close>

record Dataset =
  dsName :: string
  dsType :: string
  dsUsedBytes :: int
  dsAvailableBytes :: int
  dsReferencedBytes :: int
  dsMountpoint :: string
  dsCompression :: string
  dsRecordSizeBytes :: int

record CreateSpec =
  csParent :: string
  csName :: string
  csType :: string
  csVolumeSizeBytes :: nat
  csProperties :: props
  csEncryptionEnabled :: bool
  csEncryptionAlgorithm :: string

record SendOpts =
  soRecursive :: bool
  soIncrementalFrom :: string
  soRaw :: bool
  soCompressed :: bool
  soLargeBlock :: bool
  soEmbeddedData :: bool

record RecvOpts =
  roForce :: bool
  roResumable :: bool
  roOriginSnapshot :: string

record DatasetDiffEntry =
  deChange :: string
  dePath :: string
  deNewPath :: string

record Bookmark =
  bmName :: string
  bmCreationUnix :: int

subsection \<open>Parsers\<close>

definition parse_dataset :: "string \<Rightarrow> Dataset result" where
  "parse_dataset line =
     (let f = Split line TAB
      in if length f \<noteq> 8 then Inl (Errorf ''zfs list: 8 fields expected, got %d in %q'')
         else bindE (parseUint (f ! 2)) (\<lambda>used.
              bindE (parseUint (f ! 3)) (\<lambda>avail.
              bindE (parseUint (f ! 4)) (\<lambda>refd.
              bindE (parseUint (f ! 7)) (\<lambda>rec.
              Inr \<lparr>dsName = f ! 0, dsType = f ! 1, dsUsedBytes = used, dsAvailableBytes = avail,
                   dsReferencedBytes = refd, dsMountpoint = (if f ! 5 \<noteq> ''-'' then f ! 5 else []),
                   dsCompression = f ! 6, dsRecordSizeBytes = rec\<rparr>)))))"

definition parseList :: "string \<Rightarrow> Dataset list result" where
  "parseList data = scan_rows MaxScanTokenSize parse_dataset data"

definition parse_prop :: "string \<Rightarrow> (string \<times> string) result" where
  "parse_prop line =
     (let f = Split line TAB
      in if length f < 3 then Inl (Errorf ''zfs get: bad line %q'') else Inr (f ! 1, f ! 2))"

definition put_prop :: "props \<Rightarrow> string \<times> string \<Rightarrow> props" where
  "put_prop m kv = kv # filter (\<lambda>x. fst x \<noteq> fst kv) m"

definition parseProps :: "string \<Rightarrow> props result" where
  "parseProps data =
     bindE (scan_rows MaxScanTokenSize parse_prop data) (\<lambda>rows. Inr (foldl put_prop [] rows))"

definition parse_diff_line :: "string \<Rightarrow> DatasetDiffEntry result" where
  "parse_diff_line line =
     (let f = Split line TAB
      in if length f < 2 then Inl (Errorf ''zfs diff: bad line %q'')
         else if f ! 0 \<in> {''+'', ''-'', ''M''}
         then if length f \<noteq> 2 then Inl (Errorf ''zfs diff: %s expects 2 fields, got %d in %q'')
              else Inr \<lparr>deChange = f ! 0, dePath = f ! 1, deNewPath = []\<rparr>
         else if f ! 0 = ''R''
         then if length f \<noteq> 3 then Inl (Errorf ''zfs diff: R expects 3 fields, got %d in %q'')
              else Inr \<lparr>deChange = ''R'', dePath = f ! 1, deNewPath = f ! 2\<rparr>
         else Inl (Errorf ''zfs diff: unknown change code %q in %q''))"

text \<open>\<open>sc.Buffer\<close> raises the largest line to a mebibyte.\<close>

definition parseDiff :: "string \<Rightarrow> DatasetDiffEntry list result" where
  "parseDiff data = scan_rows 1048576 parse_diff_line data"

definition parse_bookmark :: "string \<Rightarrow> Bookmark result" where
  "parse_bookmark line =
     (let f = Split line TAB
      in if length f \<noteq> 2 then Inl (Errorf ''zfs bookmark list: 2 fields expected, got %d in %q'')
         else bindE (wrapE ''zfs bookmark list: bad creation %q: %w'' (ParseInt64 (f ! 1))) (\<lambda>creation.
              Inr \<lparr>bmName = f ! 0, bmCreationUnix = creation\<rparr>))"

definition parseBookmarkList :: "string \<Rightarrow> Bookmark list result" where
  "parseBookmarkList data = scan_rows MaxScanTokenSize parse_bookmark data"

subsection \<open>Command lines\<close>

definition list_columns :: string where
  "list_columns = ''name,type,used,available,referenced,mountpoint,compression,recordsize''"

definition listArgs :: "string \<Rightarrow> string list" where
  "listArgs root =
     [''list'', ''-H'', ''-p'', ''-t'', ''filesystem,volume'', ''-o'', list_columns]
       @ (if root \<noteq> [] then [''-r'', root] else [])"

definition buildCreateArgs :: "CreateSpec \<Rightarrow> string list result" where
  "buildCreateArgs spec =
     (if csEncryptionEnabled spec
      then Inl (Errorf ''EncryptionEnabled spec must be created via EncryptionManager.Initialize'')
      else if csType spec \<noteq> ''filesystem'' \<and> csType spec \<noteq> ''volume'' then Inl (Errorf ''invalid dataset type %q'')
      else let full = csParent spec @ ''/'' @ csName spec
           in check (ValidateDatasetName full)
                (if csType spec = ''volume''
                 then if csVolumeSizeBytes spec = 0 then Inl (Errorf ''volume requires volumeSizeBytes'')
                      else Inr ([''create''] @ prop_flags (csProperties spec)
                                 @ [''-V'', dec (csVolumeSizeBytes spec)] @ [full])
                 else Inr ([''create''] @ prop_flags (csProperties spec) @ [full])))"

definition destroyArgs :: "string \<Rightarrow> bool \<Rightarrow> string list result" where
  "destroyArgs name recursive =
     check (ValidateDatasetName name) (Inr ([''destroy''] @ flag_if recursive ''-r'' @ [name]))"

definition buildRenameArgs :: "string \<Rightarrow> string \<Rightarrow> bool \<Rightarrow> string list result" where
  "buildRenameArgs oldName newName recursive =
     (if HasPrefix oldName ''-'' \<or> HasPrefix newName ''-'' then Inl (Errorf ''name cannot start with '-' '')
      else let oldSnap = ContainsByte oldName (CHR ''@''); newSnap = ContainsByte newName (CHR ''@'')
           in if oldSnap \<noteq> newSnap
              then Inl (Errorf ''rename source and target must be same kind (dataset or snapshot)'')
              else let args = Inr ([''rename''] @ flag_if recursive ''-r'' @ [oldName, newName])
                   in if oldSnap then check (ValidateSnapshotName oldName) (check (ValidateSnapshotName newName) args)
                      else check (ValidateDatasetName oldName) (check (ValidateDatasetName newName) args))"

definition buildCloneArgs :: "string \<Rightarrow> string \<Rightarrow> props \<Rightarrow> string list result" where
  "buildCloneArgs snap target properties =
     check (ValidateSnapshotName snap) (check (ValidateDatasetName target)
       (Inr ([''clone''] @ prop_flags properties @ [snap, target])))"

definition buildPromoteArgs :: "string \<Rightarrow> string list result" where
  "buildPromoteArgs name = check (ValidateDatasetName name) (Inr [''promote'', name])"

definition buildLoadKeyArgs :: "string \<Rightarrow> string \<Rightarrow> bool \<Rightarrow> string list result" where
  "buildLoadKeyArgs name keylocation recursive =
     check (ValidateDatasetName name)
       (Inr ([''load-key''] @ flag_if recursive ''-r''
             @ (if keylocation \<noteq> [] then [''-L'', keylocation] else []) @ [name]))"

definition buildUnloadKeyArgs :: "string \<Rightarrow> bool \<Rightarrow> string list result" where
  "buildUnloadKeyArgs name recursive =
     check (ValidateDatasetName name) (Inr ([''unload-key''] @ flag_if recursive ''-r'' @ [name]))"

definition buildChangeKeyArgs :: "string \<Rightarrow> props \<Rightarrow> string list result" where
  "buildChangeKeyArgs name properties =
     check (ValidateDatasetName name) (Inr ([''change-key''] @ prop_flags properties @ [name]))"

definition buildSendArgs :: "string \<Rightarrow> SendOpts \<Rightarrow> string list result" where
  "buildSendArgs snap opts =
     check (ValidateSnapshotName snap)
       (check (if soIncrementalFrom opts \<noteq> [] \<and> ContainsByte (soIncrementalFrom opts) (CHR ''@'')
               then wrap_err ''incremental from: %w'' (ValidateSnapshotName (soIncrementalFrom opts))
               else None)
         (Inr ([''send''] @ flag_if (soRecursive opts) ''-R'' @ flag_if (soRaw opts) ''-w''
               @ flag_if (soCompressed opts) ''-c'' @ flag_if (soLargeBlock opts) ''-L''
               @ flag_if (soEmbeddedData opts) ''-e''
               @ (if soIncrementalFrom opts \<noteq> [] then [''-i'', soIncrementalFrom opts] else []) @ [snap])))"

definition buildReceiveArgs :: "string \<Rightarrow> RecvOpts \<Rightarrow> string list result" where
  "buildReceiveArgs target opts =
     check (ValidateDatasetName target)
       (check (if roOriginSnapshot opts \<noteq> []
               then wrap_err ''origin snapshot: %w'' (ValidateSnapshotName (roOriginSnapshot opts)) else None)
         (Inr ([''receive''] @ flag_if (roForce opts) ''-F'' @ flag_if (roResumable opts) ''-s''
               @ (if roOriginSnapshot opts \<noteq> [] then [''-o'', ''origin='' @ roOriginSnapshot opts] else [])
               @ [target])))"

definition validateDiffTarget :: "string \<Rightarrow> error option" where
  "validateDiffTarget s = (if ContainsByte s (CHR ''@'') then ValidateSnapshotName s else ValidateDatasetName s)"

definition buildDiffArgs :: "string \<Rightarrow> string \<Rightarrow> string list result" where
  "buildDiffArgs from to =
     check (wrap_err ''from snapshot: %w'' (ValidateSnapshotName from))
       (if to \<noteq> []
        then check (wrap_err ''to target: %w'' (validateDiffTarget to)) (Inr [''diff'', ''-H'', from, to])
        else Inr [''diff'', ''-H'', from])"

definition validateBookmarkName :: "string \<Rightarrow> error option" where
  "validateBookmarkName s =
     (if HasPrefix s ''-'' then Some (Errorf ''bookmark name cannot start with '-' '')
      else case IndexByte s (CHR ''#'') of
             None \<Rightarrow> Some (Errorf ''bookmark name must contain '<dataset>#<short>' '')
           | Some hash \<Rightarrow>
               if hash = 0 then Some (Errorf ''bookmark name must contain '<dataset>#<short>' '')
               else if CountByte s (CHR ''#'') \<noteq> 1 then Some (Errorf ''bookmark name must contain exactly one '#' '')
               else case ValidateDatasetName (take hash s) of
                      Some e \<Rightarrow> Some e
                    | None \<Rightarrow>
                        let short = drop (Suc hash) s
                        in if short = [] then Some (Errorf ''bookmark short name empty'')
                           else if \<not> list_all (\<lambda>r. in_range (CHR ''a'') (CHR ''z'') r
                                  \<or> in_range (CHR ''A'') (CHR ''Z'') r \<or> in_range (CHR ''0'') (CHR ''9'') r
                                  \<or> r = CHR ''-'' \<or> r = CHR ''_'') short
                                then Some (Errorf ''bookmark short name has illegal character %q'')
                           else None)"

definition buildBookmarkArgs :: "string \<Rightarrow> string \<Rightarrow> string list result" where
  "buildBookmarkArgs snap bookmarkName =
     check (ValidateSnapshotName snap) (check (validateBookmarkName bookmarkName)
       (Inr [''bookmark'', snap, bookmarkName]))"

definition buildListBookmarksArgs :: "string \<Rightarrow> string list result" where
  "buildListBookmarksArgs root =
     (let args = [''list'', ''-H'', ''-p'', ''-t'', ''bookmark'', ''-o'', ''name,creation'']
      in if root \<noteq> [] then check (ValidateDatasetName root) (Inr (args @ [''-r'', root])) else Inr args)"

definition buildDestroyBookmarkArgs :: "string \<Rightarrow> string list result" where
  "buildDestroyBookmarkArgs bookmarkName = check (validateBookmarkName bookmarkName) (Inr [''destroy'', bookmarkName])"

subsection \<open>Operations\<close>

definition ErrNotFound :: error where
  "ErrNotFound = Errorf ''dataset not found''"

definition notFoundErr :: "error option \<Rightarrow> error option" where
  "notFoundErr err =
     (case err of None \<Rightarrow> None | Some e \<Rightarrow> Some (if stderr_contains e ''does not exist'' then ErrNotFound else e))"

record Detail =
  dtDataset :: Dataset
  dtProps :: props

definition dataset_List :: "'w runner \<Rightarrow> string \<Rightarrow> string \<Rightarrow> 'w \<Rightarrow> Dataset list result \<times> 'w" where
  "dataset_List run bin root = run_parse run bin (Inr (listArgs root)) parseList"

definition dataset_Get :: "'w runner \<Rightarrow> string \<Rightarrow> string \<Rightarrow> 'w \<Rightarrow> Detail result \<times> 'w" where
  "dataset_Get run bin name w =
     (case run bin [''list'', ''-H'', ''-p'', ''-t'', ''filesystem,volume'', ''-o'', list_columns, name] w of
        ((out, err), w) \<Rightarrow>
          (case notFoundErr err of
             Some e \<Rightarrow> (Inl e, w)
           | None \<Rightarrow>
               (case parseList out of
                  Inl e \<Rightarrow> (Inl e, w)
                | Inr [] \<Rightarrow> (Inl ErrNotFound, w)
                | Inr (d # _) \<Rightarrow>
                    (case run bin [''get'', ''-H'', ''-p'', ''all'', name] w of
                       ((out, err), w) \<Rightarrow>
                         (case notFoundErr err of
                            Some e \<Rightarrow> (Inl e, w)
                          | None \<Rightarrow>
                              (bindE (parseProps out) (\<lambda>props. Inr \<lparr>dtDataset = d, dtProps = props\<rparr>), w))))))"

definition dataset_Create :: "'w runner \<Rightarrow> string \<Rightarrow> CreateSpec \<Rightarrow> 'w \<Rightarrow> error option \<times> 'w" where
  "dataset_Create run bin spec = run_args run bin (buildCreateArgs spec)"

fun set_props_loop :: "'w runner \<Rightarrow> string \<Rightarrow> string \<Rightarrow> props \<Rightarrow> string list \<Rightarrow> 'w \<Rightarrow> error option \<times> 'w" where
  "set_props_loop run bin name props [] w = (None, w)"
| "set_props_loop run bin name props (k # ks) w =
     (case run bin [''set'', k @ ''='' @ lookup_or_empty props k, name] w of
        ((_, Some e), w') \<Rightarrow> (Some e, w')
      | ((_, None), w') \<Rightarrow> set_props_loop run bin name props ks w')"

definition dataset_SetProps :: "'w runner \<Rightarrow> string \<Rightarrow> string \<Rightarrow> props \<Rightarrow> 'w \<Rightarrow> error option \<times> 'w" where
  "dataset_SetProps run bin name props w =
     (case ValidateDatasetName name of
        Some e \<Rightarrow> (Some e, w)
      | None \<Rightarrow> set_props_loop run bin name props (sorted_keys props) w)"

definition dataset_Destroy :: "'w runner \<Rightarrow> string \<Rightarrow> string \<Rightarrow> bool \<Rightarrow> 'w \<Rightarrow> error option \<times> 'w" where
  "dataset_Destroy run bin name recursive = run_args run bin (destroyArgs name recursive)"
definition dataset_Rename :: "'w runner \<Rightarrow> string \<Rightarrow> string \<Rightarrow> string \<Rightarrow> bool \<Rightarrow> 'w \<Rightarrow> error option \<times> 'w" where
  "dataset_Rename run bin oldName newName recursive = run_args run bin (buildRenameArgs oldName newName recursive)"
definition dataset_Clone :: "'w runner \<Rightarrow> string \<Rightarrow> string \<Rightarrow> string \<Rightarrow> props \<Rightarrow> 'w \<Rightarrow> error option \<times> 'w" where
  "dataset_Clone run bin snap target properties = run_args run bin (buildCloneArgs snap target properties)"
definition dataset_Promote :: "'w runner \<Rightarrow> string \<Rightarrow> string \<Rightarrow> 'w \<Rightarrow> error option \<times> 'w" where
  "dataset_Promote run bin name = run_args run bin (buildPromoteArgs name)"
definition dataset_LoadKey :: "'w runner \<Rightarrow> string \<Rightarrow> string \<Rightarrow> string \<Rightarrow> bool \<Rightarrow> 'w \<Rightarrow> error option \<times> 'w" where
  "dataset_LoadKey run bin name keylocation recursive = run_args run bin (buildLoadKeyArgs name keylocation recursive)"
definition dataset_UnloadKey :: "'w runner \<Rightarrow> string \<Rightarrow> string \<Rightarrow> bool \<Rightarrow> 'w \<Rightarrow> error option \<times> 'w" where
  "dataset_UnloadKey run bin name recursive = run_args run bin (buildUnloadKeyArgs name recursive)"
definition dataset_ChangeKey :: "'w runner \<Rightarrow> string \<Rightarrow> string \<Rightarrow> props \<Rightarrow> 'w \<Rightarrow> error option \<times> 'w" where
  "dataset_ChangeKey run bin name properties = run_args run bin (buildChangeKeyArgs name properties)"
definition dataset_Send :: "'w runner \<Rightarrow> string \<Rightarrow> string \<Rightarrow> SendOpts \<Rightarrow> 'w \<Rightarrow> error option \<times> 'w" where
  "dataset_Send streamRun bin snap opts = run_args streamRun bin (buildSendArgs snap opts)"
definition dataset_Receive :: "'w runner \<Rightarrow> string \<Rightarrow> string \<Rightarrow> RecvOpts \<Rightarrow> 'w \<Rightarrow> error option \<times> 'w" where
  "dataset_Receive streamRun bin target opts = run_args streamRun bin (buildReceiveArgs target opts)"
definition dataset_Diff :: "'w runner \<Rightarrow> string \<Rightarrow> string \<Rightarrow> string \<Rightarrow> 'w \<Rightarrow> DatasetDiffEntry list result \<times> 'w" where
  "dataset_Diff run bin fromSnapshot toName = run_parse run bin (buildDiffArgs fromSnapshot toName) parseDiff"
definition dataset_Bookmark :: "'w runner \<Rightarrow> string \<Rightarrow> string \<Rightarrow> string \<Rightarrow> 'w \<Rightarrow> error option \<times> 'w" where
  "dataset_Bookmark run bin snap bookmarkName = run_args run bin (buildBookmarkArgs snap bookmarkName)"
definition dataset_ListBookmarks :: "'w runner \<Rightarrow> string \<Rightarrow> string \<Rightarrow> 'w \<Rightarrow> Bookmark list result \<times> 'w" where
  "dataset_ListBookmarks run bin root = run_parse run bin (buildListBookmarksArgs root) parseBookmarkList"
definition dataset_DestroyBookmark :: "'w runner \<Rightarrow> string \<Rightarrow> string \<Rightarrow> 'w \<Rightarrow> error option \<times> 'w" where
  "dataset_DestroyBookmark run bin bookmarkName = run_args run bin (buildDestroyBookmarkArgs bookmarkName)"

subsection \<open>Lemmas\<close>

text \<open>The options the code writes: the ones without a value, and the ones that take the next argument.\<close>

definition zfs_flags :: "string list" where
  "zfs_flags = [''-r'', ''-R'', ''-w'', ''-c'', ''-e'', ''-F'', ''-s'', ''-H'', ''-p'']"

definition zfs_value_flags :: "string list" where
  "zfs_value_flags = [''-o'', ''-V'', ''-L'', ''-i'', ''-t'']"

text \<open>\<open>-L\<close> takes a value for \<open>load-key\<close> only: for \<open>send\<close> it stands alone.\<close>

definition send_flags :: "string list" where
  "send_flags = [''-R'', ''-w'', ''-c'', ''-L'', ''-e'']"

lemma value_flags_dashed [simp]: "list_all dashed zfs_value_flags"
  by (simp add: zfs_value_flags_def)

lemma wrap_err_None [simp]: "wrap_err f e = None \<longleftrightarrow> e = None"
  by (simp add: wrap_err_def)

lemma validateBookmarkName_not_dashed: "validateBookmarkName s = None \<Longrightarrow> \<not> dashed s"
  by (auto simp: validateBookmarkName_def dashed_def split: if_splits)

lemma validateDiffTarget_not_dashed: "validateDiffTarget s = None \<Longrightarrow> \<not> dashed s"
  using names_not_dashed by (auto simp: validateDiffTarget_def names_valid split: if_splits)

lemmas dataset_args_defs = buildCreateArgs_def destroyArgs_def buildRenameArgs_def buildCloneArgs_def
  buildPromoteArgs_def buildLoadKeyArgs_def buildUnloadKeyArgs_def buildChangeKeyArgs_def
  buildReceiveArgs_def buildDiffArgs_def buildBookmarkArgs_def buildListBookmarksArgs_def
  buildDestroyBookmarkArgs_def

lemma dataset_args_read:
  fixes rd :: "string list result \<Rightarrow> string list \<Rightarrow> bool"
  defines "rd \<equiv> reads_as zfs_flags zfs_value_flags"
  shows "rd (buildCreateArgs spec) [csParent spec @ ''/'' @ csName spec]"
    "rd (destroyArgs n b) [n]" "rd (buildRenameArgs n n' b) [n, n']" "rd (buildCloneArgs s n m) [s, n]"
    "rd (buildPromoteArgs n) [n]" "rd (buildLoadKeyArgs n k b) [n]" "rd (buildUnloadKeyArgs n b) [n]"
    "rd (buildChangeKeyArgs n m) [n]" "rd (buildReceiveArgs n ro) [n]"
    "rd (buildDiffArgs s t) (if t = [] then [s] else [s, t])" "rd (buildBookmarkArgs s bm) [s, bm]"
    "rd (buildDestroyBookmarkArgs bm) [bm]" "rd (buildListBookmarksArgs root) (if root = [] then [] else [root])"
  using names_not_dashed validateBookmarkName_not_dashed validateDiffTarget_not_dashed
  by (auto simp: rd_def dataset_args_defs Let_def names_valid zfs_flags_def zfs_value_flags_def)

lemma send_args_read: "reads_as send_flags [''-i''] (buildSendArgs s so) [s]"
  using names_not_dashed(1) by (auto simp: buildSendArgs_def names_valid send_flags_def)

subsection \<open>Properties\<close>


end
