(* ===== verification/SchedulerManager.thy ===== *)
theory SchedulerManager
  imports Cron Retention ZfsSnapshot ZfsDataset
begin

text \<open>
  \<^verbatim>\<open>internal/host/scheduler/manager.go\<close> and \<open>ssh.go\<close>: the tick of the scheduler. The interfaces the manager
  is given (snapshots, database queries, the pair of goroutines that pipes a send stream into the
  transport) are records of functions over the state of the world. A tick may hang inside the cron
  engine, so its result is an option; the log lines are left out.
\<close>

subsection \<open>Rows and interfaces\<close>

record SnapshotSchedule =
  ssID :: string
  ssDataset :: string
  ssCron :: string
  ssRecursive :: bool
  ssSnapshotPrefix :: string
  ssRetentionHourly :: int
  ssRetentionDaily :: int
  ssRetentionWeekly :: int
  ssRetentionMonthly :: int
  ssRetentionYearly :: int
  ssLastFiredAt :: "time option"

record ReplicationSchedule =
  rsID :: string
  rsSrcDataset :: string
  rsTargetID :: string
  rsCron :: string
  rsSnapshotPrefix :: string
  rsLastFiredAt :: "time option"
  rsLastSyncSnapshot :: "string option"

record ReplicationTarget =
  rtHost :: string
  rtPort :: int
  rtSshUser :: string
  rtSshKeyPath :: string
  rtDatasetPrefix :: string

record 'w SnapshotsAPI =
  saCreate :: "string \<Rightarrow> string \<Rightarrow> bool \<Rightarrow> 'w \<Rightarrow> error option \<times> 'w"
  saDestroy :: "string \<Rightarrow> 'w \<Rightarrow> error option \<times> 'w"
  saList :: "string \<Rightarrow> 'w \<Rightarrow> Snapshot list result \<times> 'w"

record 'w QueriesAPI =
  qListEnabledSnapshotSchedules :: "'w \<Rightarrow> SnapshotSchedule list result \<times> 'w"
  qListEnabledReplicationSchedules :: "'w \<Rightarrow> ReplicationSchedule list result \<times> 'w"
  qGetReplicationTarget :: "string \<Rightarrow> 'w \<Rightarrow> ReplicationTarget result \<times> 'w"
  qMarkSnapshotScheduleFired :: "string \<Rightarrow> time \<Rightarrow> 'w \<Rightarrow> error option \<times> 'w"
  qMarkReplicationScheduleFired :: "string \<Rightarrow> time \<Rightarrow> 'w \<Rightarrow> error option \<times> 'w"
  qMarkReplicationScheduleResult :: "string \<Rightarrow> string option \<Rightarrow> error option \<Rightarrow> 'w \<Rightarrow> error option \<times> 'w"

text \<open>
  \<open>mShip\<close> is \<open>Datasets.Send\<close> and \<open>Transport.Receive\<close> running against each other over the pipe, until both
  have returned: their two errors, the send error first. Without a transport it is \<open>None\<close>.
\<close>

record 'w Manager =
  mQueries :: "'w QueriesAPI"
  mSnapshots :: "'w SnapshotsAPI"
  mShip :: "(string \<Rightarrow> SendOpts \<Rightarrow> ReplicationTarget \<Rightarrow> string \<Rightarrow> 'w \<Rightarrow> (error option \<times> error option) \<times> 'w) option"
  mLoc :: location

subsection \<open>Snapshot schedules\<close>

definition fireSnapshot :: "'w Manager \<Rightarrow> SnapshotSchedule \<Rightarrow> time \<Rightarrow> 'w \<Rightarrow> error option \<times> 'w" where
  "fireSnapshot m s now w =
     saCreate (mSnapshots m) (ssDataset s) (FormatSnapTime (ssSnapshotPrefix s) (mLoc m) now) (ssRecursive s) w"

definition policy_of :: "SnapshotSchedule \<Rightarrow> RetentionPolicy" where
  "policy_of s = \<lparr>Hourly = ssRetentionHourly s, Daily = ssRetentionDaily s, Weekly = ssRetentionWeekly s,
     Monthly = ssRetentionMonthly s, Yearly = ssRetentionYearly s\<rparr>"

definition no_policy :: "RetentionPolicy \<Rightarrow> bool" where
  "no_policy p \<longleftrightarrow> Hourly p = 0 \<and> Daily p = 0 \<and> Weekly p = 0 \<and> Monthly p = 0 \<and> Yearly p = 0"

text \<open>The loop that selects the snapshots the schedule manages.\<close>

fun managed_snaps :: "location \<Rightarrow> SnapshotSchedule \<Rightarrow> Snapshot list \<Rightarrow> SnapInfo list" where
  "managed_snaps loc s [] = []"
| "managed_snaps loc s (sn # rest) =
     (if snDataset sn \<noteq> ssDataset s then managed_snaps loc s rest
      else if \<not> HasPrefix (snShortName sn) (ssSnapshotPrefix s @ ''-'') then managed_snaps loc s rest
      else case ParsedSnapTime (snShortName sn) (ssSnapshotPrefix s) (Some loc) of
             None \<Rightarrow> managed_snaps loc s rest
           | Some t \<Rightarrow> \<lparr>siName = snName sn, siTime = t\<rparr> # managed_snaps loc s rest)"

text \<open>The loop that destroys: an error is logged and the loop goes on.\<close>

fun destroy_all :: "'w SnapshotsAPI \<Rightarrow> SnapInfo list \<Rightarrow> 'w \<Rightarrow> 'w" where
  "destroy_all api [] w = w"
| "destroy_all api (d # ds) w = destroy_all api ds (snd (saDestroy api (siName d) w))"

definition pruneSnapshots :: "'w Manager \<Rightarrow> SnapshotSchedule \<Rightarrow> 'w \<Rightarrow> error option \<times> 'w" where
  "pruneSnapshots m s w =
     (case saList (mSnapshots m) (ssDataset s) w of
        (Inl e, w) \<Rightarrow> (Some e, w)
      | (Inr all, w) \<Rightarrow>
          if no_policy (policy_of s) then (None, w)
          else (None, destroy_all (mSnapshots m)
                        (snd (PartitionRetention (managed_snaps (mLoc m) s all) (policy_of s))) w))"

text \<open>One iteration of the loop over the schedules; \<open>None\<close> when the cron engine does not return.\<close>

definition prev_time :: "time option \<Rightarrow> time" where
  "prev_time t = (case t of None \<Rightarrow> 0 | Some x \<Rightarrow> x)"

definition fire_if_due :: "'w Manager \<Rightarrow> time \<Rightarrow> SnapshotSchedule \<Rightarrow> bool \<Rightarrow> 'w \<Rightarrow> 'w" where
  "fire_if_due m now s due w =
     (if due then
        (case fireSnapshot m s now w of (e, w) \<Rightarrow> snd (qMarkSnapshotScheduleFired (mQueries m) (ssID s) now w))
      else w)"

definition snapshot_step :: "'w Manager \<Rightarrow> time \<Rightarrow> SnapshotSchedule \<Rightarrow> 'w \<Rightarrow> 'w option" where
  "snapshot_step m now s w =
     (case ParseCron (ssCron s) of
        None \<Rightarrow> None
      | Some (Inl e) \<Rightarrow> Some w
      | Some (Inr expr) \<Rightarrow>
          (case ShouldFireBetween expr (prev_time (ssLastFiredAt s)) now (Some (mLoc m)) of
             None \<Rightarrow> None
           | Some due \<Rightarrow> Some (snd (pruneSnapshots m s (fire_if_due m now s due w)))))"

fun each :: "('a \<Rightarrow> 'w \<Rightarrow> 'w option) \<Rightarrow> 'a list \<Rightarrow> 'w \<Rightarrow> 'w option" where
  "each f [] w = Some w"
| "each f (x # xs) w = Option.bind (f x w) (each f xs)"

definition runSnapshotSchedules :: "'w Manager \<Rightarrow> time \<Rightarrow> 'w \<Rightarrow> (error option \<times> 'w) option" where
  "runSnapshotSchedules m now w =
     (case qListEnabledSnapshotSchedules (mQueries m) w of
        (Inl e, w) \<Rightarrow> Some (Some (Wrapf ''list snapshot schedules: %w'' e), w)
      | (Inr scheds, w) \<Rightarrow> map_option (\<lambda>w. (None, w)) (each (snapshot_step m now) scheds w))"

subsection \<open>Replication schedules\<close>

definition snapshotExists :: "'w Manager \<Rightarrow> string \<Rightarrow> 'w \<Rightarrow> bool result \<times> 'w" where
  "snapshotExists m name w =
     (case IndexByte name (CHR ''@'') of
        None \<Rightarrow> (Inl (Errorf ''not a snapshot name: %q''), w)
      | Some at \<Rightarrow> (case saList (mSnapshots m) (take at name) w of
          (Inl e, w) \<Rightarrow> (Inl e, w)
        | (Inr all, w) \<Rightarrow> (Inr (list_ex (\<lambda>s. snName s = name) all), w)))"

definition remoteDataset :: "string \<Rightarrow> string \<Rightarrow> string" where
  "remoteDataset pre src =
     (let base = (case LastIndexByte src (CHR ''/'') of None \<Rightarrow> src | Some i \<Rightarrow> drop (Suc i) src)
      in TrimRightByte pre (CHR ''/'') @ ''/'' @ base)"

definition base_opts :: SendOpts where
  "base_opts = \<lparr>soRecursive = False, soIncrementalFrom = [], soRaw = False, soCompressed = True,
     soLargeBlock = True, soEmbeddedData = False\<rparr>"

text \<open>Full or incremental: incremental when the last synchronised snapshot is still on the host.\<close>

definition send_opts :: "'w Manager \<Rightarrow> ReplicationSchedule \<Rightarrow> 'w \<Rightarrow> SendOpts result \<times> 'w" where
  "send_opts m s w =
     (case rsLastSyncSnapshot s of
        None \<Rightarrow> (Inr base_opts, w)
      | Some l \<Rightarrow>
          if l = [] then (Inr base_opts, w)
          else (case snapshotExists m l w of
                  (Inl e, w) \<Rightarrow> (Inl (Wrapf ''verify last sync snapshot: %w'' e), w)
                | (Inr ex, w) \<Rightarrow> (Inr (if ex then base_opts\<lparr>soIncrementalFrom := l\<rparr> else base_opts), w)))"

definition repl_snapshot :: "'w Manager \<Rightarrow> ReplicationSchedule \<Rightarrow> time \<Rightarrow> string" where
  "repl_snapshot m s now = rsSrcDataset s @ ''@'' @ FormatSnapTime (rsSnapshotPrefix s) (mLoc m) now"

definition fireReplication :: "'w Manager \<Rightarrow> ReplicationSchedule \<Rightarrow> time \<Rightarrow> 'w \<Rightarrow> error option \<times> 'w" where
  "fireReplication m s now w =
     (case qGetReplicationTarget (mQueries m) (rsTargetID s) w of
        (Inl e, w) \<Rightarrow> (Some (Wrapf ''get target: %w'' e), w)
      | (Inr target, w) \<Rightarrow>
     (case saCreate (mSnapshots m) (rsSrcDataset s) (FormatSnapTime (rsSnapshotPrefix s) (mLoc m) now) False w of
        (Some e, w) \<Rightarrow> (Some (Wrapf ''create snapshot %s: %w'' e), w)
      | (None, w) \<Rightarrow>
     (case send_opts m s w of
        (Inl e, w) \<Rightarrow> (Some e, w)
      | (Inr opts, w) \<Rightarrow>
     (case mShip m of
        None \<Rightarrow> (Some (Errorf ''scheduler: no replication transport configured''), w)
      | Some ship \<Rightarrow>
     (case ship (repl_snapshot m s now) opts target (remoteDataset (rtDatasetPrefix target) (rsSrcDataset s)) w of
        ((sendErr, Some e), w) \<Rightarrow> (Some e, w)
      | ((Some e, None), w) \<Rightarrow> (Some e, w)
      | ((None, None), w) \<Rightarrow>
     (case qMarkReplicationScheduleResult (mQueries m) (rsID s) (Some (repl_snapshot m s now)) None w of
        (e, w) \<Rightarrow> (wrap_err ''mark result: %w'' e, w)))))))"

definition replication_step :: "'w Manager \<Rightarrow> time \<Rightarrow> ReplicationSchedule \<Rightarrow> 'w \<Rightarrow> 'w option" where
  "replication_step m now s w =
     (case ParseCron (rsCron s) of
        None \<Rightarrow> None
      | Some (Inl e) \<Rightarrow> Some w
      | Some (Inr expr) \<Rightarrow>
          (case ShouldFireBetween expr (prev_time (rsLastFiredAt s)) now (Some (mLoc m)) of
             None \<Rightarrow> None
           | Some False \<Rightarrow> Some w
           | Some True \<Rightarrow>
               Some (let w = (case fireReplication m s now w of
                                (None, w) \<Rightarrow> w
                              | (Some e, w) \<Rightarrow> snd (qMarkReplicationScheduleResult (mQueries m) (rsID s)
                                                      (rsLastSyncSnapshot s) (Some e) w))
                     in snd (qMarkReplicationScheduleFired (mQueries m) (rsID s) now w))))"

definition runReplicationSchedules :: "'w Manager \<Rightarrow> time \<Rightarrow> 'w \<Rightarrow> (error option \<times> 'w) option" where
  "runReplicationSchedules m now w =
     (case qListEnabledReplicationSchedules (mQueries m) w of
        (Inl e, w) \<Rightarrow> Some (Some (Wrapf ''list replication schedules: %w'' e), w)
      | (Inr scheds, w) \<Rightarrow> map_option (\<lambda>w. (None, w)) (each (replication_step m now) scheds w))"

definition tick :: "'w Manager \<Rightarrow> time \<Rightarrow> 'w \<Rightarrow> 'w option" where
  "tick m now w =
     Option.bind (runSnapshotSchedules m now w) (\<lambda>(e, w). map_option snd (runReplicationSchedules m now w))"

text \<open>
  \<open>Run\<close> up to the cancellation of its context: a tick at once, then one per wake-up of the ticker. The
  list holds the times of the ticks.
\<close>

definition Run :: "'w Manager \<Rightarrow> time list \<Rightarrow> 'w \<Rightarrow> 'w option" where
  "Run m nows w = each (tick m) nows w"

subsection \<open>The transport over ssh\<close>

definition or_default :: "string \<Rightarrow> string \<Rightarrow> string" where
  "or_default s d = (if s = [] then d else s)"

definition sshArgs :: "string \<Rightarrow> string \<Rightarrow> ReplicationTarget \<Rightarrow> string \<Rightarrow> string list result" where
  "sshArgs zfsBin strict target dst =
     check (wrap_err ''ssh transport: invalid dst dataset: %w'' (ValidateDatasetName dst))
       (Inr [''-i'', rtSshKeyPath target,
             ''-p'', formatInt (if rtPort target = 0 then 22 else rtPort target),
             ''-o'', ''StrictHostKeyChecking='' @ or_default strict ''accept-new'',
             ''-o'', ''BatchMode=yes'',
             rtSshUser target @ ''@'' @ rtHost target,
             or_default zfsBin ''zfs'' @ '' receive '' @ [CHR 0x22] @ dst @ [CHR 0x22]])"

definition ssh_Receive :: "'w runner \<Rightarrow> string \<Rightarrow> string \<Rightarrow> string \<Rightarrow> ReplicationTarget \<Rightarrow> string \<Rightarrow> 'w \<Rightarrow> error option \<times> 'w" where
  "ssh_Receive run sshBin zfsBin strict target dst w =
     (case run_args run (or_default sshBin ''ssh'') (sshArgs zfsBin strict target dst) w of
        (e, w) \<Rightarrow> (case sshArgs zfsBin strict target dst of
                     Inl x \<Rightarrow> (e, w) | Inr a \<Rightarrow> (wrap_err ''ssh receive: %w: %s'' e, w)))"

subsection \<open>The snapshot interface and the command lines behind it\<close>

text \<open>
  What the scheduler may assume of \<open>SnapshotsAPI\<close>: each call runs at most the one command it stands for,
  none when a name is refused, and listed names are made of their dataset and short name.
\<close>

locale snapshots_api =
  fixes api :: "'w SnapshotsAPI" and bin :: string and cmds :: "'w \<Rightarrow> cmdline list"
  assumes list_law: "saList api root w = (r, w') \<Longrightarrow>
      cmds w' = cmds w @ [(bin, ZfsSnapshot.listArgs root)]
      \<and> (\<forall>rows s. r = Inr rows \<longrightarrow> s \<in> set rows \<longrightarrow> snName s = snDataset s @ ''@'' @ snShortName s)"
    and destroy_law: "saDestroy api n w = (e, w') \<Longrightarrow>
      cmds w' = cmds w @ (if ValidateSnapshotName n = None then [(bin, [''destroy'', n])] else [])"
    and create_law: "saCreate api ds short rc w = (e, w') \<Longrightarrow>
      cmds w' = cmds w @ (if ValidateSnapshotName (ds @ ''@'' @ short) = None
        then [(bin, [''snapshot''] @ flag_if rc ''-r'' @ [ds @ ''@'' @ short])] else [])"
begin

lemma destroy_all_cmds:
  "cmds (destroy_all api ds w) =
     cmds w @ map (\<lambda>n. (bin, [''destroy'', n])) (filter (\<lambda>n. ValidateSnapshotName n = None) (map siName ds))"
proof (induction ds arbitrary: w)
  case (Cons d ds)
  obtain e w1 where d: "saDestroy api (siName d) w = (e, w1)" by fastforce
  show ?case using Cons.IH [of w1] destroy_law [OF d] by (simp add: d)
qed simp

lemma prune_cmds:
  assumes "mSnapshots m = api" "pruneSnapshots m s w = (e, w')"
  shows "\<exists>names. cmds w' = cmds w @ (bin, ZfsSnapshot.listArgs (ssDataset s)) # map (\<lambda>n. (bin, [''destroy'', n])) names
    \<and> (\<forall>n\<in>set names. \<not> no_policy (policy_of s) \<and> (\<exists>all. fst (saList api (ssDataset s) w) = Inr all
         \<and> n \<in> siName ` set (managed_snaps (mLoc m) s all) \<and> n \<notin> classifyKeep (managed_snaps (mLoc m) s all) (policy_of s)))"
proof -
  obtain r w1 where l: "saList api (ssDataset s) w = (r, w1)" by fastforce
  note c = list_law [OF l]
  show ?thesis
  proof (cases "\<exists>all. r = Inr all \<and> \<not> no_policy (policy_of s)")
    case False
    then have "w' = w1" using assms l by (auto simp: pruneSnapshots_def split: sum.splits if_splits)
    then show ?thesis using c by (intro exI [of _ "[]"]) simp
  next
    case True
    then obtain all where r: "r = Inr all" "\<not> no_policy (policy_of s)" by blast
    let ?d = "snd (PartitionRetention (managed_snaps (mLoc m) s all) (policy_of s))"
    have "w' = destroy_all api ?d w1" using assms l r by (simp add: pruneSnapshots_def)
    then have "cmds w' = cmds w @ (bin, ZfsSnapshot.listArgs (ssDataset s))
        # map (\<lambda>n. (bin, [''destroy'', n])) (filter (\<lambda>n. ValidateSnapshotName n = None) (map siName ?d))"
      using c destroy_all_cmds [of ?d w1] by simp
    then show ?thesis using r l by (fastforce simp: PartitionRetention_def Let_def)
  qed
qed

lemma managed_listed:
  assumes "saList api root w = (Inr all, w')" "n \<in> siName ` set (managed_snaps loc s all)"
  shows "\<exists>short t. n = ssDataset s @ ''@'' @ short \<and> HasPrefix short (ssSnapshotPrefix s @ ''-'')
    \<and> ParsedSnapTime short (ssSnapshotPrefix s) (Some loc) = Some t"
proof -
  have "\<exists>sn t. sn \<in> set all \<and> n = snName sn \<and> snDataset sn = ssDataset s \<and> HasPrefix (snShortName sn) (ssSnapshotPrefix s @ ''-'')
      \<and> ParsedSnapTime (snShortName sn) (ssSnapshotPrefix s) (Some loc) = Some t"
    using assms(2) by (induction loc s all rule: managed_snaps.induct) (auto split: if_splits option.splits)
  then show ?thesis using list_law [OF assms(1)] by metis
qed

end

definition snapshot_manager :: "'w runner \<Rightarrow> string \<Rightarrow> 'w SnapshotsAPI" where
  "snapshot_manager run bin =
     \<lparr>saCreate = snapshot_Create run bin, saDestroy = snapshot_Destroy run bin, saList = snapshot_List run bin\<rparr>"

interpretation zfs: snapshots_api "snapshot_manager (logged run) bin" bin fst for run bin
proof
  fix root w r w' assume l: "saList (snapshot_manager (logged run) bin) root w = (r, w')"
  then show "fst w' = fst w @ [(bin, ZfsSnapshot.listArgs root)]
      \<and> (\<forall>rows s. r = Inr rows \<longrightarrow> s \<in> set rows \<longrightarrow> snName s = snDataset s @ ''@'' @ snShortName s)"
    using run_parse_logged [of run bin "Inr (ZfsSnapshot.listArgs root)" ZfsSnapshot.parseList w]
      snapshot_List_names(1) [of "logged run" bin root w]
    by (auto simp: snapshot_manager_def snapshot_List_def)
next
  fix n w e w' assume "saDestroy (snapshot_manager (logged run) bin) n w = (e, w')"
  then show "fst w' = fst w @ (if ValidateSnapshotName n = None then [(bin, [''destroy'', n])] else [])"
    using run_args_logged [of run bin "ZfsSnapshot.destroyArgs n" w]
    by (auto simp: snapshot_manager_def snapshot_Destroy_def ZfsSnapshot.destroyArgs_def check_def split: option.splits)
next
  fix ds short rc w e w' assume "saCreate (snapshot_manager (logged run) bin) ds short rc w = (e, w')"
  then show "fst w' = fst w @ (if ValidateSnapshotName (ds @ ''@'' @ short) = None
        then [(bin, [''snapshot''] @ flag_if rc ''-r'' @ [ds @ ''@'' @ short])] else [])"
    using run_args_logged [of run bin "ZfsSnapshot.buildCreateArgs ds short rc" w]
    by (auto simp: snapshot_manager_def snapshot_Create_def ZfsSnapshot.buildCreateArgs_def Let_def check_def
        split: option.splits)
qed

subsection \<open>Ticks return\<close>

lemma each_total: "(\<And>x w. x \<in> set xs \<Longrightarrow> \<exists>w'. f x w = Some w') \<Longrightarrow> \<exists>w'. each f xs w = Some w'"
proof (induction xs arbitrary: w)
  case (Cons x xs)
  obtain w1 where w1: "f x w = Some w1" using Cons.prems by fastforce
  obtain w2 where "each f xs w1 = Some w2" using Cons.IH [of w1] Cons.prems by auto
  then show ?case using w1 by simp
qed simp

definition fired_ok :: "time option \<Rightarrow> bool" where
  "fired_ok t = (case t of None \<Rightarrow> True | Some x \<Rightarrow> Minute \<le> x)"

context steady_location
begin

lemma due_total:
  assumes "fired_ok t"
  shows "\<exists>b. ShouldFireBetween c (prev_time t) now (Some loc) = Some b"
  using ShouldFireBetween_total [of "prev_time t" c now] assms
  by (cases t) (simp_all add: fired_ok_def prev_time_def)

lemma snapshot_step_total:
  assumes "mLoc m = loc" "fired_ok (ssLastFiredAt s)"
  shows "\<exists>w'. snapshot_step m now s w = Some w'"
proof -
  obtain r where "ParseCron (ssCron s) = Some r" using ParseCron_total by blast
  then show ?thesis using due_total [OF assms(2)] assms(1)
    by (cases r) (auto simp: snapshot_step_def split: option.splits)
qed

lemma replication_step_total:
  assumes "mLoc m = loc" "fired_ok (rsLastFiredAt s)"
  shows "\<exists>w'. replication_step m now s w = Some w'"
proof -
  obtain r where r: "ParseCron (rsCron s) = Some r" using ParseCron_total by blast
  show ?thesis
  proof (cases r)
    case (Inr c)
    obtain b where "ShouldFireBetween c (prev_time (rsLastFiredAt s)) now (Some loc) = Some b"
      using due_total [OF assms(2)] by blast
    then show ?thesis using r Inr assms(1) by (cases b) (simp_all add: replication_step_def)
  qed (simp add: replication_step_def r)
qed

end

lemma list_logged: "fst (saList (snapshot_manager (logged run) bin) root (l, w)) = fst (snapshot_List run bin root w)"
  by (simp add: snapshot_manager_def snapshot_List_def run_parse_def logged_def split: prod.splits)

lemma snapshots_total:
  assumes "steady_location (mLoc m) off" "list_all (\<lambda>s. fired_ok (ssLastFiredAt s)) scheds"
  shows "\<exists>w'. each (snapshot_step m now) scheds w = Some w'"
  using assms steady_location.snapshot_step_total [OF assms(1) refl] by (intro each_total) (auto simp: list_all_iff)

lemma replications_total:
  assumes "steady_location (mLoc m) off" "list_all (\<lambda>s. fired_ok (rsLastFiredAt s)) scheds"
  shows "\<exists>w'. each (replication_step m now) scheds w = Some w'"
  using assms steady_location.replication_step_total [OF assms(1) refl] by (intro each_total) (auto simp: list_all_iff)

subsection \<open>Traces\<close>

text \<open>
  The calls of a tick that matter, in order: a manager that records them. A snapshot is created
  (successfully or not), a stream is shipped (both sides without error or not), a result is
  recorded for a replication schedule, and a schedule is marked as fired.
\<close>

datatype event =
    EvCreate string bool
  | EvShip string bool
  | EvResult string "string option" "error option"
  | EvFired string time

definition quiet :: "('w \<Rightarrow> 'r \<times> 'w) \<Rightarrow> event list \<times> 'w \<Rightarrow> 'r \<times> event list \<times> 'w" where
  "quiet f = (\<lambda>(l, w). case f w of (r, w) \<Rightarrow> (r, l, w))"

definition record_ev :: "('r \<Rightarrow> event) \<Rightarrow> ('w \<Rightarrow> 'r \<times> 'w) \<Rightarrow> event list \<times> 'w \<Rightarrow> 'r \<times> event list \<times> 'w" where
  "record_ev ev f = (\<lambda>(l, w). case f w of (r, w) \<Rightarrow> (r, l @ [ev r], w))"

definition traced :: "'w Manager \<Rightarrow> (event list \<times> 'w) Manager" where
  "traced m =
     \<lparr>mQueries =
        \<lparr>qListEnabledSnapshotSchedules = quiet (qListEnabledSnapshotSchedules (mQueries m)),
         qListEnabledReplicationSchedules = quiet (qListEnabledReplicationSchedules (mQueries m)),
         qGetReplicationTarget = (\<lambda>i. quiet (qGetReplicationTarget (mQueries m) i)),
         qMarkSnapshotScheduleFired = (\<lambda>i t. record_ev (\<lambda>r. EvFired i t) (qMarkSnapshotScheduleFired (mQueries m) i t)),
         qMarkReplicationScheduleFired = (\<lambda>i t. record_ev (\<lambda>r. EvFired i t) (qMarkReplicationScheduleFired (mQueries m) i t)),
         qMarkReplicationScheduleResult = (\<lambda>i l e. record_ev (\<lambda>r. EvResult i l e) (qMarkReplicationScheduleResult (mQueries m) i l e))\<rparr>,
      mSnapshots =
        \<lparr>saCreate = (\<lambda>d s rc. record_ev (\<lambda>e. EvCreate (d @ ''@'' @ s) (e = None)) (saCreate (mSnapshots m) d s rc)),
         saDestroy = (\<lambda>n. quiet (saDestroy (mSnapshots m) n)),
         saList = (\<lambda>r. quiet (saList (mSnapshots m) r))\<rparr>,
      mShip = map_option (\<lambda>ship sn opts t d. record_ev (\<lambda>(a, b). EvShip sn (a = None \<and> b = None)) (ship sn opts t d)) (mShip m),
      mLoc = mLoc m\<rparr>"

lemmas traced_simps = traced_def quiet_def record_ev_def

text \<open>A result in a trace is justified by what stands right before it.\<close>

definition justified :: "ReplicationSchedule list \<Rightarrow> event list \<Rightarrow> bool" where
  "justified scheds log \<longleftrightarrow>
     (\<forall>pre i l e post. log = pre @ EvResult i l e # post \<longrightarrow>
        (case e of
           None \<Rightarrow> (\<exists>x pre'. l = Some x \<and> pre = pre' @ [EvCreate x True, EvShip x True])
         | Some err \<Rightarrow> (\<exists>s\<in>set scheds. i = rsID s \<and> l = rsLastSyncSnapshot s)))"

lemma justified_append:
  assumes "justified scheds a" "justified scheds b"
  shows "justified scheds (a @ b)"
  unfolding justified_def
proof (intro allI impI)
  fix pre i l e post assume e: "a @ b = pre @ EvResult i l e # post"
  let ?P = "\<lambda>pre. case e of None \<Rightarrow> (\<exists>x pre'. l = Some x \<and> pre = pre' @ [EvCreate x True, EvShip x True])
         | Some err \<Rightarrow> (\<exists>s\<in>set scheds. i = rsID s \<and> l = rsLastSyncSnapshot s)"
  consider (left) post' where "a = pre @ EvResult i l e # post'" | (right) pre' where "pre = a @ pre'" "b = pre' @ EvResult i l e # post"
    using e by (auto simp: append_eq_append_conv2 append_eq_Cons_conv Cons_eq_append_conv)
  then show "?P pre"
  proof cases
    case left
    then show ?thesis using assms(1) unfolding justified_def by blast
  next
    case right
    then have "?P pre'" using assms(2) unfolding justified_def by blast
    then show ?thesis using right(1) by (auto split: option.splits)
  qed
qed

lemma justified_no_result: "(\<And>i l e. EvResult i l e \<notin> set log) \<Longrightarrow> justified scheds log"
  unfolding justified_def by (metis in_set_conv_decomp)

lemma send_opts_traced: "\<exists>r w'. send_opts (traced m) s (l, w) = (r, l, w')"
  by (auto simp: send_opts_def snapshotExists_def traced_simps split: option.splits prod.splits sum.splits)

lemma fireReplication_traced:
  assumes f: "fireReplication (traced m) s now (l, w) = (e, l', w')"
  shows "\<exists>seg. l' = l @ seg \<and> justified scheds seg"
proof -
  let ?x = "repl_snapshot m s now"
  let ?short = "FormatSnapTime (rsSnapshotPrefix s) (mLoc m) now"
  have x: "?x = rsSrcDataset s @ ''@'' @ ?short" "repl_snapshot (traced m) s now = ?x"
    by (simp_all add: repl_snapshot_def traced_def)
  obtain t w1 where t: "qGetReplicationTarget (mQueries m) (rsTargetID s) w = (t, w1)" by fastforce
  obtain c w2 where c: "saCreate (mSnapshots m) (rsSrcDataset s) ?short False w1 = (c, w2)" by fastforce
  obtain r w3 where r: "send_opts (traced m) s (l @ [EvCreate ?x (c = None)], w2) = (r, l @ [EvCreate ?x (c = None)], w3)"
    using send_opts_traced by metis
  have no: "justified scheds [EvCreate n b]" "justified scheds [EvCreate n b, EvShip n b']" for n b b'
    by (simp_all add: justified_no_result)
  have yes: "justified scheds [EvCreate n True, EvShip n True, EvResult i (Some n) None]" for n i
    by (auto simp: justified_def Cons_eq_append_conv append_eq_Cons_conv split: option.splits)
  show ?thesis
  proof (cases "\<exists>t' opts ship. t = Inr t' \<and> c = None \<and> r = Inr opts \<and> mShip m = Some ship")
    case False
    then have "l' = l \<or> l' = l @ [EvCreate ?x (c = None)]"
      using f t c r x by (auto simp: fireReplication_def traced_simps split: sum.splits option.splits)
    then show ?thesis using no(1) justified_no_result [of "[]"] by auto
  next
    case True
    then obtain t' opts ship where k: "t = Inr t'" "c = None" "r = Inr opts" "mShip m = Some ship" by blast
    obtain a b w4 where sh: "ship ?x opts t' (remoteDataset (rtDatasetPrefix t') (rsSrcDataset s)) w3 = ((a, b), w4)"
      by (metis prod.exhaust)
    have "l' = l @ [EvCreate ?x True, EvShip ?x (a = None \<and> b = None)]
      \<or> l' = l @ [EvCreate ?x True, EvShip ?x True, EvResult (rsID s) (Some ?x) None]"
      using f t c r x k sh by (auto simp: fireReplication_def traced_simps split: option.splits prod.splits)
    then show ?thesis using no(2) yes by auto
  qed
qed

lemma replication_step_traced:
  assumes f: "replication_step (traced m) now s (l, w) = Some (l', w')" and s: "s \<in> set scheds"
  shows "\<exists>seg. l' = l @ seg \<and> justified scheds seg"
proof -
  obtain e l1 w1 where r: "fireReplication (traced m) s now (l, w) = (e, l1, w1)" by (metis prod.exhaust)
  obtain seg where seg: "l1 = l @ seg" "justified scheds seg" using fireReplication_traced [OF r] by blast
  have fired: "justified scheds [EvFired i t]" for i t by (simp add: justified_no_result)
  have err: "justified scheds [EvResult (rsID s) (rsLastSyncSnapshot s) (Some x)]" for x
    using s by (auto simp: justified_def Cons_eq_append_conv append_eq_Cons_conv)
  have "l' = l \<or> l' = l1 @ [EvFired (rsID s) now]
      \<or> (\<exists>x. l' = l1 @ [EvResult (rsID s) (rsLastSyncSnapshot s) (Some x)] @ [EvFired (rsID s) now])"
    using f r by (auto simp: replication_step_def traced_simps split: option.splits sum.splits bool.splits prod.splits)
  then show ?thesis
    using seg fired err justified_append [of scheds] justified_no_result [of "[]"] by (metis append.assoc append.right_neutral list.distinct(1) list.set_cases)
qed

lemma each_traced:
  assumes "\<And>x l w l' w'. x \<in> set xs \<Longrightarrow> f x (l, w) = Some (l', w') \<Longrightarrow> \<exists>seg. l' = l @ seg \<and> justified scheds seg"
    and "each f xs (l, w) = Some (l', w')"
  shows "\<exists>seg. l' = l @ seg \<and> justified scheds seg"
  using assms
proof (induction xs arbitrary: l w)
  case Nil
  then show ?case using justified_no_result [of "[]"] by auto
next
  case (Cons x xs)
  then obtain l1 w1 where st: "f x (l, w) = Some (l1, w1)" "each f xs (l1, w1) = Some (l', w')"
    by (auto simp: bind_eq_Some_conv)
  obtain s1 where "l1 = l @ s1" "justified scheds s1" using Cons.prems(1) [OF _ st(1)] by auto
  moreover have "\<exists>seg. a' = a @ seg \<and> justified scheds seg" if "y \<in> set xs" "f y (a, b) = Some (a', b')" for y a b a' b'
    using Cons.prems(1) [OF _ that(2)] that(1) by simp
  then obtain s2 where "l' = l1 @ s2" "justified scheds s2" using Cons.IH [OF _ st(2)] by blast
  ultimately show ?case using justified_append by auto
qed

text \<open>The snapshot pass: which schedules are due, and the calls they cause.\<close>

definition due :: "'w Manager \<Rightarrow> time \<Rightarrow> SnapshotSchedule \<Rightarrow> bool" where
  "due m now s =
     (case ParseCron (ssCron s) of
        Some (Inr expr) \<Rightarrow> ShouldFireBetween expr (prev_time (ssLastFiredAt s)) now (Some (mLoc m)) = Some True
      | _ \<Rightarrow> False)"

fun forget :: "event \<Rightarrow> event" where
  "forget (EvCreate n b) = EvCreate n True"
| "forget e = e"

definition due_events :: "'w Manager \<Rightarrow> time \<Rightarrow> SnapshotSchedule \<Rightarrow> event list" where
  "due_events m now s =
     (if due m now s
      then [EvCreate (ssDataset s @ ''@'' @ FormatSnapTime (ssSnapshotPrefix s) (mLoc m) now) True, EvFired (ssID s) now]
      else [])"

lemma destroy_all_traced: "\<exists>w'. destroy_all (mSnapshots (traced m)) ds (l, w) = (l, w')"
proof (induction ds arbitrary: w)
  case (Cons d ds)
  have "\<exists>e w1. saDestroy (mSnapshots (traced m)) (siName d) (l, w) = (e, l, w1)"
    by (simp add: traced_simps split: prod.splits)
  then show ?case using Cons.IH by force
qed simp

lemma prune_traced: "\<exists>e w'. pruneSnapshots (traced m) s (l, w) = (e, l, w')"
proof -
  obtain r w1 where "saList (mSnapshots (traced m)) (ssDataset s) (l, w) = (r, l, w1)"
    by (cases "saList (mSnapshots m) (ssDataset s) w") (simp add: traced_simps)
  then show ?thesis
    using destroy_all_traced [of m _ l w1] by (cases r) (auto simp: pruneSnapshots_def)
qed

lemma snapshot_step_traced:
  assumes "snapshot_step (traced m) now s (l, w) = Some (l', w')"
  shows "map forget l' = map forget l @ due_events m now s"
proof -
  have fire: "map forget (fst (fire_if_due (traced m) now s b (l, w))) = map forget l @
      (if b then [EvCreate (ssDataset s @ ''@'' @ FormatSnapTime (ssSnapshotPrefix s) (mLoc m) now) True, EvFired (ssID s) now] else [])"
    for b
    by (simp add: fire_if_due_def fireSnapshot_def traced_simps split: prod.splits)
  have loc: "mLoc (traced m) = mLoc m" by (simp add: traced_def)
  have prune: "fst (snd (pruneSnapshots (traced m) s x)) = fst x" for x
    using prune_traced [of m s "fst x" "snd x"] by auto
  show ?thesis
    using assms fire prune loc
    by (auto simp: snapshot_step_def due_events_def due_def prod_eq_iff split: option.splits sum.splits)
qed

lemma each_snapshot_traced:
  "each (snapshot_step (traced m) now) scheds (l, w) = Some (l', w') \<Longrightarrow>
     map forget l' = map forget l @ concat (map (due_events m now) scheds)"
proof (induction scheds arbitrary: l w)
  case (Cons s ss)
  then obtain l1 w1 where st: "snapshot_step (traced m) now s (l, w) = Some (l1, w1)"
    "each (snapshot_step (traced m) now) ss (l1, w1) = Some (l', w')"
    by (auto simp: bind_eq_Some_conv)
  then show ?case using Cons.IH [OF st(2)] snapshot_step_traced [OF st(1)] by simp
qed simp

subsection \<open>Properties\<close>


text \<open>
  In a location of constant offset the scheduler makes progress: every tick of a run returns, whatever the rows of the database hold as cron
  text, datasets and prefixes, and whatever the host, the database and the transport answer: one
  bad schedule or one failing command never blocks the others.
\<close>

theorem Run_returns:
  assumes loc: "\<forall>x. mLoc m x = off" "off mod 60 = 0"
    and rows: "\<And>w scheds. fst (qListEnabledSnapshotSchedules (mQueries m) w) = Inr scheds \<Longrightarrow>
        list_all (\<lambda>s. fired_ok (ssLastFiredAt s)) scheds"
      "\<And>w scheds. fst (qListEnabledReplicationSchedules (mQueries m) w) = Inr scheds \<Longrightarrow>
        list_all (\<lambda>s. fired_ok (rsLastFiredAt s)) scheds"
  shows "\<exists>w'. Run m nows w = Some w'"
proof -
  have st: "steady_location (mLoc m) off" by unfold_locales (use loc in auto)
  have "\<exists>w'. tick m now w = Some w'" for now w
  proof -
    have "\<exists>e w1. runSnapshotSchedules m now w = Some (e, w1)"
    proof (cases "qListEnabledSnapshotSchedules (mQueries m) w")
      case (Pair r w1)
      then show ?thesis using snapshots_total [OF st] rows(1) [of w]
        by (cases r) (auto simp: runSnapshotSchedules_def)
    qed
    then obtain e w1 where s: "runSnapshotSchedules m now w = Some (e, w1)" by blast
    have "\<exists>e w2. runReplicationSchedules m now w1 = Some (e, w2)"
    proof (cases "qListEnabledReplicationSchedules (mQueries m) w1")
      case (Pair r w2)
      then show ?thesis using replications_total [OF st] rows(2) [of w1]
        by (cases r) (auto simp: runReplicationSchedules_def)
    qed
    then show ?thesis using s by (auto simp: tick_def)
  qed
  then show ?thesis unfolding Run_def by (intro each_total) blast
qed

text \<open>
  C24. Replication state only moves forward on success. In the calls of a replication pass, a result without
  error is recorded for a snapshot name only right after that snapshot was created and its stream
  was sent and received without error on both sides; a result with an error keeps the last
  synchronised snapshot of its schedule. So the base of the next incremental stream is always a
  snapshot the remote side has received.
\<close>

theorem replication_results_justified:
  assumes q: "qListEnabledReplicationSchedules (mQueries m) w = (Inr scheds, w1)"
    and r: "runReplicationSchedules (traced m) now ([], w) = Some (e, (pre @ EvResult i l err # post, w'))"
  shows "(err = None \<longrightarrow> (\<exists>x pre'. l = Some x \<and> pre = pre' @ [EvCreate x True, EvShip x True]))
    \<and> (err \<noteq> None \<longrightarrow> (\<exists>s. s \<in> set scheds \<and> i = rsID s \<and> l = rsLastSyncSnapshot s))"
proof -
  have "each (replication_step (traced m) now) scheds ([], w1) = Some (pre @ EvResult i l err # post, w')"
    using q r by (auto simp: runReplicationSchedules_def traced_simps)
  then have "justified scheds (pre @ EvResult i l err # post)"
    using each_traced [OF replication_step_traced] by fastforce
  then show ?thesis unfolding justified_def by (cases err) fastforce+
qed


text \<open>A world for the witnesses: one snapshot schedule, one replication schedule, a host that lists two snapshots.\<close>

definition demo_listing :: string where
  "demo_listing = ''tank@a-0001-01-01-0000'' @ [TAB] @ ''0'' @ [TAB] @ ''0'' @ [TAB] @ ''0'' @ [LF]
     @ ''tank@a-0001-01-01-0100'' @ [TAB] @ ''0'' @ [TAB] @ ''0'' @ [TAB] @ ''0'' @ [LF]"

definition demo_run :: "unit runner" where
  "demo_run bin args w = ((if hd args = ''list'' then demo_listing else [], None), w)"

definition demo_sched :: SnapshotSchedule where
  "demo_sched = \<lparr>ssID = ''1'', ssDataset = ''tank'', ssCron = ''* * * * *'', ssRecursive = False, ssSnapshotPrefix = ''a'',
     ssRetentionHourly = 1, ssRetentionDaily = 0, ssRetentionWeekly = 0, ssRetentionMonthly = 0, ssRetentionYearly = 0,
     ssLastFiredAt = None\<rparr>"

definition demo_repl :: ReplicationSchedule where
  "demo_repl = \<lparr>rsID = ''2'', rsSrcDataset = ''tank'', rsTargetID = ''t'', rsCron = ''* * * * *'', rsSnapshotPrefix = ''r'',
     rsLastFiredAt = None, rsLastSyncSnapshot = None\<rparr>"

definition demo_target :: ReplicationTarget where
  "demo_target = \<lparr>rtHost = ''h'', rtPort = 22, rtSshUser = ''u'', rtSshKeyPath = ''k'', rtDatasetPrefix = ''backup''\<rparr>"

definition demo_queries :: "'w QueriesAPI" where
  "demo_queries =
     \<lparr>qListEnabledSnapshotSchedules = (\<lambda>w. (Inr [demo_sched], w)),
      qListEnabledReplicationSchedules = (\<lambda>w. (Inr [demo_repl], w)),
      qGetReplicationTarget = (\<lambda>i w. (Inr demo_target, w)),
      qMarkSnapshotScheduleFired = (\<lambda>i t w. (None, w)),
      qMarkReplicationScheduleFired = (\<lambda>i t w. (None, w)),
      qMarkReplicationScheduleResult = (\<lambda>i l e w. (None, w))\<rparr>"

definition demo_mgr :: "'w SnapshotsAPI \<Rightarrow> 'w Manager" where
  "demo_mgr api = \<lparr>mQueries = demo_queries, mSnapshots = api, mShip = Some (\<lambda>sn opts t d w. ((None, None), w)), mLoc = UTC\<rparr>"

abbreviation "demo_prune \<equiv> pruneSnapshots (demo_mgr (snapshot_manager (logged demo_run) ''zfs'')) demo_sched ([], ())"


theorem Run_returns_witness:
  "\<exists>w'. Run (demo_mgr (snapshot_manager demo_run ''zfs'')) [Hour, 2 * Hour] () = Some w'"
proof -
  have "\<forall>x. mLoc (demo_mgr (snapshot_manager demo_run ''zfs'')) x = 0" "(0 :: int) mod 60 = 0"
    by (simp_all add: demo_mgr_def UTC_def)
  then show ?thesis
    by (rule Run_returns) (simp_all add: demo_mgr_def demo_queries_def demo_sched_def demo_repl_def fired_ok_def)
qed

definition ok_snaps :: "unit SnapshotsAPI" where
  "ok_snaps = \<lparr>saCreate = (\<lambda>d s r w. (None, w)), saDestroy = (\<lambda>n w. (None, w)), saList = (\<lambda>r w. (Inr [], w))\<rparr>"

theorem replication_results_justified_witness:
  "runReplicationSchedules (traced (demo_mgr ok_snaps)) Hour ([], ()) =
     Some (None, ([EvCreate ''tank@r-0001-01-01-0100'' True, EvShip ''tank@r-0001-01-01-0100'' True]
       @ EvResult ''2'' (Some ''tank@r-0001-01-01-0100'') None # [EvFired ''2'' Hour], ()))
   \<and> (\<exists>pre'. [EvCreate ''tank@r-0001-01-01-0100'' True, EvShip ''tank@r-0001-01-01-0100'' True]
        = pre' @ [EvCreate ''tank@r-0001-01-01-0100'' True, EvShip ''tank@r-0001-01-01-0100'' True])"
proof -
  have q: "qListEnabledReplicationSchedules (mQueries (demo_mgr ok_snaps)) () = (Inr [demo_repl], ())"
    by (simp add: demo_mgr_def demo_queries_def)
  have r: "runReplicationSchedules (traced (demo_mgr ok_snaps)) Hour ([], ()) =
     Some (None, ([EvCreate ''tank@r-0001-01-01-0100'' True, EvShip ''tank@r-0001-01-01-0100'' True]
       @ EvResult ''2'' (Some ''tank@r-0001-01-01-0100'') None # [EvFired ''2'' Hour], ()))" by code_simp
  show ?thesis using r replication_results_justified [OF q r] by simp
qed


end
