(* ===== verification/ZfsPool.thy ===== *)
theory ZfsPool
  imports ZfsNames
begin

text \<open>
  \<^verbatim>\<open>internal/host/zfs/pool\<close>, the operations that change pools (\<open>write.go\<close>, \<open>write_extra.go\<close>,
  \<open>pool_extra2.go\<close>): the command line each of them gives to \<open>zpool\<close>, and the list of importable pools.
\<close>

subsection \<open>Pool specifications\<close>

record VdevSpec =
  vsType :: string
  vsDisks :: "string list"

record AddSpec =
  spVdevs :: "VdevSpec list"
  spSpecial :: "VdevSpec list"
  spDedup :: "VdevSpec list"
  spLog :: "VdevSpec list"
  spCache :: "string list"
  spSpare :: "string list"

text \<open>A \<open>CreateSpec\<close> has the fields of an \<open>AddSpec\<close> and the name of the pool.\<close>

record CreateSpec = AddSpec +
  spName :: string

definition validVdevTypes :: "string list" where
  "validVdevTypes = [''mirror'', ''raidz1'', ''raidz2'', ''raidz3'', ''stripe'', ''disk'']"

definition validLogTypes :: "string list" where
  "validLogTypes = [''mirror'', ''stripe'', ''disk'']"

fun emitVdevs :: "string list \<Rightarrow> VdevSpec list \<Rightarrow> string list \<Rightarrow> string list result" where
  "emitVdevs args [] allowed = Inr args"
| "emitVdevs args (v # vs) allowed =
     (let isDraid = HasPrefix (vsType v) ''draid''
      in if \<not> isDraid \<and> vsType v \<notin> set allowed
         then Inl (Errorf ''invalid vdev type %q for this position'')
         else if length (vsDisks v) = 0 then Inl (Errorf ''vdev %q has no disks'')
         else let args1 = (if vsType v \<noteq> ''stripe'' \<and> vsType v \<noteq> ''disk'' then args @ [vsType v] else args)
              in emitVdevs (args1 @ vsDisks v) vs allowed)"

text \<open>The optional groups behind the data vdevs, the same in \<open>buildCreateArgs\<close> and \<open>buildAddArgs\<close>.\<close>

definition emit_group :: "string \<Rightarrow> string list \<Rightarrow> VdevSpec list \<Rightarrow> string list \<Rightarrow> string list result" where
  "emit_group tag args vdevs allowed =
     (if length vdevs > 0 then wrapE (tag @ '': %w'') (emitVdevs (args @ [tag]) vdevs allowed) else Inr args)"

definition emit_disks :: "string \<Rightarrow> string list \<Rightarrow> string list \<Rightarrow> string list" where
  "emit_disks tag args disks = (if length disks > 0 then args @ [tag] @ disks else args)"

definition emit_spec :: "string list \<Rightarrow> 'a AddSpec_scheme \<Rightarrow> string list result" where
  "emit_spec args spec =
     bindE (emitVdevs args (spVdevs spec) validVdevTypes) (\<lambda>args.
     bindE (emit_group ''special'' args (spSpecial spec) validVdevTypes) (\<lambda>args.
     bindE (emit_group ''dedup'' args (spDedup spec) validVdevTypes) (\<lambda>args.
     bindE (emit_group ''log'' args (spLog spec) validLogTypes) (\<lambda>args.
     Inr (emit_disks ''spare'' (emit_disks ''cache'' args (spCache spec)) (spSpare spec))))))"

definition buildCreateArgs :: "CreateSpec \<Rightarrow> string list result" where
  "buildCreateArgs spec =
     check (ValidatePoolName (spName spec))
       (if length (spVdevs spec) = 0 then Inl (Errorf ''pool create: at least one vdev required'')
        else emit_spec [''create'', ''-f'', spName spec] spec)"

definition buildAddArgs :: "string \<Rightarrow> AddSpec \<Rightarrow> string list result" where
  "buildAddArgs name spec =
     check (ValidatePoolName name)
       (if length (spVdevs spec) = 0 \<and> length (spSpecial spec) = 0 \<and> length (spDedup spec) = 0
           \<and> length (spLog spec) = 0 \<and> length (spCache spec) = 0 \<and> length (spSpare spec) = 0
        then Inl (Errorf ''add: nothing to add'')
        else emit_spec [''add'', ''-f'', name] spec)"

subsection \<open>Command lines\<close>

definition destroyArgs :: "string \<Rightarrow> string list result" where
  "destroyArgs name = check (ValidatePoolName name) (Inr [''destroy'', ''-f'', name])"

definition ScrubStart :: string where "ScrubStart = ''start''"
definition ScrubStop :: string where "ScrubStop = ''stop''"

definition scrubArgs :: "string \<Rightarrow> string \<Rightarrow> string list result" where
  "scrubArgs name action =
     check (ValidatePoolName name) (Inr ([''scrub''] @ flag_if (action = ScrubStop) ''-s'' @ [name]))"

definition replaceArgs :: "string \<Rightarrow> string \<Rightarrow> string \<Rightarrow> string list result" where
  "replaceArgs name oldDisk newDisk =
     check (ValidatePoolName name)
       (if oldDisk = [] \<or> newDisk = [] then Inl (Errorf ''old and new disk paths required'')
        else if HasPrefix oldDisk ''-'' \<or> HasPrefix newDisk ''-''
             then Inl (Errorf ''disk path cannot start with '-' (argv injection guard)'')
        else Inr [''replace'', ''-f'', name, oldDisk, newDisk])"

definition bad_disk :: "string \<Rightarrow> bool" where
  "bad_disk disk \<longleftrightarrow> disk = [] \<or> HasPrefix disk ''-''"

definition disk_required :: error where
  "disk_required = Errorf ''disk path required and cannot start with '-' ''"

definition offlineArgs :: "string \<Rightarrow> string \<Rightarrow> bool \<Rightarrow> string list result" where
  "offlineArgs name disk temporary =
     check (ValidatePoolName name)
       (if bad_disk disk then Inl disk_required
        else Inr ([''offline''] @ flag_if temporary ''-t'' @ [name, disk]))"

definition onlineArgs :: "string \<Rightarrow> string \<Rightarrow> string list result" where
  "onlineArgs name disk =
     check (ValidatePoolName name)
       (if bad_disk disk then Inl disk_required else Inr [''online'', name, disk])"

text \<open>An optional device: left out when empty, refused with a leading dash.\<close>

definition opt_disk :: "string list \<Rightarrow> string \<Rightarrow> string list result" where
  "opt_disk args disk =
     (if disk \<noteq> [] then if HasPrefix disk ''-'' then Inl (Errorf ''disk path cannot start with '-' '')
                         else Inr (args @ [disk])
      else Inr args)"

definition clearArgs :: "string \<Rightarrow> string \<Rightarrow> string list result" where
  "clearArgs name disk = check (ValidatePoolName name) (opt_disk [''clear'', name] disk)"

definition attachArgs :: "string \<Rightarrow> string \<Rightarrow> string \<Rightarrow> string list result" where
  "attachArgs name existing newDisk =
     check (ValidatePoolName name)
       (if existing = [] \<or> newDisk = [] then Inl (Errorf ''existing and new disk required'')
        else if HasPrefix existing ''-'' \<or> HasPrefix newDisk ''-''
             then Inl (Errorf ''disk path cannot start with '-' '')
        else Inr [''attach'', ''-f'', name, existing, newDisk])"

definition detachArgs :: "string \<Rightarrow> string \<Rightarrow> string list result" where
  "detachArgs name disk =
     check (ValidatePoolName name)
       (if bad_disk disk then Inl disk_required else Inr [''detach'', name, disk])"

definition exportArgs :: "string \<Rightarrow> bool \<Rightarrow> string list result" where
  "exportArgs name force =
     check (ValidatePoolName name) (Inr ([''export''] @ flag_if force ''-f'' @ [name]))"

definition importArgs :: "string \<Rightarrow> string list result" where
  "importArgs name = check (ValidatePoolName name) (Inr [''import'', name])"

definition TrimStart :: string where "TrimStart = ''start''"
definition TrimStop :: string where "TrimStop = ''stop''"

definition trimArgs :: "string \<Rightarrow> string \<Rightarrow> string \<Rightarrow> string list result" where
  "trimArgs name action disk =
     check (ValidatePoolName name)
       (if action \<noteq> TrimStart \<and> action \<noteq> TrimStop then Inl (Errorf ''invalid trim action %q'')
        else opt_disk ([''trim''] @ flag_if (action = TrimStop) ''-c'' @ [name]) disk)"

definition validWaitActivities :: "string list" where
  "validWaitActivities =
     [''discard'', ''free'', ''initialize'', ''replace'', ''remove'', ''resilver'', ''scrub'', ''trim'']"

definition waitArgs :: "string \<Rightarrow> string \<Rightarrow> string list result" where
  "waitArgs name activity =
     check (ValidatePoolName name)
       (if activity \<notin> set validWaitActivities then Inl (Errorf ''invalid wait activity %q'')
        else Inr [''wait'', ''-t'', activity, name])"

definition buildCheckpointArgs :: "string \<Rightarrow> bool \<Rightarrow> string list result" where
  "buildCheckpointArgs name discard =
     check (ValidatePoolName name) (Inr ([''checkpoint''] @ flag_if discard ''-d'' @ [name]))"

definition buildUpgradeArgs :: "string \<Rightarrow> bool \<Rightarrow> string list result" where
  "buildUpgradeArgs name all =
     (if all then Inr [''upgrade'', ''-a''] else check (ValidatePoolName name) (Inr [''upgrade'', name]))"

definition buildReguidArgs :: "string \<Rightarrow> string list result" where
  "buildReguidArgs name = check (ValidatePoolName name) (Inr [''reguid'', name])"

fun sync_args :: "string list \<Rightarrow> string list \<Rightarrow> string list result" where
  "sync_args args [] = Inr args"
| "sync_args args (n # ns) =
     (case ValidatePoolName n of Some e \<Rightarrow> Inl (Wrapf ''sync: %w'' e) | None \<Rightarrow> sync_args (args @ [n]) ns)"

definition buildSyncArgs :: "string list \<Rightarrow> string list result" where
  "buildSyncArgs poolNames = sync_args [''sync''] poolNames"

subsection \<open>Operations\<close>

definition pool_Create :: "'w runner \<Rightarrow> string \<Rightarrow> CreateSpec \<Rightarrow> 'w \<Rightarrow> error option \<times> 'w" where
  "pool_Create run bin spec = run_args run bin (buildCreateArgs spec)"
definition pool_Destroy :: "'w runner \<Rightarrow> string \<Rightarrow> string \<Rightarrow> 'w \<Rightarrow> error option \<times> 'w" where
  "pool_Destroy run bin name = run_args run bin (destroyArgs name)"
definition pool_Scrub :: "'w runner \<Rightarrow> string \<Rightarrow> string \<Rightarrow> string \<Rightarrow> 'w \<Rightarrow> error option \<times> 'w" where
  "pool_Scrub run bin name action = run_args run bin (scrubArgs name action)"
definition pool_Replace :: "'w runner \<Rightarrow> string \<Rightarrow> string \<Rightarrow> string \<Rightarrow> string \<Rightarrow> 'w \<Rightarrow> error option \<times> 'w" where
  "pool_Replace run bin name oldDisk newDisk = run_args run bin (replaceArgs name oldDisk newDisk)"
definition pool_Offline :: "'w runner \<Rightarrow> string \<Rightarrow> string \<Rightarrow> string \<Rightarrow> bool \<Rightarrow> 'w \<Rightarrow> error option \<times> 'w" where
  "pool_Offline run bin name disk temporary = run_args run bin (offlineArgs name disk temporary)"
definition pool_Online :: "'w runner \<Rightarrow> string \<Rightarrow> string \<Rightarrow> string \<Rightarrow> 'w \<Rightarrow> error option \<times> 'w" where
  "pool_Online run bin name disk = run_args run bin (onlineArgs name disk)"
definition pool_Clear :: "'w runner \<Rightarrow> string \<Rightarrow> string \<Rightarrow> string \<Rightarrow> 'w \<Rightarrow> error option \<times> 'w" where
  "pool_Clear run bin name disk = run_args run bin (clearArgs name disk)"
definition pool_Attach :: "'w runner \<Rightarrow> string \<Rightarrow> string \<Rightarrow> string \<Rightarrow> string \<Rightarrow> 'w \<Rightarrow> error option \<times> 'w" where
  "pool_Attach run bin name existing newDisk = run_args run bin (attachArgs name existing newDisk)"
definition pool_Detach :: "'w runner \<Rightarrow> string \<Rightarrow> string \<Rightarrow> string \<Rightarrow> 'w \<Rightarrow> error option \<times> 'w" where
  "pool_Detach run bin name disk = run_args run bin (detachArgs name disk)"
definition pool_Add :: "'w runner \<Rightarrow> string \<Rightarrow> string \<Rightarrow> AddSpec \<Rightarrow> 'w \<Rightarrow> error option \<times> 'w" where
  "pool_Add run bin name spec = run_args run bin (buildAddArgs name spec)"
definition pool_Export :: "'w runner \<Rightarrow> string \<Rightarrow> string \<Rightarrow> bool \<Rightarrow> 'w \<Rightarrow> error option \<times> 'w" where
  "pool_Export run bin name force = run_args run bin (exportArgs name force)"
definition pool_Import :: "'w runner \<Rightarrow> string \<Rightarrow> string \<Rightarrow> 'w \<Rightarrow> error option \<times> 'w" where
  "pool_Import run bin name = run_args run bin (importArgs name)"
definition pool_Trim :: "'w runner \<Rightarrow> string \<Rightarrow> string \<Rightarrow> string \<Rightarrow> string \<Rightarrow> 'w \<Rightarrow> error option \<times> 'w" where
  "pool_Trim run bin name action disk = run_args run bin (trimArgs name action disk)"
definition pool_Wait :: "'w runner \<Rightarrow> string \<Rightarrow> string \<Rightarrow> string \<Rightarrow> 'w \<Rightarrow> error option \<times> 'w" where
  "pool_Wait run bin name activity = run_args run bin (waitArgs name activity)"
definition pool_Checkpoint :: "'w runner \<Rightarrow> string \<Rightarrow> string \<Rightarrow> 'w \<Rightarrow> error option \<times> 'w" where
  "pool_Checkpoint run bin name = run_args run bin (buildCheckpointArgs name False)"
definition pool_DiscardCheckpoint :: "'w runner \<Rightarrow> string \<Rightarrow> string \<Rightarrow> 'w \<Rightarrow> error option \<times> 'w" where
  "pool_DiscardCheckpoint run bin name = run_args run bin (buildCheckpointArgs name True)"
definition pool_Upgrade :: "'w runner \<Rightarrow> string \<Rightarrow> string \<Rightarrow> bool \<Rightarrow> 'w \<Rightarrow> error option \<times> 'w" where
  "pool_Upgrade run bin name all = run_args run bin (buildUpgradeArgs name all)"
definition pool_Reguid :: "'w runner \<Rightarrow> string \<Rightarrow> string \<Rightarrow> 'w \<Rightarrow> error option \<times> 'w" where
  "pool_Reguid run bin name = run_args run bin (buildReguidArgs name)"
definition pool_Sync :: "'w runner \<Rightarrow> string \<Rightarrow> string list \<Rightarrow> 'w \<Rightarrow> error option \<times> 'w" where
  "pool_Sync run bin poolNames = run_args run bin (buildSyncArgs poolNames)"

text \<open>\<open>SetProps\<close>: one command per property, in the order of the sorted keys, until the first error.\<close>

fun set_props_loop :: "'w runner \<Rightarrow> string \<Rightarrow> string \<Rightarrow> props \<Rightarrow> string list \<Rightarrow> 'w \<Rightarrow> error option \<times> 'w" where
  "set_props_loop run bin name props [] w = (None, w)"
| "set_props_loop run bin name props (k # ks) w =
     (case run bin [''set'', k @ ''='' @ lookup_or_empty props k, name] w of
        ((_, Some e), w') \<Rightarrow> (Some e, w')
      | ((_, None), w') \<Rightarrow> set_props_loop run bin name props ks w')"

definition pool_SetProps :: "'w runner \<Rightarrow> string \<Rightarrow> string \<Rightarrow> props \<Rightarrow> 'w \<Rightarrow> error option \<times> 'w" where
  "pool_SetProps run bin name props w =
     (case ValidatePoolName name of
        Some e \<Rightarrow> (Some e, w)
      | None \<Rightarrow>
          if list_ex (\<lambda>k. k = [] \<or> HasPrefix k ''-'') (map fst props)
          then (Some (Errorf ''invalid property name %q''), w)
          else set_props_loop run bin name props (sorted_keys props) w)"

subsection \<open>Importable pools\<close>

record ImportablePool =
  ipName :: string
  ipState :: string
  ipStatus :: string

definition after :: "string \<Rightarrow> string \<Rightarrow> string" where
  "after key trim = TrimSpace (TrimPrefix trim key)"

fun parse_importable_loop ::
  "string list \<Rightarrow> ImportablePool list \<Rightarrow> ImportablePool option \<Rightarrow> ImportablePool list" where
  "parse_importable_loop [] out cur = (case cur of None \<Rightarrow> out | Some c \<Rightarrow> out @ [c])"
| "parse_importable_loop (line # ls) out cur =
     (let trim = TrimSpace line
      in if HasPrefix trim ''pool: ''
         then parse_importable_loop ls (case cur of None \<Rightarrow> out | Some c \<Rightarrow> out @ [c])
                (Some \<lparr>ipName = after ''pool:'' trim, ipState = [], ipStatus = []\<rparr>)
         else case cur of
                None \<Rightarrow> parse_importable_loop ls out None
              | Some c \<Rightarrow>
                  if HasPrefix trim ''state: ''
                  then parse_importable_loop ls out (Some (c\<lparr>ipState := after ''state:'' trim\<rparr>))
                  else if HasPrefix trim ''status: ''
                  then parse_importable_loop ls out (Some (c\<lparr>ipStatus := after ''status:'' trim\<rparr>))
                  else parse_importable_loop ls out cur)"

definition parseImportable :: "string \<Rightarrow> ImportablePool list" where
  "parseImportable data = parse_importable_loop (Split data LF) [] None"

definition pool_Importable :: "'w runner \<Rightarrow> string \<Rightarrow> 'w \<Rightarrow> ImportablePool list result \<times> 'w" where
  "pool_Importable run bin w =
     (case run bin [''import''] w of
        ((out, Some e), w') \<Rightarrow> (if stderr_contains e ''no pools available'' then Inr [] else Inl e, w')
      | ((out, None), w') \<Rightarrow> (Inr (parseImportable out), w'))"

subsection \<open>Lemmas\<close>

definition pool_flags :: "string list" where
  "pool_flags = [''-f'', ''-s'', ''-t'', ''-c'', ''-d'', ''-a'']"

lemma opt_disk_safe: "safe_args fl args \<Longrightarrow> safe_result fl (opt_disk args disk)"
  by (simp add: opt_disk_def dashed_iff)

lemma activity_not_dashed: "a \<in> set validWaitActivities \<Longrightarrow> \<not> dashed a"
  by (auto simp: validWaitActivities_def)

lemma sync_args_safe: "safe_args fl args \<Longrightarrow> safe_result fl (sync_args args ns)"
  by (induction ns arbitrary: args)
    (auto simp: names_valid names_not_dashed split: option.split)

lemmas pool_args_defs = destroyArgs_def scrubArgs_def replaceArgs_def offlineArgs_def onlineArgs_def
  clearArgs_def attachArgs_def detachArgs_def exportArgs_def importArgs_def trimArgs_def waitArgs_def
  buildCheckpointArgs_def buildUpgradeArgs_def buildReguidArgs_def buildSyncArgs_def

lemma pool_args_safe:
  "safe_result pool_flags (destroyArgs n)" "safe_result pool_flags (scrubArgs n act)"
  "safe_result pool_flags (replaceArgs n d d')" "safe_result pool_flags (offlineArgs n d b)"
  "safe_result pool_flags (onlineArgs n d)" "safe_result pool_flags (clearArgs n d)"
  "safe_result pool_flags (attachArgs n d d')" "safe_result pool_flags (detachArgs n d)"
  "safe_result pool_flags (exportArgs n b)" "safe_result pool_flags (importArgs n)"
  "safe_result pool_flags (trimArgs n act d)" "safe_result pool_flags (waitArgs n act)"
  "safe_result pool_flags (buildCheckpointArgs n b)" "safe_result pool_flags (buildUpgradeArgs n b)"
  "safe_result pool_flags (buildReguidArgs n)" "safe_result pool_flags (buildSyncArgs ns)"
  using activity_not_dashed
  by (auto simp: pool_args_defs names_valid names_not_dashed pool_flags_def dashed_iff bad_disk_def
      intro!: opt_disk_safe sync_args_safe)

text \<open>What \<open>emitVdevs\<close> accepts, and what it emits for one vdev.\<close>

definition vdev_ok :: "string list \<Rightarrow> VdevSpec \<Rightarrow> bool" where
  "vdev_ok allowed v \<longleftrightarrow> (HasPrefix (vsType v) ''draid'' \<or> vsType v \<in> set allowed) \<and> vsDisks v \<noteq> []"

definition vdev_tokens :: "VdevSpec \<Rightarrow> string list" where
  "vdev_tokens v = (if vsType v \<in> {''stripe'', ''disk''} then [] else [vsType v]) @ vsDisks v"

definition group_tokens :: "string \<Rightarrow> VdevSpec list \<Rightarrow> string list" where
  "group_tokens tag vs = (if vs = [] then [] else tag # concat (map vdev_tokens vs))"

definition disk_tokens :: "string \<Rightarrow> string list \<Rightarrow> string list" where
  "disk_tokens tag ds = (if ds = [] then [] else tag # ds)"

lemma emitVdevs_Inr:
  "emitVdevs args vs allowed = Inr out \<longleftrightarrow>
     list_all (vdev_ok allowed) vs \<and> out = args @ concat (map vdev_tokens vs)"
  by (induction args vs allowed rule: emitVdevs.induct)
    (auto simp: Let_def vdev_ok_def vdev_tokens_def)

lemma emit_group_Inr:
  "emit_group tag args vs allowed = Inr out \<longleftrightarrow>
     list_all (vdev_ok allowed) vs \<and> out = args @ group_tokens tag vs"
  by (auto simp: emit_group_def result_simps emitVdevs_Inr group_tokens_def)

lemma emit_disks_tokens: "emit_disks tag args ds = args @ disk_tokens tag ds"
  by (simp add: emit_disks_def disk_tokens_def)

lemma emit_spec_Inr:
  "emit_spec args spec = Inr out \<longleftrightarrow>
     list_all (vdev_ok validVdevTypes) (spVdevs spec @ spSpecial spec @ spDedup spec)
     \<and> list_all (vdev_ok validLogTypes) (spLog spec)
     \<and> out = args @ concat (map vdev_tokens (spVdevs spec)) @ group_tokens ''special'' (spSpecial spec)
         @ group_tokens ''dedup'' (spDedup spec) @ group_tokens ''log'' (spLog spec)
         @ disk_tokens ''cache'' (spCache spec) @ disk_tokens ''spare'' (spSpare spec)"
  by (auto simp: emit_spec_def result_simps emitVdevs_Inr emit_group_Inr emit_disks_tokens)

subsection \<open>Properties\<close>

text \<open>
  No pool operation on an existing pool can be turned into another one by the names or devices it is
  given: in every command line that is built for destroy, scrub, replace, offline, online, clear, attach,
  detach, export, import, trim, wait, checkpoint, upgrade, reguid and sync, an argument that starts with
  a dash is one of the options the code itself writes.
\<close>

theorem pool_argv_safe:
  "list_all (safe_result pool_flags)
     [destroyArgs n, scrubArgs n act, replaceArgs n d d', offlineArgs n d b, onlineArgs n d, clearArgs n d,
      attachArgs n d d', detachArgs n d, exportArgs n b, importArgs n, trimArgs n act d, waitArgs n act,
      buildCheckpointArgs n b, buildUpgradeArgs n b, buildReguidArgs n, buildSyncArgs ns]"
  by (simp add: pool_args_safe)


text \<open>
  Two checks that the code's comments promise are missing on the creation path. A device name is not
  examined at all, so any string, an option such as \<open>-n\<close> included, reaches \<open>zpool create\<close> as an argument
  (the operations on existing pools refuse a leading dash); and a log vdev of a \<open>draid\<close> type is
  accepted although the specification says that raidz and draid logs are rejected.
\<close>

theorem buildCreateArgs_unchecked:
  "buildCreateArgs \<lparr>spVdevs = [\<lparr>vsType = ''disk'', vsDisks = [d]\<rparr>], spSpecial = [], spDedup = [], spLog = [],
      spCache = [], spSpare = [], spName = ''tank''\<rparr> = Inr [''create'', ''-f'', ''tank'', d]
   \<and> buildCreateArgs \<lparr>spVdevs = [\<lparr>vsType = ''disk'', vsDisks = [''a'']\<rparr>], spSpecial = [], spDedup = [],
      spLog = [\<lparr>vsType = ''draid2'', vsDisks = [''b'', ''c'']\<rparr>], spCache = [], spSpare = [], spName = ''tank''\<rparr>
     = Inr [''create'', ''-f'', ''tank'', ''a'', ''log'', ''draid2'', ''b'', ''c'']"
proof -
  have "ValidatePoolName ''tank'' = None" by code_simp
  then show ?thesis
    by (simp add: buildCreateArgs_def emit_spec_def emit_group_def emit_disks_def validVdevTypes_def
        validLogTypes_def HasPrefix_def)
qed

end
