(* ===== verification/ZfsPoolStatus.thy ===== *)
theory ZfsPoolStatus
  imports ZfsPool
begin

text \<open>
  \<^verbatim>\<open>internal/host/zfs/pool\<close>, the reading side (\<open>parser.go\<close>, \<open>pool.go\<close>, \<open>scrub.go\<close>): the parsers of
  \<open>zpool list\<close>, \<open>zpool get\<close> and \<open>zpool status\<close>, and the scrub state derived from them.

  \<open>parseStatus\<close> keeps pointers into slices while it appends to them, so the slices are modelled with their
  backing arrays: a store of arrays with capacities, slices as a reference and a length, \<open>append\<close> that
  writes in place while the capacity lasts and copies otherwise. How much the runtime over-allocates is
  a parameter (\<open>grow\<close>). The conversion of a decimal fraction to a float is the parameter \<open>fmul\<close>.
\<close>

subsection \<open>zpool list and zpool get\<close>

record Pool =
  plName :: string
  plSizeBytes :: int
  plAllocated :: int
  plFree :: int
  plHealth :: string
  plReadOnly :: bool
  plFragmentation :: int
  plCapacity :: int
  plDedupRatio :: string

definition parseInt :: "string \<Rightarrow> int result" where
  "parseInt s = (if s = ''-'' then Inr 0 else of_opt num_error (Atoi s))"

definition parse_pool :: "string \<Rightarrow> Pool result" where
  "parse_pool line =
     (let f = Split line TAB
      in if length f \<noteq> 9 then Inl (Errorf ''zpool list: expected 9 fields, got %d in %q'')
         else bindE (parseUint (f ! 1)) (\<lambda>sz.
              bindE (parseUint (f ! 2)) (\<lambda>al.
              bindE (parseUint (f ! 3)) (\<lambda>fr.
              bindE (parseInt (f ! 6)) (\<lambda>fg.
              bindE (parseInt (f ! 7)) (\<lambda>cp.
              Inr \<lparr>plName = f ! 0, plSizeBytes = sz, plAllocated = al, plFree = fr, plHealth = f ! 4,
                   plReadOnly = (f ! 5 = ''on''), plFragmentation = fg, plCapacity = cp, plDedupRatio = f ! 8\<rparr>))))))"

definition parseList :: "string \<Rightarrow> Pool list result" where
  "parseList data = scan_rows MaxScanTokenSize parse_pool data"

text \<open>A later row for a property replaces an earlier one.\<close>

definition parse_prop :: "string \<Rightarrow> (string \<times> string) result" where
  "parse_prop line =
     (let f = Split line TAB
      in if length f < 3 then Inl (Errorf ''zpool get: bad line %q'') else Inr (f ! 1, f ! 2))"

definition put_prop :: "props \<Rightarrow> string \<times> string \<Rightarrow> props" where
  "put_prop m kv = kv # filter (\<lambda>x. fst x \<noteq> fst kv) m"

definition parseProps :: "string \<Rightarrow> props result" where
  "parseProps data =
     bindE (scan_rows MaxScanTokenSize parse_prop data) (\<lambda>rows. Inr (foldl put_prop [] rows))"

subsection \<open>The scan line\<close>

record ScrubStatus =
  ssState :: string
  ssRawLine :: string
  ssScannedBytes :: int
  ssTotalBytes :: int

definition extractToken :: "string \<Rightarrow> string \<Rightarrow> string option" where
  "extractToken s keyword =
     (case Index s ('' '' @ keyword) of
        None \<Rightarrow> None
      | Some idx \<Rightarrow>
          let parts = Fields (TrimSpace (take idx s))
          in if length parts = 0 then None else Some (last parts))"

definition suffixes :: "(char \<times> int) list" where
  "suffixes = [(CHR ''B'', 1), (CHR ''K'', 1024), (CHR ''M'', 1048576), (CHR ''G'', 1073741824),
     (CHR ''T'', 1099511627776), (CHR ''P'', 1125899906842624)]"

text \<open>\<open>fmul num sz\<close> is \<open>uint64(f * float64(sz))\<close> for the float \<open>f\<close> that \<open>num\<close> denotes, if it denotes one.\<close>

definition parseHumanSize :: "(string \<Rightarrow> int \<Rightarrow> int option) \<Rightarrow> string \<Rightarrow> int" where
  "parseHumanSize fmul s =
     (if length s = 0 then 0
      else case map_of suffixes (last s) of
             None \<Rightarrow> (case ParseUint64 s of None \<Rightarrow> 0 | Some v \<Rightarrow> v)
           | Some sz \<Rightarrow> (case fmul (butlast s) sz of None \<Rightarrow> 0 | Some v \<Rightarrow> v))"

definition token_size :: "(string \<Rightarrow> int \<Rightarrow> int option) \<Rightarrow> string option \<Rightarrow> int" where
  "token_size fmul t = (case t of None \<Rightarrow> 0 | Some x \<Rightarrow> parseHumanSize fmul x)"

definition parseScrubStatus :: "(string \<Rightarrow> int \<Rightarrow> int option) \<Rightarrow> string \<Rightarrow> ScrubStatus" where
  "parseScrubStatus fmul raw =
     (if raw = ''none requested''
      then \<lparr>ssState = ''none'', ssRawLine = raw, ssScannedBytes = 0, ssTotalBytes = 0\<rparr>
      else if HasPrefix raw ''scrub in progress''
      then \<lparr>ssState = ''in-progress'', ssRawLine = raw,
             ssScannedBytes = token_size fmul (extractToken raw ''scanned''),
             ssTotalBytes = token_size fmul (extractToken raw ''total'')\<rparr>
      else if HasPrefix raw ''resilvered''
      then \<lparr>ssState = ''resilver'', ssRawLine = raw, ssScannedBytes = 0, ssTotalBytes = 0\<rparr>
      else \<lparr>ssState = ''finished'', ssRawLine = raw, ssScannedBytes = 0, ssTotalBytes = 0\<rparr>)"

subsection \<open>Slices of vdevs\<close>

text \<open>A slice is nil or the index of its array and a length; a pointer is an array and a position.\<close>

type_synonym slice = "(nat \<times> nat) option"
type_synonym ptr = "nat \<times> nat"

record vnode =
  vnType :: string
  vnPath :: string
  vnState :: string
  vnReadErr :: int
  vnWriteErr :: int
  vnCksumErr :: int
  vnChildren :: slice

type_synonym varray = "nat \<times> vnode list"

type_synonym store = "varray list"

definition new_array :: "(nat \<Rightarrow> nat) \<Rightarrow> vnode list \<Rightarrow> varray" where
  "new_array grow xs = (let m = grow (length xs) in if m < length xs then length xs else m, xs)"

definition append_vdev :: "(nat \<Rightarrow> nat) \<Rightarrow> store \<Rightarrow> slice \<Rightarrow> vnode \<Rightarrow> store \<times> slice" where
  "append_vdev grow h s v =
     (case s of
        None \<Rightarrow> (h @ [new_array grow [v]], Some (length h, 1))
      | Some (a, n) \<Rightarrow>
          let (cap, xs) = h ! a
          in if n < cap then (h[a := (cap, take n xs @ [v] @ drop (Suc n) xs)], Some (a, Suc n))
             else (h @ [new_array grow (take n xs @ [v])], Some (length h, Suc n)))"

definition deref :: "store \<Rightarrow> ptr \<Rightarrow> vnode" where
  "deref h p = snd (h ! fst p) ! snd p"

definition assign :: "store \<Rightarrow> ptr \<Rightarrow> vnode \<Rightarrow> store" where
  "assign h p v = h[fst p := (fst (h ! fst p), (snd (h ! fst p))[snd p := v])]"

text \<open>The pointer to the last element of a slice.\<close>

definition last_ptr :: "slice \<Rightarrow> ptr option" where
  "last_ptr s = (case s of None \<Rightarrow> None | Some (a, n) \<Rightarrow> Some (a, n - 1))"

subsection \<open>zpool status\<close>

definition configDepth :: "string \<Rightarrow> int" where
  "configDepth line =
     (if line = [] \<or> hd line \<noteq> TAB then - 1
      else int (length (takeWhile (\<lambda>c. c = CHR '' '') (tl line)) div 2))"

definition vnode_of :: "string \<Rightarrow> string \<Rightarrow> string \<Rightarrow> vnode" where
  "vnode_of ty path state =
     \<lparr>vnType = ty, vnPath = path, vnState = state, vnReadErr = 0, vnWriteErr = 0, vnCksumErr = 0, vnChildren = None\<rparr>"

definition classifyVdev :: "string \<Rightarrow> string \<Rightarrow> vnode" where
  "classifyVdev name state =
     (if HasPrefix name ''mirror'' then vnode_of ''mirror'' [] state
      else if HasPrefix name ''raidz3'' then vnode_of ''raidz3'' [] state
      else if HasPrefix name ''raidz2'' then vnode_of ''raidz2'' [] state
      else if HasPrefix name ''raidz1'' \<or> HasPrefix name ''raidz'' then vnode_of ''raidz1'' [] state
      else if HasPrefix name ''draid'' then vnode_of ''draid'' [] state
      else if name = ''logs'' then vnode_of ''log'' [] state
      else if name = ''cache'' then vnode_of ''cache'' [] state
      else if name = ''spares'' then vnode_of ''spare'' [] state
      else if name = ''special'' then vnode_of ''special'' [] state
      else if name = ''dedup'' then vnode_of ''dedup'' [] state
      else vnode_of ''disk'' name state)"

record parse_state =
  psState :: string
  psScan :: "ScrubStatus option"
  psVdevs :: slice
  psStore :: store
  psInConfig :: bool
  psRootSeen :: bool
  psParents :: "ptr option list"

definition init_state :: parse_state where
  "init_state = \<lparr>psState = [], psScan = None, psVdevs = None, psStore = [], psInConfig = False,
     psRootSeen = False, psParents = replicate 4 None\<rparr>"

text \<open>\<open>parents[depth] = inserted\<close>, and the deeper entries become nil.\<close>

definition set_parent :: "ptr option list \<Rightarrow> nat \<Rightarrow> ptr option \<Rightarrow> ptr option list" where
  "set_parent ps d p = take d ps @ [p] @ replicate (length ps - Suc d) None"

text \<open>A row at a depth below 4 that is not the pool itself.\<close>

definition insert_row :: "(nat \<Rightarrow> nat) \<Rightarrow> parse_state \<Rightarrow> nat \<Rightarrow> vnode \<Rightarrow> parse_state" where
  "insert_row grow st d v =
     (case (if d = 0 then None else psParents st ! (d - 1)) of
        None \<Rightarrow>
          (case append_vdev grow (psStore st) (psVdevs st) v of
             (h, s) \<Rightarrow> st\<lparr>psStore := h, psVdevs := s, psParents := set_parent (psParents st) d (last_ptr s)\<rparr>)
      | Some p \<Rightarrow>
          (case append_vdev grow (psStore st) (vnChildren (deref (psStore st) p)) v of
             (h, s) \<Rightarrow>
               st\<lparr>psStore := assign h p ((deref h p)\<lparr>vnChildren := s\<rparr>),
                  psParents := set_parent (psParents st) d (last_ptr s)\<rparr>))"

definition config_row :: "(nat \<Rightarrow> nat) \<Rightarrow> parse_state \<Rightarrow> string \<Rightarrow> string \<Rightarrow> parse_state" where
  "config_row grow st line trim =
     (let fields = Fields trim
      in if length fields = 0 then st
         else let name = fields ! 0;
                  state = (if length fields \<ge> 2 then fields ! 1 else ''-'');
                  depth = configDepth line
              in if depth < 0 then st
                 else if depth \<ge> int (length (psParents st)) then st
                 else let v = classifyVdev name state
                      in if depth = 0 \<and> \<not> psRootSeen st
                         then st\<lparr>psRootSeen := True, psParents := (psParents st)[0 := None]\<rparr>
                         else insert_row grow st (nat depth) v)"

definition status_line :: "(string \<Rightarrow> int \<Rightarrow> int option) \<Rightarrow> (nat \<Rightarrow> nat) \<Rightarrow> parse_state \<Rightarrow> string \<Rightarrow> parse_state" where
  "status_line fmul grow st line =
     (let trim = TrimSpace line
      in if HasPrefix trim ''state:'' then st\<lparr>psState := TrimSpace (TrimPrefix trim ''state:'')\<rparr>
         else if HasPrefix trim ''scan:''
         then st\<lparr>psScan := Some (parseScrubStatus fmul (TrimSpace (TrimPrefix trim ''scan:'')))\<rparr>
         else if HasPrefix trim ''config:'' then st\<lparr>psInConfig := True\<rparr>
         else if HasPrefix trim ''errors:'' then st\<lparr>psInConfig := False\<rparr>
         else if \<not> psInConfig st \<or> trim = [] \<or> HasPrefix trim ''NAME'' then st
         else config_row grow st line trim)"

text \<open>The value of the slice at the end: a tree of at most four levels, one per depth the parser tracks.\<close>

datatype Vdev = Vdev (vdType: string) (vdPath: string) (vdState: string)
  (vdReadErr: int) (vdWriteErr: int) (vdCksumErr: int) (vdChildren: "Vdev list")

fun read_slice :: "nat \<Rightarrow> store \<Rightarrow> slice \<Rightarrow> Vdev list" where
  "read_slice k h None = []"
| "read_slice 0 h (Some s) = []"
| "read_slice (Suc k) h (Some (a, n)) =
     map (\<lambda>v. Vdev (vnType v) (vnPath v) (vnState v) (vnReadErr v) (vnWriteErr v) (vnCksumErr v)
                (read_slice k h (vnChildren v)))
       (take n (snd (h ! a)))"

record Status =
  stState :: string
  stScan :: "ScrubStatus option"
  stVdevs :: "Vdev list"

definition parseStatus :: "(string \<Rightarrow> int \<Rightarrow> int option) \<Rightarrow> (nat \<Rightarrow> nat) \<Rightarrow> string \<Rightarrow> Status result" where
  "parseStatus fmul grow data =
     (case scan_lines MaxScanTokenSize data of
        (ls, err) \<Rightarrow>
          let st = foldl (status_line fmul grow) init_state ls
          in check err (Inr \<lparr>stState = psState st, stScan = psScan st,
               stVdevs = read_slice 4 (psStore st) (psVdevs st)\<rparr>))"

subsection \<open>Operations\<close>

record Detail =
  dtPool :: Pool
  dtProps :: props
  dtStatus :: Status

definition ErrNotFound :: error where
  "ErrNotFound = Errorf ''pool not found''"

definition list_columns :: string where
  "list_columns = ''name,size,allocated,free,health,readonly,fragmentation,capacity,dedupratio''"

definition pool_List :: "'w runner \<Rightarrow> string \<Rightarrow> 'w \<Rightarrow> Pool list result \<times> 'w" where
  "pool_List run bin w = run_parse run bin (Inr [''list'', ''-H'', ''-p'', ''-o'', list_columns]) parseList w"

definition pool_Get ::
  "(string \<Rightarrow> int \<Rightarrow> int option) \<Rightarrow> (nat \<Rightarrow> nat) \<Rightarrow> 'w runner \<Rightarrow> string \<Rightarrow> string \<Rightarrow> 'w \<Rightarrow> Detail result \<times> 'w" where
  "pool_Get fmul grow run bin name w =
     (case run bin [''list'', ''-H'', ''-p'', ''-o'', list_columns, name] w of
        ((_, Some e), w) \<Rightarrow> (Inl (if stderr_contains e ''no such pool'' then ErrNotFound else e), w)
      | ((out, None), w) \<Rightarrow>
          (case parseList out of
             Inl e \<Rightarrow> (Inl e, w)
           | Inr [] \<Rightarrow> (Inl ErrNotFound, w)
           | Inr (p # _) \<Rightarrow>
               (case run_parse run bin (Inr [''get'', ''-H'', ''-p'', ''all'', name]) parseProps w of
                  (Inl e, w) \<Rightarrow> (Inl e, w)
                | (Inr props, w) \<Rightarrow>
                    (case run_parse run bin (Inr [''status'', ''-P'', name]) (parseStatus fmul grow) w of
                       (Inl e, w) \<Rightarrow> (Inl e, w)
                     | (Inr st, w) \<Rightarrow> (Inr \<lparr>dtPool = p, dtProps = props, dtStatus = st\<rparr>, w)))))"

record ScrubInfo =
  siState :: string
  siScannedBytes :: int
  siTotalBytes :: int
  siErrors :: int
  siRawLine :: string

definition wrapU64 :: "int \<Rightarrow> int" where
  "wrapU64 n = n mod 18446744073709551616"

fun sumVdevErrors :: "Vdev list \<Rightarrow> int" and vdev_errors :: "Vdev \<Rightarrow> int" where
  "sumVdevErrors [] = 0"
| "sumVdevErrors (v # vs) = wrapU64 (vdev_errors v + sumVdevErrors vs)"
| "vdev_errors (Vdev ty path state r w c ch) =
     wrapU64 ((if ty = ''disk'' \<and> path \<noteq> [] then r + w + c else 0) + sumVdevErrors ch)"

definition pool_ScrubStatus ::
  "(string \<Rightarrow> int \<Rightarrow> int option) \<Rightarrow> (nat \<Rightarrow> nat) \<Rightarrow> 'w runner \<Rightarrow> string \<Rightarrow> string \<Rightarrow> 'w \<Rightarrow> ScrubInfo result \<times> 'w" where
  "pool_ScrubStatus fmul grow run bin name w =
     (case pool_Get fmul grow run bin name w of
        (Inl e, w) \<Rightarrow> (Inl e, w)
      | (Inr d, w) \<Rightarrow>
          let st = dtStatus d;
              errs = sumVdevErrors (stVdevs st)
          in (Inr (case stScan st of
                None \<Rightarrow> \<lparr>siState = ''none'', siScannedBytes = 0, siTotalBytes = 0, siErrors = errs, siRawLine = []\<rparr>
              | Some sc \<Rightarrow> \<lparr>siState = ssState sc, siScannedBytes = ssScannedBytes sc,
                  siTotalBytes = ssTotalBytes sc, siErrors = errs, siRawLine = ssRawLine sc\<rparr>), w))"

definition state_is ::
  "string \<Rightarrow> ScrubInfo result \<times> 'w \<Rightarrow> bool result \<times> 'w" where
  "state_is s r = (bindE (fst r) (\<lambda>info. Inr (siState info = s)), snd r)"

definition pool_IsScrubInProgress ::
  "(string \<Rightarrow> int \<Rightarrow> int option) \<Rightarrow> (nat \<Rightarrow> nat) \<Rightarrow> 'w runner \<Rightarrow> string \<Rightarrow> string \<Rightarrow> 'w \<Rightarrow> bool result \<times> 'w" where
  "pool_IsScrubInProgress fmul grow run bin name w =
     state_is ''in-progress'' (pool_ScrubStatus fmul grow run bin name w)"

definition pool_IsResilverInProgress ::
  "(string \<Rightarrow> int \<Rightarrow> int option) \<Rightarrow> (nat \<Rightarrow> nat) \<Rightarrow> 'w runner \<Rightarrow> string \<Rightarrow> string \<Rightarrow> 'w \<Rightarrow> bool result \<times> 'w" where
  "pool_IsResilverInProgress fmul grow run bin name w =
     state_is ''resilver'' (pool_ScrubStatus fmul grow run bin name w)"

definition pool_StartScrub :: "'w runner \<Rightarrow> string \<Rightarrow> string \<Rightarrow> 'w \<Rightarrow> error option \<times> 'w" where
  "pool_StartScrub run bin name = pool_Scrub run bin name ScrubStart"

definition pool_StopScrub :: "'w runner \<Rightarrow> string \<Rightarrow> string \<Rightarrow> 'w \<Rightarrow> error option \<times> 'w" where
  "pool_StopScrub run bin name = pool_Scrub run bin name ScrubStop"

definition pool_PoolNames :: "'w runner \<Rightarrow> string \<Rightarrow> 'w \<Rightarrow> string list result \<times> 'w" where
  "pool_PoolNames run bin w =
     (case pool_List run bin w of (r, w) \<Rightarrow> (bindE r (\<lambda>ps. Inr (map plName ps)), w))"

subsection \<open>The store stays well formed\<close>

definition slice_ok :: "store \<Rightarrow> slice \<Rightarrow> bool" where
  "slice_ok h s \<longleftrightarrow> (case s of None \<Rightarrow> True | Some (a, n) \<Rightarrow> a < length h \<and> 0 < n \<and> n \<le> length (snd (h ! a)))"

definition ptr_ok :: "store \<Rightarrow> ptr option \<Rightarrow> bool" where
  "ptr_ok h p \<longleftrightarrow> (case p of None \<Rightarrow> True | Some (a, i) \<Rightarrow> a < length h \<and> i < length (snd (h ! a)))"

definition counters_zero :: "vnode \<Rightarrow> bool" where
  "counters_zero v \<longleftrightarrow> vnReadErr v = 0 \<and> vnWriteErr v = 0 \<and> vnCksumErr v = 0"

definition node_ok :: "store \<Rightarrow> vnode \<Rightarrow> bool" where
  "node_ok h v \<longleftrightarrow> counters_zero v \<and> slice_ok h (vnChildren v)"

definition store_ok :: "store \<Rightarrow> bool" where
  "store_ok h \<longleftrightarrow> (\<forall>a\<in>set h. \<forall>v\<in>set (snd a). node_ok h v)"

definition state_ok :: "parse_state \<Rightarrow> bool" where
  "state_ok st \<longleftrightarrow> store_ok (psStore st) \<and> slice_ok (psStore st) (psVdevs st)
     \<and> list_all (ptr_ok (psStore st)) (psParents st)"

text \<open>Arrays are only added and only get longer.\<close>

definition store_le :: "store \<Rightarrow> store \<Rightarrow> bool" where
  "store_le h h' \<longleftrightarrow> length h \<le> length h' \<and> (\<forall>a<length h. length (snd (h ! a)) \<le> length (snd (h' ! a)))"

lemma store_le_mono:
  assumes "store_le h h'"
  shows "slice_ok h s \<Longrightarrow> slice_ok h' s" "ptr_ok h p \<Longrightarrow> ptr_ok h' p" "node_ok h v \<Longrightarrow> node_ok h' v"
proof -
  show *: "slice_ok h s \<Longrightarrow> slice_ok h' s" for s
    using assms unfolding slice_ok_def store_le_def
    by (auto split: option.splits prod.splits intro: order_trans order_less_le_trans)
  show "ptr_ok h p \<Longrightarrow> ptr_ok h' p"
    using assms unfolding ptr_ok_def store_le_def
    by (auto split: option.splits prod.splits intro: order_less_le_trans)
  show "node_ok h v \<Longrightarrow> node_ok h' v" using * by (simp add: node_ok_def)
qed

lemma store_le_append: "store_le h (h @ [x])"
  by (simp add: store_le_def nth_append)

lemma store_le_update:
  "a < length h \<Longrightarrow> length (snd (h ! a)) \<le> length (snd x) \<Longrightarrow> store_le h (h[a := x])"
  by (auto simp: store_le_def nth_list_update)

lemma store_okD: "store_ok h \<Longrightarrow> a < length h \<Longrightarrow> v \<in> set (snd (h ! a)) \<Longrightarrow> node_ok h v"
  by (auto simp: store_ok_def)

lemma new_array_simps [simp]: "snd (new_array grow xs) = xs"
  by (simp add: new_array_def)

lemma store_ok_append:
  assumes "store_ok h" "\<forall>v\<in>set xs. node_ok h v"
  shows "store_ok (h @ [new_array grow xs])"
  using assms store_le_mono(3) [OF store_le_append] by (auto simp: store_ok_def)

lemma store_ok_update:
  assumes "store_ok h" "\<forall>v\<in>set xs. node_ok h v" "a < length h" "length (snd (h ! a)) \<le> length xs"
  shows "store_ok (h[a := (cap, xs)])"
proof -
  have "store_le h (h[a := (cap, xs)])" using assms(3,4) by (simp add: store_le_update)
  note mono = store_le_mono(3) [OF this]
  show ?thesis unfolding store_ok_def
    using assms(1,2) mono set_update_subset_insert [of h a "(cap, xs)"] by (auto simp: store_ok_def)
qed

lemma append_vdev_ok:
  assumes h: "store_ok h" "slice_ok h s" "node_ok h v" and r: "append_vdev grow h s v = (h', s')"
  shows "store_ok h' \<and> slice_ok h' s' \<and> store_le h h' \<and> ptr_ok h' (last_ptr s')"
proof (cases s)
  case None
  then show ?thesis using r h store_ok_append [OF h(1), of "[v]" grow]
    by (auto simp: append_vdev_def slice_ok_def ptr_ok_def last_ptr_def nth_append store_le_append)
next
  case (Some an)
  obtain a n where s: "s = Some (a, n)" using Some by (cases an) simp
  obtain cap xs where x: "h ! a = (cap, xs)" by (cases "h ! a")
  have b: "a < length h" "0 < n" "n \<le> length xs" using h(2) s x by (auto simp: slice_ok_def)
  have xs: "\<forall>v\<in>set xs. node_ok h v" using store_okD [OF h(1) b(1)] x by simp
  then have parts: "\<forall>u\<in>set (take n xs @ [v]). node_ok h u" "\<forall>u\<in>set (take n xs @ [v] @ drop (Suc n) xs). node_ok h u"
    using h(3) by (auto dest: in_set_takeD in_set_dropD)
  show ?thesis
  proof (cases "n < cap")
    case True
    define ys where "ys = take n xs @ [v] @ drop (Suc n) xs"
    have l: "length xs \<le> length ys" "n < length ys" using b(3) by (simp_all add: ys_def)
    have e: "h' = h[a := (cap, ys)]" "s' = Some (a, Suc n)"
      using r s x True by (auto simp: append_vdev_def ys_def)
    show ?thesis
      using store_ok_update [OF h(1) parts(2) [folded ys_def] b(1)] store_le_update [OF b(1), of "(cap, ys)"] l b x
      by (auto simp: e slice_ok_def ptr_ok_def last_ptr_def)
  next
    case False
    then have e: "h' = h @ [new_array grow (take n xs @ [v])]" "s' = Some (length h, Suc n)"
      using r s x by (auto simp: append_vdev_def)
    show ?thesis
      using store_ok_append [OF h(1) parts(1)] b
      by (auto simp: e slice_ok_def ptr_ok_def last_ptr_def store_le_append nth_append)
  qed
qed

lemma classifyVdev_ok: "node_ok h (classifyVdev name state)"
  by (simp add: classifyVdev_def vnode_of_def node_ok_def counters_zero_def slice_ok_def)

lemma set_parent_ok:
  "list_all P ps \<Longrightarrow> P p \<Longrightarrow> P None \<Longrightarrow> list_all P (set_parent ps d p)"
  by (auto simp: set_parent_def list_all_iff dest: in_set_takeD)

lemma insert_row_ok:
  assumes st: "state_ok st" and v: "node_ok (psStore st) v" and d: "d < length (psParents st)"
  shows "state_ok (insert_row grow st d v)"
proof (cases "if d = 0 then None else psParents st ! (d - 1)")
  case None
  obtain h s where r: "append_vdev grow (psStore st) (psVdevs st) v = (h, s)" by fastforce
  then have "store_ok h \<and> slice_ok h s \<and> store_le (psStore st) h \<and> ptr_ok h (last_ptr s)"
    using st v by (intro append_vdev_ok) (auto simp: state_ok_def)
  then show ?thesis using st r None
    by (auto simp: insert_row_def state_ok_def ptr_ok_def [of _ None] intro!: set_parent_ok
        elim: list.pred_mono_strong store_le_mono(2))
next
  case (Some p)
  define h0 where "h0 = psStore st"
  have "psParents st ! (d - 1) = Some p" using Some by (simp split: if_splits)
  moreover have "ptr_ok h0 (psParents st ! (d - 1))"
    using st d by (simp add: state_ok_def list_all_length h0_def)
  ultimately have "ptr_ok h0 (Some p)" by simp
  then have p: "fst p < length h0" "snd p < length (snd (h0 ! fst p))" by (cases p; simp add: ptr_ok_def)+
  then have n: "node_ok h0 (deref h0 p)"
    using st by (auto simp: state_ok_def deref_def h0_def intro: store_okD)
  obtain h s where r: "append_vdev grow h0 (vnChildren (deref h0 p)) v = (h, s)" by fastforce
  then have a: "store_ok h \<and> slice_ok h s \<and> store_le h0 h \<and> ptr_ok h (last_ptr s)"
    using st v n by (intro append_vdev_ok) (auto simp: state_ok_def node_ok_def h0_def)
  have q: "fst p < length h" "snd p < length (snd (h ! fst p))" using a p by (auto simp: store_le_def intro: order_less_le_trans)
  define u where "u = (deref h p)\<lparr>vnChildren := s\<rparr>"
  have "node_ok h (deref h p)" using a q by (auto simp: deref_def intro: store_okD)
  then have u: "node_ok h u" using a by (simp add: u_def node_ok_def counters_zero_def)
  have "\<forall>w\<in>set ((snd (h ! fst p))[snd p := u]). node_ok h w"
    using a q u set_update_subset_insert [of "snd (h ! fst p)" "snd p" u] by (auto intro: store_okD)
  then have h': "store_ok (assign h p u)" "store_le h (assign h p u)"
    using a q by (auto simp: assign_def intro!: store_ok_update store_le_update)
  show ?thesis using st Some r a h' unfolding state_ok_def h0_def [symmetric]
    by (auto simp: insert_row_def u_def h0_def [symmetric] ptr_ok_def [of _ None] intro!: set_parent_ok
        elim!: list.pred_mono_strong intro: store_le_mono)
qed

lemma config_row_ok:
  assumes "state_ok st"
  shows "state_ok (config_row grow st line trim)"
proof -
  have "state_ok (st\<lparr>psRootSeen := True, psParents := (psParents st)[0 := None]\<rparr>)"
    using assms set_update_subset_insert [of "psParents st" 0 None]
    by (auto simp: state_ok_def list_all_iff ptr_ok_def [of _ None])
  then show ?thesis
    using assms by (auto simp: config_row_def Let_def nat_less_iff intro!: insert_row_ok classifyVdev_ok)
qed

lemma status_line_ok: "state_ok st \<Longrightarrow> state_ok (status_line fmul grow st line)"
  using config_row_ok [of st] by (simp add: status_line_def Let_def) (simp add: state_ok_def)

lemma status_lines_ok: "state_ok st \<Longrightarrow> state_ok (foldl (status_line fmul grow) st ls)"
  by (induction ls arbitrary: st) (simp_all add: status_line_ok)

lemma init_state_ok: "state_ok init_state"
  by (auto simp: init_state_def state_ok_def store_ok_def slice_ok_def ptr_ok_def list_all_iff)

lemma sumVdevErrors_read:
  "store_ok h \<Longrightarrow> slice_ok h s \<Longrightarrow> sumVdevErrors (read_slice k h s) = 0"
proof (induction k h s rule: read_slice.induct)
  case (3 k h a n)
  have m: "node_ok h v" if "v \<in> set (take n (snd (h ! a)))" for v
    using 3 that by (auto simp: slice_ok_def dest: in_set_takeD intro: store_okD)
  have "sumVdevErrors (map (\<lambda>v. Vdev (vnType v) (vnPath v) (vnState v) (vnReadErr v) (vnWriteErr v) (vnCksumErr v)
          (read_slice k h (vnChildren v))) vs) = 0"
    if "set vs \<subseteq> set (take n (snd (h ! a)))" for vs
    using that
  proof (induction vs)
    case (Cons v vs)
    then have v: "node_ok h v" "v \<in> set (take n (snd (h ! a)))" using m by simp_all
    then have "sumVdevErrors (read_slice k h (vnChildren v)) = 0"
      using 3 by (simp add: node_ok_def)
    then show ?case using Cons v by (simp add: node_ok_def counters_zero_def wrapU64_def)
  qed simp
  then show ?case by simp
qed simp_all

lemma parseStatus_errors:
  "parseStatus fmul grow data = Inr st \<Longrightarrow> sumVdevErrors (stVdevs st) = 0"
  using status_lines_ok [OF init_state_ok] sumVdevErrors_read
  by (fastforce simp: parseStatus_def Let_def result_simps state_ok_def split: prod.splits)

lemma pool_Get_status:
  "pool_Get fmul grow run bin name w = (Inr d, w') \<Longrightarrow> \<exists>out. parseStatus fmul grow out = Inr (dtStatus d)"
  by (auto simp: pool_Get_def run_parse_def result_simps split: prod.splits option.splits sum.splits list.splits)

subsection \<open>Properties\<close>

text \<open>
  The error count of a scrub report is always zero. \<open>ScrubInfo.Errors\<close> is documented as the sum of the
  read, write and checksum errors of the leaf vdevs, but the status parser never reads those columns:
  whatever the host prints, a report that is produced has the count 0.
\<close>

theorem ScrubStatus_errors_zero:
  assumes "pool_ScrubStatus fmul grow run bin name w = (Inr info, w')"
  shows "siErrors info = 0"
proof -
  obtain d w1 where d: "pool_Get fmul grow run bin name w = (Inr d, w1)"
    using assms by (auto simp: pool_ScrubStatus_def split: prod.splits sum.splits)
  obtain out where "parseStatus fmul grow out = Inr (dtStatus d)" using pool_Get_status [OF d] by blast
  then have "sumVdevErrors (stVdevs (dtStatus d)) = 0" by (rule parseStatus_errors)
  then show ?thesis using assms d by (auto simp: pool_ScrubStatus_def Let_def split: option.splits)
qed

definition tabs :: "string list \<Rightarrow> string" where
  "tabs xs = Join xs [TAB]"

definition degraded_list :: string where
  "degraded_list = tabs [''tank'', ''9'', ''4'', ''5'', ''DEGRADED'', ''off'', ''0'', ''44'', ''1.00x'']"

definition degraded_status :: string where
  "degraded_status = ''config:'' @ [LF, TAB] @ ''tank DEGRADED 0 0 0'' @ [LF, TAB] @ ''  /dev/a DEGRADED 7 0 9''"

definition failing_host :: "unit runner" where
  "failing_host bin args w =
     ((if hd args = ''list'' then degraded_list else if hd args = ''get'' then [] else degraded_status, None), w)"

theorem ScrubStatus_errors_zero_witness:
  "\<exists>info. pool_ScrubStatus (\<lambda>_ _. None) (\<lambda>n. n) failing_host ''zpool'' ''tank'' () = (Inr info, ())
     \<and> siErrors info = 0"
proof -
  obtain p where "parseList degraded_list = Inr [p]"
  proof
    show "parseList degraded_list = Inr [\<lparr>plName = ''tank'', plSizeBytes = 9, plAllocated = 4, plFree = 5,
      plHealth = ''DEGRADED'', plReadOnly = False, plFragmentation = 0, plCapacity = 44, plDedupRatio = ''1.00x''\<rparr>]"
      by code_simp
  qed
  moreover have "parseProps [] = Inr []" by code_simp
  moreover have "snd (scan_lines MaxScanTokenSize degraded_status) = None" by code_simp
  then obtain st where "parseStatus (\<lambda>_ _. None) (\<lambda>n. n) degraded_status = Inr st"
    by (cases "scan_lines MaxScanTokenSize degraded_status") (auto simp: parseStatus_def Let_def)
  ultimately obtain info where
    e: "pool_ScrubStatus (\<lambda>_ _. None) (\<lambda>n. n) failing_host ''zpool'' ''tank'' () = (Inr info, ())"
    by (auto simp: pool_ScrubStatus_def pool_Get_def run_parse_def failing_host_def Let_def)
  from ScrubStatus_errors_zero [OF e] show ?thesis using e by blast
qed

text \<open>
  The resilver state is reported the wrong way round. The line \<open>zpool status\<close> prints while a resilver
  runs (\<open>resilver in progress since ...\<close>) is classified as finished, and the line it prints
  after one has completed (\<open>resilvered ...\<close>) as resilvering.
\<close>

theorem resilver_state_inverted:
  "ssState (parseScrubStatus fmul (''resilver in progress'' @ rest)) = ''finished''
   \<and> ssState (parseScrubStatus fmul (''resilvered '' @ rest)) = ''resilver''"
  by (simp add: parseScrubStatus_def HasPrefix_def)

end
