(* ===== verification/TpmWire.thy ===== *)
theory TpmWire
  imports HostExec "HOL-Library.Word"
begin

unbundle bit_operations_syntax

text \<open>
  \<^verbatim>\<open>internal/host/tpm\<close>, the byte formats: the sealed blob of \<open>wire.go\<close> and the envelope of
  \<open>envelope.go\<close>. Bytes and lengths keep their width (8 and 16 bits). The TPM, the random source and
  AES-GCM are parameters; what is used of them is stated where it is used.
\<close>

type_synonym byte = "8 word"

subsection \<open>Big-endian lengths\<close>

definition AppendUint16 :: "byte list \<Rightarrow> 16 word \<Rightarrow> byte list" where
  "AppendUint16 out v = out @ [ucast (drop_bit 8 v), ucast v]"

definition Uint16 :: "byte list \<Rightarrow> 16 word" where
  "Uint16 b = ucast (b ! 1) OR push_bit 8 (ucast (b ! 0))"

subsection \<open>Sealed blobs\<close>

definition wireMagic :: "byte list" where
  "wireMagic = [0x54, 0x50, 0x4D, 0x53]"

definition wireVersion :: "16 word" where "wireVersion = 1"
definition maxPCRs :: nat where "maxPCRs = 24"
definition maxBlobField :: int where "maxBlobField = 4096"

text \<open>\<open>ErrInvalidBlob\<close> with the cause the format string adds.\<close>

definition invalid :: "string \<Rightarrow> error" where
  "invalid cause = Wrapf (''%w: '' @ cause) (Errorf ''tpm: invalid sealed blob'')"

definition marshalSealedBlob :: "byte list \<Rightarrow> byte list \<Rightarrow> byte list \<Rightarrow> byte list result" where
  "marshalSealedBlob pcrs pub priv =
     (if length pcrs > maxPCRs then Inl (invalid ''too many PCRs (%d)'')
      else if int (length pub) > maxBlobField then Inl (invalid ''pub too large (%d)'')
      else if int (length priv) > maxBlobField then Inl (invalid ''priv too large (%d)'')
      else if list_ex (\<lambda>p. unat p \<ge> maxPCRs) pcrs then Inl (invalid ''PCR index out of range: %d'')
      else let out = wireMagic;
               out = AppendUint16 out wireVersion;
               out = AppendUint16 out (of_nat (length pcrs)) @ pcrs;
               out = AppendUint16 out (of_nat (length pub)) @ pub;
               out = AppendUint16 out (of_nat (length priv)) @ priv
           in Inr out)"

text \<open>The reader: the bytes after the position.\<close>

definition take_n :: "nat \<Rightarrow> byte list \<Rightarrow> (byte list \<times> byte list) option" where
  "take_n n r = (if n > length r then None else Some (take n r, drop n r))"

definition takeU16 :: "byte list \<Rightarrow> (16 word \<times> byte list) option" where
  "takeU16 r = map_option (\<lambda>(b, r). (Uint16 b, r)) (take_n 2 r)"

definition read_or :: "string \<Rightarrow> ('a \<times> byte list) option \<Rightarrow> ('a \<times> byte list) result" where
  "read_or cause x = of_opt (invalid cause) x"

text \<open>A length-prefixed field of at most \<open>maxBlobField\<close> bytes.\<close>

definition read_field :: "string \<Rightarrow> string \<Rightarrow> string \<Rightarrow> byte list \<Rightarrow> (byte list \<times> byte list) result" where
  "read_field short_len too_large short r =
     bindE (read_or short_len (takeU16 r)) (\<lambda>(n, r).
     if uint n > maxBlobField then Inl (invalid too_large) else read_or short (take_n (unat n) r))"

definition unmarshalSealedBlob :: "byte list \<Rightarrow> (byte list \<times> byte list \<times> byte list) result" where
  "unmarshalSealedBlob b =
     bindE (read_or ''short header'' (take_n 4 b)) (\<lambda>(magic, r).
     if magic \<noteq> wireMagic then Inl (invalid ''bad magic %q'')
     else bindE (read_or ''short version'' (takeU16 r)) (\<lambda>(ver, r).
     if ver \<noteq> wireVersion then Inl (invalid ''unsupported version %d'')
     else bindE (read_or ''short pcr-count'' (takeU16 r)) (\<lambda>(pcrCount, r).
     if unat pcrCount > maxPCRs then Inl (invalid ''pcr-count too large (%d)'')
     else bindE (read_or ''short pcr list'' (take_n (unat pcrCount) r)) (\<lambda>(pcrs, r).
     if list_ex (\<lambda>p. unat p \<ge> maxPCRs) pcrs then Inl (invalid ''PCR index out of range: %d'')
     else bindE (read_field ''short pub-len'' ''pub-len too large (%d)'' ''short pub'' r) (\<lambda>(pub, r).
     bindE (read_field ''short priv-len'' ''priv-len too large (%d)'' ''short priv'' r) (\<lambda>(priv, r).
     if length r \<noteq> 0 then Inl (invalid ''%d trailing bytes'') else Inr (pcrs, pub, priv)))))))"

subsection \<open>Envelopes\<close>

text \<open>
  What the envelope uses of the rest of the system: two draws of random bytes, the TPM's \<open>Seal\<close> and
  \<open>Unseal\<close>, and AES-GCM under a key, whose \<open>NewCipher\<close> fails for a key of a wrong length.
\<close>

record crypto =
  rand_dek :: "byte list result"
  rand_nonce :: "byte list result"
  tpm_Seal :: "byte list \<Rightarrow> byte list result"
  tpm_Unseal :: "byte list \<Rightarrow> byte list result"
  new_gcm :: "byte list \<Rightarrow> error option"
  gcm_Seal :: "byte list \<Rightarrow> byte list \<Rightarrow> byte list \<Rightarrow> byte list"
  gcm_Open :: "byte list \<Rightarrow> byte list \<Rightarrow> byte list \<Rightarrow> byte list result"

definition WrapAEAD :: "crypto \<Rightarrow> byte list \<Rightarrow> byte list result" where
  "WrapAEAD c plaintext =
     bindE (wrapE ''rand DEK: %w'' (rand_dek c)) (\<lambda>dek.
     bindE (wrapE ''tpm seal DEK: %w'' (tpm_Seal c dek)) (\<lambda>sealedDEK.
     if int (length sealedDEK) > 65535 then Inl (Errorf ''sealed DEK overflows uint16: %d bytes'')
     else check (wrap_err ''aes cipher: %w'' (new_gcm c dek))
       (bindE (wrapE ''rand nonce: %w'' (rand_nonce c)) (\<lambda>nonce.
        Inr (AppendUint16 [] (of_nat (length sealedDEK)) @ sealedDEK @ nonce @ gcm_Seal c dek nonce plaintext)))))"

definition UnwrapAEAD :: "crypto \<Rightarrow> byte list \<Rightarrow> byte list result" where
  "UnwrapAEAD c blob =
     (if length blob < 2 then Inl (Errorf ''envelope blob too short: %d bytes'')
      else let dekLen = unat (Uint16 (take 2 blob))
           in if dekLen = 0 then Inl (Errorf ''envelope blob: zero-length sealed DEK'')
              else if length blob < 2 + dekLen + 12 then Inl (Errorf ''envelope blob truncated: have %d, need >= %d'')
              else bindE (tpm_Unseal c (take dekLen (drop 2 blob))) (\<lambda>dek.
                   check (wrap_err ''aes cipher: %w'' (new_gcm c dek))
                     (wrapE ''aes-gcm open: %w''
                       (gcm_Open c dek (take 12 (drop (2 + dekLen) blob)) (drop (2 + dekLen + 12) blob)))))"

subsection \<open>Lemmas\<close>

lemma Uint16_bytes [simp]: "Uint16 [ucast (drop_bit 8 v), ucast v] = v"
proof -
  have "ucast (ucast v :: byte) OR push_bit 8 (ucast (ucast (drop_bit 8 v) :: byte)) = v"
    by (rule bit_word_eqI) (auto simp: bit_simps)
  then show ?thesis by (simp add: Uint16_def)
qed

lemma bytes_Uint16 [simp]: "[ucast (drop_bit 8 (Uint16 [a, b])), ucast (Uint16 [a, b])] = [a, b]"
proof -
  have "(ucast (drop_bit 8 (ucast b OR push_bit 8 (ucast a) :: 16 word)) :: byte) = a"
    by (rule bit_word_eqI) (auto simp: bit_simps dest: bit_imp_le_length)
  moreover have "(ucast (ucast b OR push_bit 8 (ucast a) :: 16 word) :: byte) = b"
    by (rule bit_word_eqI) (auto simp: bit_simps dest: bit_imp_le_length)
  ultimately show ?thesis by (simp add: Uint16_def)
qed

lemma unat_of_length [simp]: "int (length xs) \<le> 65535 \<Longrightarrow> unat (of_nat (length xs) :: 16 word) = length xs"
  by (simp add: unat_of_nat)

lemma take_n_append: "take_n (length xs) (xs @ r) = Some (xs, r)"
  by (simp add: take_n_def)

lemma take_n_Some: "take_n n r = Some (xs, r') \<longleftrightarrow> r = xs @ r' \<and> length xs = n"
  by (auto simp: take_n_def append_eq_conv_conj)

lemma takeU16_append: "takeU16 (AppendUint16 [] v @ r) = Some (v, r)"
  by (simp add: takeU16_def AppendUint16_def take_n_def)

lemma takeU16_Some: "takeU16 r = Some (v, r') \<longleftrightarrow> r = AppendUint16 [] v @ r'"
proof
  assume "takeU16 r = Some (v, r')"
  then obtain b where b: "take_n 2 r = Some (b, r')" "v = Uint16 b" by (auto simp: takeU16_def)
  then have "length b = 2" "r = b @ r'" by (simp_all add: take_n_Some)
  moreover from \<open>length b = 2\<close> obtain x y where "b = [x, y]"
    by (metis (no_types, opaque_lifting) One_nat_def Suc_1 length_0_conv length_Suc_conv)
  ultimately show "r = AppendUint16 [] v @ r'" using b(2) by (simp add: AppendUint16_def)
qed (simp add: takeU16_append)

lemma AppendUint16_app: "AppendUint16 out v = out @ AppendUint16 [] v"
  by (simp add: AppendUint16_def)

lemma read_or_Inr: "read_or cause x = Inr y \<longleftrightarrow> x = Some y"
  by (cases x) (simp_all add: read_or_def of_opt_def)

lemma read_field_Inr:
  "read_field a b c r = Inr (xs, r') \<longleftrightarrow>
     int (length xs) \<le> maxBlobField \<and> r = AppendUint16 [] (of_nat (length xs)) @ xs @ r'"
  (is "?L \<longleftrightarrow> ?R")
proof
  assume ?L
  then obtain n r1 where n: "takeU16 r = Some (n, r1)" "uint n \<le> maxBlobField"
    "take_n (unat n) r1 = Some (xs, r')"
    by (auto simp: read_field_def bindE_eq_Inr read_or_Inr split: if_splits)
  then have "unat n = length xs" "r1 = xs @ r'" by (simp_all add: take_n_Some)
  moreover from this(1) [symmetric] have "n = of_nat (length xs)" by simp
  moreover have "uint n = int (unat n)" by simp
  ultimately show ?R using n by (simp add: takeU16_Some)
next
  assume R: ?R
  then have "unat (of_nat (length xs) :: 16 word) = length xs" by (simp add: maxBlobField_def)
  moreover from this have "uint (of_nat (length xs) :: 16 word) = int (length xs)" by (metis uint_nat)
  ultimately show ?L
    using R by (simp add: read_field_def bindE_def read_or_def of_opt_def takeU16_append take_n_append)
qed

text \<open>
  C13. The sealed-blob format is canonical in both directions: \<open>unmarshalSealedBlob\<close> accepts a byte
  string and returns a PCR selection and the two TPM areas exactly when \<open>marshalSealedBlob\<close> writes
  that byte string for them. So what was sealed is read back unchanged, two blobs that read the
  same are the same bytes, and no bytes are ignored.
\<close>

theorem unmarshal_iff_marshal:
  "unmarshalSealedBlob b = Inr (pcrs, pub, priv) \<longleftrightarrow> marshalSealedBlob pcrs pub priv = Inr b"
  (is "?L \<longleftrightarrow> ?R")
proof
  assume ?L
  then obtain n r1 r2 r3 where r: "b = wireMagic @ AppendUint16 [] wireVersion @ r1" "r1 = AppendUint16 [] n @ r2"
    "unat n \<le> maxPCRs" "r2 = pcrs @ r3" "length pcrs = unat n" "\<not> list_ex (\<lambda>p. unat p \<ge> maxPCRs) pcrs"
    and f: "int (length pub) \<le> maxBlobField" "int (length priv) \<le> maxBlobField"
    "r3 = AppendUint16 [] (of_nat (length pub)) @ pub @ AppendUint16 [] (of_nat (length priv)) @ priv"
    by (auto simp: unmarshalSealedBlob_def bindE_eq_Inr read_or_Inr take_n_Some takeU16_Some read_field_Inr
        split: if_splits)
  have n: "n = of_nat (length pcrs)" using r(5) by simp
  have l: "length pcrs \<le> maxPCRs" using r(3,5) by simp
  show ?R using l r(6) f(1,2) unfolding r(1,2,4) f(3) n
    by (simp add: marshalSealedBlob_def AppendUint16_app [of "_ @ _"] AppendUint16_app [of wireMagic])
next
  assume ?R
  then have f: "length pcrs \<le> maxPCRs" "int (length pub) \<le> maxBlobField" "int (length priv) \<le> maxBlobField"
    "\<not> list_ex (\<lambda>p. unat p \<ge> maxPCRs) pcrs"
    and b: "b = wireMagic @ AppendUint16 [] wireVersion @ AppendUint16 [] (of_nat (length pcrs)) @ pcrs
      @ AppendUint16 [] (of_nat (length pub)) @ pub @ AppendUint16 [] (of_nat (length priv)) @ priv @ []"
    by (auto simp: marshalSealedBlob_def AppendUint16_app [of "_ @ _"] AppendUint16_app [of wireMagic] split: if_splits)
  have pub: "read_field x y z (AppendUint16 [] (of_nat (length pub)) @ pub @ r) = Inr (pub, r)" for x y z r
    using f by (simp add: read_field_Inr)
  have priv: "read_field x y z (AppendUint16 [] (of_nat (length priv)) @ priv @ []) = Inr (priv, [])" for x y z
    using f by (simp only: read_field_Inr)
  have n: "unat (of_nat (length pcrs) :: 16 word) = length pcrs" using f(1) by (simp add: maxPCRs_def)
  have m: "take_n 4 (wireMagic @ r) = Some (wireMagic, r)" for r by (simp add: take_n_def wireMagic_def)
  show ?L using f by (simp only: unmarshalSealedBlob_def b m takeU16_append read_or_def of_opt_def option.case
        bindE_Inr prod.case n take_n_append pub priv) simp
qed

text \<open>
  What the envelope relies on. \<open>Seal\<close> and \<open>Unseal\<close> of a TPM whose PCRs have not changed are inverse
  and a sealed object is not empty; the random source fills the slices it is given; AES takes a
  32-byte key; GCM opens what it sealed under the same key and nonce, and adds a 16-byte tag.
\<close>

definition crypto_ok :: "crypto \<Rightarrow> bool" where
  "crypto_ok c \<longleftrightarrow>
     (\<forall>dek. rand_dek c = Inr dek \<longrightarrow> length dek = 32)
     \<and> (\<forall>nonce. rand_nonce c = Inr nonce \<longrightarrow> length nonce = 12)
     \<and> (\<forall>x s. tpm_Seal c x = Inr s \<longrightarrow> s \<noteq> [] \<and> tpm_Unseal c s = Inr x)
     \<and> (\<forall>k. length k = 32 \<longrightarrow> new_gcm c k = None)
     \<and> (\<forall>k n x. gcm_Open c k n (gcm_Seal c k n x) = Inr x \<and> length (gcm_Seal c k n x) = length x + 16)"

lemma Uint16_header: "Uint16 (take 2 (AppendUint16 [] v @ r)) = v"
  by (simp add: AppendUint16_def)

lemma Unwrap_Wrap:
  assumes c: "crypto_ok c" and w: "WrapAEAD c plaintext = Inr blob"
  shows "UnwrapAEAD c blob = Inr plaintext"
proof -
  obtain dek sealed nonce where d: "rand_dek c = Inr dek" "tpm_Seal c dek = Inr sealed" "int (length sealed) \<le> 65535"
    "new_gcm c dek = None" "rand_nonce c = Inr nonce"
    and blob: "blob = AppendUint16 [] (of_nat (length sealed)) @ sealed @ nonce @ gcm_Seal c dek nonce plaintext"
    using w by (auto simp: WrapAEAD_def result_simps wrap_err_def split: if_splits)
  then have l: "length nonce = 12" "sealed \<noteq> []" "tpm_Unseal c sealed = Inr dek"
    "gcm_Open c dek nonce (gcm_Seal c dek nonce plaintext) = Inr plaintext"
    using c by (auto simp: crypto_ok_def)
  let ?h = "AppendUint16 [] (of_nat (length sealed)) :: byte list"
  have h: "length ?h = 2" "unat (Uint16 (take 2 blob)) = length sealed"
    using d(3) by (simp_all add: AppendUint16_def blob)
  have "take (length sealed) (drop 2 blob) = sealed" "take 12 (drop (2 + length sealed) blob) = nonce"
    "drop (2 + length sealed + 12) blob = gcm_Seal c dek nonce plaintext" "\<not> length blob < 2 + length sealed + 12"
    "\<not> length blob < 2"
    using h(1) l(1) by (simp_all add: blob)
  with h(2) l(2-4) d(4) show ?thesis by (simp add: UnwrapAEAD_def Let_def wrap_err_def)
qed

text \<open>
  Envelope round trip: whatever \<open>WrapAEAD\<close> writes, \<open>UnwrapAEAD\<close> opens to the same plaintext, for every
  TPM, random source and AES-GCM that behave as documented, and independently of the lengths of the
  sealed key and of the plaintext. In particular the 16-bit length prefix never truncates the
  sealed key.
\<close>

theorem UnwrapAEAD_WrapAEAD:
  assumes "crypto_ok c" "WrapAEAD c plaintext = Inr blob"
  shows "UnwrapAEAD c blob = Inr plaintext"
  by (rule Unwrap_Wrap [OF assms])

text \<open>A TPM that adds a marker byte, and a cipher that prepends the key's first byte 16 times.\<close>

definition demo_crypto :: crypto where
  "demo_crypto =
     \<lparr>rand_dek = Inr (replicate 32 7), rand_nonce = Inr (replicate 12 9),
      tpm_Seal = (\<lambda>x. Inr (1 # x)),
      tpm_Unseal = (\<lambda>s. case s of [] \<Rightarrow> Inl (Errorf ''empty'') | m # x \<Rightarrow> if m = 1 then Inr x else Inl (Errorf ''mac'')),
      new_gcm = (\<lambda>k. if length k = 32 then None else Some (Errorf ''key size'')),
      gcm_Seal = (\<lambda>k n x. replicate 16 (hd (k @ [0])) @ x),
      gcm_Open = (\<lambda>k n y. if take 16 y = replicate 16 (hd (k @ [0])) then Inr (drop 16 y)
        else Inl (Errorf ''message authentication failed''))\<rparr>"

lemma demo_crypto_ok: "crypto_ok demo_crypto"
  by (simp add: crypto_ok_def demo_crypto_def)

theorem UnwrapAEAD_WrapAEAD_witness:
  "UnwrapAEAD demo_crypto
     (AppendUint16 [] 33 @ 1 # replicate 32 7 @ replicate 12 9 @ replicate 16 7 @ [10, 20]) = Inr [10, 20]"
proof -
  have "WrapAEAD demo_crypto [10, 20] = Inr (AppendUint16 [] 33 @ 1 # replicate 32 7 @ replicate 12 9 @ replicate 16 7 @ [10, 20])"
    by (simp add: WrapAEAD_def demo_crypto_def wrap_err_def)
  with demo_crypto_ok show ?thesis by (rule UnwrapAEAD_WrapAEAD)
qed

end
