(* ===== verification/Secrets.thy ===== *)
theory Secrets
  imports ZfsNames TpmWire "HOL-Library.AList" "HOL-Library.Sublist"
begin

text \<open>
  \<^verbatim>\<open>internal/host/secrets\<close>: the key grammar of \<open>secrets.go\<close>, the file backend of \<open>file.go\<close> and the
  selection of a backend by \<open>env.go\<close>. The file backend works on an explicit tree of files and
  directories below its root, with every operating-system call that can fail as a fault the
  environment may inject. What a secrets backend promises is the locale \<open>secret_store\<close>: it
  implements a map from keys to values. The file backend is shown to satisfy it, plain and sealed.
\<close>

subsection \<open>Keys\<close>

definition ErrNotFound :: error where
  "ErrNotFound = Errorf ''secret not found''"

definition key_char :: "char \<Rightarrow> bool" where
  "key_char r \<longleftrightarrow> in_range (CHR ''a'') (CHR ''z'') r \<or> in_range (CHR ''A'') (CHR ''Z'') r
     \<or> in_range (CHR ''0'') (CHR ''9'') r \<or> r = CHR ''-'' \<or> r = CHR ''_''"

text \<open>The loop over the segments; \<open>what\<close> is the noun of the messages.\<close>

fun validate_segments :: "string \<Rightarrow> string list \<Rightarrow> error option" where
  "validate_segments what [] = None"
| "validate_segments what (seg # segs) =
     (if seg = [] then Some (Errorf (''secrets: empty path segment in '' @ what @ '': %q''))
      else if seg = ''..'' \<or> seg = ''.'' then Some (Errorf ''secrets: path traversal not allowed: %q'')
      else if \<not> list_all key_char seg then Some (Errorf (''secrets: invalid character %q in '' @ what @ '' %q''))
      else validate_segments what segs)"

definition validateKey :: "string \<Rightarrow> error option" where
  "validateKey key =
     (if key = [] then Some (Errorf ''secrets: empty key'')
      else if ContainsByte key (CHR 0x00) then Some (Errorf ''secrets: NUL byte in key'')
      else if HasPrefix key ''/'' then Some (Errorf ''secrets: leading slash not allowed: %q'')
      else if HasSuffix key ''/'' then Some (Errorf ''secrets: trailing slash not allowed: %q'')
      else validate_segments ''key'' (Split key (CHR ''/'')))"

definition validatePrefix :: "string \<Rightarrow> error option" where
  "validatePrefix pre =
     (if pre = [] then None
      else if ContainsByte pre (CHR 0x00) then Some (Errorf ''secrets: NUL byte in prefix'')
      else if HasPrefix pre ''/'' then Some (Errorf ''secrets: leading slash not allowed: %q'')
      else let trimmed = TrimRightByte pre (CHR ''/'')
           in if trimmed = [] then None else validate_segments ''prefix'' (Split trimmed (CHR ''/'')))"

subsection \<open>The tree below the root\<close>

text \<open>
  A path is the list of its segments below the root, so the root itself is \<open>[]\<close>; the root is a
  directory that exists. The temporary files of \<open>writeFileAtomic\<close> are not part of the tree: their
  names start with a dot, they never outlive the call, and no key and no other call names them.
\<close>

datatype fnode = File "byte list" | Dir

type_synonym fpath = "string list"
type_synonym tree = "(fpath \<times> fnode) list"

datatype fsop = OpMkdir | OpCreateTemp | OpChmod | OpWrite | OpClose | OpRename | OpRead | OpRemove | OpWalk

definition ErrNotExist :: error where "ErrNotExist = Errorf ''file does not exist''"
definition ENOTDIR :: error where "ENOTDIR = Errorf ''not a directory''"
definition EISDIR :: error where "EISDIR = Errorf ''is a directory''"
definition ENOTEMPTY :: error where "ENOTEMPTY = Errorf ''directory not empty''"
definition EEXIST :: error where "EEXIST = Errorf ''file exists''"

text \<open>
  What a backend runs in: the error of its context, the faults of the file system, and the sealer with
  the cryptography it uses, if there is one.
\<close>

record file_env =
  ctx_err :: "error option"
  fault :: "fsop \<Rightarrow> error option"
  sealing :: "crypto option"

definition is_file :: "fnode option \<Rightarrow> bool" where
  "is_file n = (case n of Some (File d) \<Rightarrow> True | _ \<Rightarrow> False)"

text \<open>A file stands where the path needs a directory.\<close>

definition blocked :: "tree \<Rightarrow> fpath \<Rightarrow> bool" where
  "blocked t p \<longleftrightarrow> list_ex (\<lambda>q. is_file (map_of t q)) (butlast (prefixes p))"

definition ReadFile :: "file_env \<Rightarrow> tree \<Rightarrow> fpath \<Rightarrow> byte list result" where
  "ReadFile env t p =
     (if blocked t p then Inl ENOTDIR
      else case map_of t p of
        None \<Rightarrow> Inl ErrNotExist
      | Some Dir \<Rightarrow> Inl EISDIR
      | Some (File d) \<Rightarrow> check (fault env OpRead) (Inr d))"

fun mkdirs :: "file_env \<Rightarrow> fpath list \<Rightarrow> tree \<Rightarrow> error option \<times> tree" where
  "mkdirs env [] t = (None, t)"
| "mkdirs env (q # qs) t =
     (case map_of t q of
        Some Dir \<Rightarrow> mkdirs env qs t
      | Some (File d) \<Rightarrow> (Some ENOTDIR, t)
      | None \<Rightarrow> (case fault env OpMkdir of
                  Some e \<Rightarrow> (Some e, t)
                | None \<Rightarrow> mkdirs env qs (AList.update q Dir t)))"

definition MkdirAll :: "file_env \<Rightarrow> fpath \<Rightarrow> tree \<Rightarrow> error option \<times> tree" where
  "MkdirAll env p t = mkdirs env (tl (prefixes p)) t"

definition has_children :: "tree \<Rightarrow> fpath \<Rightarrow> bool" where
  "has_children t p \<longleftrightarrow> list_ex (\<lambda>(q, n). strict_prefix p q) t"

definition Remove :: "file_env \<Rightarrow> fpath \<Rightarrow> tree \<Rightarrow> error option \<times> tree" where
  "Remove env p t =
     (if blocked t p then (Some ENOTDIR, t)
      else case map_of t p of
        None \<Rightarrow> (Some ErrNotExist, t)
      | Some n \<Rightarrow>
          if n = Dir \<and> has_children t p then (Some ENOTEMPTY, t)
          else case fault env OpRemove of Some e \<Rightarrow> (Some e, t) | None \<Rightarrow> (None, AList.delete p t))"

definition Rename_into :: "file_env \<Rightarrow> fpath \<Rightarrow> byte list \<Rightarrow> tree \<Rightarrow> error option \<times> tree" where
  "Rename_into env p d t =
     (if map_of t p = Some Dir then (Some EEXIST, t)
      else case fault env OpRename of Some e \<Rightarrow> (Some e, t) | None \<Rightarrow> (None, AList.update p (File d) t))"

subsection \<open>The file backend\<close>

definition dekFile :: string where "dekFile = ''.dek.sealed''"
definition dekSize :: nat where "dekSize = 32"
definition gcmNonceSize :: nat where "gcmNonceSize = 12"

text \<open>The fields of \<open>FileBackend\<close> that change, and the tree it works on.\<close>

record file_backend =
  dek :: "byte list option"
  loaded :: bool

type_synonym fstate = "tree \<times> file_backend"

definition NewFileBackend :: "string \<Rightarrow> file_env \<Rightarrow> file_backend result" where
  "NewFileBackend root env =
     (if root = [] then Inl (Errorf ''secrets: file backend root is empty'')
      else check (wrap_err ''secrets: mkdir %q: %w'' (fault env OpMkdir)) (Inr \<lparr>dek = None, loaded = False\<rparr>))"

definition pathFor :: "string \<Rightarrow> fpath result" where
  "pathFor key = check (validateKey key) (Inr (Split key (CHR ''/'')))"

definition writeFileAtomic :: "file_env \<Rightarrow> fpath \<Rightarrow> byte list \<Rightarrow> tree \<Rightarrow> error option \<times> tree" where
  "writeFileAtomic env p d t =
     (if \<not> (butlast p = [] \<or> map_of t (butlast p) = Some Dir) then (Some (Wrapf ''secrets: create temp: %w'' ErrNotExist), t)
      else case fault env OpCreateTemp of Some e \<Rightarrow> (Some (Wrapf ''secrets: create temp: %w'' e), t)
      | None \<Rightarrow> (case fault env OpChmod of Some e \<Rightarrow> (Some (Wrapf ''secrets: chmod temp: %w'' e), t)
      | None \<Rightarrow> (case fault env OpWrite of Some e \<Rightarrow> (Some (Wrapf ''secrets: write temp: %w'' e), t)
      | None \<Rightarrow> (case fault env OpClose of Some e \<Rightarrow> (Some (Wrapf ''secrets: close temp: %w'' e), t)
      | None \<Rightarrow> (case Rename_into env p d t of
                   (Some e, t) \<Rightarrow> (Some (Wrapf ''secrets: rename temp: %w'' e), t)
                 | (None, t) \<Rightarrow> (None, t))))))"

definition encrypt :: "crypto \<Rightarrow> byte list \<Rightarrow> byte list \<Rightarrow> byte list result" where
  "encrypt c key plaintext =
     check (new_gcm c key) (bindE (rand_nonce c) (\<lambda>nonce. Inr (nonce @ gcm_Seal c key nonce plaintext)))"

definition decrypt :: "crypto \<Rightarrow> byte list \<Rightarrow> byte list \<Rightarrow> byte list result" where
  "decrypt c key blob =
     (if length blob < gcmNonceSize + 16 then Inl (Errorf ''secrets: ciphertext too short'')
      else check (new_gcm c key)
        (wrapE ''secrets: decrypt: %w'' (gcm_Open c key (take gcmNonceSize blob) (drop gcmNonceSize blob))))"

definition loadDEK :: "file_env \<Rightarrow> crypto \<Rightarrow> fstate \<Rightarrow> byte list option result \<times> fstate" where
  "loadDEK env c = (\<lambda>(t, f).
     if loaded f then (Inr (dek f), (t, f))
     else case ReadFile env t [dekFile] of
       Inl e \<Rightarrow> if errors_Is e ErrNotExist then (Inr None, (t, f\<lparr>loaded := True\<rparr>))
                else (Inl (Wrapf ''secrets: read sealed DEK: %w'' e), (t, f))
     | Inr sealed \<Rightarrow> (case tpm_Unseal c sealed of
         Inl e \<Rightarrow> (Inl (Wrapf ''secrets: unseal DEK: %w'' e), (t, f))
       | Inr d \<Rightarrow> if length d \<noteq> dekSize then (Inl (Errorf ''secrets: unsealed DEK has wrong size %d''), (t, f))
                  else (Inr (Some d), (t, f\<lparr>dek := Some d, loaded := True\<rparr>))))"

definition ensureDEK :: "file_env \<Rightarrow> crypto \<Rightarrow> fstate \<Rightarrow> byte list result \<times> fstate" where
  "ensureDEK env c s =
     (case loadDEK env c s of
        (Inl e, s) \<Rightarrow> (Inl e, s)
      | (Inr (Some d), s) \<Rightarrow> (Inr d, s)
      | (Inr None, (t, f)) \<Rightarrow>
          (case dek f of
             Some d \<Rightarrow> (Inr d, (t, f))
           | None \<Rightarrow> (case rand_dek c of
               Inl e \<Rightarrow> (Inl (Wrapf ''secrets: generate DEK: %w'' e), (t, f))
             | Inr fresh \<Rightarrow> (case tpm_Seal c fresh of
                 Inl e \<Rightarrow> (Inl (Wrapf ''secrets: seal DEK: %w'' e), (t, f))
               | Inr sealed \<Rightarrow> (case writeFileAtomic env [dekFile] sealed t of
                   (Some e, t) \<Rightarrow> (Inl e, (t, f))
                 | (None, t) \<Rightarrow> (Inr fresh, (t, f\<lparr>dek := Some fresh, loaded := True\<rparr>)))))))"

definition FB_Get :: "file_env \<Rightarrow> string \<Rightarrow> fstate \<Rightarrow> byte list result \<times> fstate" where
  "FB_Get env key = (\<lambda>(t, f).
     case ctx_err env of Some e \<Rightarrow> (Inl e, (t, f))
     | None \<Rightarrow> (case pathFor key of Inl e \<Rightarrow> (Inl e, (t, f))
     | Inr p \<Rightarrow> (case ReadFile env t p of
         Inl e \<Rightarrow> (Inl (if errors_Is e ErrNotExist then ErrNotFound else Wrapf ''secrets: read %q: %w'' e), (t, f))
       | Inr data \<Rightarrow> (case sealing env of
           None \<Rightarrow> (Inr data, (t, f))
         | Some c \<Rightarrow> (case loadDEK env c (t, f) of
             (Inl e, s) \<Rightarrow> (Inl e, s)
           | (Inr None, s) \<Rightarrow> (Inl ErrNotFound, s)
           | (Inr (Some d), s) \<Rightarrow> (decrypt c d data, s))))))"

definition FB_Set :: "file_env \<Rightarrow> string \<Rightarrow> byte list \<Rightarrow> fstate \<Rightarrow> error option \<times> fstate" where
  "FB_Set env key v = (\<lambda>(t, f).
     case ctx_err env of Some e \<Rightarrow> (Some e, (t, f))
     | None \<Rightarrow> (case pathFor key of Inl e \<Rightarrow> (Some e, (t, f))
     | Inr p \<Rightarrow> (case MkdirAll env (butlast p) t of
         (Some e, t) \<Rightarrow> (Some (Wrapf ''secrets: mkdir parent of %q: %w'' e), (t, f))
       | (None, t) \<Rightarrow> (case sealing env of
           None \<Rightarrow> (case writeFileAtomic env p v t of (e, t) \<Rightarrow> (e, (t, f)))
         | Some c \<Rightarrow> (case ensureDEK env c (t, f) of
             (Inl e, s) \<Rightarrow> (Some e, s)
           | (Inr d, (t, f)) \<Rightarrow> (case encrypt c d v of
               Inl e \<Rightarrow> (Some (Wrapf ''secrets: encrypt %q: %w'' e), (t, f))
             | Inr payload \<Rightarrow> (case writeFileAtomic env p payload t of (e, t) \<Rightarrow> (e, (t, f)))))))))"

text \<open>The clean-up of the empty parents, from the innermost up to the root and not including it.\<close>

fun cleanup :: "file_env \<Rightarrow> fpath list \<Rightarrow> tree \<Rightarrow> tree" where
  "cleanup env [] t = t"
| "cleanup env (dir # up) t = (case Remove env dir t of (Some e, t) \<Rightarrow> t | (None, t) \<Rightarrow> cleanup env up t)"

definition FB_Delete :: "file_env \<Rightarrow> string \<Rightarrow> fstate \<Rightarrow> error option \<times> fstate" where
  "FB_Delete env key = (\<lambda>(t, f).
     case ctx_err env of Some e \<Rightarrow> (Some e, (t, f))
     | None \<Rightarrow> (case pathFor key of Inl e \<Rightarrow> (Some e, (t, f))
     | Inr p \<Rightarrow> (case Remove env p t of
         (Some e, t) \<Rightarrow> (Some (if errors_Is e ErrNotExist then ErrNotFound else Wrapf ''secrets: delete %q: %w'' e), (t, f))
       | (None, t) \<Rightarrow> (None, (cleanup env (rev (tl (prefixes (butlast p)))) t, f)))))"

definition FB_List :: "file_env \<Rightarrow> string \<Rightarrow> fstate \<Rightarrow> string list result" where
  "FB_List env pre = (\<lambda>(t, f).
     check (ctx_err env) (check (validatePrefix pre)
       (check (wrap_err ''secrets: list %q: %w'' (fault env OpWalk))
         (Inr (sort (filter (\<lambda>rel. pre = [] \<or> HasPrefix rel pre)
           (map (\<lambda>(p, n). Join p ''/'')
             (filter (\<lambda>(p, n). n \<noteq> Dir \<and> \<not> list_ex (\<lambda>seg. HasPrefix seg ''.'') p) t)))))))) "

subsection \<open>The key grammar\<close>

definition segment :: "string \<Rightarrow> bool" where
  "segment s \<longleftrightarrow> s \<noteq> [] \<and> list_all key_char s"

lemma not_key_char: "\<not> key_char (CHR ''.'')" "\<not> key_char (CHR ''/'')" "\<not> key_char (CHR 0x00)"
  by code_simp+

lemma validate_segments_iff: "validate_segments what segs = None \<longleftrightarrow> list_all segment segs"
  by (induction segs) (auto simp: segment_def not_key_char)

lemma Split_inj: "Split s c = Split s' c \<Longrightarrow> s = s'"
  by (metis Split_Join)

lemma validateKey_iff: "validateKey key = None \<longleftrightarrow> list_all segment (Split key (CHR ''/''))"
proof
  show "validateKey key = None \<Longrightarrow> list_all segment (Split key (CHR ''/''))"
    by (auto simp: validateKey_def validate_segments_iff split: if_splits)
next
  assume s: "list_all segment (Split key (CHR ''/''))"
  have chars: "set key \<subseteq> {c. key_char c \<or> c = CHR ''/''}"
    using set_Join [of "Split key (CHR ''/'')" "''/''"] s
    by (auto simp: Split_Join list_all_iff segment_def)
  have no: "[] \<notin> set (Split key (CHR ''/''))" using s by (auto simp: list_all_iff segment_def)
  have "key \<noteq> []" using no by auto
  moreover have "\<not> ContainsByte key (CHR 0x00)" using chars not_key_char(3) by (auto simp: ContainsByte_iff)
  moreover have "\<not> HasPrefix key ''/''"
    using no Split_sep [of "[]" "CHR ''/''"] by (auto simp: HasPrefix_iff)
  moreover have "\<not> HasSuffix key ''/''"
  proof
    assume "HasSuffix key ''/''"
    then obtain r where "key = r @ ''/''" unfolding HasSuffix_def by (metis append_take_drop_id)
    then show False using no Split_sep [of r "CHR ''/''" "[]"] by simp
  qed
  ultimately show "validateKey key = None" using s by (simp add: validateKey_def validate_segments_iff)
qed

lemma pathFor_Inr: "pathFor key = Inr p \<longleftrightarrow> validateKey key = None \<and> p = Split key (CHR ''/'')"
  by (auto simp: pathFor_def check_eq_Inr)

lemma key_path:
  assumes "validateKey key = None" "prefix q (Split key (CHR ''/''))"
  shows "list_all segment q" "q \<noteq> [dekFile]"
proof -
  show "list_all segment q" using assms by (auto simp: validateKey_iff prefix_def)
  moreover have "\<not> segment dekFile" by (simp add: segment_def dekFile_def not_key_char)
  ultimately show "q \<noteq> [dekFile]" by auto
qed

subsection \<open>The tree\<close>

text \<open>What a tree holds: its files. Directories matter for the errors only.\<close>

definition files :: "tree \<Rightarrow> fpath \<Rightarrow> byte list option" where
  "files t p = (case map_of t p of Some (File d) \<Rightarrow> Some d | _ \<Rightarrow> None)"

definition rooted :: "(fpath \<rightharpoonup> fnode) \<Rightarrow> bool" where
  "rooted m \<longleftrightarrow> (\<forall>p n. m p = Some n \<longrightarrow> p \<noteq> [] \<and> (\<forall>q. q \<noteq> [] \<longrightarrow> strict_prefix q p \<longrightarrow> m q = Some Dir))"

definition wf_tree :: "tree \<Rightarrow> bool" where
  "wf_tree t \<longleftrightarrow> distinct (map fst t) \<and> rooted (map_of t)"

lemma butlast_prefixes: "set (butlast (prefixes p)) = {q. strict_prefix q p}"
  by (cases p rule: rev_cases) (auto simp: prefixes_snoc butlast_append strict_prefix_def)

lemma is_file_iff: "is_file (map_of t q) \<longleftrightarrow> files t q \<noteq> None"
  by (auto simp: is_file_def files_def split: option.splits fnode.splits)

lemma blocked_iff: "blocked t p \<longleftrightarrow> (\<exists>q. strict_prefix q p \<and> files t q \<noteq> None)"
  using butlast_prefixes [of p] by (auto simp: blocked_def list_ex_iff is_file_iff)

lemma wf_treeD:
  assumes "wf_tree t" "map_of t p = Some n"
  shows "p \<noteq> []" "q \<noteq> [] \<Longrightarrow> strict_prefix q p \<Longrightarrow> map_of t q = Some Dir"
  using assms unfolding wf_tree_def rooted_def by blast+

lemma wf_not_blocked:
  assumes w: "wf_tree t" and p: "map_of t p = Some n"
  shows "\<not> blocked t p"
proof -
  have "files t q = None" if "strict_prefix q p" for q
  proof (cases "q = []")
    case True
    then have "map_of t q = None" using wf_treeD(1) [OF w, of q] by (cases "map_of t q") auto
    then show ?thesis by (simp add: files_def)
  next
    case False
    then show ?thesis using wf_treeD(2) [OF w p] that by (simp add: files_def)
  qed
  then show ?thesis by (auto simp: blocked_iff)
qed

lemma files_update_file [simp]: "files (AList.update p (File d) t) = (files t)(p \<mapsto> d)"
  by (rule ext) (simp add: files_def update_conv')

lemma files_update_dir: "map_of t p = None \<Longrightarrow> files (AList.update p Dir t) = files t"
  by (rule ext) (simp add: files_def update_conv')

lemma files_delete: "files (AList.delete p t) = (files t)(p := None)"
  by (rule ext) (simp add: files_def delete_conv')

lemma mkdirs_files: "mkdirs env qs t = (e, t') \<Longrightarrow> files t' = files t"
proof (induction qs arbitrary: t)
  case (Cons q qs)
  then show ?case
    by (auto simp: files_update_dir split: option.splits fnode.splits)
qed simp

lemma mkdirs_mono: "mkdirs env qs t = (e, t') \<Longrightarrow> map_of t p = Some n \<Longrightarrow> map_of t' p = Some n"
proof (induction qs arbitrary: t)
  case (Cons q qs)
  then show ?case by (fastforce simp: update_conv' split: option.splits fnode.splits if_splits)
qed simp

lemma mkdirs_append:
  "mkdirs env (qs @ [q]) t = (case mkdirs env qs t of (Some e, t) \<Rightarrow> (Some e, t) | (None, t) \<Rightarrow> mkdirs env [q] t)"
proof (induction qs arbitrary: t)
  case (Cons a qs)
  show ?case
  proof (cases "map_of t a")
    case None
    then show ?thesis by (cases "fault env OpMkdir") (simp_all only: append_Cons mkdirs.simps option.case Cons.IH prod.case)
  next
    case (Some n)
    then show ?thesis by (cases n) (simp_all only: append_Cons mkdirs.simps option.case fnode.case Cons.IH prod.case)
  qed
qed simp

lemma rooted_update:
  assumes "rooted m" "p \<noteq> []" "\<And>q. q \<noteq> [] \<Longrightarrow> strict_prefix q p \<Longrightarrow> m q = Some Dir"
    "n = Dir \<or> (\<forall>q n. m q = Some n \<longrightarrow> \<not> strict_prefix p q)"
  shows "rooted (m(p \<mapsto> n))"
  unfolding rooted_def
proof (intro allI impI)
  fix q n' assume q: "(m(p \<mapsto> n)) q = Some n'"
  show "q \<noteq> [] \<and> (\<forall>r. r \<noteq> [] \<longrightarrow> strict_prefix r q \<longrightarrow> (m(p \<mapsto> n)) r = Some Dir)"
  proof (cases "q = p")
    case True
    then show ?thesis using assms(2,3) by (auto simp: strict_prefix_def)
  next
    case False
    then have m: "m q = Some n'" using q by simp
    then have "q \<noteq> []" "r \<noteq> [] \<Longrightarrow> strict_prefix r q \<Longrightarrow> m r = Some Dir" for r
      using assms(1) unfolding rooted_def by blast+
    then show ?thesis using assms(4) m by auto
  qed
qed

lemma rooted_delete:
  assumes "rooted m" "\<And>q n. m q = Some n \<Longrightarrow> \<not> strict_prefix p q"
  shows "rooted (m(p := None))"
  unfolding rooted_def
proof (intro allI impI)
  fix q n assume "(m(p := None)) q = Some n"
  then have m: "m q = Some n" by (simp split: if_splits)
  then have "q \<noteq> []" "r \<noteq> [] \<Longrightarrow> strict_prefix r q \<Longrightarrow> m r = Some Dir" for r
    using assms(1) unfolding rooted_def by blast+
  then show "q \<noteq> [] \<and> (\<forall>r. r \<noteq> [] \<longrightarrow> strict_prefix r q \<longrightarrow> (m(p := None)) r = Some Dir)"
    using assms(2) [OF m] by auto
qed

lemma wf_update_dir:
  assumes w: "wf_tree t" and p: "p \<noteq> []" "\<And>q. q \<noteq> [] \<Longrightarrow> strict_prefix q p \<Longrightarrow> map_of t q = Some Dir"
  shows "wf_tree (AList.update p Dir t)"
  using w p unfolding wf_tree_def update_conv' by (blast intro: rooted_update distinct_update)

lemma MkdirAll_append:
  "MkdirAll env (xs @ [x]) t =
     (case MkdirAll env xs t of (Some e, t) \<Rightarrow> (Some e, t) | (None, t) \<Rightarrow> mkdirs env [xs @ [x]] t)"
proof -
  have "tl (prefixes (xs @ [x])) = tl (prefixes xs) @ [xs @ [x]]" by (cases xs) (simp_all add: prefixes_snoc)
  then show ?thesis by (simp only: MkdirAll_def mkdirs_append)
qed

lemma MkdirAll_wf:
  "wf_tree t \<Longrightarrow> MkdirAll env p t = (e, t') \<Longrightarrow>
     wf_tree t' \<and> (e = None \<longrightarrow> (\<forall>q. q \<noteq> [] \<longrightarrow> prefix q p \<longrightarrow> map_of t' q = Some Dir))"
proof (induction p arbitrary: e t' rule: rev_induct)
  case (snoc x xs)
  obtain e1 t1 where m: "MkdirAll env xs t = (e1, t1)" by fastforce
  have IH: "wf_tree t1" "e1 = None \<Longrightarrow> q \<noteq> [] \<Longrightarrow> prefix q xs \<Longrightarrow> map_of t1 q = Some Dir" for q
    using snoc.IH [OF snoc.prems(1) m] by blast+
  show ?case
  proof (cases e1)
    case (Some z)
    then have "e = Some z" "t' = t1" using snoc.prems(2) m by (simp_all add: MkdirAll_append)
    then show ?thesis using IH(1) by simp
  next
    case None
    note IH' = IH(2) [OF None]
    have s: "strict_prefix q (xs @ [x]) \<longleftrightarrow> prefix q xs" for q by (auto simp: strict_prefix_def)
    have w: "map_of t1 (xs @ [x]) = None \<Longrightarrow> wf_tree (AList.update (xs @ [x]) Dir t1)"
      using IH' by (intro wf_update_dir [OF IH(1)]) (simp_all add: s)
    have r: "mkdirs env [xs @ [x]] t1 = (e, t')" using snoc.prems(2) m None by (simp add: MkdirAll_append)
    have "wf_tree t'" "e = None \<longrightarrow> map_of t' (xs @ [x]) = Some Dir"
      using r w IH(1) by (cases "fault env OpMkdir"; auto simp: update_conv' split: option.splits fnode.splits)+
    moreover have "map_of t' q = Some Dir" if "q \<noteq> []" "prefix q xs" for q
      using mkdirs_mono [OF r] IH' [OF that] .
    ultimately show ?thesis by auto
  qed
qed (simp add: MkdirAll_def)

lemma wf_update_file:
  assumes w: "wf_tree t" and p: "p \<noteq> []" "map_of t p \<noteq> Some Dir" "butlast p = [] \<or> map_of t (butlast p) = Some Dir"
  shows "wf_tree (AList.update p (File d) t)"
proof -
  have below: "map_of t q = Some Dir" if "q \<noteq> []" "strict_prefix q p" for q
  proof -
    have "prefix q (butlast p)" using that p(1) by (cases p rule: rev_cases) (auto simp: strict_prefix_def)
    then show ?thesis using p(3) that(1) wf_treeD(2) [OF w, of "butlast p" Dir q]
      by (auto simp: strict_prefix_def)
  qed
  have "\<not> strict_prefix p q" if "map_of t q = Some n" for q n
    using wf_treeD(2) [OF w that p(1)] p(2) by blast
  with w p(1) below show ?thesis
    unfolding wf_tree_def update_conv' by (blast intro: rooted_update distinct_update)
qed

lemma wf_delete:
  assumes w: "wf_tree t" and c: "\<And>q n. map_of t q = Some n \<Longrightarrow> \<not> strict_prefix p q"
  shows "wf_tree (AList.delete p t)"
  using w c unfolding wf_tree_def delete_conv' by (blast intro: rooted_delete distinct_delete)

lemma writeFileAtomic_cases:
  assumes "writeFileAtomic env p d t = (e, t')"
  obtains (failed) z where "e = Some z" "t' = t"
  | (written) "e = None" "t' = AList.update p (File d) t" "map_of t p \<noteq> Some Dir"
      "butlast p = [] \<or> map_of t (butlast p) = Some Dir"
  using assms by (auto simp: writeFileAtomic_def Rename_into_def split: option.splits if_splits)

lemma Remove_cases:
  assumes "Remove env p t = (e, t')"
  obtains (failed) z where "e = Some z" "t' = t"
  | (removed) n where "e = None" "t' = AList.delete p t" "map_of t p = Some n" "n = Dir \<Longrightarrow> \<not> has_children t p"
  using assms by (auto simp: Remove_def dest!: sym [of "Some _" "fault env OpRemove"] split: option.splits if_splits)

lemma Remove_wf:
  assumes w: "wf_tree t" and r: "Remove env p t = (e, t')"
  shows "wf_tree t'"
  using r
proof (cases rule: Remove_cases)
  case (removed n)
  have "\<not> strict_prefix p q" if "map_of t q = Some n'" for q n'
  proof
    assume s: "strict_prefix p q"
    moreover have "p \<noteq> []" using wf_treeD(1) [OF w removed(3)] .
    ultimately have "n = Dir" using wf_treeD(2) [OF w that] removed(3) by auto
    moreover have "has_children t p" using map_of_SomeD [OF that] s by (auto simp: has_children_def list_ex_iff)
    ultimately show False using removed(4) by blast
  qed
  then show ?thesis using wf_delete [OF w] removed(2) by blast
qed (simp add: w)

lemma cleanup_props:
  assumes "wf_tree t" "\<forall>q\<in>set dirs. files t q = None"
  shows "wf_tree (cleanup env dirs t) \<and> files (cleanup env dirs t) = files t"
  using assms
proof (induction dirs arbitrary: t)
  case (Cons q dirs)
  obtain e t' where r: "Remove env q t = (e, t')" by fastforce
  have w: "wf_tree t'" using Remove_wf [OF Cons.prems(1) r] .
  have f: "files t' = files t"
    using r by (cases rule: Remove_cases) (use Cons.prems(2) in \<open>auto simp: files_delete\<close>)
  show ?case using Cons.IH [OF w] Cons.prems r w f by (cases e) simp_all
qed simp

subsection \<open>What the backend holds\<close>

text \<open>The data-encryption key a fresh process would load from the disk.\<close>

definition disk_dek :: "crypto \<Rightarrow> (fpath \<rightharpoonup> byte list) \<Rightarrow> byte list option" where
  "disk_dek c fs =
     (case fs [dekFile] of
        None \<Rightarrow> None
      | Some s \<Rightarrow> (case tpm_Unseal c s of Inl e \<Rightarrow> None | Inr d \<Rightarrow> if length d = dekSize then Some d else None))"

text \<open>The value under a key: the file's content, decrypted with the key on the disk when there is a sealer.\<close>

definition unlocked :: "file_env \<Rightarrow> (fpath \<rightharpoonup> byte list) \<Rightarrow> byte list \<Rightarrow> byte list option" where
  "unlocked env fs d =
     (case sealing env of
        None \<Rightarrow> Some d
      | Some c \<Rightarrow> (case disk_dek c fs of
          None \<Rightarrow> None
        | Some k \<Rightarrow> (case decrypt c k d of Inl e \<Rightarrow> None | Inr v \<Rightarrow> Some v)))"

definition FB_val :: "file_env \<Rightarrow> (fpath \<rightharpoonup> byte list) \<Rightarrow> string \<Rightarrow> byte list option" where
  "FB_val env fs key =
     (if validateKey key = None then Option.bind (fs (Split key (CHR ''/''))) (unlocked env fs) else None)"

text \<open>The faults are real faults, and the cryptography behaves as documented.\<close>

definition env_ok :: "file_env \<Rightarrow> bool" where
  "env_ok env \<longleftrightarrow> (\<forall>op e. fault env op = Some e \<longrightarrow> \<not> errors_Is e ErrNotExist)
     \<and> (\<forall>c. sealing env = Some c \<longrightarrow> crypto_ok c)"

text \<open>The cached key is the one on the disk, and without one on the disk nothing has been written.\<close>

definition dek_inv :: "file_env \<Rightarrow> (fpath \<rightharpoonup> byte list) \<Rightarrow> file_backend \<Rightarrow> bool" where
  "dek_inv env fs f \<longleftrightarrow>
     (\<forall>c. sealing env = Some c \<longrightarrow>
        (if loaded f then dek f = disk_dek c fs \<and> (dek f = None \<longrightarrow> fs [dekFile] = None) else dek f = None)
        \<and> (fs [dekFile] = None \<longrightarrow> fs = Map.empty))"

definition FB_inv :: "file_env \<Rightarrow> fstate \<Rightarrow> bool" where
  "FB_inv env s \<longleftrightarrow> env_ok env \<and> wf_tree (fst s) \<and> dek_inv env (files (fst s)) (snd s)"

lemma errors_kinds [simp]:
  "errors_Is ErrNotExist ErrNotExist" "\<not> errors_Is ENOTDIR ErrNotExist" "\<not> errors_Is EISDIR ErrNotExist"
  by (simp_all add: ErrNotExist_def ENOTDIR_def EISDIR_def)

lemma ReadFile_Inr: "ReadFile env t p = Inr d \<Longrightarrow> files t p = Some d"
  by (auto simp: ReadFile_def files_def check_eq_Inr split: if_splits option.splits fnode.splits)

lemma ReadFile_up:
  assumes "wf_tree t" "files t p = Some d" "fault env OpRead = None"
  shows "ReadFile env t p = Inr d"
proof -
  have m: "map_of t p = Some (File d)" using assms(2) by (auto simp: files_def split: option.splits fnode.splits)
  then show ?thesis using wf_not_blocked [OF assms(1) m] assms(3) by (simp add: ReadFile_def)
qed

lemma ReadFile_missing:
  assumes "env_ok env" "ReadFile env t p = Inl e" "errors_Is e ErrNotExist"
  shows "files t p = None"
  using assms by (auto simp: ReadFile_def files_def check_def env_ok_def split: if_splits option.splits fnode.splits)

lemma loadDEK_props:
  assumes i: "FB_inv env (t, f)" and c: "sealing env = Some c" and l: "loadDEK env c (t, f) = (r, s')"
  shows "\<exists>f'. s' = (t, f') \<and> FB_inv env (t, f')
     \<and> (\<forall>d. r = Inr (Some d) \<longrightarrow> disk_dek c (files t) = Some d)
     \<and> (r = Inr None \<longrightarrow> files t [dekFile] = None \<and> dek f' = None)"
proof (cases "loaded f")
  case True
  then show ?thesis using assms by (auto simp: loadDEK_def FB_inv_def dek_inv_def)
next
  case False
  have d: "dek f = None" using i c False by (auto simp: FB_inv_def dek_inv_def)
  show ?thesis
  proof (cases "ReadFile env t [dekFile]")
    case (Inl e)
    then show ?thesis using i c l False d ReadFile_missing [OF _ Inl]
      by (auto simp: loadDEK_def FB_inv_def dek_inv_def disk_dek_def split: if_splits)
  next
    case (Inr sealed)
    note f = ReadFile_Inr [OF Inr]
    show ?thesis using i c l False Inr f d
      by (auto simp: loadDEK_def FB_inv_def dek_inv_def disk_dek_def split: sum.splits if_splits)
  qed
qed

lemma FB_val_empty: "FB_val env Map.empty = Map.empty"
  by (rule ext) (simp add: FB_val_def)

lemma dekFile_wf:
  assumes "wf_tree t" "map_of t [dekFile] \<noteq> Some Dir"
  shows "wf_tree (AList.update [dekFile] (File d) t)"
  using wf_update_file [OF assms(1) _ assms(2)] by simp

lemma FB_val_only_dek: "FB_val env [[dekFile] \<mapsto> x] = Map.empty"
proof (rule ext)
  fix key
  show "FB_val env [[dekFile] \<mapsto> x] key = Map.empty key"
    using key_path(2) [of key "Split key (CHR ''/'')"] by (auto simp: FB_val_def)
qed

lemma ensureDEK_props:
  assumes i: "FB_inv env (t, f)" and c: "sealing env = Some c" and l: "ensureDEK env c (t, f) = (r, (t', f'))"
  shows "FB_inv env (t', f') \<and> FB_val env (files t') = FB_val env (files t)
     \<and> (\<forall>d. r = Inr d \<longrightarrow> disk_dek c (files t') = Some d)
     \<and> (\<forall>p. p \<noteq> [dekFile] \<longrightarrow> map_of t' p = map_of t p)"
proof -
  obtain r1 f1 where l1: "loadDEK env c (t, f) = (r1, (t, f1))" and i1: "FB_inv env (t, f1)"
    and some: "\<And>d. r1 = Inr (Some d) \<Longrightarrow> disk_dek c (files t) = Some d"
    and none: "r1 = Inr None \<Longrightarrow> files t [dekFile] = None" "r1 = Inr None \<Longrightarrow> dek f1 = None"
    using loadDEK_props [OF i c] by (metis surj_pair)
  have ck: "crypto_ok c" using i c by (auto simp: FB_inv_def env_ok_def)
  show ?thesis
  proof (cases "\<exists>fresh sealed. r1 = Inr None \<and> rand_dek c = Inr fresh \<and> tpm_Seal c fresh = Inr sealed
      \<and> fst (writeFileAtomic env [dekFile] sealed t) = None")
    case True
    then obtain fresh sealed where fr: "r1 = Inr None" "rand_dek c = Inr fresh" "tpm_Seal c fresh = Inr sealed"
      "fst (writeFileAtomic env [dekFile] sealed t) = None" by blast
    then have w: "writeFileAtomic env [dekFile] sealed t = (None, snd (writeFileAtomic env [dekFile] sealed t))"
      by (metis prod.collapse)
    have t: "snd (writeFileAtomic env [dekFile] sealed t) = AList.update [dekFile] (File sealed) t"
      "map_of t [dekFile] \<noteq> Some Dir"
      by (rule writeFileAtomic_cases [OF w]; simp)+
    have eq: "r = Inr fresh" "t' = AList.update [dekFile] (File sealed) t" "f' = f1\<lparr>dek := Some fresh, loaded := True\<rparr>"
      using l l1 fr w t none by (simp_all add: ensureDEK_def)
    have e: "files t = Map.empty" using i1 c none(1) [OF fr(1)] by (auto simp: FB_inv_def dek_inv_def)
    have d: "disk_dek c [[dekFile] \<mapsto> sealed] = Some fresh"
      using ck fr by (simp add: disk_dek_def crypto_ok_def dekSize_def)
    have "FB_inv env (t', f')"
      using i1 dekFile_wf [of t sealed] t(2) d e c by (simp add: FB_inv_def dek_inv_def eq)
    then show ?thesis using d e by (simp add: eq FB_val_only_dek FB_val_empty update_conv')
  next
    case False
    have "t' = t \<and> f' = f1 \<and> (\<forall>d. r = Inr d \<longrightarrow> r1 = Inr (Some d))"
    proof (cases r1)
      case (Inr a)
      show ?thesis
      proof (cases a)
        case None
        have w: "\<exists>z. writeFileAtomic env [dekFile] x t = (Some z, t)"
          if "fst (writeFileAtomic env [dekFile] x t) \<noteq> None" for x
          using that by (cases "writeFileAtomic env [dekFile] x t" rule: prod.exhaust)
            (auto elim: writeFileAtomic_cases)
        have s: "\<exists>z. writeFileAtomic env [dekFile] y t = (Some z, t)" if "rand_dek c = Inr x" "tpm_Seal c x = Inr y" for x y
          using w [of y] False that Inr [unfolded None] by (cases "fst (writeFileAtomic env [dekFile] y t)") auto
        have "dek f1 = None" using none(2) Inr None by simp
        then show ?thesis using l l1 Inr None s
          by (cases "rand_dek c"; cases "tpm_Seal c (projr (rand_dek c))") (fastforce simp: ensureDEK_def)+
      qed (use l l1 Inr in \<open>auto simp: ensureDEK_def\<close>)
    qed (use l l1 in \<open>auto simp: ensureDEK_def\<close>)
    then show ?thesis using i1 some by auto
  qed
qed

lemma FB_inv_files:
  assumes "FB_inv env (t, f)" "wf_tree t'" "files t' = files t"
  shows "FB_inv env (t', f)"
  using assms by (simp add: FB_inv_def)

lemma key_not_dek: "validateKey key = None \<Longrightarrow> Split key (CHR ''/'') \<noteq> [dekFile]"
  using key_path(2) [of key "Split key (CHR ''/'')"] by simp

lemma disk_dek_upd: "p \<noteq> [dekFile] \<Longrightarrow> disk_dek c (fs(p := x)) = disk_dek c fs"
  by (simp add: disk_dek_def)

lemma dek_inv_key:
  assumes "dek_inv env fs f" "p \<noteq> [dekFile]" "\<And>c. sealing env = Some c \<Longrightarrow> fs [dekFile] \<noteq> None"
  shows "dek_inv env (fs(p := x)) f"
  using assms by (auto simp: dek_inv_def disk_dek_def)

lemma FB_val_upd:
  assumes v: "validateKey key = None"
  shows "FB_val env (fs(Split key (CHR ''/'') := x)) = (FB_val env fs)(key := Option.bind x (unlocked env fs))"
proof (rule ext)
  fix k
  have "unlocked env (fs(Split key (CHR ''/'') := x)) = unlocked env fs"
    using disk_dek_upd [OF key_not_dek [OF v]] by (intro ext, cases "sealing env") (simp_all add: unlocked_def)
  then show "FB_val env (fs(Split key (CHR ''/'') := x)) k = ((FB_val env fs)(key := Option.bind x (unlocked env fs))) k"
    using v Split_inj [of k "CHR ''/''" key] by (auto simp: FB_val_def)
qed

lemma write_key:
  assumes i: "FB_inv env (t, f)" and v: "validateKey key = None"
    and d: "\<And>c. sealing env = Some c \<Longrightarrow> files t [dekFile] \<noteq> None" "unlocked env (files t) d = Some val"
    and w: "writeFileAtomic env (Split key (CHR ''/'')) d t = (e, t')"
  shows "FB_inv env (t', f) \<and> FB_val env (files t') = (if e = None then (FB_val env (files t))(key \<mapsto> val) else FB_val env (files t))"
  using w
proof (cases rule: writeFileAtomic_cases)
  case failed
  then show ?thesis using i by simp
next
  case written
  have "wf_tree t'" using i wf_update_file [OF _ _ written(3,4)] by (simp add: FB_inv_def written(2))
  then show ?thesis using i d(1) dek_inv_key [OF _ key_not_dek [OF v], of env "files t" f "Some d"]
    by (simp add: FB_inv_def written(1,2) FB_val_upd [OF v] d(2))
qed

lemma encrypt_decrypt:
  assumes "crypto_ok c" "length k = dekSize" "encrypt c k v = Inr d"
  shows "decrypt c k d = Inr v"
  using assms by (auto simp: encrypt_def decrypt_def result_simps crypto_ok_def dekSize_def gcmNonceSize_def)

lemma sealed_write:
  assumes i: "FB_inv env (t, f)" and c: "sealing env = Some c" and v: "validateKey key = None"
    and w: "(case ensureDEK env c (t, f) of
             (Inl e, s) \<Rightarrow> (Some e, s)
           | (Inr d, (t, f)) \<Rightarrow> (case encrypt c d x of
               Inl e \<Rightarrow> (Some (Wrapf ''secrets: encrypt %q: %w'' e), (t, f))
             | Inr payload \<Rightarrow> (case writeFileAtomic env (Split key (CHR ''/'')) payload t of (e, t) \<Rightarrow> (e, (t, f))))) = (e, s')"
  shows "FB_inv env s' \<and> FB_val env (files (fst s')) =
     (if e = None then (FB_val env (files t))(key \<mapsto> x) else FB_val env (files t))"
proof -
  obtain r2 t2 f2 where en: "ensureDEK env c (t, f) = (r2, (t2, f2))" by (metis surj_pair)
  note E = ensureDEK_props [OF i c en]
  have ck: "crypto_ok c" using i c by (auto simp: FB_inv_def env_ok_def)
  show ?thesis
  proof (cases "\<exists>k d. r2 = Inr k \<and> encrypt c k x = Inr d")
    case False
    then have "e \<noteq> None" "s' = (t2, f2)" using w en by (auto split: sum.splits)
    then show ?thesis using E by auto
  next
    case True
    then obtain k d where k: "r2 = Inr k" "encrypt c k x = Inr d" by blast
    obtain e3 t3 where w3: "writeFileAtomic env (Split key (CHR ''/'')) d t2 = (e3, t3)" by fastforce
    have eq: "e = e3" "s' = (t3, f2)" using w en k w3 by simp_all
    have dd: "disk_dek c (files t2) = Some k" using E k(1) by blast
    then have l: "length k = dekSize" "files t2 [dekFile] \<noteq> None"
      by (auto simp: disk_dek_def split: option.splits sum.splits if_splits)
    then have u: "unlocked env (files t2) d = Some x"
      using encrypt_decrypt [OF ck _ k(2)] dd c by (simp add: unlocked_def)
    have i2: "FB_inv env (t2, f2)" using E by blast
    show ?thesis using write_key [OF i2 v l(2) u w3] E eq by auto
  qed
qed

lemma FB_Set_law:
  assumes i: "FB_inv env s" and g: "FB_Set env key v s = (e, s')"
  shows "FB_inv env s' \<and> FB_val env (files (fst s')) =
     (if e = None then (FB_val env (files (fst s)))(key \<mapsto> v) else FB_val env (files (fst s)))"
proof -
  obtain t f where s: "s = (t, f)" by fastforce
  show ?thesis
  proof (cases "ctx_err env = None \<and> validateKey key = None")
    case False
    then show ?thesis using i g by (auto simp: s FB_Set_def pathFor_def split: option.splits)
  next
    case True
    let ?p = "Split key (CHR ''/'')"
    obtain e1 t1 where m: "MkdirAll env (butlast ?p) t = (e1, t1)" by fastforce
    have f1: "files t1 = files t" using mkdirs_files m unfolding MkdirAll_def by blast
    have i1: "FB_inv env (t1, f)"
      using i s MkdirAll_wf [OF _ m] f1 by (intro FB_inv_files [OF _ _ f1]) (auto simp: FB_inv_def)
    show ?thesis
    proof (cases e1)
      case (Some z)
      then show ?thesis using g True m i1 f1 s by (auto simp: FB_Set_def pathFor_def)
    next
      case e1: None
      show ?thesis
      proof (cases "sealing env")
        case None
        obtain e2 t2 where w: "writeFileAtomic env ?p v t1 = (e2, t2)" by fastforce
        have "e = e2" "s' = (t2, f)" using g True m e1 w None s by (simp_all add: FB_Set_def pathFor_def)
        then show ?thesis using write_key [OF i1 _ _ _ w] True None f1 s by (simp add: unlocked_def)
      next
        case (Some c)
        then show ?thesis using sealed_write [OF i1 Some, of key v e s'] g True m e1 f1 s
          by (simp add: FB_Set_def pathFor_def)
      qed
    qed
  qed
qed

lemma FB_Get_law:
  assumes i: "FB_inv env s" and g: "FB_Get env key s = (r, s')"
  shows "FB_inv env s' \<and> files (fst s') = files (fst s)
     \<and> (\<forall>v. r = Inr v \<longrightarrow> FB_val env (files (fst s)) key = Some v)"
proof -
  obtain t f where s: "s = (t, f)" by fastforce
  show ?thesis
  proof (cases "\<exists>d c. ctx_err env = None \<and> validateKey key = None
      \<and> ReadFile env t (Split key (CHR ''/'')) = Inr d \<and> sealing env = Some c")
    case False
    then show ?thesis using i g ReadFile_Inr [of env t "Split key (CHR ''/'')"]
      by (auto simp: s FB_Get_def pathFor_def FB_val_def unlocked_def check_def split: option.splits sum.splits)
  next
    case True
    then obtain d c where d: "ctx_err env = None" "validateKey key = None"
      "ReadFile env t (Split key (CHR ''/'')) = Inr d" "sealing env = Some c" by blast
    obtain r1 s1 where l: "loadDEK env c (t, f) = (r1, s1)" by (rule prod.exhaust)
    note L = loadDEK_props [OF i [unfolded s] d(4) l]
    have eq: "s' = s1" "r = (case r1 of Inl e \<Rightarrow> Inl e | Inr None \<Rightarrow> Inl ErrNotFound | Inr (Some k) \<Rightarrow> decrypt c k d)"
      using g d l by (simp_all add: s FB_Get_def pathFor_def split: sum.splits option.splits)
    show ?thesis using L eq ReadFile_Inr [OF d(3)] d(2,4)
      by (auto simp: s FB_val_def unlocked_def split: sum.splits option.splits)
  qed
qed

lemma FB_Get_up:
  assumes i: "FB_inv env (t, f)" and u: "ctx_err env = None" "\<And>op. fault env op = None"
    and v: "FB_val env (files t) key = Some v"
  shows "fst (FB_Get env key (t, f)) = Inr v"
proof -
  have k: "validateKey key = None" and b: "Option.bind (files t (Split key (CHR ''/''))) (unlocked env (files t)) = Some v"
    using v by (auto simp: FB_val_def split: if_splits)
  then obtain d where d: "files t (Split key (CHR ''/'')) = Some d" "unlocked env (files t) d = Some v"
    by (auto simp: bind_eq_Some_conv)
  have r: "ReadFile env t (Split key (CHR ''/'')) = Inr d"
    using ReadFile_up [OF _ d(1)] i u by (simp add: FB_inv_def)
  show ?thesis
  proof (cases "sealing env")
    case None
    then show ?thesis using u(1) k r d by (simp add: FB_Get_def pathFor_def unlocked_def)
  next
    case (Some c)
    then obtain dk s where dk: "disk_dek c (files t) = Some dk" "decrypt c dk d = Inr v"
      "files t [dekFile] = Some s" "tpm_Unseal c s = Inr dk" "length dk = dekSize"
      using d(2) by (auto simp: unlocked_def disk_dek_def split: option.splits sum.splits if_splits)
    have "ReadFile env t [dekFile] = Inr s" using ReadFile_up [OF _ dk(3)] i u by (simp add: FB_inv_def)
    then have "fst (loadDEK env c (t, f)) = Inr (Some dk)"
      using dk i Some by (auto simp: loadDEK_def FB_inv_def dek_inv_def)
    then obtain s1 where "loadDEK env c (t, f) = (Inr (Some dk), s1)" by (metis prod.collapse)
    then show ?thesis using u(1) k r dk(2) Some by (simp add: FB_Get_def pathFor_def)
  qed
qed

lemma FB_Delete_up:
  assumes i: "FB_inv env (t, f)" and u: "ctx_err env = None" "\<And>op. fault env op = None"
    and v: "FB_val env (files t) key \<noteq> None"
  shows "fst (FB_Delete env key (t, f)) = None"
proof -
  have k: "validateKey key = None" using v by (auto simp: FB_val_def split: if_splits)
  then have "files t (Split key (CHR ''/'')) \<noteq> None" using v by (auto simp: FB_val_def bind_eq_Some_conv)
  then obtain d where m: "map_of t (Split key (CHR ''/'')) = Some (File d)"
    by (auto simp: files_def split: option.splits fnode.splits)
  have "\<not> blocked t (Split key (CHR ''/''))" using wf_not_blocked [OF _ m] i by (simp add: FB_inv_def)
  then show ?thesis using u k m by (simp add: FB_Delete_def pathFor_def Remove_def)
qed

lemma FB_Delete_law:
  assumes i: "FB_inv env s" and g: "FB_Delete env key s = (e, s')"
  shows "FB_inv env s' \<and> FB_val env (files (fst s')) =
     (if e = None then (FB_val env (files (fst s)))(key := None) else FB_val env (files (fst s)))"
proof -
  obtain t f where s: "s = (t, f)" by fastforce
  let ?p = "Split key (CHR ''/'')"
  obtain e1 t1 where m: "Remove env ?p t = (e1, t1)" by fastforce
  show ?thesis
  proof (cases "ctx_err env = None \<and> validateKey key = None \<and> e1 = None")
    case False
    have "e1 \<noteq> None \<Longrightarrow> t1 = t" using m by (auto elim: Remove_cases)
    then have "\<exists>z. FB_Delete env key s = (Some z, (t, f))" using False m
      by (cases "ctx_err env"; cases "validateKey key"; cases e1) (auto simp: s FB_Delete_def pathFor_def)
    then show ?thesis using i s g by auto
  next
    case True
    then have v: "validateKey key = None" by blast
    obtain n where r: "t1 = AList.delete ?p t" "map_of t ?p = Some n"
      using m True by (auto elim: Remove_cases)
    have w: "wf_tree t" "wf_tree t1" using i Remove_wf [OF _ m] by (simp_all add: s FB_inv_def)
    have "files t q = None" if "q \<in> set (tl (prefixes (butlast ?p)))" for q
    proof -
      have "q \<in> set (prefixes (butlast ?p))" using that by (meson list.set_sel(2) prefixes_not_Nil)
      then have "strict_prefix q ?p"
        using Split_not_Nil [of key "CHR ''/''"] by (cases ?p rule: rev_cases) (auto simp: strict_prefix_def)
      then show ?thesis using wf_treeD(2) [OF w(1) r(2), of q] wf_treeD(1) [OF w(1), of q]
        by (cases "q = []") (auto simp: files_def split: option.splits)
    qed
    then have c: "wf_tree (cleanup env (rev (tl (prefixes (butlast ?p)))) t1)
        \<and> files (cleanup env (rev (tl (prefixes (butlast ?p)))) t1) = (files t)(?p := None)"
      using cleanup_props [OF w(2), of "rev (tl (prefixes (butlast ?p)))" env] by (simp add: r files_delete)
    have "s' = (cleanup env (rev (tl (prefixes (butlast ?p)))) t1, f)" "e = None"
      using g True m by (simp_all add: s FB_Delete_def pathFor_def)
    moreover have "dek_inv env ((files t)(?p := None)) f"
      using i key_not_dek [OF v] unfolding s FB_inv_def by (auto simp: dek_inv_def disk_dek_upd)
    ultimately show ?thesis using c i by (simp add: s FB_inv_def FB_val_upd [OF v])
  qed
qed

subsection \<open>The contract of a secrets backend\<close>

text \<open>
  \<open>secrets.Manager\<close> as its callers use it: the state holds a map from keys to values; \<open>Set\<close> and
  \<open>Delete\<close> change that map at the key when they succeed and not at all when they fail; \<open>Get\<close> changes
  nothing, returns only what the map holds, and returns it when the backend is up; then \<open>Delete\<close>
  succeeds on a key the map holds.
\<close>

locale secret_store =
  fixes get :: "string \<Rightarrow> 's \<Rightarrow> byte list result \<times> 's"
    and set_key :: "string \<Rightarrow> byte list \<Rightarrow> 's \<Rightarrow> error option \<times> 's"
    and delete :: "string \<Rightarrow> 's \<Rightarrow> error option \<times> 's"
    and inv :: "'s \<Rightarrow> bool" and up :: bool
    and vals :: "'s \<Rightarrow> string \<Rightarrow> byte list option"
  assumes get_law: "inv s \<Longrightarrow> get k s = (r, s') \<Longrightarrow> inv s' \<and> vals s' = vals s \<and> (\<forall>v. r = Inr v \<longrightarrow> vals s k = Some v)"
    and get_up: "inv s \<Longrightarrow> up \<Longrightarrow> vals s k = Some v \<Longrightarrow> fst (get k s) = Inr v"
    and set_law: "inv s \<Longrightarrow> set_key k v s = (e, s') \<Longrightarrow>
      inv s' \<and> vals s' = (if e = None then (vals s)(k \<mapsto> v) else vals s)"
    and delete_law: "inv s \<Longrightarrow> delete k s = (e, s') \<Longrightarrow>
      inv s' \<and> vals s' = (if e = None then (vals s)(k := None) else vals s)"
    and delete_up: "inv s \<Longrightarrow> up \<Longrightarrow> vals s k \<noteq> None \<Longrightarrow> fst (delete k s) = None"
begin

lemma get_after_set:
  "inv s \<Longrightarrow> up \<Longrightarrow> set_key k v s = (None, s') \<Longrightarrow> fst (get k s') = Inr v"
  using set_law [of s k v None s'] get_up [of s' k v] by simp

lemma get_after_delete:
  "inv s \<Longrightarrow> delete k s = (None, s') \<Longrightarrow> \<exists>e. fst (get k s') = Inl e"
  using delete_law [of s k None s'] get_law [of s' k "fst (get k s')" "snd (get k s')"]
  by (cases "fst (get k s')") (auto simp: prod_eq_iff)

lemma get_other:
  "inv s \<Longrightarrow> up \<Longrightarrow> set_key k v s = (e, s') \<Longrightarrow> k' \<noteq> k \<Longrightarrow> fst (get k' s) = Inr v' \<Longrightarrow> fst (get k' s') = Inr v'"
  using set_law [of s k v e s'] get_law [of s k' "Inr v'" "snd (get k' s)"] get_up [of s' k' v']
  by (metis fun_upd_other prod.collapse)

end

interpretation fb: secret_store "FB_Get env" "FB_Set env" "FB_Delete env" "FB_inv env"
  "ctx_err env = None \<and> (\<forall>op. fault env op = None)" "\<lambda>s. FB_val env (files (fst s))" for env
proof
  fix s k r s' assume "FB_inv env s" "FB_Get env k s = (r, s')"
  then show "FB_inv env s' \<and> FB_val env (files (fst s')) = FB_val env (files (fst s))
      \<and> (\<forall>v. r = Inr v \<longrightarrow> FB_val env (files (fst s)) k = Some v)"
    using FB_Get_law by simp
next
  fix s k v assume "FB_inv env s" "ctx_err env = None \<and> (\<forall>op. fault env op = None)"
    "FB_val env (files (fst s)) k = Some v"
  then show "fst (FB_Get env k s) = Inr v" using FB_Get_up [of env "fst s" "snd s" k v] by simp
next
  fix s k assume "FB_inv env s" "ctx_err env = None \<and> (\<forall>op. fault env op = None)"
    "FB_val env (files (fst s)) k \<noteq> None"
  then show "fst (FB_Delete env k s) = None" using FB_Delete_up [of env "fst s" "snd s" k] by simp
qed (rule FB_Set_law FB_Delete_law; assumption)+

subsection \<open>Keys below a stored key\<close>

lemma MkdirAll_blocked:
  assumes w: "wf_tree t" and f: "files t q \<noteq> None" "prefix q p" "q \<noteq> []"
  shows "fst (MkdirAll env p t) \<noteq> None"
proof
  assume n: "fst (MkdirAll env p t) = None"
  then obtain t' where m: "MkdirAll env p t = (None, t')" by (metis prod.collapse)
  have "map_of t' q = Some Dir" using MkdirAll_wf [OF w m] f(2,3) by blast
  then have "files t' q = None" by (simp add: files_def)
  moreover have "files t' = files t" using m mkdirs_files unfolding MkdirAll_def by blast
  ultimately show False using f(1) by simp
qed

lemma FB_Set_below:
  assumes i: "FB_inv env (t, f)" and k: "files t (Split k (CHR ''/'')) \<noteq> None"
  shows "fst (FB_Set env (k @ ''/'' @ r) v (t, f)) \<noteq> None"
proof -
  have p: "prefix (Split k (CHR ''/'')) (butlast (Split (k @ ''/'' @ r) (CHR ''/'')))"
    using Split_sep [of k "CHR ''/''" r] by (simp add: butlast_append)
  obtain e t' where m: "MkdirAll env (butlast (Split (k @ ''/'' @ r) (CHR ''/''))) t = (e, t')" by fastforce
  have "e \<noteq> None" using MkdirAll_blocked [OF _ k p Split_not_Nil, of env] i m by (simp add: FB_inv_def)
  then show ?thesis using m by (auto simp: FB_Set_def pathFor_def check_def split: option.splits)
qed

lemma FB_List_stored:
  assumes k: "validateKey k = None" "files t (Split k (CHR ''/'')) \<noteq> None" "HasPrefix k pre"
    and l: "FB_List env pre (t, f) = Inr ks"
  shows "k \<in> set ks"
proof -
  obtain d where "map_of t (Split k (CHR ''/'')) = Some (File d)"
    using k(2) by (auto simp: files_def split: option.splits fnode.splits)
  then have m: "(Split k (CHR ''/''), File d) \<in> set t" by (rule map_of_SomeD)
  have "\<not> list_ex (\<lambda>seg. HasPrefix seg ''.'') (Split k (CHR ''/''))"
    using k(1) not_key_char(1) by (auto simp: validateKey_iff list_ex_iff list_all_iff segment_def HasPrefix_iff)
  then have "Join (Split k (CHR ''/'')) ''/'' \<in> set (map (\<lambda>(p, n). Join p ''/'')
      (filter (\<lambda>(p, n). n \<noteq> Dir \<and> \<not> list_ex (\<lambda>seg. HasPrefix seg ''.'') p) t))"
    using m by force
  then show ?thesis using l k(3) by (auto simp: FB_List_def result_simps Split_Join)
qed

subsection \<open>Properties\<close>

text \<open>
  C6. The file backend implements a map from keys to values, plain or with a sealed encryption key. From
  any state its invariant allows, \<open>Set\<close> and \<open>Delete\<close> keep the invariant, change the map at their key and
  nowhere else when they report success, and leave it unchanged when they report any error, whichever
  operating-system call or cryptographic step failed; \<open>Get\<close> changes nothing and returns only the
  value the map holds.
\<close>

theorem FileBackend_refines_map:
  assumes "FB_inv env s"
  shows "(let (e, s') = FB_Set env key v s in
            FB_inv env s' \<and> FB_val env (files (fst s')) =
              (if e = None then (FB_val env (files (fst s)))(key \<mapsto> v) else FB_val env (files (fst s))))
     \<and> (let (e, s') = FB_Delete env key s in
            FB_inv env s' \<and> FB_val env (files (fst s')) =
              (if e = None then (FB_val env (files (fst s)))(key := None) else FB_val env (files (fst s))))
     \<and> (let (r, s') = FB_Get env key s in
            FB_inv env s' \<and> FB_val env (files (fst s')) = FB_val env (files (fst s))
            \<and> (\<forall>x. r = Inr x \<longrightarrow> FB_val env (files (fst s)) key = Some x))"
  using fb.set_law [OF assms] fb.delete_law [OF assms] fb.get_law [OF assms] by (auto simp: Let_def split: prod.splits)

definition sealed_env :: file_env where
  "sealed_env = \<lparr>ctx_err = None, fault = (\<lambda>op. None), sealing = Some demo_crypto\<rparr>"

definition fresh_backend :: fstate where
  "fresh_backend = ([], \<lparr>dek = None, loaded = False\<rparr>)"

lemma fresh_backend_inv: "FB_inv sealed_env fresh_backend"
  using demo_crypto_ok
  by (simp add: FB_inv_def sealed_env_def fresh_backend_def env_ok_def wf_tree_def rooted_def dek_inv_def files_def fun_eq_iff)

theorem FileBackend_refines_map_witness:
  "fst (FB_Set sealed_env ''a/b'' [1, 2] fresh_backend) = None
   \<and> FB_val sealed_env (files (fst (snd (FB_Set sealed_env ''a/b'' [1, 2] fresh_backend)))) ''a/b'' = Some [1, 2]"
proof -
  have "fst (FB_Set sealed_env ''a/b'' [1, 2] fresh_backend) = None" by code_simp
  then show ?thesis
    using FileBackend_refines_map [OF fresh_backend_inv, of "''a/b''" "[1, 2]"] by (auto simp: Let_def split: prod.splits)
qed

text \<open>
  An instance that looked for the encryption key when there was none remembers that; its next write
  replaces whatever key another instance has put on the disk since.
\<close>

lemma stale_ensureDEK:
  assumes "loaded f" "dek f = None" "ensureDEK env c (t, f) = (Inr d, (t', f'))"
  shows "rand_dek c = Inr d \<and> (\<exists>sealed. tpm_Seal c d = Inr sealed \<and> t' = AList.update [dekFile] (File sealed) t)"
  using assms
  by (auto simp: ensureDEK_def loadDEK_def split: sum.splits prod.splits option.splits elim: writeFileAtomic_cases)

lemma stale_Set:
  assumes c: "sealing env = Some c" "crypto_ok c" and f: "loaded f" "dek f = None"
    and w: "FB_Set env key v (t, f) = (None, (t', f'))"
  obtains d sealed payload where "rand_dek c = Inr d" "tpm_Seal c d = Inr sealed" "encrypt c d v = Inr payload"
    "validateKey key = None" "files t' = (files t)([dekFile] \<mapsto> sealed, Split key (CHR ''/'') \<mapsto> payload)"
proof -
  let ?p = "Split key (CHR ''/'')"
  have v: "ctx_err env = None" "validateKey key = None"
    using w by (auto simp: FB_Set_def pathFor_def check_def split: option.splits)
  obtain e1 t1 where m: "MkdirAll env (butlast ?p) t = (e1, t1)" by fastforce
  have e1: "e1 = None" using w v m by (cases e1) (auto simp: FB_Set_def pathFor_def)
  obtain r t2 f2 where en: "ensureDEK env c (t1, f) = (r, (t2, f2))" by (metis surj_pair)
  obtain d payload where r: "r = Inr d" "encrypt c d v = Inr payload" "writeFileAtomic env ?p payload t2 = (None, t')"
    using w v m e1 c en by (auto simp: FB_Set_def pathFor_def split: sum.splits prod.splits)
  obtain sealed where s: "rand_dek c = Inr d" "tpm_Seal c d = Inr sealed" "t2 = AList.update [dekFile] (File sealed) t1"
    using stale_ensureDEK [OF f en [unfolded r(1)]] by blast
  have "files t1 = files t" using m mkdirs_files unfolding MkdirAll_def by blast
  then have "files t' = (files t)([dekFile] \<mapsto> sealed, ?p \<mapsto> payload)"
    using r(3) s(3) by (auto elim: writeFileAtomic_cases)
  then show thesis using that r s v by blast
qed

text \<open>
  C39. A backend instance that found no encryption key on its first attempt (and, say, failed to seal one)
  keeps that knowledge for its lifetime. When another instance on the same root has stored a key and
  secrets since, the next successful \<open>Set\<close> of the first one overwrites the sealed key, and a
  secret that was readable before is not any more, provided only that a GCM ciphertext does
  not open under the other key.
\<close>

theorem stale_backend_loses_secrets:
  assumes c: "sealing env = Some c" "crypto_ok c" and f: "loaded f" "dek f = None"
    and w: "FB_Set env key v (t, f) = (None, (t', f'))"
    and old: "disk_dek c (files t) = Some old" "rand_dek c = Inr fresh"
    and other: "\<And>n y x. gcm_Open c old n y = Inr x \<Longrightarrow> \<exists>e. gcm_Open c fresh n y = Inl e"
    and k: "FB_val env (files t) k = Some x" "k \<noteq> key"
  shows "FB_val env (files t') k = None"
proof -
  obtain d sealed payload where s: "rand_dek c = Inr d" "tpm_Seal c d = Inr sealed" "encrypt c d v = Inr payload"
    "validateKey key = None" "files t' = (files t)([dekFile] \<mapsto> sealed, Split key (CHR ''/'') \<mapsto> payload)"
    using stale_Set [OF c f w] .
  have new: "disk_dek c (files t') = Some fresh"
    using s key_not_dek [OF s(4)] c(2) old(2) by (auto simp: disk_dek_def crypto_ok_def dekSize_def)
  have vk: "validateKey k = None" using k(1) by (auto simp: FB_val_def split: if_splits)
  then obtain d0 where d0: "files t (Split k (CHR ''/'')) = Some d0" "unlocked env (files t) d0 = Some x"
    using k(1) by (auto simp: FB_val_def bind_eq_Some_conv)
  then have "decrypt c old d0 = Inr x"
    using c(1) old(1) by (cases "decrypt c old d0") (simp_all add: unlocked_def)
  then have "\<exists>e. decrypt c fresh d0 = Inl e"
    using other [of "take gcmNonceSize d0" "drop gcmNonceSize d0" x] by (auto simp: decrypt_def result_simps check_def split: if_splits option.splits)
  moreover have "files t' (Split k (CHR ''/'')) = Some d0"
    using d0(1) s(5) key_not_dek [OF vk] k(2) Split_inj [of k "CHR ''/''" key] by auto
  ultimately show ?thesis using new c(1) by (auto simp: FB_val_def unlocked_def)
qed

definition broken_tpm_env :: file_env where
  "broken_tpm_env = sealed_env\<lparr>sealing := Some (demo_crypto\<lparr>tpm_Seal := (\<lambda>x. Inl (Errorf ''tpm busy''))\<rparr>)\<rparr>"

definition second_env :: file_env where
  "second_env = sealed_env\<lparr>sealing := Some (demo_crypto\<lparr>rand_dek := Inr (replicate 32 8)\<rparr>)\<rparr>"

text \<open>A first instance fails to seal, a second one stores a secret, the first one retries.\<close>

definition first_failed :: fstate where
  "first_failed = snd (FB_Set broken_tpm_env ''x'' [3] fresh_backend)"

definition second_stored :: fstate where
  "second_stored = snd (FB_Set sealed_env ''a'' [1, 2] fresh_backend)"

theorem stale_backend_loses_secrets_witness:
  "FB_val second_env (files (fst second_stored)) ''a'' = Some [1, 2]
   \<and> FB_val second_env (files (fst (snd (FB_Set second_env ''x'' [3] (fst second_stored, snd first_failed))))) ''a'' = None"
proof -
  let ?c = "demo_crypto\<lparr>rand_dek := Inr (replicate 32 8)\<rparr>"
  let ?r = "FB_Set second_env ''x'' [3] (fst second_stored, snd first_failed)"
  have v: "FB_val second_env (files (fst second_stored)) ''a'' = Some [1, 2]" by code_simp
  have r: "?r = (None, (fst (snd ?r), snd (snd ?r)))"
  proof -
    have "fst ?r = None" by code_simp
    then show ?thesis by (metis prod.collapse)
  qed
  have s: "sealing second_env = Some ?c" by (simp add: second_env_def)
  have ok: "crypto_ok ?c" using demo_crypto_ok by (simp add: crypto_ok_def)
  have f: "loaded (snd first_failed)" "dek (snd first_failed) = None" by code_simp+
  have o: "disk_dek ?c (files (fst second_stored)) = Some (replicate 32 7)" by code_simp
  have g: "gcm_Open ?c (replicate 32 7) n y = Inr x \<Longrightarrow> \<exists>e. gcm_Open ?c (replicate 32 8) n y = Inl e" for n y x
    by (auto simp: demo_crypto_def split: if_splits)
  show ?thesis
    using stale_backend_loses_secrets [OF s ok f r o _ g v] v by simp
qed

end
