(* ===== verification/ZfsEncryption.thy ===== *)
theory ZfsEncryption
  imports ZfsDataset Secrets
begin

text \<open>
  \<^verbatim>\<open>internal/host/zfs/dataset/encryption.go\<close>: the escrow of dataset keys. The manager glues the TPM
  envelope (\<open>TpmWire\<close>), a secrets backend (\<open>Secrets\<close>) and the \<open>zfs\<close> tool, which gets the raw key
  on its standard input. The state of the backend and the state of the host are threaded through
  every operation. JSON, base64 and the clock are parameters of the manager.
\<close>

subsection \<open>Secret keys of datasets\<close>

definition DefaultEncryptionAlgorithm :: string where "DefaultEncryptionAlgorithm = ''aes-256-gcm''"
definition RawKeyLen :: nat where "RawKeyLen = 32"

definition hex_digit :: "nat \<Rightarrow> char" where
  "hex_digit n = ''0123456789ABCDEF'' ! n"

definition plain_byte :: "char \<Rightarrow> bool" where
  "plain_byte c \<longleftrightarrow> in_range (CHR ''a'') (CHR ''z'') c \<or> in_range (CHR ''A'') (CHR ''Z'') c
     \<or> in_range (CHR ''0'') (CHR ''9'') c \<or> c = CHR ''-''"

definition encodeByte :: "char \<Rightarrow> string" where
  "encodeByte c = (if plain_byte c then [c]
     else [CHR ''_'', CHR ''_'', hex_digit (of_char c div 16), hex_digit (of_char c mod 16)])"

definition encodeSegment :: "string \<Rightarrow> string" where
  "encodeSegment s = concat (map encodeByte s)"

definition EncodeSecretKey :: "string \<Rightarrow> string result" where
  "EncodeSecretKey datasetName =
     check (ValidateDatasetName datasetName)
       (Inr (''zfs-keys/'' @ Join (map encodeSegment (Split datasetName (CHR ''/''))) ''/''))"

definition isHex :: "char \<Rightarrow> bool" where
  "isHex c \<longleftrightarrow> in_range (CHR ''0'') (CHR ''9'') c \<or> in_range (CHR ''a'') (CHR ''f'') c \<or> in_range (CHR ''A'') (CHR ''F'') c"

definition hex_val :: "char \<Rightarrow> nat" where
  "hex_val c =
     (if in_range (CHR ''0'') (CHR ''9'') c then of_char c - 48
      else if in_range (CHR ''a'') (CHR ''f'') c then of_char c - 97 + 10
      else if in_range (CHR ''A'') (CHR ''F'') c then of_char c - 65 + 10 else 0)"

definition bad_escape :: error where
  "bad_escape = Errorf ''malformed escape at offset %d in %q''"

fun decodeSegment :: "string \<Rightarrow> string result" where
  "decodeSegment [] = Inr []"
| "decodeSegment (c # s) =
     (if c = CHR ''_'' then
        (case s of
           u # h # l # rest \<Rightarrow>
             if u \<noteq> CHR ''_'' \<or> \<not> isHex h \<or> \<not> isHex l then Inl bad_escape
             else bindE (decodeSegment rest) (\<lambda>d. Inr (char_of (16 * hex_val h + hex_val l) # d))
         | _ \<Rightarrow> Inl bad_escape)
      else bindE (decodeSegment s) (\<lambda>d. Inr (c # d)))"

definition DecodeSecretKey :: "string \<Rightarrow> string result" where
  "DecodeSecretKey k =
     (if \<not> HasPrefix k ''zfs-keys/'' then Inl (Errorf ''not a zfs-keys/ secret: %q'')
      else bindE (seqE (map (\<lambda>p. wrapE ''decode segment %q: %w'' (decodeSegment p))
                   (Split (TrimPrefix k ''zfs-keys/'') (CHR ''/'')))) (\<lambda>out.
           let full = Join out ''/''
           in check (wrap_err ''decoded name invalid: %w'' (ValidateDatasetName full)) (Inr full)))"

subsection \<open>The manager\<close>

record WrappedKeyRecord =
  wkWrapped :: string
  wkAlgorithm :: string
  wkCreated :: string

record 's secrets_api =
  sGet :: "string \<Rightarrow> 's \<Rightarrow> byte list result \<times> 's"
  sSet :: "string \<Rightarrow> byte list \<Rightarrow> 's \<Rightarrow> error option \<times> 's"
  sDelete :: "string \<Rightarrow> 's \<Rightarrow> error option \<times> 's"
  sList :: "string \<Rightarrow> 's \<Rightarrow> string list result"

type_synonym 'w stdin_runner = "string \<Rightarrow> byte list option \<Rightarrow> string list \<Rightarrow> 'w \<Rightarrow> (string \<times> error option) \<times> 'w"

text \<open>
  The fields of \<open>EncryptionManager\<close> and what its methods take from the standard library: the bytes
  \<open>GenerateRawKey\<close> draws, the formatted time, and the JSON and base64 codecs.
\<close>

record ('s, 'w) EncryptionManager =
  emZFSBin :: string
  emSealer :: "crypto option"
  emSecrets :: "'s secrets_api option"
  emRunStdin :: "'w stdin_runner"
  emNow :: string
  emRand :: "byte list result"
  emMarshal :: "WrappedKeyRecord \<Rightarrow> byte list result"
  emUnmarshal :: "byte list \<Rightarrow> WrappedKeyRecord result"
  emB64Encode :: "byte list \<Rightarrow> string"
  emB64Decode :: "string \<Rightarrow> byte list result"

definition GenerateRawKey :: "('s, 'w) EncryptionManager \<Rightarrow> byte list result" where
  "GenerateRawKey m = wrapE ''rand raw key: %w'' (emRand m)"

definition CreateEncryptedArgs :: "CreateSpec \<Rightarrow> string list result" where
  "CreateEncryptedArgs spec =
     (if \<not> csEncryptionEnabled spec then Inl (Errorf ''CreateEncryptedArgs called on non-encrypted spec'')
      else if csType spec \<noteq> ''filesystem'' \<and> csType spec \<noteq> ''volume'' then Inl (Errorf ''invalid dataset type %q'')
      else let full = csParent spec @ ''/'' @ csName spec;
               alg = (if csEncryptionAlgorithm spec = [] then DefaultEncryptionAlgorithm else csEncryptionAlgorithm spec);
               args = [''create'', ''-o'', ''encryption='' @ alg, ''-o'', ''keyformat=raw'', ''-o'', ''keylocation=prompt'']
           in check (ValidateDatasetName full)
             (if list_ex (\<lambda>(k, v). k = ''encryption'' \<or> k = ''keyformat'' \<or> k = ''keylocation'') (csProperties spec)
              then Inl (Errorf ''property %q must not be set when EncryptionEnabled=true'')
              else if csType spec = ''volume'' then
                if csVolumeSizeBytes spec = 0 then Inl (Errorf ''volume requires volumeSizeBytes'')
                else Inr (args @ prop_flags (csProperties spec) @ [''-V'', dec (csVolumeSizeBytes spec)] @ [full])
              else Inr (args @ prop_flags (csProperties spec) @ [full])))"

definition LoadKeyArgs :: "string \<Rightarrow> string list result" where
  "LoadKeyArgs name = check (ValidateDatasetName name) (Inr [''load-key'', ''-L'', ''prompt'', name])"

text \<open>The roll-back of the escrow record: its own error is dropped.\<close>

definition roll_back :: "'s secrets_api \<Rightarrow> string \<Rightarrow> error \<Rightarrow> 's \<Rightarrow> 'w \<Rightarrow> byte list result \<times> 's \<times> 'w" where
  "roll_back api key e s w = (Inl e, snd (sDelete api key s), w)"

text \<open>What \<open>Initialize\<close> does once the record is written.\<close>

definition after_set :: "('s, 'w) EncryptionManager \<Rightarrow> 's secrets_api \<Rightarrow> string \<Rightarrow> byte list \<Rightarrow> CreateSpec option \<Rightarrow>
    's \<Rightarrow> 'w \<Rightarrow> byte list result \<times> 's \<times> 'w" where
  "after_set m api k key spec s w =
     (case spec of None \<Rightarrow> (Inr key, s, w)
      | Some sp \<Rightarrow> (case CreateEncryptedArgs sp of Inl e \<Rightarrow> roll_back api k e s w
        | Inr args \<Rightarrow> (case emRunStdin m (emZFSBin m) (Some key) args w of
            ((out, Some e), w) \<Rightarrow> roll_back api k (Wrapf ''zfs create: %w'' e) s w
          | ((out, None), w) \<Rightarrow> (Inr key, s, w))))"

definition Initialize ::
  "('s, 'w) EncryptionManager \<Rightarrow> string \<Rightarrow> CreateSpec option \<Rightarrow> 's \<Rightarrow> 'w \<Rightarrow> byte list result \<times> 's \<times> 'w" where
  "Initialize m full spec s w =
     (case ValidateDatasetName full of Some e \<Rightarrow> (Inl e, s, w)
     | None \<Rightarrow> (case emSealer m of None \<Rightarrow> (Inl (Errorf ''encryption manager: no TPM sealer configured''), s, w)
     | Some c \<Rightarrow> (case emSecrets m of None \<Rightarrow> (Inl (Errorf ''encryption manager: no secrets backend configured''), s, w)
     | Some api \<Rightarrow> (case GenerateRawKey m of Inl e \<Rightarrow> (Inl e, s, w)
     | Inr rawKey \<Rightarrow> (case WrapAEAD c rawKey of Inl e \<Rightarrow> (Inl (Wrapf ''tpm wrap: %w'' e), s, w)
     | Inr wrapped \<Rightarrow>
         let alg = (case spec of
                      Some sp \<Rightarrow> if csEncryptionAlgorithm sp \<noteq> [] then csEncryptionAlgorithm sp else DefaultEncryptionAlgorithm
                    | None \<Rightarrow> DefaultEncryptionAlgorithm);
             rec = \<lparr>wkWrapped = emB64Encode m wrapped, wkAlgorithm = alg, wkCreated = emNow m\<rparr>
         in (case emMarshal m rec of Inl e \<Rightarrow> (Inl (Wrapf ''marshal record: %w'' e), s, w)
     | Inr body \<Rightarrow> (case EncodeSecretKey full of Inl e \<Rightarrow> (Inl e, s, w)
     | Inr secretKey \<Rightarrow> (case sSet api secretKey body s of
         (Some e, s) \<Rightarrow> (Inl (Wrapf ''secrets set %s: %w'' e), s, w)
       | (None, s) \<Rightarrow> after_set m api secretKey rawKey spec s w))))))))"

text \<open>From the stored record to the raw key.\<close>

definition open_record :: "('s, 'w) EncryptionManager \<Rightarrow> crypto \<Rightarrow> byte list \<Rightarrow> byte list result" where
  "open_record m c body =
     bindE (wrapE ''unmarshal record: %w'' (emUnmarshal m body)) (\<lambda>rec.
     bindE (wrapE ''decode wrapped: %w'' (emB64Decode m (wkWrapped rec))) (\<lambda>wrapped.
     bindE (wrapE ''tpm unwrap: %w'' (UnwrapAEAD c wrapped)) (\<lambda>rawKey.
     if length rawKey \<noteq> RawKeyLen then Inl (Errorf ''recovered key wrong length: have %d, want %d'')
     else Inr rawKey)))"

definition fetchRawKey :: "('s, 'w) EncryptionManager \<Rightarrow> string \<Rightarrow> 's \<Rightarrow> byte list result \<times> 's" where
  "fetchRawKey m full s =
     (case emSealer m of None \<Rightarrow> (Inl (Errorf ''encryption manager: no TPM sealer configured''), s)
     | Some c \<Rightarrow> (case emSecrets m of None \<Rightarrow> (Inl (Errorf ''encryption manager: no secrets backend configured''), s)
     | Some api \<Rightarrow> (case EncodeSecretKey full of Inl e \<Rightarrow> (Inl e, s)
     | Inr secretKey \<Rightarrow> (case sGet api secretKey s of
         (r, s) \<Rightarrow> (bindE (wrapE ''secrets get %s: %w'' r) (open_record m c), s)))))"

definition LoadKey :: "('s, 'w) EncryptionManager \<Rightarrow> string \<Rightarrow> 's \<Rightarrow> 'w \<Rightarrow> error option \<times> 's \<times> 'w" where
  "LoadKey m full s w =
     (case fetchRawKey m full s of
        (Inl e, s) \<Rightarrow> (Some e, s, w)
      | (Inr rawKey, s) \<Rightarrow> (case LoadKeyArgs full of
          Inl e \<Rightarrow> (Some e, s, w)
        | Inr args \<Rightarrow> (case emRunStdin m (emZFSBin m) (Some rawKey) args w of
            ((out, e), w) \<Rightarrow> (wrap_err ''zfs load-key: %w'' e, s, w))))"

definition UnloadKey :: "('s, 'w) EncryptionManager \<Rightarrow> string \<Rightarrow> 'w \<Rightarrow> error option \<times> 'w" where
  "UnloadKey m full w =
     (case ValidateDatasetName full of
        Some e \<Rightarrow> (Some e, w)
      | None \<Rightarrow> (case emRunStdin m (emZFSBin m) None [''unload-key'', full] w of
          ((out, e), w) \<Rightarrow> (wrap_err ''zfs unload-key: %w'' e, w)))"

definition Recover :: "('s, 'w) EncryptionManager \<Rightarrow> string \<Rightarrow> 's \<Rightarrow> byte list result \<times> 's" where
  "Recover m full s = fetchRawKey m full s"

text \<open>\<open>strings.Contains (err.Error()) s\<close>, on the parts of the message the model keeps.\<close>

fun err_contains :: "error \<Rightarrow> string \<Rightarrow> bool" where
  "err_contains (Errorf f) s = Contains f s"
| "err_contains (Wrapf f e) s = (Contains f s \<or> err_contains e s)"
| "err_contains (HostError bin args code stderr) s = Contains stderr s"

definition HasKey :: "'s secrets_api \<Rightarrow> string \<Rightarrow> 's \<Rightarrow> bool result \<times> 's" where
  "HasKey api full s =
     (case EncodeSecretKey full of Inl e \<Rightarrow> (Inl e, s)
     | Inr secretKey \<Rightarrow> (case sGet api secretKey s of
         (Inl e, s) \<Rightarrow> (if err_contains e ''not found'' then Inr False else Inl e, s)
       | (Inr body, s) \<Rightarrow> (Inr True, s)))"

definition ListEscrowedDatasets :: "'s secrets_api \<Rightarrow> 's \<Rightarrow> string list result" where
  "ListEscrowedDatasets api s =
     bindE (wrapE ''secrets list: %w'' (sList api ''zfs-keys/'' s)) (\<lambda>keys.
     Inr (sort (concat (map (\<lambda>k. case DecodeSecretKey k of Inl e \<Rightarrow> [] | Inr ds \<Rightarrow> [ds]) keys))))"

subsection \<open>The encoding\<close>

lemma hex_digit_val:
  "n < 16 \<Longrightarrow> isHex (hex_digit n) \<and> hex_val (hex_digit n) = n \<and> key_char (hex_digit n)"
proof -
  have "\<forall>n\<in>set [0..<16]. isHex (hex_digit n) \<and> hex_val (hex_digit n) = n \<and> key_char (hex_digit n)" by code_simp
  then show "n < 16 \<Longrightarrow> isHex (hex_digit n) \<and> hex_val (hex_digit n) = n \<and> key_char (hex_digit n)" by simp
qed

lemma of_char_less: "(of_char c :: nat) < 256"
  by simp

lemma decode_encodeByte: "decodeSegment (encodeByte c @ s) = bindE (decodeSegment s) (\<lambda>d. Inr (c # d))"
proof (cases "plain_byte c")
  case True
  moreover have "\<not> plain_byte (CHR ''_'')" by code_simp
  ultimately show ?thesis by (auto simp: encodeByte_def)
next
  case False
  have "(of_char c :: nat) div 16 < 16" "(of_char c :: nat) mod 16 < 16"
    using of_char_less [of c] by (simp_all add: less_mult_imp_div_less)
  note h = this [THEN hex_digit_val]
  have "16 * ((of_char c :: nat) div 16) + of_char c mod 16 = of_char c" by simp
  then show ?thesis using False h by (simp add: encodeByte_def)
qed

lemma decodeSegment_encodeSegment: "decodeSegment (encodeSegment s) = Inr s"
  by (induction s) (simp_all add: encodeSegment_def decode_encodeByte)

lemma encodeByte_key_chars: "list_all key_char (encodeByte c)" "encodeByte c \<noteq> []"
proof -
  have "key_char (CHR ''_'')" by code_simp
  moreover have "(of_char c :: nat) div 16 < 16" "(of_char c :: nat) mod 16 < 16"
    using of_char_less [of c] by (simp_all add: less_mult_imp_div_less)
  ultimately show "list_all key_char (encodeByte c)"
    using hex_digit_val by (auto simp: encodeByte_def key_char_def plain_byte_def)
qed (simp add: encodeByte_def)

lemma encodeSegment_segment: "s \<noteq> [] \<Longrightarrow> segment (encodeSegment s)"
  using encodeByte_key_chars by (cases s) (auto simp: segment_def encodeSegment_def list_all_iff)

lemma segment_no_slash: "segment s \<Longrightarrow> CHR ''/'' \<notin> set s"
  using not_key_char(2) by (auto simp: segment_def list_all_iff)

lemma dataset_parts:
  assumes "ValidateDatasetName d = None" "p \<in> set (Split d (CHR ''/''))"
  shows "p \<noteq> []"
proof -
  obtain q cs where s: "d = Join (q # cs) ''/''" "pool_name q" "list_all component cs"
    using assms(1) by (auto simp: ValidateDatasetName_iff dataset_name_def)
  have "\<forall>x\<in>set (q # cs). CHR ''/'' \<notin> set x"
    using s(2,3) component_no_sep(1) by (auto simp: pool_name_def list_all_iff)
  then have "Split d (CHR ''/'') = q # cs" unfolding s(1) by (intro Split_of_Join) simp_all
  then show ?thesis using assms(2) s(2,3) by (auto simp: pool_name_def component_def list_all_iff)
qed

lemma Split_secret_key:
  assumes "EncodeSecretKey d = Inr k"
  shows "Split k (CHR ''/'') = ''zfs-keys'' # map encodeSegment (Split d (CHR ''/''))" "ValidateDatasetName d = None"
proof -
  show v: "ValidateDatasetName d = None" using assms by (simp add: EncodeSecretKey_def check_eq_Inr)
  have k: "k = ''zfs-keys'' @ CHR ''/'' # Join (map encodeSegment (Split d (CHR ''/''))) ''/''"
    using assms by (simp add: EncodeSecretKey_def check_eq_Inr)
  have "\<forall>p\<in>set (map encodeSegment (Split d (CHR ''/''))). CHR ''/'' \<notin> set p"
    using dataset_parts [OF v] by (auto intro!: segment_no_slash encodeSegment_segment simp del: Split.simps)
  then have "Split (Join (map encodeSegment (Split d (CHR ''/''))) ''/'') (CHR ''/'') = map encodeSegment (Split d (CHR ''/''))"
    by (intro Split_of_Join) simp_all
  then show "Split k (CHR ''/'') = ''zfs-keys'' # map encodeSegment (Split d (CHR ''/''))"
    unfolding k Split_sep by (simp add: Split_single)
qed

lemma secret_key_valid:
  assumes "EncodeSecretKey d = Inr k"
  shows "validateKey k = None"
proof -
  have "segment ''zfs-keys''" by code_simp
  then show ?thesis using dataset_parts [OF Split_secret_key(2) [OF assms]]
    by (auto simp: validateKey_iff Split_secret_key(1) [OF assms] list_all_iff intro!: encodeSegment_segment)
qed

lemma seqE_Inr: "seqE (map Inr xs) = Inr xs"
  by (simp add: seqE_eq_Inr)

lemma Decode_Encode:
  assumes "EncodeSecretKey d = Inr k"
  shows "DecodeSecretKey k = Inr d"
proof -
  have k: "k = ''zfs-keys/'' @ Join (map encodeSegment (Split d (CHR ''/''))) ''/''"
    using assms by (simp add: EncodeSecretKey_def check_eq_Inr)
  have "Split k (CHR ''/'') = ''zfs-keys'' # Split (Join (map encodeSegment (Split d (CHR ''/''))) ''/'') (CHR ''/'')"
    unfolding k using Split_sep [of "''zfs-keys''" "CHR ''/''"] by (simp add: Split_single)
  then have t: "Split (TrimPrefix k ''zfs-keys/'') (CHR ''/'') = map encodeSegment (Split d (CHR ''/''))"
    using Split_secret_key(1) [OF assms] by (simp add: k TrimPrefix_def HasPrefix_def)
  have "map (\<lambda>p. wrapE ''decode segment %q: %w'' (decodeSegment p)) (map encodeSegment (Split d (CHR ''/''))) =
      map Inr (Split d (CHR ''/''))"
    by (simp add: decodeSegment_encodeSegment)
  moreover have "HasPrefix k ''zfs-keys/''" by (simp add: k HasPrefix_def)
  ultimately show ?thesis using Split_secret_key(2) [OF assms]
    by (simp only: DecodeSecretKey_def t seqE_Inr) (simp add: Split_Join wrap_err_def)
qed

subsection \<open>The manager over a backend\<close>

text \<open>
  What the manager relies on: documented cryptography, a random source that fills its slice, and
  codecs that return the base64 text and the bytes they were given.
\<close>

definition em_ok :: "('s, 'w) EncryptionManager \<Rightarrow> bool" where
  "em_ok m \<longleftrightarrow> (\<forall>c. emSealer m = Some c \<longrightarrow> crypto_ok c)
     \<and> (\<forall>k. emRand m = Inr k \<longrightarrow> length k = RawKeyLen)
     \<and> (\<forall>x rec body. wkWrapped rec = emB64Encode m x \<longrightarrow> emMarshal m rec = Inr body \<longrightarrow>
          (\<exists>rec'. emUnmarshal m body = Inr rec' \<and> emB64Decode m (wkWrapped rec') = Inr x))"

lemma open_record_wrapped:
  assumes "em_ok m" "emSealer m = Some c" "emRand m = Inr key" "WrapAEAD c key = Inr wrapped"
    "wkWrapped rec = emB64Encode m wrapped" "emMarshal m rec = Inr body"
  shows "open_record m c body = Inr key"
proof -
  obtain rec' where "emUnmarshal m body = Inr rec'" "emB64Decode m (wkWrapped rec') = Inr wrapped"
    using assms(1,5,6) unfolding em_ok_def by blast
  moreover have "UnwrapAEAD c wrapped = Inr key" "length key = RawKeyLen"
    using assms Unwrap_Wrap by (auto simp: em_ok_def)
  ultimately show ?thesis by (simp add: open_record_def)
qed

lemma validate_components_error: "validate_components ps = Some e \<Longrightarrow> \<exists>f. e = Errorf f"
  by (induction ps) (auto split: if_splits)

lemma ValidateDatasetName_error: "ValidateDatasetName d \<noteq> Some (Wrapf ''zfs create: %w'' e)"
  using validate_components_error [of "tl (Split d (CHR ''/''))" "Wrapf ''zfs create: %w'' e"]
  by (auto simp: ValidateDatasetName_def Let_def split: if_splits option.splits)

lemma Initialize_reach:
  assumes i: "Initialize m full spec s w = (r, s', w')"
  obtains (early) e where "r = Inl e" "s' = s" "w' = w" "\<And>e'. e \<noteq> Wrapf ''zfs create: %w'' e'"
  | (late) c api k key wrapped rec body where "emSealer m = Some c" "emSecrets m = Some api"
      "EncodeSecretKey full = Inr k" "emRand m = Inr key" "WrapAEAD c key = Inr wrapped"
      "wkWrapped rec = emB64Encode m wrapped" "emMarshal m rec = Inr body"
      "(case sSet api k body s of (Some e, s) \<Rightarrow> (Inl (Wrapf ''secrets set %s: %w'' e), s, w)
        | (None, s) \<Rightarrow> after_set m api k key spec s w) = (r, s', w')"
proof (cases "\<exists>c api rawKey wrapped. ValidateDatasetName full = None \<and> emSealer m = Some c \<and> emSecrets m = Some api
    \<and> emRand m = Inr rawKey \<and> WrapAEAD c rawKey = Inr wrapped")
  case False
  then have "\<exists>e. r = Inl e \<and> s' = s \<and> w' = w \<and> (\<forall>e'. e \<noteq> Wrapf ''zfs create: %w'' e')"
    using i ValidateDatasetName_error [of full]
    by (auto simp: Initialize_def GenerateRawKey_def wrapE_def split: option.splits sum.splits)
  then show thesis using early by blast
next
  case True
  then obtain c api key wrapped where p: "ValidateDatasetName full = None" "emSealer m = Some c"
    "emSecrets m = Some api" "emRand m = Inr key" "WrapAEAD c key = Inr wrapped" by blast
  define rec where "rec = \<lparr>wkWrapped = emB64Encode m wrapped, wkAlgorithm = (case spec of
        Some sp \<Rightarrow> if csEncryptionAlgorithm sp \<noteq> [] then csEncryptionAlgorithm sp else DefaultEncryptionAlgorithm
      | None \<Rightarrow> DefaultEncryptionAlgorithm), wkCreated = emNow m\<rparr>"
  obtain k where k: "EncodeSecretKey full = Inr k" using p(1) by (simp add: EncodeSecretKey_def)
  show thesis
  proof (cases "emMarshal m rec")
    case (Inl e)
    then show thesis using early i p by (auto simp: Initialize_def GenerateRawKey_def rec_def)
  next
    case (Inr body)
    then show thesis using i p k late [OF p(2,3) k p(4,5) _ Inr]
      by (simp add: Initialize_def GenerateRawKey_def rec_def)
  qed
qed

text \<open>How \<open>Initialize\<close> ends: before it touches the backend, at \<open>Set\<close>, after a roll-back, or with a key.\<close>

lemma Initialize_cases:
  assumes i: "Initialize m full spec s w = (r, s', w')"
  obtains (early) e where "r = Inl e" "s' = s" "\<And>e'. e \<noteq> Wrapf ''zfs create: %w'' e'"
  | (unset) api k body e where "emSecrets m = Some api" "EncodeSecretKey full = Inr k"
      "sSet api k body s = (Some e, s')" "r = Inl (Wrapf ''secrets set %s: %w'' e)"
  | (rolled) api k body s1 e where "emSecrets m = Some api" "EncodeSecretKey full = Inr k"
      "sSet api k body s = (None, s1)" "s' = snd (sDelete api k s1)" "r = Inl e"
  | (stored) api k body key c where "emSecrets m = Some api" "EncodeSecretKey full = Inr k"
      "sSet api k body s = (None, s')" "r = Inr key" "emSealer m = Some c" "em_ok m \<Longrightarrow> open_record m c body = Inr key"
  using i
proof (cases rule: Initialize_reach)
  case (early e)
  then show thesis using that(1) by blast
next
  case (late c api k key wrapped rec body)
  obtain e1 s1 where st: "sSet api k body s = (e1, s1)" by fastforce
  show thesis
  proof (cases e1)
    case (Some e)
    then show thesis using unset [OF late(2,3)] st late(8) by simp
  next
    case None
    then have a: "after_set m api k key spec s1 w = (r, s', w')" using late(8) st by simp
    then have "(\<exists>e. r = Inl e \<and> s' = snd (sDelete api k s1)) \<or> r = Inr key \<and> s' = s1"
      by (auto simp: after_set_def roll_back_def split: option.splits sum.splits prod.splits)
    then show thesis using rolled [OF late(2,3)] stored [OF late(2,3) _ _ late(1) open_record_wrapped [OF _ late(1,4-7)]] st None
      by blast
  qed
qed

text \<open>The manager over any backend that keeps the contract.\<close>

context secret_store
begin

lemma Initialize_vals:
  assumes a: "emSecrets m = Some api" "sSet api = set_key" "sDelete api = delete" and v: "inv s"
    and i: "Initialize m full spec s w = (r, s', w')"
  shows "inv s' \<and> (\<forall>k. EncodeSecretKey full \<noteq> Inr k \<longrightarrow> vals s' k = vals s k)"
  using i
proof (cases rule: Initialize_cases)
  case (early e)
  then show ?thesis using v by simp
next
  case (unset api' k body e)
  then show ?thesis using a set_law [OF v, of k body "Some e" s'] by auto
next
  case (rolled api' k body s1 e)
  then have st: "set_key k body s = (None, s1)" "s' = snd (delete k s1)" using a by simp_all
  note s1 = set_law [OF v st(1)]
  obtain e2 where "delete k s1 = (e2, s')" using st(2) by (cases "delete k s1") simp
  then show ?thesis using delete_law [of s1 k e2 s'] s1 rolled(2) by auto
next
  case (stored api' k body key c)
  then show ?thesis using a set_law [OF v, of k body None s'] by auto
qed

lemma Recover_after_Initialize:
  assumes a: "emSecrets m = Some api" "sSet api = set_key" "sGet api = get" and v: "inv s" "up" and m: "em_ok m"
    and i: "Initialize m full spec s w = (Inr key, s', w')"
  shows "fst (fetchRawKey m full s') = Inr key"
  using i
proof (cases rule: Initialize_cases)
  case (stored api' k body key' c)
  then have "set_key k body s = (None, s')" using a by simp
  then have g: "fst (get k s') = Inr body" using get_after_set v by blast
  obtain s2 where "get k s' = (Inr body, s2)" using g by (metis prod.collapse)
  then show ?thesis using stored a m by (simp add: fetchRawKey_def)
qed simp_all

lemma Initialize_failed:
  assumes a: "emSecrets m = Some api" "sSet api = set_key" "sDelete api = delete" and v: "inv s" "up"
    and i: "Initialize m full spec s w = (Inl (Wrapf ''zfs create: %w'' e), s', w')"
    and k: "EncodeSecretKey full = Inr k"
  shows "inv s' \<and> vals s' k = None"
  using i
proof (cases rule: Initialize_cases)
  case (rolled api' k' body s1 e')
  then have st: "set_key k body s = (None, s1)" "s' = snd (delete k s1)" using a k by simp_all
  note s1 = set_law [OF v(1) st(1)]
  have "fst (delete k s1) = None" using delete_up v(2) s1 by simp
  then have "delete k s1 = (None, s')" using st(2) by (metis prod.collapse)
  then show ?thesis using delete_law [of s1 k None s'] s1 by simp
next
  case (early e')
  then show ?thesis by blast
qed simp_all

end

definition file_api :: "file_env \<Rightarrow> fstate secrets_api" where
  "file_api env = \<lparr>sGet = FB_Get env, sSet = FB_Set env, sDelete = FB_Delete env, sList = FB_List env\<rparr>"

lemmas file_api_simps = file_api_def secrets_api.simps

subsection \<open>Properties\<close>

text \<open>
  Every valid dataset name has a secret key; the secrets backends accept that key, and decoding it
  gives the name back. So distinct datasets never share an escrow record, and the boot-time loader
  reads back the names that were written.
\<close>

theorem DecodeSecretKey_EncodeSecretKey:
  assumes "ValidateDatasetName d = None"
  shows "\<exists>k. EncodeSecretKey d = Inr k \<and> validateKey k = None \<and> DecodeSecretKey k = Inr d"
proof -
  obtain k where k: "EncodeSecretKey d = Inr k" using assms by (simp add: EncodeSecretKey_def)
  then show ?thesis using secret_key_valid [OF k] Decode_Encode [OF k] by blast
qed

theorem DecodeSecretKey_EncodeSecretKey_witness:
  "EncodeSecretKey ''tank/a_b.c'' = Inr ''zfs-keys/tank/a__5Fb__2Ec''
   \<and> DecodeSecretKey ''zfs-keys/tank/a__5Fb__2Ec'' = Inr ''tank/a_b.c''"
proof -
  have v: "ValidateDatasetName ''tank/a_b.c'' = None" by code_simp
  have e: "EncodeSecretKey ''tank/a_b.c'' = Inr ''zfs-keys/tank/a__5Fb__2Ec''" by code_simp
  show ?thesis using DecodeSecretKey_EncodeSecretKey [OF v] e by simp
qed

lemma fetchRawKey_length: "fst (fetchRawKey m full s) = Inr key \<Longrightarrow> length key = RawKeyLen"
  by (auto simp: fetchRawKey_def open_record_def result_simps split: option.splits sum.splits prod.splits if_splits)

lemma fetchRawKey_valid: "fst (fetchRawKey m full s) = Inr key \<Longrightarrow> ValidateDatasetName full = None"
  by (auto simp: fetchRawKey_def EncodeSecretKey_def check_def split: option.splits)

lemma escrow_listed:
  assumes k: "EncodeSecretKey full = Inr k" "FB_val env (files (fst s)) k \<noteq> None"
    and up: "ctx_err env = None" "\<And>op. fault env op = None"
  shows "\<exists>ds. ListEscrowedDatasets (file_api env) s = Inr ds \<and> full \<in> set ds"
proof -
  obtain t f where s: "s = (t, f)" by fastforce
  have p: "validatePrefix ''zfs-keys/'' = None" by code_simp
  have v: "validateKey k = None" using secret_key_valid [OF k(1)] .
  have f: "files t (Split k (CHR ''/'')) \<noteq> None" using k(2) v s by (auto simp: FB_val_def bind_eq_Some_conv)
  obtain ks where ks: "FB_List env ''zfs-keys/'' s = Inr ks" using up p by (simp add: FB_List_def s wrap_err_def)
  have "HasPrefix k ''zfs-keys/''" using k(1) by (auto simp: EncodeSecretKey_def check_eq_Inr HasPrefix_def)
  then have "k \<in> set ks" using FB_List_stored [OF v f _ ks [unfolded s]] by blast
  moreover have "DecodeSecretKey k = Inr full" using Decode_Encode [OF k(1)] .
  ultimately show ?thesis using ks by (force simp: ListEscrowedDatasets_def file_api_simps)
qed

text \<open>
  C9. A key that \<open>Initialize\<close> returned can be recovered: with the file backend up, plain or sealed,
  \<open>Recover\<close> returns the same 32 bytes, \<open>LoadKey\<close> hands exactly these bytes to
  \<open>zfs load-key -L prompt\<close> on its standard input, and the boot-time listing names the dataset.
\<close>

theorem Initialize_then_Recover:
  assumes m: "em_ok m" "emSecrets m = Some (file_api env)" and v: "FB_inv env s"
    and up: "ctx_err env = None" "\<And>op. fault env op = None"
    and i: "Initialize m full spec s w = (Inr key, s', w')"
  shows "fst (Recover m full s') = Inr key \<and> length key = 32
    \<and> LoadKey m full s' h =
      (case emRunStdin m (emZFSBin m) (Some key) [''load-key'', ''-L'', ''prompt'', full] h of
         ((out, e), h') \<Rightarrow> (wrap_err ''zfs load-key: %w'' e, snd (Recover m full s'), h'))
    \<and> (\<exists>ds. ListEscrowedDatasets (file_api env) s' = Inr ds \<and> full \<in> set ds)"
proof -
  have r: "fst (fetchRawKey m full s') = Inr key"
    using fb.Recover_after_Initialize [OF m(2) _ _ v _ m(1) i] up by (simp add: file_api_simps)
  then obtain s2 where s2: "fetchRawKey m full s' = (Inr key, s2)" by (metis prod.collapse)
  have "LoadKeyArgs full = Inr [''load-key'', ''-L'', ''prompt'', full]"
    using fetchRawKey_valid [OF r] by (simp add: LoadKeyArgs_def)
  then have l: "LoadKey m full s' h =
      (case emRunStdin m (emZFSBin m) (Some key) [''load-key'', ''-L'', ''prompt'', full] h of
         ((out, e), h') \<Rightarrow> (wrap_err ''zfs load-key: %w'' e, snd (Recover m full s'), h'))"
    using s2 by (simp add: LoadKey_def Recover_def)
  obtain k body where "EncodeSecretKey full = Inr k" "FB_Set env k body s = (None, s')"
    using i m(2) by (auto elim!: Initialize_cases simp: file_api_simps)
  then have "\<exists>ds. ListEscrowedDatasets (file_api env) s' = Inr ds \<and> full \<in> set ds"
    using fb.set_law [OF v] up by (intro escrow_listed) auto
  then show ?thesis using r l fetchRawKey_length [OF r] by (simp add: Recover_def RawKeyLen_def)
qed

text \<open>
  A manager for the witnesses: codecs that copy bytes, and a \<open>zfs\<close> that refuses to create a dataset twice.
\<close>

definition demo_zfs :: "string list list stdin_runner" where
  "demo_zfs bin inp args w =
     (if args \<in> set w then (([], Some (HostError bin args 1 ''dataset already exists'')), w) else (([], None), args # w))"

definition char_of_byte :: "byte \<Rightarrow> char" where
  "char_of_byte b = char_of (unat b)"

definition byte_of :: "char \<Rightarrow> byte" where
  "byte_of c = of_nat (of_char c)"

lemma byte_of_char [simp]: "byte_of (char_of_byte b) = b"
proof -
  have "unat b < 2 ^ LENGTH(8)" by (rule unsigned_less)
  then have "unat b < 256" by simp
  then show ?thesis by (simp add: byte_of_def char_of_byte_def)
qed

lemma char_of_byte_of [simp]: "char_of_byte (byte_of c) = c"
proof -
  have "unat (of_nat (of_char c) :: byte) = of_char c" by (simp add: unat_of_nat)
  then show ?thesis by (simp add: byte_of_def char_of_byte_def)
qed

definition demo_em :: "file_env \<Rightarrow> (fstate, string list list) EncryptionManager" where
  "demo_em env =
     \<lparr>emZFSBin = ''zfs'', emSealer = Some demo_crypto, emSecrets = Some (file_api env), emRunStdin = demo_zfs, emNow = [],
      emRand = Inr (replicate 32 5),
      emMarshal = (\<lambda>r. Inr (map byte_of (wkWrapped r))),
      emUnmarshal = (\<lambda>b. Inr \<lparr>wkWrapped = map char_of_byte b, wkAlgorithm = [], wkCreated = []\<rparr>),
      emB64Encode = map char_of_byte, emB64Decode = (\<lambda>s. Inr (map byte_of s))\<rparr>"

definition demo_spec :: CreateSpec where
  "demo_spec = \<lparr>csParent = ''tank'', csName = ''v'', csType = ''filesystem'', csVolumeSizeBytes = 0,
     csProperties = [], csEncryptionEnabled = True, csEncryptionAlgorithm = []\<rparr>"

lemma demo_em_ok: "em_ok (demo_em env)"
  using demo_crypto_ok by (simp add: em_ok_def demo_em_def RawKeyLen_def comp_def)

definition first_init :: "byte list result \<times> fstate \<times> string list list" where
  "first_init = Initialize (demo_em sealed_env) ''tank/v'' (Some demo_spec) fresh_backend []"

lemma first_init_ok: "fst first_init = Inr (replicate 32 5)"
  by code_simp

lemma first_init_eq:
  "Initialize (demo_em sealed_env) ''tank/v'' (Some demo_spec) fresh_backend [] =
     (Inr (replicate 32 5), fst (snd first_init), snd (snd first_init))"
  using first_init_ok by (metis first_init_def prod.collapse)

lemma demo_em_secrets: "emSecrets (demo_em env) = Some (file_api env)"
  by (simp add: demo_em_def)

lemma sealed_env_up: "ctx_err sealed_env = None" "fault sealed_env op = None"
  by (simp_all add: sealed_env_def)

theorem Initialize_then_Recover_witness:
  "fst (Recover (demo_em sealed_env) ''tank/v'' (fst (snd first_init))) = Inr (replicate 32 5)"
  using Initialize_then_Recover [OF demo_em_ok demo_em_secrets fresh_backend_inv sealed_env_up first_init_eq, of "[]"]
  by simp

text \<open>
  \<open>Initialize\<close> on one dataset leaves the escrow record of every other dataset as it was, however it ends:
  success, an early refusal, a failed write, or a roll-back.
\<close>

theorem Initialize_keeps_others:
  assumes m: "emSecrets m = Some (file_api env)" and v: "FB_inv env s"
    and i: "Initialize m full spec s w = (r, s', w')"
    and k: "EncodeSecretKey other = Inr k" "other \<noteq> full"
  shows "FB_inv env s' \<and> FB_val env (files (fst s')) k = FB_val env (files (fst s)) k"
proof -
  have "EncodeSecretKey full \<noteq> Inr k" using Decode_Encode [of full k] Decode_Encode [OF k(1)] k(2) by auto
  then show ?thesis using fb.Initialize_vals [OF m _ _ v i] by (simp add: file_api_simps)
qed

theorem Initialize_keeps_others_witness:
  "FB_val sealed_env (files (fst (fst (snd first_init)))) ''zfs-keys/tank'' = FB_val sealed_env (files (fst fresh_backend)) ''zfs-keys/tank''"
proof -
  have "EncodeSecretKey ''tank'' = Inr ''zfs-keys/tank''" by code_simp
  then show ?thesis
    using Initialize_keeps_others [OF demo_em_secrets fresh_backend_inv first_init_eq, of "''tank''"] by simp
qed

text \<open>
  An \<open>Initialize\<close> whose \<open>zfs create\<close> fails destroys the escrow of the dataset, also when the dataset
  existed before with its key escrowed: the record is overwritten before the tool is run and then
  deleted, so \<open>Recover\<close> fails afterwards and the key of the existing dataset is lost.
\<close>

theorem failed_Initialize_destroys_escrow:
  assumes m: "emSecrets m = Some (file_api env)" and v: "FB_inv env s"
    and up: "ctx_err env = None" "\<And>op. fault env op = None"
    and i: "Initialize m full spec s w = (Inl (Wrapf ''zfs create: %w'' e), s', w')"
  shows "\<exists>e'. fst (Recover m full s') = Inl e'"
proof (cases "fst (Recover m full s')")
  case (Inr key)
  then obtain k api c where k: "EncodeSecretKey full = Inr k" "\<exists>body. fst (FB_Get env k s') = Inr body"
    using m by (auto simp: Recover_def fetchRawKey_def file_api_simps result_simps split: option.splits sum.splits prod.splits)
  then have "FB_inv env s' \<and> FB_val env (files (fst s')) k = None"
    using fb.Initialize_failed [OF m _ _ v _ i k(1)] up by (simp add: file_api_simps)
  then show ?thesis using k(2) fb.get_law [of env s' k "fst (FB_Get env k s')" "snd (FB_Get env k s')"] by auto
qed simp

definition second_init :: "byte list result \<times> fstate \<times> string list list" where
  "second_init = Initialize (demo_em sealed_env) ''tank/v'' (Some demo_spec) (fst (snd first_init)) (snd (snd first_init))"

lemma second_init_failed:
  "fst second_init = Inl (Wrapf ''zfs create: %w'' (HostError ''zfs''
     [''create'', ''-o'', ''encryption=aes-256-gcm'', ''-o'', ''keyformat=raw'', ''-o'', ''keylocation=prompt'', ''tank/v'']
     1 ''dataset already exists''))"
  by code_simp

theorem failed_Initialize_destroys_escrow_witness:
  "fst (Recover (demo_em sealed_env) ''tank/v'' (fst (snd first_init))) = Inr (replicate 32 5)
   \<and> (\<exists>e. fst (Recover (demo_em sealed_env) ''tank/v'' (fst (snd second_init))) = Inl e)"
proof -
  have r: "fst (Recover (demo_em sealed_env) ''tank/v'' (fst (snd first_init))) = Inr (replicate 32 5)" by code_simp
  have v: "FB_inv sealed_env (fst (snd first_init))"
    using fb.Initialize_vals [OF demo_em_secrets _ _ fresh_backend_inv first_init_eq] by (simp add: file_api_simps)
  have i: "Initialize (demo_em sealed_env) ''tank/v'' (Some demo_spec) (fst (snd first_init)) (snd (snd first_init)) =
      (fst second_init, fst (snd second_init), snd (snd second_init))"
    by (simp add: second_init_def)
  show ?thesis
    using r failed_Initialize_destroys_escrow [OF demo_em_secrets v sealed_env_up i [unfolded second_init_failed]] by simp
qed

lemma Join_append: "xs \<noteq> [] \<Longrightarrow> ys \<noteq> [] \<Longrightarrow> Join (xs @ ys) sep = Join xs sep @ sep @ Join ys sep"
  by (induction xs sep rule: Join.induct) (auto simp: neq_Nil_conv)

lemma secret_key_child:
  assumes "EncodeSecretKey d = Inr k" "EncodeSecretKey (d @ ''/'' @ c) = Inr k'"
  shows "\<exists>x. k' = k @ ''/'' @ x"
proof -
  have "Split (d @ ''/'' @ c) (CHR ''/'') = Split d (CHR ''/'') @ Split c (CHR ''/'')" by (simp add: Split_sep)
  then have "k' = k @ ''/'' @ Join (map encodeSegment (Split c (CHR ''/''))) ''/''"
    using assms by (auto simp: EncodeSecretKey_def check_eq_Inr Join_append)
  then show ?thesis by blast
qed

text \<open>
  With the file backend a dataset below one whose key is escrowed cannot be initialised: the parent's
  record is a file where the child's record needs a directory. \<open>Initialize\<close> returns an error for every
  such child and leaves the backend's content unchanged.
\<close>

theorem child_of_escrowed_dataset_refused:
  assumes m: "emSecrets m = Some (file_api env)" and v: "FB_inv env s"
    and k: "EncodeSecretKey d = Inr k" "FB_val env (files (fst s)) k \<noteq> None"
    and i: "Initialize m (d @ ''/'' @ c) spec s w = (r, s', w')"
  shows "(\<exists>e. r = Inl e) \<and> FB_val env (files (fst s')) = FB_val env (files (fst s))"
proof -
  obtain t f where s: "s = (t, f)" by fastforce
  have f: "files t (Split k (CHR ''/'')) \<noteq> None"
    using k(2) s by (auto simp: FB_val_def bind_eq_Some_conv split: if_splits)
  have no: "fst (FB_Set env k' body s) \<noteq> None" if "EncodeSecretKey (d @ ''/'' @ c) = Inr k'" for k' body
    using secret_key_child [OF k(1) that] FB_Set_below [OF v [unfolded s] f] s by auto
  show ?thesis using i
  proof (cases rule: Initialize_cases)
    case (unset api k' body e)
    then show ?thesis using m fb.set_law [OF v, of k' body "Some e" s'] by (auto simp: file_api_simps)
  next
    case (rolled api k' body s1 e)
    then show ?thesis using no [of k' body] m by (auto simp: file_api_simps)
  next
    case (stored api k' body key c)
    then show ?thesis using no [of k' body] m by (auto simp: file_api_simps)
  qed simp
qed

theorem child_of_escrowed_dataset_refused_witness:
  "\<exists>e. fst (Initialize (demo_em sealed_env) (''tank/v'' @ ''/'' @ ''w'') None (fst (snd first_init)) []) = Inl e"
proof -
  have k: "EncodeSecretKey ''tank/v'' = Inr ''zfs-keys/tank/v''" by code_simp
  have n: "FB_val sealed_env (files (fst (fst (snd first_init)))) ''zfs-keys/tank/v'' \<noteq> None" by code_simp
  have v: "FB_inv sealed_env (fst (snd first_init))"
    using fb.Initialize_vals [OF demo_em_secrets _ _ fresh_backend_inv first_init_eq] by (simp add: file_api_simps)
  show ?thesis
    using child_of_escrowed_dataset_refused [OF demo_em_secrets v k n, of "''w''" None "[]"] by (metis prod.collapse)
qed

end
