(* ===== verification/ZfsAcl.thy ===== *)
theory ZfsAcl
  imports ZfsNames
begin

text \<open>
  \<^verbatim>\<open>internal/host/zfs/dataset/acl.go\<close>: NFSv4 access control entries, their wire format
  \<open>type:flags:principal:perms\<close> and the operations on the ACL of a path. Types, permissions and
  inheritance flags are strings in the code, so unknown values are representable. Upper and lower case
  are ASCII: no other rune maps to a letter of the words that are compared. Temporary files
  are a parameter.
\<close>

subsection \<open>Entries\<close>

record ACE =
  aceType :: string
  acePrincipal :: string
  acePermissions :: "string list"
  aceInheritance :: "string list"

definition permLetter :: "(string \<times> char) list" where
  "permLetter =
     [(''read'', CHR ''r''), (''write'', CHR ''w''), (''execute'', CHR ''x''), (''append'', CHR ''a''),
      (''delete'', CHR ''d''), (''delete_child'', CHR ''D''), (''read_acl'', CHR ''c''), (''write_acl'', CHR ''C''),
      (''write_owner'', CHR ''o''), (''read_attrs'', CHR ''t''), (''write_attrs'', CHR ''T''),
      (''read_xattr'', CHR ''n''), (''write_xattr'', CHR ''N''), (''synchronize'', CHR ''y'')]"

definition letterPerm :: "(char \<times> string) list" where
  "letterPerm = map (\<lambda>(k, v). (v, k)) permLetter"

definition inheritLetter :: "(string \<times> char) list" where
  "inheritLetter =
     [(''file'', CHR ''f''), (''dir'', CHR ''d''), (''no_propagate'', CHR ''n''), (''inherit_only'', CHR ''i'')]"

definition letterInherit :: "(char \<times> string) list" where
  "letterInherit = map (\<lambda>(k, v). (v, k)) inheritLetter"

definition shorthandExpansion :: "(string \<times> string list) list" where
  "shorthandExpansion =
     [(''full_control'', [''read'', ''write'', ''execute'', ''append'', ''delete'', ''delete_child'', ''read_attrs'',
         ''write_attrs'', ''read_xattr'', ''write_xattr'', ''read_acl'', ''write_acl'', ''write_owner'', ''synchronize'']),
      (''modify'', [''read'', ''write'', ''execute'', ''append'', ''delete'', ''read_attrs'', ''write_attrs'', ''read_acl'']),
      (''read_only'', [''read'', ''execute'', ''read_attrs'', ''read_acl''])]"

subsection \<open>Validation\<close>

definition path_meta :: string where
  "path_meta = [CHR 0x00, CHR 0x0A, CHR 0x0D, CHR '';'', CHR ''&'', CHR ''|'', CHR 0x60, CHR ''$'', CHR ''*'', CHR ''?'',
     CHR ''<'', CHR ''>'', CHR 0x22, CHR 0x27, CHR 0x5C]"

definition validatePath :: "string \<Rightarrow> error option" where
  "validatePath p =
     (if p = [] then Some (Errorf ''path empty'')
      else if \<not> HasPrefix p ''/'' then Some (Errorf ''path must be absolute'')
      else if HasPrefix p ''-'' then Some (Errorf ''path cannot start with '-' '')
      else if list_ex (\<lambda>r. r \<in> set path_meta) p then Some (Errorf ''path contains illegal character %q'')
      else if ''..'' \<in> set (Split p (CHR ''/'')) then Some (Errorf ''path cannot contain '..' '')
      else None)"

definition upper :: "char \<Rightarrow> char" where
  "upper c = (if in_range (CHR ''a'') (CHR ''z'') c then char_of ((of_char c :: nat) - 32) else c)"

definition lower :: "char \<Rightarrow> char" where
  "lower c = (if in_range (CHR ''A'') (CHR ''Z'') c then char_of ((of_char c :: nat) + 32) else c)"

definition specials :: "string list" where
  "specials = [''OWNER@'', ''GROUP@'', ''EVERYONE@'']"

definition principal_char :: "char \<Rightarrow> bool" where
  "principal_char r \<longleftrightarrow> in_range (CHR ''a'') (CHR ''z'') r \<or> in_range (CHR ''A'') (CHR ''Z'') r
     \<or> in_range (CHR ''0'') (CHR ''9'') r \<or> r = CHR ''.'' \<or> r = CHR ''-'' \<or> r = CHR ''_'' \<or> r = CHR ''@'' \<or> r = CHR 0x5C"

definition validate_principal_name :: "string \<Rightarrow> error option" where
  "validate_principal_name name =
     (if name = [] then Some (Errorf ''principal name empty'')
      else if \<not> list_all principal_char name then Some (Errorf ''principal name has illegal character %q'')
      else None)"

definition validatePrincipal :: "string \<Rightarrow> error option" where
  "validatePrincipal p =
     (if p = [] then Some (Errorf ''principal empty'')
      else if p \<in> set specials then None
      else if HasSuffix p ''@'' \<and> map upper p \<in> set specials
           then Some (Errorf ''special principal %q must be uppercase (e.g. %q)'')
      else if HasPrefix p ''user:'' then validate_principal_name (drop (length ''user:'') p)
      else if HasPrefix p ''group:'' then validate_principal_name (drop (length ''group:'') p)
      else Some (Errorf ''principal must be user:<name>, group:<name>, OWNER@, GROUP@, or EVERYONE@; got %q''))"

definition known :: "(string \<times> 'a) list \<Rightarrow> string \<Rightarrow> bool" where
  "known m k \<longleftrightarrow> map_of m k \<noteq> None"

fun scan_perms :: "string list \<Rightarrow> bool \<Rightarrow> bool \<Rightarrow> (bool \<times> bool) result" where
  "scan_perms [] hasShorthand hasSpecific = Inr (hasShorthand, hasSpecific)"
| "scan_perms (p # ps) hasShorthand hasSpecific =
     (if known shorthandExpansion p then scan_perms ps True hasSpecific
      else if known permLetter p then scan_perms ps hasShorthand True
      else Inl (Errorf ''unknown permission %q''))"

definition validateACE :: "ACE \<Rightarrow> error option" where
  "validateACE ace =
     (if aceType ace \<noteq> ''allow'' \<and> aceType ace \<noteq> ''deny'' then Some (Errorf ''ACE type must be allow or deny; got %q'')
      else case validatePrincipal (acePrincipal ace) of
             Some e \<Rightarrow> Some e
           | None \<Rightarrow>
               if length (acePermissions ace) = 0 then Some (Errorf ''ACE has no permissions'')
               else (case scan_perms (acePermissions ace) False False of
                       Inl e \<Rightarrow> Some e
                     | Inr (hasShorthand, hasSpecific) \<Rightarrow>
                         if hasShorthand \<and> hasSpecific
                         then Some (Errorf ''cannot combine shorthand permission (full_control/modify/read_only) with specific permissions'')
                         else if hasShorthand \<and> length (acePermissions ace) > 1
                         then Some (Errorf ''only one shorthand permission allowed per ACE'')
                         else if \<not> list_all (known inheritLetter) (aceInheritance ace)
                         then Some (Errorf ''unknown inheritance flag %q'')
                         else None))"

subsection \<open>The wire format\<close>

definition canonical :: string where
  "canonical = ''rwxaDdtTnNcCoy''"

definition canonicalFlags :: string where
  "canonicalFlags = ''fdni''"

definition expand_perms :: "string list \<Rightarrow> string list" where
  "expand_perms perms =
     (if length perms = 1
      then (case map_of shorthandExpansion (hd perms) of Some ex \<Rightarrow> ex | None \<Rightarrow> perms)
      else perms)"

definition is_group :: "string \<Rightarrow> bool" where
  "is_group p \<longleftrightarrow> p = ''GROUP@'' \<or> HasPrefix p ''group:''"

text \<open>The inheritance letters of the entry, and a letter the map has no entry for is the zero byte.\<close>

definition flag_letter :: "string \<Rightarrow> char" where
  "flag_letter f = (case map_of inheritLetter f of Some l \<Rightarrow> l | None \<Rightarrow> CHR 0x00)"

definition wire_flags :: "ACE \<Rightarrow> string" where
  "wire_flags ace =
     filter (\<lambda>c. c \<in> set (map flag_letter (aceInheritance ace))) canonicalFlags
       @ (if is_group (acePrincipal ace) then ''g'' else [])"

definition wire_principal :: "string \<Rightarrow> string" where
  "wire_principal p =
     (if p \<in> set specials then p
      else if HasPrefix p ''user:'' then drop (length ''user:'') p
      else if HasPrefix p ''group:''
      then (let name = drop (length ''group:'') p in if ContainsByte name (CHR ''@'') then name else name @ ''@'')
      else [])"

definition aceToString :: "ACE \<Rightarrow> string result" where
  "aceToString ace =
     check (validateACE ace)
       (let typeLetter = (if aceType ace = ''allow'' then ''A'' else ''D'');
            perms = expand_perms (acePermissions ace)
        in if \<not> list_all (known permLetter) perms then Inl (Errorf ''unknown permission %q'')
           else let seen = map (\<lambda>p. the (map_of permLetter p)) perms;
                    permsBuf = filter (\<lambda>c. c \<in> set seen) canonical
                in Inr (typeLetter @ '':'' @ wire_flags ace @ '':'' @ wire_principal (acePrincipal ace) @ '':'' @ permsBuf))"

subsection \<open>Parsing\<close>

definition SplitN :: "string \<Rightarrow> char \<Rightarrow> nat \<Rightarrow> string list" where
  "SplitN s c n =
     (let ps = Split s c in if length ps \<le> n then ps else take (n - 1) ps @ [Join (drop (n - 1) ps) [c]])"

fun parse_flags :: "string \<Rightarrow> bool \<Rightarrow> string list \<Rightarrow> (bool \<times> string list) result" where
  "parse_flags [] g inh = Inr (g, inh)"
| "parse_flags (c # cs) g inh =
     (if c = CHR ''g'' then parse_flags cs True inh
      else if c = CHR ''S'' \<or> c = CHR ''F'' then Inl (Errorf ''audit flag %q in ACE not supported'')
      else case map_of letterInherit c of
             None \<Rightarrow> Inl (Errorf ''unknown ACE flag %q in %q'')
           | Some f \<Rightarrow> parse_flags cs g (inh @ [f]))"

definition parse_letter :: "char \<Rightarrow> string result" where
  "parse_letter c = of_opt (Errorf ''unknown permission letter %q in %q'') (map_of letterPerm c)"

definition parse_type :: "string \<Rightarrow> string result" where
  "parse_type t =
     (if t = ''A'' then Inr ''allow'' else if t = ''D'' then Inr ''deny''
      else if t = ''U'' \<or> t = ''L'' then Inl (Errorf ''audit ACEs (type %q) are not supported'')
      else Inl (Errorf ''unknown ACE type %q''))"

definition parse_principal :: "string \<Rightarrow> bool \<Rightarrow> string result" where
  "parse_principal p isGroup =
     (if p \<in> set specials then Inr p
      else if p = [] then Inl (Errorf ''ACE has empty principal: %q'')
      else if isGroup then Inr (''group:'' @ TrimSuffix p ''@'') else Inr (''user:'' @ p))"

definition parseACE :: "string \<Rightarrow> ACE result" where
  "parseACE line =
     (let parts = SplitN line (CHR '':'') 4
      in if length parts \<noteq> 4 then Inl (Errorf ''ACE line has %d colon-separated fields, want 4: %q'')
         else bindE (parse_type (parts ! 0)) (\<lambda>ty.
              bindE (parse_flags (parts ! 1) False []) (\<lambda>(isGroup, inh).
              bindE (parse_principal (parts ! 2) isGroup) (\<lambda>pr.
              bindE (seqE (map parse_letter (parts ! 3))) (\<lambda>perms.
              if length perms = 0 then Inl (Errorf ''ACE has no permissions: %q'')
              else Inr \<lparr>aceType = ty, acePrincipal = pr, acePermissions = perms, aceInheritance = inh\<rparr>)))))"

definition parseACLOutput :: "string \<Rightarrow> ACE list result" where
  "parseACLOutput data =
     (case scan_lines MaxScanTokenSize data of
        (ls, err) \<Rightarrow>
          bindE (seqE (map parseACE (filter (\<lambda>l. l \<noteq> [] \<and> \<not> HasPrefix l ''#'') (map TrimSpace ls))))
            (\<lambda>aces. check err (Inr aces)))"

subsection \<open>Operations\<close>

definition NFS4SetFACLBin :: string where "NFS4SetFACLBin = ''/usr/bin/nfs4_setfacl''"
definition NFS4GetFACLBin :: string where "NFS4GetFACLBin = ''/usr/bin/nfs4_getfacl''"

definition ErrACLNotSupported :: error where
  "ErrACLNotSupported = Errorf ''filesystem does not support NFSv4 ACLs''"

definition mapACLNotSupported :: "error option \<Rightarrow> error option" where
  "mapACLNotSupported err =
     (case err of
        None \<Rightarrow> None
      | Some e \<Rightarrow>
          (case host_stderr e of
             None \<Rightarrow> Some e
           | Some s \<Rightarrow>
               if Contains (map lower s) ''not supported'' \<or> Contains (map lower s) ''operation not supported''
               then Some (Wrapf ''%w: %v'' ErrACLNotSupported) else Some e))"

definition dataset_GetACL :: "'w runner \<Rightarrow> string \<Rightarrow> 'w \<Rightarrow> ACE list result \<times> 'w" where
  "dataset_GetACL run path w =
     (case validatePath path of
        Some e \<Rightarrow> (Inl e, w)
      | None \<Rightarrow>
          (case run NFS4GetFACLBin [path] w of
             ((out, err), w) \<Rightarrow> (check (mapACLNotSupported err) (parseACLOutput out), w)))"

text \<open>Creating, writing, closing and removing the temporary file.\<close>

record 'w tempfs =
  CreateTemp :: "'w \<Rightarrow> string result \<times> 'w"
  WriteFile :: "string \<Rightarrow> string \<Rightarrow> 'w \<Rightarrow> error option \<times> 'w"
  CloseFile :: "string \<Rightarrow> 'w \<Rightarrow> error option \<times> 'w"
  RemoveFile :: "string \<Rightarrow> 'w \<Rightarrow> 'w"

fun acl_text :: "ACE list \<Rightarrow> string result" where
  "acl_text [] = Inr []"
| "acl_text (a # as) =
     bindE (wrapE ''ACE %d: %w'' (aceToString a)) (\<lambda>s. bindE (acl_text as) (\<lambda>t. Inr (s @ [LF] @ t)))"

definition dataset_SetACL :: "'w tempfs \<Rightarrow> 'w runner \<Rightarrow> string \<Rightarrow> ACE list \<Rightarrow> 'w \<Rightarrow> error option \<times> 'w" where
  "dataset_SetACL fs run path aces w =
     (case validatePath path of
        Some e \<Rightarrow> (Some e, w)
      | None \<Rightarrow>
          if length aces = 0 then (Some (Errorf ''ACL must contain at least one ACE''), w)
          else (case acl_text aces of
                  Inl e \<Rightarrow> (Some e, w)
                | Inr buf \<Rightarrow>
                    (case CreateTemp fs w of
                       (Inl e, w) \<Rightarrow> (Some (Wrapf ''create temp ACL file: %w'' e), w)
                     | (Inr tmp, w) \<Rightarrow>
                         (case WriteFile fs tmp buf w of
                            (Some e, w) \<Rightarrow>
                              (Some (Wrapf ''write temp ACL file: %w'' e), RemoveFile fs tmp (snd (CloseFile fs tmp w)))
                          | (None, w) \<Rightarrow>
                              (case CloseFile fs tmp w of
                                 (Some e, w) \<Rightarrow> (Some (Wrapf ''close temp ACL file: %w'' e), RemoveFile fs tmp w)
                               | (None, w) \<Rightarrow>
                                   (case run NFS4SetFACLBin [''-S'', tmp, path] w of
                                      ((_, err), w) \<Rightarrow> (mapACLNotSupported err, RemoveFile fs tmp w)))))))"

definition dataset_AppendACE :: "'w runner \<Rightarrow> string \<Rightarrow> ACE \<Rightarrow> 'w \<Rightarrow> error option \<times> 'w" where
  "dataset_AppendACE run path ace w =
     (case validatePath path of
        Some e \<Rightarrow> (Some e, w)
      | None \<Rightarrow>
          (case aceToString ace of
             Inl e \<Rightarrow> (Some e, w)
           | Inr s \<Rightarrow> (case run NFS4SetFACLBin [''-a'', s, path] w of ((_, err), w) \<Rightarrow> (mapACLNotSupported err, w))))"

definition dataset_RemoveACE :: "'w runner \<Rightarrow> string \<Rightarrow> int \<Rightarrow> 'w \<Rightarrow> error option \<times> 'w" where
  "dataset_RemoveACE run path aceIndex w =
     (case validatePath path of
        Some e \<Rightarrow> (Some e, w)
      | None \<Rightarrow>
          if aceIndex < 0 then (Some (Errorf ''ACE index must be non-negative''), w)
          else (case run NFS4SetFACLBin [''-x'', appendInt (wrap64 (aceIndex + 1)) 0, path] w of
                  ((_, err), w) \<Rightarrow> (mapACLNotSupported err, w)))"

subsection \<open>Lemmas\<close>

lemma letters_invert:
  "list_all (\<lambda>(p, c). map_of letterPerm c = Some p \<and> c \<in> set canonical) permLetter"
  "list_all (\<lambda>c. map_of letterPerm c \<noteq> None) canonical"
  "list_all (\<lambda>(f, c). map_of letterInherit c = Some f \<and> c \<in> set canonicalFlags) inheritLetter"
  "list_all (\<lambda>c. map_of letterInherit c \<noteq> None \<and> c \<noteq> CHR ''g'' \<and> c \<noteq> CHR ''S'' \<and> c \<noteq> CHR ''F'') canonicalFlags"
  "list_all (\<lambda>(s, ps). list_all (known permLetter) ps) shorthandExpansion"
  "list_all (\<lambda>(p, c). map_of permLetter p = Some c) permLetter"
  "list_all (\<lambda>(p, c). map_of inheritLetter p = Some c) inheritLetter"
  "distinct (map fst letterPerm)" "distinct (map fst letterInherit)"
  by code_simp+

lemma known_letter: "known m k \<Longrightarrow> \<exists>v. map_of m k = Some v \<and> (k, v) \<in> set m"
  by (auto simp: known_def dest: map_of_SomeD)

lemma perm_roundtrip:
  assumes "known permLetter p"
  shows "map_of letterPerm (the (map_of permLetter p)) = Some p" "the (map_of permLetter p) \<in> set canonical"
  using known_letter [OF assms] letters_invert(1) by (auto simp: list_all_iff)

lemma inherit_roundtrip:
  assumes "known inheritLetter f"
  shows "map_of letterInherit (flag_letter f) = Some f" "flag_letter f \<in> set canonicalFlags"
  using known_letter [OF assms] letters_invert(3) by (auto simp: list_all_iff flag_letter_def)

lemma scan_perms_Inr:
  "scan_perms ps a b = Inr (hs, hp) \<Longrightarrow>
     list_all (\<lambda>p. known shorthandExpansion p \<or> known permLetter p) ps
     \<and> (hs \<longleftrightarrow> a \<or> list_ex (known shorthandExpansion) ps)"
  by (induction ps a b rule: scan_perms.induct) (auto split: if_splits)

lemma validateACE_None:
  "validateACE ace = None \<longleftrightarrow>
     (aceType ace = ''allow'' \<or> aceType ace = ''deny'') \<and> validatePrincipal (acePrincipal ace) = None
     \<and> acePermissions ace \<noteq> []
     \<and> (\<exists>hs hp. scan_perms (acePermissions ace) False False = Inr (hs, hp) \<and> \<not> (hs \<and> hp)
          \<and> \<not> (hs \<and> length (acePermissions ace) > 1))
     \<and> list_all (known inheritLetter) (aceInheritance ace)"
proof -
  obtain ty pr pe inh where a: "ace = \<lparr>aceType = ty, acePrincipal = pr, acePermissions = pe, aceInheritance = inh\<rparr>"
    by (cases ace)
  define A D where "A = ''allow''" "D = ''deny''"
  show ?thesis
    unfolding validateACE_def a A_D_def [symmetric] ACE.simps
    by (cases "scan_perms pe False False"; cases "validatePrincipal pr") (auto split: prod.split)
qed

lemma validateACE_facts:
  assumes "validateACE ace = None"
  shows "validatePrincipal (acePrincipal ace) = None" "list_all (known permLetter) (expand_perms (acePermissions ace))"
    "expand_perms (acePermissions ace) \<noteq> []" "list_all (known inheritLetter) (aceInheritance ace)"
    "aceType ace \<in> {''allow'', ''deny''}"
proof -
  obtain hs hp where sc: "scan_perms (acePermissions ace) False False = Inr (hs, hp)"
    and l: "\<not> (hs \<and> length (acePermissions ace) > 1)" "acePermissions ace \<noteq> []"
    and "validatePrincipal (acePrincipal ace) = None" "list_all (known inheritLetter) (aceInheritance ace)"
      "aceType ace \<in> {''allow'', ''deny''}"
    using assms unfolding validateACE_None by blast
  then show "validatePrincipal (acePrincipal ace) = None" "list_all (known inheritLetter) (aceInheritance ace)"
    "aceType ace \<in> {''allow'', ''deny''}" by blast+
  have k: "list_all (\<lambda>p. known shorthandExpansion p \<or> known permLetter p) (acePermissions ace)"
    "hs \<longleftrightarrow> list_ex (known shorthandExpansion) (acePermissions ace)"
    using scan_perms_Inr [OF sc] by simp_all
  have ex: "list_all (known permLetter) ps \<and> ps \<noteq> []" if "map_of shorthandExpansion s = Some ps" for s ps
  proof -
    have "(s, ps) \<in> set shorthandExpansion" using that by (rule map_of_SomeD)
    then show ?thesis using letters_invert(5) by (auto simp: list_all_iff shorthandExpansion_def)
  qed
  have "list_all (known permLetter) (expand_perms (acePermissions ace)) \<and> expand_perms (acePermissions ace) \<noteq> []"
  proof (cases "length (acePermissions ace) = 1")
    case True
    then obtain p where p: "acePermissions ace = [p]" by (auto simp: length_Suc_conv)
    then show ?thesis using k(1) ex by (cases "map_of shorthandExpansion p") (auto simp: expand_perms_def known_def)
  next
    case False
    then have "\<not> hs" using l by (cases "acePermissions ace") auto
    then show ?thesis using False k l(2) by (auto simp: expand_perms_def list_all_iff list_ex_iff)
  qed
  then show "list_all (known permLetter) (expand_perms (acePermissions ace))"
    "expand_perms (acePermissions ace) \<noteq> []" by blast+
qed

lemma parse_flags_canonical:
  "list_all (\<lambda>c. c \<in> set canonicalFlags) cs \<Longrightarrow>
     parse_flags (cs @ rest) g inh = parse_flags rest g (inh @ map (\<lambda>c. the (map_of letterInherit c)) cs)"
proof (induction cs arbitrary: inh)
  case (Cons c cs)
  then have "map_of letterInherit c \<noteq> None" "c \<noteq> CHR ''g''" "c \<noteq> CHR ''S''" "c \<noteq> CHR ''F''"
    using letters_invert(4) by (auto simp: list_all_iff)
  then show ?case using Cons by auto
qed simp

lemma parse_letters:
  "list_all (\<lambda>c. c \<in> set canonical) cs \<Longrightarrow>
     seqE (map parse_letter cs) = Inr (map (\<lambda>c. the (map_of letterPerm c)) cs)"
proof (induction cs)
  case (Cons c cs)
  then have "map_of letterPerm c \<noteq> None" using letters_invert(2) by (simp add: list_all_iff)
  then show ?case using Cons by (auto simp: parse_letter_def of_opt_def)
qed simp

lemma colon_free:
  "\<not> principal_char (CHR '':'')" "\<not> principal_char LF" "CHR '':'' \<notin> set canonical" "CHR '':'' \<notin> set canonicalFlags"
  "LF \<notin> set canonical" "LF \<notin> set canonicalFlags" "list_all (\<lambda>s. CHR '':'' \<notin> set s \<and> LF \<notin> set s) specials"
  by code_simp+

lemma HasPrefix_drop: "HasPrefix p q \<Longrightarrow> p = q @ drop (length q) p"
  by (auto simp: HasPrefix_iff)

lemma validatePrincipal_cases:
  assumes "validatePrincipal p = None"
  obtains (special) "p \<in> set specials"
    | (user) n where "p = ''user:'' @ n" "n \<noteq> []" "list_all principal_char n" "p \<notin> set specials"
    | (group) n where "p = ''group:'' @ n" "n \<noteq> []" "list_all principal_char n" "p \<notin> set specials"
proof (cases "p \<in> set specials")
  case False
  define U G where "U = ''user:''" "G = ''group:''"
  consider "HasPrefix p U" "validate_principal_name (drop (length U) p) = None"
    | "HasPrefix p G" "validate_principal_name (drop (length G) p) = None"
    using assms False unfolding validatePrincipal_def U_G_def [symmetric] by (auto split: if_split_asm)
  then show thesis
  proof cases
    case 1
    then show ?thesis using HasPrefix_drop [OF 1(1)] user [of "drop (length U) p"] False
      unfolding U_G_def by (auto simp: validate_principal_name_def split: if_split_asm)
  next
    case 2
    then show ?thesis using HasPrefix_drop [OF 2(1)] group [of "drop (length G) p"] False
      unfolding U_G_def by (auto simp: validate_principal_name_def split: if_split_asm)
  qed
qed (rule special)

lemma prefixed_simps:
  "HasPrefix (''user:'' @ n) ''user:''" "\<not> HasPrefix (''group:'' @ n) ''user:''" "HasPrefix (''group:'' @ n) ''group:''"
  "\<not> HasPrefix (''user:'' @ n) ''group:''" "''group:'' @ n \<noteq> ''GROUP@''" "''user:'' @ n \<noteq> ''GROUP@''"
  "drop (length ''user:'') (''user:'' @ n) = n" "drop (length ''group:'') (''group:'' @ n) = n"
  by (simp_all add: HasPrefix_def)

lemma wire_principal_user: "''user:'' @ n \<notin> set specials \<Longrightarrow> wire_principal (''user:'' @ n) = n"
  unfolding wire_principal_def using prefixed_simps(1,7) by (simp only: if_False if_True)

lemma wire_principal_group:
  "''group:'' @ n \<notin> set specials \<Longrightarrow>
     wire_principal (''group:'' @ n) = (if CHR ''@'' \<in> set n then n else n @ ''@'')"
  unfolding wire_principal_def using prefixed_simps(2,3,8)
  by (simp only: if_False if_True Let_def ContainsByte_iff)

lemma wire_principal_chars:
  assumes "validatePrincipal p = None"
  shows "CHR '':'' \<notin> set (wire_principal p)" "LF \<notin> set (wire_principal p)" "wire_principal p \<noteq> []"
proof -
  have at: "principal_char (CHR ''@'')" by code_simp
  have c: "CHR '':'' \<notin> set n \<and> LF \<notin> set n" if "list_all principal_char n" for n
    using that colon_free(1,2) by (auto simp: list_all_iff)
  have "CHR '':'' \<notin> set (wire_principal p) \<and> LF \<notin> set (wire_principal p) \<and> wire_principal p \<noteq> []"
    using assms
  proof (cases rule: validatePrincipal_cases)
    case special
    then have "wire_principal p = p" by (simp add: wire_principal_def)
    moreover have "[] \<notin> set specials" by (simp add: specials_def)
    ultimately show ?thesis using special colon_free(7) by (auto simp: list_all_iff)
  next
    case (user n)
    then show ?thesis using c wire_principal_user by simp
  next
    case (group n)
    then have "list_all principal_char (n @ ''@'')" using at by simp
    then show ?thesis using group c [of n] c [of "n @ ''@''"] wire_principal_group by simp
  qed
  then show "CHR '':'' \<notin> set (wire_principal p)" "LF \<notin> set (wire_principal p)" "wire_principal p \<noteq> []" by blast+
qed

definition wire_perms :: "ACE \<Rightarrow> string" where
  "wire_perms ace =
     filter (\<lambda>c. c \<in> set (map (\<lambda>p. the (map_of permLetter p)) (expand_perms (acePermissions ace)))) canonical"

definition wire_type :: "ACE \<Rightarrow> string" where
  "wire_type ace = (if aceType ace = ''allow'' then ''A'' else ''D'')"

lemma aceToString_Inr:
  "aceToString ace = Inr s \<longleftrightarrow> validateACE ace = None
     \<and> s = Join [wire_type ace, wire_flags ace, wire_principal (acePrincipal ace), wire_perms ace] '':''"
proof (cases "validateACE ace = None")
  case True
  note f = validateACE_facts [OF True]
  show ?thesis using True f(2) unfolding aceToString_def Let_def
    by (auto simp: wire_perms_def wire_type_def)
qed (auto simp: aceToString_def)

lemma wire_fields:
  assumes "validateACE ace = None"
  shows "\<forall>q\<in>set [wire_type ace, wire_flags ace, wire_principal (acePrincipal ace), wire_perms ace].
    CHR '':'' \<notin> set q \<and> LF \<notin> set q"
  using wire_principal_chars(1,2) [OF validateACE_facts(1) [OF assms]] colon_free(3-6)
  by (auto simp: wire_type_def wire_flags_def wire_perms_def LF_def)

text \<open>The principals whose wire form names them: it is not the wire form of a special principal, and the
  at-sign a group gets is told from one of its own.\<close>

definition plain_principal :: "string \<Rightarrow> bool" where
  "plain_principal p \<longleftrightarrow> p \<in> set specials
     \<or> (wire_principal p \<notin> set specials \<and> \<not> (HasPrefix p ''group:'' \<and> HasSuffix p ''@''))"

lemma HasSuffix_byte: "HasSuffix s [c] \<longleftrightarrow> s \<noteq> [] \<and> last s = c"
  by (cases s rule: rev_cases) (auto simp: HasSuffix_def)

lemma TrimSuffix_byte: "TrimSuffix (m @ [c]) [c] = m" "\<not> HasSuffix n [c] \<Longrightarrow> TrimSuffix n [c] = n"
  by (simp add: TrimSuffix_def HasSuffix_byte) (simp add: TrimSuffix_def)

lemma parse_principal_wire:
  assumes v: "validatePrincipal p = None" and pl: "plain_principal p"
  shows "parse_principal (wire_principal p) (is_group p) = Inr p"
  using v
proof (cases rule: validatePrincipal_cases)
  case special
  then show ?thesis by (simp add: parse_principal_def wire_principal_def)
next
  case (user n)
  have "wire_principal p = n" "n \<notin> set specials"
    using user wire_principal_user pl by (auto simp: plain_principal_def)
  moreover have "\<not> is_group p" using prefixed_simps(4,6) user(1) by (auto simp: is_group_def)
  ultimately show ?thesis using user by (simp add: parse_principal_def)
next
  case (group n)
  have w: "wire_principal p = (if CHR ''@'' \<in> set n then n else n @ ''@'')" "wire_principal p \<notin> set specials"
    using group wire_principal_group pl by (auto simp: plain_principal_def)
  have g: "is_group p" using prefixed_simps(3) group(1) by (auto simp: is_group_def)
  have "\<not> HasSuffix p ''@''" using pl group(1,4) prefixed_simps(3) [of n] unfolding plain_principal_def by blast
  then have "\<not> HasSuffix n ''@''" using group(1,2) by (simp add: HasSuffix_byte)
  then have "TrimSuffix (wire_principal p) ''@'' = n"
    unfolding w(1) by (simp add: TrimSuffix_byte)
  moreover have "wire_principal p \<noteq> []" using wire_principal_chars(3) [OF v] .
  ultimately show ?thesis using g w(2) group(1) by (simp add: parse_principal_def)
qed

lemma SplitN_wire:
  assumes "validateACE ace = None"
  shows "SplitN (Join [wire_type ace, wire_flags ace, wire_principal (acePrincipal ace), wire_perms ace] '':'') (CHR '':'') 4
    = [wire_type ace, wire_flags ace, wire_principal (acePrincipal ace), wire_perms ace]"
proof -
  have "Split (Join [wire_type ace, wire_flags ace, wire_principal (acePrincipal ace), wire_perms ace] '':'') (CHR '':'')
      = [wire_type ace, wire_flags ace, wire_principal (acePrincipal ace), wire_perms ace]"
    using wire_fields [OF assms] by (intro Split_of_Join) blast+
  then show ?thesis by (simp only: SplitN_def Let_def) simp
qed

lemma parse_type_wire: "aceType ace \<in> {''allow'', ''deny''} \<Longrightarrow> parse_type (wire_type ace) = Inr (aceType ace)"
  by (auto simp: parse_type_def wire_type_def)

lemma parse_flags_wire:
  "parse_flags (wire_flags ace) False [] = Inr (is_group (acePrincipal ace),
     map (\<lambda>c. the (map_of letterInherit c)) (filter (\<lambda>c. c \<in> set (map flag_letter (aceInheritance ace))) canonicalFlags))"
  unfolding wire_flags_def by (subst parse_flags_canonical) (auto simp: list_all_iff)

text \<open>Reading the letters of known names back yields the names.\<close>

lemma read_back:
  assumes "\<forall>p\<in>set ps. rd (wr p) = Some p \<and> wr p \<in> set order"
  shows "set (map (\<lambda>c. the (rd c)) (filter (\<lambda>c. c \<in> set (map wr ps)) order)) = set ps"
proof
  show "set (map (\<lambda>c. the (rd c)) (filter (\<lambda>c. c \<in> set (map wr ps)) order)) \<subseteq> set ps"
    using assms by auto
  show "set ps \<subseteq> set (map (\<lambda>c. the (rd c)) (filter (\<lambda>c. c \<in> set (map wr ps)) order))"
  proof
    fix p assume "p \<in> set ps"
    then have "the (rd (wr p)) = p" "wr p \<in> set (filter (\<lambda>c. c \<in> set (map wr ps)) order)" using assms by auto
    then show "p \<in> set (map (\<lambda>c. the (rd c)) (filter (\<lambda>c. c \<in> set (map wr ps)) order))"
      by (metis image_eqI list.set_map)
  qed
qed

subsection \<open>Properties\<close>

text \<open>
  C31. Entries survive the trip through the tool's text form: for an entry that is accepted and whose principal
  has a wire form of its own, parsing the line the code writes gives back the same type and
  principal, exactly the permissions of the entry (a shorthand in its expansion) and exactly its
  inheritance flags.
\<close>

theorem parseACE_aceToString:
  assumes "aceToString ace = Inr s" "plain_principal (acePrincipal ace)"
  shows "\<exists>ace'. parseACE s = Inr ace' \<and> aceType ace' = aceType ace \<and> acePrincipal ace' = acePrincipal ace
    \<and> set (acePermissions ace') = set (expand_perms (acePermissions ace))
    \<and> set (aceInheritance ace') = set (aceInheritance ace)"
proof -
  have v: "validateACE ace = None"
    and s: "s = Join [wire_type ace, wire_flags ace, wire_principal (acePrincipal ace), wire_perms ace] '':''"
    using assms(1) unfolding aceToString_Inr by blast+
  note f = validateACE_facts [OF v]
  define perms where "perms = map (\<lambda>c. the (map_of letterPerm c)) (wire_perms ace)"
  define inh where "inh = map (\<lambda>c. the (map_of letterInherit c))
    (filter (\<lambda>c. c \<in> set (map flag_letter (aceInheritance ace))) canonicalFlags)"
  have p: "set perms = set (expand_perms (acePermissions ace))"
    unfolding perms_def wire_perms_def
    using f(2) perm_roundtrip by (intro read_back) (auto simp: list_all_iff)
  have i: "set inh = set (aceInheritance ace)"
    unfolding inh_def using f(4) inherit_roundtrip by (intro read_back) (auto simp: list_all_iff)
  have "perms \<noteq> []" using p f(3) by (metis set_empty)
  moreover have "seqE (map parse_letter (wire_perms ace)) = Inr perms"
    unfolding perms_def by (intro parse_letters) (auto simp: wire_perms_def list_all_iff)
  moreover have "parse_principal (wire_principal (acePrincipal ace)) (is_group (acePrincipal ace)) = Inr (acePrincipal ace)"
    using parse_principal_wire [OF f(1) assms(2)] .
  ultimately have "parseACE s = Inr \<lparr>aceType = aceType ace, acePrincipal = acePrincipal ace,
      acePermissions = perms, aceInheritance = inh\<rparr>"
    unfolding parseACE_def s SplitN_wire [OF v]
    by (simp add: parse_type_wire [OF f(5)] parse_flags_wire inh_def del: parse_flags.simps)
  then show ?thesis using p i by auto
qed

definition sample_ace :: ACE where
  "sample_ace = \<lparr>aceType = ''allow'', acePrincipal = ''group:eng'', acePermissions = [''read_only''],
     aceInheritance = [''dir'', ''file'']\<rparr>"

theorem parseACE_aceToString_witness:
  "aceToString sample_ace = Inr ''A:fdg:eng@:rxtc'' \<and> plain_principal ''group:eng''
   \<and> (\<exists>ace'. parseACE ''A:fdg:eng@:rxtc'' = Inr ace' \<and> acePrincipal ace' = ''group:eng''
        \<and> set (acePermissions ace') = {''read'', ''execute'', ''read_attrs'', ''read_acl''})"
proof -
  have s: "aceToString sample_ace = Inr ''A:fdg:eng@:rxtc''" by code_simp
  have p: "plain_principal (acePrincipal sample_ace)" "acePrincipal sample_ace = ''group:eng''" by code_simp+
  have e: "set (expand_perms (acePermissions sample_ace)) = {''read'', ''execute'', ''read_attrs'', ''read_acl''}"
    by code_simp
  show ?thesis using parseACE_aceToString [OF s p(1)] s p unfolding e by metis
qed

text \<open>
  An entry cannot smuggle in another one. The text the code writes for an accepted entry is one line with
  exactly three colons: no principal, flag or permission can add a field, or a line to
  the file that \<open>SetACL\<close> hands to the tool.
\<close>

theorem aceToString_one_line:
  assumes "aceToString ace = Inr s"
  shows "CountByte s (CHR '':'') = 3 \<and> LF \<notin> set s"
proof -
  have v: "validateACE ace = None"
    and s: "s = Join [wire_type ace, wire_flags ace, wire_principal (acePrincipal ace), wire_perms ace] '':''"
    using assms unfolding aceToString_Inr by blast+
  have z: "CountByte q (CHR '':'') = 0 \<and> LF \<notin> set q"
    if "q \<in> set [wire_type ace, wire_flags ace, wire_principal (acePrincipal ace), wire_perms ace]" for q
    using wire_fields [OF v] that by (auto simp: CountByte_0)
  show ?thesis unfolding s using z by (simp add: CountByte_append) (simp add: CountByte_def LF_def)
qed

theorem aceToString_one_line_witness:
  "aceToString sample_ace = Inr ''A:fdg:eng@:rxtc''
   \<and> CountByte ''A:fdg:eng@:rxtc'' (CHR '':'') = 3 \<and> LF \<notin> set ''A:fdg:eng@:rxtc''"
proof -
  have s: "aceToString sample_ace = Inr ''A:fdg:eng@:rxtc''" by code_simp
  show ?thesis using aceToString_one_line [OF s] s by blast
qed

text \<open>
  Ordinary principals can be turned into special ones. The validator accepts the user \<open>EVERYONE@\<close> and the
  group \<open>EVERYONE\<close>, and writes both as the special principal \<open>EVERYONE@\<close>: an entry for one named
  user or group becomes one for everybody.
\<close>

theorem special_principal_confusion:
  "aceToString \<lparr>aceType = ''allow'', acePrincipal = ''user:EVERYONE@'', acePermissions = [''full_control''], aceInheritance = []\<rparr>
     = aceToString \<lparr>aceType = ''allow'', acePrincipal = ''EVERYONE@'', acePermissions = [''full_control''], aceInheritance = []\<rparr>
   \<and> aceToString \<lparr>aceType = ''allow'', acePrincipal = ''EVERYONE@'', acePermissions = [''full_control''], aceInheritance = []\<rparr>
     = Inr ''A::EVERYONE@:rwxaDdtTnNcCoy''
   \<and> aceToString \<lparr>aceType = ''allow'', acePrincipal = ''group:EVERYONE'', acePermissions = [''read''], aceInheritance = []\<rparr>
     = Inr ''A:g:EVERYONE@:r''"
  by code_simp

end
