(* ===== verification/ReplManager.thy ===== *)
theory ReplManager
  imports HostExec GoTime "HOL-Library.AList"
begin

text \<open>
  \<^verbatim>\<open>internal/replication\<close>: jobs, runs and the manager of \<open>replication.go\<close> and \<open>manager.go\<close>, over the
  store and the locker as records of functions, with the in-memory store and locker as their
  implementations. A run is also a small-step system, one step for each call of the store, the locker
  or the backend, so that runs of several goroutines and edits by users interleave.
\<close>

subsection \<open>Jobs and runs\<close>

definition BackendZFS :: string where "BackendZFS = ''zfs''"
definition BackendS3 :: string where "BackendS3 = ''s3''"
definition BackendRsync :: string where "BackendRsync = ''rsync''"
definition DirectionPush :: string where "DirectionPush = ''push''"
definition DirectionPull :: string where "DirectionPull = ''pull''"

datatype RunOutcome = RunPending | RunRunning | RunSucceeded | RunFailed | RunCancelled

record Endpoint =
  epDataset :: string
  epPath :: string
  epHost :: string
  epSSHUser :: string
  epBucket :: string
  epPrefix :: string
  epEndpoint :: string
  epRegion :: string

record RetentionPolicy =
  KeepLastN :: int
  KeepDaily :: int
  KeepWeekly :: int
  KeepMonthly :: int
  KeepYearly :: int

definition IsZero :: "RetentionPolicy \<Rightarrow> bool" where
  "IsZero r \<longleftrightarrow> KeepLastN r = 0 \<and> KeepDaily r = 0 \<and> KeepWeekly r = 0 \<and> KeepMonthly r = 0 \<and> KeepYearly r = 0"

record Job =
  jID :: string
  jName :: string
  jBackend :: string
  jDirection :: string
  jSource :: Endpoint
  jDestination :: Endpoint
  jSchedule :: string
  jRetention :: RetentionPolicy
  jEnabled :: bool
  jSecretRef :: string
  jLastSnapshot :: string
  jCreatedAt :: time
  jUpdatedAt :: time

record RunRow =
  rID :: string
  rJobID :: string
  rStartedAt :: time
  rFinishedAt :: "time option"
  rOutcome :: RunOutcome
  rBytesTransferred :: int
  rSnapshot :: string
  rError :: "error option"

record RunResult =
  rrBytesTransferred :: int
  rrSnapshot :: string

definition Validate :: "Job \<Rightarrow> error option" where
  "Validate j =
     (if jName j = [] then Some (Errorf ''replication: name is required'')
      else if \<not> (jBackend j = BackendZFS \<or> jBackend j = BackendS3 \<or> jBackend j = BackendRsync)
           then Some (Errorf ''replication: backend must be zfs|s3|rsync'')
      else if \<not> (jDirection j = DirectionPush \<or> jDirection j = DirectionPull)
           then Some (Errorf ''replication: direction must be push|pull'')
      else None)"

subsection \<open>The manager\<close>

definition ErrNotFound :: error where "ErrNotFound = Errorf ''replication: job not found''"
definition ErrLocked :: error where "ErrLocked = Errorf ''replication: another run is already in progress''"

record 'w Store =
  CreateJob :: "Job \<Rightarrow> 'w \<Rightarrow> Job result \<times> 'w"
  UpdateJob :: "Job \<Rightarrow> 'w \<Rightarrow> Job result \<times> 'w"
  DeleteJob :: "string \<Rightarrow> 'w \<Rightarrow> error option \<times> 'w"
  GetJob :: "string \<Rightarrow> 'w \<Rightarrow> Job result \<times> 'w"
  ListJobs :: "'w \<Rightarrow> Job list result \<times> 'w"
  CreateRun :: "RunRow \<Rightarrow> 'w \<Rightarrow> RunRow result \<times> 'w"
  UpdateRun :: "RunRow \<Rightarrow> 'w \<Rightarrow> RunRow result \<times> 'w"
  ListRuns :: "string \<Rightarrow> int \<Rightarrow> 'w \<Rightarrow> RunRow list result \<times> 'w"

text \<open>\<open>TryLock\<close> reports whether the lock was taken; the release function is \<open>Release\<close> of the same id.\<close>

record 'w Locker =
  TryLock :: "string \<Rightarrow> 'w \<Rightarrow> bool result \<times> 'w"
  Release :: "string \<Rightarrow> 'w \<Rightarrow> 'w"

record 'w Backend =
  bValidate :: "Job \<Rightarrow> 'w \<Rightarrow> error option \<times> 'w"
  bExecute :: "Job \<Rightarrow> 'w \<Rightarrow> (RunResult \<times> error option) \<times> 'w"

text \<open>The clock and the source of fresh ids are read once per use; both are functions of the world.\<close>

record 'w Manager =
  mgStore :: "'w Store"
  mgLocker :: "'w Locker"
  mgBackends :: "(string \<times> 'w Backend) list"
  mgNow :: "'w \<Rightarrow> time \<times> 'w"
  mgNewID :: "'w \<Rightarrow> string \<times> 'w"

definition not_registered :: error where
  "not_registered = Errorf ''replication: backend %q is not registered''"

definition validated :: "'w Manager \<Rightarrow> Job \<Rightarrow> 'w \<Rightarrow> error option \<times> 'w" where
  "validated m j w =
     (case Validate j of Some e \<Rightarrow> (Some e, w)
      | None \<Rightarrow> (case map_of (mgBackends m) (jBackend j) of
          None \<Rightarrow> (Some not_registered, w)
        | Some b \<Rightarrow> bValidate b j w))"

definition Create :: "'w Manager \<Rightarrow> Job \<Rightarrow> 'w \<Rightarrow> Job result \<times> 'w" where
  "Create m j w =
     (case validated m j w of
        (Some e, w) \<Rightarrow> (Inl e, w)
      | (None, w) \<Rightarrow>
          (case (if jID j = [] then mgNewID m w else (jID j, w)) of (i, w) \<Rightarrow>
          (case mgNow m w of (now, w) \<Rightarrow>
             CreateJob (mgStore m)
               (j\<lparr>jID := i, jCreatedAt := (if jCreatedAt j = 0 then now else jCreatedAt j), jUpdatedAt := now\<rparr>) w)))"

definition Update :: "'w Manager \<Rightarrow> Job \<Rightarrow> 'w \<Rightarrow> Job result \<times> 'w" where
  "Update m j w =
     (case validated m j w of
        (Some e, w) \<Rightarrow> (Inl e, w)
      | (None, w) \<Rightarrow> (case mgNow m w of (now, w) \<Rightarrow> UpdateJob (mgStore m) (j\<lparr>jUpdatedAt := now\<rparr>) w))"

definition Delete :: "'w Manager \<Rightarrow> string \<Rightarrow> 'w \<Rightarrow> error option \<times> 'w" where
  "Delete m i w = DeleteJob (mgStore m) i w"

definition Get :: "'w Manager \<Rightarrow> string \<Rightarrow> 'w \<Rightarrow> Job result \<times> 'w" where
  "Get m i w = GetJob (mgStore m) i w"

definition List :: "'w Manager \<Rightarrow> 'w \<Rightarrow> Job list result \<times> 'w" where
  "List m w = ListJobs (mgStore m) w"

definition Runs :: "'w Manager \<Rightarrow> string \<Rightarrow> int \<Rightarrow> 'w \<Rightarrow> RunRow list result \<times> 'w" where
  "Runs m i limit w = ListRuns (mgStore m) i limit w"

text \<open>The parts of \<open>Run\<close>: the row it creates, the row after the backend returned, the job it writes back.\<close>

definition started_run :: "string \<Rightarrow> Job \<Rightarrow> time \<Rightarrow> RunRow" where
  "started_run i job start =
     \<lparr>rID = i, rJobID = jID job, rStartedAt = start, rFinishedAt = None, rOutcome = RunRunning,
      rBytesTransferred = 0, rSnapshot = [], rError = None\<rparr>"

definition finished_run :: "RunRow \<Rightarrow> RunResult \<Rightarrow> error option \<Rightarrow> time \<Rightarrow> RunRow" where
  "finished_run run res execErr fin =
     run\<lparr>rFinishedAt := Some fin, rBytesTransferred := rrBytesTransferred res, rSnapshot := rrSnapshot res,
        rOutcome := (if execErr = None then RunSucceeded else RunFailed), rError := execErr\<rparr>"

definition moved_job :: "Job \<Rightarrow> RunResult \<Rightarrow> error option \<Rightarrow> time \<Rightarrow> Job option" where
  "moved_job job res execErr fin =
     (if execErr = None \<and> jBackend job = BackendZFS \<and> rrSnapshot res \<noteq> []
      then Some (job\<lparr>jLastSnapshot := rrSnapshot res, jUpdatedAt := fin\<rparr>) else None)"

text \<open>What \<open>Run\<close> does while it holds the lock; the second component is the error it returns.\<close>

definition run_locked :: "'w Manager \<Rightarrow> 'w Backend \<Rightarrow> Job \<Rightarrow> 'w \<Rightarrow> (RunRow option \<times> error option) \<times> 'w" where
  "run_locked m b job w =
     (case mgNow m w of (start, w) \<Rightarrow>
     (case mgNewID m w of (i, w) \<Rightarrow>
     (case CreateRun (mgStore m) (started_run i job start) w of
        (Inl e, w) \<Rightarrow> ((None, Some (Wrapf ''replication: create run: %w'' e)), w)
      | (Inr run, w) \<Rightarrow>
     (case bExecute b job w of ((res, execErr), w) \<Rightarrow>
     (case mgNow m w of (fin, w) \<Rightarrow>
     (let run = finished_run run res execErr fin;
          w = (case moved_job job res execErr fin of None \<Rightarrow> w | Some j \<Rightarrow> snd (UpdateJob (mgStore m) j w))
      in (case UpdateRun (mgStore m) run w of
            (Inl e, w) \<Rightarrow> ((Some run, Some (Wrapf ''replication: update run: %w'' e)), w)
          | (Inr r, w) \<Rightarrow> ((Some run, execErr), w))))))))"

definition Run :: "'w Manager \<Rightarrow> string \<Rightarrow> 'w \<Rightarrow> (RunRow option \<times> error option) \<times> 'w" where
  "Run m jobID w =
     (case GetJob (mgStore m) jobID w of
        (Inl e, w) \<Rightarrow> ((None, Some e), w)
      | (Inr job, w) \<Rightarrow>
     (case map_of (mgBackends m) (jBackend job) of
        None \<Rightarrow> ((None, Some not_registered), w)
      | Some b \<Rightarrow>
     (case TryLock (mgLocker m) (jID job) w of
        (Inl e, w) \<Rightarrow> ((None, Some (Wrapf ''replication: acquire lock: %w'' e)), w)
      | (Inr False, w) \<Rightarrow> ((None, Some ErrLocked), w)
      | (Inr True, w) \<Rightarrow> (case run_locked m b job w of (r, w) \<Rightarrow> (r, Release (mgLocker m) (jID job) w)))))"

subsection \<open>The in-memory store and locker\<close>

record MemStore =
  msJobs :: "(string \<times> Job) list"
  msRuns :: "(string \<times> RunRow list) list"

definition Mem_CreateJob :: "Job \<Rightarrow> MemStore \<Rightarrow> Job result \<times> MemStore" where
  "Mem_CreateJob j s =
     (if map_of (msJobs s) (jID j) \<noteq> None then (Inl (Errorf ''replication: job %s already exists''), s)
      else (Inr j, s\<lparr>msJobs := AList.update (jID j) j (msJobs s)\<rparr>))"

definition Mem_UpdateJob :: "Job \<Rightarrow> MemStore \<Rightarrow> Job result \<times> MemStore" where
  "Mem_UpdateJob j s =
     (if map_of (msJobs s) (jID j) = None then (Inl ErrNotFound, s)
      else (Inr j, s\<lparr>msJobs := AList.update (jID j) j (msJobs s)\<rparr>))"

definition Mem_DeleteJob :: "string \<Rightarrow> MemStore \<Rightarrow> error option \<times> MemStore" where
  "Mem_DeleteJob i s =
     (if map_of (msJobs s) i = None then (Some ErrNotFound, s)
      else (None, s\<lparr>msJobs := AList.delete i (msJobs s), msRuns := AList.delete i (msRuns s)\<rparr>))"

definition Mem_GetJob :: "string \<Rightarrow> MemStore \<Rightarrow> Job result \<times> MemStore" where
  "Mem_GetJob i s = (of_opt ErrNotFound (map_of (msJobs s) i), s)"

definition Mem_ListJobs :: "MemStore \<Rightarrow> Job list result \<times> MemStore" where
  "Mem_ListJobs s = (Inr (map snd (msJobs s)), s)"

definition runs_of :: "MemStore \<Rightarrow> string \<Rightarrow> RunRow list" where
  "runs_of s i = (case map_of (msRuns s) i of None \<Rightarrow> [] | Some rs \<Rightarrow> rs)"

definition Mem_CreateRun :: "RunRow \<Rightarrow> MemStore \<Rightarrow> RunRow result \<times> MemStore" where
  "Mem_CreateRun r s = (Inr r, s\<lparr>msRuns := AList.update (rJobID r) (runs_of s (rJobID r) @ [r]) (msRuns s)\<rparr>)"

fun replace_run :: "RunRow \<Rightarrow> RunRow list \<Rightarrow> RunRow list option" where
  "replace_run r [] = None"
| "replace_run r (x # xs) = (if rID x = rID r then Some (r # xs) else map_option ((#) x) (replace_run r xs))"

definition Mem_UpdateRun :: "RunRow \<Rightarrow> MemStore \<Rightarrow> RunRow result \<times> MemStore" where
  "Mem_UpdateRun r s =
     (case replace_run r (runs_of s (rJobID r)) of
        None \<Rightarrow> (Inl ErrNotFound, s)
      | Some rs \<Rightarrow> (Inr r, s\<lparr>msRuns := AList.update (rJobID r) rs (msRuns s)\<rparr>))"

definition Mem_ListRuns :: "string \<Rightarrow> int \<Rightarrow> MemStore \<Rightarrow> RunRow list result \<times> MemStore" where
  "Mem_ListRuns i limit s =
     (let out = rev (runs_of s i)
      in (Inr (if limit > 0 \<and> int (length out) > limit then take (nat limit) out else out), s))"

definition Mem_TryLock :: "string \<Rightarrow> string set \<Rightarrow> bool \<times> string set" where
  "Mem_TryLock i held = (if i \<in> held then (False, held) else (True, insert i held))"

definition Mem_Release :: "string \<Rightarrow> string set \<Rightarrow> string set" where
  "Mem_Release i held = held - {i}"

type_synonym 'x mem_world = "MemStore \<times> string set \<times> 'x"

definition on_store :: "(MemStore \<Rightarrow> 'r \<times> MemStore) \<Rightarrow> 'x mem_world \<Rightarrow> 'r \<times> 'x mem_world" where
  "on_store f w = (case f (fst w) of (r, s) \<Rightarrow> (r, (s, snd w)))"

definition mem_store :: "'x mem_world Store" where
  "mem_store = \<lparr>CreateJob = (\<lambda>j. on_store (Mem_CreateJob j)), UpdateJob = (\<lambda>j. on_store (Mem_UpdateJob j)),
     DeleteJob = (\<lambda>i. on_store (Mem_DeleteJob i)), GetJob = (\<lambda>i. on_store (Mem_GetJob i)),
     ListJobs = on_store Mem_ListJobs, CreateRun = (\<lambda>r. on_store (Mem_CreateRun r)),
     UpdateRun = (\<lambda>r. on_store (Mem_UpdateRun r)), ListRuns = (\<lambda>i n. on_store (Mem_ListRuns i n))\<rparr>"

definition mem_locker :: "'x mem_world Locker" where
  "mem_locker =
     \<lparr>TryLock = (\<lambda>i (s, held, x). case Mem_TryLock i held of (b, held) \<Rightarrow> (Inr b, (s, held, x))),
      Release = (\<lambda>i (s, held, x). (s, Mem_Release i held, x))\<rparr>"

subsection \<open>The contract of a store and a locker\<close>

locale repl_store =
  fixes st :: "'w Store" and lk :: "'w Locker"
    and jobs :: "'w \<Rightarrow> string \<Rightarrow> Job option" and runs :: "'w \<Rightarrow> string \<Rightarrow> RunRow list" and held :: "'w \<Rightarrow> string set"
  assumes get_law: "GetJob st i w = (r, w') \<Longrightarrow> r = of_opt ErrNotFound (jobs w i) \<and> w' = w"
    and update_law: "UpdateJob st j w = (r, w') \<Longrightarrow>
      jobs w' = (if jobs w (jID j) = None then jobs w else (jobs w)(jID j \<mapsto> j)) \<and> runs w' = runs w \<and> held w' = held w"
    and create_run_law: "CreateRun st x w = (y, w') \<Longrightarrow> jobs w' = jobs w \<and> held w' = held w
      \<and> (case y of Inl e \<Rightarrow> runs w' = runs w | Inr z \<Rightarrow> z = x \<and> runs w' = (runs w)(rJobID x := runs w (rJobID x) @ [x]))"
    and update_run_law: "UpdateRun st x w = (y, w') \<Longrightarrow> jobs w' = jobs w \<and> held w' = held w
      \<and> (case replace_run x (runs w (rJobID x)) of
           None \<Rightarrow> (\<exists>e. y = Inl e) \<and> runs w' = runs w
         | Some rs \<Rightarrow> y = Inr x \<and> runs w' = (runs w)(rJobID x := rs))"
    and lock_law: "TryLock lk i w = (b, w') \<Longrightarrow> jobs w' = jobs w \<and> runs w' = runs w
      \<and> (b = Inr True \<longrightarrow> i \<notin> held w \<and> held w' = insert i (held w)) \<and> (b \<noteq> Inr True \<longrightarrow> held w' = held w)"
    and release_law: "jobs (Release lk i w) = jobs w \<and> runs (Release lk i w) = runs w \<and> held (Release lk i w) = held w - {i}"
begin

definition same :: "'w \<Rightarrow> 'w \<Rightarrow> bool" where
  "same w w' \<longleftrightarrow> jobs w' = jobs w \<and> runs w' = runs w \<and> held w' = held w"

text \<open>Clock, ids and backends do not touch the rows and the locks; ids are fresh.\<close>

definition well_behaved :: "'w Manager \<Rightarrow> bool" where
  "well_behaved m \<longleftrightarrow> mgStore m = st \<and> mgLocker m = lk
     \<and> (\<forall>w. same w (snd (mgNow m w))) \<and> (\<forall>w. same w (snd (mgNewID m w)))
     \<and> (\<forall>w k. fst (mgNewID m w) \<notin> rID ` set (runs w k))
     \<and> (\<forall>k b j w. map_of (mgBackends m) k = Some b \<longrightarrow> same w (snd (bExecute b j w)))"

lemma replace_fresh: "rID r \<notin> rID ` set xs \<Longrightarrow> rID y = rID r \<Longrightarrow> replace_run r (xs @ [y]) = Some (xs @ [r])"
  by (induction xs) auto

lemma update_snd:
  "jobs (snd (UpdateJob st j w)) = (if jobs w (jID j) = None then jobs w else (jobs w)(jID j \<mapsto> j))"
  "runs (snd (UpdateJob st j w)) = runs w" "held (snd (UpdateJob st j w)) = held w"
  using update_law [of j w "fst (UpdateJob st j w)" "snd (UpdateJob st j w)"] by simp_all

text \<open>What a run leaves behind, in terms of the row it returns.\<close>

definition recorded :: "Job \<Rightarrow> RunRow \<Rightarrow> error option \<Rightarrow> 'w \<Rightarrow> 'w \<Rightarrow> bool" where
  "recorded job run e w w' \<longleftrightarrow>
     rJobID run = jID job \<and> rError run = e \<and> rFinishedAt run \<noteq> None
     \<and> rOutcome run = (if e = None then RunSucceeded else RunFailed)
     \<and> runs w' = (runs w)(jID job := runs w (jID job) @ [run])
     \<and> jobs w' = (if e = None \<and> jBackend job = BackendZFS \<and> rSnapshot run \<noteq> []
          then (jobs w)(jID job \<mapsto> job\<lparr>jLastSnapshot := rSnapshot run, jUpdatedAt := the (rFinishedAt run)\<rparr>)
          else jobs w)"

lemma run_locked_effect:
  assumes wb: "well_behaved m" and b: "map_of (mgBackends m) (jBackend job) = Some b"
    and j: "jobs w (jID job) \<noteq> None" and r: "run_locked m b job w = ((ro, e), w')"
  shows "held w' = held w
    \<and> (case ro of None \<Rightarrow> runs w' = runs w \<and> jobs w' = jobs w \<and> e \<noteq> None | Some run \<Rightarrow> recorded job run e w w')"
proof -
  obtain start w1 where n: "mgNow m w = (start, w1)" by fastforce
  obtain i w2 where i: "mgNewID m w1 = (i, w2)" by fastforce
  have s2: "same w w2" "i \<notin> rID ` set (runs w (jID job))"
    using wb n i unfolding well_behaved_def same_def by (metis snd_conv, metis fst_conv snd_conv)
  let ?run = "started_run i job start"
  obtain c w3 where c: "CreateRun st ?run w2 = (c, w3)" by fastforce
  have st: "mgStore m = st" using wb by (simp add: well_behaved_def)
  show ?thesis
  proof (cases c)
    case (Inl x)
    then show ?thesis using r n i c st s2 create_run_law [OF c] by (auto simp: run_locked_def same_def)
  next
    case (Inr y)
    have y: "y = ?run" "runs w3 = (runs w)(jID job := runs w (jID job) @ [?run])" "jobs w3 = jobs w" "held w3 = held w"
      using create_run_law [OF c] Inr s2(1) by (auto simp: same_def started_run_def)
    obtain res ee w4 where x: "bExecute b job w3 = ((res, ee), w4)" by (metis prod.exhaust)
    obtain fin w5 where f: "mgNow m w4 = (fin, w5)" by fastforce
    have s5: "same w3 w5" using wb b x f unfolding well_behaved_def same_def by (metis snd_conv)
    define w6 where "w6 = (case moved_job job res ee fin of None \<Rightarrow> w5 | Some j \<Rightarrow> snd (UpdateJob st j w5))"
    let ?fin = "finished_run ?run res ee fin"
    have w6: "runs w6 = runs w3" "held w6 = held w" "jobs w6 = (case moved_job job res ee fin of None \<Rightarrow> jobs w | Some j' \<Rightarrow> (jobs w)(jID job \<mapsto> j'))"
      using s5 y j by (auto simp: w6_def same_def moved_job_def update_snd)
    obtain u w7 where u: "UpdateRun st ?fin w6 = (u, w7)" by fastforce
    have rp: "replace_run ?fin (runs w6 (rJobID ?fin)) = Some (runs w (jID job) @ [?fin])"
      using replace_fresh [of ?fin "runs w (jID job)" ?run] s2(2) w6(1) y(2)
      by (simp add: finished_run_def started_run_def)
    have "u = Inr ?fin" "runs w7 = (runs w)(jID job := runs w (jID job) @ [?fin])" "jobs w7 = jobs w6" "held w7 = held w"
      using update_run_law [OF u] rp w6 y(2) by (auto simp: finished_run_def started_run_def)
    moreover from this have "ro = Some ?fin" "e = ee" "w' = w7"
      using r [unfolded run_locked_def st] n i c Inr x f u y(1) by (auto simp: Let_def w6_def)
    ultimately show ?thesis using w6(3)
      by (auto simp: recorded_def finished_run_def started_run_def moved_job_def)
  qed
qed

lemma Run_effect:
  assumes wb: "well_behaved m" and j: "jobs w i = Some job" "jID job = i" and r: "Run m i w = ((ro, e), w')"
  shows "held w' = held w
    \<and> (case ro of None \<Rightarrow> runs w' = runs w \<and> jobs w' = jobs w \<and> e \<noteq> None | Some run \<Rightarrow> recorded job run e w w')"
proof -
  have st: "mgStore m = st" "mgLocker m = lk" using wb by (simp_all add: well_behaved_def)
  obtain g w1 where g: "GetJob st i w = (g, w1)" by fastforce
  then have g': "g = Inr job" "w1 = w" using get_law [OF g] j by (simp_all add: of_opt_def)
  obtain l w2 where l: "TryLock lk i w = (l, w2)" by fastforce
  note L = lock_law [OF l]
  show ?thesis
  proof (cases "\<exists>b. map_of (mgBackends m) (jBackend job) = Some b \<and> l = Inr True")
    case False
    then have "ro = None \<and> e \<noteq> None \<and> (w' = w \<or> w' = w2 \<and> l \<noteq> Inr True)"
      using r st g g' l j(2)
      by (cases l) (auto simp: Run_def split: option.splits sum.splits bool.splits)
    then show ?thesis using L by auto
  next
    case True
    then obtain b where b: "map_of (mgBackends m) (jBackend job) = Some b" "l = Inr True" by blast
    obtain w3 where w3: "run_locked m b job w2 = ((ro, e), w3)" "w' = Release lk i w3"
      using r st g g' l j(2) b by (auto simp: Run_def split: prod.splits)
    have "jobs w2 (jID job) \<noteq> None" using L j by simp
    note E = run_locked_effect [OF wb b(1) this w3(1)]
    have h: "i \<notin> held w" "held w2 = insert i (held w)" "jobs w2 = jobs w" "runs w2 = runs w" using L b(2) by auto
    have "recorded job run e w2 w3 \<Longrightarrow> recorded job run e w w'" for run
      using w3(2) release_law [of i w3] h by (simp add: recorded_def)
    then show ?thesis using E w3(2) release_law [of i w3] h by (auto split: option.splits)
  qed
qed

end

lemma runs_of_update: "runs_of (s\<lparr>msRuns := AList.update k rs (msRuns s)\<rparr>) = (runs_of s)(k := rs)"
  by (rule ext) (simp add: runs_of_def update_conv')

lemma runs_of_jobs: "runs_of (s\<lparr>msJobs := js\<rparr>) = runs_of s"
  by (rule ext) (simp add: runs_of_def)

interpretation mem: repl_store mem_store mem_locker "\<lambda>w. map_of (msJobs (fst w))" "\<lambda>w. runs_of (fst w)" "\<lambda>w. fst (snd w)"
proof
qed (auto simp: mem_store_def mem_locker_def on_store_def Mem_GetJob_def Mem_UpdateJob_def Mem_CreateRun_def
    Mem_UpdateRun_def Mem_TryLock_def Mem_Release_def update_conv' runs_of_update runs_of_jobs
    split: prod.splits option.splits if_splits)

subsection \<open>Interleaved runs\<close>

text \<open>
  One goroutine per call of \<open>Run\<close>, between two calls of the store, the locker or the backend. Each of
  these calls is atomic: the store and the locker hold their mutex for its duration. Users may create, update and
  delete jobs at any time. The backend may return any result. The clock and the ids are arbitrary.
\<close>

datatype thread =
    Start string
  | Loaded Job
  | Locked Job
  | Running Job RunRow
  | Finished Job RunRow "Job option"
  | Closing Job RunRow
  | Releasing string
  | Returned "error option"

record sys =
  sStore :: MemStore
  sHeld :: "string set"
  sThreads :: "nat \<Rightarrow> thread"

inductive step :: "string set \<Rightarrow> sys \<Rightarrow> sys \<Rightarrow> bool" for registered where
  load: "sThreads s t = Start i \<Longrightarrow> Mem_GetJob i (sStore s) = (Inr j, st) \<Longrightarrow> jBackend j \<in> registered \<Longrightarrow>
    step registered s (s\<lparr>sStore := st, sThreads := (sThreads s)(t := Loaded j)\<rparr>)"
| load_failed: "sThreads s t = Start i \<Longrightarrow> Mem_GetJob i (sStore s) = (r, st) \<Longrightarrow>
    (\<forall>j. r = Inr j \<longrightarrow> jBackend j \<notin> registered) \<Longrightarrow>
    step registered s (s\<lparr>sThreads := (sThreads s)(t := Returned (Some (case r of Inl e \<Rightarrow> e | Inr j \<Rightarrow> not_registered)))\<rparr>)"
| lock: "sThreads s t = Loaded j \<Longrightarrow> Mem_TryLock (jID j) (sHeld s) = (True, h) \<Longrightarrow>
    step registered s (s\<lparr>sHeld := h, sThreads := (sThreads s)(t := Locked j)\<rparr>)"
| busy: "sThreads s t = Loaded j \<Longrightarrow> Mem_TryLock (jID j) (sHeld s) = (False, h) \<Longrightarrow>
    step registered s (s\<lparr>sHeld := h, sThreads := (sThreads s)(t := Returned (Some ErrLocked))\<rparr>)"
| create_run: "sThreads s t = Locked j \<Longrightarrow> Mem_CreateRun (started_run i j start) (sStore s) = (Inr run, st) \<Longrightarrow>
    step registered s (s\<lparr>sStore := st, sThreads := (sThreads s)(t := Running j run)\<rparr>)"
| execute: "sThreads s t = Running j run \<Longrightarrow>
    step registered s (s\<lparr>sThreads := (sThreads s)(t := Finished j (finished_run run res e fin) (moved_job j res e fin))\<rparr>)"
| write_job: "sThreads s t = Finished j run (Some j') \<Longrightarrow> Mem_UpdateJob j' (sStore s) = (r, st) \<Longrightarrow>
    step registered s (s\<lparr>sStore := st, sThreads := (sThreads s)(t := Closing j run)\<rparr>)"
| keep_job: "sThreads s t = Finished j run None \<Longrightarrow>
    step registered s (s\<lparr>sThreads := (sThreads s)(t := Closing j run)\<rparr>)"
| write_run: "sThreads s t = Closing j run \<Longrightarrow> Mem_UpdateRun run (sStore s) = (r, st) \<Longrightarrow>
    step registered s (s\<lparr>sStore := st, sThreads := (sThreads s)(t := Releasing (jID j))\<rparr>)"
| release: "sThreads s t = Releasing i \<Longrightarrow>
    step registered s (s\<lparr>sHeld := Mem_Release i (sHeld s), sThreads := (sThreads s)(t := Returned e)\<rparr>)"
| user_create: "Validate j = None \<Longrightarrow> Mem_CreateJob j (sStore s) = (r, st) \<Longrightarrow> step registered s (s\<lparr>sStore := st\<rparr>)"
| user_update: "Validate j = None \<Longrightarrow> Mem_UpdateJob j (sStore s) = (r, st) \<Longrightarrow> step registered s (s\<lparr>sStore := st\<rparr>)"
| user_delete: "Mem_DeleteJob i (sStore s) = (r, st) \<Longrightarrow> step registered s (s\<lparr>sStore := st\<rparr>)"
| call: "sThreads s t = Returned e \<Longrightarrow> step registered s (s\<lparr>sThreads := (sThreads s)(t := Start i)\<rparr>)"

text \<open>The job a goroutine holds the lock for.\<close>

fun holds :: "thread \<Rightarrow> string option" where
  "holds (Locked j) = Some (jID j)"
| "holds (Running j r) = Some (jID j)"
| "holds (Finished j r j') = Some (jID j)"
| "holds (Closing j r) = Some (jID j)"
| "holds (Releasing i) = Some i"
| "holds _ = None"

definition initial :: "sys \<Rightarrow> bool" where
  "initial s \<longleftrightarrow> sHeld s = {} \<and> (\<forall>t. holds (sThreads s t) = None)"

definition excl :: "(nat \<Rightarrow> string option) \<Rightarrow> string set \<Rightarrow> bool" where
  "excl H held \<longleftrightarrow> (\<forall>t u i. H t = Some i \<longrightarrow> H u = Some i \<longrightarrow> t = u) \<and> held = {i. \<exists>t. H t = Some i}"

definition exclusive :: "sys \<Rightarrow> bool" where
  "exclusive s \<longleftrightarrow> excl (\<lambda>t. holds (sThreads s t)) (sHeld s)"

lemma holds_upd: "(\<lambda>u. holds (if u = t then x else th u)) = (\<lambda>u. holds (th u))(t := holds x)"
  by (rule ext) simp

lemma exclI:
  assumes "\<And>t u i. H t = Some i \<Longrightarrow> H u = Some i \<Longrightarrow> t = u" "\<And>i. i \<in> held \<longleftrightarrow> (\<exists>t. H t = Some i)"
  shows "excl H held"
  using assms unfolding excl_def by blast

lemma exclD:
  assumes "excl H held"
  shows "H t = Some i \<Longrightarrow> H u = Some i \<Longrightarrow> t = u" "i \<in> held \<longleftrightarrow> (\<exists>t. H t = Some i)"
  using assms unfolding excl_def by blast+

lemma excl_add:
  assumes e: "excl H held" and t: "H t = None" and i: "i \<notin> held"
  shows "excl (H(t := Some i)) (insert i held)"
proof (rule exclI)
  fix u v k assume "(H(t := Some i)) u = Some k" "(H(t := Some i)) v = Some k"
  then show "u = v" using exclD(1) [OF e, of u k v] exclD(2) [OF e, of i] i by (cases "u = t"; cases "v = t") auto
next
  fix k
  have "H u = Some k \<Longrightarrow> (H(t := Some i)) u = Some k" for u using t by (cases "u = t") auto
  moreover have "(H(t := Some i)) t = Some i" by simp
  moreover have "(H(t := Some i)) u = Some k \<Longrightarrow> k = i \<or> H u = Some k" for u by (cases "u = t") auto
  ultimately show "k \<in> insert i held \<longleftrightarrow> (\<exists>u. (H(t := Some i)) u = Some k)"
    using exclD(2) [OF e, of k] by blast
qed

lemma excl_remove:
  assumes e: "excl H held" and t: "H t = Some i"
  shows "excl (H(t := None)) (held - {i})"
proof (rule exclI)
  fix u v k assume "(H(t := None)) u = Some k" "(H(t := None)) v = Some k"
  then show "u = v" using exclD(1) [OF e, of u k v] by (cases "u = t"; cases "v = t") auto
next
  fix k
  have "(H(t := None)) u = Some k \<longleftrightarrow> H u = Some k \<and> k \<noteq> i" for u
    using exclD(1) [OF e, of u i t] t by (cases "u = t") auto
  then show "k \<in> held - {i} \<longleftrightarrow> (\<exists>u. (H(t := None)) u = Some k)"
    using exclD(2) [OF e, of k] by blast
qed

lemma excl_same: "excl H held \<Longrightarrow> h = H t \<Longrightarrow> excl (H(t := h)) held"
  by simp

lemma step_exclusive: "step registered s s' \<Longrightarrow> exclusive s \<Longrightarrow> exclusive s'"
proof (induction rule: step.induct)
  case (lock s t j h)
  then have "jID j \<notin> sHeld s" "h = insert (jID j) (sHeld s)" by (auto simp: Mem_TryLock_def split: if_splits)
  with lock show ?case by (simp add: exclusive_def holds_upd excl_add)
next
  case (busy s t j h)
  then have "h = sHeld s" by (auto simp: Mem_TryLock_def split: if_splits)
  with busy show ?case by (simp add: exclusive_def holds_upd excl_same)
next
  case (release s t i e)
  then show ?case by (simp add: exclusive_def holds_upd excl_remove Mem_Release_def)
qed (simp_all add: exclusive_def holds_upd excl_same)

lemma initial_exclusive: "initial s \<Longrightarrow> exclusive s"
  by (simp add: initial_def exclusive_def excl_def)

lemma reachable_exclusive: "(step registered)\<^sup>*\<^sup>* s s' \<Longrightarrow> exclusive s \<Longrightarrow> exclusive s'"
  by (induction rule: rtranclp_induct) (auto intro: step_exclusive)

subsection \<open>Properties\<close>

text \<open>
  C7. At most one run per job: however calls of \<open>Run\<close> and edits by users interleave, two goroutines never
  hold the lock of the same job, from the moment the lock is taken until it is released, and
  the locker's table holds exactly the jobs that are being run.
\<close>

theorem at_most_one_run:
  assumes "initial s" "(step registered)\<^sup>*\<^sup>* s s'"
  shows "(holds (sThreads s' t) = Some i \<and> holds (sThreads s' u) = Some i \<longrightarrow> t = u)
    \<and> sHeld s' = {i. \<exists>t. holds (sThreads s' t) = Some i}"
  using reachable_exclusive [OF assms(2) initial_exclusive [OF assms(1)]] by (auto simp: exclusive_def excl_def)

definition demo_ep :: Endpoint where
  "demo_ep = \<lparr>epDataset = [], epPath = [], epHost = [], epSSHUser = [], epBucket = [], epPrefix = [], epEndpoint = [], epRegion = []\<rparr>"

definition demo_job :: Job where
  "demo_job = \<lparr>jID = ''j'', jName = ''n'', jBackend = ''zfs'', jDirection = ''push'', jSource = demo_ep, jDestination = demo_ep,
     jSchedule = [], jRetention = \<lparr>KeepLastN = 0, KeepDaily = 0, KeepWeekly = 0, KeepMonthly = 0, KeepYearly = 0\<rparr>,
     jEnabled = True, jSecretRef = [], jLastSnapshot = [], jCreatedAt = 0, jUpdatedAt = 0\<rparr>"

definition demo_sys :: "Job \<Rightarrow> sys" where
  "demo_sys j = \<lparr>sStore = \<lparr>msJobs = [(jID j, j)], msRuns = []\<rparr>, sHeld = {}, sThreads = (\<lambda>t. Start (jID j))\<rparr>"

theorem at_most_one_run_witness:
  "\<exists>s'. (step {''zfs''})\<^sup>*\<^sup>* (demo_sys demo_job) s' \<and> sHeld s' = {''j''} \<and> holds (sThreads s' 0) = Some ''j'' \<and> holds (sThreads s' 1) \<noteq> Some ''j''"
proof -
  let ?s = "demo_sys demo_job"
  let ?s1 = "?s\<lparr>sThreads := (sThreads ?s)(0 := Loaded demo_job)\<rparr>"
  let ?s2 = "?s1\<lparr>sHeld := {''j''}, sThreads := (sThreads ?s1)(0 := Locked demo_job)\<rparr>"
  have i: "initial ?s" by (simp add: initial_def demo_sys_def)
  have "step {''zfs''} ?s (?s\<lparr>sStore := sStore ?s, sThreads := (sThreads ?s)(0 := Loaded demo_job)\<rparr>)"
    by (rule step.load [where i = "''j''"]) (simp_all add: demo_sys_def demo_job_def Mem_GetJob_def of_opt_def)
  moreover have "step {''zfs''} ?s1 ?s2"
    by (rule step.lock) (simp_all add: demo_sys_def demo_job_def Mem_TryLock_def)
  ultimately have "(step {''zfs''})\<^sup>*\<^sup>* ?s ?s2" by simp
  moreover have "holds (sThreads ?s2 0) = Some ''j''" "sHeld ?s2 = {''j''}" by (simp_all add: demo_job_def)
  ultimately obtain s' where r: "(step {''zfs''})\<^sup>*\<^sup>* ?s s'" and h: "holds (sThreads s' 0) = Some ''j''" "sHeld s' = {''j''}"
    by blast
  have "holds (sThreads s' 1) \<noteq> Some ''j''" using at_most_one_run [OF i r, of 1 "''j''" 0] h(1) by auto
  then show ?thesis using r h by blast
qed



text \<open>A manager over the in-memory store and locker whose clock, ids and backends leave rows and locks alone.\<close>

definition leaves :: "('x mem_world \<Rightarrow> 'r \<times> 'x mem_world) \<Rightarrow> bool" where
  "leaves f \<longleftrightarrow> (\<forall>w. fst (snd (f w)) = fst w \<and> fst (snd (snd (f w))) = fst (snd w))"

definition mem_ok :: "'x mem_world Manager \<Rightarrow> bool" where
  "mem_ok m \<longleftrightarrow> mgStore m = mem_store \<and> mgLocker m = mem_locker \<and> leaves (mgNow m) \<and> leaves (mgNewID m)
     \<and> (\<forall>w k. fst (mgNewID m w) \<notin> rID ` set (runs_of (fst w) k))
     \<and> (\<forall>k b j. map_of (mgBackends m) k = Some b \<longrightarrow> leaves (bExecute b j))"

lemma mem_well_behaved: "mem_ok m \<Longrightarrow> mem.well_behaved m"
  by (simp add: mem_ok_def mem.well_behaved_def mem.same_def leaves_def)


definition fresh_id :: "MemStore \<Rightarrow> string" where
  "fresh_id s = replicate (Suc (sum_list (map (\<lambda>(k, rs). sum_list (map (\<lambda>r. length (rID r)) rs)) (msRuns s)))) (CHR ''r'')"

definition demo_manager :: "unit mem_world Manager" where
  "demo_manager =
     \<lparr>mgStore = mem_store, mgLocker = mem_locker,
      mgBackends = [(''zfs'', \<lparr>bValidate = (\<lambda>j w. (None, w)),
         bExecute = (\<lambda>j w. ((\<lparr>rrBytesTransferred = 1, rrSnapshot = ''tank@s''\<rparr>, None), w))\<rparr>)],
      mgNow = (\<lambda>w. (5, w)), mgNewID = (\<lambda>w. (fresh_id (fst w), w))\<rparr>"

lemma fresh_id_fresh: "fresh_id s \<notin> rID ` set (runs_of s k)"
proof
  assume "fresh_id s \<in> rID ` set (runs_of s k)"
  then obtain r where r: "r \<in> set (runs_of s k)" "rID r = fresh_id s" by auto
  then obtain rs where rs: "(k, rs) \<in> set (msRuns s)" "r \<in> set rs"
    by (cases "map_of (msRuns s) k") (auto simp: runs_of_def dest: map_of_SomeD)
  have "length (rID r) \<le> sum_list (map (\<lambda>r. length (rID r)) rs)"
    using rs(2) by (intro member_le_sum_list) auto
  also have "\<dots> \<le> sum_list (map (\<lambda>(k, rs). sum_list (map (\<lambda>r. length (rID r)) rs)) (msRuns s))"
    using rs(1) by (intro member_le_sum_list) (force, simp)
  also have "\<dots> < length (fresh_id s)" by (simp add: fresh_id_def)
  finally show False using r(2) by simp
qed

lemma demo_manager_ok: "mem_ok demo_manager"
  using fresh_id_fresh by (auto simp: mem_ok_def leaves_def demo_manager_def)


end
