(* ===== verification/ReplRetention.thy ===== *)
theory ReplRetention
  imports ReplManager Retention "HOL-Library.Multiset"
begin

text \<open>
  \<^verbatim>\<open>internal/replication/retention.go\<close>: which runs or remote backups a policy keeps. \<open>sort.Slice\<close> is not
  stable, so the sorting function is a parameter that returns some permutation ordered newest first.
\<close>

subsection \<open>The engine\<close>

record RunRecord =
  rrID :: string
  rrTime :: time

definition twoDigit :: "int \<Rightarrow> string" where
  "twoDigit n = (if n < 10 then ''0'' @ itoa n else itoa n)"

definition formatWeekKey :: "int \<Rightarrow> int \<Rightarrow> string" where
  "formatWeekKey year week = appendInt (Year_of UTC (Date year 1 1 0 0 UTC)) 4 @ ''-W'' @ twoDigit week"

definition daily_key :: "location \<Rightarrow> time \<Rightarrow> string" where
  "daily_key loc t = fmt_day loc (Date (Year_of loc t) (Month_of loc t) (Day_of loc t) 0 0 loc)"

definition weekly_key :: "location \<Rightarrow> time \<Rightarrow> string" where
  "weekly_key loc t = (case ISOWeek loc t of (y, w) \<Rightarrow> formatWeekKey y w)"

definition monthly_key :: "location \<Rightarrow> time \<Rightarrow> string" where
  "monthly_key loc t = appendInt (Year_of loc t) 4 @ ''-'' @ appendInt (Month_of loc t) 2"

definition yearly_key :: "location \<Rightarrow> time \<Rightarrow> string" where
  "yearly_key loc t = appendInt (Year_of loc t) 4"

text \<open>The loop of \<open>pickByBucket\<close>: \<open>picked\<close> counts the marks it has set.\<close>

fun pick_loop :: "(time \<Rightarrow> string) \<Rightarrow> int \<Rightarrow> RunRecord list \<Rightarrow> string set \<Rightarrow> int \<Rightarrow> string set \<Rightarrow> string set" where
  "pick_loop key want [] seen picked keep = keep"
| "pick_loop key want (r # rs) seen picked keep =
     (let k = key (rrTime r)
      in if k \<in> seen then pick_loop key want rs seen picked keep
         else if picked + 1 \<ge> want then insert (rrID r) keep
         else pick_loop key want rs (insert k seen) (picked + 1) (insert (rrID r) keep))"

definition pickByBucket :: "RunRecord list \<Rightarrow> int \<Rightarrow> (time \<Rightarrow> string) \<Rightarrow> string set \<Rightarrow> string set" where
  "pickByBucket srt want key keep = (if want \<le> 0 then keep else pick_loop key want srt {} 0 keep)"

definition RetentionApply ::
  "(RunRecord list \<Rightarrow> RunRecord list) \<Rightarrow> location \<Rightarrow> RunRecord list \<Rightarrow> ReplManager.RetentionPolicy \<Rightarrow> RunRecord list \<times> RunRecord list" where
  "RetentionApply sortf loc records p =
     (if IsZero p \<or> records = [] then (records, [])
      else let srt = sortf records;
               keep = (if KeepLastN p > 0 then set (map rrID (take (nat (KeepLastN p)) srt)) else {});
               keep = pickByBucket srt (KeepDaily p) (daily_key loc) keep;
               keep = pickByBucket srt (KeepWeekly p) (weekly_key loc) keep;
               keep = pickByBucket srt (KeepMonthly p) (monthly_key loc) keep;
               keep = pickByBucket srt (KeepYearly p) (yearly_key loc) keep
           in (filter (\<lambda>r. rrID r \<in> keep) srt, filter (\<lambda>r. rrID r \<notin> keep) srt))"

subsection \<open>What the policy promises\<close>

definition newest_first :: "RunRecord list \<Rightarrow> RunRecord list \<Rightarrow> bool" where
  "newest_first records srt \<longleftrightarrow> mset srt = mset records \<and> sorted_wrt (\<lambda>a b. rrTime a \<ge> rrTime b) srt"

definition newer_than :: "RunRecord list \<Rightarrow> RunRecord \<Rightarrow> RunRecord set" where
  "newer_than records r = {x \<in> set records. rrTime x > rrTime r}"

text \<open>The last \<open>n\<close> records, and the newest record of each of the last \<open>n\<close> buckets.\<close>

definition last_n :: "RunRecord list \<Rightarrow> int \<Rightarrow> RunRecord \<Rightarrow> bool" where
  "last_n records n r \<longleftrightarrow> int (card (newer_than records r)) < n"

definition bucket_newest :: "RunRecord list \<Rightarrow> (time \<Rightarrow> string) \<Rightarrow> int \<Rightarrow> RunRecord \<Rightarrow> bool" where
  "bucket_newest records key n r \<longleftrightarrow>
     key (rrTime r) \<notin> (\<lambda>x. key (rrTime x)) ` newer_than records r
     \<and> int (card ((\<lambda>x. key (rrTime x)) ` newer_than records r)) < n"

definition promised :: "location \<Rightarrow> ReplManager.RetentionPolicy \<Rightarrow> RunRecord list \<Rightarrow> RunRecord \<Rightarrow> bool" where
  "promised loc p records r \<longleftrightarrow> last_n records (KeepLastN p) r
     \<or> bucket_newest records (daily_key loc) (KeepDaily p) r \<or> bucket_newest records (weekly_key loc) (KeepWeekly p) r
     \<or> bucket_newest records (monthly_key loc) (KeepMonthly p) r \<or> bucket_newest records (yearly_key loc) (KeepYearly p) r"

subsection \<open>Lemmas\<close>

text \<open>What the loop marks, for a list split into the records it has passed and the rest.\<close>

definition keys :: "(time \<Rightarrow> string) \<Rightarrow> RunRecord set \<Rightarrow> string set" where
  "keys key rs = (\<lambda>x. key (rrTime x)) ` rs"

definition marks :: "(time \<Rightarrow> string) \<Rightarrow> int \<Rightarrow> RunRecord list \<Rightarrow> RunRecord list \<Rightarrow> string set" where
  "marks key want pre rs =
     {rrID r | r a b. rs = a @ r # b \<and> key (rrTime r) \<notin> keys key (set (pre @ a)) \<and> int (card (keys key (set (pre @ a)))) < want}"

lemma marksI:
  "rs = a @ r # b \<Longrightarrow> key (rrTime r) \<notin> keys key (set (pre @ a)) \<Longrightarrow> int (card (keys key (set (pre @ a)))) < want \<Longrightarrow>
     rrID r \<in> marks key want pre rs"
  unfolding marks_def by blast

lemma marksE:
  assumes "z \<in> marks key want pre rs"
  obtains r a b where "z = rrID r" "rs = a @ r # b" "key (rrTime r) \<notin> keys key (set (pre @ a))"
    "int (card (keys key (set (pre @ a)))) < want"
  using assms unfolding marks_def by blast

lemma marks_Nil: "marks key want pre [] = {}"
  by (simp add: marks_def)

lemma marks_Cons:
  "marks key want pre (r # rs) =
     (if key (rrTime r) \<notin> keys key (set pre) \<and> int (card (keys key (set pre))) < want then {rrID r} else {})
       \<union> marks key want (pre @ [r]) rs" (is "?L = ?R")
proof
  show "?L \<subseteq> ?R"
  proof
    fix z assume "z \<in> ?L"
    then obtain x a b where x: "z = rrID x" "r # rs = a @ x # b" "key (rrTime x) \<notin> keys key (set (pre @ a))"
      "int (card (keys key (set (pre @ a)))) < want" by (rule marksE)
    show "z \<in> ?R"
    proof (cases a)
      case Nil
      then show ?thesis using x by simp
    next
      case (Cons y a')
      then have "rs = a' @ x # b" "pre @ a = (pre @ [r]) @ a'" using x(2) by simp_all
      then have "z \<in> marks key want (pre @ [r]) rs" using x(1,3,4) marksI [of rs a' x b key "pre @ [r]" want] by simp
      then show ?thesis by simp
    qed
  qed
  have "marks key want (pre @ [r]) rs \<subseteq> ?L"
  proof
    fix z assume "z \<in> marks key want (pre @ [r]) rs"
    then obtain x a b where x: "z = rrID x" "rs = a @ x # b" "key (rrTime x) \<notin> keys key (set ((pre @ [r]) @ a))"
      "int (card (keys key (set ((pre @ [r]) @ a)))) < want" by (rule marksE)
    then show "z \<in> ?L" using marksI [of "r # rs" "r # a" x b key pre want] by simp
  qed
  moreover have "rrID r \<in> ?L" if "key (rrTime r) \<notin> keys key (set pre)" "int (card (keys key (set pre))) < want"
    using that marksI [of "r # rs" "[]" r rs key pre want] by simp
  ultimately show "?R \<subseteq> ?L" by auto
qed

lemma marks_full:
  assumes "want \<le> int (card (keys key (set pre)))"
  shows "marks key want pre rs = {}"
proof -
  have "card (keys key (set pre)) \<le> card (keys key (set (pre @ a)))" for a
    by (intro card_mono) (auto simp: keys_def)
  then have "\<not> int (card (keys key (set (pre @ a)))) < want" for a using assms by (meson le_less_trans not_less of_nat_le_iff)
  then show ?thesis by (auto elim: marksE)
qed

lemma pick_loop_marks:
  assumes "seen = keys key (set pre)" "picked = int (card seen)" "picked < want"
  shows "pick_loop key want rs seen picked keep = keep \<union> marks key want pre rs"
  using assms
proof (induction rs arbitrary: pre seen picked keep)
  case Nil
  then show ?case by (simp add: marks_Nil)
next
  case (Cons r rs)
  let ?k = "key (rrTime r)"
  have s: "keys key (set (pre @ [r])) = insert ?k seen" using Cons.prems(1) by (simp add: keys_def)
  have fin: "finite seen" using Cons.prems(1) by (simp add: keys_def)
  show ?case
  proof (cases "?k \<in> seen")
    case True
    then have "seen = keys key (set (pre @ [r]))" using s by auto
    from Cons.IH [OF this Cons.prems(2,3)] show ?thesis using True Cons.prems(1) by (simp add: marks_Cons)
  next
    case False
    then have c: "int (card (insert ?k seen)) = picked + 1" using fin Cons.prems(2) by simp
    have m: "marks key want pre (r # rs) = insert (rrID r) (marks key want (pre @ [r]) rs)"
      using False Cons.prems by (simp add: marks_Cons)
    show ?thesis
    proof (cases "picked + 1 \<ge> want")
      case True
      then have "marks key want (pre @ [r]) rs = {}" using c by (intro marks_full) (simp only: s)
      then show ?thesis using False True m by simp
    next
      case le: False
      have "pick_loop key want rs (insert ?k seen) (picked + 1) (insert (rrID r) keep) =
          insert (rrID r) keep \<union> marks key want (pre @ [r]) rs"
        using le c s [symmetric] by (intro Cons.IH) (assumption, simp_all)
      then show ?thesis using False le m by (simp add: Let_def)
    qed
  qed
qed

lemma before_newer:
  assumes s: "newest_first records srt" and d: "distinct (map rrTime records)" and x: "srt = a @ r # b"
  shows "set a = newer_than records r" "r \<in> set records"
proof -
  have m: "set srt = set records" using s by (metis newest_first_def set_mset_mset)
  have ds: "distinct (map rrTime srt)"
    using s d by (metis mset_map newest_first_def distinct_count_atmost_1 mset_eq_imp_distinct_iff)
  have "\<forall>y\<in>set a. rrTime y \<ge> rrTime r" "\<forall>y\<in>set b. rrTime r \<ge> rrTime y"
    using s x by (auto simp: newest_first_def sorted_wrt_append)
  moreover have "rrTime r \<notin> rrTime ` set a" using ds x by simp
  then have "\<forall>y\<in>set a. rrTime y \<noteq> rrTime r" by (metis imageI)
  ultimately have "\<forall>y\<in>set a. rrTime y > rrTime r" "\<forall>y\<in>set b. \<not> rrTime y > rrTime r" by fastforce+
  then show "set a = newer_than records r" using m x by (auto simp: newer_than_def m [symmetric])
  show "r \<in> set records" using m x by auto
qed

lemma ids_marks:
  assumes s: "newest_first records srt" and d: "distinct (map rrTime records)" and w: "0 < want"
  shows "marks key want [] srt = rrID ` {r \<in> set records. bucket_newest records key want r}"
proof (intro equalityI subsetI)
  fix z assume "z \<in> marks key want [] srt"
  then obtain r a b where r: "z = rrID r" "srt = a @ r # b" "key (rrTime r) \<notin> keys key (set a)" "int (card (keys key (set a))) < want"
    by (auto elim: marksE)
  note n = before_newer [OF s d r(2)]
  have "bucket_newest records key want r" using r(3,4) unfolding n(1) bucket_newest_def keys_def by blast
  then show "z \<in> rrID ` {r \<in> set records. bucket_newest records key want r}" using r(1) n(2) by blast
next
  fix z assume "z \<in> rrID ` {r \<in> set records. bucket_newest records key want r}"
  then obtain r where r: "z = rrID r" "r \<in> set records" "bucket_newest records key want r" by blast
  have "r \<in> set srt" using r(2) s by (metis newest_first_def set_mset_mset)
  then obtain a b where x: "srt = a @ r # b" by (meson split_list)
  have "key (rrTime r) \<notin> keys key (set ([] @ a))" "int (card (keys key (set ([] @ a)))) < want"
    using r(3) unfolding bucket_newest_def keys_def before_newer(1) [OF s d x, symmetric] by simp_all
  then show "z \<in> marks key want [] srt" unfolding r(1) using x by (intro marksI)
qed

lemma pickByBucket_ids:
  assumes "newest_first records srt" "distinct (map rrTime records)"
  shows "pickByBucket srt want key keep = keep \<union> rrID ` {r \<in> set records. bucket_newest records key want r}"
proof (cases "want \<le> 0")
  case True
  then have "\<not> bucket_newest records key want r" for r by (simp add: bucket_newest_def)
  then show ?thesis using True by (simp add: pickByBucket_def)
next
  case False
  then show ?thesis using pick_loop_marks [of "{}" key "[]" 0 want srt keep] ids_marks [OF assms]
    by (simp add: pickByBucket_def keys_def)
qed

lemma take_ids:
  assumes s: "newest_first records srt" and d: "distinct (map rrTime records)"
  shows "(if n > 0 then set (map rrID (take (nat n) srt)) else {}) = rrID ` {r \<in> set records. last_n records n r}"
proof (cases "n > 0")
  case True
  have ds: "distinct srt" using s d by (metis distinct_map newest_first_def mset_eq_imp_distinct_iff)
  have "r \<in> set (take (nat n) srt) \<longleftrightarrow> r \<in> set records \<and> last_n records n r" for r
  proof (cases "r \<in> set srt")
    case True
    then obtain a b where x: "srt = a @ r # b" by (meson split_list)
    have "card (newer_than records r) = length a"
      using before_newer(1) [OF s d x] ds x by (metis distinct_append distinct_card)
    moreover have "r \<in> set (take (nat n) srt) \<longleftrightarrow> length a < nat n"
      using ds x by (auto simp: take_Cons' dest: in_set_takeD)
    ultimately show ?thesis using before_newer(2) [OF s d x] by (simp add: last_n_def zless_nat_eq_int_zless)
  next
    case False
    then show ?thesis using s by (metis in_set_takeD newest_first_def set_mset_mset)
  qed
  then show ?thesis using True by auto
qed (auto simp: last_n_def)

subsection \<open>Properties\<close>


definition demo_records :: "RunRecord list" where
  "demo_records = [\<lparr>rrID = ''old'', rrTime = 0\<rparr>, \<lparr>rrID = ''new'', rrTime = 30 * Hour\<rparr>, \<lparr>rrID = ''mid'', rrTime = Hour\<rparr>]"

definition demo_policy :: ReplManager.RetentionPolicy where
  "demo_policy = \<lparr>KeepLastN = 0, KeepDaily = 2, KeepWeekly = 0, KeepMonthly = 0, KeepYearly = 0\<rparr>"


end
