(* ===== verification/GoJson.thy ===== *)
theory GoJson
  imports HostExec
begin

text \<open>
  Package \<open>encoding/json\<close>: JSON values and how \<open>json.Unmarshal\<close> reads them into Go structs. The text of
  a value is not modelled: a body is the value it spells.

  A struct is read from an object, a field from the last member whose name is the field's name up to
  case folding; a missing member and \<open>null\<close> leave the zero value, a value of a wrong type is an
  error, unknown members are ignored.
\<close>

datatype json =
    JNull | JBool bool | JNum int | JDec string | JStr string
  | JArr "json list" | JObj "(string \<times> json) list"

subsection \<open>Case folding\<close>

text \<open>\<open>strings.EqualFold\<close> and the folding of field names, against a string of ASCII characters: the only
  other runes that fold to one of them are the long s and the Kelvin sign.\<close>

definition lower :: "char \<Rightarrow> char" where
  "lower c = (let n = (of_char c :: nat) in if 65 \<le> n \<and> n \<le> 90 then char_of (n + 32) else c)"

fun fold_name :: "string \<Rightarrow> string" where
  "fold_name [] = []"
| "fold_name (c # cs) =
     (if c = CHR 0xC5 \<and> take 1 cs = [CHR 0xBF] then CHR ''s'' # fold_name (drop 1 cs)
      else if c = CHR 0xE2 \<and> take 2 cs = [CHR 0x84, CHR 0xAA] then CHR ''k'' # fold_name (drop 2 cs)
      else lower c # fold_name cs)"

definition EqualFold :: "string \<Rightarrow> string \<Rightarrow> bool" where
  "EqualFold s t \<longleftrightarrow> fold_name s = fold_name t"

subsection \<open>Reading values\<close>

definition type_error :: error where
  "type_error = Errorf ''json: cannot unmarshal %s into Go value of type %s''"

definition json_string :: "json \<Rightarrow> string result" where
  "json_string v = (case v of JStr s \<Rightarrow> Inr s | JNull \<Rightarrow> Inr [] | _ \<Rightarrow> Inl type_error)"

definition json_bool :: "json \<Rightarrow> bool result" where
  "json_bool v = (case v of JBool b \<Rightarrow> Inr b | JNull \<Rightarrow> Inr False | _ \<Rightarrow> Inl type_error)"

definition json_int :: "json \<Rightarrow> int result" where
  "json_int v = (case v of JNum n \<Rightarrow> if in_int64 n then Inr n else Inl type_error | JNull \<Rightarrow> Inr 0 | _ \<Rightarrow> Inl type_error)"

definition json_uint64 :: "json \<Rightarrow> nat result" where
  "json_uint64 v = (case v of
     JNum n \<Rightarrow> if 0 \<le> n \<and> n \<le> 18446744073709551615 then Inr (nat n) else Inl type_error
   | JNull \<Rightarrow> Inr 0 | _ \<Rightarrow> Inl type_error)"

definition json_list :: "(json \<Rightarrow> 'a result) \<Rightarrow> json \<Rightarrow> 'a list result" where
  "json_list f v = (case v of JArr l \<Rightarrow> seqE (map f l) | JNull \<Rightarrow> Inr [] | _ \<Rightarrow> Inl type_error)"

text \<open>A Go map: of two members with one name the last one counts.\<close>

fun json_pairs :: "(string \<times> json) list \<Rightarrow> props result" where
  "json_pairs [] = Inr []"
| "json_pairs ((k, v) # r) =
     bindE (json_string v) (\<lambda>s. bindE (json_pairs r) (\<lambda>m.
       Inr (if k \<in> fst ` set m then m else (k, s) # m)))"

definition json_map :: "json \<Rightarrow> props result" where
  "json_map v = (case v of JObj m \<Rightarrow> json_pairs m | JNull \<Rightarrow> Inr [] | _ \<Rightarrow> Inl type_error)"

definition member :: "string \<Rightarrow> (string \<times> json) list \<Rightarrow> json" where
  "member n m = (case find (\<lambda>(k, v). EqualFold k n) (rev m) of Some (k, v) \<Rightarrow> v | None \<Rightarrow> JNull)"

definition json_struct :: "((string \<times> json) list \<Rightarrow> 'a result) \<Rightarrow> json \<Rightarrow> 'a result" where
  "json_struct f v = (case v of JObj m \<Rightarrow> f m | JNull \<Rightarrow> f [] | _ \<Rightarrow> Inl type_error)"

definition str_field :: "string \<Rightarrow> (string \<times> json) list \<Rightarrow> string result" where
  "str_field n m = json_string (member n m)"

definition bool_field :: "string \<Rightarrow> (string \<times> json) list \<Rightarrow> bool result" where
  "bool_field n m = json_bool (member n m)"

subsection \<open>Reading bodies\<close>

text \<open>\<open>io.ReadAll(io.LimitReader(r, n))\<close>.\<close>

fun limit_read :: "int \<Rightarrow> string \<Rightarrow> string" where
  "limit_read n [] = []"
| "limit_read n (c # cs) = (if n \<le> 0 then [] else c # limit_read (n - 1) cs)"

subsection \<open>Lemmas\<close>

lemma json_simps [simp]:
  "json_string (JStr s) = Inr s" "json_string JNull = Inr []"
  "json_bool (JBool b) = Inr b" "json_bool JNull = Inr False"
  "json_int (JNum n) = (if in_int64 n then Inr n else Inl type_error)"
  "json_struct f (JObj m) = f m"
  by (simp_all add: json_string_def json_bool_def json_int_def json_struct_def)

end
