(* ===== verification/Auth.thy ===== *)
theory Auth
  imports GoJson GoTime TpmWire "HOL-Library.AList"
begin

text \<open>
  \<^verbatim>\<open>internal/auth\<close>: the bearer-token middleware, the verification of a token, the cache of the realm's
  signing keys and the role map of the HTTP API.

  The JWT library is a parameter, as are the identity provider behind the HTTP client, the JSON
  decoder and the clock; base64url decoding and \<open>ecdsa.ParseUncompressedPublicKey\<close> of the standard
  library are modelled. A handler is a function of the request and the state of the server.
\<close>

subsection \<open>Permissions and roles (rbac.go)\<close>

datatype Permission =
    PermStorageRead | PermStorageWrite | PermNetworkRead | PermNetworkWrite
  | PermSystemRead | PermSystemWrite | PermSystemAdmin | PermAuditRead
  | PermSchedulerRead | PermSchedulerWrite | PermKrb5Read | PermKrb5Write
  | PermNotificationsRead | PermNotificationsWrite
  | PermNotificationsEventsRead | PermNotificationsEventsWrite
  | PermPoolEncryptionRead | PermPoolEncryptionWrite | PermPoolEncryptionRecover
  | PermReplicationRead | PermReplicationWrite | PermScrubRead | PermScrubWrite
  | PermAlertsRead | PermAlertsWrite | PermLogsRead | PermSessionsRead | PermSessionsAdmin
  | PermVMRead | PermVMWrite | PermWorkloadsRead | PermWorkloadsWrite
  | PermPluginsRead | PermPluginsWrite | PermPluginsAdmin
  | PermMarketplacesRead | PermMarketplacesAdmin

text \<open>The strings of the constants, as route declarations and error messages show them.\<close>

fun perm_string :: "Permission \<Rightarrow> string" where
  "perm_string PermStorageRead = ''nova:storage:read''"
| "perm_string PermStorageWrite = ''nova:storage:write''"
| "perm_string PermNetworkRead = ''nova:network:read''"
| "perm_string PermNetworkWrite = ''nova:network:write''"
| "perm_string PermSystemRead = ''nova:system:read''"
| "perm_string PermSystemWrite = ''nova:system:write''"
| "perm_string PermSystemAdmin = ''nova:system:admin''"
| "perm_string PermAuditRead = ''nova:audit:read''"
| "perm_string PermSchedulerRead = ''nova:scheduler:read''"
| "perm_string PermSchedulerWrite = ''nova:scheduler:write''"
| "perm_string PermKrb5Read = ''nova:krb5:read''"
| "perm_string PermKrb5Write = ''nova:krb5:write''"
| "perm_string PermNotificationsRead = ''nova:notifications:read''"
| "perm_string PermNotificationsWrite = ''nova:notifications:write''"
| "perm_string PermNotificationsEventsRead = ''nova:notifications.events:read''"
| "perm_string PermNotificationsEventsWrite = ''nova:notifications.events:write''"
| "perm_string PermPoolEncryptionRead = ''nova:encryption:read''"
| "perm_string PermPoolEncryptionWrite = ''nova:encryption:write''"
| "perm_string PermPoolEncryptionRecover = ''nova:encryption:recover''"
| "perm_string PermReplicationRead = ''nova:replication:read''"
| "perm_string PermReplicationWrite = ''nova:replication:write''"
| "perm_string PermScrubRead = ''nova:scrub:read''"
| "perm_string PermScrubWrite = ''nova:scrub:write''"
| "perm_string PermAlertsRead = ''nova:alerts:read''"
| "perm_string PermAlertsWrite = ''nova:alerts:write''"
| "perm_string PermLogsRead = ''nova:logs:read''"
| "perm_string PermSessionsRead = ''nova:sessions:read''"
| "perm_string PermSessionsAdmin = ''nova:sessions:admin''"
| "perm_string PermVMRead = ''nova:vm:read''"
| "perm_string PermVMWrite = ''nova:vm:write''"
| "perm_string PermWorkloadsRead = ''nova:workloads:read''"
| "perm_string PermWorkloadsWrite = ''nova:workloads:write''"
| "perm_string PermPluginsRead = ''nova:plugins:read''"
| "perm_string PermPluginsWrite = ''nova:plugins:write''"
| "perm_string PermPluginsAdmin = ''nova:plugins:admin''"
| "perm_string PermMarketplacesRead = ''nova:marketplaces:read''"
| "perm_string PermMarketplacesAdmin = ''nova:marketplaces:admin''"

type_synonym RoleMap = "(string \<times> Permission list) list"

definition DefaultRoleMap :: RoleMap where
  "DefaultRoleMap =
    [(''nova-admin'',
      [PermStorageRead, PermStorageWrite, PermNetworkRead, PermNetworkWrite,
       PermSystemRead, PermSystemWrite, PermSystemAdmin, PermAuditRead,
       PermSchedulerRead, PermSchedulerWrite, PermKrb5Read, PermKrb5Write,
       PermNotificationsRead, PermNotificationsWrite,
       PermNotificationsEventsRead, PermNotificationsEventsWrite,
       PermPoolEncryptionRead, PermPoolEncryptionWrite, PermPoolEncryptionRecover,
       PermReplicationRead, PermReplicationWrite, PermScrubRead, PermScrubWrite,
       PermAlertsRead, PermAlertsWrite, PermLogsRead, PermSessionsRead, PermSessionsAdmin,
       PermVMRead, PermVMWrite, PermWorkloadsRead, PermWorkloadsWrite,
       PermPluginsRead, PermPluginsWrite, PermPluginsAdmin,
       PermMarketplacesRead, PermMarketplacesAdmin]),
     (''nova-operator'',
      [PermStorageRead, PermStorageWrite, PermNetworkRead, PermSystemRead, PermAuditRead,
       PermSchedulerRead, PermSchedulerWrite, PermNotificationsRead,
       PermNotificationsEventsRead, PermNotificationsEventsWrite,
       PermPoolEncryptionRead, PermPoolEncryptionWrite,
       PermReplicationRead, PermReplicationWrite, PermScrubRead, PermScrubWrite,
       PermAlertsRead, PermAlertsWrite, PermLogsRead, PermSessionsRead,
       PermVMRead, PermVMWrite, PermWorkloadsRead, PermWorkloadsWrite,
       PermPluginsRead, PermMarketplacesRead]),
     (''nova-viewer'',
      [PermStorageRead, PermNetworkRead, PermSystemRead, PermSchedulerRead,
       PermReplicationRead, PermScrubRead, PermAlertsRead, PermSessionsRead, PermVMRead,
       PermWorkloadsRead, PermPluginsRead, PermMarketplacesRead,
       PermNotificationsEventsRead, PermNotificationsEventsWrite]),
     (''nova-system-admin'',
      [PermStorageRead, PermNetworkRead, PermNetworkWrite,
       PermSystemRead, PermSystemWrite, PermSystemAdmin])]"

record Identity =
  Subject :: string
  PreferredName :: string
  Email :: string
  Realm :: string
  Roles :: "string list"
  Scopes :: "string list"
  ExpiresAt :: time

text \<open>A nil map and a nil identity are \<^const>\<open>None\<close>.\<close>

definition IdentityHasPermission :: "RoleMap option \<Rightarrow> Identity option \<Rightarrow> Permission \<Rightarrow> bool" where
  "IdentityHasPermission roleMap identity p =
     (case (identity, roleMap) of
        (Some i, Some rm) \<Rightarrow>
          list_ex (\<lambda>role. case map_of rm role of
                     None \<Rightarrow> False
                   | Some perms \<Rightarrow> list_ex (\<lambda>granted. granted = p) perms) (Roles i)
      | _ \<Rightarrow> False)"

subsection \<open>Configuration (config.go)\<close>

record Config =
  IssuerURL :: string
  Audience :: string
  RequiredRolePrefix :: string
  ResourceClient :: string
  SkipVerify :: bool
  JWKSCacheTTL :: duration
  ClockSkew :: duration

definition withDefaults :: "Config \<Rightarrow> Config" where
  "withDefaults c =
     c\<lparr>JWKSCacheTTL := (if JWKSCacheTTL c \<le> 0 then Hour else JWKSCacheTTL c),
       ClockSkew := (if ClockSkew c \<le> 0 then 30 * Second else ClockSkew c)\<rparr>"


subsection \<open>base64url without padding\<close>

text \<open>\<open>base64.RawURLEncoding.DecodeString\<close>: carriage returns and line feeds are skipped, every other
  character must be of the alphabet, and a last group of one character is an error.\<close>

definition b64url_val :: "char \<Rightarrow> int option" where
  "b64url_val c =
     (let n = int (of_char c :: nat) in
      if 65 \<le> n \<and> n \<le> 90 then Some (n - 65)
      else if 97 \<le> n \<and> n \<le> 122 then Some (n - 71)
      else if 48 \<le> n \<and> n \<le> 57 then Some (n + 4)
      else if n = 45 then Some 62 else if n = 95 then Some 63 else None)"

fun b64_groups :: "int list \<Rightarrow> byte list option" where
  "b64_groups (a # b # c # d # r) =
     map_option (\<lambda>t. word_of_int (a * 4 + b div 16) # word_of_int (b mod 16 * 16 + c div 4)
                     # word_of_int (c mod 4 * 64 + d) # t) (b64_groups r)"
| "b64_groups [a, b, c] =
     Some [word_of_int (a * 4 + b div 16), word_of_int (b mod 16 * 16 + c div 4)]"
| "b64_groups [a, b] = Some [word_of_int (a * 4 + b div 16)]"
| "b64_groups [a] = None"
| "b64_groups [] = Some []"

definition CorruptInputError :: error where
  "CorruptInputError = Errorf ''illegal base64 data at input byte %d''"

definition RawURLDecode :: "string \<Rightarrow> byte list result" where
  "RawURLDecode s =
     (let cs = filter (\<lambda>c. c \<noteq> CHR 0x0D \<and> c \<noteq> CHR 0x0A) s in
      case those (map b64url_val cs) of
        None \<Rightarrow> Inl CorruptInputError
      | Some vs \<Rightarrow> (case b64_groups vs of None \<Rightarrow> Inl CorruptInputError | Some b \<Rightarrow> Inr b))"

text \<open>\<open>new(big.Int).SetBytes\<close>: the big-endian value.\<close>

definition SetBytes :: "byte list \<Rightarrow> int" where
  "SetBytes bs = foldl (\<lambda>a b. a * 256 + uint b) 0 bs"

subsection \<open>Keys (jwks.go)\<close>

record jwk =
  Kty :: string
  Kid :: string
  Alg :: string
  Use :: string
  jwkN :: string
  jwkE :: string
  Crv :: string
  jwkX :: string
  jwkY :: string

datatype curve = P256 | P384 | P521

datatype pubkey = RSAKey int int | ECKey curve int int

text \<open>The NIST curves \<open>y^2 = x^3 - 3x + b\<close> over the field of \<open>p\<close> elements: the length of a coordinate in
  bytes, \<open>p\<close> and \<open>b\<close>.\<close>

fun coord_len :: "curve \<Rightarrow> nat" where
  "coord_len P256 = 32" | "coord_len P384 = 48" | "coord_len P521 = 66"

fun curve_p :: "curve \<Rightarrow> int" where
  "curve_p P256 = 2 ^ 256 - 2 ^ 224 + 2 ^ 192 + 2 ^ 96 - 1"
| "curve_p P384 = 2 ^ 384 - 2 ^ 128 - 2 ^ 96 + 2 ^ 32 - 1"
| "curve_p P521 = 2 ^ 521 - 1"

fun curve_b :: "curve \<Rightarrow> int" where
  "curve_b P256 = 0x5ac635d8aa3a93e7b3ebbd55769886bc651d06b0cc53b0f63bce3c3e27d2604b"
| "curve_b P384 = 0xb3312fa7e23ee7e4988e056be3f82d19181d9c6efe8141120314088f5013875ac656398d8a2ed19d2a85c8edd3ec2aef"
| "curve_b P521 = 0x0051953eb9618e1c9a1f929a21a0b68540eea2da725b99b315f3b8b489918ef109e156193951ec7e937b1652c0bd3bb1bf073573df883d2c34f1ef451fd46b503f00"

text \<open>\<open>ecdsa.ParseUncompressedPublicKey\<close>: the octet 4, then both coordinates at full length, reduced
  and on the curve.\<close>

definition ParseUncompressedPublicKey :: "curve \<Rightarrow> byte list \<Rightarrow> pubkey result" where
  "ParseUncompressedPublicKey cu data =
     (if data = [] \<or> hd data \<noteq> 4 then Inl (Errorf ''ecdsa: invalid uncompressed public key'')
      else if length data \<noteq> 1 + 2 * coord_len cu then Inl (Errorf ''invalid point encoding'')
      else let x = SetBytes (take (coord_len cu) (tl data)); y = SetBytes (drop (coord_len cu) (tl data));
               p = curve_p cu
           in if x \<ge> p \<or> y \<ge> p \<or> (y * y) mod p \<noteq> (x * x * x - 3 * x + curve_b cu) mod p
              then Inl (Errorf ''point not on curve'') else Inr (ECKey cu x y))"

text \<open>\<open>e = e<<8 | int(b)\<close> on a 64-bit \<open>int\<close>; the low eight bits of the shifted value are zero.\<close>

definition exponent_of :: "byte list \<Rightarrow> int" where
  "exponent_of bs = foldl (\<lambda>e b. wrap64 (e * 256) + uint b) 0 bs"

definition curve_of :: "string \<Rightarrow> curve option" where
  "curve_of crv =
     (if crv = ''P-256'' then Some P256 else if crv = ''P-384'' then Some P384
      else if crv = ''P-521'' then Some P521 else None)"

definition parseJWK :: "jwk \<Rightarrow> pubkey result" where
  "parseJWK k =
     (if Kty k = ''RSA'' then
        if jwkN k = [] \<or> jwkE k = [] then Inl (Errorf ''rsa jwk missing n/e'')
        else bindE (RawURLDecode (jwkN k)) (\<lambda>nB.
             bindE (RawURLDecode (jwkE k)) (\<lambda>eB.
             let e = exponent_of eB
             in if e = 0 then Inl (Errorf ''rsa jwk: zero exponent'') else Inr (RSAKey (SetBytes nB) e)))
      else if Kty k = ''EC'' then
        (case curve_of (Crv k) of
           None \<Rightarrow> Inl (Errorf ''ec jwk: unsupported crv %q'')
         | Some cu \<Rightarrow>
             bindE (RawURLDecode (jwkX k)) (\<lambda>xB.
             bindE (RawURLDecode (jwkY k)) (\<lambda>yB.
             wrapE ''ec jwk: parse public key: %w'' (ParseUncompressedPublicKey cu (xB @ yB)))))
      else Inl (Errorf ''unsupported kty %q''))"

subsection \<open>The key cache (jwks.go)\<close>

text \<open>A GET request: the request may be refused (\<open>http.NewRequestWithContext\<close>), fail on the way
  (\<open>httpc.Do\<close>), or return a status and a body, whose reading may fail.\<close>

datatype http_outcome = RequestErr error | DoErr error | Response int string "error option"

record oidcDiscovery =
  JWKSURI :: string
  Issuer :: string

text \<open>What the package takes from outside: the clock, the HTTP client and the JSON decoder.\<close>

record 'w env =
  time_Now :: "'w \<Rightarrow> time \<times> 'w"
  http_Get :: "string \<Rightarrow> 'w \<Rightarrow> http_outcome \<times> 'w"
  json_discovery :: "string \<Rightarrow> oidcDiscovery result"
  json_jwks :: "string \<Rightarrow> jwk list result"

record jwksCache =
  cIssuer :: string
  cTtl :: duration
  cURI :: string
  cKeys :: "(string \<times> pubkey) list option"
  cLoadedAt :: time
  cLastForce :: time

definition newJWKSCache :: "string \<Rightarrow> duration \<Rightarrow> jwksCache" where
  "newJWKSCache issuer ttl =
     \<lparr>cIssuer = issuer, cTtl = ttl, cURI = [], cKeys = None, cLoadedAt = 0, cLastForce = 0\<rparr>"

text \<open>The part both requests share: status, then the body up to a limit.\<close>

definition http_body :: "string \<Rightarrow> int \<Rightarrow> http_outcome \<Rightarrow> string result" where
  "http_body what limit o1 =
     (case o1 of
        RequestErr e \<Rightarrow> Inl e
      | DoErr e \<Rightarrow> Inl (Wrapf (what @ '': %w'') e)
      | Response st body rerr \<Rightarrow>
          if st \<noteq> 200 then Inl (Errorf (what @ '': status %d''))
          else (case rerr of Some e \<Rightarrow> Inl e | None \<Rightarrow> Inr (limit_read limit body)))"

definition discoverJWKSURI :: "'w env \<Rightarrow> jwksCache \<Rightarrow> 'w \<Rightarrow> string result \<times> 'w" where
  "discoverJWKSURI E c w =
     (let (o1, w1) = http_Get E (TrimRightByte (cIssuer c) (CHR ''/'') @ ''/.well-known/openid-configuration'') w
      in (bindE (http_body ''auth: oidc discovery'' 1048576 o1) (\<lambda>body.
          bindE (wrapE ''auth: oidc discovery: %w'' (json_discovery E body)) (\<lambda>d.
          if JWKSURI d = [] then Inl (Errorf ''auth: oidc discovery: missing jwks_uri'')
          else Inr (JWKSURI d))), w1))"

fun collect_keys :: "jwk list \<Rightarrow> (string \<times> pubkey) list \<Rightarrow> (string \<times> pubkey) list" where
  "collect_keys [] out = out"
| "collect_keys (k # ks) out =
     (case parseJWK k of
        Inl e \<Rightarrow> collect_keys ks out
      | Inr pub \<Rightarrow> if Kid k = [] then collect_keys ks out
                   else collect_keys ks (AList.update (Kid k) pub out))"

definition fetchJWKS :: "'w env \<Rightarrow> string \<Rightarrow> 'w \<Rightarrow> (string \<times> pubkey) list result \<times> 'w" where
  "fetchJWKS E uri w =
     (let (o1, w1) = http_Get E uri w
      in (bindE (http_body ''auth: jwks fetch'' 4194304 o1) (\<lambda>body.
          bindE (wrapE ''auth: jwks parse: %w'' (json_jwks E body)) (\<lambda>doc.
          let out = collect_keys doc []
          in if out = [] then Inl (Errorf ''auth: jwks: no usable keys'') else Inr out)), w1))"

text \<open>The cache as a state beside the world. On an error it keeps its keys.\<close>

definition refresh :: "'w env \<Rightarrow> jwksCache \<times> 'w \<Rightarrow> error option \<times> jwksCache \<times> 'w" where
  "refresh E s =
     (let (c, w) = s;
          (t, w1) = time_Now E w;
          c1 = c\<lparr>cLastForce := t\<rparr>;
          (ru, w2) = (if cURI c1 = [] then discoverJWKSURI E c1 w1 else (Inr (cURI c1), w1))
      in case ru of
           Inl e \<Rightarrow> (Some e, c1, w2)
         | Inr uri \<Rightarrow>
             (let (rk, w3) = fetchJWKS E uri w2
              in case rk of
                   Inl e \<Rightarrow> (Some e, c1, w3)
                 | Inr keys \<Rightarrow>
                     (let (t', w4) = time_Now E w3
                      in (None, c1\<lparr>cURI := uri, cKeys := Some keys, cLoadedAt := t'\<rparr>, w4))))"

definition lookup_kid :: "jwksCache \<Rightarrow> string \<Rightarrow> pubkey option" where
  "lookup_kid c kid = (case cKeys c of None \<Rightarrow> None | Some ks \<Rightarrow> map_of ks kid)"

definition refresh_lookup :: "'w env \<Rightarrow> string \<Rightarrow> jwksCache \<times> 'w \<Rightarrow> pubkey result \<times> jwksCache \<times> 'w" where
  "refresh_lookup E kid s =
     (let (err, s1) = refresh E s
      in case err of
           Some e \<Rightarrow> (Inl e, s1)
         | None \<Rightarrow> (case lookup_kid (fst s1) kid of
                      Some k \<Rightarrow> (Inr k, s1)
                    | None \<Rightarrow> (Inl (Errorf ''auth: no JWK with kid %q''), s1)))"

text \<open>The clock is read only when there are keys (\<open>||\<close> is lazy).\<close>

definition keyForKID :: "'w env \<Rightarrow> string \<Rightarrow> jwksCache \<times> 'w \<Rightarrow> pubkey result \<times> jwksCache \<times> 'w" where
  "keyForKID E kid s =
     (let (c, w) = s
      in if cKeys c = None then refresh_lookup E kid s
         else let (t, w1) = time_Now E w
              in if Sub t (cLoadedAt c) > cTtl c then refresh_lookup E kid (c, w1)
                 else (case lookup_kid c kid of
                         Some k \<Rightarrow> (Inr k, c, w1)
                       | None \<Rightarrow> refresh_lookup E kid (c, w1)))"


subsection \<open>Tokens and claims (verifier.go)\<close>

text \<open>Claims as decoded from JSON into \<open>any\<close>.\<close>

type_synonym claims = "(string \<times> json) list"

text \<open>Type assertions; a missing key is a nil interface and fails each of them.\<close>

definition as_str :: "json option \<Rightarrow> string option" where
  "as_str v = (case v of Some (JStr s) \<Rightarrow> Some s | _ \<Rightarrow> None)"

definition as_arr :: "json option \<Rightarrow> json list option" where
  "as_arr v = (case v of Some (JArr l) \<Rightarrow> Some l | _ \<Rightarrow> None)"

definition as_obj :: "json option \<Rightarrow> (string \<times> json) list option" where
  "as_obj v = (case v of Some (JObj m) \<Rightarrow> Some m | _ \<Rightarrow> None)"

datatype signing_method =
  SigningMethodRSA | SigningMethodRSAPSS | SigningMethodECDSA | SigningMethodHMAC
  | SigningMethodEd25519 | SigningMethodNone

record token =
  tMethod :: signing_method
  tHeader :: claims
  tClaims :: claims
  tValid :: bool

record parser_opts =
  optIssuer :: string
  optLeeway :: duration
  optExpRequired :: bool

text \<open>The JWT library: \<open>ParseWithClaims\<close> of a parser with the given options, which calls the key
  function on the state \<open>'s\<close> of the caller, and \<open>MapClaims.GetExpirationTime\<close>.\<close>

record 's jwt_lib =
  ParseWithClaims :: "parser_opts \<Rightarrow> string \<Rightarrow> (token \<Rightarrow> 's \<Rightarrow> pubkey result \<times> 's) \<Rightarrow> 's \<Rightarrow> token result \<times> 's"
  GetExpirationTime :: "claims \<Rightarrow> time option result"

text \<open>The state of a verifier: its key cache, the throttle of the warnings of \<open>dev.go\<close> with the
  instants at which one was logged, and the world.\<close>

record 'w vstate =
  keyset :: jwksCache
  devWarnLast :: int
  devWarnings :: "time list"
  world :: 'w

definition NewVerifier :: "Config \<Rightarrow> 'w \<Rightarrow> (Config \<times> 'w vstate) result" where
  "NewVerifier cfg0 w =
     (let cfg = withDefaults cfg0 in
      if \<not> SkipVerify cfg \<and> IssuerURL cfg = [] then Inl (Errorf ''auth: IssuerURL is required'')
      else if \<not> SkipVerify cfg \<and> Audience cfg = [] then Inl (Errorf ''auth: Audience is required'')
      else Inr (cfg, \<lparr>keyset = newJWKSCache (IssuerURL cfg) (JWKSCacheTTL cfg),
                      devWarnLast = 0, devWarnings = [], world = w\<rparr>))"

definition on_keyset :: "(jwksCache \<times> 'w \<Rightarrow> 'a \<times> jwksCache \<times> 'w) \<Rightarrow> 'w vstate \<Rightarrow> 'a \<times> 'w vstate" where
  "on_keyset f s = (let (r, c, w) = f (keyset s, world s) in (r, s\<lparr>keyset := c, world := w\<rparr>))"

text \<open>The function passed to the parser.\<close>

definition keyfunc :: "'w env \<Rightarrow> token \<Rightarrow> 'w vstate \<Rightarrow> pubkey result \<times> 'w vstate" where
  "keyfunc E t s =
     (if tMethod t \<notin> {SigningMethodRSA, SigningMethodRSAPSS, SigningMethodECDSA}
      then (Inl (Errorf ''auth: unexpected signing method %v''), s)
      else case as_str (map_of (tHeader t) ''kid'') of
             None \<Rightarrow> (Inl (Errorf ''auth: token missing kid''), s)
           | Some kid \<Rightarrow> if kid = [] then (Inl (Errorf ''auth: token missing kid''), s)
                         else on_keyset (keyForKID E kid) s)"

text \<open>\<open>[]string\<close> does not occur in claims that were decoded from JSON.\<close>

definition checkAudience :: "claims \<Rightarrow> string \<Rightarrow> error option" where
  "checkAudience cl want =
     (case map_of cl ''aud'' of
        None \<Rightarrow> Some (Errorf ''auth: aud claim missing'')
      | Some raw \<Rightarrow>
          if (case raw of JStr a \<Rightarrow> a = want | JArr l \<Rightarrow> list_ex (\<lambda>v. v = JStr want) l | _ \<Rightarrow> False)
          then None else Some (Errorf ''auth: aud %v does not contain %q''))"

fun appendRoles_loop :: "string list \<Rightarrow> json list \<Rightarrow> string list" where
  "appendRoles_loop out [] = out"
| "appendRoles_loop out (v # vs) =
     (case v of JStr s \<Rightarrow> appendRoles_loop (if s \<noteq> [] then out @ [s] else out) vs
      | _ \<Rightarrow> appendRoles_loop out vs)"

definition appendRoles :: "string list \<Rightarrow> json option \<Rightarrow> string list" where
  "appendRoles out raw = (case as_arr raw of None \<Rightarrow> out | Some arr \<Rightarrow> appendRoles_loop out arr)"

definition str_claim :: "claims \<Rightarrow> string \<Rightarrow> string" where
  "str_claim cl key = (case as_str (map_of cl key) of Some s \<Rightarrow> s | None \<Rightarrow> [])"

definition realm_of :: "string \<Rightarrow> string" where
  "realm_of s = (case LastIndexByte s (CHR ''/'') of
     Some i \<Rightarrow> if i < length s - 1 then drop (i + 1) s else s
   | None \<Rightarrow> s)"

definition token_roles :: "claims \<Rightarrow> Config \<Rightarrow> string list" where
  "token_roles cl cfg =
     (let r1 = (case as_obj (map_of cl ''realm_access'') of
                  Some ra \<Rightarrow> appendRoles [] (map_of ra ''roles'') | None \<Rightarrow> []);
          r2 = (if ResourceClient cfg = [] then r1
                else case as_obj (map_of cl ''resource_access'') of
                       None \<Rightarrow> r1
                     | Some res \<Rightarrow> (case as_obj (map_of res (ResourceClient cfg)) of
                                      None \<Rightarrow> r1
                                    | Some c \<Rightarrow> appendRoles r1 (map_of c ''roles'')))
      in if RequiredRolePrefix cfg = [] then r2
         else filter (\<lambda>r. HasPrefix r (RequiredRolePrefix cfg)) r2)"

text \<open>The zero time stands for an identity without expiry.\<close>

definition projectIdentity :: "'s jwt_lib \<Rightarrow> claims \<Rightarrow> Config \<Rightarrow> Identity" where
  "projectIdentity L cl cfg =
     \<lparr>Subject = str_claim cl ''sub'',
      PreferredName = str_claim cl ''preferred_username'',
      Email = str_claim cl ''email'',
      Realm = (case as_str (map_of cl ''iss'') of Some s \<Rightarrow> realm_of s | None \<Rightarrow> []),
      Roles = token_roles cl cfg,
      Scopes = (case as_str (map_of cl ''scope'') of Some s \<Rightarrow> if s \<noteq> [] then Fields s else [] | None \<Rightarrow> []),
      ExpiresAt = (case GetExpirationTime L cl of Inr (Some t) \<Rightarrow> t | _ \<Rightarrow> 0)\<rparr>"

subsection \<open>Development mode (dev.go)\<close>

definition unix_epoch :: time where
  "unix_epoch = 62135596800 * Second"

definition devWarnInterval :: duration where
  "devWarnInterval = Minute"

definition warnSkipVerify :: "'w env \<Rightarrow> 'w vstate \<Rightarrow> 'w vstate" where
  "warnSkipVerify E s =
     (let (t, w) = time_Now E (world s); now = wrap64 (t - unix_epoch); s1 = s\<lparr>world := w\<rparr>
      in if devWarnLast s \<noteq> 0 \<and> wrap64 (now - devWarnLast s) < devWarnInterval then s1
         else s1\<lparr>devWarnLast := now, devWarnings := devWarnings s @ [t]\<rparr>)"

definition syntheticDevIdentity :: "time \<Rightarrow> Identity" where
  "syntheticDevIdentity now =
     \<lparr>Subject = ''dev-skip-verify'', PreferredName = ''dev'', Email = ''dev@localhost'', Realm = ''dev'',
      Roles = [''nova-admin''], Scopes = [''openid''], ExpiresAt = now + Hour\<rparr>"

subsection \<open>Verification (verifier.go)\<close>

definition Verify :: "'w env \<Rightarrow> ('w vstate) jwt_lib \<Rightarrow> Config \<Rightarrow> string \<Rightarrow> 'w vstate \<Rightarrow> Identity result \<times> 'w vstate" where
  "Verify E L cfg raw s =
     (if SkipVerify cfg then
        let s1 = warnSkipVerify E s; (t, w) = time_Now E (world s1)
        in (Inr (syntheticDevIdentity t), s1\<lparr>world := w\<rparr>)
      else
        let (r, s1) = ParseWithClaims L
              \<lparr>optIssuer = IssuerURL cfg, optLeeway = ClockSkew cfg, optExpRequired = True\<rparr>
              raw (keyfunc E) s
        in (case r of
              Inl e \<Rightarrow> Inl (Wrapf ''auth: %w'' e)
            | Inr tok \<Rightarrow>
                if \<not> tValid tok then Inl (Errorf ''auth: invalid token'')
                else check (checkAudience (tClaims tok) (Audience cfg))
                       (Inr (projectIdentity L (tClaims tok) cfg)), s1))"

subsection \<open>Middleware (middleware.go)\<close>

record request =
  rqPath :: string
  rqAuthorization :: string
  rqIdentity :: "Identity option"

record response =
  rsStatus :: int
  rsCode :: string
  rsMessage :: string

type_synonym 's handler = "request \<Rightarrow> 's \<Rightarrow> response \<times> 's"

definition writeErr :: "int \<Rightarrow> string \<Rightarrow> string \<Rightarrow> response" where
  "writeErr status code msg = \<lparr>rsStatus = status, rsCode = code, rsMessage = msg\<rparr>"

definition bearerToken :: "request \<Rightarrow> string option" where
  "bearerToken r =
     (let h = rqAuthorization r; pre = ''Bearer '' in
      if h = [] then None
      else if length h \<le> length pre \<or> \<not> EqualFold (take (length pre) h) pre then None
      else let tok = TrimSpace (drop (length pre) h) in if tok = [] then None else Some tok)"

definition Middleware ::
    "'w env \<Rightarrow> ('w vstate) jwt_lib \<Rightarrow> Config \<Rightarrow> string list \<Rightarrow> ('w vstate) handler \<Rightarrow> ('w vstate) handler" where
  "Middleware E L cfg publicPaths next r s =
     (if list_ex (\<lambda>p. p \<noteq> [] \<and> HasPrefix (rqPath r) p) publicPaths then next r s
      else case bearerToken r of
             None \<Rightarrow> (writeErr 401 ''unauthorized'' ''missing bearer token'', s)
           | Some raw \<Rightarrow>
               (let (v, s1) = Verify E L cfg raw s
                in case v of
                     Inl e \<Rightarrow> (writeErr 401 ''unauthorized'' ''invalid token'', s1)
                   | Inr i \<Rightarrow> next (r\<lparr>rqIdentity := Some i\<rparr>) s1))"

definition RequirePermission :: "RoleMap option \<Rightarrow> Permission \<Rightarrow> 's handler \<Rightarrow> 's handler" where
  "RequirePermission roleMap p next r s =
     (case rqIdentity r of
        None \<Rightarrow> (writeErr 401 ''unauthorized'' ''no identity in context'', s)
      | Some i \<Rightarrow>
          if \<not> IdentityHasPermission roleMap (Some i) p
          then (writeErr 403 ''forbidden'' (''missing permission '' @ perm_string p), s)
          else next r s)"


subsection \<open>What the library promises\<close>

text \<open>
  The documented behaviour of \<open>ParseWithClaims\<close>, over four functions of the library that the program
  does not see: the token a raw string spells (\<open>None\<close> when it is malformed), whether a key verifies its
  signature by a method, the time at which the claims are validated and whether the claims are already
  valid then. The parser calls the key function on the unverified token, and returns the token only
  when the signature verifies under the key and expiry, not-before and issuer are right.
\<close>

record 's jwt_spec =
  unverified :: "string \<Rightarrow> token option"
  verifies :: "signing_method \<Rightarrow> pubkey \<Rightarrow> string \<Rightarrow> bool"
  now_at :: "'s \<Rightarrow> time"
  not_before :: "claims \<Rightarrow> time \<Rightarrow> bool"

definition claims_valid :: "'s jwt_lib \<Rightarrow> 's jwt_spec \<Rightarrow> parser_opts \<Rightarrow> claims \<Rightarrow> 's \<Rightarrow> bool" where
  "claims_valid L J opts cl s \<longleftrightarrow>
     (case GetExpirationTime L cl of
        Inr (Some t) \<Rightarrow> now_at J s < t + optLeeway opts
      | Inr None \<Rightarrow> \<not> optExpRequired opts
      | Inl e \<Rightarrow> False) \<and>
     not_before J cl (now_at J s + optLeeway opts) \<and>
     (optIssuer opts = [] \<or> map_of cl ''iss'' = Some (JStr (optIssuer opts)))"

definition jwt_ok :: "'s jwt_lib \<Rightarrow> 's jwt_spec \<Rightarrow> bool" where
  "jwt_ok L J \<longleftrightarrow>
     (\<forall>opts raw kf s. case unverified J raw of
        None \<Rightarrow> (\<exists>e. ParseWithClaims L opts raw kf s = (Inl e, s))
      | Some tok \<Rightarrow>
          (case kf tok s of
             (Inl e, s') \<Rightarrow> (\<exists>e'. ParseWithClaims L opts raw kf s = (Inl e', s'))
           | (Inr key, s') \<Rightarrow>
               if verifies J (tMethod tok) key raw \<and> claims_valid L J opts (tClaims tok) s'
               then ParseWithClaims L opts raw kf s = (Inr (tok\<lparr>tValid := True\<rparr>), s')
               else (\<exists>e. ParseWithClaims L opts raw kf s = (Inl e, s'))))"

lemma jwt_ok_parse:
  assumes "jwt_ok L J"
  shows "(\<exists>tok key s'. unverified J raw = Some tok \<and> kf tok s = (Inr key, s') \<and> verifies J (tMethod tok) key raw
            \<and> claims_valid L J opts (tClaims tok) s'
            \<and> ParseWithClaims L opts raw kf s = (Inr (tok\<lparr>tValid := True\<rparr>), s'))
       \<or> (\<exists>e s'. ParseWithClaims L opts raw kf s = (Inl e, s')
            \<and> (\<forall>tok key t. unverified J raw = Some tok \<longrightarrow> kf tok s = (Inr key, t) \<longrightarrow>
                 \<not> (verifies J (tMethod tok) key raw \<and> claims_valid L J opts (tClaims tok) t)))"
  using assms[unfolded jwt_ok_def, rule_format, of opts raw kf s]
  by (cases "unverified J raw"; cases "kf (the (unverified J raw)) s"; cases "fst (kf (the (unverified J raw)) s)")
     (auto split: if_splits)

subsection \<open>The protected route\<close>

text \<open>A token that the configuration accepts in the state \<open>s\<close>, leaving \<open>s'\<close>.\<close>

definition listed_audience :: "claims \<Rightarrow> string \<Rightarrow> bool" where
  "listed_audience cl want \<longleftrightarrow>
     map_of cl ''aud'' = Some (JStr want) \<or> (\<exists>l. map_of cl ''aud'' = Some (JArr l) \<and> JStr want \<in> set l)"

definition genuine ::
    "'w env \<Rightarrow> ('w vstate) jwt_lib \<Rightarrow> ('w vstate) jwt_spec \<Rightarrow> Config \<Rightarrow> string \<Rightarrow> token \<Rightarrow> 'w vstate \<Rightarrow> 'w vstate \<Rightarrow> bool" where
  "genuine E L J cfg raw tok s s' \<longleftrightarrow>
     unverified J raw = Some tok \<and>
     tMethod tok \<in> {SigningMethodRSA, SigningMethodRSAPSS, SigningMethodECDSA} \<and>
     (\<exists>kid key. map_of (tHeader tok) ''kid'' = Some (JStr kid) \<and> kid \<noteq> [] \<and>
        on_keyset (keyForKID E kid) s = (Inr key, s') \<and> verifies J (tMethod tok) key raw) \<and>
     claims_valid L J \<lparr>optIssuer = IssuerURL cfg, optLeeway = ClockSkew cfg, optExpRequired = True\<rparr> (tClaims tok) s' \<and>
     listed_audience (tClaims tok) (Audience cfg)"

lemma checkAudience_None: "checkAudience cl want = None \<longleftrightarrow> listed_audience cl want"
  by (auto simp: checkAudience_def listed_audience_def list_ex_iff split: option.splits json.splits)

lemma keyfunc_Inr:
  "keyfunc E t s = (Inr key, s') \<longleftrightarrow>
     tMethod t \<in> {SigningMethodRSA, SigningMethodRSAPSS, SigningMethodECDSA} \<and>
     (\<exists>kid. map_of (tHeader t) ''kid'' = Some (JStr kid) \<and> kid \<noteq> [] \<and> on_keyset (keyForKID E kid) s = (Inr key, s'))"
  by (auto simp: keyfunc_def as_str_def split: option.splits json.splits)

lemma Verify_exact:
  assumes jwt: "jwt_ok L J" and sv: "\<not> SkipVerify cfg"
  shows "(\<exists>tok s'. genuine E L J cfg raw tok s s' \<and> Verify E L cfg raw s = (Inr (projectIdentity L (tClaims tok) cfg), s'))
       \<or> (\<exists>e s'. Verify E L cfg raw s = (Inl e, s') \<and> (\<forall>tok t. \<not> genuine E L J cfg raw tok s t))"
proof -
  let ?o = "\<lparr>optIssuer = IssuerURL cfg, optLeeway = ClockSkew cfg, optExpRequired = True\<rparr>"
  from jwt_ok_parse[OF jwt, of raw "keyfunc E" s ?o] show ?thesis
  proof (elim disjE exE conjE)
    fix tok key s'
    assume u: "unverified J raw = Some tok" and k: "keyfunc E tok s = (Inr key, s')"
      and v: "verifies J (tMethod tok) key raw" and c: "claims_valid L J ?o (tClaims tok) s'"
      and p: "ParseWithClaims L ?o raw (keyfunc E) s = (Inr (tok\<lparr>tValid := True\<rparr>), s')"
    show ?thesis
    proof (cases "listed_audience (tClaims tok) (Audience cfg)")
      case True
      then have "genuine E L J cfg raw tok s s'"
        using u k v c unfolding genuine_def keyfunc_Inr by blast
      moreover have "Verify E L cfg raw s = (Inr (projectIdentity L (tClaims tok) cfg), s')"
        using sv p True by (simp add: Verify_def checkAudience_None[symmetric])
      ultimately show ?thesis by blast
    next
      case False
      then obtain e where "checkAudience (tClaims tok) (Audience cfg) = Some e"
        using checkAudience_None by (cases "checkAudience (tClaims tok) (Audience cfg)") auto
      then have "Verify E L cfg raw s = (Inl e, s')"
        using sv p by (simp add: Verify_def)
      then show ?thesis using False u by (auto simp: genuine_def)
    qed
  next
    fix e s'
    assume p: "ParseWithClaims L ?o raw (keyfunc E) s = (Inl e, s')"
      and n: "\<forall>tok key t. unverified J raw = Some tok \<longrightarrow> keyfunc E tok s = (Inr key, t) \<longrightarrow>
                 \<not> (verifies J (tMethod tok) key raw \<and> claims_valid L J ?o (tClaims tok) t)"
    have "\<not> genuine E L J cfg raw tok s t" for tok t
      using n unfolding genuine_def keyfunc_Inr by blast
    then show ?thesis using sv p by (simp add: Verify_def)
  qed
qed

definition grants :: "RoleMap \<Rightarrow> string list \<Rightarrow> Permission \<Rightarrow> bool" where
  "grants rm roles p \<longleftrightarrow> (\<exists>role perms. role \<in> set roles \<and> map_of rm role = Some perms \<and> p \<in> set perms)"

lemma IdentityHasPermission_grants:
  "IdentityHasPermission (Some rm) (Some i) p \<longleftrightarrow> grants rm (Roles i) p"
  by (force simp: IdentityHasPermission_def grants_def list_ex_iff split: option.splits)

text \<open>The requests that reach the handler behind both middlewares: the path is not public, and the
  bearer token is genuine and carries a role that grants the permission.\<close>

definition admitted ::
    "'w env \<Rightarrow> ('w vstate) jwt_lib \<Rightarrow> ('w vstate) jwt_spec \<Rightarrow> Config \<Rightarrow> RoleMap \<Rightarrow> Permission \<Rightarrow> string list
       \<Rightarrow> request \<Rightarrow> 'w vstate \<Rightarrow> token \<Rightarrow> 'w vstate \<Rightarrow> bool" where
  "admitted E L J cfg rm p publicPaths r s tok s' \<longleftrightarrow>
     (\<forall>pre. pre \<in> set publicPaths \<longrightarrow> pre \<noteq> [] \<longrightarrow> \<not> HasPrefix (rqPath r) pre) \<and>
     (\<exists>raw. bearerToken r = Some raw \<and> genuine E L J cfg raw tok s s') \<and>
     grants rm (token_roles (tClaims tok) cfg) p"

lemma Roles_project: "Roles (projectIdentity L cl cfg) = token_roles cl cfg"
  by (simp add: projectIdentity_def)

text \<open>
  C1. A route behind the middleware and a permission check calls its handler exactly for the requests
  with a genuine bearer token: one whose signature verifies under the key that the realm's key set has
  for its key id, by an asymmetric method, issued by the configured issuer, in its validity period, for
  the configured audience, and with a role that grants the permission. The handler then sees the
  identity of that token. Every other request is answered with 401 or 403 and never reaches it.
\<close>

theorem protected_route_exact:
  assumes "jwt_ok L J" and "NewVerifier cfg0 w0 = Inr (cfg, s0)" and "\<not> SkipVerify cfg0"
    and "rqIdentity r = None"
  shows "(\<exists>tok s'. admitted E L J cfg rm p publicPaths r s tok s' \<and>
            (\<forall>next. Middleware E L cfg publicPaths (RequirePermission (Some rm) p next) r s
                    = next (r\<lparr>rqIdentity := Some (projectIdentity L (tClaims tok) cfg)\<rparr>) s'))
       \<or> (\<forall>tok s'. \<not> admitted E L J cfg rm p publicPaths r s tok s') \<and>
         (\<exists>resp s'. (rsStatus resp = 401 \<or> rsStatus resp = 403) \<and>
            (\<forall>next. Middleware E L cfg publicPaths (RequirePermission (Some rm) p next) r s = (resp, s')))"
proof (cases "list_ex (\<lambda>p. p \<noteq> [] \<and> HasPrefix (rqPath r) p) publicPaths")
  case True
  then show ?thesis using assms(4)
    by (auto simp: admitted_def Middleware_def RequirePermission_def writeErr_def list_ex_iff)
next
  case pub: False
  have sv: "\<not> SkipVerify cfg"
    using assms(2,3) by (auto simp: NewVerifier_def Let_def withDefaults_def split: if_splits)
  show ?thesis
  proof (cases "bearerToken r")
    case None
    then show ?thesis using pub by (auto simp: admitted_def Middleware_def writeErr_def)
  next
    case (Some raw)
    from Verify_exact[OF assms(1) sv, of E raw s] show ?thesis
    proof (elim disjE exE conjE)
      fix tok s'
      assume g: "genuine E L J cfg raw tok s s'"
        and v: "Verify E L cfg raw s = (Inr (projectIdentity L (tClaims tok) cfg), s')"
      show ?thesis
      proof (cases "grants rm (token_roles (tClaims tok) cfg) p")
        case True
        then have "admitted E L J cfg rm p publicPaths r s tok s'"
          using pub g Some by (auto simp: admitted_def list_ex_iff)
        then show ?thesis using pub Some v True
          by (auto simp: Middleware_def RequirePermission_def IdentityHasPermission_grants Roles_project)
      next
        case False
        have "\<not> admitted E L J cfg rm p publicPaths r s tok' t" for tok' t
          using False g Some by (auto simp: admitted_def genuine_def)
        then show ?thesis using pub Some v False
          by (auto simp: Middleware_def RequirePermission_def IdentityHasPermission_grants Roles_project writeErr_def)
      qed
    next
      fix e s'
      assume "Verify E L cfg raw s = (Inl e, s')" and "\<forall>tok t. \<not> genuine E L J cfg raw tok s t"
      then show ?thesis using pub Some by (auto simp: admitted_def Middleware_def writeErr_def)
    qed
  qed
qed


text \<open>A realm with one RSA key and a library for it: the world is the time in nanoseconds.\<close>

definition demo_env :: "int env" where
  "demo_env =
     \<lparr>time_Now = (\<lambda>w. (w, w + 1)),
      http_Get = (\<lambda>url w. (Response 200 url None, w + 5)),
      json_discovery = (\<lambda>b. Inr \<lparr>JWKSURI = ''https://kc/certs'', Issuer = ''https://kc/realms/nova''\<rparr>),
      json_jwks = (\<lambda>b. Inr [\<lparr>Kty = ''RSA'', Kid = ''k1'', Alg = [], Use = [], jwkN = ''Aw'', jwkE = ''AQAB'',
                              Crv = [], jwkX = [], jwkY = []\<rparr>])\<rparr>"

definition demo_token :: token where
  "demo_token =
     \<lparr>tMethod = SigningMethodRSA, tHeader = [(''kid'', JStr ''k1'')],
      tClaims = [(''iss'', JStr ''https://kc/realms/nova''), (''aud'', JArr [JStr ''account'', JStr ''nova'']),
                 (''sub'', JStr ''u1''), (''exp'', JNum 1000),
                 (''realm_access'', JObj [(''roles'', JArr [JStr ''nova-viewer''])])],
      tValid = False\<rparr>"

definition demo_spec :: "(int vstate) jwt_spec" where
  "demo_spec =
     \<lparr>unverified = (\<lambda>raw. if raw = ''good'' then Some demo_token else None),
      verifies = (\<lambda>m k raw. k = RSAKey 3 65537), now_at = world, not_before = (\<lambda>cl t. True)\<rparr>"

definition demo_exp :: "claims \<Rightarrow> time option result" where
  "demo_exp cl = (case map_of cl ''exp'' of
     Some (JNum n) \<Rightarrow> Inr (Some (n * Second)) | None \<Rightarrow> Inr None | _ \<Rightarrow> Inl (Errorf ''invalid exp''))"

definition demo_lib :: "(int vstate) jwt_lib" where
  "demo_lib =
     (let L0 = \<lparr>ParseWithClaims = (\<lambda>opts raw kf s. (Inl (Errorf ''token is malformed''), s)), GetExpirationTime = demo_exp\<rparr>
      in L0\<lparr>ParseWithClaims := (\<lambda>opts raw kf s.
        case unverified demo_spec raw of
          None \<Rightarrow> (Inl (Errorf ''token is malformed''), s)
        | Some tok \<Rightarrow>
            (case kf tok s of
               (Inl e, s') \<Rightarrow> (Inl (Wrapf ''token is unverifiable: %w'' e), s')
             | (Inr key, s') \<Rightarrow>
                 if verifies demo_spec (tMethod tok) key raw \<and> claims_valid L0 demo_spec opts (tClaims tok) s'
                 then (Inr (tok\<lparr>tValid := True\<rparr>), s')
                 else (Inl (Errorf ''token has invalid claims''), s')))\<rparr>)"

lemma demo_jwt_ok: "jwt_ok demo_lib demo_spec"
  by (auto simp: jwt_ok_def demo_lib_def Let_def claims_valid_def split: option.splits sum.splits prod.splits)

definition demo_cfg :: Config where
  "demo_cfg = \<lparr>IssuerURL = ''https://kc/realms/nova'', Audience = ''nova'', RequiredRolePrefix = ''nova-'',
     ResourceClient = [], SkipVerify = False, JWKSCacheTTL = 0, ClockSkew = 0\<rparr>"

definition demo_state :: "int vstate" where
  "demo_state = snd (projr (NewVerifier demo_cfg (0::int)))"

definition demo_request :: "string \<Rightarrow> request" where
  "demo_request auth = \<lparr>rqPath = ''/api/v1/pools'', rqAuthorization = auth, rqIdentity = None\<rparr>"

definition demo_route :: "Permission \<Rightarrow> string \<Rightarrow> int \<times> string" where
  "demo_route p auth =
     (let resp = fst (Middleware demo_env demo_lib (withDefaults demo_cfg) [''/healthz'']
               (RequirePermission (Some DefaultRoleMap) p
                 (\<lambda>r s. (writeErr 200 ''ok'' (case rqIdentity r of Some i \<Rightarrow> Subject i | None \<Rightarrow> []), s)))
               (demo_request auth) demo_state)
      in (rsStatus resp, rsMessage resp))"

lemma demo_runs:
  "demo_route PermStorageRead ''bearer  good '' = (200, ''u1'')"
  "demo_route PermStorageWrite ''Bearer good'' = (403, ''missing permission nova:storage:write'')"
  "demo_route PermStorageRead ''Bearer bad'' = (401, ''invalid token'')"
  by code_simp+


theorem protected_route_exact_witness:
  "\<exists>tok s'. admitted demo_env demo_lib demo_spec (withDefaults demo_cfg) DefaultRoleMap PermStorageRead
      [''/healthz''] (demo_request ''bearer  good '') demo_state tok s'"
proof -
  have n: "NewVerifier demo_cfg 0 = Inr (withDefaults demo_cfg, demo_state)"
    by (simp add: demo_state_def demo_cfg_def NewVerifier_def withDefaults_def Let_def)
  let ?next = "\<lambda>r s. (writeErr 200 ''ok'' (case rqIdentity r of Some i \<Rightarrow> Subject i | None \<Rightarrow> []), s)"
  have "rsStatus (fst (Middleware demo_env demo_lib (withDefaults demo_cfg) [''/healthz'']
          (RequirePermission (Some DefaultRoleMap) PermStorageRead ?next) (demo_request ''bearer  good '') demo_state)) = 200"
    using demo_runs(1) by (simp add: demo_route_def Let_def)
  then show ?thesis
    using protected_route_exact[OF demo_jwt_ok n, of "demo_request ''bearer  good ''" demo_env DefaultRoleMap
        PermStorageRead "[''/healthz'']" demo_state]
    by (fastforce simp: demo_cfg_def demo_request_def)
qed

subsection \<open>Elliptic-curve keys\<close>

text \<open>A key of RFC 7518, section 6.2: a curve the package knows, and both coordinates as octet strings
  of the full length of a field element.\<close>

definition conformant_ec :: "jwk \<Rightarrow> bool" where
  "conformant_ec k \<longleftrightarrow> Kty k = ''EC'' \<and>
     (case curve_of (Crv k) of
        None \<Rightarrow> False
      | Some cu \<Rightarrow>
          (case (RawURLDecode (jwkX k), RawURLDecode (jwkY k)) of
             (Inr x, Inr y) \<Rightarrow> length x = coord_len cu \<and> length y = coord_len cu
           | _ \<Rightarrow> False))"

lemma parseJWK_ec: "conformant_ec k \<Longrightarrow> \<exists>e. parseJWK k = Inl e"
  by (auto simp: conformant_ec_def parseJWK_def ParseUncompressedPublicKey_def
      split: option.splits sum.splits)

lemma collect_keys_none: "list_all (\<lambda>k. \<exists>e. parseJWK k = Inl e) ks \<Longrightarrow> collect_keys ks out = out"
  by (induction ks) auto

lemma fetchJWKS_unusable:
  assumes "http_Get E uri w = (Response 200 body None, w')" and "json_jwks E (limit_read 4194304 body) = Inr doc"
    and "list_all conformant_ec doc"
  shows "fetchJWKS E uri w = (Inl (Errorf ''auth: jwks: no usable keys''), w')"
  using assms parseJWK_ec
  by (simp add: fetchJWKS_def http_body_def collect_keys_none list_all_iff)

text \<open>
  \<open>parseJWK\<close> passes the two coordinates of an elliptic-curve key to
  \<open>ecdsa.ParseUncompressedPublicKey\<close> without the octet 4 that starts an uncompressed point, so it
  rejects every well-formed EC key. In a realm that signs with ECDSA the key set never loads: a
  lookup fails and the cache stays as it was, although the token verifier accepts ECDSA methods.
\<close>

theorem ec_realm_never_loads:
  assumes "cKeys c = None" and "cURI c = uri" and "uri \<noteq> []"
    and "time_Now E w = (t, w1)" and "http_Get E uri w1 = (Response 200 body None, w2)"
    and "json_jwks E (limit_read 4194304 body) = Inr doc" and "list_all conformant_ec doc"
  shows "keyForKID E kid (c, w) = (Inl (Errorf ''auth: jwks: no usable keys''), c\<lparr>cLastForce := t\<rparr>, w2)"
  using assms fetchJWKS_unusable[OF assms(5-7)]
  by (simp add: keyForKID_def refresh_lookup_def refresh_def)

text \<open>The base point of P-256 as a key.\<close>

definition p256_jwk :: jwk where
  "p256_jwk = \<lparr>Kty = ''EC'', Kid = ''e1'', Alg = ''ES256'', Use = ''sig'', jwkN = [], jwkE = [], Crv = ''P-256'',
     jwkX = ''axfR8uEsQkf4vOblY6RA8ncDfYEt6zOg9KE5RdiYwpY'', jwkY = ''T-NC4v4af5uO5-tKfA-eFivOM1drMV7Oy7ZAaDe_UfU''\<rparr>"

lemma p256_jwk_conformant: "conformant_ec p256_jwk"
  by code_simp

text \<open>With the leading octet the same coordinates are accepted.\<close>

lemma p256_point_accepted:
  "ParseUncompressedPublicKey P256 (4 # projr (RawURLDecode (jwkX p256_jwk)) @ projr (RawURLDecode (jwkY p256_jwk)))
     = Inr (ECKey P256 0x6b17d1f2e12c4247f8bce6e563a440f277037d812deb33a0f4a13945d898c296
                       0x4fe342e2fe1a7f9b8ee7eb4a7c0f9e162bce33576b315ececbb6406837bf51f5)"
  by code_simp

definition ec_cache :: jwksCache where
  "ec_cache = (newJWKSCache ''https://kc'' Hour)\<lparr>cURI := ''https://kc/certs''\<rparr>"

definition ec_env :: "int env" where
  "ec_env = demo_env\<lparr>json_jwks := (\<lambda>b. Inr [p256_jwk])\<rparr>"

theorem ec_realm_never_loads_witness:
  "keyForKID ec_env ''e1'' (ec_cache, 7)
     = (Inl (Errorf ''auth: jwks: no usable keys''), ec_cache\<lparr>cLastForce := 7\<rparr>, 13)"
  by (rule ec_realm_never_loads[where uri = "''https://kc/certs''" and ?w1.0 = 8 and body = "''https://kc/certs''"
        and doc = "[p256_jwk]"])
     (simp_all add: ec_env_def demo_env_def ec_cache_def newJWKSCache_def p256_jwk_conformant)


subsection \<open>The keys of the cache\<close>

fun wf_key :: "pubkey \<Rightarrow> bool" where
  "wf_key (RSAKey n e) \<longleftrightarrow> 0 \<le> n \<and> e \<noteq> 0 \<and> in_int64 e"
| "wf_key (ECKey cu x y) \<longleftrightarrow> 0 \<le> x \<and> x < curve_p cu \<and> 0 \<le> y \<and> y < curve_p cu \<and>
     (y * y) mod curve_p cu = (x * x * x - 3 * x + curve_b cu) mod curve_p cu"

definition wf_keys :: "(string \<times> pubkey) list \<Rightarrow> bool" where
  "wf_keys ks \<longleftrightarrow> distinct (map fst ks) \<and> list_all (\<lambda>(kid, k). kid \<noteq> [] \<and> wf_key k) ks"

definition wf_cache :: "jwksCache \<Rightarrow> bool" where
  "wf_cache c \<longleftrightarrow>
     (case cKeys c of None \<Rightarrow> True | Some ks \<Rightarrow> ks \<noteq> [] \<and> wf_keys ks \<and> cURI c \<noteq> [])"

lemma foldl_nonneg: "0 \<le> a \<Longrightarrow> 0 \<le> foldl (\<lambda>a b. a * 256 + uint (b :: byte)) a bs"
  by (induction bs arbitrary: a) auto

lemma SetBytes_nonneg: "0 \<le> SetBytes bs"
  by (simp add: SetBytes_def foldl_nonneg)

lemma wrap64_shift:
  "wrap64 (e * 256) + uint (b :: byte) \<in> {MinInt64 .. MaxInt64}"
proof -
  have b: "0 \<le> uint b" "uint b < 256" using uint_lt2p[of b] by auto
  have "(e * 256 + 9223372036854775808) mod 18446744073709551616
      = 256 * ((e + 36028797018963968) mod 72057594037927936)"
    using mult_mod_right[of 256 "e + 36028797018963968" 72057594037927936] by (simp add: algebra_simps)
  then show ?thesis using b pos_mod_bound[of 72057594037927936 "e + 36028797018963968"]
      pos_mod_sign[of 72057594037927936 "e + 36028797018963968"]
    by (simp add: wrap64_def MinInt64_def MaxInt64_def)
qed

lemma exponent_in_int64: "in_int64 (exponent_of bs)"
proof (induction bs rule: rev_induct)
  case Nil
  then show ?case by (simp add: exponent_of_def in_int64_def MinInt64_def MaxInt64_def)
next
  case (snoc b bs)
  then show ?case using wrap64_shift[of "exponent_of bs" b] by (simp add: exponent_of_def in_int64_def)
qed

lemma parseJWK_wf: "parseJWK k = Inr pub \<Longrightarrow> wf_key pub"
  by (auto simp: parseJWK_def ParseUncompressedPublicKey_def result_simps SetBytes_nonneg exponent_in_int64 Let_def
      split: if_splits option.splits)

lemma update_subset: "set (AList.update k v al) \<subseteq> insert (k, v) (set al)"
  by (induction al) auto

lemma collect_keys_wf: "wf_keys out \<Longrightarrow> wf_keys (collect_keys ks out)"
proof (induction ks arbitrary: out)
  case (Cons k ks)
  have "wf_keys (AList.update (Kid k) pub out)" if "parseJWK k = Inr pub" "Kid k \<noteq> []" for pub
    using Cons.prems that parseJWK_wf[OF that(1)] update_subset[of "Kid k" pub out]
    by (auto simp: wf_keys_def distinct_update list_all_iff)
  then show ?case using Cons by (auto split: sum.splits)
qed simp

lemma fetchJWKS_wf: "fetchJWKS E uri w = (Inr ks, w') \<Longrightarrow> ks \<noteq> [] \<and> wf_keys ks"
  using collect_keys_wf[of "[]"]
  by (auto simp: fetchJWKS_def result_simps Let_def wf_keys_def split: prod.splits if_splits)


lemma discoverJWKSURI_nonempty: "discoverJWKSURI E c w = (Inr uri, w') \<Longrightarrow> uri \<noteq> []"
  by (auto simp: discoverJWKSURI_def result_simps split: prod.splits if_splits)

text \<open>The two outcomes of a refresh: an error leaves all but the time of the attempt, a success
  installs what one request returned.\<close>

lemma refresh_cases:
  assumes "refresh E (c, w) = (err, c', w')"
  obtains (failed) e t where "err = Some e" "c' = c\<lparr>cLastForce := t\<rparr>"
    | (loaded) t uri w1 keys w2 t' where "err = None" "uri \<noteq> []" "fetchJWKS E uri w1 = (Inr keys, w2)"
        "time_Now E w2 = (t', w')"
        "c' = c\<lparr>cLastForce := t, cURI := uri, cKeys := Some keys, cLoadedAt := t'\<rparr>"
proof -
  obtain t wa where t: "time_Now E w = (t, wa)" by force
  obtain ru wb where u: "(if cURI c = [] then discoverJWKSURI E (c\<lparr>cLastForce := t\<rparr>) wa else (Inr (cURI c), wa)) = (ru, wb)"
    by force
  have ne: "uri \<noteq> []" if "ru = Inr uri" for uri
    using u that by (auto split: if_splits dest: discoverJWKSURI_nonempty)
  show thesis
  proof (cases ru)
    case (Inl e)
    then show thesis using assms t u failed by (auto simp: refresh_def Let_def split: if_splits)
  next
    case (Inr uri)
    obtain rk wc where f: "fetchJWKS E uri wb = (rk, wc)" by force
    show thesis
    proof (cases rk)
      case (Inl e)
      then show thesis using assms t u Inr f failed by (auto simp: refresh_def Let_def split: if_splits)
    next
      case k: (Inr keys)
      obtain t' wd where t': "time_Now E wc = (t', wd)" by force
      then have "err = None" "w' = wd" "c' = c\<lparr>cLastForce := t, cURI := uri, cKeys := Some keys, cLoadedAt := t'\<rparr>"
        using assms t u Inr f k by (auto simp: refresh_def Let_def split: if_splits)
      then show thesis using loaded[of uri wb keys wc t' t] ne[OF Inr] f k t' by simp
    qed
  qed
qed

text \<open>A lookup either answers from keys that are not older than the time to live, or performs a
  refresh and answers from what it returned.\<close>

lemma keyForKID_cases:
  assumes "keyForKID E kid (c, w) = (r, c', w')"
  obtains (cached) k t where "r = Inr k" "c' = c" "lookup_kid c kid = Some k" "time_Now E w = (t, w')"
      "Sub t (cLoadedAt c) \<le> cTtl c"
    | (refreshed) w1 err where "refresh E (c, w1) = (err, c', w')"
      "r = (case err of Some e \<Rightarrow> Inl e
            | None \<Rightarrow> (case lookup_kid c' kid of Some k \<Rightarrow> Inr k | None \<Rightarrow> Inl (Errorf ''auth: no JWK with kid %q'')))"
      "w1 = w \<and> cKeys c = None \<or> w1 = snd (time_Now E w) \<and> cKeys c \<noteq> None"
proof -
  have R: "refresh E (c, v) = (fst (refresh E (c, v)), c', w') \<and>
      r = (case fst (refresh E (c, v)) of Some e \<Rightarrow> Inl e
           | None \<Rightarrow> (case lookup_kid c' kid of Some k \<Rightarrow> Inr k | None \<Rightarrow> Inl (Errorf ''auth: no JWK with kid %q'')))"
    if "refresh_lookup E kid (c, v) = (r, c', w')" for v
    using that by (auto simp: refresh_lookup_def split: prod.splits option.splits)
  show thesis
  proof (cases "cKeys c = None")
    case True
    then have rl: "refresh_lookup E kid (c, w) = (r, c', w')" using assms by (simp add: keyForKID_def)
    show thesis using refreshed[OF R[OF rl, THEN conjunct1] R[OF rl, THEN conjunct2]] True by simp
  next
    case False
    obtain t v where t: "time_Now E w = (t, v)" by force
    show thesis
    proof (cases "Sub t (cLoadedAt c) \<le> cTtl c \<and> lookup_kid c kid \<noteq> None")
      case True
      then show thesis using assms False t cached by (auto simp: keyForKID_def)
    next
      case no: False
      then have rl: "refresh_lookup E kid (c, v) = (r, c', w')"
        using assms False t by (auto simp: keyForKID_def split: if_splits option.splits)
      show thesis using refreshed[OF R[OF rl, THEN conjunct1] R[OF rl, THEN conjunct2]] False t by simp
    qed
  qed
qed

lemma refresh_wf: "refresh E (c, w) = (err, c', w') \<Longrightarrow> wf_cache c \<Longrightarrow> wf_cache c'"
  by (elim refresh_cases) (auto simp: wf_cache_def dest!: fetchJWKS_wf split: option.splits)

lemma lookup_kid_wf: "wf_cache c \<Longrightarrow> lookup_kid c kid = Some k \<Longrightarrow> kid \<noteq> [] \<and> wf_key k"
  by (auto simp: wf_cache_def wf_keys_def lookup_kid_def list_all_iff dest!: map_of_SomeD split: option.splits)

lemma keyForKID_wf:
  assumes "keyForKID E kid (c, w) = (r, c', w')" and "wf_cache c"
  shows "wf_cache c' \<and> (\<forall>k. r = Inr k \<longrightarrow> wf_key k \<and> lookup_kid c' kid = Some k)"
  using assms(1)
proof (cases rule: keyForKID_cases)
  case cached
  then show ?thesis using assms(2) lookup_kid_wf by auto
next
  case (refreshed w1 err)
  then show ?thesis using refresh_wf[OF refreshed(1) assms(2)] lookup_kid_wf[of c' kid] by (auto split: option.splits)
qed

text \<open>A sequence of lookups, as the requests of a server make them.\<close>

fun lookups :: "'w env \<Rightarrow> string list \<Rightarrow> jwksCache \<times> 'w \<Rightarrow> pubkey result list \<times> jwksCache \<times> 'w" where
  "lookups E [] s = ([], s)"
| "lookups E (kid # kids) s =
     (let (r, s1) = keyForKID E kid s; (rs, s2) = lookups E kids s1 in (r # rs, s2))"

lemma lookups_wf:
  assumes "wf_cache c" and "lookups E kids (c, w) = (rs, c', w')"
  shows "wf_cache c' \<and> (\<forall>k. Inr k \<in> set rs \<longrightarrow> wf_key k)"
  using assms
proof (induction kids arbitrary: c w rs)
  case (Cons kid kids)
  obtain r c1 w1 where k: "keyForKID E kid (c, w) = (r, c1, w1)" by (metis prod.exhaust)
  obtain rs1 where l: "lookups E kids (c1, w1) = (rs1, c', w')" "rs = r # rs1"
    using Cons.prems(2) k by (auto split: prod.splits)
  show ?case using keyForKID_wf[OF k Cons.prems(1)] Cons.IH[OF _ l(1)] l(2) by auto
qed simp


text \<open>
  Whatever the identity provider answers, in every sequence of lookups from an empty cache the
  cache stays well formed: its keys have distinct non-empty ids, an RSA key has a modulus that is not
  negative and a non-zero exponent that fits an \<open>int\<close>, an EC key is a point of its curve. Every key
  handed to the JWT library is of that form.
\<close>

theorem lookups_typed:
  "case lookups E kids (newJWKSCache issuer ttl, w) of (rs, c, w') \<Rightarrow>
     wf_cache c \<and> list_all (\<lambda>r. case r of Inr k \<Rightarrow> wf_key k | Inl e \<Rightarrow> True) rs"
proof -
  obtain rs c w' where l: "lookups E kids (newJWKSCache issuer ttl, w) = (rs, c, w')" by (metis prod.exhaust)
  moreover have "wf_cache (newJWKSCache issuer ttl)" by (simp add: wf_cache_def newJWKSCache_def)
  ultimately show ?thesis using lookups_wf[of "newJWKSCache issuer ttl" E kids w rs c w']
    by (auto simp: list_all_iff split: sum.splits)
qed

text \<open>An answer is never older than the time to live: it is a key loaded at most that long ago by the
  clock of this call, or one of the key set this call fetched.\<close>

lemma keyForKID_fresh:
  assumes "keyForKID E kid (c, w) = (Inr k, c', w')"
  shows "(c' = c \<and> lookup_kid c kid = Some k \<and> Sub (fst (time_Now E w)) (cLoadedAt c) \<le> cTtl c) \<or>
    (\<exists>uri w1 keys w2. fetchJWKS E uri w1 = (Inr keys, w2) \<and> map_of keys kid = Some k \<and> cKeys c' = Some keys \<and>
       time_Now E w2 = (cLoadedAt c', w'))"
  using assms
proof (cases rule: keyForKID_cases)
  case (refreshed w1 err)
  from refreshed(1) show ?thesis
  proof (cases rule: refresh_cases)
    case (loaded t uri w1 keys w2 t')
    then have "map_of keys kid = Some k" "cKeys c' = Some keys" "time_Now E w2 = (cLoadedAt c', w')"
      using refreshed(2) by (auto simp: lookup_kid_def split: option.splits)
    then show ?thesis using loaded(3) by blast
  qed (use refreshed(2) in simp)
qed auto

text \<open>The environment with a counter of the requests.\<close>

definition counted :: "'w env \<Rightarrow> (int \<times> 'w) env" where
  "counted E =
     \<lparr>time_Now = (\<lambda>(n, w). let (t, w') = time_Now E w in (t, n, w')),
      http_Get = (\<lambda>url (n, w). let (r, w') = http_Get E url w in (r, n + 1, w')),
      json_discovery = json_discovery E, json_jwks = json_jwks E\<rparr>"

definition serves :: "'w env \<Rightarrow> (string \<times> pubkey) list \<Rightarrow> bool" where
  "serves E keys \<longleftrightarrow> keys \<noteq> [] \<and> (\<forall>uri w. \<exists>w'. fetchJWKS E uri w = (Inr keys, w'))"

lemma fetchJWKS_counted:
  "fetchJWKS (counted E) uri (n, w) = (let (r, w') = fetchJWKS E uri w in (r, n + 1, w'))"
  by (simp add: fetchJWKS_def counted_def split: prod.splits)

lemma refresh_counted:
  assumes "serves E keys" and "cURI c \<noteq> []"
  shows "\<exists>t t' w'. refresh (counted E) (c, n, w)
           = (None, c\<lparr>cLastForce := t, cKeys := Some keys, cLoadedAt := t'\<rparr>, n + 1, w')"
proof -
  obtain t w1 where t: "time_Now E w = (t, w1)" by force
  obtain w2 where f: "fetchJWKS E (cURI c) w1 = (Inr keys, w2)" using assms(1) by (auto simp: serves_def)
  obtain t' w3 where t': "time_Now E w2 = (t', w3)" by force
  have "time_Now (counted E) (n, w) = (t, n, w1)" "time_Now (counted E) (n + 1, w2) = (t', n + 1, w3)"
    using t t' by (simp_all add: counted_def)
  then have "refresh (counted E) (c, n, w) = (None, c\<lparr>cLastForce := t, cKeys := Some keys, cLoadedAt := t'\<rparr>, n + 1, w3)"
    using assms(2) f by (simp add: refresh_def fetchJWKS_counted)
  then show ?thesis by blast
qed

lemma unknown_kid_fetches:
  assumes "serves E keys" and "cURI c \<noteq> []" and "cKeys c = Some keys" and "map_of keys kid = None"
  shows "\<exists>c' w'. keyForKID (counted E) kid (c, n, w) = (Inl (Errorf ''auth: no JWK with kid %q''), c', n + 1, w')
           \<and> cURI c' \<noteq> [] \<and> cKeys c' = Some keys"
proof -
  obtain t w1 where "time_Now E w = (t, w1)" by force
  then have "time_Now (counted E) (n, w) = (t, n, w1)" by (simp add: counted_def)
  moreover obtain u u' w' where
    "refresh (counted E) (c, n, w1) = (None, c\<lparr>cLastForce := u, cKeys := Some keys, cLoadedAt := u'\<rparr>, n + 1, w')"
    using refresh_counted[OF assms(1,2)] by blast
  ultimately show ?thesis using assms(2-4)
    by (simp add: keyForKID_def refresh_lookup_def lookup_kid_def)
qed

text \<open>
  The field \<open>lastForce\<close>, declared as a throttle for refreshes forced by an unknown key id, is
  written and never read: while the provider answers, \<open>n\<close> tokens with unknown key ids, which anyone can
  send, cause exactly \<open>n\<close> requests for the key set, however short after one another and however fresh
  the cached keys are.
\<close>

theorem unknown_kids_unthrottled:
  assumes "serves E keys" and "cURI c \<noteq> []" and "cKeys c = Some keys"
    and "list_all (\<lambda>kid. map_of keys kid = None) kids"
  shows "fst (snd (snd (lookups (counted E) kids (c, n, w)))) = n + int (length kids)"
  using assms(2-4)
proof (induction kids arbitrary: c n w)
  case (Cons kid kids)
  obtain c' w' where k: "keyForKID (counted E) kid (c, n, w) = (Inl (Errorf ''auth: no JWK with kid %q''), c', n + 1, w')"
      "cURI c' \<noteq> []" "cKeys c' = Some keys"
    using unknown_kid_fetches[OF assms(1) Cons.prems(1,2), of kid n w] Cons.prems(3) by auto
  have "fst (snd (snd (lookups (counted E) kids (c', n + 1, w')))) = n + 1 + int (length kids)"
    using Cons.IH[OF k(2,3)] Cons.prems(3) by simp
  then show ?case using k(1) by (auto split: prod.splits)
qed simp

definition demo_keys :: "(string \<times> pubkey) list" where
  "demo_keys = [(''k1'', RSAKey 3 65537)]"

lemma demo_parse: "collect_keys (projr (json_jwks demo_env [])) [] = demo_keys"
  by code_simp

lemma demo_serves: "serves demo_env demo_keys"
  using demo_parse
  by (simp add: serves_def fetchJWKS_def http_body_def demo_env_def demo_keys_def)

theorem unknown_kids_unthrottled_witness:
  "fst (snd (snd (lookups (counted demo_env) [''x'', ''y'', ''z'']
      ((newJWKSCache ''https://kc'' Hour)\<lparr>cURI := ''https://kc/certs'', cKeys := Some demo_keys\<rparr>, 0, 0)))) = 3"
  using unknown_kids_unthrottled[OF demo_serves, of
      "(newJWKSCache ''https://kc'' Hour)\<lparr>cURI := ''https://kc/certs'', cKeys := Some demo_keys\<rparr>"
      "[''x'', ''y'', ''z'']" 0 0]
  by (simp add: demo_keys_def newJWKSCache_def)

subsection \<open>The default roles\<close>

text \<open>
  With the default role map an identity may take the break-glass and trust-changing actions (recover
  a pool key, write the KDC, configure the mail relay, revoke the sessions of others, administer
  plugins and marketplaces) exactly when it has the role nova-admin, and may reboot the host
  exactly with nova-admin or nova-system-admin; an identity whose only role is nova-viewer has no write
  permission but the one on its own notification events, and no access to logs or the audit log.
\<close>

definition has :: "string \<Rightarrow> Permission \<Rightarrow> bool" where
  "has role p = (case map_of DefaultRoleMap role of None \<Rightarrow> False | Some perms \<Rightarrow> p \<in> set perms)"

lemma grants_has: "IdentityHasPermission (Some DefaultRoleMap) (Some i) p \<longleftrightarrow> (\<exists>role. role \<in> set (Roles i) \<and> has role p)"
  unfolding IdentityHasPermission_grants by (auto simp: grants_def has_def split: option.splits)

lemma has_roles:
  "has role p \<Longrightarrow>
     role = ''nova-admin'' \<or> role = ''nova-operator'' \<or> role = ''nova-viewer'' \<or> role = ''nova-system-admin''"
proof -
  assume "has role p"
  then have "map_of DefaultRoleMap role \<noteq> None" by (auto simp: has_def split: option.splits)
  then have "role \<in> fst ` set DefaultRoleMap" by (simp add: map_of_eq_None_iff)
  then show ?thesis by (simp add: DefaultRoleMap_def)
qed

lemma admin_table:
  "list_all (\<lambda>p. has ''nova-admin'' p \<and> \<not> has ''nova-operator'' p \<and> \<not> has ''nova-viewer'' p \<and> \<not> has ''nova-system-admin'' p)
     [PermPoolEncryptionRecover, PermKrb5Write, PermNotificationsWrite, PermSessionsAdmin, PermPluginsAdmin,
      PermPluginsWrite, PermMarketplacesAdmin]"
  "has ''nova-admin'' PermSystemAdmin \<and> \<not> has ''nova-operator'' PermSystemAdmin \<and> \<not> has ''nova-viewer'' PermSystemAdmin
     \<and> has ''nova-system-admin'' PermSystemAdmin"
  by code_simp+

lemma viewer_table:
  "list_all (\<lambda>p. p = PermNotificationsEventsWrite \<or> HasSuffix (perm_string p) '':read'' \<and> p \<noteq> PermAuditRead \<and> p \<noteq> PermLogsRead)
     (the (map_of DefaultRoleMap ''nova-viewer''))"
  by code_simp

lemma admin_only:
  "p \<in> {PermPoolEncryptionRecover, PermKrb5Write, PermNotificationsWrite, PermSessionsAdmin, PermPluginsAdmin,
         PermPluginsWrite, PermMarketplacesAdmin} \<Longrightarrow>
     IdentityHasPermission (Some DefaultRoleMap) (Some i) p \<longleftrightarrow> ''nova-admin'' \<in> set (Roles i)"
  using admin_table(1) has_roles unfolding grants_has list_all_iff by auto

lemma reboot_roles:
  "IdentityHasPermission (Some DefaultRoleMap) (Some i) PermSystemAdmin \<longleftrightarrow>
     ''nova-admin'' \<in> set (Roles i) \<or> ''nova-system-admin'' \<in> set (Roles i)"
  using admin_table(2) has_roles unfolding grants_has by blast

lemma viewer_reads_only:
  "Roles i = [''nova-viewer''] \<Longrightarrow> IdentityHasPermission (Some DefaultRoleMap) (Some i) p \<Longrightarrow>
     p = PermNotificationsEventsWrite \<or> HasSuffix (perm_string p) '':read'' \<and> p \<noteq> PermAuditRead \<and> p \<noteq> PermLogsRead"
  using viewer_table unfolding grants_has list_all_iff has_def by (auto split: option.splits)

end
