(* ===== verification/Jobs.thy ===== *)
theory Jobs
  imports GoJson GoTime
begin

text \<open>
  \<^verbatim>\<open>internal/jobs\<close>: the rows of the jobs table with the queries of \<open>store/gen/jobs.sql.go\<close>, the dispatcher
  that inserts a row and enqueues a task in one operation, and the frame every handler of the worker
  is built from. The task queue is a parameter, as are the failures of the database; the host
  operations a handler runs are those of the other theories.
\<close>

subsection \<open>Rows and queries\<close>

record Job =
  jobID :: string
  jobKind :: string
  jobTarget :: string
  jobState :: string
  jobCommand :: string
  jobStdout :: string
  jobStderr :: string
  jobExitCode :: "int option"
  jobError :: "error option"
  jobRequestID :: string
  jobCreatedAt :: time
  jobStartedAt :: "time option"
  jobFinishedAt :: "time option"

type_synonym jobs_table = "Job list"

text \<open>A row a request inserts; \<open>now()\<close> is an argument of each query.\<close>

definition new_row :: "time \<Rightarrow> string \<Rightarrow> string \<Rightarrow> string \<Rightarrow> string \<Rightarrow> string \<Rightarrow> Job" where
  "new_row now i kind target command requestID =
     \<lparr>jobID = i, jobKind = kind, jobTarget = target, jobState = ''queued'', jobCommand = command, jobStdout = [],
      jobStderr = [], jobExitCode = None, jobError = None, jobRequestID = requestID, jobCreatedAt = now,
      jobStartedAt = None, jobFinishedAt = None\<rparr>"

definition unique_violation :: error where
  "unique_violation = Errorf ''duplicate key value violates unique constraint''"

definition InsertJob :: "time \<Rightarrow> string \<Rightarrow> string \<Rightarrow> string \<Rightarrow> string \<Rightarrow> string \<Rightarrow> jobs_table \<Rightarrow> jobs_table result" where
  "InsertJob now i kind target command requestID tbl =
     (if i \<in> jobID ` set tbl then Inl unique_violation
      else Inr (new_row now i kind target command requestID # tbl))"

definition update_where :: "(Job \<Rightarrow> bool) \<Rightarrow> (Job \<Rightarrow> Job) \<Rightarrow> jobs_table \<Rightarrow> jobs_table" where
  "update_where P f tbl = map (\<lambda>j. if P j then f j else j) tbl"

definition MarkJobRunning :: "time \<Rightarrow> string \<Rightarrow> jobs_table \<Rightarrow> jobs_table" where
  "MarkJobRunning now i = update_where
     (\<lambda>j. jobID j = i \<and> (jobState j = ''queued'' \<or> jobState j = ''interrupted''))
     (\<lambda>j. j\<lparr>jobState := ''running'', jobStartedAt := Some now\<rparr>)"

definition MarkJobFinished ::
    "time \<Rightarrow> string \<Rightarrow> string \<Rightarrow> string \<Rightarrow> string \<Rightarrow> int option \<Rightarrow> error option \<Rightarrow> jobs_table \<Rightarrow> jobs_table" where
  "MarkJobFinished now i state stdout stderr exitCode err = update_where
     (\<lambda>j. jobID j = i \<and> jobState j = ''running'')
     (\<lambda>j. j\<lparr>jobState := state, jobStdout := stdout, jobStderr := stderr, jobExitCode := exitCode, jobError := err,
            jobFinishedAt := Some now\<rparr>)"

definition MarkRunningInterrupted :: "jobs_table \<Rightarrow> jobs_table" where
  "MarkRunningInterrupted = update_where
     (\<lambda>j. jobState j = ''queued'' \<or> jobState j = ''running'')
     (\<lambda>j. j\<lparr>jobState := ''interrupted'', jobError := Some (Errorf ''process restarted'')\<rparr>)"

definition CancelJob :: "time \<Rightarrow> string \<Rightarrow> jobs_table \<Rightarrow> jobs_table" where
  "CancelJob now i = update_where
     (\<lambda>j. jobID j = i \<and> (jobState j = ''queued'' \<or> jobState j = ''running''))
     (\<lambda>j. j\<lparr>jobState := ''cancelled'', jobFinishedAt := Some now\<rparr>)"

definition GetJob :: "string \<Rightarrow> jobs_table \<Rightarrow> Job option" where
  "GetJob i tbl = find (\<lambda>j. jobID j = i) tbl"

definition MarkInterruptedAtStartup :: "jobs_table \<Rightarrow> jobs_table" where
  "MarkInterruptedAtStartup tbl = MarkRunningInterrupted tbl"

subsection \<open>Tasks and the dispatcher\<close>

record task =
  taskType :: string
  taskPayload :: json

record DispatchInput =
  diKind :: string
  diTarget :: string
  diPayload :: json
  diCommand :: string
  diRequestID :: string
  diUniqueKey :: string

definition encodeTaskBody :: "string \<Rightarrow> json \<Rightarrow> json" where
  "encodeTaskBody i payload = JObj [(''jobId'', JStr i), (''payload'', payload)]"

definition ErrDuplicate :: error where "ErrDuplicate = Errorf ''duplicate dispatch''"
definition ErrTaskIDConflict :: error where "ErrTaskIDConflict = Errorf ''task ID conflicts with another task''"

text \<open>
  What a dispatch takes from outside: the id \<open>uuid.New\<close> draws, the errors of the four calls that may
  fail in the database and in \<open>json.Marshal\<close>, and the queue: \<open>EnqueueContext\<close> with the \<open>TaskID\<close> option or
  without.
\<close>

record 'q dispatch_env =
  deNewID :: string
  deNow :: time
  deMarshalErr :: "error option"
  deBeginErr :: "error option"
  deInsertErr :: "error option"
  deCommitErr :: "error option"
  deEnqueue :: "string option \<Rightarrow> task \<Rightarrow> 'q \<Rightarrow> error option \<times> 'q"

definition Dispatch :: "'q dispatch_env \<Rightarrow> DispatchInput \<Rightarrow> jobs_table \<times> 'q \<Rightarrow> string result \<times> jobs_table \<times> 'q" where
  "Dispatch env inp s =
     (let (tbl, q) = s in
      case deMarshalErr env of Some e \<Rightarrow> (Inl (Wrapf ''marshal payload: %w'' e), tbl, q)
      | None \<Rightarrow> (case deBeginErr env of Some e \<Rightarrow> (Inl e, tbl, q)
      | None \<Rightarrow> (case deInsertErr env of Some e \<Rightarrow> (Inl e, tbl, q)
      | None \<Rightarrow> (case InsertJob (deNow env) (deNewID env) (diKind inp) (diTarget inp) (diCommand inp) (diRequestID inp) tbl of
          Inl e \<Rightarrow> (Inl e, tbl, q)
        | Inr tx \<Rightarrow>
            (let body = encodeTaskBody (deNewID env) (diPayload inp);
                 opt = (if diUniqueKey inp \<noteq> [] then Some (diUniqueKey inp) else None);
                 (err, q1) = deEnqueue env opt \<lparr>taskType = diKind inp, taskPayload = body\<rparr> q
             in case err of
                  Some e \<Rightarrow>
                    (Inl (if errors_Is e ErrTaskIDConflict then Wrapf ''dispatch %s: %w'' ErrDuplicate else e), tbl, q1)
                | None \<Rightarrow>
                    (case deCommitErr env of
                       Some e \<Rightarrow> (Inl e, tbl, q1)
                     | None \<Rightarrow> (Inr (deNewID env), tx, q1)))))))"

subsection \<open>The frame of a handler\<close>

text \<open>
  What the worker sees: the jobs table, the messages it published and the host. \<open>dFault\<close> is the error
  of a database call by its name; \<open>dUUID\<close> is \<open>uuid.Parse\<close>.
\<close>

record 'w wstate =
  wsJobs :: jobs_table
  wsPublished :: "(string \<times> string) list"
  wsHost :: 'w

record 'w deps =
  dUUID :: "string \<Rightarrow> string result"
  dNow :: "'w \<Rightarrow> time"
  dFault :: "string \<Rightarrow> error option"

definition decode :: "('w, 'x) deps_scheme \<Rightarrow> (json \<Rightarrow> 'p result) \<Rightarrow> task \<Rightarrow> (string \<times> 'p) result" where
  "decode d unmarshal t =
     bindE (json_struct (\<lambda>m. bindE (str_field ''jobId'' m) (\<lambda>i.
              Inr (i, find (\<lambda>(k, v). EqualFold k ''payload'') (rev m)))) (taskPayload t)) (\<lambda>(jid, raw).
     bindE (dUUID d jid) (\<lambda>i.
     bindE (case raw of None \<Rightarrow> Inl (Errorf ''unexpected end of JSON input'') | Some (k, v) \<Rightarrow> unmarshal v) (\<lambda>p.
     Inr (i, p))))"

definition markRunning :: "('w, 'x) deps_scheme \<Rightarrow> string \<Rightarrow> 'w wstate \<Rightarrow> error option \<times> 'w wstate" where
  "markRunning d i s =
     (case dFault d ''MarkJobRunning'' of
        Some e \<Rightarrow> (Some e, s)
      | None \<Rightarrow> (None, s\<lparr>wsJobs := MarkJobRunning (dNow d (wsHost s)) i (wsJobs s)\<rparr>))"

text \<open>\<open>errors.As(err, &he)\<close>: exit code and stderr of the first \<open>HostError\<close>; \<open>int32\<close> truncates.\<close>

fun host_error :: "error \<Rightarrow> (int \<times> string) option" where
  "host_error (Errorf f) = None"
| "host_error (Wrapf f e) = host_error e"
| "host_error (HostError bin args code stderr) = Some (code, stderr)"

definition wrap32 :: "int \<Rightarrow> int" where
  "wrap32 n = (n + 2147483648) mod 4294967296 - 2147483648"

definition job_outcome :: "error option \<Rightarrow> string \<times> string \<times> int option" where
  "job_outcome runErr =
     (case runErr of
        None \<Rightarrow> (''succeeded'', [], None)
      | Some e \<Rightarrow> (case host_error e of
                      None \<Rightarrow> (''failed'', [], None)
                    | Some (code, stderr) \<Rightarrow> (''failed'', stderr, Some (wrap32 code))))"

definition finish :: "('w, 'x) deps_scheme \<Rightarrow> string \<Rightarrow> error option \<Rightarrow> 'w wstate \<Rightarrow> 'w wstate" where
  "finish d i runErr s =
     (let (state, stderr, exitCode) = job_outcome runErr;
          s1 = (case dFault d ''MarkJobFinished'' of
                  Some e \<Rightarrow> s
                | None \<Rightarrow> s\<lparr>wsJobs := MarkJobFinished (dNow d (wsHost s)) i state [] stderr exitCode runErr (wsJobs s)\<rparr>)
      in s1\<lparr>wsPublished := wsPublished s @ [(''job:'' @ i @ '':update'', state)]\<rparr>)"

text \<open>The body all handlers share: decode, mark the row as running (an error of which is ignored), run
  the operation on the host, record its outcome.\<close>

definition handle ::
    "('w, 'x) deps_scheme \<Rightarrow> (json \<Rightarrow> 'p result) \<Rightarrow> ('p \<Rightarrow> 'w \<Rightarrow> error option \<times> 'w) \<Rightarrow> task \<Rightarrow> 'w wstate
       \<Rightarrow> error option \<times> 'w wstate" where
  "handle d unmarshal op t s =
     (case decode d unmarshal t of
        Inl e \<Rightarrow> (Some e, s)
      | Inr (i, p) \<Rightarrow>
          (let s1 = snd (markRunning d i s);
               (err, h) = op p (wsHost s1);
               s2 = s1\<lparr>wsHost := h\<rparr>
           in (err, finish d i err s2)))"


subsection \<open>Dispatching\<close>

definition task_of :: "'q dispatch_env \<Rightarrow> DispatchInput \<Rightarrow> task" where
  "task_of env inp = \<lparr>taskType = diKind inp, taskPayload = encodeTaskBody (deNewID env) (diPayload inp)\<rparr>"

definition task_id :: "DispatchInput \<Rightarrow> string option" where
  "task_id inp = (if diUniqueKey inp \<noteq> [] then Some (diUniqueKey inp) else None)"

definition row_of :: "'q dispatch_env \<Rightarrow> DispatchInput \<Rightarrow> Job" where
  "row_of env inp = new_row (deNow env) (deNewID env) (diKind inp) (diTarget inp) (diCommand inp) (diRequestID inp)"

text \<open>
  C16. A dispatch leaves no row without a task: when it returns a job id, the row of that id was added to
  the table in state queued and the queue accepted the task that names it; when it returns an error,
  the table is what it was, and the queue holds a new task only if the commit failed after the queue
  had accepted it.
\<close>

theorem Dispatch_no_orphan_rows:
  "case Dispatch env inp (tbl, q) of
     (Inr i, tbl', q') \<Rightarrow>
       i = deNewID env \<and> i \<notin> jobID ` set tbl \<and> tbl' = row_of env inp # tbl \<and>
       deEnqueue env (task_id inp) (task_of env inp) q = (None, q')
   | (Inl e, tbl', q') \<Rightarrow>
       tbl' = tbl \<and>
       (q' = q \<or> (\<exists>x. deEnqueue env (task_id inp) (task_of env inp) q = (Some x, q')) \<or>
        deEnqueue env (task_id inp) (task_of env inp) q = (None, q') \<and> deCommitErr env = Some e)"
  by (auto simp: Dispatch_def InsertJob_def task_of_def task_id_def row_of_def Let_def
      split: option.splits prod.splits sum.splits if_splits)

subsection \<open>What a handler records\<close>

definition finished_row :: "time \<Rightarrow> error option \<Rightarrow> Job \<Rightarrow> Job" where
  "finished_row now err j =
     (case job_outcome err of (state, stderr, exitCode) \<Rightarrow>
        j\<lparr>jobState := state, jobStdout := [], jobStderr := stderr, jobExitCode := exitCode, jobError := err,
          jobFinishedAt := Some now\<rparr>)"

definition open_row :: "Job \<Rightarrow> bool" where
  "open_row j \<longleftrightarrow> jobState j = ''queued'' \<or> jobState j = ''interrupted'' \<or> jobState j = ''running''"

definition started_row :: "time \<Rightarrow> Job \<Rightarrow> Job" where
  "started_row now j =
     (if jobState j = ''running'' then j else j\<lparr>jobState := ''running'', jobStartedAt := Some now\<rparr>)"

lemma markRunning_host [simp]: "wsHost (snd (markRunning d i s)) = wsHost s"
  by (simp add: markRunning_def split: option.splits)

lemma markRunning_published [simp]: "wsPublished (snd (markRunning d i s)) = wsPublished s"
  by (simp add: markRunning_def split: option.splits)

lemma finish_started:
  assumes "job_outcome err = (state, stderr, code)"
  shows "MarkJobFinished n2 i state [] stderr code err (MarkJobRunning n1 i tbl) =
    map (\<lambda>j. if jobID j = i \<and> open_row j then finished_row n2 err (started_row n1 j) else j) tbl"
  unfolding MarkJobFinished_def MarkJobRunning_def update_where_def map_map
proof (rule map_cong[OF refl])
  fix j
  consider "jobID j \<noteq> i" | "jobID j = i" "jobState j = ''queued'' \<or> jobState j = ''interrupted''"
    | "jobID j = i" "jobState j = ''running''" | "jobID j = i" "\<not> open_row j"
    by (auto simp: open_row_def)
  then show "((\<lambda>j. if jobID j = i \<and> jobState j = ''running''
             then j\<lparr>jobState := state, jobStdout := [], jobStderr := stderr, jobExitCode := code, jobError := err,
                    jobFinishedAt := Some n2\<rparr> else j) \<circ>
        (\<lambda>j. if jobID j = i \<and> (jobState j = ''queued'' \<or> jobState j = ''interrupted'')
             then j\<lparr>jobState := ''running'', jobStartedAt := Some n1\<rparr> else j)) j
      = (if jobID j = i \<and> open_row j then finished_row n2 err (started_row n1 j) else j)"
  proof cases
    case 2
    then have "jobState j \<noteq> ''running''" by auto
    then show ?thesis using 2 assms by (simp add: finished_row_def started_row_def open_row_def)
  qed (use assms in \<open>simp_all add: finished_row_def started_row_def open_row_def\<close>)
qed

lemma handle_rows:
  assumes "decode d unmarshal t = Inr (i, p)" and "op p (wsHost s) = (err, h)"
    and "dFault d ''MarkJobRunning'' = None" and "dFault d ''MarkJobFinished'' = None"
  shows "wsJobs (snd (handle d unmarshal op t s)) =
    map (\<lambda>j. if jobID j = i \<and> open_row j then finished_row (dNow d h) err (started_row (dNow d (wsHost s)) j) else j)
      (wsJobs s)"
proof -
  obtain st se c where "job_outcome err = (st, se, c)" by (cases "job_outcome err")
  then show ?thesis using assms by (simp add: handle_def markRunning_def finish_def finish_started)
qed

lemma handle_effect:
  assumes "decode d unmarshal t = Inr (i, p)"
  shows "fst (handle d unmarshal op t s) = fst (op p (wsHost s))"
    and "wsHost (snd (handle d unmarshal op t s)) = snd (op p (wsHost s))"
  using assms by (simp_all add: handle_def finish_def Let_def split: prod.splits option.splits)


lemma handle_undecodable: "decode d unmarshal t = Inl e \<Longrightarrow> handle d unmarshal op t s = (Some e, s)"
  by (simp add: handle_def)

subsection \<open>The life of a row\<close>

text \<open>The queries the program runs on the table, as events. The worker finishes a job by the outcome of
  an operation only.\<close>

datatype query =
    QInsert time string string string string string
  | QRunning time string
  | QFinished time string "error option"
  | QCancel time string
  | QInterrupt

fun exec_query :: "query \<Rightarrow> jobs_table \<Rightarrow> jobs_table" where
  "exec_query (QInsert now i k tg c r) tbl = (case InsertJob now i k tg c r tbl of Inl e \<Rightarrow> tbl | Inr t \<Rightarrow> t)"
| "exec_query (QRunning now i) tbl = MarkJobRunning now i tbl"
| "exec_query (QFinished now i err) tbl =
     (case job_outcome err of (state, stderr, code) \<Rightarrow> MarkJobFinished now i state [] stderr code err tbl)"
| "exec_query (QCancel now i) tbl = CancelJob now i tbl"
| "exec_query QInterrupt tbl = MarkInterruptedAtStartup tbl"

definition history :: "query list \<Rightarrow> jobs_table" where
  "history qs = fold exec_query qs []"

definition terminal :: "Job \<Rightarrow> bool" where
  "terminal j \<longleftrightarrow> jobState j = ''succeeded'' \<or> jobState j = ''failed'' \<or> jobState j = ''cancelled''"

definition wf_row :: "Job \<Rightarrow> bool" where
  "wf_row j \<longleftrightarrow>
     (open_row j \<or> terminal j) \<and> (jobFinishedAt j \<noteq> None) = terminal j \<and>
     (jobState j \<in> {''running'', ''succeeded'', ''failed''} \<longrightarrow> jobStartedAt j \<noteq> None) \<and>
     (jobState j = ''succeeded'' \<longrightarrow> jobError j = None) \<and> (jobState j = ''failed'' \<longrightarrow> jobError j \<noteq> None)"

definition wf_table :: "jobs_table \<Rightarrow> bool" where
  "wf_table tbl \<longleftrightarrow> distinct (map jobID tbl) \<and> list_all wf_row tbl"

lemma update_where_ids: "(\<And>j. jobID (f j) = jobID j) \<Longrightarrow> map jobID (update_where P f tbl) = map jobID tbl"
  by (simp add: update_where_def)

lemma update_where_all:
  "list_all wf_row tbl \<Longrightarrow> (\<And>j. wf_row j \<Longrightarrow> P j \<Longrightarrow> wf_row (f j)) \<Longrightarrow> list_all wf_row (update_where P f tbl)"
  by (auto simp: update_where_def list_all_iff)

lemma update_where_keeps: "(\<And>j. terminal j \<Longrightarrow> \<not> P j) \<Longrightarrow> j \<in> set tbl \<Longrightarrow> terminal j \<Longrightarrow> j \<in> set (update_where P f tbl)"
  by (force simp: update_where_def)

lemmas query_defs = MarkJobRunning_def MarkJobFinished_def CancelJob_def MarkRunningInterrupted_def
  MarkInterruptedAtStartup_def

lemmas row_defs = wf_row_def open_row_def terminal_def

lemma wf_new_row: "wf_row (new_row now i k tg c r)" and id_new_row: "jobID (new_row now i k tg c r) = i"
  by (simp_all add: row_defs new_row_def)

lemma wf_started:
  "wf_row j \<Longrightarrow> jobState j = ''queued'' \<or> jobState j = ''interrupted'' \<Longrightarrow>
     wf_row (j\<lparr>jobState := ''running'', jobStartedAt := Some now\<rparr>)"
  by (elim disjE) (simp_all add: row_defs)

lemma wf_finished:
  "wf_row j \<Longrightarrow> jobState j = ''running'' \<Longrightarrow> job_outcome err = (state, stderr, code) \<Longrightarrow>
     wf_row (j\<lparr>jobState := state, jobStdout := [], jobStderr := stderr, jobExitCode := code, jobError := err,
               jobFinishedAt := Some now\<rparr>)"
  by (cases err; cases "host_error (the err)") (auto simp: row_defs job_outcome_def)

lemma wf_cancelled: "wf_row j \<Longrightarrow> wf_row (j\<lparr>jobState := ''cancelled'', jobFinishedAt := Some now\<rparr>)"
  by (simp add: row_defs)

lemma wf_interrupted:
  "wf_row j \<Longrightarrow> jobState j = ''queued'' \<or> jobState j = ''running'' \<Longrightarrow> wf_row (j\<lparr>jobState := ''interrupted'', jobError := e\<rparr>)"
  by (elim disjE) (simp_all add: row_defs)

lemma exec_query_wf: "wf_table tbl \<Longrightarrow> wf_table (exec_query q tbl)"
  by (cases q)
     (auto simp: wf_table_def query_defs update_where_ids InsertJob_def wf_new_row id_new_row
       intro!: update_where_all intro: wf_started wf_finished wf_cancelled wf_interrupted split: prod.splits)

lemma terminal_closed: "terminal j \<Longrightarrow> \<not> open_row j"
  by (auto simp: terminal_def open_row_def)

lemma exec_query_terminal: "j \<in> set tbl \<Longrightarrow> terminal j \<Longrightarrow> j \<in> set (exec_query q tbl)"
proof (cases q)
  case (QFinished now i err)
  assume j: "j \<in> set tbl" "terminal j"
  obtain st se c where "job_outcome err = (st, se, c)" by (cases "job_outcome err")
  then show ?thesis using QFinished j terminal_closed
    by (auto simp: query_defs open_row_def intro!: update_where_keeps)
qed (use terminal_closed in \<open>auto simp: query_defs InsertJob_def open_row_def intro!: update_where_keeps\<close>)

lemma fold_exec_wf: "wf_table tbl \<Longrightarrow> wf_table (fold exec_query qs tbl)"
  by (induction qs arbitrary: tbl) (auto simp: exec_query_wf)

lemma fold_exec_terminal: "j \<in> set tbl \<Longrightarrow> terminal j \<Longrightarrow> j \<in> set (fold exec_query qs tbl)"
  by (induction qs arbitrary: tbl) (auto simp: exec_query_terminal)

text \<open>
  C17. However dispatches, workers, cancellations and restarts interleave, the table stays well formed: one
  row per id, a state of the six documented ones, a finish time exactly when the job succeeded, failed or was
  cancelled, a start time once it ran, an error exactly when it failed. A row that has reached one of
  the three terminal states never changes again.
\<close>

theorem job_rows_lifecycle:
  "wf_table (history qs) \<and> set (filter terminal (history qs)) \<subseteq> set (history (qs @ qs'))"
  using fold_exec_wf[of "[]" qs] fold_exec_terminal[of _ "fold exec_query qs []" qs']
  by (auto simp: history_def wf_table_def)

end
