(* ===== verification/JobsZfs.thy ===== *)
theory JobsZfs
  imports Jobs ZfsPool ZfsDataset ZfsSnapshot ZfsAcl
begin

text \<open>
  \<^verbatim>\<open>internal/jobs/kind.go\<close> and \<open>worker.go\<close>: the payloads of the storage jobs as they are read from JSON, and
  the handlers that run them on pools, datasets, snapshots and access control lists.
\<close>

subsection \<open>Payloads\<close>

definition json_vdev :: "json \<Rightarrow> VdevSpec result" where
  "json_vdev = json_struct (\<lambda>m. bindE (str_field ''type'' m) (\<lambda>ty.
     bindE (json_list json_string (member ''disks'' m)) (\<lambda>ds. Inr \<lparr>vsType = ty, vsDisks = ds\<rparr>)))"

definition vdevs_field :: "string \<Rightarrow> (string \<times> json) list \<Rightarrow> VdevSpec list result" where
  "vdevs_field n m = json_list json_vdev (member n m)"

definition json_add_spec :: "json \<Rightarrow> AddSpec result" where
  "json_add_spec = json_struct (\<lambda>m.
     bindE (vdevs_field ''vdevs'' m) (\<lambda>vs. bindE (vdevs_field ''special'' m) (\<lambda>sp.
     bindE (vdevs_field ''dedup'' m) (\<lambda>dd. bindE (vdevs_field ''log'' m) (\<lambda>lg.
     bindE (json_list json_string (member ''cache'' m)) (\<lambda>ca. bindE (json_list json_string (member ''spare'' m)) (\<lambda>sr.
     Inr \<lparr>spVdevs = vs, spSpecial = sp, spDedup = dd, spLog = lg, spCache = ca, spSpare = sr\<rparr>)))))))"

definition json_pool_spec :: "json \<Rightarrow> ZfsPool.CreateSpec result" where
  "json_pool_spec v = bindE (json_struct (str_field ''name'') v) (\<lambda>n. bindE (json_add_spec v) (\<lambda>a.
     Inr \<lparr>spVdevs = spVdevs a, spSpecial = spSpecial a, spDedup = spDedup a, spLog = spLog a, spCache = spCache a,
          spSpare = spSpare a, spName = n\<rparr>))"

definition json_dataset_spec :: "json \<Rightarrow> ZfsDataset.CreateSpec result" where
  "json_dataset_spec = json_struct (\<lambda>m.
     bindE (str_field ''parent'' m) (\<lambda>pa. bindE (str_field ''name'' m) (\<lambda>n. bindE (str_field ''type'' m) (\<lambda>ty.
     bindE (json_uint64 (member ''volumeSizeBytes'' m)) (\<lambda>sz. bindE (json_map (member ''properties'' m)) (\<lambda>pr.
     bindE (bool_field ''encryptionEnabled'' m) (\<lambda>en. bindE (str_field ''encryptionAlgorithm'' m) (\<lambda>al.
     Inr \<lparr>csParent = pa, csName = n, csType = ty, csVolumeSizeBytes = sz, csProperties = pr,
          csEncryptionEnabled = en, csEncryptionAlgorithm = al\<rparr>))))))))"

definition json_ace :: "json \<Rightarrow> ACE result" where
  "json_ace = json_struct (\<lambda>m.
     bindE (str_field ''type'' m) (\<lambda>ty. bindE (str_field ''principal'' m) (\<lambda>p.
     bindE (json_list json_string (member ''permissions'' m)) (\<lambda>pe. bindE (json_list json_string (member ''inheritance'' m)) (\<lambda>inh.
     Inr \<lparr>aceType = ty, acePrincipal = p, acePermissions = pe, aceInheritance = inh\<rparr>)))))"

definition PoolCreatePayload :: "json \<Rightarrow> (string \<times> ZfsPool.CreateSpec) result" where
  "PoolCreatePayload = json_struct (\<lambda>m. bindE (str_field ''name'' m) (\<lambda>name. bindE (json_pool_spec (member ''spec'' m)) (\<lambda>spec. Inr (name, spec))))"

definition PoolDestroyPayload :: "json \<Rightarrow> (string) result" where
  "PoolDestroyPayload = json_struct (\<lambda>m. bindE (str_field ''name'' m) (\<lambda>name. Inr name))"

definition PoolScrubPayload :: "json \<Rightarrow> (string \<times> string) result" where
  "PoolScrubPayload = json_struct (\<lambda>m. bindE (str_field ''name'' m) (\<lambda>name. bindE (str_field ''action'' m) (\<lambda>action. Inr (name, action))))"

definition DatasetCreatePayload :: "json \<Rightarrow> (ZfsDataset.CreateSpec) result" where
  "DatasetCreatePayload = json_struct (\<lambda>m. bindE (json_dataset_spec (member ''spec'' m)) (\<lambda>spec. Inr spec))"

definition DatasetSetPayload :: "json \<Rightarrow> (string \<times> props) result" where
  "DatasetSetPayload = json_struct (\<lambda>m. bindE (str_field ''name'' m) (\<lambda>name. bindE (json_map (member ''properties'' m)) (\<lambda>properties. Inr (name, properties))))"

definition DatasetDestroyPayload :: "json \<Rightarrow> (string \<times> bool) result" where
  "DatasetDestroyPayload = json_struct (\<lambda>m. bindE (str_field ''name'' m) (\<lambda>name. bindE (bool_field ''recursive'' m) (\<lambda>recursive. Inr (name, recursive))))"

definition SnapshotCreatePayload :: "json \<Rightarrow> (string \<times> string \<times> bool) result" where
  "SnapshotCreatePayload = json_struct (\<lambda>m. bindE (str_field ''dataset'' m) (\<lambda>dataset. bindE (str_field ''shortName'' m) (\<lambda>shortName. bindE (bool_field ''recursive'' m) (\<lambda>recursive. Inr (dataset, shortName, recursive)))))"

definition SnapshotDestroyPayload :: "json \<Rightarrow> (string) result" where
  "SnapshotDestroyPayload = json_struct (\<lambda>m. bindE (str_field ''name'' m) (\<lambda>name. Inr name))"

definition SnapshotRollbackPayload :: "json \<Rightarrow> (string) result" where
  "SnapshotRollbackPayload = json_struct (\<lambda>m. bindE (str_field ''snapshot'' m) (\<lambda>snapshot. Inr snapshot))"

definition PoolReplacePayload :: "json \<Rightarrow> (string \<times> string \<times> string) result" where
  "PoolReplacePayload = json_struct (\<lambda>m. bindE (str_field ''name'' m) (\<lambda>name. bindE (str_field ''oldDisk'' m) (\<lambda>oldDisk. bindE (str_field ''newDisk'' m) (\<lambda>newDisk. Inr (name, oldDisk, newDisk)))))"

definition PoolOfflinePayload :: "json \<Rightarrow> (string \<times> string \<times> bool) result" where
  "PoolOfflinePayload = json_struct (\<lambda>m. bindE (str_field ''name'' m) (\<lambda>name. bindE (str_field ''disk'' m) (\<lambda>disk. bindE (bool_field ''temporary'' m) (\<lambda>temporary. Inr (name, disk, temporary)))))"

definition PoolOnlinePayload :: "json \<Rightarrow> (string \<times> string) result" where
  "PoolOnlinePayload = json_struct (\<lambda>m. bindE (str_field ''name'' m) (\<lambda>name. bindE (str_field ''disk'' m) (\<lambda>disk. Inr (name, disk))))"

definition PoolClearPayload :: "json \<Rightarrow> (string \<times> string) result" where
  "PoolClearPayload = json_struct (\<lambda>m. bindE (str_field ''name'' m) (\<lambda>name. bindE (str_field ''disk'' m) (\<lambda>disk. Inr (name, disk))))"

definition PoolAttachPayload :: "json \<Rightarrow> (string \<times> string \<times> string) result" where
  "PoolAttachPayload = json_struct (\<lambda>m. bindE (str_field ''name'' m) (\<lambda>name. bindE (str_field ''existing'' m) (\<lambda>existing. bindE (str_field ''newDisk'' m) (\<lambda>newDisk. Inr (name, existing, newDisk)))))"

definition PoolDetachPayload :: "json \<Rightarrow> (string \<times> string) result" where
  "PoolDetachPayload = json_struct (\<lambda>m. bindE (str_field ''name'' m) (\<lambda>name. bindE (str_field ''disk'' m) (\<lambda>disk. Inr (name, disk))))"

definition PoolAddPayload :: "json \<Rightarrow> (string \<times> AddSpec) result" where
  "PoolAddPayload = json_struct (\<lambda>m. bindE (str_field ''name'' m) (\<lambda>name. bindE (json_add_spec (member ''spec'' m)) (\<lambda>spec. Inr (name, spec))))"

definition PoolExportPayload :: "json \<Rightarrow> (string \<times> bool) result" where
  "PoolExportPayload = json_struct (\<lambda>m. bindE (str_field ''name'' m) (\<lambda>name. bindE (bool_field ''force'' m) (\<lambda>force. Inr (name, force))))"

definition PoolImportPayload :: "json \<Rightarrow> (string) result" where
  "PoolImportPayload = json_struct (\<lambda>m. bindE (str_field ''name'' m) (\<lambda>name. Inr name))"

definition DatasetRenamePayload :: "json \<Rightarrow> (string \<times> string \<times> bool) result" where
  "DatasetRenamePayload = json_struct (\<lambda>m. bindE (str_field ''oldName'' m) (\<lambda>oldName. bindE (str_field ''newName'' m) (\<lambda>newName. bindE (bool_field ''recursive'' m) (\<lambda>recursive. Inr (oldName, newName, recursive)))))"

definition DatasetClonePayload :: "json \<Rightarrow> (string \<times> string \<times> props) result" where
  "DatasetClonePayload = json_struct (\<lambda>m. bindE (str_field ''snapshot'' m) (\<lambda>snapshot. bindE (str_field ''target'' m) (\<lambda>target. bindE (json_map (member ''properties'' m)) (\<lambda>properties. Inr (snapshot, target, properties)))))"

definition DatasetPromotePayload :: "json \<Rightarrow> (string) result" where
  "DatasetPromotePayload = json_struct (\<lambda>m. bindE (str_field ''name'' m) (\<lambda>name. Inr name))"

definition DatasetLoadKeyPayload :: "json \<Rightarrow> (string \<times> string \<times> bool) result" where
  "DatasetLoadKeyPayload = json_struct (\<lambda>m. bindE (str_field ''name'' m) (\<lambda>name. bindE (str_field ''keylocation'' m) (\<lambda>keylocation. bindE (bool_field ''recursive'' m) (\<lambda>recursive. Inr (name, keylocation, recursive)))))"

definition DatasetUnloadKeyPayload :: "json \<Rightarrow> (string \<times> bool) result" where
  "DatasetUnloadKeyPayload = json_struct (\<lambda>m. bindE (str_field ''name'' m) (\<lambda>name. bindE (bool_field ''recursive'' m) (\<lambda>recursive. Inr (name, recursive))))"

definition DatasetChangeKeyPayload :: "json \<Rightarrow> (string \<times> props) result" where
  "DatasetChangeKeyPayload = json_struct (\<lambda>m. bindE (str_field ''name'' m) (\<lambda>name. bindE (json_map (member ''properties'' m)) (\<lambda>properties. Inr (name, properties))))"

definition PoolTrimPayload :: "json \<Rightarrow> (string \<times> string \<times> string) result" where
  "PoolTrimPayload = json_struct (\<lambda>m. bindE (str_field ''name'' m) (\<lambda>name. bindE (str_field ''action'' m) (\<lambda>action. bindE (str_field ''disk'' m) (\<lambda>disk. Inr (name, action, disk)))))"

definition PoolSetPropsPayload :: "json \<Rightarrow> (string \<times> props) result" where
  "PoolSetPropsPayload = json_struct (\<lambda>m. bindE (str_field ''name'' m) (\<lambda>name. bindE (json_map (member ''properties'' m)) (\<lambda>properties. Inr (name, properties))))"

definition DatasetBookmarkPayload :: "json \<Rightarrow> (string \<times> string) result" where
  "DatasetBookmarkPayload = json_struct (\<lambda>m. bindE (str_field ''snapshot'' m) (\<lambda>snapshot. bindE (str_field ''bookmark'' m) (\<lambda>bookmark. Inr (snapshot, bookmark))))"

definition DatasetDestroyBookmarkPayload :: "json \<Rightarrow> (string) result" where
  "DatasetDestroyBookmarkPayload = json_struct (\<lambda>m. bindE (str_field ''bookmark'' m) (\<lambda>bookmark. Inr bookmark))"

definition SnapshotHoldPayload :: "json \<Rightarrow> (string \<times> string \<times> bool) result" where
  "SnapshotHoldPayload = json_struct (\<lambda>m. bindE (str_field ''snapshot'' m) (\<lambda>snapshot. bindE (str_field ''tag'' m) (\<lambda>tag. bindE (bool_field ''recursive'' m) (\<lambda>recursive. Inr (snapshot, tag, recursive)))))"

definition SnapshotReleasePayload :: "json \<Rightarrow> (string \<times> string \<times> bool) result" where
  "SnapshotReleasePayload = json_struct (\<lambda>m. bindE (str_field ''snapshot'' m) (\<lambda>snapshot. bindE (str_field ''tag'' m) (\<lambda>tag. bindE (bool_field ''recursive'' m) (\<lambda>recursive. Inr (snapshot, tag, recursive)))))"

definition PoolCheckpointPayload :: "json \<Rightarrow> (string) result" where
  "PoolCheckpointPayload = json_struct (\<lambda>m. bindE (str_field ''name'' m) (\<lambda>name. Inr name))"

definition PoolDiscardCheckpointPayload :: "json \<Rightarrow> (string) result" where
  "PoolDiscardCheckpointPayload = json_struct (\<lambda>m. bindE (str_field ''name'' m) (\<lambda>name. Inr name))"

definition PoolUpgradePayload :: "json \<Rightarrow> (string \<times> bool) result" where
  "PoolUpgradePayload = json_struct (\<lambda>m. bindE (str_field ''name'' m) (\<lambda>name. bindE (bool_field ''all'' m) (\<lambda>all. Inr (name, all))))"

definition PoolReguidPayload :: "json \<Rightarrow> (string) result" where
  "PoolReguidPayload = json_struct (\<lambda>m. bindE (str_field ''name'' m) (\<lambda>name. Inr name))"

definition DatasetSetACLPayload :: "json \<Rightarrow> (string \<times> ACE list) result" where
  "DatasetSetACLPayload = json_struct (\<lambda>m. bindE (str_field ''path'' m) (\<lambda>path. bindE (json_list json_ace (member ''aces'' m)) (\<lambda>aces. Inr (path, aces))))"

definition DatasetAppendACEPayload :: "json \<Rightarrow> (string \<times> ACE) result" where
  "DatasetAppendACEPayload = json_struct (\<lambda>m. bindE (str_field ''path'' m) (\<lambda>path. bindE (json_ace (member ''ace'' m)) (\<lambda>ace. Inr (path, ace))))"

definition DatasetRemoveACEPayload :: "json \<Rightarrow> (string \<times> int) result" where
  "DatasetRemoveACEPayload = json_struct (\<lambda>m. bindE (str_field ''path'' m) (\<lambda>path. bindE (json_int (member ''index'' m)) (\<lambda>index. Inr (path, index))))"

subsection \<open>Dependencies\<close>

record 'w zdeps = "'w deps" +
  zRun :: "'w runner"
  zpoolBin :: string
  zfsBin :: string
  zTemp :: "'w tempfs"

type_synonym 'w handler = "'w zdeps \<Rightarrow> task \<Rightarrow> 'w wstate \<Rightarrow> error option \<times> 'w wstate"

subsection \<open>Handlers\<close>

definition handlePoolCreate :: "'w handler" where
  "handlePoolCreate d = handle d PoolCreatePayload (\<lambda>(name, spec). pool_Create (zRun d) (zpoolBin d) spec)"

definition handlePoolDestroy :: "'w handler" where
  "handlePoolDestroy d = handle d PoolDestroyPayload (\<lambda>name. pool_Destroy (zRun d) (zpoolBin d) name)"

definition handlePoolScrub :: "'w handler" where
  "handlePoolScrub d = handle d PoolScrubPayload (\<lambda>(name, action). pool_Scrub (zRun d) (zpoolBin d) name action)"

definition handleDatasetCreate :: "'w handler" where
  "handleDatasetCreate d = handle d DatasetCreatePayload (\<lambda>spec. dataset_Create (zRun d) (zfsBin d) spec)"

definition handleDatasetSet :: "'w handler" where
  "handleDatasetSet d = handle d DatasetSetPayload (\<lambda>(name, properties). dataset_SetProps (zRun d) (zfsBin d) name properties)"

definition handleDatasetDestroy :: "'w handler" where
  "handleDatasetDestroy d = handle d DatasetDestroyPayload (\<lambda>(name, recursive). dataset_Destroy (zRun d) (zfsBin d) name recursive)"

definition handleSnapshotCreate :: "'w handler" where
  "handleSnapshotCreate d = handle d SnapshotCreatePayload (\<lambda>(dataset, shortName, recursive). snapshot_Create (zRun d) (zfsBin d) dataset shortName recursive)"

definition handleSnapshotDestroy :: "'w handler" where
  "handleSnapshotDestroy d = handle d SnapshotDestroyPayload (\<lambda>name. snapshot_Destroy (zRun d) (zfsBin d) name)"

definition handleSnapshotRollback :: "'w handler" where
  "handleSnapshotRollback d = handle d SnapshotRollbackPayload (\<lambda>snapshot. snapshot_Rollback (zRun d) (zfsBin d) snapshot)"

definition handlePoolReplace :: "'w handler" where
  "handlePoolReplace d = handle d PoolReplacePayload (\<lambda>(name, oldDisk, newDisk). pool_Replace (zRun d) (zpoolBin d) name oldDisk newDisk)"

definition handlePoolOffline :: "'w handler" where
  "handlePoolOffline d = handle d PoolOfflinePayload (\<lambda>(name, disk, temporary). pool_Offline (zRun d) (zpoolBin d) name disk temporary)"

definition handlePoolOnline :: "'w handler" where
  "handlePoolOnline d = handle d PoolOnlinePayload (\<lambda>(name, disk). pool_Online (zRun d) (zpoolBin d) name disk)"

definition handlePoolClear :: "'w handler" where
  "handlePoolClear d = handle d PoolClearPayload (\<lambda>(name, disk). pool_Clear (zRun d) (zpoolBin d) name disk)"

definition handlePoolAttach :: "'w handler" where
  "handlePoolAttach d = handle d PoolAttachPayload (\<lambda>(name, existing, newDisk). pool_Attach (zRun d) (zpoolBin d) name existing newDisk)"

definition handlePoolDetach :: "'w handler" where
  "handlePoolDetach d = handle d PoolDetachPayload (\<lambda>(name, disk). pool_Detach (zRun d) (zpoolBin d) name disk)"

definition handlePoolAdd :: "'w handler" where
  "handlePoolAdd d = handle d PoolAddPayload (\<lambda>(name, spec). pool_Add (zRun d) (zpoolBin d) name spec)"

definition handlePoolExport :: "'w handler" where
  "handlePoolExport d = handle d PoolExportPayload (\<lambda>(name, force). pool_Export (zRun d) (zpoolBin d) name force)"

definition handlePoolImport :: "'w handler" where
  "handlePoolImport d = handle d PoolImportPayload (\<lambda>name. pool_Import (zRun d) (zpoolBin d) name)"

definition handleDatasetRename :: "'w handler" where
  "handleDatasetRename d = handle d DatasetRenamePayload (\<lambda>(oldName, newName, recursive). dataset_Rename (zRun d) (zfsBin d) oldName newName recursive)"

definition handleDatasetClone :: "'w handler" where
  "handleDatasetClone d = handle d DatasetClonePayload (\<lambda>(snapshot, target, properties). dataset_Clone (zRun d) (zfsBin d) snapshot target properties)"

definition handleDatasetPromote :: "'w handler" where
  "handleDatasetPromote d = handle d DatasetPromotePayload (\<lambda>name. dataset_Promote (zRun d) (zfsBin d) name)"

definition handleDatasetLoadKey :: "'w handler" where
  "handleDatasetLoadKey d = handle d DatasetLoadKeyPayload (\<lambda>(name, keylocation, recursive). dataset_LoadKey (zRun d) (zfsBin d) name keylocation recursive)"

definition handleDatasetUnloadKey :: "'w handler" where
  "handleDatasetUnloadKey d = handle d DatasetUnloadKeyPayload (\<lambda>(name, recursive). dataset_UnloadKey (zRun d) (zfsBin d) name recursive)"

definition handleDatasetChangeKey :: "'w handler" where
  "handleDatasetChangeKey d = handle d DatasetChangeKeyPayload (\<lambda>(name, properties). dataset_ChangeKey (zRun d) (zfsBin d) name properties)"

definition handlePoolTrim :: "'w handler" where
  "handlePoolTrim d = handle d PoolTrimPayload (\<lambda>(name, action, disk).
     if action = ''start'' then pool_Trim (zRun d) (zpoolBin d) name TrimStart disk
     else if action = ''stop'' then pool_Trim (zRun d) (zpoolBin d) name TrimStop disk
     else (\<lambda>w. (Some (Errorf ''invalid trim action %q''), w)))"

definition handlePoolSetProps :: "'w handler" where
  "handlePoolSetProps d = handle d PoolSetPropsPayload (\<lambda>(name, properties). pool_SetProps (zRun d) (zpoolBin d) name properties)"

definition handleDatasetBookmark :: "'w handler" where
  "handleDatasetBookmark d = handle d DatasetBookmarkPayload (\<lambda>(snapshot, bookmark). dataset_Bookmark (zRun d) (zfsBin d) snapshot bookmark)"

definition handleDatasetDestroyBookmark :: "'w handler" where
  "handleDatasetDestroyBookmark d = handle d DatasetDestroyBookmarkPayload (\<lambda>bookmark. dataset_DestroyBookmark (zRun d) (zfsBin d) bookmark)"

definition handleSnapshotHold :: "'w handler" where
  "handleSnapshotHold d = handle d SnapshotHoldPayload (\<lambda>(snapshot, tag, recursive). snapshot_Hold (zRun d) (zfsBin d) snapshot tag recursive)"

definition handleSnapshotRelease :: "'w handler" where
  "handleSnapshotRelease d = handle d SnapshotReleasePayload (\<lambda>(snapshot, tag, recursive). snapshot_Release (zRun d) (zfsBin d) snapshot tag recursive)"

definition handlePoolCheckpoint :: "'w handler" where
  "handlePoolCheckpoint d = handle d PoolCheckpointPayload (\<lambda>name. pool_Checkpoint (zRun d) (zpoolBin d) name)"

definition handlePoolDiscardCheckpoint :: "'w handler" where
  "handlePoolDiscardCheckpoint d = handle d PoolDiscardCheckpointPayload (\<lambda>name. pool_DiscardCheckpoint (zRun d) (zpoolBin d) name)"

definition handlePoolUpgrade :: "'w handler" where
  "handlePoolUpgrade d = handle d PoolUpgradePayload (\<lambda>(name, all). pool_Upgrade (zRun d) (zpoolBin d) name all)"

definition handlePoolReguid :: "'w handler" where
  "handlePoolReguid d = handle d PoolReguidPayload (\<lambda>name. pool_Reguid (zRun d) (zpoolBin d) name)"

definition handleDatasetSetACL :: "'w handler" where
  "handleDatasetSetACL d = handle d DatasetSetACLPayload (\<lambda>(path, aces). dataset_SetACL (zTemp d) (zRun d) path aces)"

definition handleDatasetAppendACE :: "'w handler" where
  "handleDatasetAppendACE d = handle d DatasetAppendACEPayload (\<lambda>(path, ace). dataset_AppendACE (zRun d) path ace)"

definition handleDatasetRemoveACE :: "'w handler" where
  "handleDatasetRemoveACE d = handle d DatasetRemoveACEPayload (\<lambda>(path, index). dataset_RemoveACE (zRun d) path index)"

text \<open>The handlers by task type.\<close>

definition NewServeMux :: "'w zdeps \<Rightarrow> (string \<times> (task \<Rightarrow> 'w wstate \<Rightarrow> error option \<times> 'w wstate)) list" where
  "NewServeMux d =
     [(''pool.create'', handlePoolCreate d),
      (''pool.destroy'', handlePoolDestroy d),
      (''pool.scrub'', handlePoolScrub d),
      (''dataset.create'', handleDatasetCreate d),
      (''dataset.set'', handleDatasetSet d),
      (''dataset.destroy'', handleDatasetDestroy d),
      (''snapshot.create'', handleSnapshotCreate d),
      (''snapshot.destroy'', handleSnapshotDestroy d),
      (''snapshot.rollback'', handleSnapshotRollback d),
      (''pool.replace'', handlePoolReplace d),
      (''pool.offline'', handlePoolOffline d),
      (''pool.online'', handlePoolOnline d),
      (''pool.clear'', handlePoolClear d),
      (''pool.attach'', handlePoolAttach d),
      (''pool.detach'', handlePoolDetach d),
      (''pool.add'', handlePoolAdd d),
      (''pool.export'', handlePoolExport d),
      (''pool.import'', handlePoolImport d),
      (''dataset.rename'', handleDatasetRename d),
      (''dataset.clone'', handleDatasetClone d),
      (''dataset.promote'', handleDatasetPromote d),
      (''dataset.load_key'', handleDatasetLoadKey d),
      (''dataset.unload_key'', handleDatasetUnloadKey d),
      (''dataset.change_key'', handleDatasetChangeKey d),
      (''pool.trim'', handlePoolTrim d),
      (''pool.set_props'', handlePoolSetProps d),
      (''dataset.bookmark'', handleDatasetBookmark d),
      (''dataset.destroy_bookmark'', handleDatasetDestroyBookmark d),
      (''snapshot.hold'', handleSnapshotHold d),
      (''snapshot.release'', handleSnapshotRelease d),
      (''pool.checkpoint'', handlePoolCheckpoint d),
      (''pool.discard_checkpoint'', handlePoolDiscardCheckpoint d),
      (''pool.upgrade'', handlePoolUpgrade d),
      (''pool.reguid'', handlePoolReguid d),
      (''dataset.acl.set'', handleDatasetSetACL d),
      (''dataset.acl.append'', handleDatasetAppendACE d),
      (''dataset.acl.remove'', handleDatasetRemoveACE d)]"


subsection \<open>The contract of the handlers\<close>

text \<open>A handler rejects a task it cannot read without doing anything, or it belongs to one job: it
  publishes its outcome once and touches no row of another job and no row that is closed.\<close>

definition touches :: "string \<Rightarrow> jobs_table \<Rightarrow> jobs_table \<Rightarrow> bool" where
  "touches i tbl tbl' \<longleftrightarrow> (\<exists>f. tbl' = map (\<lambda>j. if jobID j = i \<and> open_row j then f j else j) tbl)"

lemma touchesI: "tbl' = map (\<lambda>j. if jobID j = i \<and> open_row j then f j else j) tbl \<Longrightarrow> touches i tbl tbl'"
  unfolding touches_def by (rule exI)

definition runs_job :: "(task \<Rightarrow> 'w wstate \<Rightarrow> error option \<times> 'w wstate) \<Rightarrow> bool" where
  "runs_job h \<longleftrightarrow> (\<forall>t s. case h t s of (err, s') \<Rightarrow>
     s' = s \<and> err \<noteq> None \<or>
     (\<exists>i. wsPublished s' = wsPublished s @ [(''job:'' @ i @ '':update'', if err = None then ''succeeded'' else ''failed'')] \<and>
          touches i (wsJobs s) (wsJobs s')))"

lemma handle_all_rows:
  assumes "decode d unmarshal t = Inr (i, p)"
  shows "touches i (wsJobs s) (wsJobs (snd (handle d unmarshal op t s)))"
proof -
  obtain err h where o: "op p (wsHost s) = (err, h)" by (cases "op p (wsHost s)")
  obtain st se c where oc: "job_outcome err = (st, se, c)" by (cases "job_outcome err")
  show ?thesis
  proof (cases "dFault d ''MarkJobRunning''"; cases "dFault d ''MarkJobFinished''")
    assume "dFault d ''MarkJobRunning'' = None" "dFault d ''MarkJobFinished'' = None"
    from handle_rows[where p = p and op = op and s = s, OF assms o this] show ?thesis by (rule touchesI)
  next
    fix e assume "dFault d ''MarkJobRunning'' = None" "dFault d ''MarkJobFinished'' = Some e"
    then have "wsJobs (snd (handle d unmarshal op t s)) = MarkJobRunning (dNow d (wsHost s)) i (wsJobs s)"
      using assms o oc by (simp add: handle_def markRunning_def finish_def)
    then have "wsJobs (snd (handle d unmarshal op t s)) =
        map (\<lambda>j. if jobID j = i \<and> open_row j then started_row (dNow d (wsHost s)) j else j) (wsJobs s)"
      by (auto simp: MarkJobRunning_def update_where_def open_row_def started_row_def)
    then show ?thesis by (rule touchesI)
  next
    fix e assume "dFault d ''MarkJobRunning'' = Some e" "dFault d ''MarkJobFinished'' = None"
    then have "wsJobs (snd (handle d unmarshal op t s)) =
        map (\<lambda>j. if jobID j = i \<and> open_row j
                 then (if jobState j = ''running'' then finished_row (dNow d h) err j else j) else j) (wsJobs s)"
      using assms o oc
      by (auto simp: handle_def markRunning_def finish_def MarkJobFinished_def update_where_def open_row_def finished_row_def Let_def)
    then show ?thesis by (rule touchesI)
  next
    fix e e' assume "dFault d ''MarkJobRunning'' = Some e" "dFault d ''MarkJobFinished'' = Some e'"
    then have "wsJobs (snd (handle d unmarshal op t s)) = map (\<lambda>j. if jobID j = i \<and> open_row j then j else j) (wsJobs s)"
      using assms o oc by (simp add: handle_def markRunning_def finish_def)
    then show ?thesis by (rule touchesI)
  qed
qed

lemma handle_publishes:
  assumes "decode d unmarshal t = Inr (i, p)"
  shows "wsPublished (snd (handle d unmarshal op t s)) = wsPublished s @
    [(''job:'' @ i @ '':update'', if fst (handle d unmarshal op t s) = None then ''succeeded'' else ''failed'')]"
  using assms
  by (auto simp: handle_def finish_def job_outcome_def Let_def split: prod.splits option.splits)

lemma handle_runs_job: "runs_job (handle d unmarshal op)"
  unfolding runs_job_def
proof (intro allI)
  fix t s
  show "case handle d unmarshal op t s of (err, s') \<Rightarrow> s' = s \<and> err \<noteq> None \<or>
     (\<exists>i. wsPublished s' = wsPublished s @ [(''job:'' @ i @ '':update'', if err = None then ''succeeded'' else ''failed'')] \<and>
          touches i (wsJobs s) (wsJobs s'))"
  proof (cases "decode d unmarshal t")
    case (Inl e)
    then show ?thesis by (simp add: handle_undecodable)
  next
    case (Inr x)
    then obtain i p where D: "decode d unmarshal t = Inr (i, p)" by (cases x) auto
    show ?thesis
      using handle_publishes[OF D, of op s] handle_all_rows[OF D, of s op] unfolding split_beta by blast
  qed
qed

lemmas handler_defs =
  handlePoolCreate_def handlePoolDestroy_def handlePoolScrub_def handleDatasetCreate_def handleDatasetSet_def handleDatasetDestroy_def handleSnapshotCreate_def handleSnapshotDestroy_def handleSnapshotRollback_def handlePoolReplace_def handlePoolOffline_def handlePoolOnline_def handlePoolClear_def handlePoolAttach_def handlePoolDetach_def handlePoolAdd_def handlePoolExport_def handlePoolImport_def handleDatasetRename_def handleDatasetClone_def handleDatasetPromote_def handleDatasetLoadKey_def handleDatasetUnloadKey_def handleDatasetChangeKey_def handlePoolTrim_def handlePoolSetProps_def handleDatasetBookmark_def handleDatasetDestroyBookmark_def handleSnapshotHold_def handleSnapshotRelease_def handlePoolCheckpoint_def handlePoolDiscardCheckpoint_def handlePoolUpgrade_def handlePoolReguid_def handleDatasetSetACL_def handleDatasetAppendACE_def handleDatasetRemoveACE_def


subsection \<open>Cancelling\<close>

definition destroy_task :: "string \<Rightarrow> string \<Rightarrow> task" where
  "destroy_task i name =
     \<lparr>taskType = ''pool.destroy'', taskPayload = encodeTaskBody i (JObj [(''name'', JStr name)])\<rparr>"

lemma decode_destroy_task:
  assumes "dUUID d i = Inr i"
  shows "decode d PoolDestroyPayload (destroy_task i name) = Inr (i, name)"
proof -
  have f: "fold_name ''payload'' = ''payload''" "fold_name ''jobId'' = ''jobid''" "fold_name ''name'' = ''name''"
    by code_simp+
  show ?thesis using assms f
    by (simp add: decode_def destroy_task_def encodeTaskBody_def PoolDestroyPayload_def str_field_def member_def EqualFold_def)
qed

lemma GetJob_map:
  "(\<And>j. jobID j = i \<Longrightarrow> jobID (f j) = i) \<Longrightarrow> (\<And>j. jobID j \<noteq> i \<Longrightarrow> f j = j) \<Longrightarrow>
     GetJob i (map f tbl) = map_option f (GetJob i tbl)"
  by (induction tbl) (auto simp: GetJob_def)

lemma GetJob_id: "GetJob i tbl = Some j \<Longrightarrow> jobID j = i"
  by (auto simp: GetJob_def find_Some_iff)

lemma GetJob_unique: "wf_table tbl \<Longrightarrow> GetJob i tbl = Some j \<Longrightarrow> k \<in> set tbl \<Longrightarrow> jobID k = i \<Longrightarrow> k = j"
  by (induction tbl) (auto simp: GetJob_def wf_table_def split: if_splits dest: imageI[where f = jobID])

definition cancel :: "time \<Rightarrow> string \<Rightarrow> Job \<Rightarrow> Job" where
  "cancel now i j = (if jobID j = i \<and> (jobState j = ''queued'' \<or> jobState j = ''running'')
     then j\<lparr>jobState := ''cancelled'', jobFinishedAt := Some now\<rparr> else j)"

lemma CancelJob_cancel: "CancelJob now i tbl = map (cancel now i) tbl"
  by (simp add: CancelJob_def update_where_def cancel_def)

lemma cancel_id: "jobID (cancel now i j) = jobID j"
  by (simp add: cancel_def)

text \<open>
  Cancelling a job that is still queued does not keep it from running: the task stays in the queue, the
  worker ignores that its row is no longer queued, and the pool is destroyed although the row
  says cancelled before and after.
\<close>

theorem cancelled_destroy_still_runs:
  assumes "dUUID d i = Inr i" and "ValidatePoolName name = None" and "zRun d = logged run"
    and "wsHost s = (cmds, h)" and "wf_table (wsJobs s)" and "GetJob i (wsJobs s) = Some j" and "jobState j = ''queued''"
  shows "case handlePoolDestroy d (destroy_task i name) (s\<lparr>wsJobs := CancelJob now i (wsJobs s)\<rparr>) of (err, s') \<Rightarrow>
    fst (wsHost s') = cmds @ [(zpoolBin d, [''destroy'', ''-f'', name])] \<and>
    map_option jobState (GetJob i (wsJobs s')) = Some ''cancelled''"
proof -
  let ?c = "CancelJob now i (wsJobs s)" and ?t = "destroy_task i name"
  let ?s = "s\<lparr>wsJobs := ?c\<rparr>"
  obtain err s' where H: "handlePoolDestroy d ?t ?s = (err, s')" by (cases "handlePoolDestroy d ?t ?s")
  note D = decode_destroy_task[OF assms(1), of name]
  have "s' = snd (handle d PoolDestroyPayload (\<lambda>name. pool_Destroy (zRun d) (zpoolBin d) name) ?t ?s)"
    using H by (simp add: handlePoolDestroy_def)
  then obtain f where rows: "wsJobs s' = map (\<lambda>j. if jobID j = i \<and> open_row j then f j else j) ?c"
    using handle_all_rows[OF D, of ?s "\<lambda>name. pool_Destroy (zRun d) (zpoolBin d) name"] by (auto simp: touches_def)
  have c: "GetJob i ?c = Some (j\<lparr>jobState := ''cancelled'', jobFinishedAt := Some now\<rparr>)"
    using assms(6,7) GetJob_id[OF assms(6)] GetJob_map[of i "cancel now i" "wsJobs s"]
    by (simp add: CancelJob_cancel cancel_id) (simp add: cancel_def)
  have "\<not> open_row k" if k: "k \<in> set ?c" "jobID k = i" for k
  proof -
    obtain k0 where k0: "k0 \<in> set (wsJobs s)" "k = cancel now i k0"
      using k(1) unfolding CancelJob_cancel by auto
    then have "k0 = j" using GetJob_unique[OF assms(5,6) k0(1)] k(2) by (simp add: cancel_id)
    then show ?thesis using k0(2) assms(7) GetJob_id[OF assms(6)] by (simp add: cancel_def open_row_def)
  qed
  then have "map (\<lambda>j. if jobID j = i \<and> open_row j then f j else j) ?c = ?c" by (intro map_idI) auto
  then have "GetJob i (wsJobs s') = Some (j\<lparr>jobState := ''cancelled'', jobFinishedAt := Some now\<rparr>)"
    using rows c by simp
  moreover have "fst (wsHost s') = cmds @ [(zpoolBin d, [''destroy'', ''-f'', name])]"
    using handle_effect(2)[OF D, of "\<lambda>name. pool_Destroy (zRun d) (zpoolBin d) name" ?s] H assms(2-4)
      run_args_logged[of run "zpoolBin d" "Inr [''destroy'', ''-f'', name]" "(cmds, h)"]
    by (simp add: handlePoolDestroy_def pool_Destroy_def ZfsPool.destroyArgs_def)
  ultimately show ?thesis using H by simp
qed


definition demo_deps :: "(cmdline list \<times> unit) zdeps" where
  "demo_deps = \<lparr>dUUID = Inr, dNow = (\<lambda>h. 9), dFault = (\<lambda>c. None), zRun = logged (\<lambda>bin args w. (([], None), w)),
     zpoolBin = ''/sbin/zpool'', zfsBin = ''/sbin/zfs'',
     zTemp = \<lparr>CreateTemp = (\<lambda>w. (Inr ''/tmp/a'', w)), WriteFile = (\<lambda>f b w. (None, w)), CloseFile = (\<lambda>f w. (None, w)),
       RemoveFile = (\<lambda>f w. w)\<rparr>\<rparr>"

definition demo_queued :: "(cmdline list \<times> unit) wstate" where
  "demo_queued = \<lparr>wsJobs = [new_row 1 ''u1'' ''pool.destroy'' ''tank'' [] ''r1''], wsPublished = [], wsHost = ([], ())\<rparr>"

theorem cancelled_destroy_still_runs_witness:
  "case handlePoolDestroy demo_deps (destroy_task ''u1'' ''tank'') (demo_queued\<lparr>wsJobs := CancelJob 5 ''u1'' (wsJobs demo_queued)\<rparr>) of
     (err, s') \<Rightarrow> fst (wsHost s') = [(''/sbin/zpool'', [''destroy'', ''-f'', ''tank''])] \<and>
       map_option jobState (GetJob ''u1'' (wsJobs s')) = Some ''cancelled''"
proof -
  have v: "ValidatePoolName ''tank'' = None" by code_simp
  show ?thesis
    using cancelled_destroy_still_runs[of demo_deps "''u1''" "''tank''" "\<lambda>bin args w. (([], None), w)" demo_queued "[]" "()"
        "new_row 1 ''u1'' ''pool.destroy'' ''tank'' [] ''r1''" 5] v
    by (simp add: demo_deps_def demo_queued_def GetJob_def wf_table_def wf_new_row new_row_def[of 1 "''u1''"] row_defs)
qed

text \<open>A command that fails: its standard error and exit code end up in the row.\<close>

definition busy_pool :: "string \<Rightarrow> cmdline list \<times> unit \<Rightarrow> error option \<times> cmdline list \<times> unit" where
  "busy_pool name w = (Some (HostError ''/sbin/zpool'' [''destroy'', ''-f'', name] 1 ''pool is busy''), w)"


end
