(* ===== verification/ScrubPolicy.thy ===== *)
theory ScrubPolicy
  imports Cron JobsZfs ZfsPoolStatus
begin

text \<open>
  \<^verbatim>\<open>internal/scrubpolicy/scrubpolicy.go\<close> and \<open>internal/jobs/scrub_task.go\<close>: the policies that start scrubs. The
  queries, the pools and the dispatcher are the records of functions the manager is given; the pool
  manager of \<^verbatim>\<open>internal/host/zfs/pool\<close> and the dispatcher of \<^verbatim>\<open>internal/jobs\<close> are their implementations. A
  tick may hang in the cron engine, so its result is an option. The log lines are left out.
\<close>

subsection \<open>Policies and interfaces\<close>

definition DefaultPolicyName :: string where "DefaultPolicyName = ''monthly-all-pools''"
definition DefaultCron :: string where "DefaultCron = ''0 2 * * 0''"
definition DefaultPriority :: string where "DefaultPriority = ''medium''"

record ScrubPolicy =
  polID :: string
  polName :: string
  polPools :: string
  polCron :: string
  polPriority :: string
  polEnabled :: bool
  polBuiltin :: bool
  polLastFiredAt :: "time option"
  polLastError :: "error option"

record CreateScrubPolicyParams =
  cpName :: string
  cpPools :: string
  cpCron :: string
  cpPriority :: string
  cpEnabled :: bool
  cpBuiltin :: bool

record 'w QueriesAPI =
  qListEnabledScrubPolicies :: "'w \<Rightarrow> ScrubPolicy list result \<times> 'w"
  qGetScrubPolicyByName :: "string \<Rightarrow> 'w \<Rightarrow> ScrubPolicy result \<times> 'w"
  qCreateScrubPolicy :: "CreateScrubPolicyParams \<Rightarrow> 'w \<Rightarrow> ScrubPolicy result \<times> 'w"
  qMarkScrubPolicyFired :: "string \<Rightarrow> time \<Rightarrow> error option \<Rightarrow> 'w \<Rightarrow> error option \<times> 'w"

record 'w PoolsAPI =
  paPoolNames :: "'w \<Rightarrow> string list result \<times> 'w"
  paIsScrubInProgress :: "string \<Rightarrow> 'w \<Rightarrow> bool result \<times> 'w"

type_synonym 'w DispatcherAPI = "DispatchInput \<Rightarrow> 'w \<Rightarrow> string result \<times> 'w"

record 'w Manager =
  smQueries :: "'w QueriesAPI"
  smPools :: "'w PoolsAPI"
  smDispatcher :: "'w DispatcherAPI"
  smNow :: "'w \<Rightarrow> time"
  smTickInterval :: duration
  smLoc :: location
  smMinFireGap :: duration

definition New :: "'w QueriesAPI \<Rightarrow> 'w PoolsAPI \<Rightarrow> 'w DispatcherAPI \<Rightarrow> ('w \<Rightarrow> time) \<Rightarrow> location \<Rightarrow> 'w Manager" where
  "New q pools d now loc =
     \<lparr>smQueries = q, smPools = pools, smDispatcher = d, smNow = now, smTickInterval = 60 * Second, smLoc = loc,
      smMinFireGap = 7 * 24 * Hour\<rparr>"

definition ErrNoRows :: error where "ErrNoRows = Errorf ''no rows in result set''"

definition EnsureDefaultPolicy :: "'w Manager \<Rightarrow> 'w \<Rightarrow> ScrubPolicy result \<times> 'w" where
  "EnsureDefaultPolicy m w =
     (case qGetScrubPolicyByName (smQueries m) DefaultPolicyName w of
        (Inr p, w) \<Rightarrow> (Inr p, w)
      | (Inl e, w) \<Rightarrow>
          if \<not> errors_Is e ErrNoRows then (Inl (Wrapf ''get default policy: %w'' e), w)
          else (case qCreateScrubPolicy (smQueries m)
                  \<lparr>cpName = DefaultPolicyName, cpPools = ''*'', cpCron = DefaultCron, cpPriority = DefaultPriority,
                   cpEnabled = True, cpBuiltin = True\<rparr> w of
                  (Inl e, w) \<Rightarrow> (Inl (Wrapf ''create default policy: %w'' e), w)
                | (Inr p, w) \<Rightarrow> (Inr p, w)))"

subsection \<open>Firing\<close>

text \<open>\<open>PoolScrubPayload\<close> as JSON, and the dispatch of \<open>scrub_task.go\<close>, which the policies write out again.\<close>

definition scrub_payload :: "string \<Rightarrow> string \<Rightarrow> json" where
  "scrub_payload name action = JObj [(''name'', JStr name), (''action'', JStr action)]"

definition DispatchScrub :: "'w DispatcherAPI \<Rightarrow> string \<Rightarrow> string \<Rightarrow> string \<Rightarrow> 'w \<Rightarrow> string result \<times> 'w" where
  "DispatchScrub d name action requestID =
     d \<lparr>diKind = ''pool.scrub'', diTarget = name, diPayload = scrub_payload name action,
        diCommand = (if action = ScrubStop then ''zpool scrub -s '' else ''zpool scrub '') @ name,
        diRequestID = requestID, diUniqueKey = ''pool:'' @ name @ '':scrub''\<rparr>"

definition scrub_input :: "ScrubPolicy \<Rightarrow> string \<Rightarrow> DispatchInput" where
  "scrub_input p name =
     \<lparr>diKind = ''pool.scrub'', diTarget = name, diPayload = scrub_payload name ScrubStart,
      diCommand = ''zpool scrub '' @ name, diRequestID = ''scrubpolicy:'' @ polName p,
      diUniqueKey = ''pool:'' @ name @ '':scrub''\<rparr>"

text \<open>The loop over the pools: whether a job was dispatched, and the first error that is not a duplicate.\<close>

fun fire_pools ::
    "'w Manager \<Rightarrow> ScrubPolicy \<Rightarrow> string list \<Rightarrow> bool \<Rightarrow> error option \<Rightarrow> 'w \<Rightarrow> bool \<times> error option \<times> 'w" where
  "fire_pools m p [] firedAny firstErr w = (firedAny, firstErr, w)"
| "fire_pools m p (name # names) firedAny firstErr w =
     (case paIsScrubInProgress (smPools m) name w of
        (Inl e, w) \<Rightarrow> fire_pools m p names firedAny firstErr w
      | (Inr True, w) \<Rightarrow> fire_pools m p names firedAny firstErr w
      | (Inr False, w) \<Rightarrow>
          (case smDispatcher m (scrub_input p name) w of
             (Inl e, w) \<Rightarrow>
               if errors_Is e ErrDuplicate then fire_pools m p names firedAny firstErr w
               else fire_pools m p names firedAny (case firstErr of None \<Rightarrow> Some e | Some f \<Rightarrow> Some f) w
           | (Inr i, w) \<Rightarrow> fire_pools m p names True firstErr w))"

definition markFired :: "'w Manager \<Rightarrow> string \<Rightarrow> time \<Rightarrow> error option \<Rightarrow> 'w \<Rightarrow> 'w" where
  "markFired m i now err w = snd (qMarkScrubPolicyFired (smQueries m) i now err w)"

definition expandPools :: "'w Manager \<Rightarrow> string \<Rightarrow> 'w \<Rightarrow> string list result \<times> 'w" where
  "expandPools m spec0 w =
     (let spec = TrimSpace spec0
      in if spec = ''*'' \<or> spec = [] then paPoolNames (smPools m) w
         else (Inr (filter (\<lambda>t. t \<noteq> []) (map TrimSpace (Split spec (CHR '','')))), w))"

definition prev_fire :: "ScrubPolicy \<Rightarrow> time" where
  "prev_fire p = (case polLastFiredAt p of None \<Rightarrow> 0 | Some t \<Rightarrow> t)"

text \<open>What happens once the policy is due.\<close>

definition fire_due :: "'w Manager \<Rightarrow> ScrubPolicy \<Rightarrow> time \<Rightarrow> 'w \<Rightarrow> error option \<times> 'w" where
  "fire_due m p now w =
     (case expandPools m (polPools p) w of
        (Inl e, w) \<Rightarrow> (Some (Wrapf ''expand pools %q: %w'' e), w)
      | (Inr pools, w) \<Rightarrow>
          if pools = [] then (None, markFired m (polID p) now None w)
          else (case fire_pools m p pools False None w of
                  (firedAny, firstErr, w) \<Rightarrow>
                    (firstErr, if firedAny \<or> firstErr = None then markFired m (polID p) now firstErr w else w)))"

definition cron_error :: error where
  "cron_error = Errorf ''parse cron %q: %w''"

definition firePolicy :: "'w Manager \<Rightarrow> ScrubPolicy \<Rightarrow> time \<Rightarrow> 'w \<Rightarrow> (error option \<times> 'w) option" where
  "firePolicy m p now w =
     (case ParseCron (polCron p) of
        None \<Rightarrow> None
      | Some (Inl e) \<Rightarrow> Some (Some cron_error, w)
      | Some (Inr expr) \<Rightarrow>
          (case ShouldFireBetween expr (prev_fire p) now (Some (smLoc m)) of
             None \<Rightarrow> None
           | Some False \<Rightarrow> Some (None, w)
           | Some True \<Rightarrow>
               if prev_fire p \<noteq> 0 \<and> Sub now (prev_fire p) < smMinFireGap m then Some (None, w)
               else Some (fire_due m p now w)))"

fun fire_all :: "'w Manager \<Rightarrow> time \<Rightarrow> ScrubPolicy list \<Rightarrow> 'w \<Rightarrow> 'w option" where
  "fire_all m now [] w = Some w"
| "fire_all m now (p # ps) w = (case firePolicy m p now w of None \<Rightarrow> None | Some (e, w) \<Rightarrow> fire_all m now ps w)"

definition Tick :: "'w Manager \<Rightarrow> 'w \<Rightarrow> 'w option" where
  "Tick m w =
     (let now = smNow m w
      in case qListEnabledScrubPolicies (smQueries m) w of
           (Inl e, w) \<Rightarrow> Some w
         | (Inr pols, w) \<Rightarrow> fire_all m now pols w)"

text \<open>\<open>Run\<close> sets the defaults, ticks once, and then once more for every tick of the timer that comes before
  the context is done.\<close>

definition with_defaults :: "'w Manager \<Rightarrow> 'w Manager" where
  "with_defaults m =
     m\<lparr>smTickInterval := (if smTickInterval m \<le> 0 then 60 * Second else smTickInterval m),
       smMinFireGap := (if smMinFireGap m \<le> 0 then 7 * 24 * Hour else smMinFireGap m)\<rparr>"

fun tick_n :: "'w Manager \<Rightarrow> ('w \<Rightarrow> 'w) \<Rightarrow> nat \<Rightarrow> 'w \<Rightarrow> 'w option" where
  "tick_n m wait 0 w = Some w"
| "tick_n m wait (Suc n) w = (case Tick m (wait w) of None \<Rightarrow> None | Some w \<Rightarrow> tick_n m wait n w)"

definition Run :: "'w Manager \<Rightarrow> ('w \<Rightarrow> 'w) \<Rightarrow> nat \<Rightarrow> 'w \<Rightarrow> 'w option" where
  "Run m wait ticks w =
     (case Tick (with_defaults m) w of None \<Rightarrow> None | Some w \<Rightarrow> tick_n (with_defaults m) wait ticks w)"

definition ValidateCron :: "string \<Rightarrow> error option option" where
  "ValidateCron expr = map_option (\<lambda>r. case r of Inl e \<Rightarrow> Some cron_error | Inr c \<Rightarrow> None) (ParseCron expr)"

definition ValidatePriority :: "string \<Rightarrow> error option" where
  "ValidatePriority v =
     (if v = [] \<or> v = ''low'' \<or> v = ''medium'' \<or> v = ''high'' then None
      else Some (Errorf ''priority must be low|medium|high (got %q)''))"


subsection \<open>The table of policies\<close>

definition MarkScrubPolicyFired :: "string \<Rightarrow> time \<Rightarrow> error option \<Rightarrow> ScrubPolicy list \<Rightarrow> ScrubPolicy list" where
  "MarkScrubPolicyFired i now err = map (\<lambda>p. if polID p = i then p\<lparr>polLastFiredAt := Some now, polLastError := err\<rparr> else p)"

definition ListEnabledScrubPolicies :: "ScrubPolicy list \<Rightarrow> ScrubPolicy list" where
  "ListEnabledScrubPolicies = filter polEnabled"

definition GetScrubPolicyByName :: "string \<Rightarrow> ScrubPolicy list \<Rightarrow> ScrubPolicy result" where
  "GetScrubPolicyByName n ps = (case find (\<lambda>p. polName p = n) ps of None \<Rightarrow> Inl ErrNoRows | Some p \<Rightarrow> Inr p)"

definition CreateScrubPolicy :: "string \<Rightarrow> CreateScrubPolicyParams \<Rightarrow> ScrubPolicy list \<Rightarrow> (ScrubPolicy \<times> ScrubPolicy list) result" where
  "CreateScrubPolicy i arg ps =
     (if cpName arg \<in> polName ` set ps then Inl unique_violation
      else let p = \<lparr>polID = i, polName = cpName arg, polPools = cpPools arg, polCron = cpCron arg,
                    polPriority = cpPriority arg, polEnabled = cpEnabled arg, polBuiltin = cpBuiltin arg,
                    polLastFiredAt = None, polLastError = None\<rparr>
           in Inr (p, ps @ [p]))"

subsection \<open>The services of the host\<close>

text \<open>
  A world in which the database answers: the replies of \<open>zpool\<close> to queries, which change nothing, the
  jobs, a task queue that refuses a task id it holds, and the policies. The id of a new row is longer
  than the ids of the table.
\<close>

record sworld =
  swReply :: "string \<Rightarrow> string list \<Rightarrow> string \<times> error option"
  swJobs :: jobs_table
  swQueue :: "(string option \<times> task) list"
  swPolicies :: "ScrubPolicy list"

definition fresh_id :: "jobs_table \<Rightarrow> string" where
  "fresh_id tbl = replicate (Suc (sum_list (map (length \<circ> jobID) tbl))) (CHR ''x'')"

definition mem_enqueue ::
    "string option \<Rightarrow> task \<Rightarrow> (string option \<times> task) list \<Rightarrow> error option \<times> (string option \<times> task) list" where
  "mem_enqueue i t q =
     (if i \<noteq> None \<and> i \<in> fst ` set q then (Some ErrTaskIDConflict, q) else (None, q @ [(i, t)]))"

definition mem_env :: "time \<Rightarrow> jobs_table \<Rightarrow> (string option \<times> task) list dispatch_env" where
  "mem_env t tbl =
     \<lparr>deNewID = fresh_id tbl, deNow = t, deMarshalErr = None, deBeginErr = None, deInsertErr = None,
      deCommitErr = None, deEnqueue = mem_enqueue\<rparr>"

definition query_runner :: "sworld runner" where
  "query_runner bin args w = (swReply w bin args, w)"

definition pool_api :: "(string \<Rightarrow> int \<Rightarrow> int option) \<Rightarrow> (nat \<Rightarrow> nat) \<Rightarrow> string \<Rightarrow> sworld PoolsAPI" where
  "pool_api fmul grow bin =
     \<lparr>paPoolNames = pool_PoolNames query_runner bin,
      paIsScrubInProgress = pool_IsScrubInProgress fmul grow query_runner bin\<rparr>"

definition job_dispatcher :: "time \<Rightarrow> sworld DispatcherAPI" where
  "job_dispatcher t inp w =
     (case Dispatch (mem_env t (swJobs w)) inp (swJobs w, swQueue w) of
        (r, tbl, q) \<Rightarrow> (r, w\<lparr>swJobs := tbl, swQueue := q\<rparr>))"

definition policy_queries :: "string \<Rightarrow> sworld QueriesAPI" where
  "policy_queries newid =
     \<lparr>qListEnabledScrubPolicies = (\<lambda>w. (Inr (ListEnabledScrubPolicies (swPolicies w)), w)),
      qGetScrubPolicyByName = (\<lambda>n w. (GetScrubPolicyByName n (swPolicies w), w)),
      qCreateScrubPolicy = (\<lambda>arg w. case CreateScrubPolicy newid arg (swPolicies w) of
         Inl e \<Rightarrow> (Inl e, w) | Inr (p, ps) \<Rightarrow> (Inr p, w\<lparr>swPolicies := ps\<rparr>)),
      qMarkScrubPolicyFired = (\<lambda>i now err w. (None, w\<lparr>swPolicies := MarkScrubPolicyFired i now err (swPolicies w)\<rparr>))\<rparr>"

definition host_manager :: "(string \<Rightarrow> int \<Rightarrow> int option) \<Rightarrow> (nat \<Rightarrow> nat) \<Rightarrow> string \<Rightarrow> time \<Rightarrow> location \<Rightarrow> sworld Manager" where
  "host_manager fmul grow bin t loc =
     New (policy_queries ''pol'') (pool_api fmul grow bin) (job_dispatcher t) (\<lambda>w. t) loc"

subsection \<open>One pass over the pools\<close>

definition scrub_key :: "string \<Rightarrow> string" where
  "scrub_key n = ''pool:'' @ n @ '':scrub''"

text \<open>The pools that get a job: those without a scrub in progress whose key is not in flight, each once.\<close>

fun idle_once :: "(string \<Rightarrow> bool result) \<Rightarrow> string set \<Rightarrow> string list \<Rightarrow> string list" where
  "idle_once status ks [] = []"
| "idle_once status ks (n # ns) =
     (if status n = Inr False \<and> scrub_key n \<notin> ks then n # idle_once status (insert (scrub_key n) ks) ns
      else idle_once status ks ns)"

text \<open>
  What the policies rely on: asking for the state of a scrub changes nothing they can see, and the
  dispatcher accepts a job exactly when its unique key is not in flight. \<open>accepts w inps w'\<close> says that the
  inputs \<open>inps\<close> were accepted between \<open>w\<close> and \<open>w'\<close>.
\<close>

locale scrub_services =
  fixes pools :: "'w PoolsAPI" and dispatch :: "'w DispatcherAPI"
    and status :: "'w \<Rightarrow> string \<Rightarrow> bool result" and in_flight :: "'w \<Rightarrow> string set"
    and accepts :: "'w \<Rightarrow> DispatchInput list \<Rightarrow> 'w \<Rightarrow> bool"
  assumes status_law: "paIsScrubInProgress pools n w = (status w n, w)"
    and accepts_refl: "accepts w [] w"
    and accepts_step: "accepts w inps w1 \<Longrightarrow> dispatch inp w1 = (Inr i, w2) \<Longrightarrow> accepts w (inps @ [inp]) w2"
    and dispatch_new: "diUniqueKey inp \<noteq> [] \<Longrightarrow> diUniqueKey inp \<notin> in_flight w \<Longrightarrow>
      \<exists>i w'. dispatch inp w = (Inr i, w') \<and> in_flight w' = insert (diUniqueKey inp) (in_flight w) \<and> status w' = status w"
    and dispatch_dup: "diUniqueKey inp \<noteq> [] \<Longrightarrow> diUniqueKey inp \<in> in_flight w \<Longrightarrow>
      \<exists>e. dispatch inp w = (Inl e, w) \<and> errors_Is e ErrDuplicate"
begin

lemma fire_pools_exact:
  assumes "smPools m = pools" and "smDispatcher m = dispatch" and "accepts w0 inps w"
  shows "\<exists>w'. fire_pools m p names any None w = (any \<or> idle_once (status w) (in_flight w) names \<noteq> [], None, w') \<and>
    accepts w0 (inps @ map (scrub_input p) (idle_once (status w) (in_flight w) names)) w'"
  using assms(3)
proof (induction names arbitrary: any w inps)
  case (Cons n ns)
  let ?inp = "scrub_input p n"
  have key: "diUniqueKey ?inp = scrub_key n" "scrub_key n \<noteq> []" by (simp_all add: scrub_input_def scrub_key_def)
  consider (busy) "status w n \<noteq> Inr False" | (dup) "status w n = Inr False" "scrub_key n \<in> in_flight w"
    | (new) "status w n = Inr False" "scrub_key n \<notin> in_flight w" by blast
  then show ?case
  proof cases
    case busy
    then have "fire_pools m p (n # ns) any None w = fire_pools m p ns any None w"
      using assms(1) status_law[of n w] by (cases "status w n") (auto split: bool.splits)
    then show ?thesis using Cons.IH[OF Cons.prems, of any] busy by simp
  next
    case dup
    then obtain e where "dispatch ?inp w = (Inl e, w)" "errors_Is e ErrDuplicate"
      using dispatch_dup[of ?inp w] key by auto
    then have "fire_pools m p (n # ns) any None w = fire_pools m p ns any None w"
      using assms(1,2) status_law[of n w] dup by simp
    then show ?thesis using Cons.IH[OF Cons.prems, of any] dup by simp
  next
    case new
    then obtain i w1 where d: "dispatch ?inp w = (Inr i, w1)" "in_flight w1 = insert (scrub_key n) (in_flight w)"
        "status w1 = status w"
      using dispatch_new[of ?inp w] key by auto
    then have "fire_pools m p (n # ns) any None w = fire_pools m p ns True None w1"
      using assms(1,2) status_law[of n w] new by simp
    then show ?thesis using Cons.IH[OF accepts_step[OF Cons.prems d(1)], of True] new d(2,3) by simp
  qed
qed simp

end


subsection \<open>The pool manager and the dispatcher provide the services\<close>

lemma run_parse_query: "run_parse query_runner bin args p w =
    (case args of Inl e \<Rightarrow> Inl e | Inr a \<Rightarrow> (case swReply w bin a of (out, err) \<Rightarrow> check err (p out)), w)"
  by (auto simp: run_parse_def query_runner_def split: sum.splits prod.splits)

lemma ScrubStatus_query: "snd (pool_ScrubStatus fmul grow query_runner bin n w) = w"
  by (auto simp: pool_ScrubStatus_def pool_Get_def run_parse_query query_runner_def Let_def
      split: prod.splits option.splits sum.splits list.splits)

lemma ScrubStatus_reply:
  "swReply w = swReply v \<Longrightarrow>
     fst (pool_ScrubStatus fmul grow query_runner bin n w) = fst (pool_ScrubStatus fmul grow query_runner bin n v)"
  by (auto simp: pool_ScrubStatus_def pool_Get_def run_parse_query query_runner_def Let_def
      split: prod.splits option.splits sum.splits list.splits)

definition scan_status :: "(string \<Rightarrow> int \<Rightarrow> int option) \<Rightarrow> (nat \<Rightarrow> nat) \<Rightarrow> string \<Rightarrow> sworld \<Rightarrow> string \<Rightarrow> bool result" where
  "scan_status fmul grow bin w n = fst (pool_IsScrubInProgress fmul grow query_runner bin n w)"

lemma scan_status_frame [simp]:
  "scan_status fmul grow bin (w\<lparr>swJobs := a, swQueue := b\<rparr>) = scan_status fmul grow bin w"
  using ScrubStatus_reply[of "w\<lparr>swJobs := a, swQueue := b\<rparr>" w fmul grow bin]
  by (simp add: scan_status_def pool_IsScrubInProgress_def state_is_def fun_eq_iff)

definition queued_keys :: "sworld \<Rightarrow> string set" where
  "queued_keys w = {k. Some k \<in> fst ` set (swQueue w)}"

definition scrub_task :: "DispatchInput \<Rightarrow> string \<Rightarrow> string option \<times> task" where
  "scrub_task inp i =
     (task_id inp, \<lparr>taskType = diKind inp, taskPayload = encodeTaskBody i (diPayload inp)\<rparr>)"

definition scrub_row :: "time \<Rightarrow> DispatchInput \<Rightarrow> string \<Rightarrow> Job" where
  "scrub_row t inp i = new_row t i (diKind inp) (diTarget inp) (diCommand inp) (diRequestID inp)"

definition accepted :: "time \<Rightarrow> sworld \<Rightarrow> DispatchInput list \<Rightarrow> sworld \<Rightarrow> bool" where
  "accepted t w inps w' \<longleftrightarrow>
     (\<exists>ids. length ids = length inps \<and> distinct ids \<and> set ids \<inter> jobID ` set (swJobs w) = {} \<and>
        w' = w\<lparr>swQueue := swQueue w @ map2 scrub_task inps ids,
               swJobs := rev (map2 (scrub_row t) inps ids) @ swJobs w\<rparr>)"

lemma fresh_id_long: "j \<in> set tbl \<Longrightarrow> length (jobID j) < length (fresh_id tbl)"
  using member_le_sum_list[of "length (jobID j)" "map (length \<circ> jobID) tbl"] by (auto simp: fresh_id_def)

lemma fresh_id_new: "fresh_id tbl \<notin> jobID ` set tbl"
  using fresh_id_long by fastforce

lemma Dispatch_mem:
  "Dispatch (mem_env t tbl) inp (tbl, q) =
     (if diUniqueKey inp \<noteq> [] \<and> Some (diUniqueKey inp) \<in> fst ` set q
      then (Inl (Wrapf ''dispatch %s: %w'' ErrDuplicate), tbl, q)
      else (Inr (fresh_id tbl), scrub_row t inp (fresh_id tbl) # tbl, q @ [scrub_task inp (fresh_id tbl)]))"
  using fresh_id_new[of tbl]
  by (simp add: Dispatch_def mem_env_def InsertJob_def mem_enqueue_def task_id_def scrub_task_def scrub_row_def Let_def
      ErrTaskIDConflict_def)

lemma scrub_row_ids: "length ids = length inps \<Longrightarrow> jobID ` set (map2 (scrub_row t) inps ids) = set ids"
proof -
  assume "length ids = length inps"
  then have "map jobID (map2 (scrub_row t) inps ids) = ids"
    by (induction inps ids rule: list_induct2') (auto simp: scrub_row_def id_new_row)
  then show ?thesis by (metis set_map)
qed

interpretation host: scrub_services "pool_api fmul grow bin" "job_dispatcher t" "scan_status fmul grow bin" queued_keys
  "accepted t" for fmul grow bin t
proof
  fix n :: string and w :: sworld
  show "paIsScrubInProgress (pool_api fmul grow bin) n w = (scan_status fmul grow bin w n, w)"
    using ScrubStatus_query[of fmul grow bin n w]
    by (simp add: pool_api_def scan_status_def pool_IsScrubInProgress_def state_is_def)
next
  fix w :: sworld
  show "accepted t w [] w" by (simp add: accepted_def)
next
  fix w w1 w2 :: sworld and inps inp i
  assume a: "accepted t w inps w1" and d: "job_dispatcher t inp w1 = (Inr i, w2)"
  obtain ids where ids: "length ids = length inps" "distinct ids" "set ids \<inter> jobID ` set (swJobs w) = {}"
      "w1 = w\<lparr>swQueue := swQueue w @ map2 scrub_task inps ids, swJobs := rev (map2 (scrub_row t) inps ids) @ swJobs w\<rparr>"
    using a by (auto simp: accepted_def)
  have jobs: "jobID ` set (swJobs w1) = set ids \<union> jobID ` set (swJobs w)"
    using ids(1,4) scrub_row_ids[OF ids(1), of t] by (auto simp: image_Un)
  have "i = fresh_id (swJobs w1)"
    "w2 = w1\<lparr>swJobs := scrub_row t inp i # swJobs w1, swQueue := swQueue w1 @ [scrub_task inp i]\<rparr>"
    using d by (auto simp: job_dispatcher_def Dispatch_mem split: if_splits)
  then show "accepted t w (inps @ [inp]) w2"
    unfolding accepted_def using ids jobs fresh_id_new[of "swJobs w1"]
    by (intro exI[of _ "ids @ [i]"]) (auto simp: zip_append)
next
  fix inp :: DispatchInput and w :: sworld
  assume "diUniqueKey inp \<noteq> []" "diUniqueKey inp \<notin> queued_keys w"
  then show "\<exists>i w'. job_dispatcher t inp w = (Inr i, w') \<and> queued_keys w' = insert (diUniqueKey inp) (queued_keys w) \<and>
      scan_status fmul grow bin w' = scan_status fmul grow bin w"
    by (auto simp: job_dispatcher_def Dispatch_mem queued_keys_def scrub_task_def task_id_def)
next
  fix inp :: DispatchInput and w :: sworld
  assume "diUniqueKey inp \<noteq> []" "diUniqueKey inp \<in> queued_keys w"
  then show "\<exists>e. job_dispatcher t inp w = (Inl e, w) \<and> errors_Is e ErrDuplicate"
    by (auto simp: job_dispatcher_def Dispatch_mem queued_keys_def ErrDuplicate_def)
qed


subsection \<open>Policies\<close>

text \<open>A worker that takes one of the queued tasks runs the scrub of the pool it was queued for.\<close>

lemma fold_names: "fold_name ''payload'' = ''payload''" "fold_name ''jobId'' = ''jobid''" "fold_name ''name'' = ''name''"
    "fold_name ''action'' = ''action''"
  by code_simp+

lemma handlePoolScrub_runs:
  assumes "dUUID d i = Inr i" and "ValidatePoolName n = None" and "zRun d = logged run"
  shows "fst (wsHost (snd (handlePoolScrub d (snd (scrub_task (scrub_input p n) i)) s)))
    = fst (wsHost s) @ [(zpoolBin d, [''scrub'', n])]"
proof -
  have D: "decode d PoolScrubPayload (snd (scrub_task (scrub_input p n) i)) = Inr (i, n, ScrubStart)"
    using assms(1) fold_names
    by (simp add: decode_def scrub_task_def scrub_input_def encodeTaskBody_def PoolScrubPayload_def str_field_def
        member_def EqualFold_def scrub_payload_def)
  show ?thesis
    using handle_effect(2)[OF D, of "\<lambda>(name, action). pool_Scrub (zRun d) (zpoolBin d) name action" s] assms(2,3)
    by (simp add: handlePoolScrub_def pool_Scrub_def run_args_logged scrubArgs_def ScrubStart_def ScrubStop_def flag_if_def)
qed

lemma expandPools_host:
  "expandPools (host_manager fmul grow bin t loc) spec w = (fst (expandPools (host_manager fmul grow bin t loc) spec w), w)"
  by (auto simp: expandPools_def host_manager_def New_def pool_api_def pool_PoolNames_def pool_List_def run_parse_query
      Let_def split: prod.splits)

definition due :: "location \<Rightarrow> duration \<Rightarrow> ScrubPolicy \<Rightarrow> time \<Rightarrow> bool" where
  "due loc gap p now \<longleftrightarrow>
     (\<exists>expr. ParseCron (polCron p) = Some (Inr expr) \<and>
        ShouldFireBetween expr (prev_fire p) now (Some loc) = Some True) \<and>
     (prev_fire p = 0 \<or> gap \<le> Sub now (prev_fire p))"

lemma firePolicy_due: "due (smLoc m) (smMinFireGap m) p now \<Longrightarrow> firePolicy m p now w = Some (fire_due m p now w)"
  by (auto simp: due_def firePolicy_def)



text \<open>Two pools of which one is being scrubbed, at 02:00 on a Sunday.\<close>

definition demo_reply :: "string \<Rightarrow> string list \<Rightarrow> string \<times> error option" where
  "demo_reply bin args =
     (if hd args = ''list'' then (tabs [last args, ''1'', ''0'', ''1'', ''ONLINE'', ''off'', ''0'', ''0'', ''1.00''], None)
      else if hd args = ''status'' \<and> last args = ''data'' then (''  scan: scrub in progress since today'' @ [LF], None)
      else ([], None))"

definition demo_world :: sworld where
  "demo_world = \<lparr>swReply = demo_reply, swJobs = [], swQueue = [], swPolicies = []\<rparr>"

definition demo_policy :: ScrubPolicy where
  "demo_policy = \<lparr>polID = ''p1'', polName = ''weekly'', polPools = ''tank, data'', polCron = ''0 2 * * 0'', polPriority = [],
     polEnabled = True, polBuiltin = False, polLastFiredAt = None, polLastError = None\<rparr>"

definition sunday :: time where "sunday = (6 * 86400 + 2 * 3600) * Second"

lemma demo_status:
  "scan_status (\<lambda>_ _. None) (\<lambda>n. n) ''zpool'' demo_world ''tank'' = Inr False"
  "scan_status (\<lambda>_ _. None) (\<lambda>n. n) ''zpool'' demo_world ''data'' = Inr True"
  by code_simp+

definition weekly_expr :: CronExpr where
  "weekly_expr = \<lparr>cMinute = \<lparr>wildcard = False, vals = [0]\<rparr>, cHour = \<lparr>wildcard = False, vals = [2]\<rparr>,
     cDom = \<lparr>wildcard = True, vals = []\<rparr>, cMon = \<lparr>wildcard = True, vals = []\<rparr>,
     cDow = \<lparr>wildcard = False, vals = [0]\<rparr>, craw = ''0 2 * * 0''\<rparr>"

lemma weekly_parsed: "ParseCron ''0 2 * * 0'' = Some (Inr weekly_expr)"
  by code_simp

lemma weekly_sunday: "matchTime weekly_expr UTC sunday" "matchTime weekly_expr UTC (sunday + 7 * 24 * Hour)"
    "Truncate sunday Minute = sunday" "Truncate (sunday + 7 * 24 * Hour) Minute = sunday + 7 * 24 * Hour"
  by code_simp+

lemma demo_due: "due UTC (7 * 24 * Hour) demo_policy sunday"
  by (simp add: due_def demo_policy_def weekly_parsed prev_fire_def ShouldFireBetween_def loc_or_utc_def weekly_sunday Let_def)

lemma demo_names: "fst (expandPools (host_manager (\<lambda>_ _. None) (\<lambda>n. n) ''zpool'' 5 UTC) ''tank, data'' demo_world) = Inr [''tank'', ''data'']"
  by code_simp


lemma idle_once_none: "list_all (\<lambda>n. status n \<noteq> Inr False) names \<Longrightarrow> idle_once status ks names = []"
  by (induction names) auto

lemma firePolicy_gap:
  assumes "prev_fire p \<noteq> 0" and "Sub now (prev_fire p) < smMinFireGap m" and "firePolicy m p now w = Some (e, w')"
    and "ParseCron (polCron p) = Some (Inr expr)"
  shows "e = None \<and> w' = w"
  using assms by (auto simp: firePolicy_def split: option.splits bool.splits)


lemma fire_none_idle:
  assumes "due loc (7 * 24 * Hour) p now"
    and "fst (expandPools (host_manager fmul grow bin t loc) (polPools p) w) = Inr names"
    and "list_all (\<lambda>n. scan_status fmul grow bin w n \<noteq> Inr False) names"
  shows "fire_due (host_manager fmul grow bin t loc) p now w
    = (None, w\<lparr>swPolicies := MarkScrubPolicyFired (polID p) now None (swPolicies w)\<rparr>)"
proof -
  let ?m = "host_manager fmul grow bin t loc"
  have m: "smPools ?m = pool_api fmul grow bin" "smDispatcher ?m = job_dispatcher t" by (simp_all add: host_manager_def New_def)
  have ex: "expandPools ?m (polPools p) w = (Inr names, w)" using expandPools_host assms(2) by metis
  obtain w' where "fire_pools ?m p names False None w = (False, None, w')" "accepted t w [] w'"
    using host.fire_pools_exact[OF m host.accepts_refl[of t w], of p names False] idle_once_none[OF assms(3)] by auto
  then show ?thesis using ex
    by (auto simp: fire_due_def markFired_def host_manager_def New_def policy_queries_def accepted_def)
qed

text \<open>
  When the state of no pool of a due policy can be read, say because \<open>zpool\<close> fails once, the pass
  dispatches nothing and still records a fire without an error, as if it had scrubbed; for the
  seven days of the minimum gap the policy then does nothing, whatever its cron expression says.
\<close>

theorem unreadable_pools_skip_a_week:
  assumes "due loc (7 * 24 * Hour) p now" and "now \<noteq> 0"
    and "fst (expandPools (host_manager fmul grow bin t loc) (polPools p) w) = Inr names"
    and "list_all (\<lambda>n. scan_status fmul grow bin w n = Inl (err n)) names"
    and "Sub later now < 7 * 24 * Hour"
  shows "firePolicy (host_manager fmul grow bin t loc) p now w
      = Some (None, w\<lparr>swPolicies := MarkScrubPolicyFired (polID p) now None (swPolicies w)\<rparr>) \<and>
    (firePolicy (host_manager fmul grow bin t loc) (p\<lparr>polLastFiredAt := Some now, polLastError := None\<rparr>) later v = None \<or>
     firePolicy (host_manager fmul grow bin t loc) (p\<lparr>polLastFiredAt := Some now, polLastError := None\<rparr>) later v = Some (None, v))"
proof
  let ?m = "host_manager fmul grow bin t loc" and ?q = "p\<lparr>polLastFiredAt := Some now, polLastError := None\<rparr>"
  have m: "smLoc ?m = loc" "smMinFireGap ?m = 7 * 24 * Hour" by (simp_all add: host_manager_def New_def)
  have "list_all (\<lambda>n. scan_status fmul grow bin w n \<noteq> Inr False) names" using assms(4) by (auto simp: list_all_iff)
  then show "firePolicy ?m p now w = Some (None, w\<lparr>swPolicies := MarkScrubPolicyFired (polID p) now None (swPolicies w)\<rparr>)"
    using firePolicy_due[of ?m p now w] fire_none_idle[OF assms(1,3)] assms(1) m by simp
  obtain expr where "ParseCron (polCron ?q) = Some (Inr expr)" using assms(1) by (auto simp: due_def)
  then show "firePolicy ?m ?q later v = None \<or> firePolicy ?m ?q later v = Some (None, v)"
    using firePolicy_gap[of ?q later ?m v] assms(2,5) m by (cases "firePolicy ?m ?q later v") (auto simp: prev_fire_def)
qed

definition broken_world :: sworld where
  "broken_world = \<lparr>swReply = (\<lambda>bin args. ([], Some (HostError bin args 1 ''cannot open pool''))), swJobs = [], swQueue = [], swPolicies = [demo_policy]\<rparr>"

lemma broken_status: "scan_status (\<lambda>_ _. None) (\<lambda>n. n) ''zpool'' broken_world n
    = Inl (HostError ''zpool'' [''list'', ''-H'', ''-p'', ''-o'', list_columns, n] 1 ''cannot open pool'')"
proof -
  have "\<not> Contains ''cannot open pool'' ''no such pool''" by code_simp
  then show ?thesis
    by (simp add: scan_status_def pool_IsScrubInProgress_def pool_ScrubStatus_def pool_Get_def query_runner_def broken_world_def
      state_is_def stderr_contains_def)
qed

lemma broken_names: "fst (expandPools (host_manager (\<lambda>_ _. None) (\<lambda>n. n) ''zpool'' 5 UTC) ''tank, data'' broken_world) = Inr [''tank'', ''data'']"
  by code_simp

theorem unreadable_pools_skip_a_week_witness:
  "firePolicy (host_manager (\<lambda>_ _. None) (\<lambda>n. n) ''zpool'' 5 UTC) demo_policy sunday broken_world
     = Some (None, broken_world\<lparr>swPolicies := [demo_policy\<lparr>polLastFiredAt := Some sunday\<rparr>]\<rparr>)"
proof -
  have p: "polPools demo_policy = ''tank, data''" "sunday \<noteq> 0" "Sub (sunday + 1) sunday < 7 * 24 * Hour"
    by (simp add: demo_policy_def, code_simp, code_simp)
  have "list_all (\<lambda>n. scan_status (\<lambda>_ _. None) (\<lambda>n. n) ''zpool'' broken_world n
      = Inl (HostError ''zpool'' [''list'', ''-H'', ''-p'', ''-o'', list_columns, n] 1 ''cannot open pool'')) [''tank'', ''data'']"
    using broken_status by simp
  from unreadable_pools_skip_a_week[OF demo_due p(2) _ this p(3), of 5 undefined] broken_names p(1)
  show ?thesis by (simp add: broken_world_def MarkScrubPolicyFired_def demo_policy_def)
qed

subsection \<open>The default policy\<close>

lemma steady_UTC: "steady_location UTC 0"
  by unfold_locales (simp_all add: UTC_def)

text \<open>The policy that is installed as \<open>monthly-all-pools\<close> is due again after seven days: its cron expression
  matches every Sunday, and a gap of seven days holds back no weekly fire.\<close>

lemma default_policy_weekly:
  assumes "polCron p = DefaultCron" and "polLastFiredAt p = Some sunday"
  shows "due UTC (7 * 24 * Hour) p (sunday + 7 * 24 * Hour)"
proof -
  have c: "Minute \<le> sunday" "Truncate sunday Minute < Truncate (sunday + 7 * 24 * Hour) Minute"
    "Year_of UTC (Truncate (sunday + 7 * 24 * Hour) Minute) \<le> Year_of UTC (Truncate sunday Minute + Minute) + 8"
    "sunday < sunday + 7 * 24 * Hour" "(sunday + 7 * 24 * Hour) mod Minute = 0" "7 * 24 * Hour \<le> Sub (sunday + 7 * 24 * Hour) sunday"
    by code_simp+
  have "ShouldFireBetween weekly_expr sunday (sunday + 7 * 24 * Hour) (Some UTC) = Some True"
    using steady_location.ShouldFireBetween_steady[OF steady_UTC c(1-3), of weekly_expr]
      exI[of "\<lambda>u. sunday < u \<and> u \<le> sunday + 7 * 24 * Hour \<and> u mod Minute = 0 \<and> matchTime weekly_expr UTC u"
        "sunday + 7 * 24 * Hour"] weekly_sunday c(4,5) by simp
  then show ?thesis using assms c(6) weekly_parsed by (auto simp: due_def prev_fire_def DefaultCron_def)
qed

end
