(* ===== verification/PluginManifest.thy ===== *)
theory PluginManifest
  imports HostExec
begin

text \<open>
  \<^verbatim>\<open>internal/plugins/manifest.go\<close> and \<^verbatim>\<open>permissions_summary.go\<close>: the manifest of a plugin, its
  validator and the summary an operator consents to.

  The named string types of the source are strings, since decoding puts any string into them; their
  constants are definitions. Pointers are options. The version library is a record of its functions
  that the code calls, and the decoder of YAML is a parameter.
\<close>

subsection \<open>Constants\<close>

definition CurrentAPIVersion :: string where "CurrentAPIVersion = ''novanas.io/v1''"
definition Kind :: string where "Kind = ''Plugin''"

definition validCategories :: "string list" where
  "validCategories = [''storage'', ''networking'', ''observability'', ''developer'', ''utility'']"

definition AllDisplayCategories :: "string list" where
  "AllDisplayCategories =
     [''backup'', ''files'', ''multimedia'', ''photos'', ''productivity'', ''security'', ''communication'',
      ''home'', ''developer'', ''network'', ''storage'', ''surveillance'', ''utilities'', ''observability'']"

definition IsValidDisplayCategory :: "string \<Rightarrow> bool" where
  "IsValidDisplayCategory c \<longleftrightarrow> c \<in> set AllDisplayCategories"

definition DisplayCategoryDisplayName :: "string \<Rightarrow> string" where
  "DisplayCategoryDisplayName c =
     (if c = ''backup'' then ''Backup'' else if c = ''files'' then ''Files''
      else if c = ''multimedia'' then ''Multimedia'' else if c = ''photos'' then ''Photos''
      else if c = ''productivity'' then ''Productivity'' else if c = ''security'' then ''Security''
      else if c = ''communication'' then ''Communication'' else if c = ''home'' then ''Home''
      else if c = ''developer'' then ''Developer'' else if c = ''network'' then ''Network''
      else if c = ''storage'' then ''Storage'' else if c = ''surveillance'' then ''Surveillance''
      else if c = ''utilities'' then ''Utilities'' else if c = ''observability'' then ''Observability''
      else c)"

definition DefaultDisplayCategoryFor :: "string \<Rightarrow> string" where
  "DefaultDisplayCategoryFor c =
     (if c = ''storage'' then ''storage'' else if c = ''networking'' then ''network''
      else if c = ''observability'' then ''observability'' else if c = ''developer'' then ''developer''
      else if c = ''utility'' then ''utilities'' else [])"

definition MaxTagLength :: nat where "MaxTagLength = 32"
definition MaxTags :: nat where "MaxTags = 16"

definition NeedDataset :: string where "NeedDataset = ''dataset''"
definition NeedOIDCClient :: string where "NeedOIDCClient = ''oidcClient''"
definition NeedTLSCert :: string where "NeedTLSCert = ''tlsCert''"
definition NeedPermission :: string where "NeedPermission = ''permission''"

lemmas need_kind_defs = NeedDataset_def NeedOIDCClient_def NeedTLSCert_def NeedPermission_def

definition DependencySourceTier2 :: string where "DependencySourceTier2 = ''tier-2''"
definition DependencySourceBundled :: string where "DependencySourceBundled = ''bundled''"

definition privilegedNeedsByCategory :: "string \<Rightarrow> string list" where
  "privilegedNeedsByCategory c =
     (if c = ''storage'' then [NeedDataset, NeedOIDCClient, NeedTLSCert, NeedPermission]
      else if c = ''networking'' then [NeedOIDCClient, NeedTLSCert, NeedPermission]
      else if c = ''observability'' then [NeedOIDCClient, NeedTLSCert, NeedPermission]
      else if c = ''developer'' then [NeedOIDCClient, NeedPermission]
      else if c = ''utility'' then [NeedPermission]
      else [])"

subsection \<open>The manifest\<close>

record DatasetNeed =
  dnPool :: string
  dnName :: string
  dnProperties :: "(string \<times> string) list"

record OIDCClientNeed =
  ocClientID :: string
  ocRedirects :: "string list"
  ocPublic :: bool

record TLSCertNeed =
  tcCommonName :: string
  tcDNSNames :: "string list"
  tcIPs :: "string list"
  tcTTLDays :: int

record PermissionNeed =
  pnRole :: string
  pnDescription :: string

record Need =
  nKind :: string
  nDataset :: "DatasetNeed option"
  nOIDCClient :: "OIDCClientNeed option"
  nTLSCert :: "TLSCertNeed option"
  nPermission :: "PermissionNeed option"

record APIRoute =
  arPath :: string
  arUpstream :: string
  arScopes :: "string list"
  arAuth :: string

record Dependency =
  depName :: string
  depConstraint :: string
  depSource :: string

record Deployment =
  dpType :: string
  dpChart :: string
  dpNamespace :: string
  dpUnit :: string

record UIWindow =
  uwName :: string
  uwIcon :: string
  uwRoute :: string
  uwBundle :: string

record Health =
  hPath :: string
  hIntervalSeconds :: int
  hTimeoutSeconds :: int

record Lifecycle =
  lcPreInstall :: string
  lcPostInstall :: string
  lcPreUninstall :: string

record PluginMetadata =
  mdName :: string
  mdVersion :: string
  mdVendor :: string
  mdSignature :: string

record PluginSpec =
  psDescription :: string
  psCategory :: string
  psDisplayCategory :: string
  psTags :: "string list"
  psIcon :: string
  psDeployment :: Deployment
  psNeeds :: "Need list"
  psDependencies :: "Dependency list"
  psRoutes :: "APIRoute list"
  psWindow :: UIWindow
  psHealth :: Health
  psLifecycle :: Lifecycle

record Plugin =
  plAPIVersion :: string
  plKind :: string
  plMetadata :: PluginMetadata
  plSpec :: PluginSpec

abbreviation plName :: "Plugin \<Rightarrow> string" where
  "plName p \<equiv> mdName (plMetadata p)"


subsection \<open>The regular expressions\<close>

definition lower_alnum :: "char \<Rightarrow> bool" where
  "lower_alnum c \<longleftrightarrow> is_digit c \<or> of_char c \<in> {97..(122::nat)}"

definition label_char :: "char \<Rightarrow> bool" where
  "label_char c \<longleftrightarrow> lower_alnum c \<or> c = CHR ''-''"

definition ident_char :: "char \<Rightarrow> bool" where
  "ident_char c \<longleftrightarrow> is_digit c \<or> of_char c \<in> {65..(90::nat)} \<or> of_char c \<in> {97..(122::nat)} \<or> c = CHR ''.'' \<or> c = CHR ''-''"

definition nameRE :: "string \<Rightarrow> bool" where
  "nameRE s =
     (case s of
        [] \<Rightarrow> False
      | c # t \<Rightarrow> lower_alnum c \<and>
          (t = [] \<or> length (butlast t) \<le> 38 \<and> list_all label_char (butlast t) \<and> lower_alnum (last t)))"

definition tagRE :: "string \<Rightarrow> bool" where
  "tagRE s = (case s of [] \<Rightarrow> False | c # t \<Rightarrow> lower_alnum c \<and> list_all label_char t)"

text \<open>One run of digits, which the expression ends at the first character that is none.\<close>

definition digits1 :: "string \<Rightarrow> string option" where
  "digits1 s = (if takeWhile is_digit s = [] then None else Some (dropWhile is_digit s))"

definition dot :: "string \<Rightarrow> string option" where
  "dot s = (case s of [] \<Rightarrow> None | c # t \<Rightarrow> if c = CHR ''.'' then Some t else None)"

text \<open>The optional parts behind the numbers: each is its mark and one or more identifier characters.\<close>

definition opt_part :: "char \<Rightarrow> string \<Rightarrow> string" where
  "opt_part mark s =
     (case s of
        [] \<Rightarrow> []
      | c # t \<Rightarrow> if c = mark \<and> takeWhile ident_char t \<noteq> [] then dropWhile ident_char t else s)"

definition versionRE :: "string \<Rightarrow> bool" where
  "versionRE s =
     (case Option.bind (digits1 (TrimPrefix s ''v'')) (\<lambda>s. Option.bind (dot s) (\<lambda>s. Option.bind (digits1 s) (\<lambda>s.
           Option.bind (dot s) digits1))) of
        None \<Rightarrow> False
      | Some t \<Rightarrow> opt_part (CHR ''+'') (opt_part (CHR ''-'') t) = [])"

subsection \<open>Validation\<close>

record ('c, 'v) semver =
  svNewConstraint :: "string \<Rightarrow> 'c result"
  svNewVersion :: "string \<Rightarrow> 'v result"
  svCheck :: "'c \<Rightarrow> 'v \<Rightarrow> bool"
  svGreaterThan :: "'v \<Rightarrow> 'v \<Rightarrow> bool"

text \<open>Each check adds the messages of the problems it finds; a message is its format string.\<close>

definition msg_if :: "bool \<Rightarrow> string \<Rightarrow> string list" where
  "msg_if b m = (if b then [m] else [])"

definition validate_tag :: "string \<Rightarrow> string list" where
  "validate_tag t =
     (if length t > MaxTagLength then [''spec.tags[%d]: max %d chars, got %d'']
      else msg_if (\<not> tagRE t) ''spec.tags[%d]: must match %s, got %q'')"

definition validate_deployment :: "Deployment \<Rightarrow> string list" where
  "validate_deployment d =
     (if dpType d = ''helm'' then msg_if (dpChart d = []) ''spec.deployment.chart: required when type=helm''
      else if dpType d = ''systemd'' then msg_if (dpUnit d = []) ''spec.deployment.unit: required when type=systemd''
      else [''spec.deployment.type: must be helm or systemd, got %q''])"

definition validate_need :: "string \<Rightarrow> Need \<Rightarrow> string list" where
  "validate_need category n =
     (if nKind n \<notin> set (privilegedNeedsByCategory category) then [''spec.needs[%d]: category %q may not claim %q'']
      else if nKind n = NeedDataset then
        msg_if (case nDataset n of None \<Rightarrow> True | Some d \<Rightarrow> dnPool d = [] \<or> dnName d = [])
          ''spec.needs[%d].dataset: pool+name required''
      else if nKind n = NeedOIDCClient then
        msg_if (case nOIDCClient n of None \<Rightarrow> True | Some c \<Rightarrow> ocClientID c = [])
          ''spec.needs[%d].oidcClient: clientId required''
      else if nKind n = NeedTLSCert then
        msg_if (case nTLSCert n of None \<Rightarrow> True | Some c \<Rightarrow> tcCommonName c = [])
          ''spec.needs[%d].tlsCert: commonName required''
      else if nKind n = NeedPermission then
        msg_if (case nPermission n of None \<Rightarrow> True | Some p \<Rightarrow> pnRole p = [])
          ''spec.needs[%d].permission: role required''
      else [''spec.needs[%d].kind: unknown %q''])"

definition validate_route :: "APIRoute \<Rightarrow> string list" where
  "validate_route r =
     msg_if (\<not> HasPrefix (arPath r) ''/'') ''spec.api.routes[%d].path: must start with /'' @
     msg_if (arUpstream r = []) ''spec.api.routes[%d].upstream: required'' @
     msg_if (arAuth r \<notin> {''bearer-passthrough'', ''service-token''})
       ''spec.api.routes[%d].auth: must be bearer-passthrough or service-token''"

definition validate_dependency :: "('c, 'v) semver \<Rightarrow> string \<Rightarrow> Dependency \<Rightarrow> string list" where
  "validate_dependency sv name d =
     msg_if (\<not> nameRE (depName d)) ''spec.dependencies[%d].name: must match %s'' @
     msg_if (depSource d \<notin> {DependencySourceTier2, DependencySourceBundled})
       ''spec.dependencies[%d].source: must be tier-2 or bundled, got %q'' @
     msg_if (depConstraint d \<noteq> [] \<and> (case svNewConstraint sv (depConstraint d) of Inl e \<Rightarrow> True | Inr c \<Rightarrow> False))
       ''spec.dependencies[%d].versionConstraint: %v'' @
     msg_if (depName d = name) ''spec.dependencies[%d]: a plugin cannot depend on itself''"

definition validate_window :: "UIWindow \<Rightarrow> string list" where
  "validate_window w =
     msg_if (uwBundle w \<noteq> [] \<and> (uwName w = [] \<or> uwRoute w = [])) ''spec.ui.window: name+route required when bundle is set''"

definition Validate :: "('c, 'v) semver \<Rightarrow> Plugin \<Rightarrow> string list" where
  "Validate sv p =
     (let md = plMetadata p; sp = plSpec p
      in msg_if (plAPIVersion p \<noteq> CurrentAPIVersion) ''apiVersion: want %q, got %q'' @
         msg_if (plKind p \<noteq> Kind) ''kind: want %q, got %q'' @
         msg_if (\<not> nameRE (mdName md)) ''metadata.name: must match %s'' @
         msg_if (\<not> versionRE (mdVersion md)) ''metadata.version: must be SemVer'' @
         msg_if (TrimSpace (mdVendor md) = []) ''metadata.vendor: required'' @
         msg_if (TrimSpace (psDescription sp) = []) ''spec.description: required'' @
         msg_if (psCategory sp \<notin> set validCategories) ''spec.category: invalid %q'' @
         msg_if (psDisplayCategory sp \<noteq> [] \<and> \<not> IsValidDisplayCategory (psDisplayCategory sp)) ''spec.displayCategory: invalid %q'' @
         msg_if (length (psTags sp) > MaxTags) ''spec.tags: max %d tags, got %d'' @
         concat (map validate_tag (psTags sp)) @
         validate_deployment (psDeployment sp) @
         concat (map (validate_need (psCategory sp)) (psNeeds sp)) @
         concat (map validate_route (psRoutes sp)) @
         concat (map (validate_dependency sv (mdName md)) (psDependencies sp)) @
         validate_window (psWindow sp))"

definition with_display :: "Plugin \<Rightarrow> Plugin" where
  "with_display p =
     (if psDisplayCategory (plSpec p) = []
      then p\<lparr>plSpec := (plSpec p)\<lparr>psDisplayCategory := DefaultDisplayCategoryFor (psCategory (plSpec p))\<rparr>\<rparr>
      else p)"

definition ParseManifest :: "('c, 'v) semver \<Rightarrow> (string \<Rightarrow> Plugin result) \<Rightarrow> string \<Rightarrow> Plugin result" where
  "ParseManifest sv yaml data =
     (case yaml data of
        Inl e \<Rightarrow> Inl (Wrapf ''plugins: yaml: %w'' e)
      | Inr p0 \<Rightarrow>
          (let p = with_display p0; errs = Validate sv p
           in if errs = [] then Inr p else Inl (Errorf (Join errs [CHR 0x0A]))))"

subsection \<open>What the operator consents to\<close>

record ProvisionedResource =
  prKind :: string
  prWhat :: string
  prDestructive :: bool

record PermissionsSummary =
  WillCreate :: "ProvisionedResource list"
  WillMount :: "string list"
  WillOpen :: "string list"
  Scopes :: "string list"
  suCategory :: string

text \<open>\<open>quote\<close> is how \<open>fmt\<close> prints a string with \<open>%q\<close>.\<close>

definition summarizeNeed :: "(string \<Rightarrow> string) \<Rightarrow> string \<Rightarrow> Need \<Rightarrow> ProvisionedResource" where
  "summarizeNeed quote plugin n =
     (if nKind n = NeedDataset then
        \<lparr>prKind = NeedDataset,
         prWhat = (case nDataset n of
           Some d \<Rightarrow> if dnPool d \<noteq> [] \<and> dnName d \<noteq> [] then ''ZFS dataset '' @ dnPool d @ ''/'' @ dnName d else ''ZFS dataset''
         | None \<Rightarrow> ''ZFS dataset''), prDestructive = False\<rparr>
      else if nKind n = NeedOIDCClient then
        \<lparr>prKind = NeedOIDCClient,
         prWhat = (case nOIDCClient n of
           Some c \<Rightarrow> if ocClientID c \<noteq> [] then ''Keycloak client '' @ quote (ocClientID c) else ''Keycloak client''
         | None \<Rightarrow> ''Keycloak client''), prDestructive = False\<rparr>
      else if nKind n = NeedTLSCert then
        \<lparr>prKind = NeedTLSCert,
         prWhat = (case nTLSCert n of
           Some c \<Rightarrow> if tcCommonName c \<noteq> [] then ''TLS cert for '' @ tcCommonName c else ''TLS cert''
         | None \<Rightarrow> ''TLS cert''), prDestructive = False\<rparr>
      else if nKind n = NeedPermission then
        \<lparr>prKind = NeedPermission,
         prWhat = (case nPermission n of
           Some r \<Rightarrow> if pnRole r \<noteq> [] then ''Bind realm role '' @ quote (pnRole r) @ '' to plugin service account''
             else ''Bind realm role to plugin service account''
         | None \<Rightarrow> ''Bind realm role to plugin service account''), prDestructive = False\<rparr>
      else \<lparr>prKind = nKind n, prWhat = ''Unknown need '' @ quote (nKind n) @ '' for plugin '' @ quote plugin, prDestructive = False\<rparr>)"

definition summarize_mount :: "string \<Rightarrow> APIRoute \<Rightarrow> string" where
  "summarize_mount name r =
     (let path = TrimRightByte (arPath r) (CHR ''/''); path = (if path = [] then ''/'' else path)
      in ''/api/v1/plugins'' @ ''/'' @ name @ path @ ''/*'')"

definition Summarize :: "(string \<Rightarrow> string) \<Rightarrow> Plugin option \<Rightarrow> PermissionsSummary" where
  "Summarize quote p =
     (case p of
        None \<Rightarrow> \<lparr>WillCreate = [], WillMount = [], WillOpen = [], Scopes = [''PermPluginsRead''], suCategory = []\<rparr>
      | Some p \<Rightarrow>
          \<lparr>WillCreate = map (summarizeNeed quote (plName p)) (psNeeds (plSpec p)),
           WillMount = map (summarize_mount (plName p)) (psRoutes (plSpec p)),
           WillOpen = [], Scopes = [''PermPluginsRead''], suCategory = psCategory (plSpec p)\<rparr>)"

subsection \<open>What an accepted manifest satisfies\<close>

lemma msg_if_Nil [simp]: "msg_if b m = [] \<longleftrightarrow> \<not> b"
  by (simp add: msg_if_def)

text \<open>A name of a plugin is a label: it cannot leave the directory or the URL segment it is put into.\<close>

lemma nameRE_label:
  "nameRE s \<longleftrightarrow> s \<noteq> [] \<and> length s \<le> 40 \<and> list_all label_char s \<and> lower_alnum (hd s) \<and> lower_alnum (last s)"
proof (cases s)
  case (Cons c t)
  then show ?thesis by (cases t rule: rev_cases) (auto simp: nameRE_def label_char_def)
qed (simp add: nameRE_def)

lemma label_char_not_sep: "label_char c \<Longrightarrow> c \<noteq> CHR ''/'' \<and> c \<noteq> CHR ''.''"
  by (auto simp: label_char_def lower_alnum_def is_digit_def)

lemma nameRE_no_sep: "nameRE s \<Longrightarrow> CHR ''/'' \<notin> set s \<and> CHR ''.'' \<notin> set s"
  unfolding nameRE_label list_all_iff by (auto dest: label_char_not_sep)

text \<open>Each need of an accepted manifest is of a kind its category may claim and carries the fields of that kind.\<close>

definition need_fields :: "Need \<Rightarrow> bool" where
  "need_fields n \<longleftrightarrow>
     nKind n = NeedDataset \<and> (\<exists>d. nDataset n = Some d \<and> dnPool d \<noteq> [] \<and> dnName d \<noteq> []) \<or>
     nKind n = NeedOIDCClient \<and> (\<exists>c. nOIDCClient n = Some c \<and> ocClientID c \<noteq> []) \<or>
     nKind n = NeedTLSCert \<and> (\<exists>c. nTLSCert n = Some c \<and> tcCommonName c \<noteq> []) \<or>
     nKind n = NeedPermission \<and> (\<exists>p. nPermission n = Some p \<and> pnRole p \<noteq> [])"

lemma validate_need_Nil:
  "validate_need c n = [] \<longleftrightarrow> nKind n \<in> set (privilegedNeedsByCategory c) \<and> need_fields n"
  by (auto simp: validate_need_def need_fields_def need_kind_defs split: option.splits if_splits)

lemma validate_dependency_Nil:
  "validate_dependency sv name d = [] \<Longrightarrow>
     nameRE (depName d) \<and> depName d \<noteq> name \<and> depSource d \<in> {DependencySourceTier2, DependencySourceBundled}"
  by (simp add: validate_dependency_def)

lemma Validate_Nil:
  assumes "Validate sv p = []"
  shows "list_all (\<lambda>n. nKind n \<in> set (privilegedNeedsByCategory (psCategory (plSpec p))) \<and> need_fields n) (psNeeds (plSpec p))"
    and "nameRE (plName p)"
    and "list_all (\<lambda>d. nameRE (depName d) \<and> depName d \<noteq> plName p \<and>
      depSource d \<in> {DependencySourceTier2, DependencySourceBundled}) (psDependencies (plSpec p))"
proof -
  have "concat (map (validate_need (psCategory (plSpec p))) (psNeeds (plSpec p))) = []"
    "concat (map (validate_dependency sv (plName p)) (psDependencies (plSpec p))) = []" "nameRE (plName p)"
    using assms by (simp_all add: Validate_def Let_def)
  then show "list_all (\<lambda>n. nKind n \<in> set (privilegedNeedsByCategory (psCategory (plSpec p))) \<and> need_fields n) (psNeeds (plSpec p))"
    "nameRE (plName p)"
    "list_all (\<lambda>d. nameRE (depName d) \<and> depName d \<noteq> plName p \<and>
      depSource d \<in> {DependencySourceTier2, DependencySourceBundled}) (psDependencies (plSpec p))"
    using validate_dependency_Nil by (simp_all add: list_all_iff validate_need_Nil) blast
qed

lemma ParseManifest_valid: "ParseManifest sv yaml data = Inr p \<Longrightarrow> Validate sv p = []"
  by (auto simp: ParseManifest_def Let_def split: sum.splits if_splits)

lemmas accepted_needs = Validate_Nil(1)[OF ParseManifest_valid]
  and accepted_name = Validate_Nil(2)[OF ParseManifest_valid]
  and accepted_dependencies = Validate_Nil(3)[OF ParseManifest_valid]

end
