(* ===== verification/GoPath.thy ===== *)
theory GoPath
  imports HostExec
begin

text \<open>
  Package \<open>path/filepath\<close> on Unix: \<open>Clean\<close>, \<open>Join\<close> and \<open>Rel\<close>, by path elements.
\<close>

text \<open>The elements of a cleaned path; the elements seen so far are a stack, innermost first.\<close>

fun clean_elems :: "bool \<Rightarrow> string list \<Rightarrow> string list \<Rightarrow> string list" where
  "clean_elems rooted st [] = rev st"
| "clean_elems rooted st (e # es) =
     (if e = [] \<or> e = ''.'' then clean_elems rooted st es
      else if e = ''..'' then
        (if st \<noteq> [] \<and> hd st \<noteq> ''..'' then clean_elems rooted (tl st) es
         else if rooted then clean_elems rooted st es
         else clean_elems rooted (e # st) es)
      else clean_elems rooted (e # st) es)"

definition rooted_path :: "string \<Rightarrow> bool" where
  "rooted_path path \<longleftrightarrow> HasPrefix path ''/''"

definition path_elems :: "string \<Rightarrow> string list" where
  "path_elems path = clean_elems (rooted_path path) [] (Split path (CHR ''/''))"

definition Clean :: "string \<Rightarrow> string" where
  "Clean path =
     (if rooted_path path then CHR ''/'' # Join (path_elems path) ''/''
      else if path_elems path = [] then ''.'' else Join (path_elems path) ''/'')"

definition path_Join :: "string list \<Rightarrow> string" where
  "path_Join elem = (case dropWhile (\<lambda>e. e = []) elem of [] \<Rightarrow> [] | es \<Rightarrow> Clean (Join es ''/''))"

text \<open>\<open>Dir\<close> cuts behind the last slash.\<close>

definition path_Dir :: "string \<Rightarrow> string" where
  "path_Dir path = Clean (case LastIndexByte path (CHR ''/'') of None \<Rightarrow> [] | Some i \<Rightarrow> take (Suc i) path)"

fun common_rest :: "string list \<Rightarrow> string list \<Rightarrow> string list \<times> string list" where
  "common_rest (b # bs) (t # ts) = (if b = t then common_rest bs ts else (b # bs, t # ts))"
| "common_rest bs ts = (bs, ts)"

definition Rel :: "string \<Rightarrow> string \<Rightarrow> string result" where
  "Rel basepath targpath =
     (let base = Clean basepath; targ = Clean targpath
      in if targ = base then Inr ''.''
         else if rooted_path base \<noteq> rooted_path targ then Inl (Errorf ''Rel: can't make %s relative to %s'')
         else case common_rest (path_elems base) (path_elems targ) of
                (bs, ts) \<Rightarrow>
                  if bs \<noteq> [] \<and> hd bs = ''..'' then Inl (Errorf ''Rel: can't make %s relative to %s'')
                  else Inr (Join (replicate (length bs) ''..'' @ ts) ''/''))"

subsection \<open>Lemmas\<close>

text \<open>The elements of a rooted path are names: no empty one, no dot and no dot dot.\<close>

definition name_elem :: "string \<Rightarrow> bool" where
  "name_elem e \<longleftrightarrow> e \<noteq> [] \<and> e \<noteq> ''.'' \<and> e \<noteq> ''..''"

lemma list_all_tl: "list_all P xs \<Longrightarrow> list_all P (tl xs)"
  by (cases xs) simp_all

lemma set_tl: "set (tl xs) \<subseteq> set xs"
  by (cases xs) auto

lemma clean_elems_names:
  "list_all name_elem st \<Longrightarrow> list_all name_elem (clean_elems True st es)"
  by (induction es arbitrary: st) (simp_all add: name_elem_def list_all_tl)

lemma clean_elems_id: "list_all name_elem es \<Longrightarrow> clean_elems r st es = rev st @ es"
  by (induction es arbitrary: st) (simp_all add: name_elem_def)

lemma clean_elems_append:
  "clean_elems True st (es @ fs) = clean_elems True (rev (clean_elems True st es)) fs"
  by (induction es arbitrary: st) simp_all

lemma set_clean_elems: "set (clean_elems r st es) \<subseteq> set st \<union> set es"
proof (induction es arbitrary: st)
  case (Cons e es)
  have "set (clean_elems r (tl st) es) \<subseteq> set st \<union> set (e # es)" "set (clean_elems r st es) \<subseteq> set st \<union> set (e # es)"
    "set (clean_elems r (e # st) es) \<subseteq> set st \<union> set (e # es)"
    using Cons.IH[of "tl st"] Cons.IH[of st] Cons.IH[of "e # st"] set_tl[of st] by fastforce+
  then show ?case by (cases r) auto
qed simp


subsection \<open>Paths below a directory\<close>

lemma rooted_elems:
  assumes "rooted_path p"
  shows "list_all name_elem (path_elems p)" and "\<forall>e\<in>set (path_elems p). CHR ''/'' \<notin> set e"
  using assms clean_elems_names[of "[]" "Split p (CHR ''/'')"] set_clean_elems[of True "[]" "Split p (CHR ''/'')"] Split_no_sep
  by (auto simp: path_elems_def)

lemma path_elems_of:
  assumes "list_all name_elem es" and "\<forall>e\<in>set es. CHR ''/'' \<notin> set e"
  shows "path_elems (CHR ''/'' # Join es ''/'') = es"
proof -
  have "Split (CHR ''/'' # Join es ''/'') (CHR ''/'') = [] # (if es = [] then [[]] else es)"
    using Split_of_Join[OF assms(2)] by (cases es) auto
  then show ?thesis using clean_elems_id[OF assms(1), of True "[]"] by (auto simp: path_elems_def rooted_path_def HasPrefix_def)
qed

lemma Clean_rooted: "rooted_path p \<Longrightarrow> Clean p = CHR ''/'' # Join (path_elems p) ''/''"
  by (simp add: Clean_def)

lemma rooted_Clean [simp]: "rooted_path p \<Longrightarrow> rooted_path (Clean p)"
  by (simp add: Clean_rooted rooted_path_def HasPrefix_def)

lemma path_elems_Clean: "rooted_path p \<Longrightarrow> path_elems (Clean p) = path_elems p"
  using path_elems_of[OF rooted_elems[of p]] by (simp add: Clean_rooted)

text \<open>Joining a cleaned absolute path to a directory appends its elements to those of the directory.\<close>

lemma path_Join_below:
  assumes "rooted_path dir" and "rooted_path c"
  shows "path_Join [dir, Clean c] = CHR ''/'' # Join (path_elems dir @ path_elems c) ''/''"
proof -
  have d: "dir \<noteq> []" "rooted_path (dir @ CHR ''/'' # Clean c)" using assms(1) by (auto simp: rooted_path_def HasPrefix_iff)
  have "clean_elems True (rev (path_elems dir)) (Split (Clean c) (CHR ''/'')) = path_elems dir @ path_elems c"
  proof -
    have "Split (Clean c) (CHR ''/'') = [] # (if path_elems c = [] then [[]] else path_elems c)"
      using Split_of_Join[OF rooted_elems(2)[OF assms(2)]] assms(2) by (cases "path_elems c") (auto simp: Clean_rooted)
    then show ?thesis using clean_elems_id[OF rooted_elems(1)[OF assms(2)]] by auto
  qed
  then have "path_elems (dir @ CHR ''/'' # Clean c) = path_elems dir @ path_elems c"
    using assms(1) d(2) unfolding path_elems_def[of "dir @ CHR ''/'' # Clean c"] Split_sep clean_elems_append
    by (simp add: path_elems_def clean_elems_append)
  then show ?thesis using d by (simp add: path_Join_def Clean_rooted)
qed

lemma common_rest_append: "common_rest bs (bs @ ts) = ([], ts)"
  by (induction bs) simp_all

lemma Rel_below:
  assumes "rooted_path dir" and "rooted_path c"
  shows "Rel dir (path_Join [dir, Clean c]) = Inr (if path_elems c = [] then ''.'' else Join (path_elems c) ''/'')"
proof -
  let ?f = "CHR ''/'' # Join (path_elems dir @ path_elems c) ''/''"
  have e: "path_elems ?f = path_elems dir @ path_elems c"
    using rooted_elems[OF assms(1)] rooted_elems[OF assms(2)] by (intro path_elems_of) auto
  then have f: "rooted_path ?f" "Clean ?f = ?f" by (simp_all add: rooted_path_def HasPrefix_def Clean_def)
  have "?f = Clean dir \<longleftrightarrow> path_elems c = []"
  proof
    assume "?f = Clean dir"
    then have "path_elems ?f = path_elems dir" using path_elems_Clean[OF assms(1)] by simp
    then show "path_elems c = []" using e by simp
  qed (simp add: Clean_rooted[OF assms(1)])
  then show ?thesis using path_Join_below[OF assms] f e assms(1)
    by (simp add: Rel_def Let_def path_elems_Clean common_rest_append)
qed

end
