(* ===== verification/PluginServe.thy ===== *)
theory PluginServe
  imports PluginManifest GoPath
begin

text \<open>
  \<^verbatim>\<open>internal/plugins/router.go\<close> and the serving half of \<^verbatim>\<open>ui_assets.go\<close>: the routes and the user interface of the
  installed plugins at run time.

  \<open>url.Parse\<close>, the proxy behind a route, the token minter and \<open>os.Stat\<close> are parameters; what a request
  leads to is a value. A panic is a value as well.
\<close>

subsection \<open>Routes\<close>

record 'u routeProxy =
  rpPrefix :: string
  rpAuth :: string
  rpScopes :: "string list"
  rpUpstream :: 'u

type_synonym 'u mounts = "string \<rightharpoonup> 'u routeProxy list"

record ('u, 'w) Router =
  rtParse :: "string \<Rightarrow> 'u result"
  rtPath :: "'u \<Rightarrow> string"
  rtTokenMinter :: "(string \<Rightarrow> 'w \<Rightarrow> string result \<times> 'w) option"

fun mount_routes :: "('u, 'w) Router \<Rightarrow> APIRoute list \<Rightarrow> 'u routeProxy list result" where
  "mount_routes rt [] = Inr []"
| "mount_routes rt (r # rs) =
     (case rtParse rt (arUpstream r) of
        Inl e \<Rightarrow> Inl (Wrapf ''plugins: route %q upstream parse: %w'' e)
      | Inr u \<Rightarrow>
          bindE (mount_routes rt rs) (\<lambda>l.
            Inr (\<lparr>rpPrefix = TrimRightByte (arPath r) (CHR ''/''), rpAuth = arAuth r, rpScopes = arScopes r, rpUpstream = u\<rparr> # l)))"

definition Mount :: "('u, 'w) Router \<Rightarrow> string \<Rightarrow> APIRoute list \<Rightarrow> 'u mounts \<Rightarrow> error option \<times> 'u mounts" where
  "Mount rt plugin routes ms =
     (case mount_routes rt routes of
        Inl e \<Rightarrow> (Some e, ms)
      | Inr l \<Rightarrow> (None, ms(plugin \<mapsto> l)))"

definition Unmount :: "string \<Rightarrow> 'u mounts \<Rightarrow> 'u mounts" where
  "Unmount plugin ms = ms(plugin := None)"

definition IsMounted :: "string \<Rightarrow> 'u mounts \<Rightarrow> bool" where
  "IsMounted plugin ms \<longleftrightarrow> ms plugin \<noteq> None"

text \<open>The loop over the routes: the first of the longest prefixes that match.\<close>

fun match_loop :: "string \<Rightarrow> 'u routeProxy option \<Rightarrow> 'u routeProxy list \<Rightarrow> 'u routeProxy option" where
  "match_loop rest best [] = best"
| "match_loop rest best (rp # rps) =
     (if (rpPrefix rp = [] \<or> HasPrefix rest (rpPrefix rp)) \<and>
         (case best of None \<Rightarrow> True | Some b \<Rightarrow> length (rpPrefix rp) > length (rpPrefix b))
      then match_loop rest (Some rp) rps else match_loop rest best rps)"

text \<open>What the caller gets: a status of the router, or the answer of an upstream to a path and an
  \<open>Authorization\<close> header.\<close>

datatype 'u served = Status int | Proxied 'u string "string option"

definition ServeProxy ::
    "('u, 'w) Router \<Rightarrow> 'u mounts \<Rightarrow> string option \<Rightarrow> string \<Rightarrow> string \<Rightarrow> 'w \<Rightarrow> 'u served \<times> 'w" where
  "ServeProxy rt ms authorization plugin rest w =
     (case ms plugin of
        None \<Rightarrow> (Status 404, w)
      | Some routes \<Rightarrow>
          (let rest = (if HasPrefix rest ''/'' then rest else ''/'' @ rest)
           in case match_loop rest None routes of
                None \<Rightarrow> (Status 404, w)
              | Some m \<Rightarrow>
                  (let path = TrimRightByte (rtPath rt (rpUpstream m)) (CHR ''/'') @ rest
                   in if rpAuth m = ''service-token'' then
                        (case rtTokenMinter rt of
                           None \<Rightarrow> (Status 503, w)
                         | Some mint \<Rightarrow>
                             (case mint plugin w of
                                (Inl e, w) \<Rightarrow> (Status 502, w)
                              | (Inr tok, w) \<Rightarrow> (Proxied (rpUpstream m) path (Some (''Bearer '' @ tok)), w)))
                      else (Proxied (rpUpstream m) path authorization, w))))"

subsection \<open>Files of the user interface\<close>

type_synonym ui_dirs = "string \<rightharpoonup> string"

definition Register :: "string \<Rightarrow> string \<Rightarrow> ui_dirs \<Rightarrow> ui_dirs" where
  "Register plugin uiDir u = (if uiDir = [] then u(plugin := None) else u(plugin \<mapsto> uiDir))"

definition Deregister :: "string \<Rightarrow> ui_dirs \<Rightarrow> ui_dirs" where
  "Deregister plugin = Register plugin []"

definition Lookup :: "string \<Rightarrow> ui_dirs \<Rightarrow> string" where
  "Lookup plugin u = (case u plugin of None \<Rightarrow> [] | Some d \<Rightarrow> d)"

definition PluginRootFor :: "string \<Rightarrow> string \<Rightarrow> string" where
  "PluginRootFor root plugin = path_Join [root, plugin]"

datatype ui_answer = UIStatus int | UIFile string | UIPanic

text \<open>\<open>http.ServeFile\<close> looks for dot dot elements in the path of the URL of the request first.\<close>

definition ServeFile :: "string option \<Rightarrow> string \<Rightarrow> ui_answer" where
  "ServeFile url name =
     (case url of
        None \<Rightarrow> UIPanic
      | Some path \<Rightarrow> if ''..'' \<in> set (Split path (CHR ''/'')) then UIStatus 400 else UIFile name)"

datatype stat = NoEntry | IsFile | IsDir

definition ui_Serve :: "ui_dirs \<Rightarrow> (string \<Rightarrow> stat) \<Rightarrow> string \<Rightarrow> string \<Rightarrow> ui_answer" where
  "ui_Serve u osStat plugin rest =
     (let dir = Lookup plugin u
      in if dir = [] then UIStatus 404
         else let clean = Clean (''/'' @ rest)
              in if Contains clean ''..'' then UIStatus 400
                 else let full = path_Join [dir, clean]
                      in case Rel dir full of
                           Inl e \<Rightarrow> UIStatus 400
                         | Inr rel \<Rightarrow>
                             if HasPrefix rel ''..'' then UIStatus 400
                             else case osStat full of
                                    NoEntry \<Rightarrow> UIStatus 404
                                  | IsFile \<Rightarrow> ServeFile None full
                                  | IsDir \<Rightarrow> ServeFile None (path_Join [full, ''main.js'']))"

subsection \<open>The route of a request\<close>

definition matches_route :: "string \<Rightarrow> 'u routeProxy \<Rightarrow> bool" where
  "matches_route rest rp \<longleftrightarrow> rpPrefix rp = [] \<or> HasPrefix rest (rpPrefix rp)"

lemma match_loop_spec:
  "case match_loop rest best rps of
     None \<Rightarrow> best = None \<and> list_all (\<lambda>rp. \<not> matches_route rest rp) rps
   | Some m \<Rightarrow> (best = Some m \<or> m \<in> set rps \<and> matches_route rest m) \<and>
       list_all (\<lambda>rp. matches_route rest rp \<longrightarrow> length (rpPrefix rp) \<le> length (rpPrefix m)) rps \<and>
       (\<forall>b. best = Some b \<longrightarrow> length (rpPrefix b) \<le> length (rpPrefix m))"
proof (induction rps arbitrary: best)
  case (Cons rp rps)
  show ?case
  proof (cases "matches_route rest rp \<and> (case best of None \<Rightarrow> True | Some b \<Rightarrow> length (rpPrefix rp) > length (rpPrefix b))")
    case True
    then have "match_loop rest best (rp # rps) = match_loop rest (Some rp) rps" by (auto simp: matches_route_def)
    then show ?thesis using Cons.IH[of "Some rp"] True by (auto split: option.splits)
  next
    case False
    then have "match_loop rest best (rp # rps) = match_loop rest best rps" by (auto simp: matches_route_def)
    then show ?thesis using Cons.IH[of best] False by (fastforce split: option.splits)
  qed
qed (auto split: option.splits)

definition longest_match :: "string \<Rightarrow> 'u routeProxy list \<Rightarrow> 'u routeProxy \<Rightarrow> bool" where
  "longest_match rest routes m \<longleftrightarrow> m \<in> set routes \<and> matches_route rest m \<and>
     list_all (\<lambda>rp. matches_route rest rp \<longrightarrow> length (rpPrefix rp) \<le> length (rpPrefix m)) routes"

definition slashed :: "string \<Rightarrow> string" where
  "slashed rest = (if HasPrefix rest ''/'' then rest else ''/'' @ rest)"

text \<open>The header a route forwards: the one of the caller, or a token minted for the plugin.\<close>

definition forwards :: "('u, 'w) Router \<Rightarrow> 'u routeProxy \<Rightarrow> string option \<Rightarrow> string \<Rightarrow> 'w \<Rightarrow> string option \<Rightarrow> 'w \<Rightarrow> bool" where
  "forwards rt m authorization plugin w hdr w' \<longleftrightarrow>
     (if rpAuth m = ''service-token''
      then \<exists>mint tok. rtTokenMinter rt = Some mint \<and> mint plugin w = (Inr tok, w') \<and> hdr = Some (''Bearer '' @ tok)
      else hdr = authorization \<and> w' = w)"

lemma match_loop_longest: "match_loop rest None routes = Some m \<Longrightarrow> longest_match rest routes m"
  using match_loop_spec[where rest = rest and best = None and rps = routes] by (simp add: longest_match_def)

lemma match_loop_none: "match_loop rest None routes = None \<Longrightarrow> list_all (\<lambda>rp. \<not> matches_route rest rp) routes"
  using match_loop_spec[where rest = rest and best = None and rps = routes] by simp

text \<open>
  A request for a plugin reaches an upstream only through a route of that plugin whose prefix starts the path,
  and no other matching route has a longer prefix; the upstream gets its own base path followed by
  the requested path, and a route that uses a service token never forwards the header of the caller.
  Without a matching route the answer is 404.
\<close>

theorem ServeProxy_longest_prefix:
  "case ServeProxy rt ms authorization plugin rest w of
     (Proxied u path hdr, w') \<Rightarrow>
       (\<exists>routes m. ms plugin = Some routes \<and> longest_match (slashed rest) routes m \<and> u = rpUpstream m \<and>
          path = TrimRightByte (rtPath rt u) (CHR ''/'') @ slashed rest \<and> forwards rt m authorization plugin w hdr w')
   | (Status st, w') \<Rightarrow>
       st = 404 \<and> (case ms plugin of None \<Rightarrow> True | Some routes \<Rightarrow> list_all (\<lambda>rp. \<not> matches_route (slashed rest) rp) routes) \<or>
       st \<in> {502, 503} \<and> (\<exists>routes m. ms plugin = Some routes \<and> longest_match (slashed rest) routes m \<and> rpAuth m = ''service-token'')"
proof (cases "ms plugin")
  case (Some routes)
  note R = Some
  show ?thesis
  proof (cases "match_loop (slashed rest) None routes")
    case None
    then show ?thesis using R match_loop_none[OF None] by (simp add: ServeProxy_def slashed_def[symmetric] del: append_Cons)
  next
    case (Some m)
    note S = ServeProxy_def slashed_def[symmetric] Let_def R Some forwards_def
    show ?thesis
    proof (cases "rpAuth m = ''service-token''")
      case False
      then show ?thesis using match_loop_longest[OF Some] by (force simp: S)
    next
      case True
      then show ?thesis
      proof (cases "rtTokenMinter rt")
        case None
        then show ?thesis using match_loop_longest[OF Some] True by (force simp: S)
      next
        case (Some mint)
        obtain r w' where "mint plugin w = (r, w')" by fastforce
        then show ?thesis using match_loop_longest[OF \<open>match_loop (slashed rest) None routes = Some m\<close>] True Some
          by (cases r) (force simp: S)+
      qed
    qed
  qed
qed (simp add: ServeProxy_def)


subsection \<open>No file is delivered\<close>

lemma Contains_suffix: "HasPrefix s t \<Longrightarrow> t \<noteq> [] \<Longrightarrow> Contains (c # s) t"
  by (cases s) (auto simp: Contains_def HasPrefix_iff)

text \<open>
  No file of a plugin's user interface is ever delivered: the request that is handed to \<open>http.ServeFile\<close> has no
  URL, which that function reads first. Every request for an existing file below the directory of a
  registered plugin ends in a panic, and none leaves that directory.
\<close>

theorem ui_requests_panic:
  assumes "u plugin = Some dir" and "rooted_path dir" and "\<not> Contains (Clean (''/'' @ rest)) ''..''"
    and "osStat (CHR ''/'' # Join (path_elems dir @ path_elems (''/'' @ rest)) ''/'') \<noteq> NoEntry"
  shows "ui_Serve u osStat plugin rest = UIPanic"
proof -
  have r: "rooted_path (''/'' @ rest)" by (simp add: rooted_path_def HasPrefix_def)
  have "\<not> HasPrefix (if path_elems (''/'' @ rest) = [] then ''.'' else Join (path_elems (''/'' @ rest)) ''/'') ''..''"
    using assms(3) Contains_suffix[of _ "''..''"] Clean_rooted[OF r] by (auto simp: HasPrefix_def)
  moreover have "Lookup plugin u = dir" "dir \<noteq> []" using assms(1,2) by (auto simp: Lookup_def rooted_path_def HasPrefix_def)
  ultimately show ?thesis using assms(3,4) Rel_below[OF assms(2) r] path_Join_below[OF assms(2) r]
    by (simp add: ui_Serve_def Let_def ServeFile_def split: stat.splits)
qed

theorem ui_requests_panic_witness:
  "ui_Serve [''photos'' \<mapsto> ''/var/lib/nova-nas/plugins/photos/ui''] (\<lambda>p. if p = ''/var/lib/nova-nas/plugins/photos/ui/main.js'' then IsFile else NoEntry)
     ''photos'' ''main.js'' = UIPanic"
proof -
  have c: "\<not> Contains (Clean (''/'' @ ''main.js'')) ''..''" "rooted_path ''/var/lib/nova-nas/plugins/photos/ui''"
    "CHR ''/'' # Join (path_elems ''/var/lib/nova-nas/plugins/photos/ui'' @ path_elems (''/'' @ ''main.js'')) ''/''
      = ''/var/lib/nova-nas/plugins/photos/ui/main.js''" by code_simp+
  show ?thesis by (rule ui_requests_panic[OF _ c(2) c(1)]) (simp, simp only: c(3) if_True simp_thms stat.distinct)
qed

end
