(* ===== verification/PluginUnpack.thy ===== *)
theory PluginUnpack
  imports PluginServe GoJson
begin

text \<open>
  \<open>ExtractTarball\<close> of \<^verbatim>\<open>internal/plugins/ui_assets.go\<close>: unpacking a package.

  Packages \<open>gzip\<close> and \<open>tar\<close> are a parameter that reads the archive: an error of the gzip header, or the
  entries in order and the error \<open>tr.Next\<close> ends with, if it is not the end of the file. The calls
  to the operating system are a record of functions on the world.
\<close>

datatype tar_type = TypeDir | TypeReg | TypeOther

text \<open>The body of an entry is what can be read of it, and the error that reading ends with other than the end.\<close>

record tar_entry =
  hdrName :: string
  hdrTypeflag :: tar_type
  hdrSize :: int
  hdrBody :: string
  hdrErr :: "error option"

type_synonym untar = "string \<Rightarrow> (tar_entry list \<times> error option) result"

record 'w unpack_fs =
  upMkdirAll :: "string \<Rightarrow> 'w \<Rightarrow> error option \<times> 'w"
  upOpen :: "string \<Rightarrow> 'w \<Rightarrow> error option \<times> 'w"
  upWrite :: "string \<Rightarrow> string \<Rightarrow> 'w \<Rightarrow> error option \<times> 'w"
  upClose :: "string \<Rightarrow> 'w \<Rightarrow> error option \<times> 'w"
  upRead :: "string \<Rightarrow> 'w \<Rightarrow> string result \<times> 'w"

definition maxExtractBytes :: int where "maxExtractBytes = 536870912"

definition escapes :: error where "escapes = Errorf ''plugins: tarball entry escapes root: %q''"

text \<open>Where an entry goes: the full path and the path relative to the destination.\<close>

definition entry_path :: "string \<Rightarrow> string \<Rightarrow> (string \<times> string) result" where
  "entry_path destDir name =
     (let clean = Clean (''/'' @ name)
      in if Contains clean ''..'' then Inl escapes
         else let full = path_Join [destDir, clean]
              in case Rel destDir full of
                   Inl e \<Rightarrow> Inl escapes
                 | Inr rel \<Rightarrow> if HasPrefix rel ''..'' then Inl escapes else Inr (full, rel))"

text \<open>What the loop carries: the bytes left, the manifest once it was seen, whether there is a user interface.\<close>

record unpack_state =
  usRemaining :: int
  usManifest :: "string option"
  usHasUI :: bool

text \<open>A regular file: \<open>io.CopyN\<close> writes at most the bytes that are left.\<close>

definition extract_file ::
    "'w unpack_fs \<Rightarrow> tar_entry \<Rightarrow> string \<Rightarrow> string \<Rightarrow> unpack_state \<Rightarrow> 'w \<Rightarrow> unpack_state result \<times> 'w" where
  "extract_file fs hdr full rel st w =
     (if hdrSize hdr > usRemaining st then (Inl (Errorf ''plugins: tarball exceeds %d bytes''), w)
      else case upMkdirAll fs (path_Dir full) w of
        (Some e, w) \<Rightarrow> (Inl e, w)
      | (None, w) \<Rightarrow>
          (case upOpen fs full w of
             (Some e, w) \<Rightarrow> (Inl e, w)
           | (None, w) \<Rightarrow>
               (let dat = limit_read (usRemaining st) (hdrBody hdr)
                in case upWrite fs full dat w of
                     (Some e, w) \<Rightarrow> (Inl e, snd (upClose fs full w))
                   | (None, w) \<Rightarrow>
                       (case (if int (length (hdrBody hdr)) < usRemaining st then hdrErr hdr else None) of
                          Some e \<Rightarrow> (Inl e, snd (upClose fs full w))
                        | None \<Rightarrow>
                            (case upClose fs full w of
                               (Some e, w) \<Rightarrow> (Inl e, w)
                             | (None, w) \<Rightarrow>
                                 (let st = st\<lparr>usRemaining := usRemaining st - int (length dat),
                                              usHasUI := usHasUI st \<or> HasPrefix rel ''ui/''\<rparr>
                                  in if rel = ''manifest.yaml''
                                     then (case upRead fs full w of
                                             (Inl e, w) \<Rightarrow> (Inl e, w)
                                           | (Inr b, w) \<Rightarrow> (Inr (st\<lparr>usManifest := Some b\<rparr>), w))
                                     else (Inr st, w)))))))"

definition extract_entry ::
    "'w unpack_fs \<Rightarrow> string \<Rightarrow> tar_entry \<Rightarrow> unpack_state \<Rightarrow> 'w \<Rightarrow> unpack_state result \<times> 'w" where
  "extract_entry fs destDir hdr st w =
     (case entry_path destDir (hdrName hdr) of
        Inl e \<Rightarrow> (Inl e, w)
      | Inr (full, rel) \<Rightarrow>
          (case hdrTypeflag hdr of
             TypeDir \<Rightarrow>
               (case upMkdirAll fs full w of
                  (Some e, w) \<Rightarrow> (Inl e, w)
                | (None, w) \<Rightarrow> (Inr (st\<lparr>usHasUI := usHasUI st \<or> rel = ''ui''\<rparr>), w))
           | TypeReg \<Rightarrow> extract_file fs hdr full rel st w
           | TypeOther \<Rightarrow> (Inr st, w)))"

fun extract_loop ::
    "'w unpack_fs \<Rightarrow> string \<Rightarrow> error option \<Rightarrow> tar_entry list \<Rightarrow> unpack_state \<Rightarrow> 'w \<Rightarrow> unpack_state result \<times> 'w" where
  "extract_loop fs destDir ending [] st w =
     (case ending of None \<Rightarrow> (Inr st, w) | Some e \<Rightarrow> (Inl (Wrapf ''plugins: tar: %w'' e), w))"
| "extract_loop fs destDir ending (hdr # hdrs) st w =
     (case extract_entry fs destDir hdr st w of
        (Inl e, w) \<Rightarrow> (Inl e, w)
      | (Inr st, w) \<Rightarrow> extract_loop fs destDir ending hdrs st w)"

definition ExtractTarball :: "untar \<Rightarrow> 'w unpack_fs \<Rightarrow> string \<Rightarrow> string \<Rightarrow> 'w \<Rightarrow> (string \<times> string) result \<times> 'w" where
  "ExtractTarball untar fs tarball destDir w =
     (case upMkdirAll fs destDir w of
        (Some e, w) \<Rightarrow> (Inl e, w)
      | (None, w) \<Rightarrow>
          (case untar tarball of
             Inl e \<Rightarrow> (Inl (Wrapf ''plugins: gzip: %w'' e), w)
           | Inr (hdrs, ending) \<Rightarrow>
               (case extract_loop fs destDir ending hdrs \<lparr>usRemaining = maxExtractBytes, usManifest = None, usHasUI = False\<rparr> w of
                  (Inl e, w) \<Rightarrow> (Inl e, w)
                | (Inr st, w) \<Rightarrow>
                    (case usManifest st of
                       None \<Rightarrow> (Inl (Errorf ''plugins: tarball: missing manifest.yaml at root''), w)
                     | Some b \<Rightarrow> (Inr (b, if usHasUI st then path_Join [destDir, ''ui''] else []), w)))))"

subsection \<open>What unpacking touches\<close>

datatype unpack_event = MadeDir string | Opened string | Wrote string string

definition noting :: "'w unpack_fs \<Rightarrow> (unpack_event list \<times> 'w) unpack_fs" where
  "noting fs =
     \<lparr>upMkdirAll = (\<lambda>p s. case upMkdirAll fs p (snd s) of (e, w) \<Rightarrow> (e, (fst s @ [MadeDir p], w))),
      upOpen = (\<lambda>p s. case upOpen fs p (snd s) of (e, w) \<Rightarrow> (e, (fst s @ [Opened p], w))),
      upWrite = (\<lambda>p b s. case upWrite fs p b (snd s) of (e, w) \<Rightarrow> (e, (fst s @ [Wrote p b], w))),
      upClose = (\<lambda>p s. case upClose fs p (snd s) of (e, w) \<Rightarrow> (e, (fst s, w))),
      upRead = (\<lambda>p s. case upRead fs p (snd s) of (r, w) \<Rightarrow> (r, (fst s, w)))\<rparr>"

definition below :: "string \<Rightarrow> string \<Rightarrow> bool" where
  "below dir p \<longleftrightarrow> rooted_path p \<and> (\<exists>es. path_elems p = path_elems dir @ es)"

text \<open>The directory above the destination may be named as well, which exists by then.\<close>

fun contained :: "string \<Rightarrow> unpack_event \<Rightarrow> bool" where
  "contained dir (MadeDir p) \<longleftrightarrow> below dir p \<or> p = path_Dir (Clean dir)"
| "contained dir (Opened p) \<longleftrightarrow> below dir p"
| "contained dir (Wrote p b) \<longleftrightarrow> below dir p"

fun event_bytes :: "unpack_event \<Rightarrow> int" where
  "event_bytes (Wrote p b) = int (length b)"
| "event_bytes e = 0"

definition written :: "unpack_event list \<Rightarrow> int" where
  "written tr = sum_list (map event_bytes tr)"


lemma written_append [simp]: "written (a @ b) = written a + written b"
  by (simp add: written_def)

lemma written_simps [simp]: "written [] = 0" "written (e # tr) = event_bytes e + written tr"
  by (simp_all add: written_def)

lemma limit_read_length: "0 \<le> n \<Longrightarrow> int (length (limit_read n s)) \<le> n"
proof (induction n s rule: limit_read.induct)
  case (2 n c cs)
  then show ?case by (cases "n \<le> 0") auto
qed simp

lemma below_full:
  assumes "rooted_path dir" and "list_all name_elem es" "\<forall>e\<in>set es. CHR ''/'' \<notin> set e"
  shows "below dir (CHR ''/'' # Join (path_elems dir @ es) ''/'')"
proof -
  have "path_elems (CHR ''/'' # Join (path_elems dir @ es) ''/'') = path_elems dir @ es"
    using rooted_elems[OF assms(1)] assms(2,3) by (intro path_elems_of) auto
  then show ?thesis by (simp add: below_def rooted_path_def HasPrefix_def)
qed

lemma entry_path_form:
  assumes "rooted_path dir" and "entry_path dir name = Inr (full, rel)"
  shows "full = CHR ''/'' # Join (path_elems dir @ path_elems (''/'' @ name)) ''/''" and "below dir full"
proof -
  have r: "rooted_path (''/'' @ name)" by (simp add: rooted_path_def HasPrefix_def)
  show f: "full = CHR ''/'' # Join (path_elems dir @ path_elems (''/'' @ name)) ''/''"
    using assms(2) path_Join_below[OF assms(1) r] by (auto simp: entry_path_def Let_def split: if_splits sum.splits)
  show "below dir full" unfolding f using below_full[OF assms(1) rooted_elems[OF r]] .
qed

lemma LastIndexByte_append: "c \<notin> set b \<Longrightarrow> LastIndexByte (a @ c # b) c = Some (length a)"
proof (induction a)
  case Nil
  have "LastIndexByte b c = None" using Nil by (induction b) auto
  then show ?case by simp
qed simp

lemma Join_snoc: "es \<noteq> [] \<Longrightarrow> Join (es @ [e]) sep = Join es sep @ sep @ e"
  by (induction es sep rule: Join.induct) auto

text \<open>The directory of an absolute path drops its last element.\<close>

lemma path_Dir_elems:
  assumes "list_all name_elem (es @ [e])" and "\<forall>x\<in>set (es @ [e]). CHR ''/'' \<notin> set x"
  shows "path_Dir (CHR ''/'' # Join (es @ [e]) ''/'') = CHR ''/'' # Join es ''/''"
proof (cases "es = []")
  case True
  then show ?thesis using assms(2) LastIndexByte_append[of "CHR ''/''" e "[]"] by (simp add: path_Dir_def) code_simp
next
  case False
  let ?d = "CHR ''/'' # Join es ''/''"
  have "LastIndexByte (?d @ CHR ''/'' # e) (CHR ''/'') = Some (length ?d)"
    using assms(2) by (intro LastIndexByte_append) simp
  then have "path_Dir (CHR ''/'' # Join (es @ [e]) ''/'') = Clean (?d @ ''/'')"
    using False by (simp add: path_Dir_def Join_snoc)
  moreover have "path_elems (?d @ ''/'') = es"
  proof -
    have "Split (?d @ ''/'') (CHR ''/'') = [] # es @ [[]]"
      using Split_sep[of ?d "CHR ''/''" "[]"] Split_of_Join[of es "CHR ''/''"] assms(2) False by simp
    then show ?thesis using clean_elems_id[of es True "[]"] assms(1) clean_elems_append[of "[]" es "[[]]"]
      by (simp add: path_elems_def rooted_path_def HasPrefix_def)
  qed
  ultimately show ?thesis by (simp add: Clean_rooted rooted_path_def HasPrefix_def)
qed

lemma entry_dir_contained:
  assumes D: "rooted_path dir" and E: "entry_path dir name = Inr (full, rel)"
  shows "contained dir (MadeDir (path_Dir full))"
proof (cases "path_elems (''/'' @ name)" rule: rev_cases)
  case Nil
  then show ?thesis using entry_path_form(1)[OF D E] by (simp add: Clean_rooted[OF D])
next
  case (snoc es e)
  have r: "rooted_path (''/'' @ name)" by (simp add: rooted_path_def HasPrefix_def)
  have a: "list_all name_elem ((path_elems dir @ es) @ [e])" "\<forall>x\<in>set ((path_elems dir @ es) @ [e]). CHR ''/'' \<notin> set x"
    using rooted_elems[OF D] rooted_elems[OF r] snoc by auto
  have "path_Dir full = CHR ''/'' # Join (path_elems dir @ es) ''/''"
    using entry_path_form(1)[OF D E] snoc path_Dir_elems[OF a] by simp
  moreover have "below dir (CHR ''/'' # Join (path_elems dir @ es) ''/'')" using a by (intro below_full[OF D]) auto
  ultimately show ?thesis by simp
qed


text \<open>A step that adds contained events, writes no more than is left, and counts what it wrote.\<close>

definition bounded_step :: "string \<Rightarrow> unpack_state \<Rightarrow> unpack_event list \<Rightarrow> unpack_state result \<Rightarrow> unpack_event list \<Rightarrow> bool" where
  "bounded_step dir st tr r tr' \<longleftrightarrow>
     (\<exists>ev. tr' = tr @ ev \<and> list_all (contained dir) ev \<and> written ev \<le> usRemaining st \<and>
        (case r of Inl e \<Rightarrow> True | Inr st' \<Rightarrow> usRemaining st' = usRemaining st - written ev))"

lemma bounded_stepI:
  assumes "list_all (contained dir) ev" "written ev \<le> usRemaining st" "\<And>st'. r = Inr st' \<Longrightarrow> usRemaining st' = usRemaining st - written ev"
  shows "bounded_step dir st tr r (tr @ ev)"
proof -
  have "case r of Inl e \<Rightarrow> True | Inr st' \<Rightarrow> usRemaining st' = usRemaining st - written ev"
    by (cases r) (simp, simp only: sum.case assms(3))
  then show ?thesis unfolding bounded_step_def using assms(1,2) by blast
qed

lemma bounded_step_stay:
  assumes "0 \<le> usRemaining st"
  shows "bounded_step dir st tr (Inl e) tr" and "bounded_step dir st tr (Inr st) tr"
  using assms by (simp_all add: bounded_step_def)

lemma extract_file_bounded:
  assumes D: "contained dir (MadeDir (path_Dir full))" and B: "below dir full" and R: "0 \<le> usRemaining st"
    and X: "extract_file (noting fs) hdr full rel st (tr, w) = (r, (tr', w'))"
  shows "bounded_step dir st tr r tr'"
proof -
  define dat where "dat = limit_read (usRemaining st) (hdrBody hdr)"
  have len: "int (length dat) \<le> usRemaining st" unfolding dat_def using R by (rule limit_read_length)
  consider "tr' = tr @ []" "\<exists>e. r = Inl e"
    | "tr' = tr @ [MadeDir (path_Dir full)]" "\<exists>e. r = Inl e"
    | "tr' = tr @ [MadeDir (path_Dir full), Opened full]" "\<exists>e. r = Inl e"
    | "tr' = tr @ [MadeDir (path_Dir full), Opened full, Wrote full dat]"
        "\<And>st'. r = Inr st' \<Longrightarrow> usRemaining st' = usRemaining st - int (length dat)"
    using X unfolding extract_file_def noting_def dat_def[symmetric]
    by (simp add: Let_def split: if_splits prod.splits option.splits sum.splits) auto
  then show ?thesis
  proof cases
    case 4
    have w: "written [MadeDir (path_Dir full), Opened full, Wrote full dat] = int (length dat)" by (simp add: written_def)
    show ?thesis unfolding 4(1)
    proof (rule bounded_stepI)
      show "usRemaining st' = usRemaining st - written [MadeDir (path_Dir full), Opened full, Wrote full dat]" if "r = Inr st'" for st'
        unfolding w by (rule 4(2)[OF that])
    qed (use D B len w in simp_all)
  qed (use D B R in \<open>auto simp: bounded_step_def written_def\<close>)
qed

lemma extract_entry_bounded:
  assumes D: "rooted_path dir" and R: "0 \<le> usRemaining st"
    and X: "extract_entry (noting fs) dir hdr st (tr, w) = (r, (tr', w'))"
  shows "bounded_step dir st tr r tr'"
proof (cases "entry_path dir (hdrName hdr)")
  case (Inl e)
  then show ?thesis using X bounded_step_stay[OF R] by (auto simp: extract_entry_def)
next
  case (Inr fr)
  obtain full rel where E: "entry_path dir (hdrName hdr) = Inr (full, rel)" using Inr by (cases fr) simp
  note f = entry_path_form(2)[OF D E] entry_dir_contained[OF D E]
  show ?thesis
  proof (cases "hdrTypeflag hdr")
    case TypeDir
    then have "tr' = tr @ [MadeDir full]" "(\<exists>e. r = Inl e) \<or> (\<exists>b. r = Inr (st\<lparr>usHasUI := b\<rparr>))"
      using X E by (auto simp: extract_entry_def noting_def split: prod.splits option.splits)
    then show ?thesis using f(1) R by (auto intro!: bounded_stepI)
  next
    case TypeReg
    then show ?thesis using X E extract_file_bounded[OF f(2,1) R] by (simp add: extract_entry_def)
  next
    case TypeOther
    then show ?thesis using X E bounded_step_stay[OF R] by (auto simp: extract_entry_def)
  qed
qed

lemma extract_loop_bounded:
  assumes "rooted_path dir" and "0 \<le> usRemaining st" and "extract_loop (noting fs) dir ending hdrs st (tr, w) = (r, (tr', w'))"
  shows "bounded_step dir st tr r tr'"
  using assms(2,3)
proof (induction hdrs arbitrary: st tr w)
  case Nil
  then show ?case using bounded_step_stay by (auto split: option.splits)
next
  case (Cons hdr hdrs)
  obtain r1 tr1 w1 where 1: "extract_entry (noting fs) dir hdr st (tr, w) = (r1, (tr1, w1))" by (metis surj_pair)
  note b = extract_entry_bounded[OF assms(1) Cons.prems(1) 1]
  show ?case
  proof (cases r1)
    case (Inl e)
    then show ?thesis using Cons.prems(2) 1 b by (auto simp: bounded_step_def)
  next
    case (Inr st1)
    obtain ev where ev: "tr1 = tr @ ev" "list_all (contained dir) ev" "written ev \<le> usRemaining st" "usRemaining st1 = usRemaining st - written ev"
      using b Inr by (auto simp: bounded_step_def)
    have "bounded_step dir st1 tr1 r tr'" using Cons.IH[of st1 tr1 w1] Cons.prems(2) 1 Inr ev(3,4) by simp
    then obtain ev' where ev': "tr' = tr1 @ ev'" "list_all (contained dir) ev'" "written ev' \<le> usRemaining st1"
      "case r of Inl e \<Rightarrow> True | Inr st' \<Rightarrow> usRemaining st' = usRemaining st1 - written ev'" by (auto simp: bounded_step_def)
    then show ?thesis unfolding ev'(1) ev(1) append_assoc using ev(2-4) by (cases r) (auto intro!: bounded_stepI)
  qed
qed

text \<open>
  C11. Unpacking a package, whatever bytes it has and whatever the file system answers, opens and writes only files whose
  resolved path lies below the destination, makes only directories below it, apart from the one the
  destination is in, and writes at most 512 MiB in all.
\<close>

theorem ExtractTarball_contained:
  assumes "rooted_path destDir"
  shows "case ExtractTarball untar (noting fs) tarball destDir ([], w) of
    (r, (tr, w')) \<Rightarrow> list_all (contained destDir) tr \<and> written tr \<le> maxExtractBytes"
proof -
  let ?st = "\<lparr>usRemaining = maxExtractBytes, usManifest = None, usHasUI = False\<rparr>"
  have d: "contained destDir (MadeDir destDir)" using assms by (simp add: below_def)
  have m: "0 \<le> usRemaining ?st" by (simp add: maxExtractBytes_def)
  obtain e w1 where M: "upMkdirAll (noting fs) destDir ([], w) = (e, ([MadeDir destDir], w1))"
    by (cases "upMkdirAll fs destDir w") (simp add: noting_def)
  show ?thesis
  proof (cases "e = None \<and> (\<exists>x. untar tarball = Inr x)")
    case False
    then show ?thesis using M d m by (auto simp: ExtractTarball_def split: option.splits sum.splits)
  next
    case True
    then obtain hdrs ending where u: "untar tarball = Inr (hdrs, ending)" by auto
    obtain r tr w2 where L: "extract_loop (noting fs) destDir ending hdrs ?st ([MadeDir destDir], w1) = (r, (tr, w2))" by (metis surj_pair)
    have "list_all (contained destDir) tr \<and> written tr \<le> maxExtractBytes"
      using extract_loop_bounded[OF assms m L] d by (auto simp: bounded_step_def)
    then show ?thesis using True M u L by (simp add: ExtractTarball_def split: sum.splits option.splits)
  qed
qed

definition plain_fs :: "unit unpack_fs" where
  "plain_fs = \<lparr>upMkdirAll = (\<lambda>p w. (None, w)), upOpen = (\<lambda>p w. (None, w)), upWrite = (\<lambda>p b w. (None, w)),
     upClose = (\<lambda>p w. (None, w)), upRead = (\<lambda>p w. (Inr ''kind: Plugin'', w))\<rparr>"

definition demo_untar :: untar where
  "demo_untar b = Inr (map (\<lambda>n. \<lparr>hdrName = n, hdrTypeflag = TypeReg, hdrSize = 4, hdrBody = ''data'', hdrErr = None\<rparr>)
     [''manifest.yaml'', ''ui/../../../etc/passwd''], None)"

text \<open>An entry that climbs ends up below the destination like any other.\<close>

theorem ExtractTarball_contained_witness:
  "snd (ExtractTarball demo_untar (noting plain_fs) ''tgz'' ''/p/photos'' ([], ())) =
     ([MadeDir ''/p/photos'', MadeDir ''/p/photos'', Opened ''/p/photos/manifest.yaml'', Wrote ''/p/photos/manifest.yaml'' ''data'',
       MadeDir ''/p/photos/etc'', Opened ''/p/photos/etc/passwd'', Wrote ''/p/photos/etc/passwd'' ''data''], ()) \<and>
   below ''/p/photos'' ''/p/photos/etc/passwd''"
proof -
  have r: "rooted_path ''/p/photos''" by code_simp
  have e: "snd (ExtractTarball demo_untar (noting plain_fs) ''tgz'' ''/p/photos'' ([], ())) =
     ([MadeDir ''/p/photos'', MadeDir ''/p/photos'', Opened ''/p/photos/manifest.yaml'', Wrote ''/p/photos/manifest.yaml'' ''data'',
       MadeDir ''/p/photos/etc'', Opened ''/p/photos/etc/passwd'', Wrote ''/p/photos/etc/passwd'' ''data''], ())"
    by code_simp
  show ?thesis using ExtractTarball_contained[OF r, of demo_untar plain_fs "''tgz''" "()"] e
    by (auto split: prod.splits)
qed

end
