(* ===== verification/PluginNeeds.thy ===== *)
theory PluginNeeds
  imports PluginManifest GoPath GoJson ZfsDataset
begin

text \<open>
  \<^verbatim>\<open>internal/plugins/needs.go\<close> and the provisioners \<^verbatim>\<open>provisioner_*.go\<close>: fulfilling the needs of a
  manifest and undoing it.

  The interface \<open>NeedsProvisioner\<close> is a record of functions on the state of the world. The production
  provisioner is built from the dataset manager of \<open>ZfsDataset\<close>, the Keycloak admin API, the
  certificate issuer, the secrets manager and the files, which are parameters. A nil pointer that the
  code follows is a panic, and a call that panics has the value \<open>None\<close>.
\<close>

record 'w NeedsProvisioner =
  ProvisionDataset :: "string \<Rightarrow> DatasetNeed \<Rightarrow> 'w \<Rightarrow> string result \<times> 'w"
  UnprovisionDataset :: "string \<Rightarrow> string \<Rightarrow> 'w \<Rightarrow> error option \<times> 'w"
  ProvisionOIDCClient :: "string \<Rightarrow> OIDCClientNeed \<Rightarrow> 'w \<Rightarrow> string result \<times> 'w"
  UnprovisionOIDCClient :: "string \<Rightarrow> string \<Rightarrow> 'w \<Rightarrow> error option \<times> 'w"
  ProvisionTLSCert :: "string \<Rightarrow> TLSCertNeed \<Rightarrow> 'w \<Rightarrow> string result \<times> 'w"
  UnprovisionTLSCert :: "string \<Rightarrow> string \<Rightarrow> 'w \<Rightarrow> error option \<times> 'w"
  ProvisionPermission :: "string \<Rightarrow> PermissionNeed \<Rightarrow> 'w \<Rightarrow> string result \<times> 'w"
  UnprovisionPermission :: "string \<Rightarrow> string \<Rightarrow> 'w \<Rightarrow> error option \<times> 'w"

definition NopProvisioner :: "'w NeedsProvisioner" where
  "NopProvisioner =
     \<lparr>ProvisionDataset = (\<lambda>plugin n w. (Inr (''dataset:'' @ plugin @ ''/'' @ dnPool n @ ''/'' @ dnName n), w)),
      UnprovisionDataset = (\<lambda>plugin i w. (None, w)),
      ProvisionOIDCClient = (\<lambda>plugin n w. (Inr (''oidcclient:'' @ plugin @ ''/'' @ ocClientID n), w)),
      UnprovisionOIDCClient = (\<lambda>plugin i w. (None, w)),
      ProvisionTLSCert = (\<lambda>plugin n w. (Inr (''tlscert:'' @ plugin @ ''/'' @ tcCommonName n), w)),
      UnprovisionTLSCert = (\<lambda>plugin i w. (None, w)),
      ProvisionPermission = (\<lambda>plugin n w. (Inr (''permission:'' @ plugin @ ''/'' @ pnRole n), w)),
      UnprovisionPermission = (\<lambda>plugin i w. (None, w))\<rparr>"

type_synonym provisionedResource = "string \<times> string"

text \<open>One turn of the loop of \<open>runNeeds\<close>: the call for the kind of the need.\<close>

definition provision_need :: "'w NeedsProvisioner \<Rightarrow> string \<Rightarrow> Need \<Rightarrow> 'w \<Rightarrow> (string result \<times> 'w) option" where
  "provision_need p plugin n w =
     (if nKind n = NeedDataset then map_option (\<lambda>d. ProvisionDataset p plugin d w) (nDataset n)
      else if nKind n = NeedOIDCClient then map_option (\<lambda>d. ProvisionOIDCClient p plugin d w) (nOIDCClient n)
      else if nKind n = NeedTLSCert then map_option (\<lambda>d. ProvisionTLSCert p plugin d w) (nTLSCert n)
      else if nKind n = NeedPermission then map_option (\<lambda>d. ProvisionPermission p plugin d w) (nPermission n)
      else Some (Inl (Errorf ''plugins: needs[%d]: unknown kind %q''), w))"

definition unprovision_one :: "'w NeedsProvisioner \<Rightarrow> string \<Rightarrow> provisionedResource \<Rightarrow> 'w \<Rightarrow> error option \<times> 'w" where
  "unprovision_one p plugin r w =
     (if fst r = NeedDataset then UnprovisionDataset p plugin (snd r) w
      else if fst r = NeedOIDCClient then UnprovisionOIDCClient p plugin (snd r) w
      else if fst r = NeedTLSCert then UnprovisionTLSCert p plugin (snd r) w
      else if fst r = NeedPermission then UnprovisionPermission p plugin (snd r) w
      else (None, w))"

text \<open>The errors that are joined; the joined error is nil when there are none.\<close>

fun rollback_rev :: "'w NeedsProvisioner \<Rightarrow> string \<Rightarrow> provisionedResource list \<Rightarrow> 'w \<Rightarrow> error list \<times> 'w" where
  "rollback_rev p plugin [] w = ([], w)"
| "rollback_rev p plugin (r # rs) w =
     (case unprovision_one p plugin r w of
        (err, w) \<Rightarrow>
          (case rollback_rev p plugin rs w of
             (errs, w) \<Rightarrow> (case err of None \<Rightarrow> errs | Some e \<Rightarrow> e # errs, w)))"

definition rollbackNeeds :: "'w NeedsProvisioner \<Rightarrow> string \<Rightarrow> provisionedResource list \<Rightarrow> 'w \<Rightarrow> error list \<times> 'w" where
  "rollbackNeeds p plugin don = rollback_rev p plugin (rev don)"

fun needs_loop ::
    "'w NeedsProvisioner \<Rightarrow> string \<Rightarrow> Need list \<Rightarrow> provisionedResource list \<Rightarrow> 'w \<Rightarrow> ((provisionedResource list \<times> error option) \<times> 'w) option" where
  "needs_loop p plugin [] don w = Some ((don, None), w)"
| "needs_loop p plugin (n # needs) don w =
     (case provision_need p plugin n w of
        None \<Rightarrow> None
      | Some (Inl err, w) \<Rightarrow>
          (case rollbackNeeds p plugin don w of
             (rbErrs, w) \<Rightarrow>
               Some ((don, Some (if rbErrs \<noteq> [] then Wrapf ''%w (rollback also failed: %v)'' err else err)), w))
      | Some (Inr i, w) \<Rightarrow> needs_loop p plugin needs (don @ [(nKind n, i)]) w)"

definition runNeeds ::
    "'w NeedsProvisioner \<Rightarrow> string \<Rightarrow> Need list \<Rightarrow> 'w \<Rightarrow> ((provisionedResource list \<times> error option) \<times> 'w) option" where
  "runNeeds p plugin needs = needs_loop p plugin needs []"

subsection \<open>Datasets\<close>

record 'w DatasetClient =
  dcGet :: "string \<Rightarrow> 'w \<Rightarrow> Detail result \<times> 'w"
  dcCreate :: "CreateSpec \<Rightarrow> 'w \<Rightarrow> error option \<times> 'w"
  dcDestroy :: "string \<Rightarrow> bool \<Rightarrow> 'w \<Rightarrow> error option \<times> 'w"

text \<open>\<open>prefix:plugin/rest\<close>, split at the first slash behind the prefix.\<close>

definition parse_resource_id :: "string \<Rightarrow> string \<Rightarrow> (string \<times> string) option" where
  "parse_resource_id pre i =
     (if \<not> HasPrefix i pre then None
      else let rest = TrimPrefix i pre
           in map_option (\<lambda>slash. (take slash rest, drop (slash + 1) rest)) (IndexByte rest (CHR ''/'')))"

definition datasetResourceID :: "string \<Rightarrow> string \<Rightarrow> string" where
  "datasetResourceID plugin full = ''dataset:'' @ plugin @ ''/'' @ full"

definition parseDatasetResourceID :: "string \<Rightarrow> (string \<times> string) option" where
  "parseDatasetResourceID = parse_resource_id ''dataset:''"

definition dataset_spec :: "DatasetNeed \<Rightarrow> CreateSpec" where
  "dataset_spec n = \<lparr>csParent = dnPool n, csName = dnName n, csType = ''filesystem'', csVolumeSizeBytes = 0,
     csProperties = dnProperties n, csEncryptionEnabled = False, csEncryptionAlgorithm = []\<rparr>"

definition dataset_Provision :: "'w DatasetClient option \<Rightarrow> string \<Rightarrow> DatasetNeed \<Rightarrow> 'w \<Rightarrow> string result \<times> 'w" where
  "dataset_Provision client plugin n w =
     (case client of
        None \<Rightarrow> (Inl (Errorf ''plugins: DatasetProvisioner.Client is nil''), w)
      | Some c \<Rightarrow>
          if dnPool n = [] \<or> dnName n = [] then (Inl (Errorf ''plugins: dataset need: pool+name required''), w)
          else let full = dnPool n @ ''/'' @ dnName n
               in case dcGet c full w of
                    (Inr d, w) \<Rightarrow> (Inr (datasetResourceID plugin full), w)
                  | (Inl e, w) \<Rightarrow>
                      if \<not> errors_Is e ErrNotFound then (Inl (Wrapf ''plugins: dataset probe %q: %w'' e), w)
                      else case dcCreate c (dataset_spec n) w of
                             (Some e, w) \<Rightarrow> (Inl (Wrapf ''plugins: dataset create %q: %w'' e), w)
                           | (None, w) \<Rightarrow> (Inr (datasetResourceID plugin full), w))"

definition dataset_Unprovision :: "'w DatasetClient option \<Rightarrow> string \<Rightarrow> string \<Rightarrow> 'w \<Rightarrow> error option \<times> 'w" where
  "dataset_Unprovision client plugin i w =
     (case client of
        None \<Rightarrow> (Some (Errorf ''plugins: DatasetProvisioner.Client is nil''), w)
      | Some c \<Rightarrow>
          (case parseDatasetResourceID i of
             None \<Rightarrow> (Some (Errorf ''plugins: bad dataset resource id %q''), w)
           | Some (pl, full) \<Rightarrow>
               (case dcGet c full w of
                  (r, w) \<Rightarrow>
                    if (case r of Inl e \<Rightarrow> errors_Is e ErrNotFound | Inr d \<Rightarrow> False) then (None, w)
                    else case dcDestroy c full False w of
                           (Some e, w) \<Rightarrow> (Some (Wrapf ''plugins: dataset destroy %q: %w'' e), w)
                         | (None, w) \<Rightarrow> (None, w))))"


subsection \<open>Certificates\<close>

record LeafRequest =
  lrCommonName :: string
  lrDNSNames :: "string list"
  lrIPs :: "string list"
  lrTTLDays :: int

record 'w FileOps =
  osStat :: "string \<Rightarrow> 'w \<Rightarrow> error option \<times> 'w"
  osMkdirAll :: "string \<Rightarrow> 'w \<Rightarrow> error option \<times> 'w"
  osWriteFile :: "string \<Rightarrow> string \<Rightarrow> 'w \<Rightarrow> error option \<times> 'w"
  osReadFile :: "string \<Rightarrow> 'w \<Rightarrow> string result \<times> 'w"
  osRemove :: "string \<Rightarrow> 'w \<Rightarrow> error option \<times> 'w"

record 'w TLSCertProvisioner =
  tpIssuer :: "(LeafRequest \<Rightarrow> 'w \<Rightarrow> (string \<times> string) result \<times> 'w) option"
  tpPluginsRoot :: string
  tpFiles :: "'w FileOps"

definition DefaultPluginsRoot :: string where "DefaultPluginsRoot = ''/var/lib/nova-nas/plugins''"

definition tlsResourceID :: "string \<Rightarrow> string \<Rightarrow> string" where
  "tlsResourceID plugin cn = ''tlscert:'' @ plugin @ ''/'' @ cn"

definition parseTLSResourceID :: "string \<Rightarrow> (string \<times> string) option" where
  "parseTLSResourceID = parse_resource_id ''tlscert:''"

definition certDir :: "'w TLSCertProvisioner \<Rightarrow> string \<Rightarrow> string" where
  "certDir p plugin = path_Join [if tpPluginsRoot p = [] then DefaultPluginsRoot else tpPluginsRoot p, plugin, ''certs'']"

definition tls_issue :: "'w TLSCertProvisioner \<Rightarrow> (LeafRequest \<Rightarrow> 'w \<Rightarrow> (string \<times> string) result \<times> 'w) \<Rightarrow> string \<Rightarrow> TLSCertNeed \<Rightarrow> 'w \<Rightarrow> string result \<times> 'w" where
  "tls_issue p issue plugin n w =
     (let dir = certDir p plugin
      in case osMkdirAll (tpFiles p) dir w of
           (Some e, w) \<Rightarrow> (Inl (Wrapf ''plugins: mkdir cert dir: %w'' e), w)
         | (None, w) \<Rightarrow>
             (case issue \<lparr>lrCommonName = tcCommonName n, lrDNSNames = tcDNSNames n, lrIPs = tcIPs n, lrTTLDays = tcTTLDays n\<rparr> w of
                (Inl e, w) \<Rightarrow> (Inl (Wrapf ''plugins: tlsCert issue: %w'' e), w)
              | (Inr (cert, key), w) \<Rightarrow>
                  (case osWriteFile (tpFiles p) (path_Join [dir, ''cert.pem'']) cert w of
                     (Some e, w) \<Rightarrow> (Inl (Wrapf ''plugins: write cert: %w'' e), w)
                   | (None, w) \<Rightarrow>
                       (case osWriteFile (tpFiles p) (path_Join [dir, ''key.pem'']) key w of
                          (Some e, w) \<Rightarrow> (Inl (Wrapf ''plugins: write key: %w'' e), w)
                        | (None, w) \<Rightarrow> (Inr (tlsResourceID plugin (tcCommonName n)), w)))))"

definition tls_Provision :: "'w TLSCertProvisioner \<Rightarrow> string \<Rightarrow> TLSCertNeed \<Rightarrow> 'w \<Rightarrow> string result \<times> 'w" where
  "tls_Provision p plugin n w =
     (case tpIssuer p of
        None \<Rightarrow> (Inl (Errorf ''plugins: TLSCertProvisioner.Issuer is nil''), w)
      | Some issue \<Rightarrow>
          if tcCommonName n = [] then (Inl (Errorf ''plugins: tlsCert need: commonName required''), w)
          else case osStat (tpFiles p) (path_Join [certDir p plugin, ''cert.pem'']) w of
                 (Some e, w) \<Rightarrow> tls_issue p issue plugin n w
               | (None, w) \<Rightarrow>
                   (case osStat (tpFiles p) (path_Join [certDir p plugin, ''key.pem'']) w of
                      (Some e, w) \<Rightarrow> tls_issue p issue plugin n w
                    | (None, w) \<Rightarrow> (Inr (tlsResourceID plugin (tcCommonName n)), w)))"

text \<open>Overwrite with zeros, then remove; no failure is reported.\<close>

definition shred :: "'w FileOps \<Rightarrow> string \<Rightarrow> 'w \<Rightarrow> 'w" where
  "shred fs path w =
     (case osReadFile fs path w of
        (Inl e, w) \<Rightarrow> snd (osRemove fs path w)
      | (Inr dat, w) \<Rightarrow> snd (osRemove fs path (snd (osWriteFile fs path (replicate (length dat) (CHR 0x00)) w))))"

definition tls_Unprovision :: "'w TLSCertProvisioner \<Rightarrow> string \<Rightarrow> string \<Rightarrow> 'w \<Rightarrow> error option \<times> 'w" where
  "tls_Unprovision p plugin i w =
     (case parseTLSResourceID i of
        None \<Rightarrow> (Some (Errorf ''plugins: bad tlsCert resource id %q''), w)
      | Some (rPlugin, cn) \<Rightarrow>
          if rPlugin \<noteq> plugin then (Some (Errorf ''plugins: bad tlsCert resource id %q''), w)
          else (None, fold (\<lambda>f. shred (tpFiles p) (path_Join [certDir p plugin, f])) [''cert.pem'', ''key.pem''] w))"

subsection \<open>Keycloak clients\<close>

text \<open>The admin API: method, path, query and body to a status with the value its body spells, or an error.\<close>

type_synonym 'w KeycloakAdminDoer =
  "string \<Rightarrow> string \<Rightarrow> (string \<times> string) list \<Rightarrow> json option \<Rightarrow> 'w \<Rightarrow> (int \<times> json result) result \<times> 'w"

record 'w SecretsAPI =
  saSet :: "string \<Rightarrow> string \<Rightarrow> 'w \<Rightarrow> error option \<times> 'w"
  saDelete :: "string \<Rightarrow> 'w \<Rightarrow> error option \<times> 'w"

record 'w OIDCClientProvisioner =
  opAdmin :: "'w KeycloakAdminDoer option"
  opSecrets :: "'w SecretsAPI option"

definition oidcResourceID :: "string \<Rightarrow> string \<Rightarrow> string" where
  "oidcResourceID plugin clientID = ''oidcclient:'' @ plugin @ ''/'' @ clientID"

definition parseOIDCResourceID :: "string \<Rightarrow> (string \<times> string) option" where
  "parseOIDCResourceID = parse_resource_id ''oidcclient:''"

definition oidcSecretPath :: "string \<Rightarrow> string" where
  "oidcSecretPath plugin = ''nova/plugins/'' @ plugin @ ''/oidc-client-secret''"

text \<open>\<open>url.PathEscape\<close>.\<close>

definition hex_upper :: "nat \<Rightarrow> char" where
  "hex_upper n = (if n < 10 then char_of (48 + n) else char_of (55 + n))"

definition path_safe :: "char \<Rightarrow> bool" where
  "path_safe c \<longleftrightarrow> is_digit c \<or> of_char c \<in> {65..(90::nat)} \<or> of_char c \<in> {97..(122::nat)} \<or> c \<in> set ''-_.~$&+:=@''"

definition PathEscape :: "string \<Rightarrow> string" where
  "PathEscape s = concat (map (\<lambda>c. if path_safe c then [c] else let n = of_char c :: nat in [CHR ''%'', hex_upper (n div 16), hex_upper (n mod 16)]) s)"

text \<open>\<open>StatusCode / 100 == 2\<close>.\<close>

definition status_2xx :: "int \<Rightarrow> bool" where
  "status_2xx st \<longleftrightarrow> st div 100 = 2"

text \<open>Reading a \<open>kcClient\<close>: every field is checked for its type, the two that are used are kept.\<close>

definition json_mapper :: "json \<Rightarrow> unit result" where
  "json_mapper = json_struct (\<lambda>m. bindE (str_field ''name'' m) (\<lambda>_. bindE (str_field ''protocol'' m) (\<lambda>_.
     bindE (str_field ''protocolMapper'' m) (\<lambda>_. bindE (json_map (member ''config'' m)) (\<lambda>_. Inr ())))))"

definition kcClient :: "json \<Rightarrow> (string \<times> string) result" where
  "kcClient = json_struct (\<lambda>m. bindE (str_field ''id'' m) (\<lambda>i. bindE (str_field ''clientId'' m) (\<lambda>c.
     bindE (seqE (map (\<lambda>f. bool_field f m)
       [''enabled'', ''publicClient'', ''serviceAccountsEnabled'', ''standardFlowEnabled'', ''directAccessGrantsEnabled''])) (\<lambda>_.
     bindE (json_list json_string (member ''redirectUris'' m)) (\<lambda>_.
     bindE (json_list json_string (member ''webOrigins'' m)) (\<lambda>_.
     bindE (json_list json_mapper (member ''protocolMappers'' m)) (\<lambda>_. Inr (i, c))))))))"

text \<open>The body that creates a client.\<close>

definition client_rep :: "OIDCClientNeed \<Rightarrow> json" where
  "client_rep n = JObj (
     [(''clientId'', JStr (ocClientID n)), (''enabled'', JBool True), (''publicClient'', JBool (ocPublic n)),
      (''serviceAccountsEnabled'', JBool (\<not> ocPublic n)), (''standardFlowEnabled'', JBool True),
      (''directAccessGrantsEnabled'', JBool False)] @
     (if ocRedirects n = [] then [] else [(''redirectUris'', JArr (map JStr (ocRedirects n)))]) @
     [(''protocolMappers'', JArr [JObj [(''name'', JStr (''audience-'' @ ocClientID n)), (''protocol'', JStr ''openid-connect''),
        (''protocolMapper'', JStr ''oidc-audience-mapper''),
        (''config'', JObj [(''access.token.claim'', JStr ''true''), (''id.token.claim'', JStr ''false''),
           (''included.client.audience'', JStr (ocClientID n))])]])])"

definition pick_client :: "string \<Rightarrow> (string \<times> string) list \<Rightarrow> string" where
  "pick_client clientID got = (case find (\<lambda>(i, c). c = clientID) got of Some (i, c) \<Rightarrow> i | None \<Rightarrow> [])"

definition findClientUUID :: "'w KeycloakAdminDoer \<Rightarrow> string \<Rightarrow> 'w \<Rightarrow> string result \<times> 'w" where
  "findClientUUID admin clientID w =
     (case admin ''GET'' ''/clients'' [(''clientId'', clientID)] None w of
        (Inl e, w) \<Rightarrow> (Inl (Wrapf ''plugins: keycloak list clients: %w'' e), w)
      | (Inr (st, body), w) \<Rightarrow>
          if \<not> status_2xx st then (Inl (Errorf ''plugins: keycloak list clients: %d''), w)
          else case bindE body (json_list kcClient) of
                 Inl e \<Rightarrow> (Inl (Wrapf ''plugins: keycloak list clients decode: %w'' e), w)
               | Inr got \<Rightarrow> (Inr (pick_client clientID got), w))"

text \<open>A call whose answer counts only by its status.\<close>

definition admin_do :: "'w KeycloakAdminDoer \<Rightarrow> string \<Rightarrow> string \<Rightarrow> string \<Rightarrow> json option \<Rightarrow> 'w \<Rightarrow> error option \<times> 'w" where
  "admin_do admin what meth path body w =
     (case admin meth path [] body w of
        (Inl e, w) \<Rightarrow> (Some (Wrapf (what @ '': %w'') e), w)
      | (Inr (st, b), w) \<Rightarrow> (if \<not> status_2xx st then Some (Errorf (what @ '': %d'')) else None, w))"

definition create_client :: "'w KeycloakAdminDoer \<Rightarrow> OIDCClientNeed \<Rightarrow> 'w \<Rightarrow> string result \<times> 'w" where
  "create_client admin n w =
     (case admin_do admin ''plugins: keycloak create client'' ''POST'' ''/clients'' (Some (client_rep n)) w of
        (Some e, w) \<Rightarrow> (Inl e, w)
      | (None, w) \<Rightarrow>
          (case findClientUUID admin (ocClientID n) w of
             (r, w) \<Rightarrow>
               (if (case r of Inl e \<Rightarrow> True | Inr u \<Rightarrow> u = []) then Inl (Errorf ''plugins: keycloak create client: lookup post-create: %v'')
                else r, w)))"

definition rotate_secret :: "'w OIDCClientProvisioner \<Rightarrow> 'w KeycloakAdminDoer \<Rightarrow> string \<Rightarrow> string \<Rightarrow> 'w \<Rightarrow> error option \<times> 'w" where
  "rotate_secret p admin plugin uuid w =
     (let path = ''/clients/'' @ PathEscape uuid @ ''/client-secret''
      in case admin_do admin ''plugins: keycloak rotate secret'' ''POST'' path None w of
           (Some e, w) \<Rightarrow> (Some e, w)
         | (None, w) \<Rightarrow>
             (case admin ''GET'' path [] None w of
                (Inl e, w) \<Rightarrow> (Some (Wrapf ''plugins: keycloak get secret: %w'' e), w)
              | (Inr (st, body), w) \<Rightarrow>
                  if \<not> status_2xx st then (Some (Errorf ''plugins: keycloak get secret: %d''), w)
                  else case bindE body (json_struct (str_field ''value'')) of
                         Inl e \<Rightarrow> (Some (Wrapf ''plugins: keycloak get secret: %w'' e), w)
                       | Inr v \<Rightarrow>
                           (case opSecrets p of
                              Some s \<Rightarrow>
                                if v = [] then (None, w)
                                else (case saSet s (oidcSecretPath plugin) v w of
                                        (e, w) \<Rightarrow> (wrap_err ''plugins: store oidc secret: %w'' e, w))
                            | None \<Rightarrow> (None, w))))"

definition oidc_Provision :: "'w OIDCClientProvisioner \<Rightarrow> string \<Rightarrow> OIDCClientNeed \<Rightarrow> 'w \<Rightarrow> string result \<times> 'w" where
  "oidc_Provision p plugin n w =
     (case opAdmin p of
        None \<Rightarrow> (Inl (Errorf ''plugins: OIDCClientProvisioner.Admin is nil''), w)
      | Some admin \<Rightarrow>
          if ocClientID n = [] then (Inl (Errorf ''plugins: oidc need: clientId required''), w)
          else case findClientUUID admin (ocClientID n) w of
                 (Inl e, w) \<Rightarrow> (Inl e, w)
               | (Inr u, w) \<Rightarrow>
                   (case (if u = [] then create_client admin n w else (Inr u, w)) of
                      (Inl e, w) \<Rightarrow> (Inl e, w)
                    | (Inr uuid, w) \<Rightarrow>
                        if ocPublic n then (Inr (oidcResourceID plugin (ocClientID n)), w)
                        else case rotate_secret p admin plugin uuid w of
                               (Some e, w) \<Rightarrow> (Inl e, w)
                             | (None, w) \<Rightarrow> (Inr (oidcResourceID plugin (ocClientID n)), w)))"

definition delete_client :: "'w KeycloakAdminDoer \<Rightarrow> string \<Rightarrow> 'w \<Rightarrow> error option \<times> 'w" where
  "delete_client admin uuid w =
     (case admin ''DELETE'' (''/clients/'' @ PathEscape uuid) [] None w of
        (Inl e, w) \<Rightarrow> (Some (Wrapf ''plugins: keycloak delete client: %w'' e), w)
      | (Inr (st, b), w) \<Rightarrow>
          (if \<not> status_2xx st \<and> st \<noteq> 404 then Some (Errorf ''plugins: keycloak delete client: %d'') else None, w))"

definition oidc_Unprovision :: "'w OIDCClientProvisioner \<Rightarrow> string \<Rightarrow> string \<Rightarrow> 'w \<Rightarrow> error option \<times> 'w" where
  "oidc_Unprovision p plugin i w =
     (case opAdmin p of
        None \<Rightarrow> (Some (Errorf ''plugins: OIDCClientProvisioner.Admin is nil''), w)
      | Some admin \<Rightarrow>
          (case parseOIDCResourceID i of
             None \<Rightarrow> (Some (Errorf ''plugins: bad oidc resource id %q''), w)
           | Some (pl, clientID) \<Rightarrow>
               (case findClientUUID admin clientID w of
                  (Inl e, w) \<Rightarrow> (Some e, w)
                | (Inr uuid, w) \<Rightarrow>
                    (case (if uuid \<noteq> [] then delete_client admin uuid w else (None, w)) of
                       (Some e, w) \<Rightarrow> (Some e, w)
                     | (None, w) \<Rightarrow>
                         (None, case opSecrets p of None \<Rightarrow> w | Some s \<Rightarrow> snd (saDelete s (oidcSecretPath plugin) w))))))"


subsection \<open>Role bindings\<close>

record 'w PermissionProvisioner =
  ppAdmin :: "'w KeycloakAdminDoer option"

record kcRole =
  krID :: string
  krName :: string
  krContainerID :: string
  krClientRole :: bool
  krComposite :: bool

definition json_role :: "json \<Rightarrow> kcRole result" where
  "json_role = json_struct (\<lambda>m. bindE (str_field ''id'' m) (\<lambda>i. bindE (str_field ''name'' m) (\<lambda>n.
     bindE (str_field ''containerId'' m) (\<lambda>c. bindE (bool_field ''clientRole'' m) (\<lambda>cr. bindE (bool_field ''composite'' m) (\<lambda>co.
       Inr \<lparr>krID = i, krName = n, krContainerID = c, krClientRole = cr, krComposite = co\<rparr>))))))"

definition role_body :: "kcRole \<Rightarrow> json" where
  "role_body r = JArr [JObj ([(''id'', JStr (krID r)), (''name'', JStr (krName r))] @
     (if krContainerID r = [] then [] else [(''containerId'', JStr (krContainerID r))]) @
     (if krClientRole r then [(''clientRole'', JBool True)] else []) @
     (if krComposite r then [(''composite'', JBool True)] else []))]"

definition permissionResourceID :: "string \<Rightarrow> string \<Rightarrow> string" where
  "permissionResourceID plugin role = ''permission:'' @ plugin @ ''/'' @ role"

definition parsePermissionResourceID :: "string \<Rightarrow> (string \<times> string) option" where
  "parsePermissionResourceID = parse_resource_id ''permission:''"

text \<open>\<open>ClientIDFor\<close> may be nil.\<close>

definition clientIDFor :: "(string \<Rightarrow> string) option \<Rightarrow> string \<Rightarrow> string" where
  "clientIDFor f plugin = (case f of None \<Rightarrow> plugin | Some g \<Rightarrow> if g plugin \<noteq> [] then g plugin else plugin)"

definition findRealmRole :: "'w KeycloakAdminDoer \<Rightarrow> string \<Rightarrow> 'w \<Rightarrow> kcRole option result \<times> 'w" where
  "findRealmRole admin name w =
     (case admin ''GET'' (''/roles/'' @ PathEscape name) [] None w of
        (Inl e, w) \<Rightarrow> (Inl (Wrapf ''plugins: keycloak get role: %w'' e), w)
      | (Inr (st, body), w) \<Rightarrow>
          if st = 404 then (Inr None, w)
          else if \<not> status_2xx st then (Inl (Errorf ''plugins: keycloak get role: %d''), w)
          else (case bindE body json_role of
                  Inl e \<Rightarrow> Inl (Wrapf ''plugins: keycloak get role decode: %w'' e)
                | Inr r \<Rightarrow> Inr (Some r), w))"

definition sa_user :: "'w KeycloakAdminDoer \<Rightarrow> string \<Rightarrow> 'w \<Rightarrow> string result \<times> 'w" where
  "sa_user admin uuid w =
     (case admin ''GET'' (''/clients/'' @ PathEscape uuid @ ''/service-account-user'') [] None w of
        (Inl e, w) \<Rightarrow> (Inl (Wrapf ''plugins: keycloak sa user: %w'' e), w)
      | (Inr (st, body), w) \<Rightarrow>
          (if \<not> status_2xx st then Inl (Errorf ''plugins: keycloak sa user: %d %s'')
           else case bindE body (json_struct (str_field ''id'')) of
                  Inl e \<Rightarrow> Inl (Wrapf ''plugins: keycloak sa user decode: %w'' e)
                | Inr i \<Rightarrow> if i = [] then Inl (Errorf ''plugins: keycloak sa user: empty id'') else Inr i, w))"

definition serviceAccountUserID :: "'w KeycloakAdminDoer \<Rightarrow> string \<Rightarrow> 'w \<Rightarrow> string result \<times> 'w" where
  "serviceAccountUserID admin clientID w =
     (case findClientUUID admin clientID w of
        (Inl e, w) \<Rightarrow> (Inl e, w)
      | (Inr uuid, w) \<Rightarrow>
          if uuid = [] then (Inl (Errorf ''plugins: no oidc client %q for service account''), w)
          else sa_user admin uuid w)"

definition role_path :: "string \<Rightarrow> string" where
  "role_path userID = ''/users/'' @ PathEscape userID @ ''/role-mappings/realm''"

definition userHasRealmRole :: "'w KeycloakAdminDoer \<Rightarrow> string \<Rightarrow> string \<Rightarrow> 'w \<Rightarrow> bool result \<times> 'w" where
  "userHasRealmRole admin userID role w =
     (case admin ''GET'' (role_path userID) [] None w of
        (Inl e, w) \<Rightarrow> (Inl (Wrapf ''plugins: keycloak list role mappings: %w'' e), w)
      | (Inr (st, body), w) \<Rightarrow>
          (if \<not> status_2xx st then Inl (Errorf ''plugins: keycloak list role mappings: %d'')
           else case bindE body (json_list json_role) of
                  Inl e \<Rightarrow> Inl (Wrapf ''plugins: keycloak list role mappings decode: %w'' e)
                | Inr rs \<Rightarrow> Inr (list_ex (\<lambda>r. krName r = role) rs), w))"

definition permission_Provision ::
    "'w PermissionProvisioner \<Rightarrow> (string \<Rightarrow> string) option \<Rightarrow> string \<Rightarrow> PermissionNeed \<Rightarrow> 'w \<Rightarrow> string result \<times> 'w" where
  "permission_Provision p idFor plugin n w =
     (case ppAdmin p of
        None \<Rightarrow> (Inl (Errorf ''plugins: PermissionProvisioner.Admin is nil''), w)
      | Some admin \<Rightarrow>
          if pnRole n = [] then (Inl (Errorf ''plugins: permission need: role required''), w)
          else case findRealmRole admin (pnRole n) w of
                 (Inl e, w) \<Rightarrow> (Inl e, w)
               | (Inr None, w) \<Rightarrow> (Inl (Errorf ''plugins: realm role %q not found''), w)
               | (Inr (Some role), w) \<Rightarrow>
                   (case serviceAccountUserID admin (clientIDFor idFor plugin) w of
                      (Inl e, w) \<Rightarrow> (Inl e, w)
                    | (Inr userID, w) \<Rightarrow>
                        (case userHasRealmRole admin userID (krName role) w of
                           (Inl e, w) \<Rightarrow> (Inl e, w)
                         | (Inr has, w) \<Rightarrow>
                             (case (if has then (None, w)
                                    else admin_do admin ''plugins: keycloak bind role'' ''POST'' (role_path userID) (Some (role_body role)) w) of
                                (Some e, w) \<Rightarrow> (Inl e, w)
                              | (None, w) \<Rightarrow> (Inr (permissionResourceID plugin (pnRole n)), w)))))"

definition permission_Unprovision ::
    "'w PermissionProvisioner \<Rightarrow> (string \<Rightarrow> string) option \<Rightarrow> string \<Rightarrow> string \<Rightarrow> 'w \<Rightarrow> error option \<times> 'w" where
  "permission_Unprovision p idFor plugin i w =
     (case ppAdmin p of
        None \<Rightarrow> (Some (Errorf ''plugins: PermissionProvisioner.Admin is nil''), w)
      | Some admin \<Rightarrow>
          (case parsePermissionResourceID i of
             None \<Rightarrow> (Some (Errorf ''plugins: bad permission resource id %q''), w)
           | Some (pl, role) \<Rightarrow>
               (case findRealmRole admin role w of
                  (Inl e, w) \<Rightarrow> (None, w)
                | (Inr None, w) \<Rightarrow> (None, w)
                | (Inr (Some roleRep), w) \<Rightarrow>
                    (case serviceAccountUserID admin (clientIDFor idFor plugin) w of
                       (Inl e, w) \<Rightarrow> (None, w)
                     | (Inr userID, w) \<Rightarrow>
                         (case admin ''DELETE'' (role_path userID) [] (Some (role_body roleRep)) w of
                            (Inl e, w) \<Rightarrow> (Some (Wrapf ''plugins: keycloak unbind role: %w'' e), w)
                          | (Inr (st, b), w) \<Rightarrow>
                              (if \<not> status_2xx st \<and> st \<noteq> 404 then Some (Errorf ''plugins: keycloak unbind role: %d'') else None, w))))))"

subsection \<open>The production provisioner\<close>

text \<open>Its state is the map from plugins to client ids and the world of the four provisioners it was built from.\<close>

record 'w ProductionProvisioner =
  prDataset :: "'w DatasetClient option option"
  prOIDC :: "'w OIDCClientProvisioner option"
  prTLS :: "'w TLSCertProvisioner option"
  prPermission :: "'w PermissionProvisioner option"

type_synonym 'w pworld = "(string \<rightharpoonup> string) \<times> 'w"

definition lookupClientID :: "'w pworld \<Rightarrow> string \<Rightarrow> string" where
  "lookupClientID s plugin = (case fst s plugin of None \<Rightarrow> [] | Some c \<Rightarrow> c)"

definition rememberClientID :: "string \<Rightarrow> string \<Rightarrow> 'w pworld \<Rightarrow> 'w pworld" where
  "rememberClientID plugin clientID s = ((fst s)(plugin \<mapsto> clientID), snd s)"

text \<open>A method of a part: an error when the part is nil, else the call on the world.\<close>

definition on_part :: "string \<Rightarrow> 'p option \<Rightarrow> ('p \<Rightarrow> 'w \<Rightarrow> 'a result \<times> 'w) \<Rightarrow> 'w pworld \<Rightarrow> 'a result \<times> 'w pworld" where
  "on_part what p f s =
     (case p of
        None \<Rightarrow> (Inl (Errorf (''plugins: '' @ what @ '' provisioner not configured'')), s)
      | Some x \<Rightarrow> (case f x (snd s) of (r, w) \<Rightarrow> (r, (fst s, w))))"

definition off_part :: "string \<Rightarrow> 'p option \<Rightarrow> ('p \<Rightarrow> 'w \<Rightarrow> error option \<times> 'w) \<Rightarrow> 'w pworld \<Rightarrow> error option \<times> 'w pworld" where
  "off_part what p f s =
     (case p of
        None \<Rightarrow> (Some (Errorf (''plugins: '' @ what @ '' provisioner not configured'')), s)
      | Some x \<Rightarrow> (case f x (snd s) of (r, w) \<Rightarrow> (r, (fst s, w))))"

definition production :: "'w ProductionProvisioner \<Rightarrow> 'w pworld NeedsProvisioner" where
  "production pp =
     \<lparr>ProvisionDataset = (\<lambda>plugin n. on_part ''dataset'' (prDataset pp) (\<lambda>c. dataset_Provision c plugin n)),
      UnprovisionDataset = (\<lambda>plugin i. off_part ''dataset'' (prDataset pp) (\<lambda>c. dataset_Unprovision c plugin i)),
      ProvisionOIDCClient = (\<lambda>plugin n s.
        (case on_part ''oidc'' (prOIDC pp) (\<lambda>p. oidc_Provision p plugin n) s of
           (Inl e, s) \<Rightarrow> (Inl e, s)
         | (Inr i, s) \<Rightarrow> (Inr i, rememberClientID plugin (ocClientID n) s))),
      UnprovisionOIDCClient = (\<lambda>plugin i. off_part ''oidc'' (prOIDC pp) (\<lambda>p. oidc_Unprovision p plugin i)),
      ProvisionTLSCert = (\<lambda>plugin n. on_part ''tls'' (prTLS pp) (\<lambda>p. tls_Provision p plugin n)),
      UnprovisionTLSCert = (\<lambda>plugin i. off_part ''tls'' (prTLS pp) (\<lambda>p. tls_Unprovision p plugin i)),
      ProvisionPermission = (\<lambda>plugin n s.
        on_part ''permission'' (prPermission pp) (\<lambda>p. permission_Provision p (Some (lookupClientID s)) plugin n) s),
      UnprovisionPermission = (\<lambda>plugin i s.
        off_part ''permission'' (prPermission pp) (\<lambda>p. permission_Unprovision p (Some (lookupClientID s)) plugin i) s)\<rparr>"

definition zfs_client :: "'w runner \<Rightarrow> string \<Rightarrow> 'w DatasetClient" where
  "zfs_client run bin =
     \<lparr>dcGet = dataset_Get run bin, dcCreate = dataset_Create run bin, dcDestroy = dataset_Destroy run bin\<rparr>"


subsection \<open>Resource ids\<close>

text \<open>An id names the plugin and the resource it was made from, whatever characters the resource has.\<close>

lemma parse_resource_id_made:
  assumes "nameRE plugin"
  shows "parse_resource_id pre (pre @ plugin @ ''/'' @ x) = Some (plugin, x)"
  using assms nameRE_no_sep[of plugin] by (simp add: parse_resource_id_def HasPrefix_def TrimPrefix_def IndexByte_append)

lemmas resource_ids_parse = parse_resource_id_made[of _ "''dataset:''", folded datasetResourceID_def parseDatasetResourceID_def]
  parse_resource_id_made[of _ "''tlscert:''", folded tlsResourceID_def parseTLSResourceID_def]
  parse_resource_id_made[of _ "''oidcclient:''", folded oidcResourceID_def parseOIDCResourceID_def]
  parse_resource_id_made[of _ "''permission:''", folded permissionResourceID_def parsePermissionResourceID_def]

subsection \<open>All or nothing\<close>

text \<open>A provisioner that also records what it provided and what it released.\<close>

datatype need_event = Provided string string | Released string string

definition note_provided :: "string \<Rightarrow> (string \<Rightarrow> 'n \<Rightarrow> 'w \<Rightarrow> string result \<times> 'w) \<Rightarrow> string \<Rightarrow> 'n \<Rightarrow> need_event list \<times> 'w \<Rightarrow> string result \<times> need_event list \<times> 'w" where
  "note_provided k f plugin n s =
     (case f plugin n (snd s) of
        (Inl e, w) \<Rightarrow> (Inl e, (fst s, w))
      | (Inr i, w) \<Rightarrow> (Inr i, (fst s @ [Provided k i], w)))"

definition note_released :: "string \<Rightarrow> (string \<Rightarrow> string \<Rightarrow> 'w \<Rightarrow> error option \<times> 'w) \<Rightarrow> string \<Rightarrow> string \<Rightarrow> need_event list \<times> 'w \<Rightarrow> error option \<times> need_event list \<times> 'w" where
  "note_released k f plugin i s = (case f plugin i (snd s) of (e, w) \<Rightarrow> (e, (fst s @ [Released k i], w)))"

definition traced :: "'w NeedsProvisioner \<Rightarrow> (need_event list \<times> 'w) NeedsProvisioner" where
  "traced p =
     \<lparr>ProvisionDataset = note_provided NeedDataset (ProvisionDataset p),
      UnprovisionDataset = note_released NeedDataset (UnprovisionDataset p),
      ProvisionOIDCClient = note_provided NeedOIDCClient (ProvisionOIDCClient p),
      UnprovisionOIDCClient = note_released NeedOIDCClient (UnprovisionOIDCClient p),
      ProvisionTLSCert = note_provided NeedTLSCert (ProvisionTLSCert p),
      UnprovisionTLSCert = note_released NeedTLSCert (UnprovisionTLSCert p),
      ProvisionPermission = note_provided NeedPermission (ProvisionPermission p),
      UnprovisionPermission = note_released NeedPermission (UnprovisionPermission p)\<rparr>"

abbreviation provided :: "provisionedResource list \<Rightarrow> need_event list" where
  "provided \<equiv> map (\<lambda>(k, i). Provided k i)"

abbreviation released :: "provisionedResource list \<Rightarrow> need_event list" where
  "released \<equiv> map (\<lambda>(k, i). Released k i)"

definition known_kind :: "string \<Rightarrow> bool" where
  "known_kind k \<longleftrightarrow> k \<in> {NeedDataset, NeedOIDCClient, NeedTLSCert, NeedPermission}"

lemma need_kinds_distinct [simp]:
  "NeedDataset \<noteq> NeedOIDCClient" "NeedDataset \<noteq> NeedTLSCert" "NeedDataset \<noteq> NeedPermission"
  "NeedOIDCClient \<noteq> NeedDataset" "NeedOIDCClient \<noteq> NeedTLSCert" "NeedOIDCClient \<noteq> NeedPermission"
  "NeedTLSCert \<noteq> NeedDataset" "NeedTLSCert \<noteq> NeedOIDCClient" "NeedTLSCert \<noteq> NeedPermission"
  "NeedPermission \<noteq> NeedDataset" "NeedPermission \<noteq> NeedOIDCClient" "NeedPermission \<noteq> NeedTLSCert"
  by (simp_all add: need_kind_defs)

lemma unprovision_one_traced:
  assumes "known_kind (fst r)"
  shows "\<exists>e w'. unprovision_one (traced p) plugin r (tr, w) = (e, (tr @ released [r], w'))"
  using assms by (auto simp: known_kind_def unprovision_one_def traced_def note_released_def split: prod.splits)

lemma rollback_rev_traced:
  assumes "list_all (\<lambda>r. known_kind (fst r)) rs"
  shows "\<exists>es w'. rollback_rev (traced p) plugin rs (tr, w) = (es, (tr @ released rs, w'))"
  using assms
proof (induction rs arbitrary: tr w)
  case (Cons r rs)
  obtain e w1 where 1: "unprovision_one (traced p) plugin r (tr, w) = (e, (tr @ released [r], w1))"
    using unprovision_one_traced[of r p plugin tr w] Cons.prems by auto
  obtain es w2 where "rollback_rev (traced p) plugin rs (tr @ released [r], w1) = (es, ((tr @ released [r]) @ released rs, w2))"
    using Cons.IH[of "tr @ released [r]" w1] Cons.prems by auto
  then show ?case using 1 by (simp split: option.splits)
qed simp

lemma need_fields_kind: "need_fields n \<Longrightarrow> known_kind (nKind n)"
  by (auto simp: need_fields_def known_kind_def)

lemma note_provided_cases:
  "(\<exists>e w'. note_provided k f plugin n (tr, w) = (Inl e, tr, w')) \<or>
   (\<exists>i w'. note_provided k f plugin n (tr, w) = (Inr i, tr @ [Provided k i], w'))"
proof (cases "f plugin n w")
  case (Pair r w')
  then show ?thesis by (cases r) (simp_all add: note_provided_def)
qed

lemma provision_need_traced:
  assumes "need_fields n"
  shows "(\<exists>e w'. provision_need (traced p) plugin n (tr, w) = Some (Inl e, (tr, w'))) \<or>
    (\<exists>i w'. provision_need (traced p) plugin n (tr, w) = Some (Inr i, (tr @ provided [(nKind n, i)], w')))"
  using assms unfolding need_fields_def
  by (elim disjE conjE exE) (simp_all add: provision_need_def traced_def note_provided_cases)

lemma needs_loop_traced:
  assumes "list_all need_fields needs" and "list_all (\<lambda>r. known_kind (fst r)) don"
  shows "\<exists>new err w' tr'. needs_loop (traced p) plugin needs don (tr, w) = Some ((don @ new, err), (tr @ tr', w')) \<and>
    map fst new = map nKind (take (length new) needs) \<and>
    (if err = None then length new = length needs \<and> tr' = provided new
     else length new < length needs \<and> tr' = provided new @ released (rev (don @ new)))"
  using assms
proof (induction needs arbitrary: don tr w)
  case (Cons n needs)
  consider (bad) e w1 where "provision_need (traced p) plugin n (tr, w) = Some (Inl e, (tr, w1))"
    | (good) i w1 where "provision_need (traced p) plugin n (tr, w) = Some (Inr i, (tr @ provided [(nKind n, i)], w1))"
    using provision_need_traced[of n p plugin tr w] Cons.prems(1) by auto
  then show ?case
  proof cases
    case bad
    obtain es w2 where "rollbackNeeds (traced p) plugin don (tr, w1) = (es, (tr @ released (rev don), w2))"
      using rollback_rev_traced[of "rev don" p plugin tr w1] Cons.prems(2) by (auto simp: rollbackNeeds_def)
    then show ?thesis using bad by (intro exI[of _ "[]"]) simp
  next
    case good
    have k: "list_all (\<lambda>r. known_kind (fst r)) (don @ [(nKind n, i)])" "list_all need_fields needs"
      using Cons.prems need_fields_kind by simp_all
    obtain new err w' tr' where
      N: "needs_loop (traced p) plugin needs (don @ [(nKind n, i)]) (tr @ provided [(nKind n, i)], w1)
          = Some (((don @ [(nKind n, i)]) @ new, err), ((tr @ provided [(nKind n, i)]) @ tr', w'))"
        "map fst new = map nKind (take (length new) needs)"
        "if err = None then length new = length needs \<and> tr' = provided new
         else length new < length needs \<and> tr' = provided new @ released (rev ((don @ [(nKind n, i)]) @ new))"
      using Cons.IH[OF k(2) k(1), of "tr @ provided [(nKind n, i)]" w1] by blast
    show ?thesis using good N by (intro exI[of _ "(nKind n, i) # new"]) (auto split: if_splits)
  qed
qed simp


definition demo_semver :: "(string, string) semver" where
  "demo_semver = \<lparr>svNewConstraint = Inr, svNewVersion = Inr, svCheck = (=), svGreaterThan = (\<lambda>a b. False)\<rparr>"

definition demo_need :: "string \<Rightarrow> Need" where
  "demo_need k = \<lparr>nKind = k, nDataset = Some \<lparr>dnPool = ''tank'', dnName = ''media'', dnProperties = []\<rparr>,
     nOIDCClient = Some \<lparr>ocClientID = ''photos'', ocRedirects = [], ocPublic = False\<rparr>, nTLSCert = None, nPermission = None\<rparr>"

definition demo_plugin :: Plugin where
  "demo_plugin = \<lparr>plAPIVersion = ''novanas.io/v1'', plKind = ''Plugin'',
     plMetadata = \<lparr>mdName = ''photos'', mdVersion = ''1.2.0'', mdVendor = ''Nova'', mdSignature = []\<rparr>,
     plSpec = \<lparr>psDescription = ''Photo library'', psCategory = ''storage'', psDisplayCategory = ''photos'', psTags = [],
       psIcon = [], psDeployment = \<lparr>dpType = ''systemd'', dpChart = [], dpNamespace = [], dpUnit = ''photos''\<rparr>,
       psNeeds = [demo_need NeedDataset, demo_need NeedOIDCClient], psDependencies = [], psRoutes = [],
       psWindow = \<lparr>uwName = [], uwIcon = [], uwRoute = [], uwBundle = []\<rparr>,
       psHealth = \<lparr>hPath = [], hIntervalSeconds = 0, hTimeoutSeconds = 0\<rparr>,
       psLifecycle = \<lparr>lcPreInstall = [], lcPostInstall = [], lcPreUninstall = []\<rparr>\<rparr>\<rparr>"

lemma demo_plugin_accepted: "ParseManifest demo_semver (\<lambda>b. Inr demo_plugin) [] = Inr demo_plugin"
  by code_simp


subsection \<open>Adopted resources\<close>

text \<open>The commands that look a dataset up.\<close>

definition get_cmds :: "string \<Rightarrow> string list list" where
  "get_cmds full = [[''list'', ''-H'', ''-p'', ''-t'', ''filesystem,volume'', ''-o'', list_columns, full], [''get'', ''-H'', ''-p'', ''all'', full]]"

definition answering :: "(string \<Rightarrow> string list \<Rightarrow> string \<times> error option) \<Rightarrow> unit runner" where
  "answering reply bin args w = (reply bin args, w)"

lemma dataset_Get_answering:
  assumes "fst (dataset_Get (answering reply) bin full ()) = Inr det"
  shows "dataset_Get (logged (answering reply)) bin full (tr, ()) = (Inr det, (tr @ map (Pair bin) (get_cmds full), ()))"
  using assms
  by (auto simp: dataset_Get_def answering_def logged_def get_cmds_def bindE_eq_Inr split: prod.splits option.splits sum.splits list.splits)

lemma dataset_Unprovision_answering:
  assumes "fst (dataset_Get (answering reply) bin full ()) = Inr det" and "ValidateDatasetName full = None" and "nameRE plugin"
  shows "\<exists>e. dataset_Unprovision (Some (zfs_client (logged (answering reply)) bin)) plugin (datasetResourceID plugin full) (tr, ())
    = (e, (tr @ map (Pair bin) (get_cmds full @ [[''destroy'', full]]), ()))"
  using dataset_Get_answering[OF assms(1)] assms(2) resource_ids_parse(1)[OF assms(3)]
  by (simp add: dataset_Unprovision_def zfs_client_def dataset_Destroy_def run_args_def destroyArgs_def logged_def answering_def
      flag_if_def split: prod.splits option.splits)

text \<open>
  C37. A need for a dataset that exists already is fulfilled by adopting the dataset, and nothing remembers that it
  was not created for the plugin: when a later need fails, here because Keycloak does not answer,
  the rollback destroys the dataset that was there before.
\<close>

theorem adopted_dataset_destroyed:
  assumes "fst (dataset_Get (answering reply) bin full ()) = Inr det" and "ValidateDatasetName full = None" and "nameRE plugin"
    and "nKind n = NeedDataset" "nDataset n = Some d" "full = dnPool d @ ''/'' @ dnName d" "dnPool d \<noteq> []" "dnName d \<noteq> []"
    and "nKind k = NeedOIDCClient" "nOIDCClient k = Some c" "ocClientID c \<noteq> []"
    and "prDataset pp = Some (Some (zfs_client (logged (answering reply)) bin))"
    and "prOIDC pp = Some oidc" "opAdmin oidc = Some (\<lambda>m p q b w. (Inl down, w))"
  shows "\<exists>err. runNeeds (production pp) plugin (n # k # ns) (ids, ([], ()))
    = Some (([(NeedDataset, datasetResourceID plugin full)], Some err),
        (ids, (map (Pair bin) (get_cmds full @ get_cmds full @ [[''destroy'', full]]), ())))"
proof -
  let ?c = "map (Pair bin) (get_cmds full)"
  have 1: "provision_need (production pp) plugin n (ids, ([], ())) = Some (Inr (datasetResourceID plugin full), (ids, (?c, ())))"
    using dataset_Get_answering[OF assms(1), of "[]"] assms(4-8,12)
    by (simp add: provision_need_def production_def on_part_def dataset_Provision_def zfs_client_def Let_def)
  have 2: "\<exists>e. provision_need (production pp) plugin k (ids, (?c, ())) = Some (Inl e, (ids, (?c, ())))"
    using assms(9-11,13,14) by (simp add: provision_need_def production_def on_part_def oidc_Provision_def findClientUUID_def)
  obtain e where "dataset_Unprovision (Some (zfs_client (logged (answering reply)) bin)) plugin (datasetResourceID plugin full) (?c, ())
      = (e, (?c @ map (Pair bin) (get_cmds full @ [[''destroy'', full]]), ()))"
    using dataset_Unprovision_answering[OF assms(1,2,3)] by blast
  then have "\<exists>es. rollbackNeeds (production pp) plugin [(NeedDataset, datasetResourceID plugin full)] (ids, (?c, ()))
      = (es, (ids, (map (Pair bin) (get_cmds full @ get_cmds full @ [[''destroy'', full]]), ())))"
    using assms(12) by (simp add: rollbackNeeds_def unprovision_one_def production_def off_part_def)
  then show ?thesis using 1 2 assms(4) by (auto simp: runNeeds_def)
qed

definition demo_zfs :: "string \<Rightarrow> string list \<Rightarrow> string \<times> error option" where
  "demo_zfs bin args =
     (if hd args = ''list'' then
        (Join [''tank/media'', ''filesystem'', ''1024'', ''4096'', ''512'', ''/tank/media'', ''lz4'', ''131072''] [CHR 0x09] @ [CHR 0x0A], None)
      else ([], None))"


lemma demo_dataset_exists:
  "\<exists>det. fst (dataset_Get (answering demo_zfs) ''zfs'' ''tank/media'' ()) = Inr det"
proof -
  have "\<not> isl (fst (dataset_Get (answering demo_zfs) ''zfs'' ''tank/media'' ()))" by code_simp
  then show ?thesis by (cases "fst (dataset_Get (answering demo_zfs) ''zfs'' ''tank/media'' ())") auto
qed

definition demo_production :: "(cmdline list \<times> unit) ProductionProvisioner" where
  "demo_production = \<lparr>prDataset = Some (Some (zfs_client (logged (answering demo_zfs)) ''zfs'')),
     prOIDC = Some \<lparr>opAdmin = Some (\<lambda>m p q b w. (Inl (Errorf ''connection refused''), w)), opSecrets = None\<rparr>,
     prTLS = None, prPermission = None\<rparr>"

theorem adopted_dataset_destroyed_witness:
  "\<exists>err. runNeeds (production demo_production) ''photos'' [demo_need NeedDataset, demo_need NeedOIDCClient] (Map.empty, ([], ()))
    = Some (([(NeedDataset, ''dataset:photos/tank/media'')], Some err),
        (Map.empty, (map (Pair ''zfs'') (get_cmds ''tank/media'' @ get_cmds ''tank/media'' @ [[''destroy'', ''tank/media'']]), ())))"
proof -
  obtain det where "fst (dataset_Get (answering demo_zfs) ''zfs'' ''tank/media'' ()) = Inr det" using demo_dataset_exists by blast
  moreover have v: "ValidateDatasetName ''tank/media'' = None" "nameRE ''photos''" by code_simp+
  moreover have i: "''dataset:photos/tank/media'' = datasetResourceID ''photos'' ''tank/media''" by (simp add: datasetResourceID_def)
  ultimately show ?thesis unfolding i
    by (intro adopted_dataset_destroyed[of demo_zfs "''zfs''" "''tank/media''" det "''photos''" "demo_need NeedDataset"
          "\<lparr>dnPool = ''tank'', dnName = ''media'', dnProperties = []\<rparr>" "demo_need NeedOIDCClient"
          "\<lparr>ocClientID = ''photos'', ocRedirects = [], ocPublic = False\<rparr>" demo_production
          "\<lparr>opAdmin = Some (\<lambda>m p q b w. (Inl (Errorf ''connection refused''), w)), opSecrets = None\<rparr>" "Errorf ''connection refused''"])
      (simp_all add: demo_need_def demo_production_def)
qed

end
