(* ===== verification/PluginMarket.thy ===== *)
theory PluginMarket
  imports PluginNeeds GoTime ZfsAcl
begin

text \<open>
  \<^verbatim>\<open>internal/plugins/marketplace.go\<close>, \<^verbatim>\<open>marketplaces.go\<close> and \<^verbatim>\<open>verify.go\<close>: finding a release of a plugin
  in the registered marketplaces, fetching it and checking its signature.

  HTTP, the decoder of index documents, the signature schemes, the files and the registry are
  parameters; the in-memory registry of the source is modelled and implements the interface. A
  client is its URL and its cached index; the clients of the registry are kept by marketplace id.
\<close>

subsection \<open>One marketplace\<close>

definition DefaultMarketplaceIndexURL :: string where
  "DefaultMarketplaceIndexURL = ''https://raw.githubusercontent.com/azrtydxb/NovaNas-packages/main/index.json''"

definition IndexCacheTTL :: duration where "IndexCacheTTL = 15 * Minute"

record IndexVersion =
  ivVersion :: string
  ivTarballURL :: string
  ivSignatureURL :: string
  ivSHA256 :: string
  ivSize :: int
  ivReleasedAt :: time

record IndexPlugin =
  ipName :: string
  ipDisplayName :: string
  ipVendor :: string
  ipCategory :: string
  ipDisplayCategory :: string
  ipTags :: "string list"
  ipDescription :: string
  ipIcon :: string
  ipHomepage :: string
  ipVersions :: "IndexVersion list"

record Index =
  ixVersion :: int
  ixUpdated :: time
  ixPlugins :: "IndexPlugin list"

record MarketplaceClient =
  mcIndexURL :: string
  mcCache :: "Index option"
  mcCachedAt :: time

text \<open>A GET request gives a status with a body and the error of reading it, or an error.\<close>

record 'w market_env =
  meGet :: "string \<Rightarrow> 'w \<Rightarrow> (int \<times> string \<times> error option) result \<times> 'w"
  meNow :: "'w \<Rightarrow> time"
  meIndex :: "string \<Rightarrow> Index result"

definition NewMarketplaceClient :: "string \<Rightarrow> MarketplaceClient" where
  "NewMarketplaceClient url =
     \<lparr>mcIndexURL = (if url = [] then DefaultMarketplaceIndexURL else url), mcCache = None, mcCachedAt = 0\<rparr>"

definition read_body :: "int \<Rightarrow> string \<times> error option \<Rightarrow> string result" where
  "read_body limit b = (case snd b of Some e \<Rightarrow> Inl e | None \<Rightarrow> Inr (limit_read limit (fst b)))"

definition fetch :: "'w market_env \<Rightarrow> MarketplaceClient \<Rightarrow> 'w \<Rightarrow> Index result \<times> 'w" where
  "fetch E c w =
     (case meGet E (mcIndexURL c) w of
        (Inl e, w) \<Rightarrow> (Inl e, w)
      | (Inr (st, body), w) \<Rightarrow>
          (if st \<noteq> 200 then Inl (Errorf ''plugins: marketplace HTTP %d'')
           else bindE (read_body 8388608 body) (\<lambda>b.
                bindE (wrapE ''plugins: index decode: %w'' (meIndex E b)) (\<lambda>idx.
                  if ixVersion idx = 0 then Inl (Errorf ''plugins: marketplace index has no version field'') else Inr idx)), w))"

definition FetchIndex :: "'w market_env \<Rightarrow> bool \<Rightarrow> MarketplaceClient \<Rightarrow> 'w \<Rightarrow> Index result \<times> MarketplaceClient \<times> 'w" where
  "FetchIndex E force c w =
     (case mcCache c of
        Some idx \<Rightarrow>
          if \<not> force \<and> Sub (meNow E w) (mcCachedAt c) < IndexCacheTTL then (Inr idx, c, w)
          else (case fetch E c w of
                  (Inl e, w) \<Rightarrow> (Inl e, c, w)
                | (Inr idx, w) \<Rightarrow> (Inr idx, c\<lparr>mcCache := Some idx, mcCachedAt := meNow E w\<rparr>, w))
      | None \<Rightarrow>
          (case fetch E c w of
             (Inl e, w) \<Rightarrow> (Inl e, c, w)
           | (Inr idx, w) \<Rightarrow> (Inr idx, c\<lparr>mcCache := Some idx, mcCachedAt := meNow E w\<rparr>, w)))"

text \<open>The search in an index: the first entry of the name decides.\<close>

definition find_version :: "Index \<Rightarrow> string \<Rightarrow> string \<Rightarrow> (IndexPlugin \<times> IndexVersion) result" where
  "find_version idx name version =
     (case find (\<lambda>p. ipName p = name) (ixPlugins idx) of
        None \<Rightarrow> Inl (Errorf ''plugins: %q not in marketplace index'')
      | Some p \<Rightarrow>
          (case ipVersions p of
             [] \<Rightarrow> Inl (Errorf ''plugins: %q has no versions in index'')
           | v # vs \<Rightarrow>
               if version = [] then Inr (p, v)
               else case find (\<lambda>v. ivVersion v = version) (v # vs) of
                      None \<Rightarrow> Inl (Errorf ''plugins: %q has no version %q'')
                    | Some u \<Rightarrow> Inr (p, u)))"

definition FindVersion ::
    "'w market_env \<Rightarrow> string \<Rightarrow> string \<Rightarrow> MarketplaceClient \<Rightarrow> 'w \<Rightarrow> (IndexPlugin \<times> IndexVersion) result \<times> MarketplaceClient \<times> 'w" where
  "FindVersion E name version c w =
     (case FetchIndex E False c w of (r, c, w) \<Rightarrow> (bindE r (\<lambda>idx. find_version idx name version), c, w))"

definition getBytes :: "'w market_env \<Rightarrow> string \<Rightarrow> 'w \<Rightarrow> string result \<times> 'w" where
  "getBytes E url w =
     (if \<not> HasPrefix url ''https://'' \<and> \<not> HasPrefix url ''http://'' then (Inl (Errorf ''plugins: invalid url %q''), w)
      else case meGet E url w of
             (Inl e, w) \<Rightarrow> (Inl e, w)
           | (Inr (st, body), w) \<Rightarrow>
               (if st \<noteq> 200 then Inl (Errorf ''plugins: HTTP %d for %s'') else read_body 268435456 body, w))"

definition DownloadArtifacts :: "'w market_env \<Rightarrow> IndexVersion \<Rightarrow> 'w \<Rightarrow> (string \<times> string) result \<times> 'w" where
  "DownloadArtifacts E v w =
     (case getBytes E (ivTarballURL v) w of
        (Inl e, w) \<Rightarrow> (Inl (Wrapf ''plugins: tarball: %w'' e), w)
      | (Inr tarball, w) \<Rightarrow>
          (case getBytes E (ivSignatureURL v) w of
             (Inl e, w) \<Rightarrow> (Inl (Wrapf ''plugins: signature: %w'' e), w)
           | (Inr signature, w) \<Rightarrow> (Inr (tarball, signature), w)))"

subsection \<open>Signatures\<close>

datatype 'k public_key = ECDSA 'k | RSA 'k | Ed25519 'k | OtherKey

record 'k sig_lib =
  pemDecode :: "string \<Rightarrow> string option"
  parsePKIX :: "string \<Rightarrow> 'k public_key result"
  b64Decode :: "string \<Rightarrow> string result"
  sha256Sum :: "string \<Rightarrow> string"
  ecdsaVerify :: "'k \<Rightarrow> string \<Rightarrow> string \<Rightarrow> bool"
  rsaVerify :: "'k \<Rightarrow> string \<Rightarrow> string \<Rightarrow> error option"
  ed25519Verify :: "'k \<Rightarrow> string \<Rightarrow> string \<Rightarrow> bool"

record Verifier =
  vPublicKeyPath :: string
  vCosignBin :: string

definition DefaultTrustKeyPath :: string where "DefaultTrustKeyPath = ''/etc/nova-nas/trust/marketplace.pub''"

definition NewVerifier :: "string \<Rightarrow> Verifier" where
  "NewVerifier path = \<lparr>vPublicKeyPath = (if path = [] then DefaultTrustKeyPath else path), vCosignBin = []\<rparr>"

text \<open>The check of the bytes of a key file, a tarball and a signature.\<close>

definition check_signature :: "'k sig_lib \<Rightarrow> string \<Rightarrow> string \<Rightarrow> string \<Rightarrow> error option" where
  "check_signature L keyBytes tarball signature =
     (case pemDecode L keyBytes of
        None \<Rightarrow> Some (Errorf ''plugins: trust key: not PEM-encoded'')
      | Some block \<Rightarrow>
          (case parsePKIX L block of
             Inl e \<Rightarrow> Some (Wrapf ''plugins: trust key parse: %w'' e)
           | Inr pub \<Rightarrow>
               (let sig = (case b64Decode L signature of Inr d \<Rightarrow> d | Inl e \<Rightarrow> signature); digest = sha256Sum L tarball
                in case pub of
                     ECDSA k \<Rightarrow> if ecdsaVerify L k digest sig then None else Some (Errorf ''plugins: signature: ecdsa verify failed'')
                   | RSA k \<Rightarrow> wrap_err ''plugins: signature: rsa: %w'' (rsaVerify L k digest sig)
                   | Ed25519 k \<Rightarrow> if ed25519Verify L k tarball sig then None else Some (Errorf ''plugins: signature: ed25519 verify failed'')
                   | OtherKey \<Rightarrow> Some (Errorf ''plugins: unsupported key type %T''))))"

definition verifyNative :: "'k sig_lib \<Rightarrow> 'w FileOps \<Rightarrow> Verifier \<Rightarrow> string \<Rightarrow> string \<Rightarrow> 'w \<Rightarrow> error option \<times> 'w" where
  "verifyNative L fs v tarball signature w =
     (case osReadFile fs (vPublicKeyPath v) w of
        (Inl e, w) \<Rightarrow> (Some (Wrapf ''plugins: read trust key: %w'' e), w)
      | (Inr keyBytes, w) \<Rightarrow> (check_signature L keyBytes tarball signature, w))"

text \<open>Writing a temporary file: it is removed when the function returns, and closed in any case.\<close>

definition with_temp :: "'w tempfs \<Rightarrow> string \<Rightarrow> (string \<Rightarrow> 'w \<Rightarrow> error option \<times> 'w) \<Rightarrow> 'w \<Rightarrow> error option \<times> 'w" where
  "with_temp fs content k w =
     (case CreateTemp fs w of
        (Inl e, w) \<Rightarrow> (Some e, w)
      | (Inr name, w) \<Rightarrow>
          (case WriteFile fs name content w of
             (Some e, w) \<Rightarrow> (Some e, RemoveFile fs name (snd (CloseFile fs name w)))
           | (None, w) \<Rightarrow> (case k name (snd (CloseFile fs name w)) of (r, w) \<Rightarrow> (r, RemoveFile fs name w))))"

definition verifyWithCosign :: "'w runner \<Rightarrow> 'w tempfs \<Rightarrow> Verifier \<Rightarrow> string \<Rightarrow> string \<Rightarrow> 'w \<Rightarrow> error option \<times> 'w" where
  "verifyWithCosign run fs v tarball signature =
     with_temp fs tarball (\<lambda>tmp. with_temp fs signature (\<lambda>sigTmp w.
       (case run (vCosignBin v) [''verify-blob'', ''--key'', vPublicKeyPath v, ''--signature'', sigTmp, tmp] w of
          ((out, err), w) \<Rightarrow> (wrap_err ''plugins: cosign verify-blob: %w (%s)'' err, w))))"

record ('k, 'w) verify_env =
  veLib :: "'k sig_lib"
  veFiles :: "'w FileOps"
  veTemp :: "'w tempfs"
  veRun :: "'w runner"

definition Verify :: "('k, 'w) verify_env \<Rightarrow> Verifier option \<Rightarrow> string \<Rightarrow> string \<Rightarrow> 'w \<Rightarrow> error option \<times> 'w" where
  "Verify V v tarball signature w =
     (case v of
        None \<Rightarrow> (Some (Errorf ''plugins: verifier: no public key configured''), w)
      | Some v \<Rightarrow>
          if vPublicKeyPath v = [] then (Some (Errorf ''plugins: verifier: no public key configured''), w)
          else if tarball = [] then (Some (Errorf ''plugins: verifier: empty tarball''), w)
          else if signature = [] then (Some (Errorf ''plugins: verifier: empty signature''), w)
          else if vCosignBin v \<noteq> [] then verifyWithCosign (veRun V) (veTemp V) v tarball signature w
          else verifyNative (veLib V) (veFiles V) v tarball signature w)"


subsection \<open>The registry\<close>

definition OfficialMarketplaceName :: string where "OfficialMarketplaceName = ''novanas-official''"

record Marketplace =
  mkID :: string
  mkName :: string
  mkIndexURL :: string
  mkTrustKeyURL :: string
  mkTrustKeyPEM :: string
  mkLocked :: bool
  mkEnabled :: bool
  mkAddedBy :: string
  mkAddedAt :: time
  mkUpdatedAt :: time

record 'w MarketplacesStore =
  stList :: "'w \<Rightarrow> Marketplace list result \<times> 'w"
  stListEnabled :: "'w \<Rightarrow> Marketplace list result \<times> 'w"
  stGet :: "string \<Rightarrow> 'w \<Rightarrow> Marketplace result \<times> 'w"
  stGetByName :: "string \<Rightarrow> 'w \<Rightarrow> Marketplace result \<times> 'w"
  stCreate :: "Marketplace \<Rightarrow> 'w \<Rightarrow> Marketplace result \<times> 'w"
  stUpdateEnabled :: "string \<Rightarrow> bool \<Rightarrow> 'w \<Rightarrow> Marketplace result \<times> 'w"
  stUpdateTrustKey :: "string \<Rightarrow> string \<Rightarrow> 'w \<Rightarrow> Marketplace result \<times> 'w"
  stDelete :: "string \<Rightarrow> 'w \<Rightarrow> error option \<times> 'w"

record MergedIndexSource =
  msID :: string
  msName :: string
  msIndexURL :: string
  msPluginCount :: nat
  msStatus :: string
  msError :: "error option"
  msFetchedAt :: time

record MergedIndexPlugin =
  mpPlugin :: IndexPlugin
  mpMarketplaceID :: string
  mpMarketplaceName :: string

record MergedIndex =
  miVersion :: int
  miUpdated :: time
  miPlugins :: "MergedIndexPlugin list"
  miSources :: "MergedIndexSource list"

record ('k, 'w) MultiMarketplaceClient =
  mmStore :: "'w MarketplacesStore option"
  mmEnv :: "'w market_env"
  mmVerify :: "('k, 'w) verify_env"
  mmPluginsRoot :: string
  mmUUID :: "string \<Rightarrow> string result"

text \<open>The clients made so far, by marketplace id, and the world.\<close>

type_synonym clients = "string \<rightharpoonup> MarketplaceClient"

definition clientFor :: "Marketplace \<Rightarrow> clients \<Rightarrow> MarketplaceClient" where
  "clientFor m cs = (case cs (mkID m) of Some c \<Rightarrow> c | None \<Rightarrow> NewMarketplaceClient (mkIndexURL m))"

text \<open>A search in the client of a marketplace, which may fill its cache.\<close>

definition find_in ::
    "'w market_env \<Rightarrow> string \<Rightarrow> string \<Rightarrow> Marketplace \<Rightarrow> clients \<times> 'w \<Rightarrow> (IndexPlugin \<times> IndexVersion) result \<times> clients \<times> 'w" where
  "find_in E name version m s =
     (case FindVersion E name version (clientFor m (fst s)) (snd s) of
        (r, c, w) \<Rightarrow> (r, (fst s)(mkID m \<mapsto> c), w))"

fun find_any ::
    "'w market_env \<Rightarrow> string \<Rightarrow> string \<Rightarrow> error option \<Rightarrow> Marketplace list \<Rightarrow> clients \<times> 'w \<Rightarrow>
     (IndexPlugin \<times> IndexVersion \<times> Marketplace) result \<times> clients \<times> 'w" where
  "find_any E name version firstErr [] s =
     (Inl (case firstErr of Some e \<Rightarrow> e | None \<Rightarrow> Errorf ''plugins: %q not found in any enabled marketplace''), s)"
| "find_any E name version firstErr (m # ms) s =
     (case find_in E name version m s of
        (Inr (p, v), s) \<Rightarrow> (Inr (p, v, m), s)
      | (Inl e, s) \<Rightarrow> find_any E name version (case firstErr of None \<Rightarrow> Some e | Some f \<Rightarrow> Some f) ms s)"

definition multi_FindVersion ::
    "('k, 'w) MultiMarketplaceClient \<Rightarrow> string \<Rightarrow> string \<Rightarrow> string \<Rightarrow> clients \<times> 'w \<Rightarrow>
     (IndexPlugin \<times> IndexVersion \<times> Marketplace) result \<times> clients \<times> 'w" where
  "multi_FindVersion mc name version marketplaceID s =
     (case mmStore mc of
        None \<Rightarrow> (Inl (Errorf ''plugins: multi-marketplace store not configured''), s)
      | Some st \<Rightarrow>
          if marketplaceID \<noteq> [] then
            (case mmUUID mc marketplaceID of
               Inl e \<Rightarrow> (Inl (Wrapf ''plugins: invalid marketplace id: %w'' e), s)
             | Inr i \<Rightarrow>
                 (case stGet st i (snd s) of
                    (Inl e, w) \<Rightarrow> (Inl e, (fst s, w))
                  | (Inr m, w) \<Rightarrow>
                      if \<not> mkEnabled m then (Inl (Errorf ''plugins: marketplace %q is disabled''), (fst s, w))
                      else (case find_in (mmEnv mc) name version m (fst s, w) of
                              (r, s) \<Rightarrow> (bindE r (\<lambda>(p, v). Inr (p, v, m)), s))))
          else (case stListEnabled st (snd s) of
                  (Inl e, w) \<Rightarrow> (Inl e, (fst s, w))
                | (Inr rows, w) \<Rightarrow> find_any (mmEnv mc) name version None rows (fst s, w)))"

definition writePinnedKey :: "('k, 'w) MultiMarketplaceClient \<Rightarrow> Marketplace \<Rightarrow> 'w \<Rightarrow> string result \<times> 'w" where
  "writePinnedKey mc m w =
     (let fs = veFiles (mmVerify mc);
          dir = path_Join [if mmPluginsRoot mc = [] then DefaultPluginsRoot else mmPluginsRoot mc, ''.trust'']
      in case osMkdirAll fs dir w of
           (Some e, w) \<Rightarrow> (Inl e, w)
         | (None, w) \<Rightarrow>
             (let path = path_Join [dir, mkID m @ ''.pub'']
              in case osWriteFile fs path (mkTrustKeyPEM m) w of
                   (Some e, w) \<Rightarrow> (Inl e, w)
                 | (None, w) \<Rightarrow> (Inr path, w)))"

definition DownloadAndVerify ::
    "('k, 'w) MultiMarketplaceClient \<Rightarrow> string \<Rightarrow> IndexVersion \<Rightarrow> clients \<times> 'w \<Rightarrow> string result \<times> clients \<times> 'w" where
  "DownloadAndVerify mc marketplaceID v s =
     (case mmStore mc of
        None \<Rightarrow> (Inl (Errorf ''plugins: multi-marketplace store not configured''), s)
      | Some st \<Rightarrow>
          (case stGet st marketplaceID (snd s) of
             (Inl e, w) \<Rightarrow> (Inl e, (fst s, w))
           | (Inr m, w) \<Rightarrow>
               (let cs = (fst s)(mkID m \<mapsto> clientFor m (fst s))
                in case DownloadArtifacts (mmEnv mc) v w of
                     (Inl e, w) \<Rightarrow> (Inl e, (cs, w))
                   | (Inr (tarball, sig), w) \<Rightarrow>
                       (case writePinnedKey mc m w of
                          (Inl e, w) \<Rightarrow> (Inl (Wrapf ''plugins: pin trust key: %w'' e), (cs, w))
                        | (Inr keyPath, w) \<Rightarrow>
                            (case Verify (mmVerify mc) (Some \<lparr>vPublicKeyPath = keyPath, vCosignBin = []\<rparr>) tarball sig w of
                               (Some e, w) \<Rightarrow> (Inl (Wrapf ''plugins: signature: %w'' e), (cs, w))
                             | (None, w) \<Rightarrow> (Inr tarball, (cs, w)))))))"

text \<open>
  The merged catalogue. The goroutines use one client each, so their order does not matter: the model takes
  them in the order of the rows.
\<close>

fun fetch_rows :: "'w market_env \<Rightarrow> Marketplace list \<Rightarrow> clients \<times> 'w \<Rightarrow> (Marketplace \<times> Index result \<times> time) list \<times> clients \<times> 'w" where
  "fetch_rows E [] s = ([], s)"
| "fetch_rows E (m # ms) s =
     (case FetchIndex E False (clientFor m (fst s)) (snd s) of
        (r, c, w) \<Rightarrow> (case fetch_rows E ms ((fst s)(mkID m \<mapsto> c), w) of (rs, s) \<Rightarrow> ((m, r, meNow E w) # rs, s)))"

definition merged_source :: "Marketplace \<times> Index result \<times> time \<Rightarrow> MergedIndexSource" where
  "merged_source r = (case r of (m, idx, t) \<Rightarrow>
     \<lparr>msID = mkID m, msName = mkName m, msIndexURL = mkIndexURL m,
      msPluginCount = (case idx of Inl e \<Rightarrow> 0 | Inr i \<Rightarrow> length (ixPlugins i)),
      msStatus = (case idx of Inl e \<Rightarrow> ''error'' | Inr i \<Rightarrow> ''ok''), msError = (case idx of Inl e \<Rightarrow> Some e | Inr i \<Rightarrow> None),
      msFetchedAt = t\<rparr>)"

definition merged_plugins :: "Marketplace \<times> Index result \<times> time \<Rightarrow> MergedIndexPlugin list" where
  "merged_plugins r = (case r of (m, idx, t) \<Rightarrow>
     (case idx of
        Inl e \<Rightarrow> []
      | Inr i \<Rightarrow> map (\<lambda>p. \<lparr>mpPlugin = p, mpMarketplaceID = mkID m, mpMarketplaceName = mkName m\<rparr>) (ixPlugins i)))"

definition indexOfSource :: "MergedIndexSource list \<Rightarrow> string \<Rightarrow> nat" where
  "indexOfSource srcs i = length (takeWhile (\<lambda>s. msID s \<noteq> i) srcs)"

text \<open>A stable sort by source and then by name is two stable sorts.\<close>

definition FetchAll :: "('k, 'w) MultiMarketplaceClient \<Rightarrow> clients \<times> 'w \<Rightarrow> MergedIndex result \<times> clients \<times> 'w" where
  "FetchAll mc s =
     (case mmStore mc of
        None \<Rightarrow> (Inl (Errorf ''plugins: multi-marketplace store not configured''), s)
      | Some st \<Rightarrow>
          (case stListEnabled st (snd s) of
             (Inl e, w) \<Rightarrow> (Inl (Wrapf ''plugins: list marketplaces: %w'' e), (fst s, w))
           | (Inr rows, w) \<Rightarrow>
               (case fetch_rows (mmEnv mc) rows (fst s, w) of
                  (results, s) \<Rightarrow>
                    (let srcs = map merged_source results
                     in (Inr \<lparr>miVersion = 1, miUpdated = meNow (mmEnv mc) w,
                          miPlugins = sort_key (\<lambda>p. indexOfSource srcs (mpMarketplaceID p))
                            (sort_key (\<lambda>p. ipName (mpPlugin p)) (concat (map merged_plugins results))),
                          miSources = srcs\<rparr>, s)))))"

subsection \<open>The in-memory registry\<close>

text \<open>The rows of the map, in the order it is iterated in.\<close>

type_synonym rows = "Marketplace list"

text \<open>\<open>sort.SliceStable\<close>: locked rows first, then by the time they were added.\<close>

definition Mem_List :: "rows \<Rightarrow> Marketplace list" where
  "Mem_List rows = sort_key (\<lambda>m. \<not> mkLocked m) (sort_key mkAddedAt rows)"

definition Mem_ListEnabled :: "rows \<Rightarrow> Marketplace list" where
  "Mem_ListEnabled rows = filter mkEnabled (Mem_List rows)"

definition Mem_Get :: "string \<Rightarrow> rows \<Rightarrow> Marketplace result" where
  "Mem_Get i rows = (case find (\<lambda>m. mkID m = i) rows of None \<Rightarrow> Inl (Errorf ''plugins: marketplace %s: not found'') | Some m \<Rightarrow> Inr m)"

definition Mem_GetByName :: "string \<Rightarrow> rows \<Rightarrow> Marketplace result" where
  "Mem_GetByName n rows = (case find (\<lambda>m. mkName m = n) rows of None \<Rightarrow> Inl (Errorf ''plugins: marketplace %q: not found'') | Some m \<Rightarrow> Inr m)"

definition NilUUID :: string where "NilUUID = ''00000000-0000-0000-0000-000000000000''"

definition Mem_Create :: "time \<Rightarrow> string \<Rightarrow> Marketplace \<Rightarrow> rows \<Rightarrow> Marketplace result \<times> rows" where
  "Mem_Create now newID m rows =
     (if mkName m \<in> mkName ` set rows then (Inl (Errorf ''plugins: marketplace %q already exists''), rows)
      else let m = m\<lparr>mkID := (if mkID m = NilUUID then newID else mkID m),
                     mkAddedAt := (if mkAddedAt m = 0 then now else mkAddedAt m), mkUpdatedAt := now\<rparr>
           in (Inr m, m # filter (\<lambda>x. mkID x \<noteq> mkID m) rows))"

definition Mem_update :: "time \<Rightarrow> string \<Rightarrow> (Marketplace \<Rightarrow> Marketplace) \<Rightarrow> rows \<Rightarrow> Marketplace result \<times> rows" where
  "Mem_update now i f rows =
     (case Mem_Get i rows of
        Inl e \<Rightarrow> (Inl e, rows)
      | Inr m \<Rightarrow> (let m = (f m)\<lparr>mkUpdatedAt := now\<rparr> in (Inr m, map (\<lambda>x. if mkID x = i then m else x) rows)))"

definition Mem_UpdateEnabled :: "time \<Rightarrow> string \<Rightarrow> bool \<Rightarrow> rows \<Rightarrow> Marketplace result \<times> rows" where
  "Mem_UpdateEnabled now i b = Mem_update now i (\<lambda>m. m\<lparr>mkEnabled := b\<rparr>)"

definition Mem_UpdateTrustKey :: "time \<Rightarrow> string \<Rightarrow> string \<Rightarrow> rows \<Rightarrow> Marketplace result \<times> rows" where
  "Mem_UpdateTrustKey now i pem = Mem_update now i (\<lambda>m. m\<lparr>mkTrustKeyPEM := pem\<rparr>)"

definition Mem_Delete :: "string \<Rightarrow> rows \<Rightarrow> error option \<times> rows" where
  "Mem_Delete i rows =
     (if i \<notin> mkID ` set rows then (Some (Errorf ''plugins: marketplace %s: not found''), rows)
      else (None, filter (\<lambda>x. mkID x \<noteq> i) rows))"

definition readTrustKey :: "'w FileOps \<Rightarrow> string \<Rightarrow> 'w \<Rightarrow> string result \<times> 'w" where
  "readTrustKey fs path w = (if path = [] then (Inl (Errorf ''plugins: trust key path empty''), w) else osReadFile fs path w)"

definition SeedOfficialIfMissing ::
    "'w MarketplacesStore option \<Rightarrow> 'w FileOps \<Rightarrow> string \<Rightarrow> ('w \<Rightarrow> time) \<Rightarrow> string \<Rightarrow> string \<Rightarrow> 'w \<Rightarrow> (Marketplace \<times> bool) result \<times> 'w" where
  "SeedOfficialIfMissing st fs newID now indexURL trustKeyPath w =
     (case st of
        None \<Rightarrow> (Inl (Errorf ''plugins: store not configured''), w)
      | Some st \<Rightarrow>
          (case stGetByName st OfficialMarketplaceName w of
             (Inr existing, w) \<Rightarrow> (Inr (existing, False), w)
           | (Inl e, w) \<Rightarrow>
               (case readTrustKey fs trustKeyPath w of
                  (Inl e, w) \<Rightarrow> (Inl (Wrapf ''plugins: read trust key %q: %w'' e), w)
                | (Inr pem, w) \<Rightarrow>
                    (case stCreate st \<lparr>mkID = newID, mkName = OfficialMarketplaceName,
                            mkIndexURL = (if indexURL = [] then DefaultMarketplaceIndexURL else indexURL), mkTrustKeyURL = [],
                            mkTrustKeyPEM = pem, mkLocked = True, mkEnabled = True, mkAddedBy = ''system'', mkAddedAt = now w, mkUpdatedAt = 0\<rparr> w of
                       (Inl e, w) \<Rightarrow> (Inl e, w)
                     | (Inr m, w) \<Rightarrow> (Inr (m, True), w)))))"


text \<open>The in-memory registry as an implementation of the interface, next to the rest of the world.\<close>

definition on_rows :: "(rows \<Rightarrow> 'a \<times> rows) \<Rightarrow> rows \<times> 'x \<Rightarrow> 'a \<times> rows \<times> 'x" where
  "on_rows f s = (case f (fst s) of (r, rows) \<Rightarrow> (r, (rows, snd s)))"

definition mem_store :: "time \<Rightarrow> string \<Rightarrow> (rows \<times> 'x) MarketplacesStore" where
  "mem_store now newID =
     \<lparr>stList = (\<lambda>s. (Inr (Mem_List (fst s)), s)), stListEnabled = (\<lambda>s. (Inr (Mem_ListEnabled (fst s)), s)),
      stGet = (\<lambda>i s. (Mem_Get i (fst s), s)), stGetByName = (\<lambda>n s. (Mem_GetByName n (fst s), s)),
      stCreate = (\<lambda>m. on_rows (Mem_Create now newID m)), stUpdateEnabled = (\<lambda>i b. on_rows (Mem_UpdateEnabled now i b)),
      stUpdateTrustKey = (\<lambda>i pem. on_rows (Mem_UpdateTrustKey now i pem)), stDelete = (\<lambda>i. on_rows (Mem_Delete i))\<rparr>"

subsection \<open>What a search finds\<close>

lemma find_version_listed:
  assumes "find_version idx name version = Inr (p, v)"
  shows "p \<in> set (ixPlugins idx) \<and> ipName p = name \<and> v \<in> set (ipVersions p) \<and> (version \<noteq> [] \<longrightarrow> ivVersion v = version)"
  using assms
  by (auto simp: find_version_def find_Some_iff split: option.splits list.splits if_splits)

lemma FindVersion_listed:
  assumes "FindVersion E name version c w = (Inr (p, v), c', w')"
  shows "ipName p = name \<and> v \<in> set (ipVersions p) \<and> (version \<noteq> [] \<longrightarrow> ivVersion v = version)"
  using assms by (auto simp: FindVersion_def bindE_eq_Inr split: prod.splits dest: find_version_listed)

lemma find_in_listed:
  assumes "find_in E name version m s = (Inr (p, v), s')"
  shows "ipName p = name \<and> v \<in> set (ipVersions p) \<and> (version \<noteq> [] \<longrightarrow> ivVersion v = version)"
  using assms by (auto simp: find_in_def split: prod.splits dest: FindVersion_listed)

lemma find_any_listed:
  assumes "find_any E name version fe ms s = (Inr (p, v, m), s')"
  shows "m \<in> set ms \<and> ipName p = name \<and> v \<in> set (ipVersions p) \<and> (version \<noteq> [] \<longrightarrow> ivVersion v = version)"
  using assms
  by (induction E name version fe ms s rule: find_any.induct) (auto split: prod.splits sum.splits dest: find_in_listed)

text \<open>The contract of a registry: which rows it holds, and what the two reads answer.\<close>

locale registry =
  fixes st :: "'w MarketplacesStore" and held :: "'w \<Rightarrow> Marketplace list"
  assumes list_enabled: "stListEnabled st w = (Inr ms, w') \<Longrightarrow> set ms = {m \<in> set (held w). mkEnabled m}"
    and get_held: "stGet st i w = (Inr m, w') \<Longrightarrow> m \<in> set (held w) \<and> mkID m = i"
begin

lemma search_enabled:
  assumes "mmStore mc = Some st" and "multi_FindVersion mc name version i s = (Inr (p, v, m), s')"
  shows "m \<in> set (held (snd s)) \<and> mkEnabled m \<and> ipName p = name \<and> v \<in> set (ipVersions p) \<and> (version \<noteq> [] \<longrightarrow> ivVersion v = version)"
proof (cases "i = []")
  case True
  then obtain ms w where 1: "stListEnabled st (snd s) = (Inr ms, w)" "find_any (mmEnv mc) name version None ms (fst s, w) = (Inr (p, v, m), s')"
    using assms by (auto simp: multi_FindVersion_def split: prod.splits sum.splits)
  show ?thesis using list_enabled[OF 1(1)] find_any_listed[OF 1(2)] by simp
next
  case False
  then show ?thesis using assms get_held
    by (auto simp: multi_FindVersion_def bindE_eq_Inr split: prod.splits sum.splits if_splits dest: find_in_listed)
qed

end

lemma set_Mem_List [simp]: "set (Mem_List rows) = set rows"
  by (simp add: Mem_List_def)

interpretation mem_registry: registry "mem_store now newID" fst
  by unfold_locales (auto simp: mem_store_def Mem_ListEnabled_def Mem_Get_def find_Some_iff split: option.splits)

text \<open>Locked marketplaces come first among those that are searched, and the older ones first among equals.\<close>

lemma Mem_List_sorted: "sorted (map (\<lambda>m. \<not> mkLocked m) (Mem_List rows))"
  by (simp add: Mem_List_def)

lemma Mem_List_age: "sorted (map mkAddedAt (filter (\<lambda>m. mkLocked m = b) (Mem_List rows)))"
proof -
  have "filter (\<lambda>m. (\<not> mkLocked m) = (\<not> b)) (Mem_List rows) = filter (\<lambda>m. (\<not> mkLocked m) = (\<not> b)) (sort_key mkAddedAt rows)"
    unfolding Mem_List_def by (rule sort_key_stable)
  then have "filter (\<lambda>m. mkLocked m = b) (Mem_List rows) = filter (\<lambda>m. mkLocked m = b) (sort_key mkAddedAt rows)"
    by simp
  then show ?thesis by (simp add: sorted_filter)
qed

subsection \<open>What is handed out is signed\<close>

text \<open>Reading a file that was just written gives what was written.\<close>

definition reads_back :: "'w FileOps \<Rightarrow> bool" where
  "reads_back fs \<longleftrightarrow> (\<forall>p c w w'. osWriteFile fs p c w = (None, w') \<longrightarrow> (\<exists>w''. osReadFile fs p w' = (Inr c, w'')))"

lemma writePinnedKey_read:
  assumes "reads_back (veFiles (mmVerify mc))" and "writePinnedKey mc m w = (Inr path, w')"
  shows "\<exists>w''. osReadFile (veFiles (mmVerify mc)) path w' = (Inr (mkTrustKeyPEM m), w'')"
  using assms by (auto simp: writePinnedKey_def Let_def reads_back_def split: prod.splits option.splits)

lemma DownloadAndVerify_signed:
  assumes "reads_back (veFiles (mmVerify mc))" and "DownloadAndVerify mc i v s = (Inr tarball, s')"
  shows "\<exists>st m w sig. mmStore mc = Some st \<and> stGet st i (snd s) = (Inr m, w) \<and> tarball \<noteq> [] \<and> sig \<noteq> [] \<and>
    check_signature (veLib (mmVerify mc)) (mkTrustKeyPEM m) tarball sig = None"
proof -
  obtain st m w1 tb sig w2 path w3 w4 where
    *: "mmStore mc = Some st" "stGet st i (snd s) = (Inr m, w1)" "DownloadArtifacts (mmEnv mc) v w1 = (Inr (tb, sig), w2)"
      "writePinnedKey mc m w2 = (Inr path, w3)"
      "Verify (mmVerify mc) (Some \<lparr>vPublicKeyPath = path, vCosignBin = []\<rparr>) tb sig w3 = (None, w4)" "tarball = tb"
    using assms(2) by (auto simp: DownloadAndVerify_def Let_def split: option.splits prod.splits sum.splits)
  from writePinnedKey_read[OF assms(1) *(4)] obtain w5 where "osReadFile (veFiles (mmVerify mc)) path w3 = (Inr (mkTrustKeyPEM m), w5)" by blast
  with *(5) have "tb \<noteq> [] \<and> sig \<noteq> [] \<and> check_signature (veLib (mmVerify mc)) (mkTrustKeyPEM m) tb sig = None"
    by (auto simp: Verify_def verifyNative_def split: if_splits)
  with * show ?thesis by blast
qed

end
