(* ===== verification/PluginPreview.thy ===== *)
theory PluginPreview
  imports PluginUnpack PluginMarket
begin

text \<open>
  \<^verbatim>\<open>internal/plugins/preview.go\<close>: what the operator is shown before an installation. The package is fetched and checked and its manifest
  is read from the archive in memory; the properties compare that manifest with the one the installation unpacks.
\<close>

definition PreviewErrNotFound :: string where "PreviewErrNotFound = ''not_found''"
definition PreviewErrMarketplaceUnreach :: string where "PreviewErrMarketplaceUnreach = ''marketplace_unreachable''"
definition PreviewErrSignatureInvalid :: string where "PreviewErrSignatureInvalid = ''signature_invalid''"
definition PreviewErrManifestInvalid :: string where "PreviewErrManifestInvalid = ''manifest_invalid''"
definition PreviewErrInternal :: string where "PreviewErrInternal = ''internal''"

lemmas preview_codes = PreviewErrNotFound_def PreviewErrMarketplaceUnreach_def PreviewErrSignatureInvalid_def
  PreviewErrManifestInvalid_def PreviewErrInternal_def

record PreviewResult =
  pvManifest :: Plugin
  pvPermissions :: PermissionsSummary
  pvTarballSHA256 :: string

record PreviewError =
  peCode :: string
  peErr :: error

text \<open>The text of an error, with the formats for the values that are put into them.\<close>

fun Error :: "error \<Rightarrow> string" where
  "Error (Errorf s) = s"
| "Error (Wrapf f e) =
     (case Index f ''%w'' of None \<Rightarrow> f | Some i \<Rightarrow> take i f @ Error e @ drop (i + 2) f)"
| "Error (HostError bin args code stderr) = bin @ stderr"

definition containsAny :: "string \<Rightarrow> string list \<Rightarrow> bool" where
  "containsAny haystack needles = list_ex (\<lambda>n. n \<noteq> [] \<and> Contains haystack n) needles"

definition manifestCap :: int where "manifestCap = 1048576"

text \<open>The first regular file that is called \<open>manifest.yaml\<close>.\<close>

definition is_manifest :: "tar_entry \<Rightarrow> bool" where
  "is_manifest hdr \<longleftrightarrow> hdrTypeflag hdr = TypeReg \<and> hdrName hdr \<in> {''manifest.yaml'', ''./manifest.yaml''}"

fun manifest_loop :: "error option \<Rightarrow> tar_entry list \<Rightarrow> string result" where
  "manifest_loop ending [] =
     Inl (case ending of Some e \<Rightarrow> Wrapf ''plugins: tar: %w'' e | None \<Rightarrow> Errorf ''plugins: tarball: missing manifest.yaml at root'')"
| "manifest_loop ending (hdr # hdrs) =
     (if \<not> is_manifest hdr then manifest_loop ending hdrs
      else let buf = limit_read (manifestCap + 1) (hdrBody hdr)
           in case (if int (length (hdrBody hdr)) < manifestCap + 1 then hdrErr hdr else None) of
                Some e \<Rightarrow> Inl (Wrapf ''plugins: read manifest: %w'' e)
              | None \<Rightarrow>
                  if int (length buf) > manifestCap then Inl (Errorf ''plugins: manifest.yaml exceeds %d bytes'') else Inr buf)"

definition readManifestFromTarball :: "untar \<Rightarrow> string \<Rightarrow> string result" where
  "readManifestFromTarball untar tarball =
     (case untar tarball of
        Inl e \<Rightarrow> Inl (Wrapf ''plugins: gzip: %w'' e)
      | Inr (hdrs, ending) \<Rightarrow> manifest_loop ending hdrs)"

definition classify_lookup :: "error \<Rightarrow> string" where
  "classify_lookup e =
     (if containsAny (Error e) [''not in marketplace index'', ''has no version'', ''has no versions'']
      then PreviewErrNotFound else PreviewErrMarketplaceUnreach)"

text \<open>What is shown of a package that was fetched.\<close>

definition preview_tarball ::
    "('c, 'v) semver \<Rightarrow> (string \<Rightarrow> Plugin result) \<Rightarrow> untar \<Rightarrow> (string \<Rightarrow> string) \<Rightarrow> (string \<Rightarrow> string) \<Rightarrow> string \<Rightarrow> string \<Rightarrow>
     PreviewError + PreviewResult" where
  "preview_tarball sv yaml untar quote sha256hex name tarball =
     (let bad = (\<lambda>e. Inl \<lparr>peCode = PreviewErrManifestInvalid, peErr = e\<rparr>)
      in case readManifestFromTarball untar tarball of
           Inl e \<Rightarrow> bad e
         | Inr b \<Rightarrow>
             (case ParseManifest sv yaml b of
                Inl e \<Rightarrow> bad e
              | Inr manifest \<Rightarrow>
                  if plName manifest \<noteq> name then bad (Errorf ''plugins: manifest name %q != requested %q'')
                  else Inr \<lparr>pvManifest = manifest, pvPermissions = Summarize quote (Some manifest), pvTarballSHA256 = sha256hex tarball\<rparr>))"

definition PreviewPlugin ::
    "('c, 'v) semver \<Rightarrow> (string \<Rightarrow> Plugin result) \<Rightarrow> untar \<Rightarrow> (string \<Rightarrow> string) \<Rightarrow> (string \<Rightarrow> string) \<Rightarrow> ('k, 'w) verify_env \<Rightarrow>
     ('w market_env \<times> MarketplaceClient) option \<Rightarrow> Verifier option \<Rightarrow> string \<Rightarrow> string \<Rightarrow> 'w \<Rightarrow>
     (PreviewError + PreviewResult) \<times> MarketplaceClient option \<times> 'w" where
  "PreviewPlugin sv yaml untar quote sha256hex V mc ver name version w =
     (case mc of
        None \<Rightarrow> (Inl \<lparr>peCode = PreviewErrInternal, peErr = Errorf ''plugins: marketplace not configured''\<rparr>, None, w)
      | Some (E, c) \<Rightarrow>
          if name = [] then (Inl \<lparr>peCode = PreviewErrNotFound, peErr = Errorf ''plugins: empty name''\<rparr>, Some c, w)
          else case FindVersion E name version c w of
            (Inl e, c, w) \<Rightarrow> (Inl \<lparr>peCode = classify_lookup e, peErr = e\<rparr>, Some c, w)
          | (Inr (p, v), c, w) \<Rightarrow>
              (case DownloadArtifacts E v w of
                 (Inl e, w) \<Rightarrow> (Inl \<lparr>peCode = PreviewErrMarketplaceUnreach, peErr = e\<rparr>, Some c, w)
               | (Inr (tarball, sig), w) \<Rightarrow>
                   (case (case ver of None \<Rightarrow> (None, w) | Some v \<Rightarrow> Verify V (Some v) tarball sig w) of
                      (Some e, w) \<Rightarrow> (Inl \<lparr>peCode = PreviewErrSignatureInvalid, peErr = e\<rparr>, Some c, w)
                    | (None, w) \<Rightarrow> (preview_tarball sv yaml untar quote sha256hex name tarball, Some c, w))))"

subsection \<open>Preview and installation\<close>

text \<open>A file reads back as it was written; the size of an entry is the number of its bytes.\<close>

definition fs_reads_back :: "'w unpack_fs \<Rightarrow> bool" where
  "fs_reads_back fs \<longleftrightarrow> (\<forall>p b w w1 w2 w3 r. upWrite fs p b w = (None, w1) \<longrightarrow> upClose fs p w1 = (None, w2) \<longrightarrow>
     upRead fs p w2 = (Inr r, w3) \<longrightarrow> r = b)"

definition exact_size :: "tar_entry \<Rightarrow> bool" where
  "exact_size hdr \<longleftrightarrow> hdrSize hdr = int (length (hdrBody hdr))"

text \<open>The regular files that are unpacked as \<open>manifest.yaml\<close>.\<close>

definition unpacked_as_manifest :: "string \<Rightarrow> tar_entry \<Rightarrow> bool" where
  "unpacked_as_manifest dir hdr \<longleftrightarrow> hdrTypeflag hdr = TypeReg \<and>
     (case entry_path dir (hdrName hdr) of Inl e \<Rightarrow> False | Inr (full, rel) \<Rightarrow> rel = ''manifest.yaml'')"

lemma limit_read_all: "int (length s) \<le> n \<Longrightarrow> limit_read n s = s"
  by (induction n s rule: limit_read.induct) auto

lemma extract_entry_manifest:
  assumes "extract_entry fs dir hdr st w = (Inr st', w')" and "fs_reads_back fs" and "exact_size hdr"
  shows "usManifest st' = (if unpacked_as_manifest dir hdr then Some (hdrBody hdr) else usManifest st)"
proof (cases "entry_path dir (hdrName hdr)")
  case (Inr fr)
  obtain full rel where E: "entry_path dir (hdrName hdr) = Inr (full, rel)" using Inr by (cases fr) simp
  show ?thesis
  proof (cases "hdrTypeflag hdr")
    case TypeReg
    then have X: "extract_file fs hdr full rel st w = (Inr st', w')" using assms(1) E by (simp add: extract_entry_def)
    have "limit_read (usRemaining st) (hdrBody hdr) = hdrBody hdr"
      using X assms(3) by (intro limit_read_all) (auto simp: extract_file_def exact_size_def split: if_splits)
    then obtain w1 w2 w3 where "upWrite fs full (hdrBody hdr) w1 = (None, w2)" "upClose fs full w2 = (None, w3)"
      "if rel = ''manifest.yaml'' then \<exists>b. upRead fs full w3 = (Inr b, w') \<and> usManifest st' = Some b else usManifest st' = usManifest st"
      using X by (auto simp: extract_file_def Let_def split: if_splits prod.splits option.splits sum.splits)
    then show ?thesis using assms(2) E TypeReg unfolding fs_reads_back_def by (auto simp: unpacked_as_manifest_def split: if_splits)
  qed (use assms(1) E in \<open>auto simp: extract_entry_def unpacked_as_manifest_def split: prod.splits option.splits\<close>)
qed (use assms(1) in \<open>simp add: extract_entry_def\<close>)

text \<open>Of several manifests the last one counts.\<close>

lemma extract_loop_manifest:
  assumes "extract_loop fs dir ending hdrs st w = (Inr st', w')" and "fs_reads_back fs" and "list_all exact_size hdrs"
  shows "usManifest st' =
    (case filter (unpacked_as_manifest dir) hdrs of [] \<Rightarrow> usManifest st | l \<Rightarrow> Some (hdrBody (last l)))"
  using assms(1,3)
proof (induction hdrs arbitrary: st w)
  case (Cons hdr hdrs)
  obtain r w1 where 1: "extract_entry fs dir hdr st w = (r, w1)" by (cases "extract_entry fs dir hdr st w")
  then obtain st1 where r: "r = Inr st1" using Cons.prems(1) by (cases r) auto
  show ?case using Cons.IH[of st1 w1] Cons.prems 1 r extract_entry_manifest[OF 1[unfolded r] assms(2)]
    by (auto split: list.splits if_splits)
qed (auto split: option.splits)

lemma manifest_names_unpack:
  assumes "rooted_path dir" and "is_manifest hdr"
  shows "unpacked_as_manifest dir hdr"
proof -
  have n: "hdrName hdr = ''manifest.yaml'' \<or> hdrName hdr = ''./manifest.yaml''" "hdrTypeflag hdr = TypeReg"
    using assms(2) by (auto simp: is_manifest_def)
  have e: "path_elems (''/'' @ hdrName hdr) = [''manifest.yaml'']" "\<not> Contains (Clean (''/'' @ hdrName hdr)) ''..''"
    using n(1) by (elim disjE; simp only:; code_simp)+
  have "rooted_path (''/'' @ hdrName hdr)" by (simp add: rooted_path_def HasPrefix_def)
  from Rel_below[OF assms(1) this] have "Rel dir (path_Join [dir, Clean (''/'' @ hdrName hdr)]) = Inr ''manifest.yaml''"
    by (simp only: e(1) list.distinct if_False Join.simps)
  moreover have "\<not> HasPrefix ''manifest.yaml'' ''..''" by code_simp
  ultimately have "\<exists>full. entry_path dir (hdrName hdr) = Inr (full, ''manifest.yaml'')"
    using e(2) by (simp only: entry_path_def Let_def if_False sum.case) blast
  then show ?thesis using n(2) by (auto simp: unpacked_as_manifest_def)
qed

lemma limit_read_short: "int (length (limit_read n s)) < n \<Longrightarrow> limit_read n s = s"
proof (induction n s rule: limit_read.induct)
  case (2 n c cs)
  then show ?case by (cases "n \<le> 0") auto
qed simp

lemma manifest_loop_first:
  assumes "manifest_loop ending hdrs = Inr b"
  shows "\<exists>hdr rest. filter is_manifest hdrs = hdr # rest \<and> b = hdrBody hdr"
  using assms
proof (induction hdrs)
  case (Cons hdr hdrs)
  show ?case
  proof (cases "is_manifest hdr")
    case True
    then have "b = limit_read (manifestCap + 1) (hdrBody hdr)" "int (length b) \<le> manifestCap"
      using Cons.prems by (auto simp: Let_def split: option.splits if_splits)
    then show ?thesis using limit_read_short[of "manifestCap + 1" "hdrBody hdr"] True by simp
  qed (use Cons in simp)
qed (simp split: option.splits)

text \<open>The installation takes the last file that is unpacked as \<open>manifest.yaml\<close>, the preview the first one of that name.\<close>

lemma ExtractTarball_last:
  assumes "ExtractTarball untar fs tb dir w = (Inr (b, ui), w')" and "untar tb = Inr (hdrs, ending)" and "fs_reads_back fs"
    and "list_all exact_size hdrs"
  shows "filter (unpacked_as_manifest dir) hdrs \<noteq> [] \<and> b = hdrBody (last (filter (unpacked_as_manifest dir) hdrs))"
proof -
  obtain w1 st w2 where "extract_loop fs dir ending hdrs \<lparr>usRemaining = maxExtractBytes, usManifest = None, usHasUI = False\<rparr> w1 = (Inr st, w2)"
    "usManifest st = Some b"
    using assms(1,2) by (auto simp: ExtractTarball_def split: prod.splits option.splits sum.splits)
  from extract_loop_manifest[OF this(1) assms(3,4)] this(2) show ?thesis by (auto split: list.splits)
qed

text \<open>
  C21. What the operator was shown is what gets installed, when the archive has a single file that is unpacked as
  \<open>manifest.yaml\<close>: if a package is shown with a manifest and the same package is later unpacked into a directory, then the manifest that the
  installation reads there is the one that was shown, with the permissions that were shown.
\<close>

theorem previewed_manifest_is_installed:
  assumes "rooted_path dir" and "untar tb = Inr (hdrs, ending)" and "fs_reads_back fs" and "list_all exact_size hdrs"
    and one: "length (filter (unpacked_as_manifest dir) hdrs) = 1"
    and pv: "preview_tarball sv yaml untar quote sha256hex name tb = Inr pv"
    and ex: "ExtractTarball untar fs tb dir w = (Inr (b, ui), w')"
  shows "ParseManifest sv yaml b = Inr (pvManifest pv) \<and> plName (pvManifest pv) = name \<and>
    pvPermissions pv = Summarize quote (Some (pvManifest pv))"
proof -
  obtain b' where b': "readManifestFromTarball untar tb = Inr b'" and p: "ParseManifest sv yaml b' = Inr (pvManifest pv)"
    "plName (pvManifest pv) = name" "pvPermissions pv = Summarize quote (Some (pvManifest pv))"
    using pv by (auto simp: preview_tarball_def Let_def split: sum.splits if_splits)
  obtain hdr rest where h: "filter is_manifest hdrs = hdr # rest" "b' = hdrBody hdr"
    using manifest_loop_first[of ending hdrs b'] b' assms(2) by (auto simp: readManifestFromTarball_def)
  have "hdr \<in> set (filter is_manifest hdrs)" by (simp add: h(1))
  then have "hdr \<in> set (filter (unpacked_as_manifest dir) hdrs)" using manifest_names_unpack[OF assms(1)] by auto
  moreover obtain x where x: "filter (unpacked_as_manifest dir) hdrs = [x]" using one by (auto simp: length_Suc_conv)
  ultimately have "hdr = x" by simp
  then have "b = b'" using ExtractTarball_last[OF ex assms(2-4)] x h(2) by simp
  then show ?thesis using p by simp
qed

text \<open>
  C35. With two such files the operator agrees to the wrong one: the preview shows the manifest that comes first in the archive, the installation
  unpacks both over each other and reads the one that comes last, although it is the same package, with the same hash and
  a valid signature.
\<close>

theorem second_manifest_unseen:
  assumes "untar tb = Inr (hdrs, ending)" and "fs_reads_back fs" and "list_all exact_size hdrs"
    and "filter is_manifest hdrs = shown # rest" and "filter (unpacked_as_manifest dir) hdrs = others @ [used]"
    and "int (length (hdrBody shown)) \<le> manifestCap" and "hdrErr shown = None"
    and "ExtractTarball untar fs tb dir w = (Inr (b, ui), w')"
  shows "readManifestFromTarball untar tb = Inr (hdrBody shown) \<and> b = hdrBody used"
proof -
  have "manifest_loop ending hdrs = Inr (hdrBody shown)" using assms(4)
  proof (induction hdrs)
    case (Cons h hs)
    show ?case
    proof (cases "is_manifest h")
      case True
      then have "h = shown" using Cons.prems by simp
      then show ?thesis using True assms(6,7) limit_read_all[of "hdrBody shown" "manifestCap + 1"] by (simp add: Let_def)
    qed (use Cons in simp)
  qed simp
  then show ?thesis using assms(1) ExtractTarball_last[OF assms(8,1-3)] assms(5) by (simp add: readManifestFromTarball_def)
qed

text \<open>An index without a version field counts as a plugin that is not there, because the message contains the words for one.\<close>

lemma index_without_version_not_found:
  "classify_lookup (Errorf ''plugins: marketplace index has no version field'') = PreviewErrNotFound"
  by code_simp

definition stored_fs :: "(string \<times> string) list unpack_fs" where
  "stored_fs = \<lparr>upMkdirAll = (\<lambda>p w. (None, w)), upOpen = (\<lambda>p w. (None, w)), upWrite = (\<lambda>p b w. (None, (p, b) # w)),
     upClose = (\<lambda>p w. (None, w)), upRead = (\<lambda>p w. (case map_of w p of None \<Rightarrow> Inl (Errorf ''no such file'') | Some b \<Rightarrow> Inr b, w))\<rparr>"

lemma stored_fs_reads_back: "fs_reads_back stored_fs"
  by (auto simp: fs_reads_back_def stored_fs_def)

definition manifest_entry :: "string \<Rightarrow> tar_entry" where
  "manifest_entry b = \<lparr>hdrName = ''manifest.yaml'', hdrTypeflag = TypeReg, hdrSize = int (length b), hdrBody = b, hdrErr = None\<rparr>"

theorem previewed_manifest_is_installed_witness:
  "ParseManifest demo_semver (\<lambda>b. Inr demo_plugin) ''photos'' = Inr demo_plugin \<and>
   pvPermissions (projr (preview_tarball demo_semver (\<lambda>b. Inr demo_plugin) (\<lambda>b. Inr ([manifest_entry b], None)) id id ''photos'' ''photos'')) =
     Summarize id (Some demo_plugin)"
proof -
  let ?u = "\<lambda>b. Inr ([manifest_entry b], None)" and ?y = "\<lambda>b. Inr demo_plugin"
  have r: "rooted_path ''/p/photos''" by code_simp
  have "pvManifest (projr (preview_tarball demo_semver ?y ?u id id ''photos'' ''photos'')) = demo_plugin"
    "\<not> isl (preview_tarball demo_semver ?y ?u id id ''photos'' ''photos'')" by code_simp+
  then obtain pv where p: "preview_tarball demo_semver ?y ?u id id ''photos'' ''photos'' = Inr pv" "pvManifest pv = demo_plugin"
    by (cases "preview_tarball demo_semver ?y ?u id id ''photos'' ''photos''") auto
  have x: "ExtractTarball ?u stored_fs ''photos'' ''/p/photos'' [] = (Inr (''photos'', []), [(''/p/photos/manifest.yaml'', ''photos'')])" by code_simp
  have "list_all exact_size [manifest_entry ''photos'']" "length (filter (unpacked_as_manifest ''/p/photos'') [manifest_entry ''photos'']) = 1" by code_simp+
  then show ?thesis using previewed_manifest_is_installed[OF r _ stored_fs_reads_back _ _ p(1) x] p by simp
qed

theorem second_manifest_unseen_witness:
  "readManifestFromTarball (\<lambda>b. Inr ([manifest_entry ''harmless'', manifest_entry ''greedy''], None)) ''tgz'' = Inr ''harmless'' \<and>
   fst (ExtractTarball (\<lambda>b. Inr ([manifest_entry ''harmless'', manifest_entry ''greedy''], None)) stored_fs ''tgz'' ''/p/photos'' []) = Inr (''greedy'', [])"
proof -
  let ?l = "[manifest_entry ''harmless'', manifest_entry ''greedy'']"
  let ?u = "\<lambda>b. Inr (?l, None)"
  have f: "filter is_manifest ?l = manifest_entry ''harmless'' # [manifest_entry ''greedy'']"
    "filter (unpacked_as_manifest ''/p/photos'') ?l = [manifest_entry ''harmless''] @ [manifest_entry ''greedy'']"
    "list_all exact_size ?l" "int (length (hdrBody (manifest_entry ''harmless''))) \<le> manifestCap"
    "hdrErr (manifest_entry ''harmless'') = None" by code_simp+
  obtain b ui w' where x: "ExtractTarball ?u stored_fs ''tgz'' ''/p/photos'' [] = (Inr (b, ui), w')" "ui = []"
  proof -
    have "\<not> isl (fst (ExtractTarball ?u stored_fs ''tgz'' ''/p/photos'' []))"
      "snd (projr (fst (ExtractTarball ?u stored_fs ''tgz'' ''/p/photos'' []))) = []" by code_simp+
    then show ?thesis using that
      by (cases "ExtractTarball ?u stored_fs ''tgz'' ''/p/photos'' []"; cases "fst (ExtractTarball ?u stored_fs ''tgz'' ''/p/photos'' [])") auto
  qed
  show ?thesis using second_manifest_unseen[OF _ stored_fs_reads_back f(3,1,2,4,5) x(1)] x by (simp add: manifest_entry_def)
qed

end
