(* ===== verification/PluginResolver.thy ===== *)
theory PluginResolver
  imports PluginMarket
begin

text \<open>
  \<^verbatim>\<open>internal/plugins/dependencies.go\<close>: which plugins an install pulls in, at which versions, and the tree the
  API shows.

  The two lookups are functions on the world, or nil. The maps of the resolver state are HOL maps; its
  set \<open>visiting\<close> is tested before the only name is put into it, because \<open>walk\<close> and \<open>tree\<close> call
  themselves nowhere.
\<close>

definition ErrCycle :: error where "ErrCycle = Errorf ''plugins: dependency cycle''"
definition ErrUnsatisfiable :: error where "ErrUnsatisfiable = Errorf ''plugins: dependency version unsatisfiable''"

type_synonym 'w DependencyLookup = "string \<Rightarrow> string \<Rightarrow> 'w \<Rightarrow> (IndexPlugin \<times> IndexVersion) result \<times> 'w"
type_synonym 'w InstalledLookup = "string \<Rightarrow> 'w \<Rightarrow> string option result \<times> 'w"

record PlanStep =
  plsName :: string
  plsVersion :: string
  plsSource :: string
  plsAction :: string
  plsConstraint :: string

definition PlanActionInstall :: string where "PlanActionInstall = ''install''"
definition PlanActionSkip :: string where "PlanActionSkip = ''skip''"
definition PlanActionBundled :: string where "PlanActionBundled = ''bundled''"

lemmas plan_defs = PlanActionInstall_def PlanActionSkip_def PlanActionBundled_def
  DependencySourceTier2_def DependencySourceBundled_def

datatype DependencyTreeNode =
  TreeNode (tnName: string) (tnVersion: string) (tnConstraint: string) (tnSource: string) (tnInstalled: bool)
    (tnSatisfied: bool) (tnChildren: "DependencyTreeNode list")

record ('c, 'v, 'w) Resolver =
  rsSemver :: "('c, 'v) semver"
  rsMarketplace :: "'w DependencyLookup option"
  rsInstalled :: "'w InstalledLookup option"
  rsMaxDepth :: int

definition NewResolver :: "('c, 'v) semver \<Rightarrow> 'w DependencyLookup option \<Rightarrow> 'w InstalledLookup option \<Rightarrow> ('c, 'v, 'w) Resolver" where
  "NewResolver sv market installed = \<lparr>rsSemver = sv, rsMarketplace = market, rsInstalled = installed, rsMaxDepth = 32\<rparr>"

definition maxDepth :: "('c, 'v, 'w) Resolver \<Rightarrow> int" where
  "maxDepth r = (if rsMaxDepth r \<le> 0 then 32 else rsMaxDepth r)"

subsection \<open>Versions\<close>

definition constraintSatisfied :: "('c, 'v) semver \<Rightarrow> string \<Rightarrow> string \<Rightarrow> bool" where
  "constraintSatisfied sv constr ver =
     (if TrimSpace constr = [] then True
      else case svNewConstraint sv constr of
             Inl e \<Rightarrow> False
           | Inr c \<Rightarrow> (case svNewVersion sv ver of Inl e \<Rightarrow> False | Inr v \<Rightarrow> svCheck sv c v))"

definition filterEmpty :: "string list \<Rightarrow> string list" where
  "filterEmpty = filter (\<lambda>s. TrimSpace s \<noteq> [])"

definition formatConstraint :: "string \<Rightarrow> string" where
  "formatConstraint c = (if TrimSpace c = [] then ''(any version)'' else c)"

fun pick_loop :: "('c, 'v) semver \<Rightarrow> 'c option \<Rightarrow> ('v \<times> string) option \<Rightarrow> string list \<Rightarrow> ('v \<times> string) option" where
  "pick_loop sv combined best [] = best"
| "pick_loop sv combined best (raw # raws) =
     (case svNewVersion sv raw of
        Inl e \<Rightarrow> pick_loop sv combined best raws
      | Inr parsed \<Rightarrow>
          if (case combined of None \<Rightarrow> False | Some c \<Rightarrow> \<not> svCheck sv c parsed) then pick_loop sv combined best raws
          else if (case best of None \<Rightarrow> True | Some (b, _) \<Rightarrow> svGreaterThan sv parsed b)
          then pick_loop sv combined (Some (parsed, raw)) raws
          else pick_loop sv combined best raws)"

definition pickHighestSatisfying :: "('c, 'v) semver \<Rightarrow> IndexVersion list \<Rightarrow> string list \<Rightarrow> string result" where
  "pickHighestSatisfying sv versions constraints =
     (let cs = filterEmpty constraints
      in bindE (if cs = [] then Inr None
                else wrapE ''invalid constraint %q: %w'' (map_sum id Some (svNewConstraint sv (Join cs '','')))) (\<lambda>combined.
           case pick_loop sv combined None (map ivVersion versions) of
             None \<Rightarrow> Inl (Errorf ''no version satisfies %s'')
           | Some (b, raw) \<Rightarrow> Inr raw))"

subsection \<open>The walk\<close>

record resolveState =
  rvResolved :: "string \<rightharpoonup> PlanStep"
  rvOrder :: "string list"
  rvConstraints :: "string \<Rightarrow> string list"

definition record_step :: "PlanStep \<Rightarrow> resolveState \<Rightarrow> resolveState" where
  "record_step s st = st\<lparr>rvResolved := (rvResolved st)(plsName s \<mapsto> s), rvOrder := rvOrder st @ [plsName s]\<rparr>"

definition walk_bundled :: "Dependency \<Rightarrow> resolveState \<Rightarrow> resolveState" where
  "walk_bundled dep st =
     (if rvResolved st (depName dep) \<noteq> None then st
      else record_step \<lparr>plsName = depName dep, plsVersion = [], plsSource = DependencySourceBundled,
             plsAction = PlanActionBundled, plsConstraint = depConstraint dep\<rparr> st)"

text \<open>The dependency is installed in version \<open>cur\<close>.\<close>

definition walk_installed :: "('c, 'v) semver \<Rightarrow> Dependency \<Rightarrow> string \<Rightarrow> resolveState \<Rightarrow> resolveState result" where
  "walk_installed sv dep cur st =
     (if \<not> constraintSatisfied sv (depConstraint dep) cur
      then Inl (Wrapf ''%w: plugin %q requires %q %s; %s@%s is currently installed; upgrade or remove %s first'' ErrUnsatisfiable)
      else case rvResolved st (depName dep) of
             None \<Rightarrow> Inr (record_step \<lparr>plsName = depName dep, plsVersion = cur, plsSource = DependencySourceTier2,
                       plsAction = PlanActionSkip, plsConstraint = depConstraint dep\<rparr> st)
           | Some existing \<Rightarrow>
               if plsAction existing = PlanActionSkip \<and> \<not> constraintSatisfied sv (depConstraint dep) (plsVersion existing)
               then Inl (Wrapf ''%w: %q version %s does not satisfy combined constraints'' ErrUnsatisfiable)
               else Inr st)"

text \<open>The version \<open>picked\<close> satisfies the constraints collected so far.\<close>

definition walk_picked :: "('c, 'v) semver \<Rightarrow> Dependency \<Rightarrow> string \<Rightarrow> resolveState \<Rightarrow> resolveState" where
  "walk_picked sv dep picked st =
     (let combined = Join (filterEmpty (rvConstraints st (depName dep))) '',''
      in case rvResolved st (depName dep) of
           Some existing \<Rightarrow>
             if plsAction existing = PlanActionInstall \<and> \<not> constraintSatisfied sv (depConstraint dep) (plsVersion existing)
             then st\<lparr>rvResolved := (rvResolved st)(depName dep \<mapsto> existing\<lparr>plsVersion := picked, plsConstraint := combined\<rparr>)\<rparr>
             else st
         | None \<Rightarrow> record_step \<lparr>plsName = depName dep, plsVersion = picked, plsSource = DependencySourceTier2,
               plsAction = PlanActionInstall, plsConstraint = combined\<rparr> st)"

definition walk_market :: "('c, 'v, 'w) Resolver \<Rightarrow> Dependency \<Rightarrow> resolveState \<Rightarrow> 'w \<Rightarrow> resolveState result \<times> 'w" where
  "walk_market r dep st w =
     (case rsMarketplace r of
        None \<Rightarrow> (Inl (Errorf ''plugins: resolver: marketplace not configured; cannot resolve %q''), w)
      | Some find_v \<Rightarrow>
          (case find_v (depName dep) [] w of
             (Inl e, w) \<Rightarrow> (Inl (Wrapf ''plugins: resolver: marketplace lookup %q: %w'' e), w)
           | (Inr (p, v), w) \<Rightarrow>
               (case pickHighestSatisfying (rsSemver r) (ipVersions p) (rvConstraints st (depName dep)) of
                  Inl e \<Rightarrow> (Inl (Wrapf ''plugins: resolver: %q: %w'' e), w)
                | Inr picked \<Rightarrow> (Inr (walk_picked (rsSemver r) dep picked st), w))))"

definition walk_dep :: "('c, 'v, 'w) Resolver \<Rightarrow> Plugin \<Rightarrow> Dependency \<Rightarrow> resolveState \<Rightarrow> 'w \<Rightarrow> resolveState result \<times> 'w" where
  "walk_dep r m dep st w =
     (if depSource dep = DependencySourceBundled then (Inr (walk_bundled dep st), w)
      else if depSource dep \<noteq> DependencySourceTier2 then (Inl (Errorf ''plugins: resolver: %q: unknown dependency source %q''), w)
      else if depName dep = plName m then (Inl (Wrapf ''%w: %s self-references'' ErrCycle), w)
      else let st = st\<lparr>rvConstraints := (rvConstraints st)(depName dep := rvConstraints st (depName dep) @ [depConstraint dep])\<rparr>
           in case rsInstalled r of
                None \<Rightarrow> walk_market r dep st w
              | Some installed \<Rightarrow>
                  (case installed (depName dep) w of
                     (Inl e, w) \<Rightarrow> (Inl (Wrapf ''plugins: resolver: installed lookup for %q: %w'' e), w)
                   | (Inr (Some cur), w) \<Rightarrow> (walk_installed (rsSemver r) dep cur st, w)
                   | (Inr None, w) \<Rightarrow> walk_market r dep st w))"

fun walk_deps :: "('c, 'v, 'w) Resolver \<Rightarrow> Plugin \<Rightarrow> Dependency list \<Rightarrow> resolveState \<Rightarrow> 'w \<Rightarrow> resolveState result \<times> 'w" where
  "walk_deps r m [] st w = (Inr st, w)"
| "walk_deps r m (dep # deps) st w =
     (case walk_dep r m dep st w of
        (Inl e, w) \<Rightarrow> (Inl e, w)
      | (Inr st, w) \<Rightarrow> walk_deps r m deps st w)"

definition walk :: "('c, 'v, 'w) Resolver \<Rightarrow> Plugin \<Rightarrow> int \<Rightarrow> resolveState \<Rightarrow> 'w \<Rightarrow> resolveState result \<times> 'w" where
  "walk r m depth st w =
     (if depth > maxDepth r then (Inl (Errorf ''plugins: resolver: max depth %d exceeded at %q''), w)
      else walk_deps r m (psDependencies (plSpec m)) st w)"

definition root_step :: "Plugin \<Rightarrow> PlanStep" where
  "root_step m = \<lparr>plsName = plName m, plsVersion = mdVersion (plMetadata m), plsSource = DependencySourceTier2,
     plsAction = PlanActionInstall, plsConstraint = []\<rparr>"

definition init_state :: resolveState where
  "init_state = \<lparr>rvResolved = Map.empty, rvOrder = [], rvConstraints = (\<lambda>_. [])\<rparr>"

definition Plan :: "('c, 'v, 'w) Resolver \<Rightarrow> Plugin option \<Rightarrow> 'w \<Rightarrow> PlanStep list result \<times> 'w" where
  "Plan r root w =
     (case root of
        None \<Rightarrow> (Inl (Errorf ''plugins: resolver: root manifest is nil''), w)
      | Some m \<Rightarrow>
          (case walk r m 0 init_state w of
             (Inl e, w) \<Rightarrow> (Inl e, w)
           | (Inr st, w) \<Rightarrow> (Inr (List.map_filter (rvResolved st) (rvOrder st) @ [root_step m]), w)))"

subsection \<open>The tree\<close>

definition tree_child :: "('c, 'v, 'w) Resolver \<Rightarrow> Dependency \<Rightarrow> 'w \<Rightarrow> DependencyTreeNode \<times> 'w" where
  "tree_child r dep w =
     (if depSource dep = DependencySourceBundled
      then (TreeNode (depName dep) [] (depConstraint dep) (depSource dep) False True [], w)
      else case (case rsInstalled r of None \<Rightarrow> (Inr None, w) | Some installed \<Rightarrow> installed (depName dep) w) of
             (i, w) \<Rightarrow>
               (let cur = (case i of Inr (Some c) \<Rightarrow> Some c | _ \<Rightarrow> None)
                in case (case rsMarketplace r of None \<Rightarrow> (None, w)
                         | Some find_v \<Rightarrow> (case find_v (depName dep) [] w of (Inl e, w) \<Rightarrow> (None, w) | (Inr (p, v), w) \<Rightarrow> (Some v, w))) of
                     (ver, w) \<Rightarrow>
                       (let version = (case cur of Some c \<Rightarrow> c | None \<Rightarrow> [])
                        in (TreeNode (depName dep) (case ver of Some v \<Rightarrow> if version = [] then ivVersion v else version | None \<Rightarrow> version)
                              (depConstraint dep) (depSource dep) (cur \<noteq> None)
                              (case cur of Some c \<Rightarrow> constraintSatisfied (rsSemver r) (depConstraint dep) c | None \<Rightarrow> False) [], w))))"

fun tree_children :: "('c, 'v, 'w) Resolver \<Rightarrow> Dependency list \<Rightarrow> 'w \<Rightarrow> DependencyTreeNode list \<times> 'w" where
  "tree_children r [] w = ([], w)"
| "tree_children r (dep # deps) w =
     (case tree_child r dep w of (c, w) \<Rightarrow> (case tree_children r deps w of (cs, w) \<Rightarrow> (c # cs, w)))"

definition tree :: "('c, 'v, 'w) Resolver \<Rightarrow> Plugin \<Rightarrow> int \<Rightarrow> 'w \<Rightarrow> DependencyTreeNode result \<times> 'w" where
  "tree r m depth w =
     (if depth > maxDepth r then (Inl (Errorf ''plugins: resolver: max depth %d exceeded at %q''), w)
      else case tree_children r (psDependencies (plSpec m)) w of
             (cs, w) \<Rightarrow> (Inr (TreeNode (plName m) (mdVersion (plMetadata m)) [] DependencySourceTier2 False False cs), w))"

definition Tree :: "('c, 'v, 'w) Resolver \<Rightarrow> Plugin option \<Rightarrow> 'w \<Rightarrow> DependencyTreeNode result \<times> 'w" where
  "Tree r root w =
     (case root of
        None \<Rightarrow> (Inl (Errorf ''plugins: resolver: root manifest is nil''), w)
      | Some m \<Rightarrow> tree r m 0 w)"


subsection \<open>The version that is picked\<close>

text \<open>
  What the version library documents: \<open>GreaterThan\<close> is a strict order whose converse complement is
  transitive, and constraints joined by commas, none of them with an alternative \<open>||\<close>, hold exactly when
  each of them does.
\<close>

definition semver_laws :: "('c, 'v) semver \<Rightarrow> bool" where
  "semver_laws sv \<longleftrightarrow>
     (\<forall>a b. svGreaterThan sv a b \<longrightarrow> \<not> svGreaterThan sv b a) \<and>
     (\<forall>a b c. \<not> svGreaterThan sv b a \<and> \<not> svGreaterThan sv c b \<longrightarrow> \<not> svGreaterThan sv c a) \<and>
     (\<forall>cs ds c v. cs \<noteq> [] \<and> list_all (\<lambda>x. \<not> Contains x ''||'') cs \<and> map (svNewConstraint sv) cs = map Inr ds \<and>
        svNewConstraint sv (Join cs '','') = Inr c \<longrightarrow> svCheck sv c v = list_all (\<lambda>d. svCheck sv d v) ds)"

lemma greater_asym: "semver_laws sv \<Longrightarrow> svGreaterThan sv a b \<Longrightarrow> \<not> svGreaterThan sv b a"
  unfolding semver_laws_def by blast

lemma greater_irrefl: "semver_laws sv \<Longrightarrow> \<not> svGreaterThan sv a a"
  using greater_asym[of sv a a] by auto

lemma greater_trans: "semver_laws sv \<Longrightarrow> \<not> svGreaterThan sv a b \<Longrightarrow> \<not> svGreaterThan sv b c \<Longrightarrow> \<not> svGreaterThan sv a c"
  unfolding semver_laws_def by blast

definition admits :: "('c, 'v) semver \<Rightarrow> 'c option \<Rightarrow> string \<Rightarrow> 'v \<Rightarrow> bool" where
  "admits sv combined raw v \<longleftrightarrow> svNewVersion sv raw = Inr v \<and> (case combined of None \<Rightarrow> True | Some c \<Rightarrow> svCheck sv c v)"

lemma pick_loop_step:
  "pick_loop sv combined best (raw # raws) = pick_loop sv combined
     (case svNewVersion sv raw of
        Inl e \<Rightarrow> best
      | Inr v \<Rightarrow> if admits sv combined raw v \<and> (case best of None \<Rightarrow> True | Some (b, _) \<Rightarrow> svGreaterThan sv v b)
                then Some (v, raw) else best) raws"
  by (auto simp: admits_def split: sum.splits option.splits)

lemma pick_loop_spec:
  assumes L: "semver_laws sv"
  shows "case pick_loop sv combined best raws of
      None \<Rightarrow> best = None \<and> (\<forall>u\<in>set raws. \<forall>v. \<not> admits sv combined u v)
    | Some (b, raw) \<Rightarrow> (best = Some (b, raw) \<or> raw \<in> set raws \<and> admits sv combined raw b) \<and>
        (\<forall>u\<in>set raws. \<forall>v. admits sv combined u v \<longrightarrow> \<not> svGreaterThan sv v b) \<and>
        (\<forall>v u. best = Some (v, u) \<longrightarrow> \<not> svGreaterThan sv v b)"
proof (induction raws arbitrary: best)
  case Nil
  show ?case using greater_irrefl[OF L] by (auto split: option.splits)
next
  case (Cons raw raws)
  define best' where "best' = (case svNewVersion sv raw of
      Inl e \<Rightarrow> best
    | Inr v \<Rightarrow> if admits sv combined raw v \<and> (case best of None \<Rightarrow> True | Some (b, _) \<Rightarrow> svGreaterThan sv v b)
              then Some (v, raw) else best)"
  have step: "pick_loop sv combined best (raw # raws) = pick_loop sv combined best' raws"
    unfolding best'_def by (rule pick_loop_step)
  have new: "best' = best \<or> (\<exists>v. best' = Some (v, raw) \<and> admits sv combined raw v)"
    unfolding best'_def by (auto split: sum.splits)
  have none: "best' = None \<Longrightarrow> best = None \<and> (\<forall>v. \<not> admits sv combined raw v)"
    unfolding best'_def by (auto simp: admits_def split: sum.splits if_splits option.splits)
  have up: "\<exists>b u. best' = Some (b, u) \<and> \<not> svGreaterThan sv v b" if "best = Some (v, x) \<or> admits sv combined raw v" for v x
  proof (cases "svNewVersion sv raw")
    case (Inl e)
    then show ?thesis using that greater_irrefl[OF L] by (auto simp: best'_def admits_def)
  next
    case (Inr a)
    then show ?thesis using that greater_irrefl[OF L] greater_asym[OF L, of a]
      by (cases best) (auto simp: best'_def admits_def)
  qed
  show ?case
  proof (cases "pick_loop sv combined best' raws")
    case None
    then show ?thesis using Cons.IH[of best'] none step by simp
  next
    case (Some br)
    obtain b r where br: "br = (b, r)" by (cases br)
    have IH: "best' = Some (b, r) \<or> r \<in> set raws \<and> admits sv combined r b"
      "\<forall>u\<in>set raws. \<forall>v. admits sv combined u v \<longrightarrow> \<not> svGreaterThan sv v b"
      "\<forall>v u. best' = Some (v, u) \<longrightarrow> \<not> svGreaterThan sv v b"
      using Cons.IH[of best'] Some br by simp_all
    have "\<not> svGreaterThan sv v b" if "best = Some (v, x) \<or> admits sv combined raw v" for v x
      using up[OF that] IH(3) greater_trans[OF L] by blast
    then show ?thesis using Some br step new IH by auto
  qed
qed

text \<open>\<open>raw\<close> is a listed version that satisfies the constraints, and no other such version is greater.\<close>

definition highest :: "('c, 'v) semver \<Rightarrow> IndexVersion list \<Rightarrow> string list \<Rightarrow> string \<Rightarrow> bool" where
  "highest sv versions cs raw \<longleftrightarrow>
     (let ok = (\<lambda>u v. u \<in> ivVersion ` set versions \<and> svNewVersion sv u = Inr v \<and> list_all (\<lambda>c. constraintSatisfied sv c u) cs)
      in \<exists>v. ok raw v \<and> (\<forall>u v'. ok u v' \<longrightarrow> \<not> svGreaterThan sv v' v))"

definition simple_constraint :: "('c, 'v) semver \<Rightarrow> string \<Rightarrow> bool" where
  "simple_constraint sv c \<longleftrightarrow> \<not> Contains c ''||'' \<and> (TrimSpace c \<noteq> [] \<longrightarrow> (\<exists>d. svNewConstraint sv c = Inr d))"

lemma constraints_parse:
  assumes "list_all (simple_constraint sv) cs"
  shows "\<exists>ds. map (svNewConstraint sv) (filterEmpty cs) = map Inr ds"
  using assms
  by (induction cs) (auto simp: filterEmpty_def simple_constraint_def Cons_eq_map_conv intro: exI[of _ "_ # _"])

lemma constraintSatisfied_blank: "TrimSpace c = [] \<Longrightarrow> constraintSatisfied sv c u"
  by (simp add: constraintSatisfied_def)

lemma all_satisfied:
  assumes "map (svNewConstraint sv) (filterEmpty cs) = map Inr ds" and "svNewVersion sv u = Inr v"
  shows "list_all (\<lambda>c. constraintSatisfied sv c u) cs \<longleftrightarrow> list_all (\<lambda>d. svCheck sv d v) ds"
  using assms
proof (induction cs arbitrary: ds)
  case (Cons c cs)
  show ?case
  proof (cases "TrimSpace c = []")
    case True
    then show ?thesis using Cons by (simp add: filterEmpty_def constraintSatisfied_blank)
  next
    case False
    then obtain d ds' where "ds = d # ds'" "svNewConstraint sv c = Inr d" "map (svNewConstraint sv) (filterEmpty cs) = map Inr ds'"
      using Cons.prems by (auto simp: filterEmpty_def Cons_eq_map_conv)
    then show ?thesis using Cons.IH[of ds'] Cons.prems(2) False by (simp add: constraintSatisfied_def)
  qed
qed (simp add: filterEmpty_def)

lemma pickHighestSatisfying_highest:
  assumes L: "semver_laws sv" and S: "list_all (simple_constraint sv) cs"
    and P: "pickHighestSatisfying sv versions cs = Inr raw"
  shows "highest sv versions cs raw"
proof -
  obtain ds where ds: "map (svNewConstraint sv) (filterEmpty cs) = map Inr ds" using constraints_parse[OF S] by blast
  obtain combined where comb: "(if filterEmpty cs = [] then Inr None
        else wrapE ''invalid constraint %q: %w'' (map_sum id Some (svNewConstraint sv (Join (filterEmpty cs) '','')))) = Inr combined"
    and pick: "(case pick_loop sv combined None (map ivVersion versions) of
        None \<Rightarrow> Inl (Errorf ''no version satisfies %s'') | Some (b, raw) \<Rightarrow> Inr raw) = Inr raw"
    using P unfolding pickHighestSatisfying_def Let_def bindE_eq_Inr by blast
  have c: "if filterEmpty cs = [] then combined = None
      else \<exists>c. combined = Some c \<and> svNewConstraint sv (Join (filterEmpty cs) '','') = Inr c"
    using comb by (cases "svNewConstraint sv (Join (filterEmpty cs) '','')") (auto split: if_splits)
  obtain b where p: "pick_loop sv combined None (map ivVersion versions) = Some (b, raw)"
    using pick by (cases "pick_loop sv combined None (map ivVersion versions)") auto
  have free: "list_all (\<lambda>x. \<not> Contains x ''||'') (filterEmpty cs)"
    using S by (auto simp: list_all_iff filterEmpty_def simple_constraint_def)
  have adm: "admits sv combined u v \<longleftrightarrow> svNewVersion sv u = Inr v \<and> list_all (\<lambda>c. constraintSatisfied sv c u) cs" for u v
  proof (cases "filterEmpty cs = []")
    case True
    then show ?thesis using c ds all_satisfied[OF ds] by (auto simp: admits_def)
  next
    case False
    then obtain d where "combined = Some d" "svNewConstraint sv (Join (filterEmpty cs) '','') = Inr d" using c by auto
    then have "svCheck sv d v = list_all (\<lambda>d. svCheck sv d v) ds"
      using L False free ds unfolding semver_laws_def by blast
    then show ?thesis using \<open>combined = Some d\<close> all_satisfied[OF ds] by (auto simp: admits_def)
  qed
  show ?thesis using pick_loop_spec[OF L, where combined = combined and best = None and raws = "map ivVersion versions"] p adm
    unfolding highest_def Let_def by auto
qed

lemma highest_more:
  assumes "highest sv versions cs raw" and "constraintSatisfied sv c raw"
  shows "highest sv versions (cs @ [c]) raw"
  using assms unfolding highest_def Let_def by auto


subsection \<open>The plan\<close>

text \<open>Resolution against a fixed state: \<open>inst\<close> gives the installed versions, \<open>avail\<close> the entries of the marketplaces.\<close>

definition fixed_resolver ::
    "('c, 'v) semver \<Rightarrow> (string \<Rightarrow> (IndexPlugin \<times> IndexVersion) result) \<Rightarrow> (string \<Rightarrow> string option) \<Rightarrow> ('c, 'v, 'w) Resolver" where
  "fixed_resolver sv avail inst = NewResolver sv (Some (\<lambda>n v w. (avail n, w))) (Some (\<lambda>n w. (Inr (inst n), w)))"

definition tier2_constraints :: "string \<Rightarrow> Dependency list \<Rightarrow> string list" where
  "tier2_constraints n ds = map depConstraint (filter (\<lambda>d. depName d = n \<and> depSource d = DependencySourceTier2) ds)"

definition bundled_names :: "Dependency list \<Rightarrow> string set" where
  "bundled_names ds = depName ` {d \<in> set ds. depSource d = DependencySourceBundled}"

text \<open>What a step says about the dependency it stands for.\<close>

definition step_ok ::
    "('c, 'v) semver \<Rightarrow> (string \<Rightarrow> (IndexPlugin \<times> IndexVersion) result) \<Rightarrow> (string \<Rightarrow> string option) \<Rightarrow> string list \<Rightarrow> PlanStep \<Rightarrow> bool" where
  "step_ok sv avail inst cs s \<longleftrightarrow>
     (case inst (plsName s) of
        Some cur \<Rightarrow> plsAction s = PlanActionSkip \<and> plsVersion s = cur \<and> list_all (\<lambda>c. constraintSatisfied sv c cur) cs
      | None \<Rightarrow> plsAction s = PlanActionInstall \<and> (\<exists>p v. avail (plsName s) = Inr (p, v) \<and> highest sv (ipVersions p) cs (plsVersion s)))"

definition walk_inv ::
    "('c, 'v) semver \<Rightarrow> (string \<Rightarrow> (IndexPlugin \<times> IndexVersion) result) \<Rightarrow> (string \<Rightarrow> string option) \<Rightarrow> Dependency list \<Rightarrow> resolveState \<Rightarrow> bool" where
  "walk_inv sv avail inst ds st \<longleftrightarrow>
     distinct (rvOrder st) \<and> set (rvOrder st) = dom (rvResolved st) \<and> dom (rvResolved st) = depName ` set ds \<and>
     (\<forall>n. rvConstraints st n = tier2_constraints n ds) \<and>
     (\<forall>n s. rvResolved st n = Some s \<longrightarrow> plsName s = n \<and>
        (n \<notin> bundled_names ds \<longrightarrow> step_ok sv avail inst (tier2_constraints n ds) s))"

lemma plan_actions [simp]:
  "PlanActionInstall \<noteq> PlanActionSkip" "PlanActionSkip \<noteq> PlanActionInstall"
  "DependencySourceBundled \<noteq> DependencySourceTier2" "DependencySourceTier2 \<noteq> DependencySourceBundled"
  by (simp_all add: plan_defs)

lemma tier2_snoc:
  "tier2_constraints n (ds @ [d]) = tier2_constraints n ds @
     (if depName d = n \<and> depSource d = DependencySourceTier2 then [depConstraint d] else [])"
  by (simp add: tier2_constraints_def)

lemma bundled_snoc:
  "bundled_names (ds @ [d]) = bundled_names ds \<union> (if depSource d = DependencySourceBundled then {depName d} else {})"
  by (auto simp: bundled_names_def)

lemma tier2_new: "n \<notin> depName ` set ds \<Longrightarrow> tier2_constraints n ds = []"
  by (force simp: tier2_constraints_def filter_empty_conv)

lemma walk_bundled_inv:
  assumes "walk_inv sv avail inst ds st" and "depSource d = DependencySourceBundled"
  shows "walk_inv sv avail inst (ds @ [d]) (walk_bundled d st)"
proof -
  have "rvResolved st n = None \<longleftrightarrow> n \<notin> depName ` set ds" for n
    using assms(1) unfolding walk_inv_def by (metis domIff)
  then show ?thesis using assms unfolding walk_inv_def walk_bundled_def record_step_def
    by (auto simp: tier2_snoc bundled_snoc)
qed

text \<open>Adding a dependency from a marketplace whose step is \<open>s\<close> afterwards.\<close>

lemma walk_inv_tier2:
  assumes I: "walk_inv sv avail inst ds st" and T: "depSource d = DependencySourceTier2"
    and N: "plsName s = depName d"
    and S: "depName d \<notin> bundled_names ds \<Longrightarrow> step_ok sv avail inst (tier2_constraints (depName d) (ds @ [d])) s"
    and R: "rvResolved st' = (rvResolved st)(depName d \<mapsto> s)"
    and O: "rvOrder st' = (if depName d \<in> dom (rvResolved st) then rvOrder st else rvOrder st @ [depName d])"
    and C: "rvConstraints st' = (rvConstraints st)(depName d := rvConstraints st (depName d) @ [depConstraint d])"
  shows "walk_inv sv avail inst (ds @ [d]) st'"
proof -
  have I': "distinct (rvOrder st)" "set (rvOrder st) = dom (rvResolved st)" "dom (rvResolved st) = depName ` set ds"
    "\<And>n. rvConstraints st n = tier2_constraints n ds"
    "\<And>n s. rvResolved st n = Some s \<Longrightarrow> plsName s = n \<and> (n \<notin> bundled_names ds \<longrightarrow> step_ok sv avail inst (tier2_constraints n ds) s)"
    using I by (auto simp: walk_inv_def)
  have "distinct (rvOrder st')" "set (rvOrder st') = dom (rvResolved st')" "dom (rvResolved st') = depName ` set (ds @ [d])"
    using I'(1-3) R O by auto
  moreover have "rvConstraints st' n = tier2_constraints n (ds @ [d])" for n
    using I'(4) C T by (simp add: tier2_snoc)
  moreover have "plsName t = n \<and> (n \<notin> bundled_names (ds @ [d]) \<longrightarrow> step_ok sv avail inst (tier2_constraints n (ds @ [d])) t)"
    if "rvResolved st' n = Some t" for n t
    using that I'(5)[of n t] R N S T by (cases "n = depName d") (auto simp: tier2_snoc bundled_snoc)
  ultimately show ?thesis by (simp add: walk_inv_def)
qed

text \<open>One dependency from a marketplace: which step it has afterwards, and what else changes.\<close>

definition tier2_step ::
    "('c, 'v) semver \<Rightarrow> (string \<Rightarrow> (IndexPlugin \<times> IndexVersion) result) \<Rightarrow> (string \<Rightarrow> string option) \<Rightarrow> Dependency list \<Rightarrow> Dependency \<Rightarrow>
     resolveState \<Rightarrow> resolveState \<Rightarrow> PlanStep \<Rightarrow> bool" where
  "tier2_step sv avail inst ds d st st' s \<longleftrightarrow>
     rvResolved st' = (rvResolved st)(depName d \<mapsto> s) \<and> plsName s = depName d \<and>
     rvOrder st' = (if depName d \<in> dom (rvResolved st) then rvOrder st else rvOrder st @ [depName d]) \<and>
     rvConstraints st' = rvConstraints st \<and>
     (depName d \<notin> bundled_names ds \<longrightarrow> step_ok sv avail inst (tier2_constraints (depName d) (ds @ [d])) s)"

definition add_constraint :: "Dependency \<Rightarrow> resolveState \<Rightarrow> resolveState" where
  "add_constraint d st = st\<lparr>rvConstraints := (rvConstraints st)(depName d := rvConstraints st (depName d) @ [depConstraint d])\<rparr>"

lemma add_constraint_simps [simp]:
  "rvResolved (add_constraint d st) = rvResolved st" "rvOrder (add_constraint d st) = rvOrder st"
  "rvConstraints (add_constraint d st) = (rvConstraints st)(depName d := rvConstraints st (depName d) @ [depConstraint d])"
  by (simp_all add: add_constraint_def)

lemma walk_inv_old:
  assumes "walk_inv sv avail inst ds st"
  shows "rvResolved st n = Some s \<Longrightarrow> plsName s = n \<and> (n \<notin> bundled_names ds \<longrightarrow> step_ok sv avail inst (tier2_constraints n ds) s)"
    and "rvResolved st n = None \<Longrightarrow> tier2_constraints n ds = []"
    and "rvConstraints st n = tier2_constraints n ds"
proof -
  show "rvResolved st n = Some s \<Longrightarrow> plsName s = n \<and> (n \<notin> bundled_names ds \<longrightarrow> step_ok sv avail inst (tier2_constraints n ds) s)"
    "rvConstraints st n = tier2_constraints n ds"
    using assms by (auto simp: walk_inv_def)
  show "rvResolved st n = None \<Longrightarrow> tier2_constraints n ds = []"
    using assms by (intro tier2_new) (metis domIff walk_inv_def)
qed

lemma walk_installed_step:
  assumes I: "walk_inv sv avail inst ds st" and T: "depSource d = DependencySourceTier2" and C: "inst (depName d) = Some cur"
    and W: "walk_installed sv d cur (add_constraint d st) = Inr st'"
  shows "\<exists>s. tier2_step sv avail inst ds d (add_constraint d st) st' s"
proof -
  have c: "constraintSatisfied sv (depConstraint d) cur" using W by (auto simp: walk_installed_def split: if_splits)
  show ?thesis
  proof (cases "rvResolved st (depName d)")
    case None
    then show ?thesis using W c C T walk_inv_old(2)[OF I None]
      by (auto simp: tier2_step_def walk_installed_def record_step_def step_ok_def tier2_snoc domIff)
  next
    case (Some s)
    then have "st' = add_constraint d st" using W c by (auto simp: walk_installed_def split: if_splits)
    then show ?thesis using Some walk_inv_old(1)[OF I Some] C c T
      by (intro exI[of _ s]) (auto simp: tier2_step_def step_ok_def tier2_snoc fun_upd_idem)
  qed
qed

lemma walk_picked_step:
  assumes I: "walk_inv sv avail inst ds st" and T: "depSource d = DependencySourceTier2" and C: "inst (depName d) = None"
    and A: "avail (depName d) = Inr (p, v)" and H: "highest sv (ipVersions p) (tier2_constraints (depName d) (ds @ [d])) picked"
  shows "\<exists>s. tier2_step sv avail inst ds d (add_constraint d st) (walk_picked sv d picked (add_constraint d st)) s"
proof (cases "rvResolved st (depName d)")
  case None
  then show ?thesis using H A C by (auto simp: tier2_step_def walk_picked_def record_step_def step_ok_def domIff)
next
  case (Some s)
  note o = walk_inv_old(1)[OF I Some]
  show ?thesis
  proof (cases "plsAction s = PlanActionInstall \<and> \<not> constraintSatisfied sv (depConstraint d) (plsVersion s)")
    case True
    then show ?thesis using H A C Some o by (auto simp: tier2_step_def walk_picked_def step_ok_def Let_def)
  next
    case False
    then have "walk_picked sv d picked (add_constraint d st) = add_constraint d st" using Some by (auto simp: walk_picked_def Let_def)
    moreover have "step_ok sv avail inst (tier2_constraints (depName d) (ds @ [d])) s" if "depName d \<notin> bundled_names ds"
      using o that False A C T by (auto simp: step_ok_def tier2_snoc intro: highest_more)
    ultimately show ?thesis using Some o by (intro exI[of _ s]) (auto simp: tier2_step_def fun_upd_idem)
  qed
qed

lemma walk_dep_inv:
  assumes I: "walk_inv sv avail inst ds st" and L: "semver_laws sv"
    and S: "list_all (simple_constraint sv) (tier2_constraints (depName d) (ds @ [d]))"
    and W: "walk_dep (fixed_resolver sv avail inst) m d st w = (Inr st', w')"
  shows "walk_inv sv avail inst (ds @ [d]) st' \<and> w' = w"
proof (cases "depSource d = DependencySourceBundled")
  case True
  then show ?thesis using W walk_bundled_inv[OF I True] by (simp add: walk_dep_def)
next
  case False
  then have T: "depSource d = DependencySourceTier2" using W by (auto simp: walk_dep_def split: if_splits)
  have cs: "rvConstraints (add_constraint d st) (depName d) = tier2_constraints (depName d) (ds @ [d])"
    using walk_inv_old(3)[OF I] T by (simp add: tier2_snoc)
  have "(\<exists>s. tier2_step sv avail inst ds d (add_constraint d st) st' s) \<and> w' = w"
  proof (cases "inst (depName d)")
    case (Some cur)
    then have "walk_installed sv d cur (add_constraint d st) = Inr st'" "w' = w"
      using W T by (auto simp: walk_dep_def fixed_resolver_def NewResolver_def add_constraint_def split: if_splits)
    then show ?thesis using walk_installed_step[OF I T Some] by blast
  next
    case None
    then have "walk_market (fixed_resolver sv avail inst) d (add_constraint d st) w = (Inr st', w')"
      using W T by (auto simp: walk_dep_def fixed_resolver_def NewResolver_def add_constraint_def split: if_splits)
    then obtain p v picked where A: "avail (depName d) = Inr (p, v)"
      "pickHighestSatisfying sv (ipVersions p) (rvConstraints (add_constraint d st) (depName d)) = Inr picked"
      "st' = walk_picked sv d picked (add_constraint d st)" "w' = w"
      by (auto simp: walk_market_def fixed_resolver_def NewResolver_def split: sum.splits)
    then show ?thesis using walk_picked_step[OF I T None A(1)] pickHighestSatisfying_highest[OF L S, of "ipVersions p" picked] cs by auto
  qed
  then show ?thesis using walk_inv_tier2[OF I T] by (auto simp: tier2_step_def)
qed

lemma walk_deps_inv:
  assumes "walk_inv sv avail inst ds st" and "semver_laws sv" and "list_all (simple_constraint sv) (map depConstraint (ds @ deps))"
    and "walk_deps (fixed_resolver sv avail inst) m deps st w = (Inr st', w')"
  shows "walk_inv sv avail inst (ds @ deps) st' \<and> w' = w"
  using assms
proof (induction deps arbitrary: ds st w)
  case (Cons d deps)
  obtain st1 w1 where 1: "walk_dep (fixed_resolver sv avail inst) m d st w = (Inr st1, w1)"
    "walk_deps (fixed_resolver sv avail inst) m deps st1 w1 = (Inr st', w')"
    using Cons.prems(4) by (auto split: prod.splits sum.splits)
  have "list_all (simple_constraint sv) (tier2_constraints (depName d) (ds @ [d]))"
    using Cons.prems(3) by (auto simp: tier2_constraints_def list_all_iff)
  then have "walk_inv sv avail inst (ds @ [d]) st1" "w1 = w" using walk_dep_inv[OF Cons.prems(1,2) _ 1(1)] by auto
  then show ?case using Cons.IH[of "ds @ [d]" st1 w1] Cons.prems(2,3) 1(2) by simp
qed simp


text \<open>Versions as numbers, constraints as lower bounds.\<close>

definition nat_semver :: "(int list, int) semver" where
  "nat_semver =
     \<lparr>svNewConstraint = (\<lambda>s. case those (map Atoi (Split s (CHR '',''))) of None \<Rightarrow> Inl (Errorf ''improper constraint: %s'') | Some l \<Rightarrow> Inr l),
      svNewVersion = (\<lambda>s. case Atoi s of None \<Rightarrow> Inl (Errorf ''invalid version'') | Some n \<Rightarrow> Inr n),
      svCheck = (\<lambda>l v. list_all (\<lambda>n. n \<le> v) l), svGreaterThan = (\<lambda>a b. b < a)\<rparr>"


lemma those_append: "those xs = Some a \<Longrightarrow> those ys = Some b \<Longrightarrow> those (xs @ ys) = Some (a @ b)"
  by (induction xs arbitrary: a) (auto split: option.splits)

lemma nat_constraint_join:
  assumes "cs \<noteq> []" and "map (svNewConstraint nat_semver) cs = map Inr ds"
  shows "svNewConstraint nat_semver (Join cs '','') = Inr (concat ds)"
  using assms
proof (induction cs arbitrary: ds)
  case (Cons x cs)
  obtain d ds' where ds: "ds = d # ds'" "those (map Atoi (Split x (CHR '',''))) = Some d" "map (svNewConstraint nat_semver) cs = map Inr ds'"
    using Cons.prems(2) by (auto simp: nat_semver_def Cons_eq_map_conv split: option.splits)
  show ?case
  proof (cases cs)
    case Nil
    then show ?thesis using ds by (simp add: nat_semver_def)
  next
    case (Cons y r)
    then have "those (map Atoi (Split (Join cs '','') (CHR '',''))) = Some (concat ds')"
      using Cons.IH[of ds'] ds(3) by (auto simp: nat_semver_def split: option.splits)
    then show ?thesis using ds(1,2) Cons by (simp add: nat_semver_def Split_sep those_append)
  qed
qed simp

lemma nat_semver_laws: "semver_laws nat_semver"
proof -
  have "svCheck nat_semver c v = list_all (\<lambda>d. svCheck nat_semver d v) ds"
    if "cs \<noteq> []" "map (svNewConstraint nat_semver) cs = map Inr ds" "svNewConstraint nat_semver (Join cs '','') = Inr c" for cs ds c v
    using nat_constraint_join[OF that(1,2)] that(3) by (auto simp: nat_semver_def list_all_iff)
  then show ?thesis unfolding semver_laws_def by (auto simp: nat_semver_def)
qed

definition tier2 :: "string \<Rightarrow> string \<Rightarrow> Dependency" where
  "tier2 n c = \<lparr>depName = n, depConstraint = c, depSource = DependencySourceTier2\<rparr>"

definition with_deps :: "string \<Rightarrow> Dependency list \<Rightarrow> Plugin" where
  "with_deps n ds = demo_plugin\<lparr>plMetadata := (plMetadata demo_plugin)\<lparr>mdName := n\<rparr>,
     plSpec := (plSpec demo_plugin)\<lparr>psNeeds := [], psDependencies := ds\<rparr>\<rparr>"

definition demo_entry :: "string \<Rightarrow> string list \<Rightarrow> IndexPlugin \<times> IndexVersion" where
  "demo_entry n vs = (let l = map (\<lambda>v. \<lparr>ivVersion = v, ivTarballURL = [], ivSignatureURL = [], ivSHA256 = [], ivSize = 0, ivReleasedAt = 0\<rparr>) vs
     in (\<lparr>ipName = n, ipDisplayName = [], ipVendor = [], ipCategory = [], ipDisplayCategory = [], ipTags = [], ipDescription = [],
          ipIcon = [], ipHomepage = [], ipVersions = l\<rparr>, hd l))"


end
