(* ===== verification/PluginLifecycle.thy ===== *)
theory PluginLifecycle
  imports PluginResolver PluginUnpack
begin

text \<open>
  \<^verbatim>\<open>internal/plugins/lifecycle.go\<close> with the queries of \<^verbatim>\<open>internal/store/gen/plugins.sql.go\<close>: installing, upgrading
  and removing plugins, composed from the marketplaces, the resolver, the provisioners and the router.

  The state holds the two tables, the mounted routes, the registered directories, the marketplace
  clients and the rest of the world, on which the parameters act: the
  archive formats, the deployer, the files. A query can be made to fail by \<open>pmFault\<close>. The operations run one at a time; an
  operation that does not return, because it panics or waits for a lock for ever, has the value \<open>None\<close>.
\<close>

subsection \<open>State\<close>

definition ErrNotFound :: error where "ErrNotFound = Errorf ''plugins: not found''"
definition ErrAlreadyExists :: error where "ErrAlreadyExists = Errorf ''plugins: already installed''"
definition ErrInvalid :: error where "ErrInvalid = Errorf ''plugins: invalid argument''"
definition ErrHasDependents :: error where "ErrHasDependents = Errorf ''plugins: has dependents''"

definition StatusInstalled :: string where "StatusInstalled = ''installed''"

record plugin_row =
  rwID :: string
  rwName :: string
  rwVersion :: string
  rwManifest :: string
  rwStatus :: string
  rwInstalledAt :: time
  rwUpdatedAt :: time

record ('u, 'w) pstate =
  gsRows :: "plugin_row list"
  gsResources :: "(string \<times> string \<times> string) list"
  gsMounts :: "'u mounts"
  gsUI :: ui_dirs
  gsClients :: clients
  gsSingle :: MarketplaceClient
  gsHost :: 'w

record 'w Deployer =
  dyInstall :: "Plugin \<Rightarrow> 'w \<Rightarrow> error option \<times> 'w"
  dyUninstall :: "string \<Rightarrow> 'w \<Rightarrow> error option \<times> 'w"
  dyRestart :: "string \<Rightarrow> 'w \<Rightarrow> error option \<times> 'w"
  dyLogs :: "string \<Rightarrow> int \<Rightarrow> 'w \<Rightarrow> string list result \<times> 'w"

record ('k, 'c, 'v, 'u, 'w) Manager =
  pmQueries :: bool
  pmFault :: "string \<Rightarrow> error option"
  pmMulti :: "('k, 'w) MultiMarketplaceClient option"
  pmMarketplace :: "'w market_env option"
  pmVerifier :: "Verifier option"
  pmVerifyEnv :: "('k, 'w) verify_env"
  pmProvisioner :: "'w NeedsProvisioner"
  pmRouter :: "('u, 'w) Router option"
  pmUIRoot :: "string option"
  pmDeployer :: "'w Deployer option"
  pmSemver :: "('c, 'v) semver"
  pmYaml :: "string \<Rightarrow> Plugin result"
  pmUntar :: untar
  pmUnpack :: "'w unpack_fs"
  pmRemoveAll :: "string \<Rightarrow> 'w \<Rightarrow> 'w"
  pmMkdirTemp :: "'w \<Rightarrow> string result \<times> 'w"
  pmStat :: "string \<Rightarrow> 'w \<Rightarrow> error option \<times> 'w"
  pmMarshal :: "Plugin \<Rightarrow> string result"
  pmUnmarshal :: "string \<Rightarrow> Plugin \<times> error option"
  pmNewID :: "'w \<Rightarrow> string"
  pmNow :: "'w \<Rightarrow> time"

record UninstallOptions =
  uoPurge :: bool
  uoForce :: bool

record InstallRequest =
  irName :: string
  irVersion :: string
  irMarketplaceID :: string

record Installation =
  inID :: string
  inName :: string
  inVersion :: string
  inManifest :: Plugin
  inStatus :: string
  inInstalledAt :: time
  inUpdatedAt :: time
  inResources :: "(string \<times> string) list"
  inInstalledDeps :: "PlanStep list"

definition on_host :: "('w \<Rightarrow> 'w) \<Rightarrow> ('u, 'w) pstate \<Rightarrow> ('u, 'w) pstate" where
  "on_host f s = s\<lparr>gsHost := f (gsHost s)\<rparr>"

definition run_host :: "('w \<Rightarrow> 'a \<times> 'w) \<Rightarrow> ('u, 'w) pstate \<Rightarrow> 'a \<times> ('u, 'w) pstate" where
  "run_host f s = (case f (gsHost s) of (r, w) \<Rightarrow> (r, s\<lparr>gsHost := w\<rparr>))"

subsection \<open>Queries\<close>

definition GetPluginByName :: "('k, 'c, 'v, 'u, 'w) Manager \<Rightarrow> string \<Rightarrow> ('u, 'w) pstate \<Rightarrow> plugin_row result" where
  "GetPluginByName m name s =
     (case pmFault m ''GetPluginByName'' of
        Some e \<Rightarrow> Inl e
      | None \<Rightarrow> (case find (\<lambda>r. rwName r = name) (gsRows s) of None \<Rightarrow> Inl (Errorf ''no rows in result set'') | Some r \<Rightarrow> Inr r))"

definition installed :: "('k, 'c, 'v, 'u, 'w) Manager \<Rightarrow> string \<Rightarrow> ('u, 'w) pstate \<Rightarrow> bool" where
  "installed m name s = (case GetPluginByName m name s of Inl e \<Rightarrow> False | Inr r \<Rightarrow> True)"

definition ListPlugins :: "('k, 'c, 'v, 'u, 'w) Manager \<Rightarrow> ('u, 'w) pstate \<Rightarrow> plugin_row list result" where
  "ListPlugins m s = (case pmFault m ''ListPlugins'' of Some e \<Rightarrow> Inl e | None \<Rightarrow> Inr (sort_key rwName (gsRows s)))"

definition CreatePlugin ::
    "('k, 'c, 'v, 'u, 'w) Manager \<Rightarrow> string \<Rightarrow> string \<Rightarrow> string \<Rightarrow> ('u, 'w) pstate \<Rightarrow> plugin_row result \<times> ('u, 'w) pstate" where
  "CreatePlugin m name version manifest s =
     (case pmFault m ''CreatePlugin'' of
        Some e \<Rightarrow> (Inl e, s)
      | None \<Rightarrow>
          if name \<in> rwName ` set (gsRows s) \<or> pmNewID m (gsHost s) \<in> rwID ` set (gsRows s)
          then (Inl (Errorf ''duplicate key value violates unique constraint''), s)
          else let t = pmNow m (gsHost s);
                   r = \<lparr>rwID = pmNewID m (gsHost s), rwName = name, rwVersion = version, rwManifest = manifest, rwStatus = StatusInstalled,
                        rwInstalledAt = t, rwUpdatedAt = t\<rparr>
               in (Inr r, s\<lparr>gsRows := gsRows s @ [r]\<rparr>))"

definition UpdatePlugin ::
    "('k, 'c, 'v, 'u, 'w) Manager \<Rightarrow> string \<Rightarrow> string \<Rightarrow> string \<Rightarrow> ('u, 'w) pstate \<Rightarrow> plugin_row result \<times> ('u, 'w) pstate" where
  "UpdatePlugin m name version manifest s =
     (case pmFault m ''UpdatePlugin'' of
        Some e \<Rightarrow> (Inl e, s)
      | None \<Rightarrow>
          (let f = (\<lambda>r. if rwName r = name then r\<lparr>rwVersion := version, rwManifest := manifest, rwStatus := StatusInstalled,
                          rwUpdatedAt := pmNow m (gsHost s)\<rparr> else r);
               s' = s\<lparr>gsRows := map f (gsRows s)\<rparr>
           in case find (\<lambda>r. rwName r = name) (gsRows s') of
                None \<Rightarrow> (Inl (Errorf ''no rows in result set''), s)
              | Some r \<Rightarrow> (Inr r, s')))"

text \<open>Deleting a row deletes its resources with it.\<close>

definition DeletePlugin :: "('k, 'c, 'v, 'u, 'w) Manager \<Rightarrow> string \<Rightarrow> ('u, 'w) pstate \<Rightarrow> error option \<times> ('u, 'w) pstate" where
  "DeletePlugin m name s =
     (case pmFault m ''DeletePlugin'' of
        Some e \<Rightarrow> (Some e, s)
      | None \<Rightarrow>
          (let gone = rwID ` {r \<in> set (gsRows s). rwName r = name}
           in (None, s\<lparr>gsRows := filter (\<lambda>r. rwName r \<noteq> name) (gsRows s), gsResources := filter (\<lambda>x. fst x \<notin> gone) (gsResources s)\<rparr>)))"

definition add_resources :: "('k, 'c, 'v, 'u, 'w) Manager \<Rightarrow> string \<Rightarrow> provisionedResource list \<Rightarrow> ('u, 'w) pstate \<Rightarrow> ('u, 'w) pstate" where
  "add_resources m i resources s =
     (case pmFault m ''AddPluginResource'' of
        Some e \<Rightarrow> s
      | None \<Rightarrow> s\<lparr>gsResources := gsResources s @ map (Pair i) resources\<rparr>)"

definition ListPluginResources :: "('k, 'c, 'v, 'u, 'w) Manager \<Rightarrow> string \<Rightarrow> ('u, 'w) pstate \<Rightarrow> provisionedResource list result" where
  "ListPluginResources m i s =
     (case pmFault m ''ListPluginResources'' of
        Some e \<Rightarrow> Inl e
      | None \<Rightarrow> Inr (map snd (filter (\<lambda>x. fst x = i) (gsResources s))))"

subsection \<open>Fetching\<close>

definition fetchVerifiedTarball ::
    "('k, 'c, 'v, 'u, 'w) Manager \<Rightarrow> string \<Rightarrow> string \<Rightarrow> string \<Rightarrow> ('u, 'w) pstate \<Rightarrow> string result \<times> ('u, 'w) pstate" where
  "fetchVerifiedTarball m name version marketplaceID s =
     (case pmMulti m of
        Some mc \<Rightarrow>
          (case multi_FindVersion mc name version marketplaceID (gsClients s, gsHost s) of
             (Inl e, (cs, w)) \<Rightarrow> (Inl e, s\<lparr>gsClients := cs, gsHost := w\<rparr>)
           | (Inr (p, ver, mp), (cs, w)) \<Rightarrow>
               (case DownloadAndVerify mc (mkID mp) ver (cs, w) of (r, (cs, w)) \<Rightarrow> (r, s\<lparr>gsClients := cs, gsHost := w\<rparr>)))
      | None \<Rightarrow>
          (case pmMarketplace m of
             Some E \<Rightarrow>
               (case FindVersion E name version (gsSingle s) (gsHost s) of
                  (Inl e, c, w) \<Rightarrow> (Inl e, s\<lparr>gsSingle := c, gsHost := w\<rparr>)
                | (Inr (p, ver), c, w) \<Rightarrow>
                    (case DownloadArtifacts E ver w of
                       (Inl e, w) \<Rightarrow> (Inl e, s\<lparr>gsSingle := c, gsHost := w\<rparr>)
                     | (Inr (tb, sig), w) \<Rightarrow>
                         (case pmVerifier m of
                            None \<Rightarrow> (Inr tb, s\<lparr>gsSingle := c, gsHost := w\<rparr>)
                          | Some v \<Rightarrow>
                              (case Verify (pmVerifyEnv m) (Some v) tb sig w of
                                 (Some e, w) \<Rightarrow> (Inl (Wrapf ''plugins: signature: %w'' e), s\<lparr>gsSingle := c, gsHost := w\<rparr>)
                               | (None, w) \<Rightarrow> (Inr tb, s\<lparr>gsSingle := c, gsHost := w\<rparr>)))))
           | None \<Rightarrow> (Inl (Errorf ''plugins: marketplace not configured''), s)))"

definition plugins_root :: "('k, 'c, 'v, 'u, 'w) Manager \<Rightarrow> string" where
  "plugins_root m = (case pmUIRoot m of Some r \<Rightarrow> if r \<noteq> [] then r else DefaultPluginsRoot | None \<Rightarrow> DefaultPluginsRoot)"

definition destDir :: "('k, 'c, 'v, 'u, 'w) Manager \<Rightarrow> string \<Rightarrow> string" where
  "destDir m name = path_Join [plugins_root m, name]"

definition remove_dir :: "('k, 'c, 'v, 'u, 'w) Manager \<Rightarrow> string \<Rightarrow> ('u, 'w) pstate \<Rightarrow> ('u, 'w) pstate" where
  "remove_dir m name = on_host (pmRemoveAll m (destDir m name))"

definition release :: "('k, 'c, 'v, 'u, 'w) Manager \<Rightarrow> string \<Rightarrow> provisionedResource list \<Rightarrow> ('u, 'w) pstate \<Rightarrow> ('u, 'w) pstate" where
  "release m name resources = on_host (\<lambda>w. snd (rollbackNeeds (pmProvisioner m) name resources w))"

text \<open>What is left to do with the bytes of the manifest in the unpacked directory.\<close>

definition provision_manifest ::
    "('k, 'c, 'v, 'u, 'w) Manager \<Rightarrow> string \<Rightarrow> string \<Rightarrow> string \<Rightarrow> ('u, 'w) pstate \<Rightarrow>
     ((Plugin \<times> string \<times> provisionedResource list) result \<times> ('u, 'w) pstate) option" where
  "provision_manifest m name manifestBytes uiDir s =
     (case ParseManifest (pmSemver m) (pmYaml m) manifestBytes of
        Inl e \<Rightarrow> Some (Inl e, remove_dir m name s)
      | Inr manifest \<Rightarrow>
          if plName manifest \<noteq> name then Some (Inl (Errorf ''plugins: manifest name %q != requested %q''), remove_dir m name s)
          else (case runNeeds (pmProvisioner m) name (psNeeds (plSpec manifest)) (gsHost s) of
                  None \<Rightarrow> None
                | Some ((resources, Some e), w) \<Rightarrow>
                    Some (Inl (Wrapf ''plugins: needs: %w'' e), remove_dir m name (s\<lparr>gsHost := w\<rparr>))
                | Some ((resources, None), w) \<Rightarrow> Some (Inr (manifest, uiDir, resources), s\<lparr>gsHost := w\<rparr>)))"

definition fetchVerifyUnpackProvision ::
    "('k, 'c, 'v, 'u, 'w) Manager \<Rightarrow> string \<Rightarrow> string \<Rightarrow> string \<Rightarrow> ('u, 'w) pstate \<Rightarrow>
     ((Plugin \<times> string \<times> provisionedResource list) result \<times> ('u, 'w) pstate) option" where
  "fetchVerifyUnpackProvision m name version marketplaceID s =
     (case fetchVerifiedTarball m name version marketplaceID s of
        (Inl e, s) \<Rightarrow> Some (Inl e, s)
      | (Inr tarball, s) \<Rightarrow>
          (case run_host (ExtractTarball (pmUntar m) (pmUnpack m) tarball (destDir m name)) (remove_dir m name s) of
             (Inl e, s) \<Rightarrow> Some (Inl e, s)
           | (Inr (manifestBytes, uiDir), s) \<Rightarrow> provision_manifest m name manifestBytes uiDir s))"


subsection \<open>Planning\<close>

definition installedLookup :: "('k, 'c, 'v, 'u, 'w) Manager \<Rightarrow> ('u, 'w) pstate InstalledLookup" where
  "installedLookup m name s =
     (if \<not> pmQueries m then (Inr None, s)
      else (case GetPluginByName m name s of Inl e \<Rightarrow> Inr None | Inr r \<Rightarrow> Inr (Some (rwVersion r)), s))"

definition dependencyLookup :: "('k, 'c, 'v, 'u, 'w) Manager \<Rightarrow> ('u, 'w) pstate DependencyLookup option" where
  "dependencyLookup m =
     (case pmMulti m of
        Some mc \<Rightarrow> Some (\<lambda>name version s.
          (case multi_FindVersion mc name version [] (gsClients s, gsHost s) of
             (r, (cs, w)) \<Rightarrow> (bindE r (\<lambda>(p, v, mp). Inr (p, v)), s\<lparr>gsClients := cs, gsHost := w\<rparr>)))
      | None \<Rightarrow>
          (case pmMarketplace m of
             Some E \<Rightarrow> Some (\<lambda>name version s.
               (case FindVersion E name version (gsSingle s) (gsHost s) of (r, c, w) \<Rightarrow> (r, s\<lparr>gsSingle := c, gsHost := w\<rparr>)))
           | None \<Rightarrow> None))"

definition mgr_Resolver :: "('k, 'c, 'v, 'u, 'w) Manager \<Rightarrow> ('c, 'v, ('u, 'w) pstate) Resolver" where
  "mgr_Resolver m = NewResolver (pmSemver m) (dependencyLookup m) (Some (installedLookup m))"

text \<open>Fetch a package, unpack it into a temporary directory, use its manifest, and remove the directory.\<close>

definition with_manifest ::
    "('k, 'c, 'v, 'u, 'w) Manager \<Rightarrow> string \<Rightarrow> string \<Rightarrow> string \<Rightarrow> (Plugin \<Rightarrow> ('u, 'w) pstate \<Rightarrow> 'a result \<times> ('u, 'w) pstate) \<Rightarrow>
     ('u, 'w) pstate \<Rightarrow> 'a result \<times> ('u, 'w) pstate" where
  "with_manifest m name version marketplaceID k s =
     (case fetchVerifiedTarball m name version marketplaceID s of
        (Inl e, s) \<Rightarrow> (Inl e, s)
      | (Inr tarball, s) \<Rightarrow>
          (case run_host (pmMkdirTemp m) s of
             (Inl e, s) \<Rightarrow> (Inl e, s)
           | (Inr tmp, s) \<Rightarrow>
               (case (case run_host (ExtractTarball (pmUntar m) (pmUnpack m) tarball tmp) s of
                        (Inl e, s) \<Rightarrow> (Inl e, s)
                      | (Inr (manifestBytes, uiDir), s) \<Rightarrow>
                          (case ParseManifest (pmSemver m) (pmYaml m) manifestBytes of
                             Inl e \<Rightarrow> (Inl e, s)
                           | Inr manifest \<Rightarrow> k manifest s)) of
                  (r, s) \<Rightarrow> (r, on_host (pmRemoveAll m tmp) s))))"

definition planInstall ::
    "('k, 'c, 'v, 'u, 'w) Manager \<Rightarrow> string \<Rightarrow> string \<Rightarrow> string \<Rightarrow> ('u, 'w) pstate \<Rightarrow> (PlanStep list \<times> Plugin) result \<times> ('u, 'w) pstate" where
  "planInstall m name version marketplaceID =
     with_manifest m name version marketplaceID (\<lambda>manifest s.
       (case Plan (mgr_Resolver m) (Some manifest) s of (r, s) \<Rightarrow> (bindE r (\<lambda>plan. Inr (plan, manifest)), s)))"

definition ManifestForPlanning ::
    "('k, 'c, 'v, 'u, 'w) Manager \<Rightarrow> string \<Rightarrow> string \<Rightarrow> ('u, 'w) pstate \<Rightarrow> Plugin result \<times> ('u, 'w) pstate" where
  "ManifestForPlanning m name version = with_manifest m name version [] (\<lambda>manifest s. (Inr manifest, s))"

subsection \<open>Installing\<close>

definition toInstallation :: "plugin_row \<Rightarrow> Plugin \<Rightarrow> provisionedResource list \<Rightarrow> Installation" where
  "toInstallation row manifest resources =
     \<lparr>inID = rwID row, inName = rwName row, inVersion = rwVersion row, inManifest = manifest, inStatus = rwStatus row,
      inInstalledAt = rwInstalledAt row, inUpdatedAt = rwUpdatedAt row, inResources = resources, inInstalledDeps = []\<rparr>"

definition mount_plugin :: "('k, 'c, 'v, 'u, 'w) Manager \<Rightarrow> string \<Rightarrow> Plugin \<Rightarrow> ('u, 'w) pstate \<Rightarrow> ('u, 'w) pstate" where
  "mount_plugin m name manifest s =
     (case pmRouter m of
        None \<Rightarrow> s
      | Some rt \<Rightarrow> if psRoutes (plSpec manifest) = [] then s else s\<lparr>gsMounts := snd (Mount rt name (psRoutes (plSpec manifest)) (gsMounts s))\<rparr>)"

definition register_ui :: "('k, 'c, 'v, 'u, 'w) Manager \<Rightarrow> string \<Rightarrow> string \<Rightarrow> ('u, 'w) pstate \<Rightarrow> ('u, 'w) pstate" where
  "register_ui m name uiDir s =
     (if pmUIRoot m \<noteq> None \<and> uiDir \<noteq> [] then s\<lparr>gsUI := Register name uiDir (gsUI s)\<rparr> else s)"

definition unmount_plugin :: "('k, 'c, 'v, 'u, 'w) Manager \<Rightarrow> string \<Rightarrow> ('u, 'w) pstate \<Rightarrow> ('u, 'w) pstate" where
  "unmount_plugin m name s =
     (let s = (if pmRouter m \<noteq> None then s\<lparr>gsMounts := Unmount name (gsMounts s)\<rparr> else s)
      in if pmUIRoot m \<noteq> None then s\<lparr>gsUI := Deregister name (gsUI s)\<rparr> else s)"

text \<open>From the row on: ledger, routes, user interface, deployment.\<close>

definition activate ::
    "('k, 'c, 'v, 'u, 'w) Manager \<Rightarrow> string \<Rightarrow> Plugin \<Rightarrow> string \<Rightarrow> provisionedResource list \<Rightarrow> plugin_row \<Rightarrow> ('u, 'w) pstate \<Rightarrow>
     error option \<times> ('u, 'w) pstate" where
  "activate m name manifest uiDir resources row s =
     (let s = register_ui m name uiDir (mount_plugin m name manifest (add_resources m (rwID row) resources s))
      in case pmDeployer m of
           None \<Rightarrow> (None, s)
         | Some d \<Rightarrow>
             (case run_host (dyInstall d manifest) s of
                (None, s) \<Rightarrow> (None, s)
              | (Some e, s) \<Rightarrow>
                  (Some (Wrapf ''plugins: deploy: %w'' e),
                   remove_dir m name (release m name resources (snd (DeletePlugin m name (unmount_plugin m name s)))))))"

definition install_root ::
    "('k, 'c, 'v, 'u, 'w) Manager \<Rightarrow> InstallRequest \<Rightarrow> PlanStep list \<Rightarrow> ('u, 'w) pstate \<Rightarrow> (Installation result \<times> ('u, 'w) pstate) option" where
  "install_root m req plan s =
     (let name = irName req
      in case fetchVerifyUnpackProvision m name (irVersion req) (irMarketplaceID req) s of
           None \<Rightarrow> None
         | Some (Inl e, s) \<Rightarrow> Some (Inl e, s)
         | Some (Inr (manifest, uiDir, resources), s) \<Rightarrow>
             (case pmMarshal m manifest of
                Inl e \<Rightarrow> Some (Inl e, remove_dir m name (release m name resources s))
              | Inr manifestJSON \<Rightarrow>
                  (case CreatePlugin m name (mdVersion (plMetadata manifest)) manifestJSON s of
                     (Inl e, s) \<Rightarrow> Some (Inl (Wrapf ''plugins: persist: %w'' e), remove_dir m name (release m name resources s))
                   | (Inr row, s) \<Rightarrow>
                       (case activate m name manifest uiDir resources row s of
                          (Some e, s) \<Rightarrow> Some (Inl e, s)
                        | (None, s) \<Rightarrow>
                            Some (Inr ((toInstallation row manifest resources)
                                    \<lparr>inInstalledDeps := filter (\<lambda>st. plsName st \<noteq> name) plan\<rparr>), s)))))"

fun deps_loop ::
    "(InstallRequest \<Rightarrow> ('u, 'w) pstate \<Rightarrow> (Installation result \<times> ('u, 'w) pstate) option) \<Rightarrow> ('k, 'c, 'v, 'u, 'w) Manager \<Rightarrow>
     InstallRequest \<Rightarrow> PlanStep list \<Rightarrow> ('u, 'w) pstate \<Rightarrow> (error option \<times> ('u, 'w) pstate) option" where
  "deps_loop inst m req [] s = Some (None, s)"
| "deps_loop inst m req (step # steps) s =
     (if plsName step = irName req \<or> plsAction step \<noteq> PlanActionInstall \<or> installed m (plsName step) s
      then deps_loop inst m req steps s
      else Option.bind (inst \<lparr>irName = plsName step, irVersion = plsVersion step, irMarketplaceID = irMarketplaceID req\<rparr> s)
             (\<lambda>x. case fst x of
                Inl e \<Rightarrow> Some (Some (Wrapf ''plugins: install dependency %q for %q: %w'' e), snd x)
              | Inr i \<Rightarrow> deps_loop inst m req steps (snd x)))"

lemma deps_loop_mono [partial_function_mono]:
  assumes "\<And>r s. mono_option (\<lambda>f. B f r s)"
  shows "mono_option (\<lambda>f. deps_loop (B f) m req steps s)"
proof (induction steps arbitrary: s)
  case (Cons step steps)
  have "mono_option (\<lambda>f. case fst x of
      Inl e \<Rightarrow> Some (Some (Wrapf ''plugins: install dependency %q for %q: %w'' e), snd x)
    | Inr i \<Rightarrow> deps_loop (B f) m req steps (snd x))" for x :: "Installation result \<times> ('a, 'b) pstate"
    by (cases "fst x") (simp_all add: Cons.IH option.const_mono)
  then show ?case by (simp only: deps_loop.simps) (intro partial_function_mono assms Cons.IH)
qed (simp add: option.const_mono)

text \<open>
  \<open>held\<close> are the names whose lock the calling goroutine has taken: the locks are not reentrant, so a call for
  one of them waits for itself.
\<close>

partial_function (option) Install ::
    "('k, 'c, 'v, 'u, 'w) Manager \<Rightarrow> string set \<Rightarrow> InstallRequest \<Rightarrow> ('u, 'w) pstate \<Rightarrow> (Installation result \<times> ('u, 'w) pstate) option" where
  "Install m held req s =
     (if irName req = [] then Some (Inl (Wrapf ''%w: name is required'' ErrInvalid), s)
      else if \<not> pmQueries m then Some (Inl (Errorf ''plugins: store not configured''), s)
      else if irName req \<in> held then None
      else if installed m (irName req) s then Some (Inl ErrAlreadyExists, s)
      else case planInstall m (irName req) (irVersion req) (irMarketplaceID req) s of
             (Inl e, s) \<Rightarrow> Some (Inl e, s)
           | (Inr (plan, manifest), s) \<Rightarrow>
               Option.bind (deps_loop (Install m (insert (irName req) held)) m req plan s)
                 (\<lambda>x. case fst x of
                    Some e \<Rightarrow> Some (Inl e, snd x)
                  | None \<Rightarrow> install_root m req plan (snd x)))"

declare Install.simps [code]

subsection \<open>The other operations\<close>

definition depends_on :: "string \<Rightarrow> Plugin \<Rightarrow> bool" where
  "depends_on name p \<longleftrightarrow> list_ex (\<lambda>d. depSource d = DependencySourceTier2 \<and> depName d = name) (psDependencies (plSpec p))"

definition dependentsOf :: "('k, 'c, 'v, 'u, 'w) Manager \<Rightarrow> string \<Rightarrow> ('u, 'w) pstate \<Rightarrow> string list result" where
  "dependentsOf m name s =
     (if \<not> pmQueries m then Inr []
      else bindE (ListPlugins m s) (\<lambda>rows.
        Inr (map rwName (filter (\<lambda>r. rwName r \<noteq> name \<and>
          (case pmUnmarshal m (rwManifest r) of (p, None) \<Rightarrow> depends_on name p | (p, Some e) \<Rightarrow> False)) rows))))"

text \<open>The error that lists the dependents unwraps to \<open>ErrHasDependents\<close>.\<close>

definition DependentsError :: "string \<Rightarrow> string list \<Rightarrow> error" where
  "DependentsError name blockedBy = Wrapf (''plugins: %q has dependents: '' @ Join blockedBy '', '') ErrHasDependents"

definition purge_resources :: "('k, 'c, 'v, 'u, 'w) Manager \<Rightarrow> string \<Rightarrow> plugin_row \<Rightarrow> ('u, 'w) pstate \<Rightarrow> ('u, 'w) pstate" where
  "purge_resources m name row s =
     (case ListPluginResources m (rwID row) s of Inl e \<Rightarrow> s | Inr resources \<Rightarrow> release m name resources s)"

definition Uninstall ::
    "('k, 'c, 'v, 'u, 'w) Manager \<Rightarrow> string \<Rightarrow> UninstallOptions \<Rightarrow> ('u, 'w) pstate \<Rightarrow> error option \<times> ('u, 'w) pstate" where
  "Uninstall m name opts s =
     (if \<not> pmQueries m then (Some (Errorf ''plugins: store not configured''), s)
      else case GetPluginByName m name s of
        Inl e \<Rightarrow> (Some ErrNotFound, s)
      | Inr row \<Rightarrow>
          (let dependents = (case dependentsOf m name s of Inl e \<Rightarrow> [] | Inr ds \<Rightarrow> ds)
           in if dependents \<noteq> [] \<and> \<not> uoForce opts then (Some (DependentsError name dependents), s)
              else let s = (case pmDeployer m of None \<Rightarrow> s | Some d \<Rightarrow> snd (run_host (dyUninstall d name) s));
                       s = unmount_plugin m name s;
                       s = (if uoPurge opts then purge_resources m name row s else s);
                       s = (case pmUIRoot m of None \<Rightarrow> s | Some root \<Rightarrow> on_host (pmRemoveAll m (PluginRootFor root name)) s)
                   in (case DeletePlugin m name s of (e, s) \<Rightarrow> (wrap_err ''plugins: db delete: %w'' e, s))))"

definition Upgrade ::
    "('k, 'c, 'v, 'u, 'w) Manager \<Rightarrow> string \<Rightarrow> string \<Rightarrow> ('u, 'w) pstate \<Rightarrow> (Installation result \<times> ('u, 'w) pstate) option" where
  "Upgrade m name version s =
     (if \<not> pmQueries m then Some (Inl (Errorf ''plugins: store not configured''), s)
      else if \<not> installed m name s then Some (Inl ErrNotFound, s)
      else case fetchVerifyUnpackProvision m name version [] s of
        None \<Rightarrow> None
      | Some (Inl e, s) \<Rightarrow> Some (Inl e, s)
      | Some (Inr (manifest, uiDir, resources), s) \<Rightarrow>
          (case pmMarshal m manifest of
             Inl e \<Rightarrow> Some (Inl e, remove_dir m name s)
           | Inr manifestJSON \<Rightarrow>
               (case UpdatePlugin m name (mdVersion (plMetadata manifest)) manifestJSON s of
                  (Inl e, s) \<Rightarrow> Some (Inl (Wrapf ''plugins: persist: %w'' e), remove_dir m name s)
                | (Inr row, s) \<Rightarrow>
                    (let s = register_ui m name uiDir (mount_plugin m name manifest (add_resources m (rwID row) resources s));
                         s = (case pmDeployer m of None \<Rightarrow> s | Some d \<Rightarrow> snd (run_host (dyInstall d manifest) s))
                     in Some (Inr (toInstallation row manifest []), s)))))"

text \<open>What \<open>json.Unmarshal\<close> left in the manifest is shown, also after an error.\<close>

definition List_plugins :: "('k, 'c, 'v, 'u, 'w) Manager \<Rightarrow> ('u, 'w) pstate \<Rightarrow> Installation list result" where
  "List_plugins m s =
     (if \<not> pmQueries m then Inr []
      else bindE (ListPlugins m s) (\<lambda>rows. Inr (map (\<lambda>r. toInstallation r (fst (pmUnmarshal m (rwManifest r))) []) rows)))"

definition Get_plugin :: "('k, 'c, 'v, 'u, 'w) Manager \<Rightarrow> string \<Rightarrow> ('u, 'w) pstate \<Rightarrow> Installation result" where
  "Get_plugin m name s =
     (if \<not> pmQueries m then Inl ErrNotFound
      else case GetPluginByName m name s of
        Inl e \<Rightarrow> Inl ErrNotFound
      | Inr row \<Rightarrow> Inr (toInstallation row (fst (pmUnmarshal m (rwManifest row)))
          (case ListPluginResources m (rwID row) s of Inl e \<Rightarrow> [] | Inr rs \<Rightarrow> rs)))"

definition Restart :: "('k, 'c, 'v, 'u, 'w) Manager \<Rightarrow> string \<Rightarrow> ('u, 'w) pstate \<Rightarrow> error option \<times> ('u, 'w) pstate" where
  "Restart m name s =
     (if \<not> pmQueries m \<or> \<not> installed m name s then (Some ErrNotFound, s)
      else case pmDeployer m of
        None \<Rightarrow> (Some (Errorf ''plugins: restart: no deployer configured''), s)
      | Some d \<Rightarrow> run_host (dyRestart d name) s)"

definition Logs :: "('k, 'c, 'v, 'u, 'w) Manager \<Rightarrow> string \<Rightarrow> int \<Rightarrow> ('u, 'w) pstate \<Rightarrow> string list result \<times> ('u, 'w) pstate" where
  "Logs m name lines s =
     (if \<not> pmQueries m \<or> \<not> installed m name s then (Inl ErrNotFound, s)
      else case pmDeployer m of
        None \<Rightarrow> (Inl (Errorf ''plugins: logs: no deployer configured''), s)
      | Some d \<Rightarrow> run_host (dyLogs d name lines) s)"

definition restore_row :: "('k, 'c, 'v, 'u, 'w) Manager \<Rightarrow> plugin_row \<Rightarrow> ('u, 'w) pstate \<Rightarrow> ('u, 'w) pstate" where
  "restore_row m row s =
     (case pmUnmarshal m (rwManifest row) of
        (manifest, Some e) \<Rightarrow> s
      | (manifest, None) \<Rightarrow>
          (let s = mount_plugin m (rwName row) manifest s
           in case pmUIRoot m of
                None \<Rightarrow> s
              | Some root \<Rightarrow>
                  (let uiDir = path_Join [PluginRootFor root (rwName row), ''ui'']
                   in case run_host (pmStat m uiDir) s of
                        (None, s) \<Rightarrow> s\<lparr>gsUI := Register (rwName row) uiDir (gsUI s)\<rparr>
                      | (Some e, s) \<Rightarrow> s)))"

definition RestoreAtStartup :: "('k, 'c, 'v, 'u, 'w) Manager \<Rightarrow> ('u, 'w) pstate \<Rightarrow> ('u, 'w) pstate" where
  "RestoreAtStartup m s =
     (if \<not> pmQueries m then s else case ListPlugins m s of Inl e \<Rightarrow> s | Inr rows \<Rightarrow> fold (restore_row m) rows s)"

end
