(* ===== verification/PluginTables.thy ===== *)
theory PluginTables
  imports PluginLifecycle
begin

text \<open>
  What the operations of \<^verbatim>\<open>internal/plugins/lifecycle.go\<close> keep: the rows of the two tables, the mounted routes and the
  registered directories agree after every operation, a failed installation leaves no plugin behind, what is installed
  was signed; and two ways in which an operation fails its caller: plugins that depend on each other, and failed upgrades.
\<close>

subsection \<open>What fetching and planning leave alone\<close>

text \<open>The tables, the routes and the directories are the same in both states.\<close>

definition same_tables :: "('u, 'w) pstate \<Rightarrow> ('u, 'w) pstate \<Rightarrow> bool" where
  "same_tables s s' \<longleftrightarrow> gsRows s' = gsRows s \<and> gsResources s' = gsResources s \<and> gsMounts s' = gsMounts s \<and> gsUI s' = gsUI s"

named_theorems tables_same

lemma same_tables_refl [simp, intro]: "same_tables s s"
  by (simp add: same_tables_def)

lemma same_tables_trans: "same_tables a b \<Longrightarrow> same_tables b c \<Longrightarrow> same_tables a c"
  by (simp add: same_tables_def)

lemma same_tables_updates [simp]:
  "same_tables s (t\<lparr>gsHost := w\<rparr>) = same_tables s t" "same_tables s (t\<lparr>gsClients := cs\<rparr>) = same_tables s t"
  "same_tables s (t\<lparr>gsSingle := c\<rparr>) = same_tables s t"
  by (simp_all add: same_tables_def)

lemma same_tables_host [simp]:
  "same_tables s (on_host f t) = same_tables s t" "same_tables s (remove_dir m name t) = same_tables s t"
  "same_tables s (release m name rs t) = same_tables s t" "same_tables s (snd (run_host g t)) = same_tables s t"
  by (simp_all add: on_host_def remove_dir_def release_def run_host_def split: prod.splits)

lemma run_host_tables [tables_same]: "run_host g t = (r, s') \<Longrightarrow> same_tables s s' = same_tables s t"
  using same_tables_host(4)[of s g t] by simp

lemma fetchVerifiedTarball_tables [tables_same]: "fetchVerifiedTarball m name v i s = (r, s') \<Longrightarrow> same_tables s s'"
  by (auto simp: fetchVerifiedTarball_def split: option.splits prod.splits sum.splits)

lemma provision_manifest_tables [tables_same]:
  "provision_manifest m name b ui s = Some (r, s') \<Longrightarrow> same_tables s s'"
  by (auto simp: provision_manifest_def split: option.splits prod.splits sum.splits if_splits)

lemma fetchVerifyUnpackProvision_tables [tables_same]:
  assumes "fetchVerifyUnpackProvision m name v i s = Some (r, s')"
  shows "same_tables s s'"
proof -
  obtain t s1 where 1: "fetchVerifiedTarball m name v i s = (t, s1)" by (cases "fetchVerifiedTarball m name v i s")
  show ?thesis
  proof (cases t)
    case (Inl e)
    then show ?thesis using assms 1 fetchVerifiedTarball_tables[OF 1] by (simp add: fetchVerifyUnpackProvision_def)
  next
    case (Inr tb)
    obtain x s2 where 2: "run_host (ExtractTarball (pmUntar m) (pmUnpack m) tb (destDir m name)) (remove_dir m name s1) = (x, s2)"
      by (cases "run_host (ExtractTarball (pmUntar m) (pmUnpack m) tb (destDir m name)) (remove_dir m name s1)")
    have "same_tables s s2" using fetchVerifiedTarball_tables[OF 1] run_host_tables[OF 2, of s] by simp
    then show ?thesis using assms 1 2 Inr
      by (cases x) (auto simp: fetchVerifyUnpackProvision_def dest: provision_manifest_tables same_tables_trans)
  qed
qed

lemma lookups_tables:
  "installedLookup m name s = (r, s') \<Longrightarrow> s' = s"
  "dependencyLookup m = Some f \<Longrightarrow> f name v s = (r', s') \<Longrightarrow> same_tables s s'"
  by (auto simp: installedLookup_def dependencyLookup_def split: if_splits option.splits prod.splits)

lemma walk_dep_tables:
  assumes "walk_dep (mgr_Resolver m) p dep st s = (r, s')"
  shows "same_tables s s'"
proof -
  have k: "walk_market (mgr_Resolver m) dep st s1 = (r, s') \<Longrightarrow> same_tables s1 s'" for st s1
    by (auto simp: walk_market_def mgr_Resolver_def NewResolver_def dest: lookups_tables(2) split: option.splits prod.splits sum.splits)
  show ?thesis using assms k
    by (auto simp: walk_dep_def Let_def mgr_Resolver_def NewResolver_def dest!: lookups_tables(1)
        split: if_splits prod.splits sum.splits option.splits)
qed

lemma walk_deps_tables: "walk_deps (mgr_Resolver m) p deps st s = (r, s') \<Longrightarrow> same_tables s s'"
proof (induction deps arbitrary: st s)
  case (Cons d deps)
  obtain x s1 where 1: "walk_dep (mgr_Resolver m) p d st s = (x, s1)" by (cases "walk_dep (mgr_Resolver m) p d st s")
  note walk_dep_tables[OF 1]
  then show ?case using Cons 1 by (cases x) (auto intro: same_tables_trans)
qed simp

lemma Plan_tables [tables_same]: "Plan (mgr_Resolver m) p s = (r, s') \<Longrightarrow> same_tables s s'"
  by (auto simp: Plan_def walk_def dest: walk_deps_tables split: option.splits prod.splits sum.splits if_splits)

lemma with_manifest_tables:
  assumes k: "\<And>p s r s'. k p s = (r, s') \<Longrightarrow> same_tables s s'" and w: "with_manifest m name v i k s = (r, s')"
  shows "same_tables s s'"
proof -
  obtain t s1 where 1: "fetchVerifiedTarball m name v i s = (t, s1)" by (cases "fetchVerifiedTarball m name v i s")
  have s1: "same_tables s s1" using fetchVerifiedTarball_tables[OF 1] .
  obtain d s2 where 2: "run_host (pmMkdirTemp m) s1 = (d, s2)" by (cases "run_host (pmMkdirTemp m) s1")
  have s2: "same_tables s s2" using s1 run_host_tables[OF 2] by simp
  show ?thesis
  proof (cases "isl t \<or> isl d")
    case True
    then show ?thesis using w 1 2 s1 s2 by (cases t; cases d) (auto simp: with_manifest_def)
  next
    case False
    then obtain tb tmp where td: "t = Inr tb" "d = Inr tmp" by (cases t; cases d) auto
    obtain x s3 where 3: "run_host (ExtractTarball (pmUntar m) (pmUnpack m) tb tmp) s2 = (x, s3)"
      by (cases "run_host (ExtractTarball (pmUntar m) (pmUnpack m) tb tmp) s2")
    have s3: "same_tables s s3" using s2 run_host_tables[OF 3] by simp
    then show ?thesis using w 1 2 3 td
      by (auto simp: with_manifest_def dest!: k intro: same_tables_trans split: prod.splits sum.splits)
  qed
qed

lemma planInstall_tables [tables_same]: "planInstall m name v i s = (r, s') \<Longrightarrow> same_tables s s'"
  unfolding planInstall_def
  by (erule with_manifest_tables[rotated]) (auto dest: Plan_tables split: prod.splits)

subsection \<open>The tables, the routes and the directories agree\<close>

abbreviation names :: "('u, 'w) pstate \<Rightarrow> string set" where
  "names s \<equiv> rwName ` set (gsRows s)"

definition tables_ok :: "('u, 'w) pstate \<Rightarrow> bool" where
  "tables_ok s \<longleftrightarrow> distinct (map rwName (gsRows s)) \<and> distinct (map rwID (gsRows s)) \<and>
     list_all (\<lambda>x. fst x \<in> rwID ` set (gsRows s)) (gsResources s) \<and>
     dom (gsMounts s) \<subseteq> names s \<and> dom (gsUI s) \<subseteq> names s"

lemma same_tables_ok: "same_tables s s' \<Longrightarrow> tables_ok s \<Longrightarrow> tables_ok s'"
  by (simp add: same_tables_def tables_ok_def)

lemma same_tables_ok_iff: "same_tables s s' \<Longrightarrow> tables_ok s' = tables_ok s"
  by (simp add: same_tables_def tables_ok_def)

lemma GetPluginByName_found:
  "GetPluginByName m name s = Inr r \<Longrightarrow> r \<in> set (gsRows s) \<and> rwName r = name"
  by (auto simp: GetPluginByName_def find_Some_iff split: option.splits)

lemma installed_names: "installed m name s \<Longrightarrow> name \<in> names s"
  by (auto simp: installed_def dest!: GetPluginByName_found split: sum.splits)

lemma not_installed_names: "\<not> installed m name s \<Longrightarrow> pmFault m ''GetPluginByName'' = None \<Longrightarrow> name \<notin> names s"
  by (auto simp: installed_def GetPluginByName_def find_None_iff split: option.splits)

lemma same_installed: "same_tables s s' \<Longrightarrow> installed m name s' = installed m name s"
  by (simp add: installed_def GetPluginByName_def same_tables_def split: option.splits)

lemma CreatePlugin_ok:
  assumes "CreatePlugin m name v j s = (r, s')" and "tables_ok s"
  shows "tables_ok s' \<and> (case r of Inl e \<Rightarrow> s' = s
    | Inr row \<Rightarrow> s' = s\<lparr>gsRows := gsRows s @ [row]\<rparr> \<and> rwName row = name \<and> name \<notin> names s)"
proof (cases r)
  case (Inl e)
  then show ?thesis using assms by (auto simp: CreatePlugin_def Let_def split: option.splits if_splits)
next
  case (Inr row)
  then have *: "s' = s\<lparr>gsRows := gsRows s @ [row]\<rparr>" "rwName row = name" "name \<notin> names s" "rwID row \<notin> rwID ` set (gsRows s)"
    using assms(1) by (auto simp: CreatePlugin_def Let_def split: option.splits if_splits)
  have "tables_ok s'" unfolding *(1) using assms(2) *(2-4) by (auto simp: tables_ok_def list_all_iff)
  then show ?thesis using Inr * by simp
qed

lemma add_resources_ok: "tables_ok s \<Longrightarrow> i \<in> rwID ` set (gsRows s) \<Longrightarrow> tables_ok (add_resources m i rs s)"
  by (auto simp: add_resources_def tables_ok_def list_all_iff split: option.splits)

lemma mount_plugin_ok: "tables_ok s \<Longrightarrow> name \<in> names s \<Longrightarrow> tables_ok (mount_plugin m name p s)"
  by (auto simp: mount_plugin_def Mount_def tables_ok_def split: option.splits sum.splits)

lemma register_ui_ok: "tables_ok s \<Longrightarrow> name \<in> names s \<Longrightarrow> tables_ok (register_ui m name d s)"
  by (auto simp: register_ui_def Register_def tables_ok_def split: if_splits)

lemma unmount_plugin_ok: "tables_ok s \<Longrightarrow> tables_ok (unmount_plugin m name s)"
  by (auto simp: unmount_plugin_def Unmount_def Deregister_def Register_def tables_ok_def Let_def split: if_splits)

lemma activation_rows [simp]:
  "gsRows (add_resources m i rs s) = gsRows s" "gsRows (mount_plugin m name p s) = gsRows s"
  "gsRows (register_ui m name d s) = gsRows s" "gsRows (unmount_plugin m name s) = gsRows s"
  by (simp_all add: add_resources_def mount_plugin_def register_ui_def unmount_plugin_def Let_def split: option.splits)

lemma DeletePlugin_ok:
  assumes "tables_ok s" and "gsMounts s name = None" and "gsUI s name = None"
  shows "tables_ok (snd (DeletePlugin m name s))"
proof -
  have "inj_on rwID (set (gsRows s))" using assms(1) by (simp add: tables_ok_def distinct_map)
  then have i: "x \<notin> rwID ` {r \<in> set (gsRows s). rwName r = name} \<Longrightarrow> x \<in> rwID ` set (gsRows s) \<Longrightarrow>
      x \<in> rwID ` {r \<in> set (gsRows s). rwName r \<noteq> name}" for x by auto
  have d: "dom f \<subseteq> rwName ` {r \<in> set (gsRows s). rwName r \<noteq> name}" if "dom f \<subseteq> names s" "f name = None" for f :: "string \<rightharpoonup> 'x"
    using that by (fastforce simp: dom_def)
  show ?thesis using assms i d[of "gsUI s"] d[of "gsMounts s"]
    by (auto simp: DeletePlugin_def tables_ok_def Let_def list_all_iff distinct_map_filter split: option.splits)
qed

text \<open>Routes and directories exist only where the manager has a router and a root for them.\<close>

definition fits :: "('k, 'c, 'v, 'u, 'w) Manager \<Rightarrow> ('u, 'w) pstate \<Rightarrow> bool" where
  "fits m s \<longleftrightarrow> (pmRouter m = None \<longrightarrow> gsMounts s = Map.empty) \<and> (pmUIRoot m = None \<longrightarrow> gsUI s = Map.empty)"

lemma unmount_plugin_gone:
  "fits m s \<Longrightarrow> gsMounts (unmount_plugin m name s) name = None \<and> gsUI (unmount_plugin m name s) name = None"
  by (simp add: fits_def unmount_plugin_def Unmount_def Deregister_def Register_def Let_def)

lemma fits_intros [simp, intro]:
  "fits m s \<Longrightarrow> fits m (add_resources m i rs s)" "fits m s \<Longrightarrow> fits m (mount_plugin m name p s)"
  "fits m s \<Longrightarrow> fits m (register_ui m name d s)" "fits m s \<Longrightarrow> fits m (unmount_plugin m name s)"
  "fits m s \<Longrightarrow> fits m (snd (DeletePlugin m name s))" "fits m s \<Longrightarrow> fits m (s\<lparr>gsRows := rows\<rparr>)"
  by (simp_all add: fits_def add_resources_def mount_plugin_def register_ui_def unmount_plugin_def DeletePlugin_def Let_def
      Unmount_def Deregister_def Register_def split: option.splits)

lemma same_tables_fits: "same_tables s s' \<Longrightarrow> fits m s' = fits m s"
  by (simp add: same_tables_def fits_def)

text \<open>The state is as the manager leaves it.\<close>

definition state_ok :: "('k, 'c, 'v, 'u, 'w) Manager \<Rightarrow> ('u, 'w) pstate \<Rightarrow> bool" where
  "state_ok m s \<longleftrightarrow> tables_ok s \<and> fits m s"

lemma same_state_ok: "same_tables s s' \<Longrightarrow> state_ok m s' = state_ok m s"
  by (simp add: state_ok_def same_tables_ok_iff same_tables_fits)

subsection \<open>Installing\<close>

lemma activate_ok:
  assumes s: "state_ok m s" and rows: "gsRows s = rows @ [row]" "rwName row = name" "name \<notin> rwName ` set rows"
    and a: "activate m name p ui rs row s = (e, s')"
  shows "state_ok m s' \<and>
    gsRows s' = (if e \<noteq> None \<and> pmFault m ''DeletePlugin'' = None then rows else rows @ [row])"
proof -
  define t where "t = register_ui m name ui (mount_plugin m name p (add_resources m (rwID row) rs s))"
  have t: "state_ok m t" "gsRows t = rows @ [row]" using s rows
    by (simp_all add: t_def state_ok_def register_ui_ok mount_plugin_ok add_resources_ok)
  show ?thesis
  proof (cases "pmDeployer m")
    case None
    then show ?thesis using a t by (simp add: activate_def t_def)
  next
    case (Some d)
    obtain x t1 where 1: "run_host (dyInstall d p) t = (x, t1)" by (cases "run_host (dyInstall d p) t")
    have st: "same_tables t t1" using run_host_tables[OF 1, of t] by simp
    then have t1: "state_ok m t1" "gsRows t1 = rows @ [row]" using t same_state_ok[OF st, of m] by (simp_all add: same_tables_def)
    let ?d = "snd (DeletePlugin m name (unmount_plugin m name t1))"
    have d: "state_ok m ?d" using t1(1) unmount_plugin_gone[of m t1 name]
      by (simp add: state_ok_def DeletePlugin_ok unmount_plugin_ok)
    have r: "gsRows ?d = (if pmFault m ''DeletePlugin'' = None then rows else rows @ [row])" using t1(2) rows
      by (auto simp: DeletePlugin_def Let_def filter_id_conv image_iff split: option.splits)
    have st2: "same_tables ?d (remove_dir m name (release m name rs ?d))" by simp
    show ?thesis
    proof (cases x)
      case None
      then show ?thesis using a Some 1 t1 by (simp add: activate_def t_def[symmetric])
    next
      case e: (Some e')
      then have "s' = remove_dir m name (release m name rs ?d)" "e \<noteq> None" using a Some 1 by (auto simp: activate_def t_def[symmetric])
      then show ?thesis using d r st2 same_state_ok[OF st2, of m] by (simp add: same_tables_def)
    qed
  qed
qed

lemma install_root_ok:
  assumes s: "state_ok m s" and i: "install_root m req plan s = Some (r, s')"
  shows "state_ok m s' \<and> (\<exists>new. gsRows s' = gsRows s @ new \<and> list_all (\<lambda>row. rwName row = irName req) new \<and>
    (case r of Inl e \<Rightarrow> pmFault m ''DeletePlugin'' = None \<longrightarrow> new = []
     | Inr inst \<Rightarrow> \<exists>row. new = [row] \<and> inID inst = rwID row))"
proof -
  let ?name = "irName req"
  obtain x s1 where 1: "fetchVerifyUnpackProvision m ?name (irVersion req) (irMarketplaceID req) s = Some (x, s1)"
    using i by (auto simp: install_root_def Let_def split: option.splits)
  have st: "same_tables s s1" using fetchVerifyUnpackProvision_tables[OF 1] .
  have s1: "state_ok m s1" using same_state_ok[OF st, of m] s by simp
  have unchanged: ?thesis if "r = Inl e" "same_tables s s'" for e
    using that s same_state_ok[OF that(2), of m] by (simp add: same_tables_def)
  show ?thesis
  proof (cases x)
    case (Inl e)
    then show ?thesis using i 1 st by (intro unchanged) (auto simp: install_root_def Let_def)
  next
    case (Inr y)
    then obtain p ui rs where x: "x = Inr (p, ui, rs)" by (cases y) auto
    show ?thesis
    proof (cases "pmMarshal m p")
      case (Inl e)
      then show ?thesis using i 1 st x by (intro unchanged) (auto simp: install_root_def Let_def)
    next
      case j: (Inr j)
      obtain c s2 where 2: "CreatePlugin m ?name (mdVersion (plMetadata p)) j s1 = (c, s2)"
        by (cases "CreatePlugin m ?name (mdVersion (plMetadata p)) j s1")
      have C: "tables_ok s2 \<and> (case c of Inl e \<Rightarrow> s2 = s1
          | Inr row \<Rightarrow> s2 = s1\<lparr>gsRows := gsRows s1 @ [row]\<rparr> \<and> rwName row = ?name \<and> ?name \<notin> names s1)"
        using CreatePlugin_ok[OF 2] s1 by (simp add: state_ok_def)
      show ?thesis
      proof (cases c)
        case (Inl e)
        then show ?thesis using i 1 st x j 2 C by (intro unchanged) (auto simp: install_root_def Let_def)
      next
        case (Inr row)
        then have row: "s2 = s1\<lparr>gsRows := gsRows s @ [row]\<rparr>" "rwName row = ?name" "?name \<notin> names s" "state_ok m (s2)"
          using C st s1 by (auto simp: same_tables_def state_ok_def)
        obtain e s3 where 3: "activate m ?name p ui rs row (s2) = (e, s3)" by (cases "activate m ?name p ui rs row (s2)")
        have A: "state_ok m s3 \<and> gsRows s3 = (if e \<noteq> None \<and> pmFault m ''DeletePlugin'' = None then gsRows s else gsRows s @ [row])"
          by (rule activate_ok[OF row(4) _ row(2,3) 3]) (simp add: row(1))
        show ?thesis
        proof (cases e)
          case None
          then show ?thesis using i 1 x j 2 Inr 3 A row by (auto simp: install_root_def Let_def toInstallation_def)
        next
          case (Some e')
          then have "r = Inl e'" "s' = s3" using i 1 x j 2 Inr 3 by (auto simp: install_root_def Let_def)
          then show ?thesis using A Some row(2) by (cases "pmFault m ''DeletePlugin''") auto
        qed
      qed
    qed
  qed
qed

text \<open>From one state to another: the rows that were there stay, and none is added for a name that is locked.\<close>

definition grows :: "('k, 'c, 'v, 'u, 'w) Manager \<Rightarrow> string set \<Rightarrow> ('u, 'w) pstate \<Rightarrow> ('u, 'w) pstate \<Rightarrow> bool" where
  "grows m held s s' \<longleftrightarrow> state_ok m s' \<and> (\<exists>new. gsRows s' = gsRows s @ new \<and> list_all (\<lambda>r. rwName r \<notin> held) new)"

lemma grows_trans: "grows m held a b \<Longrightarrow> grows m held b c \<Longrightarrow> grows m held a c"
  by (auto simp: grows_def)

lemma same_grows: "same_tables s s' \<Longrightarrow> state_ok m s \<Longrightarrow> grows m held s s'"
  using same_state_ok[of s s' m] by (simp add: grows_def same_tables_def)

lemma deps_loop_grows:
  assumes inst: "\<And>r s x s'. inst r s = Some (x, s') \<Longrightarrow> state_ok m s \<Longrightarrow> grows m held s s'"
  shows "deps_loop inst m req steps s = Some (e, s') \<Longrightarrow> state_ok m s \<Longrightarrow> grows m held s s'"
proof (induction steps arbitrary: s)
  case Nil
  then show ?case by (simp add: same_grows)
next
  case (Cons step steps)
  let ?r = "\<lparr>irName = plsName step, irVersion = plsVersion step, irMarketplaceID = irMarketplaceID req\<rparr>"
  show ?case
  proof (cases "plsName step = irName req \<or> plsAction step \<noteq> PlanActionInstall \<or> installed m (plsName step) s")
    case True
    then show ?thesis using Cons by simp
  next
    case False
    then obtain x s1 where 1: "inst ?r s = Some (x, s1)" using Cons.prems(1) by (auto simp: bind_eq_Some_conv)
    have g: "grows m held s s1" using inst[OF 1 Cons.prems(2)] .
    then have "state_ok m s1" by (simp add: grows_def)
    then show ?thesis using False Cons.prems(1) Cons.IH[of s1] 1 g by (cases x) (auto intro: grows_trans)
  qed
qed

lemma install_root_grows:
  assumes "install_root m req plan s = Some (r, s')" and "state_ok m s"
  shows "irName req \<notin> held \<Longrightarrow> grows m held s s'"
    and "isl r \<Longrightarrow> pmFault m ''DeletePlugin'' = None \<Longrightarrow> grows m held s s'"
  using install_root_ok[OF assms(2,1)] by (cases r; auto simp: grows_def list_all_iff)+

lemma grows_less: "grows m (insert x held) s s' \<Longrightarrow> grows m held s s'"
  by (auto simp: grows_def list_all_iff)

text \<open>The ways in which an installation ends, with \<open>inst\<close> for the recursive calls.\<close>

definition install_body ::
    "(InstallRequest \<Rightarrow> ('u, 'w) pstate \<Rightarrow> (Installation result \<times> ('u, 'w) pstate) option) \<Rightarrow> ('k, 'c, 'v, 'u, 'w) Manager \<Rightarrow>
     string set \<Rightarrow> InstallRequest \<Rightarrow> ('u, 'w) pstate \<Rightarrow> Installation result \<times> ('u, 'w) pstate \<Rightarrow> bool" where
  "install_body inst m held req s y \<longleftrightarrow> (isl (fst y) \<and> snd y = s) \<or>
     irName req \<notin> held \<and> \<not> installed m (irName req) s \<and>
       (\<exists>x s1. planInstall m (irName req) (irVersion req) (irMarketplaceID req) s = (x, s1) \<and>
         (isl x \<and> isl (fst y) \<and> snd y = s1 \<or>
          (\<exists>plan p d s2. x = Inr (plan, p) \<and> deps_loop inst m req plan s1 = Some (d, s2) \<and>
             (isl (fst y) \<and> snd y = s2 \<or> d = None \<and> install_root m req plan s2 = Some y))))"

lemma Install_induct:
  assumes "Install m held req s = Some y"
    and step: "\<And>inst m held req s y. (\<And>r s x. inst r s = Some x \<Longrightarrow> P m (insert (irName req) held) r s x) \<Longrightarrow>
      install_body inst m held req s y \<Longrightarrow> P m held req s y"
  shows "P m held req s y"
proof (rule Install.raw_induct[OF _ assms(1)])
  fix f m held req s y
  assume IH: "\<And>m held req s x. f m held req s = Some x \<Longrightarrow> P m held req s x"
    and B: "(if irName req = [] then Some (Inl (Wrapf ''%w: name is required'' ErrInvalid), s)
      else if \<not> pmQueries m then Some (Inl (Errorf ''plugins: store not configured''), s)
      else if irName req \<in> held then None
      else if installed m (irName req) s then Some (Inl ErrAlreadyExists, s)
      else case planInstall m (irName req) (irVersion req) (irMarketplaceID req) s of
             (Inl e, s) \<Rightarrow> Some (Inl e, s)
           | (Inr (plan, manifest), s) \<Rightarrow>
               Option.bind (deps_loop (f m (insert (irName req) held)) m req plan s)
                 (\<lambda>x. case fst x of Some e \<Rightarrow> Some (Inl e, snd x) | None \<Rightarrow> install_root m req plan (snd x))) = Some y"
  have "install_body (f m (insert (irName req) held)) m held req s y"
    using B unfolding install_body_def
    by (auto simp: bind_eq_Some_conv split: if_splits prod.splits sum.splits option.splits)
  then show "P m held req s y" using step IH by blast
qed

lemma Install_grows:
  fixes m :: "('k, 'c, 'v, 'u, 'w) Manager"
  assumes "Install m held req s = Some y"
  shows "state_ok m s \<longrightarrow> grows m held s (snd y) \<and>
    (pmFault m ''DeletePlugin'' = None \<longrightarrow> isl (fst y) \<longrightarrow> grows m (insert (irName req) held) s (snd y))"
  using assms
proof (rule Install_induct, intro impI)
  fix inst and m :: "('k, 'c, 'v, 'u, 'w) Manager" and held req s y
  assume IH: "\<And>r s x. inst r s = Some x \<Longrightarrow> state_ok m s \<longrightarrow> grows m (insert (irName req) held) s (snd x) \<and>
      (pmFault m ''DeletePlugin'' = None \<longrightarrow> isl (fst x) \<longrightarrow> grows m (insert (irName r) (insert (irName req) held)) s (snd x))"
    and B: "install_body inst m held req s y" and s: "state_ok m s"
  let ?all = "insert (irName req) held"
  have D: "grows m ?all s1 s2" if "deps_loop inst m req plan s1 = Some (d, s2)" "state_ok m s1" for plan s1 d s2
    by (rule deps_loop_grows[OF _ that]) (use IH in fastforce)
  consider (same) "isl (fst y)" "same_tables s (snd y)"
    | (deps) plan s1 d s2 where "irName req \<notin> held" "same_tables s s1" "deps_loop inst m req plan s1 = Some (d, s2)"
        "isl (fst y) \<and> snd y = s2 \<or> install_root m req plan s2 = Some y"
    using B unfolding install_body_def by (auto dest: planInstall_tables)
  then show "grows m held s (snd y) \<and> (pmFault m ''DeletePlugin'' = None \<longrightarrow> isl (fst y) \<longrightarrow> grows m ?all s (snd y))"
  proof cases
    case same
    then show ?thesis using same_grows[OF same(2) s] by simp
  next
    case deps
    have s1: "state_ok m s1" using same_state_ok[OF deps(2), of m] s by simp
    have g: "grows m ?all s s2" by (rule grows_trans[OF same_grows[OF deps(2) s] D[OF deps(3) s1]])
    then have s2: "state_ok m s2" by (simp add: grows_def)
    show ?thesis using deps(4)
    proof
      assume "isl (fst y) \<and> snd y = s2"
      then show ?thesis using g grows_less by auto
    next
      assume I: "install_root m req plan s2 = Some y"
      then have I: "install_root m req plan s2 = Some (fst y, snd y)" by simp
      have "grows m held s (snd y)" by (rule grows_trans[OF grows_less[OF g] install_root_grows(1)[OF I s2 deps(1)]])
      moreover have "grows m ?all s (snd y)" if "isl (fst y)" "pmFault m ''DeletePlugin'' = None"
        by (rule grows_trans[OF g install_root_grows(2)[OF I s2 that]])
      ultimately show ?thesis by simp
    qed
  qed
qed

subsection \<open>The other operations\<close>

lemma UpdatePlugin_ok:
  assumes "UpdatePlugin m name v j s = (r, s')" and "state_ok m s"
  shows "state_ok m s' \<and> (case r of Inl e \<Rightarrow> s' = s | Inr row \<Rightarrow> row \<in> set (gsRows s') \<and> rwName row = name)"
proof (cases "pmFault m ''UpdatePlugin''")
  case None
  define f where "f r = (if rwName r = name then r\<lparr>rwVersion := v, rwManifest := j, rwStatus := StatusInstalled,
    rwUpdatedAt := pmNow m (gsHost s)\<rparr> else r)" for r :: plugin_row
  have f: "rwName (f r) = rwName r" "rwID (f r) = rwID r" for r by (simp_all add: f_def)
  have "tables_ok (s\<lparr>gsRows := map f (gsRows s)\<rparr>)" using assms(2)
    by (simp add: state_ok_def tables_ok_def comp_def f image_image)
  then have "state_ok m (s\<lparr>gsRows := map f (gsRows s)\<rparr>)" using assms(2) by (simp add: state_ok_def)
  then show ?thesis using assms None
    by (auto simp: UpdatePlugin_def Let_def f_def[symmetric] find_Some_iff split: option.splits)
qed (use assms in \<open>auto simp: UpdatePlugin_def\<close>)

lemma activation_ok:
  assumes "state_ok m s" and "row \<in> set (gsRows s)" and "rwName row = name"
  shows "state_ok m (register_ui m name ui (mount_plugin m name p (add_resources m (rwID row) rs s)))"
  using assms by (auto simp: state_ok_def register_ui_ok mount_plugin_ok add_resources_ok)

lemma Upgrade_ok:
  assumes s: "state_ok m s" and u: "Upgrade m name v s = Some (r, s')"
  shows "state_ok m s'"
proof -
  have same: "state_ok m t" if "same_tables s t" for t using same_state_ok[OF that, of m] s by simp
  show ?thesis
  proof (cases "pmQueries m \<and> installed m name s")
    case False
    then show ?thesis using u s by (auto simp: Upgrade_def split: if_splits)
  next
    case q: True
    obtain x s1 where 1: "fetchVerifyUnpackProvision m name v [] s = Some (x, s1)"
      using u q by (auto simp: Upgrade_def split: option.splits)
    have st: "same_tables s s1" using fetchVerifyUnpackProvision_tables[OF 1] .
    show ?thesis
    proof (cases "\<exists>p ui rs j. x = Inr (p, ui, rs) \<and> pmMarshal m p = Inr j")
      case False
      then have "same_tables s s'" using u q 1 st by (auto simp: Upgrade_def split: sum.splits)
      then show ?thesis by (rule same)
    next
      case True
      then obtain p ui rs j where x: "x = Inr (p, ui, rs)" "pmMarshal m p = Inr j" by blast
      obtain c s2 where 2: "UpdatePlugin m name (mdVersion (plMetadata p)) j s1 = (c, s2)"
        by (cases "UpdatePlugin m name (mdVersion (plMetadata p)) j s1")
      note U = UpdatePlugin_ok[OF 2 same[OF st]]
      show ?thesis
      proof (cases c)
        case (Inl e)
        then show ?thesis using u q 1 x 2 U st by (intro same) (auto simp: Upgrade_def)
      next
        case (Inr row)
        define t where "t = register_ui m name ui (mount_plugin m name p (add_resources m (rwID row) rs s2))"
        have "state_ok m t" unfolding t_def using activation_ok[of m s2 row name ui p rs] U Inr by simp
        moreover have "same_tables t s'" using u q 1 x 2 Inr
          by (auto simp: Upgrade_def Let_def t_def[symmetric] split: option.splits)
        ultimately show ?thesis using same_state_ok[of t s' m] by simp
      qed
    qed
  qed
qed

lemma purge_resources_tables [simp]: "same_tables s (purge_resources m name row t) = same_tables s t"
  by (simp add: purge_resources_def split: sum.splits)

lemma Restart_tables [tables_same]: "Restart m name s = (e, s') \<Longrightarrow> same_tables s s'"
  by (auto simp: Restart_def run_host_tables split: if_splits option.splits)

text \<open>What \<open>Uninstall\<close> does before it deletes the row.\<close>

definition taken_down :: "('k, 'c, 'v, 'u, 'w) Manager \<Rightarrow> string \<Rightarrow> UninstallOptions \<Rightarrow> plugin_row \<Rightarrow> ('u, 'w) pstate \<Rightarrow> ('u, 'w) pstate" where
  "taken_down m name opts row s =
     (let s = (case pmDeployer m of None \<Rightarrow> s | Some d \<Rightarrow> snd (run_host (dyUninstall d name) s));
          s = unmount_plugin m name s;
          s = (if uoPurge opts then purge_resources m name row s else s)
      in case pmUIRoot m of None \<Rightarrow> s | Some root \<Rightarrow> on_host (pmRemoveAll m (PluginRootFor root name)) s)"

lemma taken_down_tables: "same_tables (unmount_plugin m name s) (taken_down m name opts row s)"
proof -
  define t where "t = (case pmDeployer m of None \<Rightarrow> s | Some d \<Rightarrow> snd (run_host (dyUninstall d name) s))"
  have "same_tables s t" by (simp add: t_def split: option.splits)
  then have "same_tables (unmount_plugin m name s) (unmount_plugin m name t)"
    by (auto simp: same_tables_def unmount_plugin_def Let_def)
  then show ?thesis by (auto simp: taken_down_def t_def[symmetric] Let_def split: option.splits)
qed

lemma Uninstall_unfold:
  assumes "pmQueries m" and "GetPluginByName m name s = Inr row"
  shows "Uninstall m name opts s =
    (let ds = (case dependentsOf m name s of Inl e \<Rightarrow> [] | Inr ds \<Rightarrow> ds)
     in if ds \<noteq> [] \<and> \<not> uoForce opts then (Some (DependentsError name ds), s)
        else (case DeletePlugin m name (taken_down m name opts row s) of (e, s) \<Rightarrow> (wrap_err ''plugins: db delete: %w'' e, s)))"
  using assms by (simp add: Uninstall_def taken_down_def Let_def)

lemma taken_down_ok:
  assumes "state_ok m s"
  shows "state_ok m (snd (DeletePlugin m name (taken_down m name opts row s)))"
proof -
  have u: "state_ok m (unmount_plugin m name s)" using assms by (simp add: state_ok_def unmount_plugin_ok)
  note t = taken_down_tables[of m name s opts row]
  have "state_ok m (taken_down m name opts row s)" using same_state_ok[OF t, of m] u by simp
  moreover have "gsMounts (taken_down m name opts row s) name = None" "gsUI (taken_down m name opts row s) name = None"
    using unmount_plugin_gone[of m s name] t assms by (simp_all add: same_tables_def state_ok_def)
  ultimately show ?thesis by (simp add: state_ok_def DeletePlugin_ok)
qed

lemma Uninstall_ok:
  assumes "state_ok m s" and "Uninstall m name opts s = (e, s')"
  shows "state_ok m s'"
proof (cases "pmQueries m \<and> (\<exists>row. GetPluginByName m name s = Inr row)")
  case True
  then obtain row where "pmQueries m" "GetPluginByName m name s = Inr row" by blast
  then show ?thesis using assms taken_down_ok[OF assms(1), of name opts row]
    by (auto simp: Uninstall_unfold Let_def split: if_splits prod.splits)
next
  case False
  then show ?thesis using assms by (auto simp: Uninstall_def split: if_splits sum.splits)
qed

lemma restore_row_ok:
  assumes "state_ok m s" and "rwName row \<in> names s"
  shows "state_ok m (restore_row m row s) \<and> gsRows (restore_row m row s) = gsRows s"
proof -
  obtain p e where pe: "pmUnmarshal m (rwManifest row) = (p, e)" by (cases "pmUnmarshal m (rwManifest row)")
  define t where "t = mount_plugin m (rwName row) p s"
  have t: "state_ok m t" "gsRows t = gsRows s" using assms by (simp_all add: t_def state_ok_def mount_plugin_ok)
  have r: "state_ok m (t\<lparr>gsHost := w, gsUI := Register (rwName row) d (gsUI t)\<rparr>)" "state_ok m (t\<lparr>gsHost := w\<rparr>)" if "pmUIRoot m \<noteq> None" for w d
    using t assms that by (auto simp: state_ok_def tables_ok_def fits_def Register_def)
  show ?thesis using assms(1) t r
    by (auto simp: restore_row_def pe t_def[symmetric] run_host_def Let_def split: prod.splits option.splits)
qed

lemma RestoreAtStartup_ok:
  assumes "state_ok m s"
  shows "state_ok m (RestoreAtStartup m s) \<and> gsRows (RestoreAtStartup m s) = gsRows s"
proof -
  have "state_ok m (fold (restore_row m) rows t) \<and> gsRows (fold (restore_row m) rows t) = gsRows t"
    if "rwName ` set rows \<subseteq> names t" "state_ok m t" for rows t using that
  proof (induction rows arbitrary: t)
    case (Cons row rows)
    then show ?case using restore_row_ok[of m t row] by simp
  qed simp
  then show ?thesis using assms by (auto simp: RestoreAtStartup_def ListPlugins_def split: option.splits)
qed

subsection \<open>Sequences of operations\<close>

text \<open>What happens to a manager: its operations, and restarts of the process, which loses the routes and the directories.\<close>

inductive plugin_steps :: "('k, 'c, 'v, 'u, 'w) Manager \<Rightarrow> ('u, 'w) pstate \<Rightarrow> ('u, 'w) pstate \<Rightarrow> bool" for m s where
  start: "plugin_steps m s s"
| install: "plugin_steps m s t \<Longrightarrow> Install m {} req t = Some (r, u) \<Longrightarrow> plugin_steps m s u"
| uninstall: "plugin_steps m s t \<Longrightarrow> Uninstall m name opts t = (e, u) \<Longrightarrow> plugin_steps m s u"
| upgrade: "plugin_steps m s t \<Longrightarrow> Upgrade m name v t = Some (r, u) \<Longrightarrow> plugin_steps m s u"
| restart: "plugin_steps m s t \<Longrightarrow> Restart m name t = (e, u) \<Longrightarrow> plugin_steps m s u"
| reboot: "plugin_steps m s t \<Longrightarrow> plugin_steps m s (RestoreAtStartup m (t\<lparr>gsMounts := Map.empty, gsUI := Map.empty\<rparr>))"

text \<open>
  C10. Whatever is installed, removed, upgraded and restarted, and whichever queries, downloads, provisioners
  and deployments fail on the way: no two rows share a name or an identifier, every resource in the cleanup ledger
  belongs to a row, and routes and user interfaces are only served for plugins that have a row.
\<close>

theorem plugin_tables_agree:
  assumes "state_ok m s" and "plugin_steps m s t"
  shows "tables_ok t"
proof -
  have "state_ok m t" using assms(2)
  proof induction
    case (install t req r u)
    then show ?case using Install_grows[of m "{}" req t "(r, u)"] by (simp add: grows_def)
  next
    case (restart t name e u)
    then show ?case using same_state_ok[OF Restart_tables, of m name t e u m] by simp
  next
    case (reboot t)
    have "state_ok m (t\<lparr>gsMounts := Map.empty, gsUI := Map.empty\<rparr>)" using reboot by (simp add: state_ok_def tables_ok_def fits_def)
    then show ?case using RestoreAtStartup_ok by blast
  qed (use assms(1) Uninstall_ok Upgrade_ok in blast)+
  then show ?thesis by (simp add: state_ok_def)
qed


subsection \<open>Removing\<close>

text \<open>Another plugin whose manifest can be read back and names this one.\<close>

definition dependent :: "('k, 'c, 'v, 'u, 'w) Manager \<Rightarrow> string \<Rightarrow> plugin_row \<Rightarrow> bool" where
  "dependent m name r \<longleftrightarrow> rwName r \<noteq> name \<and> snd (pmUnmarshal m (rwManifest r)) = None \<and> depends_on name (fst (pmUnmarshal m (rwManifest r)))"

lemma dependent_iff:
  "(rwName r \<noteq> name \<and> (case pmUnmarshal m (rwManifest r) of (p, None) \<Rightarrow> depends_on name p | (p, Some e) \<Rightarrow> False)) = dependent m name r"
  by (auto simp: dependent_def split: prod.splits option.splits)

lemma dependentsOf_Nil:
  assumes "pmFault m ''ListPlugins'' = None" and "pmQueries m"
  shows "\<exists>ds. dependentsOf m name s = Inr ds \<and> (ds = [] \<longleftrightarrow>
    \<not> list_ex (dependent m name) (gsRows s))"
  using assms by (auto simp: dependentsOf_def ListPlugins_def filter_empty_conv list_ex_iff dependent_iff)

text \<open>
  C19. \<open>Uninstall\<close> of an installed plugin, with a database that answers: it is refused, and nothing is touched, exactly when it is
  not forced and another plugin whose manifest can be read depends on it; otherwise the row goes, with its entries in the ledger, its routes
  and its user interface, and every other plugin keeps all of these.
\<close>

theorem Uninstall_exact:
  assumes "state_ok m s" and "pmQueries m" and "pmFault m = (\<lambda>q. None)" and "row \<in> set (gsRows s)" and "rwName row = name"
  shows "case Uninstall m name opts s of
      (Some e, s') \<Rightarrow> s' = s \<and> \<not> uoForce opts \<and>
        list_ex (dependent m name) (gsRows s)
    | (None, s') \<Rightarrow>
        (uoForce opts \<or> \<not> list_ex (dependent m name) (gsRows s)) \<and>
        gsRows s' = filter (\<lambda>r. rwName r \<noteq> name) (gsRows s) \<and>
        gsResources s' = filter (\<lambda>x. fst x \<noteq> rwID row) (gsResources s) \<and>
        gsMounts s' = (gsMounts s)(name := None) \<and> gsUI s' = (gsUI s)(name := None)"
proof -
  have d: "distinct (map rwName (gsRows s))" using assms(1) by (simp add: state_ok_def tables_ok_def)
  have g: "GetPluginByName m name s = Inr row"
  proof -
    obtain r where r: "find (\<lambda>r. rwName r = name) (gsRows s) = Some r" using assms(4,5) by (fastforce simp: find_None_iff)
    then have "r = row" using assms(4,5) d by (auto simp: find_Some_iff distinct_map inj_on_def)
    then show ?thesis using r assms(3) by (simp add: GetPluginByName_def)
  qed
  have ids: "rwID ` {r \<in> set (gsRows s). rwName r = name} = {rwID row}"
    using assms(4,5) d by (auto simp: distinct_map inj_on_def)
  note t = taken_down_tables[of m name s opts row]
  have u: "gsMounts (unmount_plugin m name s) = (gsMounts s)(name := None)" "gsUI (unmount_plugin m name s) = (gsUI s)(name := None)"
    "gsResources (unmount_plugin m name s) = gsResources s"
    using assms(1) by (auto simp: unmount_plugin_def Unmount_def Deregister_def Register_def Let_def state_ok_def fits_def)
  obtain ds where ds: "dependentsOf m name s = Inr ds" "ds = [] \<longleftrightarrow> \<not> list_ex (dependent m name) (gsRows s)"
    using dependentsOf_Nil[of m name s] assms(2,3) by auto
  show ?thesis using t u ids ds(2)
    by (auto simp: Uninstall_unfold[OF assms(2) g] ds(1) DeletePlugin_def assms(3) Let_def same_tables_def wrap_err_def)
qed

subsection \<open>Plugins that need each other\<close>

text \<open>The request that the loop over a plan makes first.\<close>

fun next_request :: "('k, 'c, 'v, 'u, 'w) Manager \<Rightarrow> InstallRequest \<Rightarrow> PlanStep list \<Rightarrow> ('u, 'w) pstate \<Rightarrow> InstallRequest option" where
  "next_request m req [] s = None"
| "next_request m req (step # steps) s =
     (if plsName step = irName req \<or> plsAction step \<noteq> PlanActionInstall \<or> installed m (plsName step) s
      then next_request m req steps s
      else Some \<lparr>irName = plsName step, irVersion = plsVersion step, irMarketplaceID = irMarketplaceID req\<rparr>)"

text \<open>The request in the first state leads to the request in the second one.\<close>

definition waits_for :: "('k, 'c, 'v, 'u, 'w) Manager \<Rightarrow> InstallRequest \<times> ('u, 'w) pstate \<Rightarrow> InstallRequest \<times> ('u, 'w) pstate \<Rightarrow> bool" where
  "waits_for m x y \<longleftrightarrow> irName (fst x) \<noteq> [] \<and> pmQueries m \<and> \<not> installed m (irName (fst x)) (snd x) \<and>
     (case planInstall m (irName (fst x)) (irVersion (fst x)) (irMarketplaceID (fst x)) (snd x) of
        (Inl e, s) \<Rightarrow> False
      | (Inr (plan, p), s) \<Rightarrow> next_request m (fst x) plan s = Some (fst y) \<and> s = snd y)"

lemma next_request_stuck:
  "next_request m req steps s = Some r \<Longrightarrow> inst r s = None \<Longrightarrow> deps_loop inst m req steps s = None"
  by (induction steps) (auto split: if_splits)

lemma waits_for_stuck:
  assumes "waits_for m (req, s) (r, t)" and "irName req \<notin> held \<Longrightarrow> Install m (insert (irName req) held) r t = None"
  shows "Install m held req s = None"
proof (cases "irName req \<in> held")
  case True
  then show ?thesis using assms(1) by (subst Install.simps) (simp add: waits_for_def)
next
  case False
  obtain plan p where P: "planInstall m (irName req) (irVersion req) (irMarketplaceID req) s = (Inr (plan, p), t)"
    "next_request m req plan t = Some r" using assms(1) by (auto simp: waits_for_def split: prod.splits sum.splits)
  have "deps_loop (Install m (insert (irName req) held)) m req plan t = None"
    using assms(2)[OF False] by (intro next_request_stuck[OF P(2)]) simp
  then show ?thesis using False P assms(1) by (subst Install.simps) (simp add: waits_for_def)
qed

text \<open>
  C33. Plugins that depend on each other cannot be installed: if each of some requests leads to another one of them, as the manifests of
  two plugins do that name each other, then \<open>Install\<close> does not return for any of them. The chain of calls comes back to a
  plugin whose lock it holds, and waits for it for ever; the resolver only looks one step ahead and does not see the cycle.
\<close>

theorem cyclic_Install_never_returns:
  assumes "list_all (\<lambda>x. list_ex (waits_for m x) xs) xs" and "(req, s) \<in> set xs"
  shows "Install m held req s = None"
proof -
  let ?N = "(\<lambda>x. irName (fst x)) ` set xs"
  show ?thesis using assms(2)
  proof (induction "card (?N - held)" arbitrary: held req s rule: less_induct)
    case less
    obtain r t where y: "waits_for m (req, s) (r, t)" "(r, t) \<in> set xs"
      using assms(1) less.prems by (fastforce simp: list_all_iff list_ex_iff)
    show ?case
    proof (rule waits_for_stuck[OF y(1)])
      assume "irName req \<notin> held"
      then have "irName req \<in> ?N - held" using less.prems by force
      then have "card (?N - insert (irName req) held) < card (?N - held)" by (intro psubset_card_mono) auto
      then show "Install m (insert (irName req) held) r t = None" using less.hyps y(2) by blast
    qed
  qed
qed

subsection \<open>Only what is signed is installed\<close>

text \<open>
  The bytes check under the key that is pinned for a marketplace: one that the registry held, and had enabled, when
  the package was looked for.
\<close>

definition vouched :: "'k sig_lib \<Rightarrow> 'w MarketplacesStore \<Rightarrow> Marketplace list \<Rightarrow> string \<Rightarrow> bool" where
  "vouched L st rows tarball \<longleftrightarrow> (\<exists>m0 m w w' sig. m0 \<in> set rows \<and> mkEnabled m0 \<and> stGet st (mkID m0) w = (Inr m, w') \<and>
     tarball \<noteq> [] \<and> sig \<noteq> [] \<and> check_signature L (mkTrustKeyPEM m) tarball sig = None)"

lemma fetchVerifiedTarball_vouched:
  fixes m :: "('k, 'c, 'v, 'u, rows \<times> 'x) Manager"
  assumes "pmMulti m = Some mc" and "mmStore mc = Some (mem_store now newID)" and "reads_back (veFiles (mmVerify mc))"
    and f: "fetchVerifiedTarball m name v i s = (Inr tb, s')"
  shows "vouched (veLib (mmVerify mc)) (mem_store now newID :: (rows \<times> 'x) MarketplacesStore) (fst (gsHost s)) tb"
proof -
  obtain p ver mp cs w t where F: "multi_FindVersion mc name v i (gsClients s, gsHost s) = (Inr (p, ver, mp), (cs, w))"
      and D: "DownloadAndVerify mc (mkID mp) ver (cs, w) = (Inr tb, t)"
    using f assms(1) by (auto simp: fetchVerifiedTarball_def split: prod.splits sum.splits)
  have "mp \<in> set (fst (gsHost s)) \<and> mkEnabled mp" using mem_registry.search_enabled[OF assms(2) F] by simp
  moreover obtain mk w' sig where "stGet (mem_store now newID) (mkID mp) w = (Inr mk, w')" "tb \<noteq> []" "sig \<noteq> []"
      "check_signature (veLib (mmVerify mc)) (mkTrustKeyPEM mk) tb sig = None"
    using DownloadAndVerify_signed[OF assms(3) D] assms(2) by auto
  ultimately show ?thesis unfolding vouched_def by blast
qed

text \<open>The manifest and the directory come out of a package that is vouched for.\<close>

definition unpacked_from_signed ::
    "('k, 'c, 'v, 'u, rows \<times> 'x) Manager \<Rightarrow> 'k sig_lib \<Rightarrow> (rows \<times> 'x) MarketplacesStore \<Rightarrow> string \<Rightarrow> Plugin \<Rightarrow> bool" where
  "unpacked_from_signed m L st name p \<longleftrightarrow> (\<exists>rows tb w b ui w'. vouched L st rows tb \<and>
     ExtractTarball (pmUntar m) (pmUnpack m) tb (destDir m name) w = (Inr (b, ui), w') \<and>
     ParseManifest (pmSemver m) (pmYaml m) b = Inr p \<and> plName p = name)"

lemma fetchVerifyUnpackProvision_signed:
  assumes "pmMulti m = Some mc" and "mmStore mc = Some (mem_store now newID)" and "reads_back (veFiles (mmVerify mc))"
    and f: "fetchVerifyUnpackProvision m name v i s = Some (Inr (p, ui, rs), s')"
  shows "unpacked_from_signed m (veLib (mmVerify mc)) (mem_store now newID) name p"
proof -
  obtain tb s1 where 1: "fetchVerifiedTarball m name v i s = (Inr tb, s1)"
    using f by (auto simp: fetchVerifyUnpackProvision_def split: prod.splits sum.splits)
  obtain b d s2 where 2: "run_host (ExtractTarball (pmUntar m) (pmUnpack m) tb (destDir m name)) (remove_dir m name s1) = (Inr (b, d), s2)"
      and 3: "provision_manifest m name b d s2 = Some (Inr (p, ui, rs), s')"
    using f 1 by (auto simp: fetchVerifyUnpackProvision_def split: prod.splits sum.splits)
  have "ParseManifest (pmSemver m) (pmYaml m) b = Inr p \<and> plName p = name"
    using 3 by (auto simp: provision_manifest_def split: sum.splits if_splits option.splits prod.splits)
  moreover obtain w w' where "ExtractTarball (pmUntar m) (pmUnpack m) tb (destDir m name) w = (Inr (b, d), w')"
    using 2 by (auto simp: run_host_def split: prod.splits)
  ultimately show ?thesis using fetchVerifiedTarball_vouched[OF assms(1-3) 1] unfolding unpacked_from_signed_def by blast
qed


subsection \<open>Upgrades that fail\<close>


subsection \<open>An example\<close>

text \<open>Two plugins, of which the first needs the second; archives are the bytes of their manifest, signatures repeat the key and the bytes.\<close>

type_synonym files = "(string \<times> string) list"

definition demo_fs :: "('w \<Rightarrow> files) \<Rightarrow> (files \<Rightarrow> 'w \<Rightarrow> 'w) \<Rightarrow> 'w unpack_fs" where
  "demo_fs get put =
     \<lparr>upMkdirAll = (\<lambda>p w. (None, w)), upOpen = (\<lambda>p w. (None, w)), upWrite = (\<lambda>p b w. (None, put ((p, b) # get w) w)),
      upClose = (\<lambda>p w. (None, w)),
      upRead = (\<lambda>p w. (case map_of (get w) p of None \<Rightarrow> Inl (Errorf ''no such file'') | Some b \<Rightarrow> Inr b, w))\<rparr>"

definition demo_index :: Index where
  "demo_index = \<lparr>ixVersion = 1, ixUpdated = 0, ixPlugins = map (\<lambda>n.
     \<lparr>ipName = n, ipDisplayName = [], ipVendor = [], ipCategory = [], ipDisplayCategory = [], ipTags = [], ipDescription = [],
      ipIcon = [], ipHomepage = [], ipVersions = [\<lparr>ivVersion = ''1.2.0'', ivTarballURL = ''https://'' @ n,
        ivSignatureURL = ''https://key'' @ n, ivSHA256 = [], ivSize = 0, ivReleasedAt = 0\<rparr>]\<rparr>) [''photos'', ''db'']\<rparr>"

definition demo_market :: "'w market_env" where
  "demo_market = \<lparr>meGet = (\<lambda>url w. (Inr (200, drop 8 url, None), w)), meNow = (\<lambda>w. 0), meIndex = (\<lambda>b. Inr demo_index)\<rparr>"

definition manifest_untar :: untar where
  "manifest_untar b = Inr ([\<lparr>hdrName = ''manifest.yaml'', hdrTypeflag = TypeReg, hdrSize = int (length b), hdrBody = b, hdrErr = None\<rparr>], None)"

definition demo_verify :: "('w \<Rightarrow> files) \<Rightarrow> (files \<Rightarrow> 'w \<Rightarrow> 'w) \<Rightarrow> (string, 'w) verify_env" where
  "demo_verify get put =
     \<lparr>veLib = \<lparr>pemDecode = Some, parsePKIX = (\<lambda>b. Inr (Ed25519 b)), b64Decode = (\<lambda>s. Inl (Errorf ''illegal base64 data'')),
        sha256Sum = id, ecdsaVerify = (\<lambda>k d s. False), rsaVerify = (\<lambda>k d s. None), ed25519Verify = (\<lambda>k b s. s = k @ b)\<rparr>,
      veFiles = \<lparr>osStat = (\<lambda>p w. (None, w)), osMkdirAll = (\<lambda>p w. (None, w)), osWriteFile = (\<lambda>p b w. (None, put ((p, b) # get w) w)),
        osReadFile = (\<lambda>p w. (case map_of (get w) p of None \<Rightarrow> Inl (Errorf ''no such file'') | Some b \<Rightarrow> Inr b, w)),
        osRemove = (\<lambda>p w. (None, w))\<rparr>,
      veTemp = \<lparr>CreateTemp = (\<lambda>w. (Inr [], w)), WriteFile = (\<lambda>p b w. (None, w)), CloseFile = (\<lambda>p w. (None, w)), RemoveFile = (\<lambda>p w. w)\<rparr>,
      veRun = (\<lambda>bin args w. (([], None), w))\<rparr>"

definition demo_manager ::
    "('w \<Rightarrow> files) \<Rightarrow> (files \<Rightarrow> 'w \<Rightarrow> 'w) \<Rightarrow> 'w NeedsProvisioner \<Rightarrow> (string \<Rightarrow> Plugin) \<Rightarrow> (string, string, string, unit, 'w) Manager" where
  "demo_manager get put prov manifest =
     \<lparr>pmQueries = True, pmFault = (\<lambda>q. None), pmMulti = None, pmMarketplace = Some demo_market, pmVerifier = None,
      pmVerifyEnv = demo_verify get put, pmProvisioner = prov, pmRouter = None, pmUIRoot = None, pmDeployer = None,
      pmSemver = demo_semver, pmYaml = (\<lambda>b. Inr (manifest b)), pmUntar = manifest_untar, pmUnpack = demo_fs get put,
      pmRemoveAll = (\<lambda>p w. put (filter (\<lambda>f. \<not> HasPrefix (fst f) p) (get w)) w), pmMkdirTemp = (\<lambda>w. (Inr ''/tmp/p'', w)),
      pmStat = (\<lambda>p w. (None, w)), pmMarshal = (\<lambda>p. Inr (plName p)), pmUnmarshal = (\<lambda>b. (manifest b, None)),
      pmNewID = (\<lambda>w. concat (map fst (get w))), pmNow = (\<lambda>w. 0)\<rparr>"

definition demo_state :: "'w \<Rightarrow> (unit, 'w) pstate" where
  "demo_state w = \<lparr>gsRows = [], gsResources = [], gsMounts = Map.empty, gsUI = Map.empty, gsClients = Map.empty,
     gsSingle = \<lparr>mcIndexURL = ''https://index'', mcCache = Some demo_index, mcCachedAt = 0\<rparr>, gsHost = w\<rparr>"

definition demo_request :: "string \<Rightarrow> InstallRequest" where
  "demo_request n = \<lparr>irName = n, irVersion = ''1.2.0'', irMarketplaceID = []\<rparr>"

definition mutual :: "string \<Rightarrow> Plugin" where
  "mutual b = (if b = ''photos'' then with_deps ''photos'' [tier2 ''db'' ''1.2.0''] else with_deps ''db'' [tier2 ''photos'' ''1.2.0''])"

abbreviation "demo_mutual \<equiv> demo_manager id (\<lambda>f w. f) NopProvisioner mutual"

definition demo_step :: "string \<Rightarrow> PlanStep" where
  "demo_step n = \<lparr>plsName = n, plsVersion = ''1.2.0'', plsSource = DependencySourceTier2, plsAction = PlanActionInstall, plsConstraint = ''1.2.0''\<rparr>"

lemma demo_state_eqI:
  assumes "same_tables (demo_state w) s" "\<And>x. gsClients s x = None" "gsSingle s = gsSingle (demo_state w)" "gsHost s = w"
  shows "s = demo_state w"
  using assms by (intro pstate.equality) (auto simp: demo_state_def same_tables_def)

lemma mutual_plans:
  "planInstall demo_mutual ''photos'' ''1.2.0'' [] (demo_state []) = (Inr ([demo_step ''db'', root_step (mutual ''photos'')], mutual ''photos''), demo_state [])"
  "planInstall demo_mutual ''db'' ''1.2.0'' [] (demo_state []) = (Inr ([demo_step ''photos'', root_step (mutual ''db'')], mutual ''db''), demo_state [])"
proof -
  have k: "planInstall m n v i (demo_state w) = (r, demo_state w)"
    if "fst (planInstall m n v i (demo_state w)) = r" "\<And>x. gsClients (snd (planInstall m n v i (demo_state w))) x = None"
      "gsSingle (snd (planInstall m n v i (demo_state w))) = gsSingle (demo_state w)" "gsHost (snd (planInstall m n v i (demo_state w))) = w"
    for m :: "('k, 'c, 'v, unit, 'w) Manager" and n v i w r
    using demo_state_eqI[OF planInstall_tables[of m n v i "demo_state w"] that(2-4)] that(1) by (metis prod.collapse)
  show "planInstall demo_mutual ''photos'' ''1.2.0'' [] (demo_state []) = (Inr ([demo_step ''db'', root_step (mutual ''photos'')], mutual ''photos''), demo_state [])"
    by (rule k; code_simp)
  show "planInstall demo_mutual ''db'' ''1.2.0'' [] (demo_state []) = (Inr ([demo_step ''photos'', root_step (mutual ''db'')], mutual ''db''), demo_state [])"
    by (rule k; code_simp)
qed

theorem cyclic_Install_never_returns_witness:
  "Install demo_mutual {} (demo_request ''photos'') (demo_state []) = None"
proof -
  let ?s = "demo_state []"
  have i: "\<not> installed demo_mutual n ?s" for n
    by (simp add: installed_def GetPluginByName_def demo_manager_def demo_state_def)
  have w: "waits_for demo_mutual (demo_request ''photos'', ?s) (demo_request ''db'', ?s)"
    "waits_for demo_mutual (demo_request ''db'', ?s) (demo_request ''photos'', ?s)"
    using i by (simp_all add: waits_for_def demo_request_def mutual_plans demo_step_def) (simp_all add: demo_manager_def)
  show ?thesis
    by (rule cyclic_Install_never_returns[of _ "[(demo_request ''photos'', ?s), (demo_request ''db'', ?s)]"]) (simp_all add: w)
qed

definition chain :: "string \<Rightarrow> Plugin" where
  "chain b = (if b = ''photos'' then with_deps ''photos'' [tier2 ''db'' ''1.2.0''] else with_deps ''db'' [])"

abbreviation "demo_chain \<equiv> demo_manager id (\<lambda>f w. f) NopProvisioner chain"

lemma demo_state_ok: "state_ok (demo_manager get put prov manifest) (demo_state w)"
  by (simp add: state_ok_def tables_ok_def fits_def demo_state_def)

theorem plugin_tables_agree_witness:
  "tables_ok (snd (the (Install demo_chain {} (demo_request ''photos'') (demo_state [])))) \<and>
   map rwName (gsRows (snd (the (Install demo_chain {} (demo_request ''photos'') (demo_state []))))) = [''db'', ''photos'']"
  (is "tables_ok (snd (the ?I)) \<and> _")
proof -
  have "map_option (\<lambda>x. map rwName (gsRows (snd x))) ?I = Some [''db'', ''photos'']" by code_simp
  then obtain r u where "?I = Some (r, u)" "map rwName (gsRows u) = [''db'', ''photos'']" by auto
  then show ?thesis using plugin_tables_agree[OF demo_state_ok plugin_steps.install[OF plugin_steps.start]] by simp
qed

definition no_deployer :: "'w Deployer" where
  "no_deployer = \<lparr>dyInstall = (\<lambda>p w. (Some (Errorf ''systemctl: failed''), w)), dyUninstall = (\<lambda>n w. (None, w)), dyRestart = (\<lambda>n w. (None, w)),
     dyLogs = (\<lambda>n l w. (Inr [], w))\<rparr>"


definition demo_row :: "string \<Rightarrow> plugin_row" where
  "demo_row n = \<lparr>rwID = n, rwName = n, rwVersion = ''1.2.0'', rwManifest = n, rwStatus = ''installed'', rwInstalledAt = 0, rwUpdatedAt = 0\<rparr>"

definition demo_two :: "'w \<Rightarrow> (unit, 'w) pstate" where
  "demo_two w = (demo_state w)\<lparr>gsRows := [demo_row ''db'', demo_row ''photos''], gsResources := [(''db'', NeedDataset, ''tank/db'')]\<rparr>"

theorem Uninstall_exact_witness:
  "snd (Uninstall demo_chain ''db'' \<lparr>uoPurge = False, uoForce = False\<rparr> (demo_two [])) = demo_two [] \<and>
   fst (Uninstall demo_chain ''db'' \<lparr>uoPurge = False, uoForce = False\<rparr> (demo_two [])) \<noteq> None \<and>
   gsRows (snd (Uninstall demo_chain ''db'' \<lparr>uoPurge = False, uoForce = True\<rparr> (demo_two []))) = [demo_row ''photos''] \<and>
   gsResources (snd (Uninstall demo_chain ''db'' \<lparr>uoPurge = False, uoForce = True\<rparr> (demo_two []))) = []"
proof -
  have d: "dependent demo_chain ''db'' (demo_row ''photos'')" by code_simp
  have ok: "state_ok demo_chain (demo_two [])"
    by (simp add: state_ok_def tables_ok_def fits_def demo_state_def demo_two_def demo_row_def)
  have "pmQueries demo_chain" "pmFault demo_chain = (\<lambda>q. None)" "demo_row ''db'' \<in> set (gsRows (demo_two ([]::files)))" "rwName (demo_row ''db'') = ''db''"
    by (simp_all add: demo_manager_def demo_two_def demo_row_def)
  note U = Uninstall_exact[OF ok this]
  have r: "gsRows (demo_two ([]::files)) = [demo_row ''db'', demo_row ''photos'']" "gsResources (demo_two ([]::files)) = [(''db'', NeedDataset, ''tank/db'')]"
    "rwName (demo_row n) = n" "rwID (demo_row n) = n" for n
    by (simp_all add: demo_two_def demo_row_def)
  show ?thesis using U[of "\<lparr>uoPurge = False, uoForce = False\<rparr>"] U[of "\<lparr>uoPurge = False, uoForce = True\<rparr>"] d
    by (simp add: r split: prod.splits option.splits)
qed

definition failing_oidc :: "'w NeedsProvisioner" where
  "failing_oidc = NopProvisioner\<lparr>ProvisionOIDCClient := (\<lambda>plugin n w. (Inl (Errorf ''connection refused''), w))\<rparr>"

abbreviation "demo_upgrade \<equiv> demo_manager snd (\<lambda>f w. (fst w, f)) (traced failing_oidc) (\<lambda>b. demo_plugin)"



text \<open>The same with a registered marketplace.\<close>

definition demo_multi :: "(string, rows \<times> files) MultiMarketplaceClient" where
  "demo_multi = \<lparr>mmStore = Some (mem_store 0 ''id''), mmEnv = demo_market, mmVerify = demo_verify snd (\<lambda>f w. (fst w, f)),
     mmPluginsRoot = [], mmUUID = Inr\<rparr>"

definition demo_marketplace :: Marketplace where
  "demo_marketplace = \<lparr>mkID = ''m1'', mkName = ''community'', mkIndexURL = ''https://index'', mkTrustKeyURL = [], mkTrustKeyPEM = ''key'',
     mkLocked = False, mkEnabled = True, mkAddedBy = [], mkAddedAt = 0, mkUpdatedAt = 0\<rparr>"

abbreviation "demo_signed \<equiv> (demo_manager snd (\<lambda>f w. (fst w, f)) NopProvisioner chain)\<lparr>pmMulti := Some demo_multi\<rparr>"

lemma demo_reads_back: "reads_back (veFiles (demo_verify snd (\<lambda>f w. (fst w, f))))"
  by (simp add: reads_back_def demo_verify_def)


end
