(* ===== verification/PluginSystemd.thy ===== *)
theory PluginSystemd
  imports PluginTables
begin

text \<open>
  \<^verbatim>\<open>internal/plugins/deploy_systemd.go\<close>: plugins as systemd units, as the deployer of the lifecycle manager. Files, scripts and the
  two commands are parameters on the world.
\<close>

definition PluginRootMagicToken :: string where "PluginRootMagicToken = ''${PLUGIN_ROOT}''"

definition systemdRunDir :: string where "systemdRunDir = ''/etc/systemd/system''"

definition DeploymentSystemd :: string where "DeploymentSystemd = ''systemd''"

text \<open>\<open>strings.ReplaceAll\<close> for a text to replace that is not empty.\<close>

function ReplaceAll :: "string \<Rightarrow> string \<Rightarrow> string \<Rightarrow> string" where
  "ReplaceAll s old new =
     (if s = [] \<or> old = [] then s
      else if HasPrefix s old then new @ ReplaceAll (drop (length old) s) old new
      else hd s # ReplaceAll (tl s) old new)"
  by auto
termination by (relation "measure (\<lambda>(s, _, _). length s)") auto

declare ReplaceAll.simps [simp del]

datatype hook_stat = HookMissing | HookStatError error | HookFile bool bool

text \<open>
  The operating system: \<open>doStat\<close> tells whether a path is a directory and whether it is executable; \<open>doRemove\<close> gives no error for a file that
  does not exist, which the code ignores; \<open>doExec\<close> runs a script in a directory with additional variables.
\<close>

record 'w deploy_os =
  doReadFile :: "string \<Rightarrow> 'w \<Rightarrow> string result \<times> 'w"
  doMkdirAll :: "string \<Rightarrow> 'w \<Rightarrow> error option \<times> 'w"
  doWriteFile :: "string \<Rightarrow> string \<Rightarrow> 'w \<Rightarrow> error option \<times> 'w"
  doRemove :: "string \<Rightarrow> 'w \<Rightarrow> error option \<times> 'w"
  doStat :: "string \<Rightarrow> 'w \<Rightarrow> hook_stat \<times> 'w"
  doChmod :: "string \<Rightarrow> 'w \<Rightarrow> error option \<times> 'w"
  doExec :: "string \<Rightarrow> string \<Rightarrow> string list \<Rightarrow> 'w \<Rightarrow> error option \<times> 'w"

type_synonym 'w SystemctlRunner = "string list \<Rightarrow> 'w \<Rightarrow> error option \<times> 'w"
type_synonym 'w JournalctlRunner = "string list \<Rightarrow> 'w \<Rightarrow> string result \<times> 'w"

definition SystemctlExec_Run :: "'w runner \<Rightarrow> string \<Rightarrow> 'w SystemctlRunner" where
  "SystemctlExec_Run run bin args w =
     (case run (if bin = [] then ''/bin/systemctl'' else bin) args w of
        ((out, e), w) \<Rightarrow> (wrap_err ''systemctl %s: %w (%s)'' e, w))"

definition JournalctlExec_Run :: "'w runner \<Rightarrow> string \<Rightarrow> 'w JournalctlRunner" where
  "JournalctlExec_Run run bin args w =
     (case run (if bin = [] then ''/bin/journalctl'' else bin) args w of
        ((out, Some e), w) \<Rightarrow> (Inl (Wrapf ''journalctl %s: %w (%s)'' e), w)
      | ((out, None), w) \<Rightarrow> (Inr out, w))"

record 'w SystemdDeployer =
  sdPluginsRoot :: string
  sdRunner :: "'w SystemctlRunner option"
  sdJournal :: "'w JournalctlRunner option"
  sdUnitDirOverride :: string

definition NewSystemdDeployer :: "'w runner \<Rightarrow> string \<Rightarrow> 'w SystemdDeployer" where
  "NewSystemdDeployer run pluginsRoot =
     \<lparr>sdPluginsRoot = pluginsRoot, sdRunner = Some (SystemctlExec_Run run []), sdJournal = None, sdUnitDirOverride = []\<rparr>"

definition unitName :: "string \<Rightarrow> string" where
  "unitName plugin = ''nova-plugin-'' @ plugin @ ''.service''"

definition unitDir :: "'w SystemdDeployer \<Rightarrow> string" where
  "unitDir d = (if sdUnitDirOverride d \<noteq> [] then sdUnitDirOverride d else systemdRunDir)"

definition pluginRoot :: "'w SystemdDeployer \<Rightarrow> string \<Rightarrow> string" where
  "pluginRoot d plugin = path_Join [if sdPluginsRoot d = [] then DefaultPluginsRoot else sdPluginsRoot d, plugin]"

definition runStagingHook :: "'w deploy_os \<Rightarrow> 'w SystemdDeployer \<Rightarrow> string \<Rightarrow> string \<Rightarrow> 'w \<Rightarrow> error option \<times> 'w" where
  "runStagingHook os d plugin relPath w =
     (let scriptPath = path_Join [pluginRoot d plugin, relPath];
          exec = (\<lambda>w. case doExec os scriptPath (pluginRoot d plugin)
                    [''PLUGIN_ROOT='' @ pluginRoot d plugin, ''PLUGIN_LIB='' @ pluginRoot d plugin, ''PLUGIN_NAME='' @ plugin] w of
                   (e, w) \<Rightarrow> (wrap_err ''script %q: %w (%s)'' e, w))
      in case doStat os scriptPath w of
           (HookMissing, w) \<Rightarrow> (None, w)
         | (HookStatError e, w) \<Rightarrow> (Some (Wrapf ''stat %q: %w'' e), w)
         | (HookFile isDir executable, w) \<Rightarrow>
             if isDir then (Some (Errorf ''hook %q is a directory''), w)
             else if executable then exec w
             else (case doChmod os scriptPath w of
                     (Some e, w) \<Rightarrow> (Some (Wrapf ''chmod %q: %w'' e), w)
                   | (None, w) \<Rightarrow> exec w))"

text \<open>From \<open>daemon-reload\<close> on.\<close>

definition start_unit ::
    "'w deploy_os \<Rightarrow> 'w SystemdDeployer \<Rightarrow> 'w SystemctlRunner \<Rightarrow> Plugin \<Rightarrow> 'w \<Rightarrow> error option \<times> 'w" where
  "start_unit os d run manifest w =
     (let name = plName manifest; hook = lcPostInstall (psLifecycle (plSpec manifest))
      in case run [''daemon-reload''] w of
           (Some e, w) \<Rightarrow> (Some e, w)
         | (None, w) \<Rightarrow>
             (case runStagingHook os d name ''deploy/install.sh'' w of
                (Some e, w) \<Rightarrow> (Some (Wrapf ''plugins: deploy: install hook: %w'' e), w)
              | (None, w) \<Rightarrow>
                  (case run [''enable'', ''--now'', unitName name] w of
                     (Some e, w) \<Rightarrow> (Some e, w)
                   | (None, w) \<Rightarrow>
                       if hook = [] then (None, w)
                       else (case runStagingHook os d name hook w of
                               (e, w) \<Rightarrow> (wrap_err ''plugins: deploy: postInstall hook: %w'' e, w)))))"

definition systemd_Install :: "'w deploy_os \<Rightarrow> 'w SystemdDeployer \<Rightarrow> Plugin \<Rightarrow> 'w \<Rightarrow> error option \<times> 'w" where
  "systemd_Install os d manifest w =
     (let name = plName manifest; dep = psDeployment (plSpec manifest)
      in if dpType dep \<noteq> DeploymentSystemd then (None, w)
         else if dpUnit dep = [] then (Some (Errorf ''plugins: deploy: empty unit name''), w)
         else case doReadFile os (path_Join [pluginRoot d name, ''deploy'', dpUnit dep]) w of
           (Inl e, w) \<Rightarrow> (Some (Wrapf ''plugins: deploy: read unit %q: %w'' e), w)
         | (Inr body, w) \<Rightarrow>
             (case doMkdirAll os (unitDir d) w of
                (Some e, w) \<Rightarrow> (Some (Wrapf ''plugins: deploy: mkdir %q: %w'' e), w)
              | (None, w) \<Rightarrow>
                  (case doWriteFile os (path_Join [unitDir d, unitName name]) (ReplaceAll body PluginRootMagicToken (pluginRoot d name)) w of
                     (Some e, w) \<Rightarrow> (Some (Wrapf ''plugins: deploy: write unit %q: %w'' e), w)
                   | (None, w) \<Rightarrow> (case sdRunner d of None \<Rightarrow> (None, w) | Some run \<Rightarrow> start_unit os d run manifest w))))"

definition first_error :: "error option \<Rightarrow> error option \<Rightarrow> error option" where
  "first_error a b = (case a of Some e \<Rightarrow> Some e | None \<Rightarrow> b)"

definition run_if :: "'w SystemctlRunner option \<Rightarrow> string list \<Rightarrow> 'w \<Rightarrow> error option \<times> 'w" where
  "run_if r args w = (case r of None \<Rightarrow> (None, w) | Some run \<Rightarrow> run args w)"

definition systemd_Uninstall :: "'w deploy_os \<Rightarrow> 'w SystemdDeployer \<Rightarrow> string \<Rightarrow> 'w \<Rightarrow> error option \<times> 'w" where
  "systemd_Uninstall os d plugin w =
     (case run_if (sdRunner d) [''disable'', ''--now'', unitName plugin] w of (e1, w) \<Rightarrow>
      case doRemove os (path_Join [unitDir d, unitName plugin]) w of (e2, w) \<Rightarrow>
      case run_if (sdRunner d) [''daemon-reload''] w of (e3, w) \<Rightarrow> (first_error e1 (first_error e2 e3), w))"

definition systemd_Restart :: "'w SystemdDeployer \<Rightarrow> string \<Rightarrow> 'w \<Rightarrow> error option \<times> 'w" where
  "systemd_Restart d plugin w =
     (if plugin = [] then (Some (Errorf ''plugins: restart: empty plugin name''), w)
      else case sdRunner d of
        None \<Rightarrow> (Some (Errorf ''plugins: restart: no systemctl runner configured''), w)
      | Some run \<Rightarrow> run [''restart'', unitName plugin] w)"

definition clamp_lines :: "int \<Rightarrow> int" where
  "clamp_lines lines = (let lines = (if lines \<le> 0 then 200 else lines) in if lines > 5000 then 5000 else lines)"

definition systemd_Logs :: "'w runner \<Rightarrow> 'w SystemdDeployer \<Rightarrow> string \<Rightarrow> int \<Rightarrow> 'w \<Rightarrow> string list result \<times> 'w" where
  "systemd_Logs run d plugin lines w =
     (if plugin = [] then (Inl (Errorf ''plugins: logs: empty plugin name''), w)
      else case (case sdJournal d of Some j \<Rightarrow> j | None \<Rightarrow> JournalctlExec_Run run [])
             [''-u'', unitName plugin, ''-n'', dec (nat (clamp_lines lines)), ''--no-pager'', ''--output=short-iso''] w of
        (Inl e, w) \<Rightarrow> (Inl e, w)
      | (Inr out, w) \<Rightarrow>
          (let raw = Split (TrimRightByte out (CHR 0x0A)) (CHR 0x0A) in (Inr (if raw = [[]] then [] else raw), w)))"

definition systemd :: "'w runner \<Rightarrow> 'w deploy_os \<Rightarrow> 'w SystemdDeployer \<Rightarrow> 'w Deployer" where
  "systemd run os d = \<lparr>dyInstall = systemd_Install os d, dyUninstall = systemd_Uninstall os d, dyRestart = systemd_Restart d,
     dyLogs = systemd_Logs run d\<rparr>"


subsection \<open>A deployment that fails half way\<close>

text \<open>The commands given to \<open>systemctl\<close> are noted beside the rest of the world.\<close>

definition noted :: "(string list list \<times> 'x) SystemctlRunner" where
  "noted args w = (None, (fst w @ [args], snd w))"

definition beside_log :: "('x \<Rightarrow> 'a \<times> 'x) \<Rightarrow> string list list \<times> 'x \<Rightarrow> 'a \<times> (string list list \<times> 'x)" where
  "beside_log f w = (case f (snd w) of (r, x) \<Rightarrow> (r, (fst w, x)))"

definition beside :: "'x deploy_os \<Rightarrow> (string list list \<times> 'x) deploy_os" where
  "beside os = \<lparr>doReadFile = (\<lambda>p. beside_log (doReadFile os p)), doMkdirAll = (\<lambda>p. beside_log (doMkdirAll os p)),
     doWriteFile = (\<lambda>p b. beside_log (doWriteFile os p b)), doRemove = (\<lambda>p. beside_log (doRemove os p)),
     doStat = (\<lambda>p. beside_log (doStat os p)), doChmod = (\<lambda>p. beside_log (doChmod os p)),
     doExec = (\<lambda>p d env. beside_log (doExec os p d env))\<rparr>"

lemma beside_simps [simp]:
  "doReadFile (beside os) p (l, x) = (case doReadFile os p x of (r, y) \<Rightarrow> (r, (l, y)))"
  "doMkdirAll (beside os) p (l, x) = (case doMkdirAll os p x of (r1, y) \<Rightarrow> (r1, (l, y)))"
  "doWriteFile (beside os) p b (l, x) = (case doWriteFile os p b x of (r1, y) \<Rightarrow> (r1, (l, y)))"
  "doStat (beside os) p (l, x) = (case doStat os p x of (r2, y) \<Rightarrow> (r2, (l, y)))"
  "doExec (beside os) p d env (l, x) = (case doExec os p d env x of (r1, y) \<Rightarrow> (r1, (l, y)))"
  by (simp_all add: beside_def beside_log_def)

lemma activate_fails:
  assumes "pmDeployer m = Some d" and "dyInstall d p (gsHost s) = (Some e, w)" and "pmFault m ''DeletePlugin'' = None"
  shows "\<exists>s'. activate m name p ui [] row s = (Some (Wrapf ''plugins: deploy: %w'' e), s') \<and>
    gsHost s' = pmRemoveAll m (destDir m name) w \<and> name \<notin> names s'"
proof -
  let ?t = "register_ui m name ui (mount_plugin m name p (add_resources m (rwID row) [] s))"
  have h: "gsHost ?t = gsHost s" by (simp add: register_ui_def mount_plugin_def add_resources_def split: option.splits)
  have u: "gsHost (unmount_plugin m name t) = gsHost t" for t by (simp add: unmount_plugin_def Let_def)
  show ?thesis using assms h u
    by (auto simp: activate_def Let_def run_host_def remove_dir_def release_def on_host_def rollbackNeeds_def DeletePlugin_def)
qed



definition demo_os :: "unit deploy_os" where
  "demo_os = \<lparr>doReadFile = (\<lambda>p w. (Inr ''ExecStart=${PLUGIN_ROOT}/bin'', w)), doMkdirAll = (\<lambda>p w. (None, w)), doWriteFile = (\<lambda>p b w. (None, w)),
     doRemove = (\<lambda>p w. (None, w)), doStat = (\<lambda>p w. (if p = ''/p/photos/deploy/install.sh'' then HookMissing else HookFile False True, w)),
     doChmod = (\<lambda>p w. (None, w)), doExec = (\<lambda>p d env w. (Some (Errorf ''exit status 1''), w))\<rparr>"

definition demo_deployer :: "(string list list \<times> unit) SystemdDeployer" where
  "demo_deployer = \<lparr>sdPluginsRoot = ''/p'', sdRunner = Some noted, sdJournal = None, sdUnitDirOverride = []\<rparr>"

definition hooked :: Plugin where
  "hooked = demo_plugin\<lparr>plSpec := (plSpec demo_plugin)\<lparr>psLifecycle := \<lparr>lcPreInstall = [], lcPostInstall = ''seed.sh'', lcPreUninstall = []\<rparr>\<rparr>\<rparr>"


end
