(* ===== verification/ShareFiles.thy ===== *)
theory ShareFiles
  imports GoPath
begin

text \<open>
  What the managers of NFS exports and Samba shares have in common: the \<open>FileWriter\<close> over the files of the host
  (\<^verbatim>\<open>internal/host/nfs/nfs.go\<close> and \<^verbatim>\<open>internal/host/samba/samba.go\<close> declare it twice), the names of managed files, and lemmas about the
  text functions of the standard library on lines that the managers write.

  The files are a map from paths to contents, next to the rest of the world. The commands that the managers run read the
  files and act on the rest of the world: they do not write the files of the managers. Each file operation may be made to
  fail by a fault, which may depend on the rest of the world, so that a later write to the same path need not fare as the
  first; a write that fails leaves any content.
\<close>

record 'x host =
  hsFiles :: "string \<rightharpoonup> string"
  hsRest :: 'x

definition ErrNotExist :: error where "ErrNotExist = Errorf ''file does not exist''"

record 'x faults =
  ftWrite :: "'x \<Rightarrow> string \<Rightarrow> (error \<times> string option) option"
  ftRemove :: "'x \<Rightarrow> string \<Rightarrow> error option"
  ftRead :: "'x \<Rightarrow> string \<Rightarrow> error option"
  ftReadDir :: "'x \<Rightarrow> string \<Rightarrow> error option"
  ftNames :: "string \<Rightarrow> (string \<rightharpoonup> string) \<Rightarrow> (string \<times> bool) list"

definition fw_Write :: "'x faults \<Rightarrow> string \<Rightarrow> string \<Rightarrow> 'x host \<Rightarrow> error option \<times> 'x host" where
  "fw_Write f path dat h =
     (case ftWrite f (hsRest h) path of
        Some (e, left) \<Rightarrow> (Some e, h\<lparr>hsFiles := (hsFiles h)(path := left)\<rparr>)
      | None \<Rightarrow> (None, h\<lparr>hsFiles := (hsFiles h)(path \<mapsto> dat)\<rparr>))"

definition fw_Remove :: "'x faults \<Rightarrow> string \<Rightarrow> 'x host \<Rightarrow> error option \<times> 'x host" where
  "fw_Remove f path h =
     (if hsFiles h path = None then (Some ErrNotExist, h)
      else case ftRemove f (hsRest h) path of Some e \<Rightarrow> (Some e, h) | None \<Rightarrow> (None, h\<lparr>hsFiles := (hsFiles h)(path := None)\<rparr>))"

definition fw_ReadFile :: "'x faults \<Rightarrow> string \<Rightarrow> 'x host \<Rightarrow> string result" where
  "fw_ReadFile f path h =
     (case hsFiles h path of
        None \<Rightarrow> Inl ErrNotExist
      | Some d \<Rightarrow> (case ftRead f (hsRest h) path of Some e \<Rightarrow> Inl e | None \<Rightarrow> Inr d))"

text \<open>The entries of a directory with whether they are directories; \<open>ftNames\<close> lists them in the order of the file system.\<close>

definition fw_ReadDir :: "'x faults \<Rightarrow> string \<Rightarrow> 'x host \<Rightarrow> (string \<times> bool) list result" where
  "fw_ReadDir f dir h = (case ftReadDir f (hsRest h) dir of Some e \<Rightarrow> Inl e | None \<Rightarrow> Inr (ftNames f dir (hsFiles h)))"

text \<open>A command sees the files and acts on the rest of the world.\<close>

type_synonym 'x host_runner = "(string \<rightharpoonup> string) \<Rightarrow> 'x runner"

definition host_run :: "'x host_runner \<Rightarrow> string \<Rightarrow> string list \<Rightarrow> 'x host \<Rightarrow> string result \<times> 'x host" where
  "host_run run bin args h =
     (case run (hsFiles h) bin args (hsRest h) of
        ((out, Some e), x) \<Rightarrow> (Inl e, h\<lparr>hsRest := x\<rparr>)
      | ((out, None), x) \<Rightarrow> (Inr out, h\<lparr>hsRest := x\<rparr>))"

lemma host_run_files [simp]: "hsFiles (snd (host_run run bin args h)) = hsFiles h"
  by (simp add: host_run_def split: prod.splits option.splits)

lemma host_run_eq: "host_run run bin args h = (r, h') \<Longrightarrow> hsFiles h' = hsFiles h"
  using host_run_files[of run bin args h] by simp

text \<open>The errors that the file system and the commands give are none of those that the managers tell apart.\<close>

definition plain_errors :: "'x faults \<Rightarrow> 'x host_runner \<Rightarrow> error \<Rightarrow> bool" where
  "plain_errors f run t \<longleftrightarrow>
     (\<forall>x p e left. ftWrite f x p = Some (e, left) \<longrightarrow> \<not> errors_Is e t) \<and>
     (\<forall>x p e. ftRemove f x p = Some e \<or> ftRead f x p = Some e \<longrightarrow> \<not> errors_Is e t \<and> \<not> errors_Is e ErrNotExist) \<and>
     (\<forall>fs b as x e. snd (fst (run fs b as x)) = Some e \<longrightarrow> \<not> errors_Is e t)"

lemma host_run_plain: "plain_errors f run t \<Longrightarrow> host_run run bin args h = (Inl e, h') \<Longrightarrow> \<not> errors_Is e t"
  by (auto simp: plain_errors_def host_run_def split: prod.splits option.splits) (metis fst_conv snd_conv)+

subsection \<open>Names\<close>

text \<open>The rule for names that both managers and the unified shares have.\<close>

definition alnum :: "char \<Rightarrow> bool" where
  "alnum c \<longleftrightarrow> of_char c \<in> {97..(122::nat)} \<or> of_char c \<in> {65..(90::nat)} \<or> is_digit c"

definition name_char :: "char \<Rightarrow> bool" where
  "name_char c \<longleftrightarrow> alnum c \<or> c = CHR ''_'' \<or> c = CHR ''-''"

definition validate_name :: "string \<Rightarrow> string \<Rightarrow> error option" where
  "validate_name kind name =
     (if name = [] then Some (Errorf (kind @ '' name required''))
      else if length name > 64 then Some (Errorf (kind @ '' name too long (>64): %q''))
      else if HasPrefix name ''-'' then Some (Errorf (kind @ '' name cannot start with '-': %q''))
      else if list_all name_char name then None
      else Some (Errorf (kind @ '' name contains invalid character %q in %q'')))"

definition or_else :: "error option \<Rightarrow> error option \<Rightarrow> error option" where
  "or_else a b = (case a of Some e \<Rightarrow> Some e | None \<Rightarrow> b)"

definition control_char :: "char \<Rightarrow> bool" where
  "control_char c \<longleftrightarrow> (of_char c :: nat) < 32 \<or> c = CHR 0x7F"

text \<open>The name that a directory entry is the managed file of.\<close>

definition managed_entry :: "string \<Rightarrow> string \<Rightarrow> (string \<Rightarrow> error option) \<Rightarrow> string \<times> bool \<Rightarrow> string option" where
  "managed_entry prefix ext valid ent =
     (let fname = fst ent; n = TrimSuffix (TrimPrefix fname prefix) ext
      in if snd ent \<or> \<not> HasPrefix fname prefix \<or> \<not> HasSuffix fname ext \<or> valid n \<noteq> None then None else Some n)"

subsection \<open>Lines\<close>

lemma HasSuffix_single [simp]: "HasSuffix (s @ [c]) [c]"
  by (simp add: HasSuffix_def)

text \<open>The visible ASCII characters.\<close>

definition plain_char :: "char \<Rightarrow> bool" where
  "plain_char c \<longleftrightarrow> of_char c \<in> {33..(126::nat)}"

lemma encodings_not_plain:
  "e \<in> set space_encodings \<Longrightarrow> e \<noteq> [] \<and> \<not> plain_char (hd e) \<and> \<not> plain_char (last e)"
proof -
  have "list_all (\<lambda>e. e \<noteq> [] \<and> \<not> plain_char (hd e) \<and> \<not> plain_char (last e)) space_encodings"
    by (simp add: space_encodings_def plain_char_def)
  then show "e \<in> set space_encodings \<Longrightarrow> e \<noteq> [] \<and> \<not> plain_char (hd e) \<and> \<not> plain_char (last e)" by (simp add: list_all_iff)
qed

lemma space_len_plain [simp]: "plain_char c \<Longrightarrow> space_len (c # s) = 0"
proof -
  assume c: "plain_char c"
  have "\<not> HasPrefix (c # s) e" if "e \<in> set space_encodings" for e
    using encodings_not_plain[OF that] c by (cases e) (auto simp: HasPrefix_iff)
  then have "find (HasPrefix (c # s)) space_encodings = None" by (simp add: find_None_iff)
  then show "space_len (c # s) = 0" by (simp add: space_len_def)
qed

lemma rspace_len_plain [simp]: "plain_char c \<Longrightarrow> rspace_len (c # s) = 0"
proof -
  assume c: "plain_char c"
  have "\<not> HasPrefix (c # s) (rev e)" if "e \<in> set space_encodings" for e
    using encodings_not_plain[OF that] c by (cases e rule: rev_cases) (auto simp: HasPrefix_iff)
  then have "find (HasPrefix (c # s)) (map rev space_encodings) = None" by (simp add: find_None_iff)
  then show "rspace_len (c # s) = 0" by (simp add: rspace_len_def)
qed

lemma space_len_blank [simp]: "space_len (CHR '' '' # s) = 1"
  by (simp add: space_len_def space_encodings_def HasPrefix_def)

lemma trim_left_plain: "plain_char c \<Longrightarrow> trim_left (c # s) = c # s"
  by (subst trim_left.simps) simp

lemma trim_left_blank: "trim_left (CHR '' '' # s) = trim_left s"
  by (subst trim_left.simps) simp

lemma trim_rev_plain: "plain_char c \<Longrightarrow> trim_rev (c # s) = c # s"
  by (subst trim_rev.simps) simp

lemma trim_rev_blank: "trim_rev (CHR '' '' # s) = trim_rev s"
  by (subst trim_rev.simps) (simp add: rspace_len_def space_encodings_def HasPrefix_def)

lemma TrimSpace_blank [simp]: "TrimSpace (CHR '' '' # s) = TrimSpace s"
  by (simp add: TrimSpace_def trim_left_blank)

lemma TrimSpace_plain:
  assumes "s \<noteq> []" and "plain_char (hd s)" and "plain_char (last s)"
  shows "TrimSpace s = s"
proof -
  have "trim_left s = s" using assms(1,2) trim_left_plain by (cases s) auto
  moreover have "trim_rev (rev s) = rev s" using assms(1,3) trim_rev_plain by (cases s rule: rev_cases) auto
  ultimately show ?thesis by (simp add: TrimSpace_def)
qed

lemma TrimSpace_Nil [simp]: "TrimSpace [] = []"
  by code_simp

text \<open>Fields of words that are separated by blanks.\<close>

lemma fields_word: "list_all plain_char w \<Longrightarrow> fields_from cur (w @ s) = fields_from (cur @ w) s"
proof (induction w arbitrary: cur)
  case (Cons c w)
  then show ?case by (subst fields_from.simps) simp
qed simp

lemma fields_blank: "fields_from cur (CHR '' '' # s) = (if cur = [] then [] else [cur]) @ fields_from [] s"
  by (subst fields_from.simps) simp

lemma fields_end: "fields_from cur [] = (if cur = [] then [] else [cur])"
  by (subst fields_from.simps) simp

definition word :: "string \<Rightarrow> bool" where
  "word w \<longleftrightarrow> w \<noteq> [] \<and> list_all plain_char w"

lemma Fields_words:
  assumes "list_all word ws" and "list_all (\<lambda>c. c = CHR '' '') sep" and "sep \<noteq> []"
  shows "Fields (Join ws sep) = ws"
proof -
  have b: "fields_from [] (sep' @ s) = fields_from [] s" if "list_all (\<lambda>c. c = CHR '' '') sep'" for sep' s using that
    by (induction sep') (simp_all add: fields_blank)
  show ?thesis using assms
  proof (induction ws sep rule: Join.induct)
    case (3 x y ys sep)
    obtain sep' where sep: "sep = CHR '' '' # sep'" "list_all (\<lambda>c. c = CHR '' '') sep'" using 3(3,4) by (cases sep) auto
    have "Fields (Join (x # y # ys) sep) = fields_from x (CHR '' '' # sep' @ Join (y # ys) sep)"
      using 3(2) fields_word[of x "[]"] by (simp add: Fields_def word_def sep(1))
    also have "\<dots> = x # Fields (Join (y # ys) sep)" using 3(2) b[OF sep(2)] by (simp add: fields_blank Fields_def word_def)
    finally show ?case using 3 by simp
  qed (simp_all add: Fields_def fields_end word_def fields_word[of _ _ "[]", simplified])
qed

text \<open>Text that is written line by line is read back line by line.\<close>

definition unlines :: "string list \<Rightarrow> string" where
  "unlines ls = concat (map (\<lambda>l. l @ [LF]) ls)"

lemma Split_unlines:
  assumes "list_all (\<lambda>l. LF \<notin> set l) ls"
  shows "Split (unlines ls) LF = ls @ [[]]"
  using assms by (induction ls) (simp_all add: unlines_def Split_sep Split_single)

lemma scan_unlines:
  assumes "list_all (\<lambda>l. LF \<notin> set l \<and> CHR 0x0D \<notin> set l) ls" and "list_all (\<lambda>l. int (length l) < cap) ls"
  shows "scan_lines cap (unlines ls) = (ls, None)"
proof -
  have r: "raw_lines (unlines ls) = ls" using Split_unlines[of ls] assms(1) by (simp add: raw_lines_def list_all_iff)
  have t: "takeWhile (\<lambda>l. int (length l) < cap) ls = ls" using assms(2) by (simp add: takeWhile_eq_all_conv list_all_iff)
  have c: "drop_cr l = l" if "CHR 0x0D \<notin> set l" for l using that by (metis drop_cr_def last_in_set)
  then have "map drop_cr ls = ls" using assms(1) by (induction ls) auto
  then show ?thesis by (simp only: scan_lines_def Let_def r t) simp
qed

lemma line_ends:
  "\<not> plain_char LF \<and> \<not> plain_char (CHR 0x0D)" "LF \<noteq> CHR '' '' \<and> CHR 0x0D \<noteq> CHR '' ''"
  "control_char LF \<and> control_char (CHR 0x0D) \<and> control_char TAB" "\<not> plain_char (CHR '' '')" "plain_char (CHR ''/'')"
  by (simp_all add: plain_char_def LF_def TAB_def control_char_def)

subsection \<open>Names of files\<close>

lemma name_chars: "validate_name k n = None \<Longrightarrow> n \<noteq> [] \<and> list_all name_char n"
  by (auto simp: validate_name_def split: if_splits)

lemma name_char_plain: "name_char c \<Longrightarrow> plain_char c \<and> c \<noteq> CHR ''/'' \<and> c \<noteq> CHR ''.''"
  by (auto simp: name_char_def alnum_def is_digit_def plain_char_def)

lemma path_Join_name:
  assumes "rooted_path dir" and "name_elem f" and "CHR ''/'' \<notin> set f"
  shows "path_Join [dir, f] = CHR ''/'' # Join (path_elems dir @ [f]) ''/''"
proof -
  have d: "dir \<noteq> []" "rooted_path (dir @ CHR ''/'' # f)" using assms(1) by (auto simp: rooted_path_def HasPrefix_iff)
  have "clean_elems True (rev (path_elems dir)) [f] = path_elems dir @ [f]"
    using clean_elems_id[of "[f]" True "rev (path_elems dir)"] assms(2) by simp
  then have "path_elems (dir @ CHR ''/'' # f) = path_elems dir @ [f]"
    using assms(1) d(2) Split_single[OF assms(3)]
    by (simp only: path_elems_def Split_sep clean_elems_append)
  then show ?thesis using d by (simp add: path_Join_def Clean_rooted)
qed

text \<open>The path of a managed file determines the directory and the name of the file.\<close>

lemma path_Join_name_elems:
  assumes "rooted_path dir" and "name_elem f" and "CHR ''/'' \<notin> set f"
  shows "path_elems (path_Join [dir, f]) = path_elems dir @ [f]"
  unfolding path_Join_name[OF assms] using rooted_elems[OF assms(1)] assms(2,3) by (intro path_elems_of) auto

lemma managed_name:
  assumes "validate_name k n = None" and "CHR ''/'' \<notin> set (prefix @ ext)" and "2 < length ext"
  shows "name_elem (prefix @ n @ ext)" and "CHR ''/'' \<notin> set (prefix @ n @ ext)"
proof -
  have "length (prefix @ n @ ext) \<noteq> 0" "length (prefix @ n @ ext) \<noteq> length ''.''" "length (prefix @ n @ ext) \<noteq> length ''..''"
    using assms(3) by auto
  then show "name_elem (prefix @ n @ ext)" unfolding name_elem_def by (metis list.size(3))
  show "CHR ''/'' \<notin> set (prefix @ n @ ext)" using assms(2) name_chars[OF assms(1)] name_char_plain by (auto simp: list_all_iff)
qed

subsection \<open>What a manager of shares promises\<close>

text \<open>Each published entry has one file, named after it. The laws say what creating, updating and deleting an entry do to the
  files: nothing but the file of the entry changes; what succeeds leaves the text of the entry, or no file; creating never
  overwrites; and the answer that an entry is not found means that there is no file and that nothing was done.\<close>

locale share_store =
  fixes ok :: "'m \<Rightarrow> bool"
    and create :: "'m \<Rightarrow> 'e \<Rightarrow> 'x host \<Rightarrow> error option \<times> 'x host"
    and update :: "'m \<Rightarrow> 'e \<Rightarrow> 'x host \<Rightarrow> error option \<times> 'x host"
    and delete :: "'m \<Rightarrow> string \<Rightarrow> 'x host \<Rightarrow> error option \<times> 'x host"
    and file_of :: "'m \<Rightarrow> string \<Rightarrow> string"
    and key :: "'e \<Rightarrow> string"
    and text_of :: "'m \<Rightarrow> 'e \<Rightarrow> string"
    and not_found :: error
  assumes create_frame: "create m e h = (r, h') \<Longrightarrow> p \<noteq> file_of m (key e) \<Longrightarrow> hsFiles h' p = hsFiles h p"
    and create_ok: "create m e h = (None, h') \<Longrightarrow> hsFiles h' (file_of m (key e)) = Some (text_of m e)"
    and create_taken: "ok m \<Longrightarrow> hsFiles h (file_of m (key e)) \<noteq> None \<Longrightarrow> \<exists>err. create m e h = (Some err, h)"
    and update_frame: "update m e h = (r, h') \<Longrightarrow> p \<noteq> file_of m (key e) \<Longrightarrow> hsFiles h' p = hsFiles h p"
    and update_ok: "update m e h = (None, h') \<Longrightarrow>
          hsFiles h (file_of m (key e)) \<noteq> None \<and> hsFiles h' (file_of m (key e)) = Some (text_of m e)"
    and update_missing: "ok m \<Longrightarrow> update m e h = (Some err, h') \<Longrightarrow> errors_Is err not_found \<Longrightarrow>
          h' = h \<and> hsFiles h (file_of m (key e)) = None"
    and delete_frame: "delete m n h = (r, h') \<Longrightarrow> p \<noteq> file_of m n \<Longrightarrow> hsFiles h' p = hsFiles h p"
    and delete_ok: "delete m n h = (None, h') \<Longrightarrow> hsFiles h (file_of m n) \<noteq> None \<and> hsFiles h' (file_of m n) = None"
    and delete_missing: "ok m \<Longrightarrow> delete m n h = (Some err, h') \<Longrightarrow> errors_Is err not_found \<Longrightarrow>
          h' = h \<and> hsFiles h (file_of m n) = None"
begin

lemma create_files: "create m e h = (None, h') \<Longrightarrow> hsFiles h' = (hsFiles h)(file_of m (key e) \<mapsto> text_of m e)"
  by (rule ext) (auto dest: create_ok create_frame)

lemma update_files: "update m e h = (None, h') \<Longrightarrow> hsFiles h' = (hsFiles h)(file_of m (key e) \<mapsto> text_of m e)"
  by (rule ext) (auto dest: update_ok update_frame)

lemma delete_files: "delete m n h = (None, h') \<Longrightarrow> hsFiles h' = (hsFiles h)(file_of m n := None)"
  by (rule ext) (auto dest: delete_ok delete_frame)

text \<open>What is created can be deleted: the file is as it was.\<close>

lemma create_delete:
  assumes "ok m" and "create m e h = (None, h1)" and "hsFiles h2 = hsFiles h1" and "delete m (key e) h2 = (None, h3)"
  shows "hsFiles h3 = hsFiles h"
proof -
  have "hsFiles h (file_of m (key e)) = None" using create_taken[OF assms(1), of h e] assms(2) by (cases "hsFiles h (file_of m (key e))") auto
  then show ?thesis using create_files[OF assms(2)] delete_files[OF assms(4)] assms(3) by auto
qed

end

text \<open>Steps that the managers share.\<close>

lemma fw_ReadFile_missing: "fw_ReadFile f p h = Inl e \<Longrightarrow> plain_errors f run t \<Longrightarrow> errors_Is e ErrNotExist \<Longrightarrow> hsFiles h p = None"
  by (auto simp: fw_ReadFile_def plain_errors_def split: option.splits)

lemma fw_ReadFile_taken: "plain_errors f run t \<Longrightarrow> hsFiles h p \<noteq> None \<Longrightarrow> fw_ReadFile f p h = Inl e \<Longrightarrow> \<not> errors_Is e ErrNotExist \<and> \<not> errors_Is e t"
  by (auto simp: fw_ReadFile_def plain_errors_def split: option.splits)

lemma fw_ReadFile_Inr: "fw_ReadFile f p h = Inr d \<Longrightarrow> hsFiles h p = Some d"
  by (auto simp: fw_ReadFile_def split: option.splits)

lemma fw_Write_frame: "fw_Write f p d h = (r, h') \<Longrightarrow> q \<noteq> p \<Longrightarrow> hsFiles h' q = hsFiles h q"
  by (auto simp: fw_Write_def split: option.splits)

lemma fw_Write_ok: "fw_Write f p d h = (None, h') \<Longrightarrow> hsFiles h' p = Some d"
  by (auto simp: fw_Write_def split: option.splits)

lemma fw_Write_plain: "plain_errors f run t \<Longrightarrow> fw_Write f p d h = (Some e, h') \<Longrightarrow> \<not> errors_Is e t"
  by (auto simp: fw_Write_def plain_errors_def split: option.splits)

lemma fw_Remove_frame: "fw_Remove f p h = (r, h') \<Longrightarrow> q \<noteq> p \<Longrightarrow> hsFiles h' q = hsFiles h q"
  by (auto simp: fw_Remove_def split: option.splits if_splits)

lemma fw_Remove_ok: "fw_Remove f p h = (None, h') \<Longrightarrow> hsFiles h p \<noteq> None \<and> hsFiles h' p = None"
  by (auto simp: fw_Remove_def split: option.splits if_splits)

lemma ErrNotExist_is [simp]: "errors_Is ErrNotExist ErrNotExist"
  by (simp add: ErrNotExist_def)

lemma fw_Remove_missing:
  "plain_errors f run t \<Longrightarrow> fw_Remove f p h = (Some e, h') \<Longrightarrow>
     h' = h \<and> (errors_Is e ErrNotExist \<longrightarrow> hsFiles h p = None) \<and> (\<not> errors_Is e ErrNotExist \<longrightarrow> \<not> errors_Is e t)"
  by (auto simp: fw_Remove_def plain_errors_def split: option.splits if_splits)

lemma or_else_not: "(\<And>e. a = Some e \<Longrightarrow> \<not> errors_Is e t) \<Longrightarrow> (\<And>e. b = Some e \<Longrightarrow> \<not> errors_Is e t) \<Longrightarrow> or_else a b = Some err \<Longrightarrow> \<not> errors_Is err t"
  by (auto simp: or_else_def split: option.splits)

end
