(* ===== verification/Nfs.thy ===== *)
theory Nfs
  imports ShareFiles GoJson
begin

text \<open>
  \<^verbatim>\<open>internal/host/nfs/nfs.go\<close>: NFS exports as files with one line each, and the parsers that read them and the output of \<open>exportfs -v\<close>
  back. Package \<open>net\<close> is modelled as far as the code uses it: whether a text is an address or a network.
\<close>

subsection \<open>Addresses\<close>

text \<open>The fields of an IPv4 address: decimal, at most 255, no leading zero.\<close>

definition ipv4_field :: "string \<Rightarrow> bool" where
  "ipv4_field s \<longleftrightarrow> s \<noteq> [] \<and> list_all is_digit s \<and> (s = ''0'' \<or> hd s \<noteq> CHR ''0'') \<and> length s \<le> 3 \<and> digits_val s \<le> 255"

definition parseIPv4 :: "string \<Rightarrow> bool" where
  "parseIPv4 s \<longleftrightarrow> length (Split s (CHR ''.'')) = 4 \<and> list_all ipv4_field (Split s (CHR ''.''))"

definition hex_digit :: "char \<Rightarrow> bool" where
  "hex_digit c \<longleftrightarrow> is_digit c \<or> of_char c \<in> {97..(102::nat)} \<or> of_char c \<in> {65..(70::nat)}"

text \<open>The loop over the groups of an IPv6 address: \<open>n\<close> groups are left, \<open>ell\<close> tells whether the double colon was seen.\<close>

fun ipv6_groups :: "nat \<Rightarrow> bool \<Rightarrow> string \<Rightarrow> bool" where
  "ipv6_groups 0 ell s \<longleftrightarrow> s = [] \<and> \<not> ell"
| "ipv6_groups (Suc n) ell s \<longleftrightarrow>
     (let hex = takeWhile hex_digit s; r = dropWhile hex_digit s
      in hex \<noteq> [] \<and> (
         (case r of
            [] \<Rightarrow> length hex \<le> 4 \<and> (n = 0 \<or> ell) \<and> (n = 0 \<longrightarrow> \<not> ell)
          | c # r' \<Rightarrow>
              if c = CHR ''.'' then length hex \<le> 4 \<and> n \<ge> 1 \<and> (ell \<or> n = 1) \<and> parseIPv4 s \<and> (n = 1 \<longrightarrow> \<not> ell)
              else length hex \<le> 4 \<and> c = CHR '':'' \<and> r' \<noteq> [] \<and>
                   (if hd r' = CHR '':''
                    then \<not> ell \<and> (if tl r' = [] then n \<noteq> 0 else ipv6_groups n True (tl r'))
                    else ipv6_groups n ell r'))))"

definition parseIPv6 :: "string \<Rightarrow> bool" where
  "parseIPv6 s \<longleftrightarrow>
     (if HasPrefix s ''::'' then (drop 2 s = [] \<or> ipv6_groups 8 True (drop 2 s)) else ipv6_groups 8 False s)"

text \<open>\<open>netip.ParseAddr\<close> without a zone: the first dot, colon or percent sign decides. The result is the number of bits.\<close>

definition ParseAddr :: "string \<Rightarrow> nat option" where
  "ParseAddr s =
     (case find (\<lambda>c. c = CHR ''.'' \<or> c = CHR '':'' \<or> c = CHR 0x25) s of
        None \<Rightarrow> None
      | Some c \<Rightarrow>
          if c = CHR ''.'' then (if parseIPv4 s then Some 32 else None)
          else if c = CHR '':'' \<and> CHR 0x25 \<notin> set s \<and> parseIPv6 s then Some 128 else None)"

definition ParseCIDR :: "string \<Rightarrow> bool" where
  "ParseCIDR s =
     (case IndexByte s (CHR ''/'') of
        None \<Rightarrow> False
      | Some i \<Rightarrow>
          (case ParseAddr (take i s) of
             None \<Rightarrow> False
           | Some bits \<Rightarrow>
               (let mask = drop (i + 1) s in mask \<noteq> [] \<and> list_all is_digit mask \<and> digits_val mask \<le> int bits)))"

subsection \<open>Types and defaults\<close>

definition ErrNotFound :: error where "ErrNotFound = Errorf ''export not found''"

record ClientRule =
  crSpec :: string
  crOptions :: string

record Export =
  exName :: string
  exPath :: string
  exClients :: "ClientRule list"

record ActiveExport =
  aePath :: string
  aeClient :: string
  aeOptions :: string

record 'x Manager =
  nfExportsBin :: string
  nfExportsDir :: string
  nfFilePrefix :: string
  nfRequireKerberos :: bool
  nfRunner :: "'x host_runner"
  nfFaults :: "'x faults"

definition nfs_bin :: "'x Manager \<Rightarrow> string" where
  "nfs_bin m = (if nfExportsBin m = [] then ''/usr/sbin/exportfs'' else nfExportsBin m)"

definition nfs_dir :: "'x Manager \<Rightarrow> string" where
  "nfs_dir m = (if nfExportsDir m = [] then ''/etc/exports.d'' else nfExportsDir m)"

definition nfs_prefix :: "'x Manager \<Rightarrow> string" where
  "nfs_prefix m = (if nfFilePrefix m = [] then ''nova-nas-'' else nfFilePrefix m)"

definition nfs_filePath :: "'x Manager \<Rightarrow> string \<Rightarrow> string" where
  "nfs_filePath m name = path_Join [nfs_dir m, nfs_prefix m @ name @ ''.exports'']"

subsection \<open>Validation\<close>

definition validateExportName :: "string \<Rightarrow> error option" where
  "validateExportName = validate_name ''export''"

definition path_forbidden :: "char list" where
  "path_forbidden = [CHR '' '', CHR 0x09, CHR '';'', CHR ''|'', CHR ''&'', CHR ''$'', CHR 0x60, CHR 0x5C, CHR 0x22, CHR 0x27, CHR ''<'', CHR ''>'', CHR ''*'', CHR ''?'',
     CHR ''('', CHR '')'', CHR ''{'', CHR ''}'', CHR ''['', CHR '']'']"

definition validateExportPath :: "string \<Rightarrow> error option" where
  "validateExportPath p =
     (if p = [] then Some (Errorf ''export path required'')
      else if \<not> HasPrefix p ''/'' then Some (Errorf ''export path must be absolute: %q'')
      else if CHR 0x00 \<in> set p then Some (Errorf ''export path contains NUL'')
      else if ''..'' \<in> set (Split p (CHR ''/'')) then Some (Errorf ''export path must not contain '..': %q'')
      else case find (\<lambda>c. control_char c \<or> c \<in> set path_forbidden) p of
             None \<Rightarrow> None
           | Some c \<Rightarrow> Some (Errorf (if control_char c then ''export path contains control character: %q''
                                     else ''export path contains forbidden character %q: %q'')))"

definition host_char :: "char \<Rightarrow> bool" where
  "host_char c \<longleftrightarrow> alnum c \<or> c = CHR ''.'' \<or> c = CHR ''-'' \<or> c = CHR ''*'' \<or> c = CHR ''?''"

definition validateClientSpec :: "string \<Rightarrow> error option" where
  "validateClientSpec s =
     (if s = [] then Some (Errorf ''client spec required'')
      else if s = ''*'' then None
      else if CHR ''/'' \<in> set s then (if ParseCIDR s then None else Some (Wrapf ''invalid CIDR %q: %w'' (Errorf ''invalid CIDR address: %s'')))
      else if ParseAddr s \<noteq> None then None
      else if HasPrefix s ''-'' then Some (Errorf ''client spec cannot start with '-': %q'')
      else if list_all host_char s then None
      else Some (Errorf ''client spec contains invalid character %q in %q''))"

definition option_char :: "char \<Rightarrow> bool" where
  "option_char c \<longleftrightarrow> alnum c \<or> c = CHR ''='' \<or> c = CHR '','' \<or> c = CHR ''/'' \<or> c = CHR ''-'' \<or> c = CHR ''_'' \<or> c = CHR '':''"

definition validateExportOptions :: "string \<Rightarrow> error option" where
  "validateExportOptions opts =
     (if opts = [] then Some (Errorf ''export options required'')
      else if length opts > 256 then Some (Errorf ''export options too long (>256)'')
      else if list_all option_char opts then None
      else Some (Errorf ''export options contain invalid character %q in %q''))"

fun validate_clients :: "ClientRule list \<Rightarrow> error option" where
  "validate_clients [] = None"
| "validate_clients (c # cs) =
     or_else (wrap_err ''client[%d]: %w'' (or_else (validateClientSpec (crSpec c)) (validateExportOptions (crOptions c)))) (validate_clients cs)"

definition validateExport :: "Export \<Rightarrow> error option" where
  "validateExport e =
     or_else (validateExportName (exName e)) (or_else (validateExportPath (exPath e))
       (if exClients e = [] then Some (Errorf ''at least one client rule required'') else validate_clients (exClients e)))"

definition sec_token :: "string \<Rightarrow> bool" where
  "sec_token tok \<longleftrightarrow>
     (let k = TrimSpace tok
      in k \<noteq> [] \<and> EqualFold (case IndexByte k (CHR ''='') of None \<Rightarrow> k | Some i \<Rightarrow> take i k) ''sec'')"

definition hasSecOption :: "string \<Rightarrow> bool" where
  "hasSecOption opts = list_ex sec_token (Split opts (CHR '',''))"

definition applyKerberosDefault :: "'x Manager \<Rightarrow> Export \<Rightarrow> Export" where
  "applyKerberosDefault m e =
     (if \<not> nfRequireKerberos m then e
      else e\<lparr>exClients := map (\<lambda>c. if hasSecOption (crOptions c) then c
               else \<lparr>crSpec = crSpec c, crOptions = (if crOptions c = [] then ''sec=krb5p'' else ''sec=krb5p,'' @ crOptions c)\<rparr>) (exClients e)\<rparr>)"

subsection \<open>Rendering and parsing\<close>

definition render_client :: "ClientRule \<Rightarrow> string" where
  "render_client c = crSpec c @ ''('' @ crOptions c @ '')''"

definition export_line :: "Export \<Rightarrow> string" where
  "export_line e = exPath e @ concat (map (\<lambda>c. '' '' @ render_client c) (exClients e))"

definition renderExportFile :: "Export \<Rightarrow> string" where
  "renderExportFile e = export_line e @ [LF]"

definition parse_client :: "string \<Rightarrow> ClientRule result" where
  "parse_client tok =
     (case IndexByte tok (CHR ''('') of
        None \<Rightarrow> Inl (Errorf ''malformed client token %q'')
      | Some op \<Rightarrow>
          if \<not> HasSuffix tok '')'' then Inl (Errorf ''malformed client token %q'')
          else if op = 0 then Inl (Errorf ''client token missing spec: %q'')
          else Inr \<lparr>crSpec = take op tok, crOptions = take (length tok - 1 - (op + 1)) (drop (op + 1) tok)\<rparr>)"

definition parseClientList :: "string \<Rightarrow> ClientRule list result" where
  "parseClientList s =
     bindE (seqE (map parse_client (Fields s))) (\<lambda>out. if out = [] then Inl (Errorf ''no client rules parsed from %q'') else Inr out)"

fun IndexAny :: "string \<Rightarrow> string \<Rightarrow> nat option" where
  "IndexAny [] cs = None"
| "IndexAny (c # s) cs = (if c \<in> set cs then Some 0 else map_option Suc (IndexAny s cs))"

definition parseExportLine :: "string \<Rightarrow> Export result" where
  "parseExportLine line =
     (case IndexAny line [CHR '' '', TAB] of
        None \<Rightarrow> Inl (Errorf ''export line missing client list: %q'')
      | Some idx \<Rightarrow>
          (let rest = TrimSpace (drop (idx + 1) line)
           in if rest = [] then Inl (Errorf ''export line has no clients: %q'')
              else bindE (parseClientList rest) (\<lambda>cs. Inr \<lparr>exName = [], exPath = take idx line, exClients = cs\<rparr>)))"

definition parseExportFile :: "string \<Rightarrow> Export result" where
  "parseExportFile dat =
     (case scan_lines MaxScanTokenSize dat of
        (ls, err) \<Rightarrow>
          (case filter (\<lambda>l. l \<noteq> [] \<and> \<not> HasPrefix l ''#'') (map TrimSpace ls) of
             l # _ \<Rightarrow> parseExportLine l
           | [] \<Rightarrow> Inl (case err of Some e \<Rightarrow> e | None \<Rightarrow> Errorf ''no export line found'')))"

definition parseActiveToken :: "string \<Rightarrow> string \<Rightarrow> ActiveExport option" where
  "parseActiveToken path tok =
     (case IndexByte tok (CHR ''('') of
        None \<Rightarrow> None
      | Some op \<Rightarrow>
          if \<not> HasSuffix tok '')'' then None
          else Some \<lparr>aePath = path, aeClient = take op tok, aeOptions = take (length tok - 1 - (op + 1)) (drop (op + 1) tok)\<rparr>)"

fun active_loop :: "string \<Rightarrow> string list \<Rightarrow> ActiveExport list" where
  "active_loop lastPath [] = []"
| "active_loop lastPath (raw # raws) =
     (if TrimSpace raw = [] then active_loop lastPath raws
      else if (hd raw = CHR '' '' \<or> hd raw = TAB) \<and> lastPath \<noteq> []
      then List.map_filter (parseActiveToken lastPath) [TrimSpace raw] @ active_loop lastPath raws
      else case Fields (TrimSpace raw) of
             [] \<Rightarrow> active_loop lastPath raws
           | p # toks \<Rightarrow> List.map_filter (parseActiveToken p) toks @ active_loop p raws)"

definition parseExportfsV :: "string \<Rightarrow> ActiveExport list result" where
  "parseExportfsV dat =
     (case scan_lines MaxScanTokenSize dat of (ls, err) \<Rightarrow> check err (Inr (active_loop [] ls)))"

subsection \<open>Operations\<close>

definition nfs_reload :: "'x Manager \<Rightarrow> 'x host \<Rightarrow> error option \<times> 'x host" where
  "nfs_reload m h =
     (case host_run (nfRunner m) (nfs_bin m) [''-ra''] h of
        (Inl e, h) \<Rightarrow> (Some (Wrapf ''exportfs -ra: %w'' e), h)
      | (Inr out, h) \<Rightarrow> (None, h))"

definition write_export :: "'x Manager \<Rightarrow> Export \<Rightarrow> 'x host \<Rightarrow> error option \<times> 'x host" where
  "write_export m e h =
     (case fw_Write (nfFaults m) (nfs_filePath m (exName e)) (renderExportFile e) h of
        (Some err, h) \<Rightarrow> (Some (Wrapf ''write export %q: %w'' err), h)
      | (None, h) \<Rightarrow> nfs_reload m h)"

definition CreateExport :: "'x Manager \<Rightarrow> Export \<Rightarrow> 'x host \<Rightarrow> error option \<times> 'x host" where
  "CreateExport m e h =
     (let e = applyKerberosDefault m e
      in case validateExport e of
           Some err \<Rightarrow> (Some err, h)
         | None \<Rightarrow>
             (case fw_ReadFile (nfFaults m) (nfs_filePath m (exName e)) h of
                Inr d \<Rightarrow> (Some (Errorf ''export %q already exists''), h)
              | Inl err \<Rightarrow>
                  if \<not> errors_Is err ErrNotExist then (Some (Wrapf ''stat existing export %q: %w'' err), h)
                  else write_export m e h))"

definition UpdateExport :: "'x Manager \<Rightarrow> Export \<Rightarrow> 'x host \<Rightarrow> error option \<times> 'x host" where
  "UpdateExport m e h =
     (let e = applyKerberosDefault m e
      in case validateExport e of
           Some err \<Rightarrow> (Some err, h)
         | None \<Rightarrow>
             (case fw_ReadFile (nfFaults m) (nfs_filePath m (exName e)) h of
                Inl err \<Rightarrow> (Some (if errors_Is err ErrNotExist then ErrNotFound else Wrapf ''read existing export %q: %w'' err), h)
              | Inr d \<Rightarrow> write_export m e h))"

definition DeleteExport :: "'x Manager \<Rightarrow> string \<Rightarrow> 'x host \<Rightarrow> error option \<times> 'x host" where
  "DeleteExport m name h =
     (case validateExportName name of
        Some err \<Rightarrow> (Some err, h)
      | None \<Rightarrow>
          (case fw_Remove (nfFaults m) (nfs_filePath m name) h of
             (Some err, h) \<Rightarrow> (Some (if errors_Is err ErrNotExist then ErrNotFound else Wrapf ''remove export %q: %w'' err), h)
           | (None, h) \<Rightarrow> nfs_reload m h))"

definition GetExport :: "'x Manager \<Rightarrow> string \<Rightarrow> 'x host \<Rightarrow> Export result" where
  "GetExport m name h =
     (case validateExportName name of
        Some err \<Rightarrow> Inl err
      | None \<Rightarrow>
          (case fw_ReadFile (nfFaults m) (nfs_filePath m name) h of
             Inl err \<Rightarrow> Inl (if errors_Is err ErrNotExist then ErrNotFound else Wrapf ''read export %q: %w'' err)
           | Inr d \<Rightarrow> bindE (wrapE ''parse export %q: %w'' (parseExportFile d)) (\<lambda>e. Inr (e\<lparr>exName := name\<rparr>))))"

definition ListExports :: "'x Manager \<Rightarrow> 'x host \<Rightarrow> Export list result" where
  "ListExports m h =
     (case fw_ReadDir (nfFaults m) (nfs_dir m) h of
        Inl e \<Rightarrow> Inl (Wrapf ''readdir %s: %w'' e)
      | Inr entries \<Rightarrow>
          Inr (sort_key exName (List.map_filter (\<lambda>ent.
            (case managed_entry (nfs_prefix m) ''.exports'' validateExportName ent of
               None \<Rightarrow> None
             | Some name \<Rightarrow>
                 (case bindE (fw_ReadFile (nfFaults m) (path_Join [nfs_dir m, fst ent]) h) parseExportFile of
                    Inl e \<Rightarrow> None
                  | Inr e \<Rightarrow> Some (e\<lparr>exName := name\<rparr>)))) entries)))"

definition ListActive :: "'x Manager \<Rightarrow> 'x host \<Rightarrow> ActiveExport list result \<times> 'x host" where
  "ListActive m h =
     (case host_run (nfRunner m) (nfs_bin m) [''-v''] h of
        (Inl e, h) \<Rightarrow> (Inl (Wrapf ''exportfs -v: %w'' e), h)
      | (Inr out, h) \<Rightarrow> (parseExportfsV out, h))"


subsection \<open>What is written is read back\<close>

definition addr_char :: "char \<Rightarrow> bool" where
  "addr_char c \<longleftrightarrow> hex_digit c \<or> c = CHR ''.'' \<or> c = CHR '':''"

lemma digit_addr: "is_digit c \<Longrightarrow> addr_char c"
  by (simp add: addr_char_def hex_digit_def)

lemma colon_addr: "addr_char (CHR '':'')"
  by (simp add: addr_char_def)

lemma parseIPv4_chars:
  assumes "parseIPv4 s"
  shows "list_all addr_char s"
proof -
  have "\<forall>f\<in>set (Split s (CHR ''.'')). list_all addr_char f"
    using assms digit_addr by (auto simp: parseIPv4_def ipv4_field_def list_all_iff)
  then have "set (Join (Split s (CHR ''.'')) [CHR ''.'']) \<subseteq> {c. addr_char c}"
    using set_Join[of "Split s (CHR ''.'')" "[CHR ''.'']"] by (fastforce simp: list_all_iff addr_char_def)
  then show ?thesis by (auto simp: Split_Join list_all_iff)
qed

lemma ipv6_groups_chars: "ipv6_groups n ell s \<Longrightarrow> list_all addr_char s"
proof (induction n ell s rule: ipv6_groups.induct)
  case (2 n ell s)
  have h: "list_all addr_char (takeWhile hex_digit s)" by (auto simp: list_all_iff addr_char_def dest: set_takeWhileD)
  have s: "s = takeWhile hex_digit s @ dropWhile hex_digit s" by simp
  show ?case
  proof (cases "dropWhile hex_digit s")
    case Nil
    then show ?thesis by (auto simp: list_all_iff addr_char_def)
  next
    case (Cons c r)
    show ?thesis
    proof (cases "c = CHR ''.''")
      case True
      then show ?thesis using 2(3) Cons parseIPv4_chars by (simp add: Let_def)
    next
      case False
      then have c: "c = CHR '':''" "r \<noteq> []" using 2(3) Cons by (simp_all add: Let_def)
      have "list_all addr_char r" using 2 Cons False c
        by (cases r) (auto simp: Let_def colon_addr split: if_splits)
      then have "list_all addr_char (takeWhile hex_digit s @ dropWhile hex_digit s)" using h Cons c(1) colon_addr by simp
      then show ?thesis by simp
    qed
  qed
qed simp

lemma ParseAddr_chars: "ParseAddr s = Some b \<Longrightarrow> list_all addr_char s"
proof -
  assume a: "ParseAddr s = Some b"
  have six: "list_all addr_char s" if "parseIPv6 s"
  proof (cases "HasPrefix s ''::''")
    case True
    then obtain r where "s = CHR '':'' # CHR '':'' # r" by (auto simp: HasPrefix_iff)
    then show ?thesis using that ipv6_groups_chars[of 8 True r] by (auto simp: parseIPv6_def addr_char_def HasPrefix_def split: if_splits)
  qed (use that ipv6_groups_chars in \<open>auto simp: parseIPv6_def\<close>)
  show "list_all addr_char s" using a six parseIPv4_chars by (auto simp: ParseAddr_def split: option.splits if_splits)
qed

lemma ParseCIDR_chars:
  assumes "ParseCIDR s"
  shows "list_all (\<lambda>c. addr_char c \<or> c = CHR ''/'') s"
proof -
  obtain i where i: "IndexByte s (CHR ''/'') = Some i" "ParseAddr (take i s) \<noteq> None" "list_all is_digit (drop (i + 1) s)"
    using assms by (auto simp: ParseCIDR_def Let_def split: option.splits)
  have "list_all addr_char (take i s)" using i(2) ParseAddr_chars by auto
  moreover have "list_all addr_char (drop (i + 1) s)" using i(3) digit_addr by (auto simp: list_all_iff)
  ultimately have "list_all (\<lambda>c. addr_char c \<or> c = CHR ''/'') (take i s @ CHR ''/'' # drop (i + 1) s)" by (auto simp: list_all_iff)
  moreover have "take i s @ CHR ''/'' # drop (i + 1) s = s" using IndexByte_Some[OF i(1)] id_take_nth_drop[of i s] by simp
  ultimately show ?thesis by (simp only:)
qed

lemma addr_plain: "addr_char c \<or> c = CHR ''/'' \<Longrightarrow> plain_char c \<and> c \<noteq> CHR ''(''"
  by (auto simp: addr_char_def hex_digit_def is_digit_def plain_char_def)

lemma host_plain: "host_char c \<Longrightarrow> plain_char c \<and> c \<noteq> CHR ''(''"
  by (auto simp: host_char_def alnum_def is_digit_def plain_char_def)

lemma spec_word:
  assumes "validateClientSpec s = None"
  shows "word s \<and> CHR ''('' \<notin> set s"
proof -
  have s: "s \<noteq> []" using assms by (auto simp: validateClientSpec_def split: if_splits)
  consider "s = ''*''" | "list_all (\<lambda>c. addr_char c \<or> c = CHR ''/'') s" | "list_all host_char s"
    using assms ParseCIDR_chars[of s] ParseAddr_chars[of s] by (fastforce simp: validateClientSpec_def list_all_iff split: if_splits)
  then have "list_all (\<lambda>c. plain_char c \<and> c \<noteq> CHR ''('') s"
  proof cases
    case 1
    then show ?thesis by (simp add: plain_char_def)
  qed (use addr_plain host_plain in \<open>simp_all add: list_all_iff\<close>)
  then show ?thesis using s by (auto simp: word_def list_all_iff)
qed

lemma options_plain: "validateExportOptions o' = None \<Longrightarrow> list_all plain_char o'"
  by (auto simp: validateExportOptions_def option_char_def alnum_def is_digit_def plain_char_def list_all_iff split: if_splits)

definition good_client :: "ClientRule \<Rightarrow> bool" where
  "good_client c \<longleftrightarrow> word (crSpec c) \<and> CHR ''('' \<notin> set (crSpec c) \<and> list_all plain_char (crOptions c)"

lemma validate_clients_good: "validate_clients cs = None \<Longrightarrow> list_all good_client cs"
proof (induction cs)
  case (Cons c cs)
  then have "validateClientSpec (crSpec c) = None" "validateExportOptions (crOptions c) = None" "validate_clients cs = None"
    by (auto simp: or_else_def wrap_err_def split: option.splits)
  then show ?case using Cons.IH spec_word options_plain by (simp add: good_client_def)
qed simp

lemma parse_render_client:
  assumes "good_client c"
  shows "parse_client (render_client c) = Inr c" and "word (render_client c)"
proof -
  have s: "crSpec c \<noteq> []" "CHR ''('' \<notin> set (crSpec c)" using assms by (simp_all add: good_client_def word_def)
  have "IndexByte (render_client c) (CHR ''('') = Some (length (crSpec c))"
    using IndexByte_append[OF s(2), of "crOptions c @ '')''"] by (simp add: render_client_def)
  moreover have "HasSuffix (render_client c) '')''" by (simp add: render_client_def HasSuffix_def)
  ultimately show "parse_client (render_client c) = Inr c" using s(1) by (simp add: parse_client_def) (simp add: render_client_def)
  show "word (render_client c)" using assms by (simp add: render_client_def word_def good_client_def plain_char_def)
qed

lemma IndexAny_append: "set a \<inter> set cs = {} \<Longrightarrow> c \<in> set cs \<Longrightarrow> IndexAny (a @ c # b) cs = Some (length a)"
  by (induction a) auto

lemma Join_words: "concat (map (\<lambda>c. '' '' @ f c) (x # xs)) = CHR '' '' # Join (map f (x # xs)) '' ''"
  by (induction xs arbitrary: x) simp_all

lemma Join_words_ends:
  assumes "list_all word ws" and "ws \<noteq> []"
  shows "Join ws '' '' \<noteq> [] \<and> plain_char (hd (Join ws '' '')) \<and> plain_char (last (Join ws '' ''))"
  using assms by (induction ws "'' ''" rule: Join.induct) (auto simp: word_def list_all_iff last_append hd_append)

lemma Join_words_chars: "list_all word ws \<Longrightarrow> \<forall>c\<in>set (Join ws '' ''). plain_char c \<or> c = CHR '' ''"
  by (induction ws "'' ''" rule: Join.induct) (auto simp: word_def list_all_iff)

lemma parse_render_export:
  assumes "validateExport e = None" and "int (length (export_line e)) < MaxScanTokenSize"
  shows "parseExportFile (renderExportFile e) = Inr (e\<lparr>exName := []\<rparr>)"
proof -
  have v: "validateExportPath (exPath e) = None" "exClients e \<noteq> []" "list_all good_client (exClients e)"
    using assms(1) validate_clients_good by (auto simp: validateExport_def or_else_def split: option.splits if_splits)
  have p: "exPath e \<noteq> []" "hd (exPath e) = CHR ''/''" "\<forall>c\<in>set (exPath e). \<not> control_char c \<and> c \<noteq> CHR '' ''"
    using v(1) by (auto simp: validateExportPath_def HasPrefix_iff find_None_iff path_forbidden_def split: if_splits option.splits)
  let ?ws = "map render_client (exClients e)"
  have w: "list_all word ?ws" "?ws \<noteq> []" using v(2,3) parse_render_client(2) by (auto simp: list_all_iff)
  have line: "export_line e = exPath e @ CHR '' '' # Join ?ws '' ''"
    using v(2) Join_words[of render_client] by (cases "exClients e") (simp_all add: export_line_def)
  note J = Join_words_ends[OF w]
  have ends: "TrimSpace (export_line e) = export_line e"
    using p J by (intro TrimSpace_plain) (simp_all add: line line_ends)
  have nolf: "LF \<notin> set (export_line e) \<and> CHR 0x0D \<notin> set (export_line e)"
  proof -
    have "\<forall>c\<in>set (Join ?ws '' ''). plain_char c \<or> c = CHR '' ''" using Join_words_chars[OF w(1)] by simp
    then have "LF \<notin> set (Join ?ws '' '') \<and> CHR 0x0D \<notin> set (Join ?ws '' '')" using line_ends(1,2) by blast
    moreover have "LF \<notin> set (exPath e) \<and> CHR 0x0D \<notin> set (exPath e)" using p(3) line_ends(3) by blast
    ultimately show ?thesis using line_ends(2) by (simp add: line)
  qed
  have "scan_lines MaxScanTokenSize (renderExportFile e) = ([export_line e], None)"
    using scan_unlines[of "[export_line e]" MaxScanTokenSize] nolf assms(2) by (simp add: unlines_def renderExportFile_def)
  moreover have "\<not> HasPrefix (export_line e) ''#''" "export_line e \<noteq> []" using p by (cases "exPath e"; simp add: line HasPrefix_def)+
  moreover have "parseExportLine (export_line e) = Inr (e\<lparr>exName := []\<rparr>)"
  proof -
    have "IndexAny (export_line e) [CHR '' '', TAB] = Some (length (exPath e))"
      unfolding line using p(3) by (intro IndexAny_append) (use line_ends(3) in auto)
    moreover have "TrimSpace (Join ?ws '' '') = Join ?ws '' ''" using J by (intro TrimSpace_plain) auto
    moreover have "parseClientList (Join ?ws '' '') = Inr (exClients e)"
    proof -
      have "map parse_client ?ws = map Inr (exClients e)" using v(3) parse_render_client(1) by (simp add: list_all_iff)
      then have "seqE (map parse_client ?ws) = Inr (exClients e)" by (simp only: seqE_eq_Inr)
      then show ?thesis using Fields_words[OF w(1), of "'' ''"] v(2) by (simp only: parseClientList_def) (simp add: bindE_def)
    qed
    ultimately show ?thesis using J by (simp add: parseExportLine_def Let_def line)
  qed
  ultimately show ?thesis using ends by (simp add: parseExportFile_def)
qed

subsection \<open>The files of the exports\<close>

lemma nfs_reload_files: "nfs_reload m h = (r, h') \<Longrightarrow> hsFiles h' = hsFiles h"
  by (auto simp: nfs_reload_def dest: host_run_eq split: prod.splits sum.splits)

lemma write_export_files:
  assumes "write_export m e h = (r, h')"
  shows "p \<noteq> nfs_filePath m (exName e) \<Longrightarrow> hsFiles h' p = hsFiles h p"
    and "r = None \<Longrightarrow> hsFiles h' (nfs_filePath m (exName e)) = Some (renderExportFile e)"
proof -
  obtain r1 h1 where w: "fw_Write (nfFaults m) (nfs_filePath m (exName e)) (renderExportFile e) h = (r1, h1)" by fastforce
  have f: "hsFiles h' = hsFiles h1" and r: "r = None \<Longrightarrow> r1 = None"
    using assms w nfs_reload_files by (auto simp: write_export_def split: option.splits)
  show "p \<noteq> nfs_filePath m (exName e) \<Longrightarrow> hsFiles h' p = hsFiles h p" using f fw_Write_frame[OF w] by simp
  show "r = None \<Longrightarrow> hsFiles h' (nfs_filePath m (exName e)) = Some (renderExportFile e)" using f fw_Write_ok w r by metis
qed

lemma write_export_plain:
  assumes "plain_errors (nfFaults m) (nfRunner m) ErrNotFound" and "write_export m e h = (Some err, h')"
  shows "\<not> errors_Is err ErrNotFound"
proof -
  have w: "Wrapf f e' \<noteq> ErrNotFound" for f e' by (simp add: ErrNotFound_def)
  show ?thesis using assms(2) fw_Write_plain[OF assms(1)] host_run_plain[OF assms(1)]
    by (auto simp: write_export_def nfs_reload_def w split: prod.splits option.splits sum.splits)
qed

lemma kerberos_name [simp]: "exName (applyKerberosDefault m e) = exName e"
  by (simp add: applyKerberosDefault_def)

lemma CreateExport_cases: "(\<exists>err. CreateExport m e h = (Some err, h)) \<or> CreateExport m e h = write_export m (applyKerberosDefault m e) h"
  by (simp add: CreateExport_def Let_def split: option.split sum.split)

definition nfs_ok :: "'x Manager \<Rightarrow> bool" where
  "nfs_ok m \<longleftrightarrow> plain_errors (nfFaults m) (nfRunner m) ErrNotFound"

lemma UpdateExport_cases:
  "(\<exists>err. UpdateExport m e h = (Some err, h)) \<or>
   (hsFiles h (nfs_filePath m (exName e)) \<noteq> None \<and> UpdateExport m e h = write_export m (applyKerberosDefault m e) h)"
  by (auto simp: UpdateExport_def Let_def dest: fw_ReadFile_Inr split: option.split sum.split)

lemma CreateExport_taken:
  assumes "nfs_ok m" and "hsFiles h (nfs_filePath m (exName e)) \<noteq> None"
  shows "\<exists>err. CreateExport m e h = (Some err, h)"
proof (cases "fw_ReadFile (nfFaults m) (nfs_filePath m (exName e)) h")
  case (Inl err)
  then have "\<not> errors_Is err ErrNotExist" using assms fw_ReadFile_taken unfolding nfs_ok_def by blast
  then show ?thesis using Inl by (auto simp: CreateExport_def Let_def split: option.splits)
qed (auto simp: CreateExport_def Let_def split: option.splits)

text \<open>A rejected export is not taken for a missing one.\<close>

lemma validate_clients_not_missing: "validate_clients cs = Some err \<Longrightarrow> \<not> errors_Is err ErrNotFound"
proof (induction cs arbitrary: err)
  case (Cons c cs)
  have c: "\<not> errors_Is e ErrNotFound" if "wrap_err ''client[%d]: %w'' (or_else (validateClientSpec (crSpec c)) (validateExportOptions (crOptions c))) = Some e" for e
    using that by (auto simp: wrap_err_def or_else_def validateClientSpec_def validateExportOptions_def ErrNotFound_def split: if_splits option.splits)
  show ?case using or_else_not[OF c Cons.IH] Cons.prems by simp
qed simp

lemma validateExportName_not_missing: "validateExportName n = Some e \<Longrightarrow> \<not> errors_Is e ErrNotFound"
  by (auto simp: validateExportName_def validate_name_def ErrNotFound_def split: if_splits)

lemma validateExport_not_missing:
  assumes "validateExport e = Some err"
  shows "\<not> errors_Is err ErrNotFound"
proof -
  have p: "\<not> errors_Is e' ErrNotFound" if "validateExportPath (exPath e) = Some e'" for e'
    using that by (auto simp: validateExportPath_def ErrNotFound_def split: if_splits option.splits)
  have c: "\<not> errors_Is e' ErrNotFound"
    if "(if exClients e = [] then Some (Errorf ''at least one client rule required'') else validate_clients (exClients e)) = Some e'" for e'
    using that validate_clients_not_missing by (auto simp: ErrNotFound_def split: if_splits)
  have pc: "\<not> errors_Is e' ErrNotFound" if "or_else (validateExportPath (exPath e))
      (if exClients e = [] then Some (Errorf ''at least one client rule required'') else validate_clients (exClients e)) = Some e'" for e'
    by (rule or_else_not[OF p c that])
  show ?thesis by (rule or_else_not[OF validateExportName_not_missing pc assms[unfolded validateExport_def]])
qed

lemma UpdateExport_missing:
  assumes "nfs_ok m" and "UpdateExport m e h = (Some err, h')" and "errors_Is err ErrNotFound"
  shows "h' = h \<and> hsFiles h (nfs_filePath m (exName e)) = None"
proof -
  have v: "validateExport (applyKerberosDefault m e) = None"
    using assms(2,3) validateExport_not_missing by (fastforce simp: UpdateExport_def Let_def split: option.splits)
  have "hsFiles h (nfs_filePath m (exName e)) = None"
  proof (rule ccontr)
    assume t: "hsFiles h (nfs_filePath m (exName e)) \<noteq> None"
    show False
    proof (cases "fw_ReadFile (nfFaults m) (nfs_filePath m (exName e)) h")
      case (Inl e')
      then have "\<not> errors_Is e' ErrNotExist" "\<not> errors_Is e' ErrNotFound"
        using fw_ReadFile_taken[OF assms(1)[unfolded nfs_ok_def] t] by auto
      then show False using assms(2,3) Inl v by (auto simp: UpdateExport_def Let_def ErrNotFound_def)
    next
      case (Inr d)
      then have "write_export m (applyKerberosDefault m e) h = (Some err, h')" using assms(2) v by (simp add: UpdateExport_def Let_def)
      then show False using write_export_plain[OF assms(1)[unfolded nfs_ok_def]] assms(3) by blast
    qed
  qed
  then show ?thesis using UpdateExport_cases[of m e h] assms(2) by auto
qed

lemma DeleteExport_cases:
  "(\<exists>err. DeleteExport m n h = (Some err, h)) \<or>
   (\<exists>h1. fw_Remove (nfFaults m) (nfs_filePath m n) h = (None, h1) \<and> DeleteExport m n h = nfs_reload m h1)"
  by (auto simp: DeleteExport_def fw_Remove_def split: option.split)

lemma DeleteExport_files:
  assumes "DeleteExport m n h = (r, h')"
  shows "(r \<noteq> None \<and> h' = h) \<or> (\<exists>h1. fw_Remove (nfFaults m) (nfs_filePath m n) h = (None, h1) \<and> hsFiles h' = hsFiles h1)"
  using DeleteExport_cases[of m n h]
proof (elim disjE exE conjE)
  fix h1 assume h: "fw_Remove (nfFaults m) (nfs_filePath m n) h = (None, h1)" "DeleteExport m n h = nfs_reload m h1"
  then have "nfs_reload m h1 = (r, h')" using assms by simp
  then show ?thesis using h(1) nfs_reload_files by auto
qed (use assms in auto)

lemma DeleteExport_missing:
  assumes "nfs_ok m" and "DeleteExport m n h = (Some err, h')" and "errors_Is err ErrNotFound"
  shows "h' = h \<and> hsFiles h (nfs_filePath m n) = None"
proof -
  have v: "validateExportName n = None"
    using assms(2,3) validateExportName_not_missing by (fastforce simp: DeleteExport_def split: option.splits)
  obtain r1 h1 where r: "fw_Remove (nfFaults m) (nfs_filePath m n) h = (r1, h1)" by fastforce
  have w: "Wrapf f e' \<noteq> ErrNotFound" for f e' by (simp add: ErrNotFound_def)
  have "r1 \<noteq> None"
  proof
    assume "r1 = None"
    then have "nfs_reload m h1 = (Some err, h')" using assms(2) v r by (simp add: DeleteExport_def)
    then show False using assms(3) host_run_plain[OF assms(1)[unfolded nfs_ok_def]]
      by (auto simp: nfs_reload_def w split: prod.splits sum.splits)
  qed
  then obtain e1 where e1: "r1 = Some e1" by auto
  note x = fw_Remove_missing[OF assms(1)[unfolded nfs_ok_def] r[unfolded e1]]
  show ?thesis using assms(2,3) v r e1 x by (auto simp: DeleteExport_def w split: if_splits)
qed

text \<open>NFS exports keep the contract.\<close>

interpretation nfs: share_store nfs_ok CreateExport UpdateExport DeleteExport nfs_filePath exName
    "\<lambda>m e. renderExportFile (applyKerberosDefault m e)" ErrNotFound
proof unfold_locales
  fix m :: "'x Manager" and e h r h' p
  show "CreateExport m e h = (r, h') \<Longrightarrow> p \<noteq> nfs_filePath m (exName e) \<Longrightarrow> hsFiles h' p = hsFiles h p"
    using CreateExport_cases[of m e h] write_export_files(1)[of m "applyKerberosDefault m e" h r h' p] by auto
  show "UpdateExport m e h = (r, h') \<Longrightarrow> p \<noteq> nfs_filePath m (exName e) \<Longrightarrow> hsFiles h' p = hsFiles h p"
    using UpdateExport_cases[of m e h] write_export_files(1)[of m "applyKerberosDefault m e" h r h' p] by auto
next
  fix m :: "'x Manager" and e h h'
  show "CreateExport m e h = (None, h') \<Longrightarrow> hsFiles h' (nfs_filePath m (exName e)) = Some (renderExportFile (applyKerberosDefault m e))"
    using CreateExport_cases[of m e h] write_export_files(2)[of m "applyKerberosDefault m e" h None h'] by simp
  show "UpdateExport m e h = (None, h') \<Longrightarrow> hsFiles h (nfs_filePath m (exName e)) \<noteq> None \<and>
      hsFiles h' (nfs_filePath m (exName e)) = Some (renderExportFile (applyKerberosDefault m e))"
    using UpdateExport_cases[of m e h] write_export_files(2)[of m "applyKerberosDefault m e" h None h'] by simp
next
  fix m :: "'x Manager" and n h r h' p
  show "DeleteExport m n h = (r, h') \<Longrightarrow> p \<noteq> nfs_filePath m n \<Longrightarrow> hsFiles h' p = hsFiles h p"
    using DeleteExport_files[of m n h r h'] fw_Remove_frame by fastforce
next
  fix m :: "'x Manager" and n h h'
  show "DeleteExport m n h = (None, h') \<Longrightarrow> hsFiles h (nfs_filePath m n) \<noteq> None \<and> hsFiles h' (nfs_filePath m n) = None"
    using DeleteExport_files[of m n h None h'] fw_Remove_ok by fastforce
qed (use CreateExport_taken UpdateExport_missing DeleteExport_missing in blast)+

subsection \<open>An export that was created is read back\<close>

lemma CreateExport_valid: "CreateExport m e h = (None, h') \<Longrightarrow> validateExport (applyKerberosDefault m e) = None"
  by (auto simp: CreateExport_def Let_def split: option.splits)

text \<open>C28. After an export is created, \<open>GetExport\<close> returns it, with the Kerberos default that the manager adds, whatever the commands did,
  provided its line fits the buffer of the scanner (64 KiB) and the file can be read.\<close>

theorem created_export_is_read_back:
  assumes "CreateExport m e h = (None, h')" and "ftRead (nfFaults m) (hsRest h') (nfs_filePath m (exName e)) = None"
    and "int (length (export_line (applyKerberosDefault m e))) < MaxScanTokenSize"
  shows "GetExport m (exName e) h' = Inr (applyKerberosDefault m e)"
proof -
  note v = CreateExport_valid[OF assms(1)]
  have n: "validateExportName (exName e) = None" using v by (simp add: validateExport_def or_else_def split: option.splits)
  have "fw_ReadFile (nfFaults m) (nfs_filePath m (exName e)) h' = Inr (renderExportFile (applyKerberosDefault m e))"
    using nfs.create_ok[OF assms(1)] assms(2) by (simp add: fw_ReadFile_def)
  then show ?thesis using n parse_render_export[OF v assms(3)] by (simp add: GetExport_def wrapE_def bindE_def)
qed

definition demo_manager :: "unit Manager" where
  "demo_manager = \<lparr>nfExportsBin = [], nfExportsDir = [], nfFilePrefix = [], nfRequireKerberos = True,
     nfRunner = (\<lambda>fs bin args x. (([], None), x)),
     nfFaults = \<lparr>ftWrite = (\<lambda>x p. None), ftRemove = (\<lambda>x p. None), ftRead = (\<lambda>x p. None), ftReadDir = (\<lambda>x p. None), ftNames = (\<lambda>d fs. [])\<rparr>\<rparr>"

definition demo_export :: Export where
  "demo_export = \<lparr>exName = ''media'', exPath = ''/tank/media'', exClients = [\<lparr>crSpec = ''10.0.0.0/8'', crOptions = ''rw''\<rparr>, \<lparr>crSpec = ''nas-2.lan'', crOptions = ''ro,sec=sys''\<rparr>]\<rparr>"

definition demo_host :: "unit host" where
  "demo_host = \<lparr>hsFiles = (\<lambda>p. None), hsRest = ()\<rparr>"

theorem created_export_is_read_back_witness:
  "map crOptions (exClients (projr (GetExport demo_manager ''media'' (snd (CreateExport demo_manager demo_export demo_host))))) = [''sec=krb5p,rw'', ''ro,sec=sys'']"
proof -
  have c: "fst (CreateExport demo_manager demo_export demo_host) = None" by code_simp
  have l: "int (length (export_line (applyKerberosDefault demo_manager demo_export))) < MaxScanTokenSize" by code_simp
  have r: "ftRead (nfFaults demo_manager) x p = None" for x p by (simp add: demo_manager_def)
  have n: "exName demo_export = ''media''" by (simp add: demo_export_def)
  have k: "map crOptions (exClients (applyKerberosDefault demo_manager demo_export)) = [''sec=krb5p,rw'', ''ro,sec=sys'']" by code_simp
  have "CreateExport demo_manager demo_export demo_host = (None, snd (CreateExport demo_manager demo_export demo_host))" using c by (simp add: prod_eq_iff)
  from created_export_is_read_back[OF this r l] show ?thesis using k n by simp
qed

end
