(* ===== verification/Samba.thy ===== *)
theory Samba
  imports ShareFiles
begin

text \<open>
  SMB shares (\<^verbatim>\<open>internal/host/samba/samba.go\<close> and \<^verbatim>\<open>globals.go\<close>): one file per share in the directory that
  \<^verbatim>\<open>smb.conf\<close> includes, a file with the \<open>[global]\<close> section, and the users of the password database. A file is written, the
  merged configuration is validated by \<open>testparm\<close>, the previous content comes back if that fails, and \<open>smbd\<close> is told to reload.

  Shown: the file that is rendered for a valid share is parsed back to it, up to blanks around the vetoed names; and the laws of
  \<open>share_store\<close>, on which the unified shares rely.
\<close>

subsection \<open>Types and defaults\<close>

definition ErrNotFound :: error where "ErrNotFound = Errorf ''share not found''"

record Share =
  shName :: string
  shPath :: string
  shComment :: string
  shBrowseable :: bool
  shWritable :: bool
  shGuestOK :: bool
  shReadOnly :: bool
  shValidUsers :: "string list"
  shWriteList :: "string list"
  shAdminUsers :: "string list"
  shCreateMask :: string
  shDirectoryMask :: string
  shVeto :: "string list"

record User =
  usUsername :: string

type_synonym 'x host_stdin_runner = "(string \<rightharpoonup> string) \<Rightarrow> string \<Rightarrow> string \<Rightarrow> string list \<Rightarrow> 'x \<Rightarrow> (string \<times> error option) \<times> 'x"

record 'x Manager =
  smSmbcontrolBin :: string
  smTestparmBin :: string
  smSmbpasswdBin :: string
  smPdbeditBin :: string
  smConfigDir :: string
  smFilePrefix :: string
  smRunner :: "'x host_runner"
  smStdinRunner :: "'x host_stdin_runner"
  smFaults :: "'x faults"

definition or_default :: "string \<Rightarrow> string \<Rightarrow> string" where
  "or_default v d = (if v = [] then d else v)"

definition smbcontrolBin :: "'x Manager \<Rightarrow> string" where
  "smbcontrolBin m = or_default (smSmbcontrolBin m) ''/usr/bin/smbcontrol''"

definition testparmBin :: "'x Manager \<Rightarrow> string" where
  "testparmBin m = or_default (smTestparmBin m) ''/usr/bin/testparm''"

definition smbpasswdBin :: "'x Manager \<Rightarrow> string" where
  "smbpasswdBin m = or_default (smSmbpasswdBin m) ''/usr/bin/smbpasswd''"

definition pdbeditBin :: "'x Manager \<Rightarrow> string" where
  "pdbeditBin m = or_default (smPdbeditBin m) ''/usr/bin/pdbedit''"

definition smb_dir :: "'x Manager \<Rightarrow> string" where
  "smb_dir m = or_default (smConfigDir m) ''/etc/samba/smb.conf.d''"

definition smb_prefix :: "'x Manager \<Rightarrow> string" where
  "smb_prefix m = or_default (smFilePrefix m) ''nova-nas-''"

definition smb_filePath :: "'x Manager \<Rightarrow> string \<Rightarrow> string" where
  "smb_filePath m name = path_Join [smb_dir m, smb_prefix m @ name @ ''.conf'']"

definition smb_run :: "'x Manager \<Rightarrow> string \<Rightarrow> string list \<Rightarrow> 'x host \<Rightarrow> string result \<times> 'x host" where
  "smb_run m = host_run (smRunner m)"

definition smb_runStdin :: "'x Manager \<Rightarrow> string \<Rightarrow> string \<Rightarrow> string list \<Rightarrow> 'x host \<Rightarrow> string result \<times> 'x host" where
  "smb_runStdin m bin inp = host_run (\<lambda>fs bin. smStdinRunner m fs bin inp) bin"

subsection \<open>Validation\<close>

definition validateShareName :: "string \<Rightarrow> error option" where
  "validateShareName = validate_name ''share''"

definition share_path_forbidden :: "char list" where
  "share_path_forbidden = [CHR '' '', CHR 0x09, CHR '';'', CHR ''|'', CHR ''&'', CHR ''$'', CHR 0x60, CHR 0x5C, CHR 0x22, CHR 0x27,
     CHR ''<'', CHR ''>'', CHR ''*'', CHR ''?'', CHR 0x0A, CHR 0x0D, CHR ''['', CHR '']'']"

definition validateSharePath :: "string \<Rightarrow> error option" where
  "validateSharePath p =
     (if p = [] then Some (Errorf ''share path required'')
      else if \<not> HasPrefix p ''/'' then Some (Errorf ''share path must be absolute: %q'')
      else if CHR 0x00 \<in> set p then Some (Errorf ''share path contains NUL'')
      else if ''..'' \<in> set (Split p (CHR ''/'')) then Some (Errorf ''share path must not contain '..': %q'')
      else case find (\<lambda>c. control_char c \<or> c \<in> set share_path_forbidden) p of
             None \<Rightarrow> None
           | Some c \<Rightarrow> Some (Errorf (if control_char c then ''share path contains control character: %q''
                                     else ''share path contains forbidden character %q: %q'')))"

definition letter :: "char \<Rightarrow> bool" where
  "letter c \<longleftrightarrow> of_char c \<in> {97..(122::nat)} \<or> of_char c \<in> {65..(90::nat)}"

definition user_char :: "char \<Rightarrow> bool" where
  "user_char c \<longleftrightarrow> alnum c \<or> c = CHR ''_'' \<or> c = CHR ''-'' \<or> c = CHR ''.''"

definition validateUsername :: "string \<Rightarrow> error option" where
  "validateUsername u =
     (if u = [] then Some (Errorf ''username required'')
      else if length u > 32 then Some (Errorf ''username too long (>32): %q'')
      else if \<not> letter (hd u) \<and> hd u \<noteq> CHR ''_'' then Some (Errorf ''username must start with a letter or underscore: %q'')
      else if list_all user_char u then None
      else Some (Errorf ''username contains invalid character %q in %q''))"

definition validateMask :: "string \<Rightarrow> error option" where
  "validateMask m =
     (if m = [] then None
      else if length m \<noteq> 3 \<and> length m \<noteq> 4 then Some (Errorf ''%s must be 3 or 4 octal digits: %q'')
      else if list_all (\<lambda>c. of_char c \<in> {48..(55::nat)}) m then None
      else Some (Errorf ''%s contains non-octal digit %q: %q''))"

definition validateVetoEntry :: "string \<Rightarrow> error option" where
  "validateVetoEntry e =
     (if e = [] then Some (Errorf ''veto entry empty'')
      else if list_ex (\<lambda>c. c \<in> {CHR ''/'', CHR 0x00, CHR 0x0A, CHR 0x0D}) e
      then Some (Errorf ''veto entry contains forbidden character %q: %q'') else None)"

definition validateComment :: "string \<Rightarrow> error option" where
  "validateComment c =
     (if length c > 256 then Some (Errorf ''comment too long (>256)'')
      else if list_ex (\<lambda>c. c \<in> {CHR 0x0A, CHR 0x0D, CHR 0x00}) c then Some (Errorf ''comment contains forbidden character %q'') else None)"

fun validate_all :: "string \<Rightarrow> ('a \<Rightarrow> error option) \<Rightarrow> 'a list \<Rightarrow> error option" where
  "validate_all fmt f [] = None"
| "validate_all fmt f (x # xs) = or_else (wrap_err fmt (f x)) (validate_all fmt f xs)"

definition validateShare :: "Share \<Rightarrow> error option" where
  "validateShare s =
     or_else (validateShareName (shName s)) (or_else (validateSharePath (shPath s)) (or_else (validateComment (shComment s))
     (or_else (validateMask (shCreateMask s)) (or_else (validateMask (shDirectoryMask s))
     (or_else (validate_all ''validUsers[%d]: %w'' validateUsername (shValidUsers s))
     (or_else (validate_all ''writeList[%d]: %w'' validateUsername (shWriteList s))
     (or_else (validate_all ''adminUsers[%d]: %w'' validateUsername (shAdminUsers s))
              (validate_all ''veto[%d]: %w'' validateVetoEntry (shVeto s)))))))))"

subsection \<open>Rendering\<close>

definition yesno :: "bool \<Rightarrow> string" where
  "yesno b = (if b then ''yes'' else ''no'')"

definition conf_line :: "string \<Rightarrow> string \<Rightarrow> string" where
  "conf_line key val = ''   '' @ key @ '' = '' @ val"

definition conf_lines :: "Share \<Rightarrow> (string \<times> string) list" where
  "conf_lines s =
     [(''path'', shPath s)]
     @ (if shComment s \<noteq> [] then [(''comment'', shComment s)] else [])
     @ [(''browseable'', yesno (shBrowseable s)), (''writable'', yesno (shWritable s)),
        (''guest ok'', yesno (shGuestOK s)), (''read only'', yesno (shReadOnly s))]
     @ (if shValidUsers s \<noteq> [] then [(''valid users'', Join (shValidUsers s) '', '')] else [])
     @ (if shWriteList s \<noteq> [] then [(''write list'', Join (shWriteList s) '', '')] else [])
     @ (if shAdminUsers s \<noteq> [] then [(''admin users'', Join (shAdminUsers s) '', '')] else [])
     @ (if shCreateMask s \<noteq> [] then [(''create mask'', shCreateMask s)] else [])
     @ (if shDirectoryMask s \<noteq> [] then [(''directory mask'', shDirectoryMask s)] else [])
     @ (if shVeto s \<noteq> [] then [(''veto files'', ''/'' @ Join (shVeto s) ''/'' @ ''/'')] else [])"

definition share_lines :: "Share \<Rightarrow> string list" where
  "share_lines s = (''['' @ shName s @ '']'') # map (\<lambda>(k, v). conf_line k v) (conf_lines s)"

definition renderShareConf :: "Share \<Rightarrow> string" where
  "renderShareConf s = unlines (share_lines s)"

subsection \<open>Parsing\<close>

text \<open>\<open>strings.ToLower\<close>, for a comparison with a string of ASCII letters: the only other runes whose lower case is
  one of them are the capital I with a dot and the Kelvin sign.\<close>

fun ToLower :: "string \<Rightarrow> string" where
  "ToLower [] = []"
| "ToLower (c # cs) =
     (if c = CHR 0xC4 \<and> take 1 cs = [CHR 0xB0] then CHR ''i'' # ToLower (drop 1 cs)
      else if c = CHR 0xE2 \<and> take 2 cs = [CHR 0x84, CHR 0xAA] then CHR ''k'' # ToLower (drop 2 cs)
      else (if of_char c \<in> {65..(90::nat)} then char_of ((of_char c :: nat) + 32) else c) # ToLower cs)"

definition parseBool :: "string \<Rightarrow> bool" where
  "parseBool s \<longleftrightarrow> ToLower (TrimSpace s) \<in> {''yes'', ''true'', ''1'', ''on''}"

definition parseUserList :: "string \<Rightarrow> string list" where
  "parseUserList s = Fields (map (\<lambda>c. if c = CHR '','' then CHR '' '' else c) s)"

definition parseVetoList :: "string \<Rightarrow> string list" where
  "parseVetoList s = filter (\<lambda>p. p \<noteq> []) (map TrimSpace (Split s (CHR ''/'')))"

definition set_key :: "string \<Rightarrow> string \<Rightarrow> Share \<Rightarrow> Share" where
  "set_key key val sh =
     (if key = ''path'' then sh\<lparr>shPath := val\<rparr>
      else if key = ''comment'' then sh\<lparr>shComment := val\<rparr>
      else if key \<in> {''browseable'', ''browsable''} then sh\<lparr>shBrowseable := parseBool val\<rparr>
      else if key \<in> {''writable'', ''writeable''} then sh\<lparr>shWritable := parseBool val\<rparr>
      else if key = ''guest ok'' then sh\<lparr>shGuestOK := parseBool val\<rparr>
      else if key = ''read only'' then sh\<lparr>shReadOnly := parseBool val\<rparr>
      else if key = ''valid users'' then sh\<lparr>shValidUsers := parseUserList val\<rparr>
      else if key = ''write list'' then sh\<lparr>shWriteList := parseUserList val\<rparr>
      else if key = ''admin users'' then sh\<lparr>shAdminUsers := parseUserList val\<rparr>
      else if key = ''create mask'' then sh\<lparr>shCreateMask := val\<rparr>
      else if key = ''directory mask'' then sh\<lparr>shDirectoryMask := val\<rparr>
      else if key = ''veto files'' then sh\<lparr>shVeto := parseVetoList val\<rparr>
      else sh)"

definition no_share :: Share where
  "no_share = \<lparr>shName = [], shPath = [], shComment = [], shBrowseable = False, shWritable = False, shGuestOK = False, shReadOnly = False,
     shValidUsers = [], shWriteList = [], shAdminUsers = [], shCreateMask = [], shDirectoryMask = [], shVeto = []\<rparr>"

definition skipped_line :: "string \<Rightarrow> bool" where
  "skipped_line l \<longleftrightarrow> l = [] \<or> HasPrefix l ''#'' \<or> HasPrefix l '';''"

definition header_line :: "string \<Rightarrow> bool" where
  "header_line l \<longleftrightarrow> HasPrefix l ''['' \<and> HasSuffix l '']''"

text \<open>The key and the value of a line, if it has an equals sign.\<close>

definition key_value :: "string \<Rightarrow> (string \<times> string) option" where
  "key_value line =
     map_option (\<lambda>eq. (TrimSpace (ToLower (take eq line)), TrimSpace (drop (eq + 1) line))) (IndexByte line (CHR ''=''))"

text \<open>The loop over the lines; the share is there once the header is seen.\<close>

fun share_loop :: "string list \<Rightarrow> error option \<Rightarrow> Share option \<Rightarrow> Share result" where
  "share_loop [] err st =
     (case err of Some e \<Rightarrow> Inl e | None \<Rightarrow> (case st of None \<Rightarrow> Inl (Errorf ''no [section] header found'') | Some sh \<Rightarrow> Inr sh))"
| "share_loop (raw # ls) err st =
     (let line = TrimSpace raw
      in if skipped_line line then share_loop ls err st
         else if header_line line
         then (case st of
                 Some sh \<Rightarrow> Inr sh
               | None \<Rightarrow> share_loop ls err (Some (no_share\<lparr>shName := TrimSpace (butlast (tl line))\<rparr>)))
         else case st of
                None \<Rightarrow> Inl (Errorf ''expected [section] header before %q'')
              | Some sh \<Rightarrow>
                  (case key_value line of
                     None \<Rightarrow> share_loop ls err st
                   | Some (key, val) \<Rightarrow> share_loop ls err (Some (set_key key val sh))))"

definition conf_token_size :: int where
  "conf_token_size = 1048576"

definition parseShareConf :: "string \<Rightarrow> Share result" where
  "parseShareConf dat = (case scan_lines conf_token_size dat of (ls, err) \<Rightarrow> share_loop ls err None)"

definition parsePdbeditL :: "string \<Rightarrow> User list" where
  "parsePdbeditL dat =
     List.map_filter (\<lambda>raw.
       (let line = TrimSpace raw;
            u = TrimSpace (case IndexByte line (CHR '':'') of None \<Rightarrow> line | Some i \<Rightarrow> take i line)
        in if line = [] \<or> u = [] \<or> validateUsername u \<noteq> None then None else Some \<lparr>usUsername = u\<rparr>))
       (fst (scan_lines conf_token_size dat))"

subsection \<open>Shares\<close>

definition smb_testparm :: "'x Manager \<Rightarrow> 'x host \<Rightarrow> error option \<times> 'x host" where
  "smb_testparm m h = (case smb_run m (testparmBin m) [''-s''] h of (Inl e, h) \<Rightarrow> (Some e, h) | (Inr out, h) \<Rightarrow> (None, h))"

definition smb_reload :: "'x Manager \<Rightarrow> 'x host \<Rightarrow> error option \<times> 'x host" where
  "smb_reload m h =
     (case smb_run m (smbcontrolBin m) [''smbd'', ''reload-config''] h of
        (Inl e, h) \<Rightarrow> (Some (Wrapf ''smbcontrol smbd reload-config: %w'' e), h)
      | (Inr out, h) \<Rightarrow> (None, h))"

text \<open>Write a file, have the configuration validated, and reload; \<open>undo\<close> is what the caller does when the validation fails.\<close>

definition write_validated ::
    "'x Manager \<Rightarrow> string \<Rightarrow> string \<Rightarrow> string \<Rightarrow> ('x host \<Rightarrow> 'x host) \<Rightarrow> 'x host \<Rightarrow> error option \<times> 'x host" where
  "write_validated m fmt path dat undo h =
     (case fw_Write (smFaults m) path dat h of
        (Some e, h) \<Rightarrow> (Some (Wrapf fmt e), h)
      | (None, h) \<Rightarrow>
          (case smb_testparm m h of
             (Some e, h) \<Rightarrow> (Some (Wrapf ''testparm validation failed: %w'' e), undo h)
           | (None, h) \<Rightarrow> (case smb_reload m h of (err, h) \<Rightarrow> (wrap_err ''reload smbd: %w'' err, h))))"

definition CreateShare :: "'x Manager \<Rightarrow> Share \<Rightarrow> 'x host \<Rightarrow> error option \<times> 'x host" where
  "CreateShare m s h =
     (case validateShare s of
        Some e \<Rightarrow> (Some e, h)
      | None \<Rightarrow>
          (let path = smb_filePath m (shName s)
           in case fw_ReadFile (smFaults m) path h of
                Inr d \<Rightarrow> (Some (Errorf ''share %q already exists''), h)
              | Inl e \<Rightarrow>
                  if \<not> errors_Is e ErrNotExist then (Some (Wrapf ''stat existing share %q: %w'' e), h)
                  else write_validated m ''write share %q: %w'' path (renderShareConf s) (\<lambda>h. snd (fw_Remove (smFaults m) path h)) h))"

definition UpdateShare :: "'x Manager \<Rightarrow> Share \<Rightarrow> 'x host \<Rightarrow> error option \<times> 'x host" where
  "UpdateShare m s h =
     (case validateShare s of
        Some e \<Rightarrow> (Some e, h)
      | None \<Rightarrow>
          (let path = smb_filePath m (shName s)
           in case fw_ReadFile (smFaults m) path h of
                Inl e \<Rightarrow> (Some (if errors_Is e ErrNotExist then ErrNotFound else Wrapf ''read existing share %q: %w'' e), h)
              | Inr prev \<Rightarrow>
                  write_validated m ''write share %q: %w'' path (renderShareConf s) (\<lambda>h. snd (fw_Write (smFaults m) path prev h)) h))"

definition DeleteShare :: "'x Manager \<Rightarrow> string \<Rightarrow> 'x host \<Rightarrow> error option \<times> 'x host" where
  "DeleteShare m name h =
     (case validateShareName name of
        Some e \<Rightarrow> (Some e, h)
      | None \<Rightarrow>
          (case fw_Remove (smFaults m) (smb_filePath m name) h of
             (Some e, h) \<Rightarrow> (Some (if errors_Is e ErrNotExist then ErrNotFound else Wrapf ''remove share %q: %w'' e), h)
           | (None, h) \<Rightarrow> (case smb_reload m h of (err, h) \<Rightarrow> (wrap_err ''reload smbd: %w'' err, h))))"

definition ListShares :: "'x Manager \<Rightarrow> 'x host \<Rightarrow> Share list result" where
  "ListShares m h =
     (case fw_ReadDir (smFaults m) (smb_dir m) h of
        Inl e \<Rightarrow> Inl (Wrapf ''readdir %s: %w'' e)
      | Inr entries \<Rightarrow>
          Inr (sort_key shName (List.map_filter (\<lambda>ent.
            (case managed_entry (smb_prefix m) ''.conf'' validateShareName ent of
               None \<Rightarrow> None
             | Some name \<Rightarrow>
                 (case bindE (fw_ReadFile (smFaults m) (path_Join [smb_dir m, fst ent]) h) parseShareConf of
                    Inl e \<Rightarrow> None
                  | Inr sh \<Rightarrow> Some (sh\<lparr>shName := name\<rparr>)))) entries)))"

definition GetShare :: "'x Manager \<Rightarrow> string \<Rightarrow> 'x host \<Rightarrow> Share result" where
  "GetShare m name h =
     (case validateShareName name of
        Some e \<Rightarrow> Inl e
      | None \<Rightarrow>
          (case fw_ReadFile (smFaults m) (smb_filePath m name) h of
             Inl e \<Rightarrow> Inl (if errors_Is e ErrNotExist then ErrNotFound else Wrapf ''read share %q: %w'' e)
           | Inr d \<Rightarrow> bindE (wrapE ''parse share %q: %w'' (parseShareConf d)) (\<lambda>sh. Inr (sh\<lparr>shName := name\<rparr>))))"

subsection \<open>Users\<close>

definition set_password :: "'x Manager \<Rightarrow> string list \<Rightarrow> string \<Rightarrow> string \<Rightarrow> string \<Rightarrow> 'x host \<Rightarrow> error option \<times> 'x host" where
  "set_password m flags fmt username password h =
     (case validateUsername username of
        Some e \<Rightarrow> (Some e, h)
      | None \<Rightarrow>
          if password = [] then (Some (Errorf ''password required''), h)
          else (case smb_runStdin m (smbpasswdBin m) (password @ [LF] @ password @ [LF]) (flags @ [username]) h of
                  (Inl e, h) \<Rightarrow> (Some (Wrapf fmt e), h)
                | (Inr out, h) \<Rightarrow> (None, h)))"

definition AddUser :: "'x Manager \<Rightarrow> string \<Rightarrow> string \<Rightarrow> 'x host \<Rightarrow> error option \<times> 'x host" where
  "AddUser m = set_password m [''-a'', ''-s''] ''smbpasswd -a -s %s: %w''"

definition SetUserPassword :: "'x Manager \<Rightarrow> string \<Rightarrow> string \<Rightarrow> 'x host \<Rightarrow> error option \<times> 'x host" where
  "SetUserPassword m = set_password m [''-s''] ''smbpasswd -s %s: %w''"

definition DeleteUser :: "'x Manager \<Rightarrow> string \<Rightarrow> 'x host \<Rightarrow> error option \<times> 'x host" where
  "DeleteUser m username h =
     (case validateUsername username of
        Some e \<Rightarrow> (Some e, h)
      | None \<Rightarrow>
          (case smb_run m (smbpasswdBin m) [''-x'', username] h of
             (Inl e, h) \<Rightarrow> (Some (Wrapf ''smbpasswd -x %s: %w'' e), h)
           | (Inr out, h) \<Rightarrow> (None, h)))"

definition ListUsers :: "'x Manager \<Rightarrow> 'x host \<Rightarrow> User list result \<times> 'x host" where
  "ListUsers m h =
     (case smb_run m (pdbeditBin m) [''-L''] h of
        (Inl e, h) \<Rightarrow> (Inl (Wrapf ''pdbedit -L: %w'' e), h)
      | (Inr out, h) \<Rightarrow> (Inr (parsePdbeditL out), h))"

subsection \<open>The global section\<close>

record GlobalsOpts =
  goWorkgroup :: string
  goServerString :: string
  goACLProfile :: string
  goSecurityMode :: string
  goRealm :: string
  goEnableNetBIOS :: bool
  goCustomLines :: "string list"

definition globalsFilePath :: "'x Manager \<Rightarrow> string" where
  "globalsFilePath m = path_Join [smb_dir m, ''00-nova-globals.conf'']"

definition applyGlobalsDefaults :: "GlobalsOpts \<Rightarrow> GlobalsOpts" where
  "applyGlobalsDefaults o' =
     o'\<lparr>goWorkgroup := or_default (goWorkgroup o') ''WORKGROUP'', goServerString := or_default (goServerString o') ''NovaNAS'',
       goACLProfile := or_default (goACLProfile o') ''nfsv4'', goSecurityMode := or_default (goSecurityMode o') ''user''\<rparr>"

definition validateWorkgroup :: "string \<Rightarrow> error option" where
  "validateWorkgroup w =
     (if w = [] then Some (Errorf ''workgroup required'')
      else if length w > 15 then Some (Errorf ''workgroup too long (>15): %q'')
      else if list_all user_char w then None
      else Some (Errorf ''workgroup contains invalid character %q in %q''))"

definition validateServerString :: "string \<Rightarrow> error option" where
  "validateServerString s =
     (if length s > 256 then Some (Errorf ''server string too long (>256)'')
      else if list_ex (\<lambda>c. c \<in> {CHR 0x0A, CHR 0x0D, CHR 0x00}) s then Some (Errorf ''server string contains forbidden character %q'') else None)"

definition validateRealm :: "string \<Rightarrow> error option" where
  "validateRealm r =
     (if r = [] then None
      else if length r > 255 then Some (Errorf ''realm too long (>255): %q'')
      else if list_all user_char r then None
      else Some (Errorf ''realm contains invalid character %q in %q''))"

definition line_control :: "char \<Rightarrow> bool" where
  "line_control c \<longleftrightarrow> c \<in> {CHR 0x0A, CHR 0x0D, CHR 0x00}"

definition line_meta :: "char \<Rightarrow> bool" where
  "line_meta c \<longleftrightarrow> c \<in> {CHR '';'', CHR ''|'', CHR ''&'', CHR ''$'', CHR 0x60, CHR 0x5C, CHR ''<'', CHR ''>''}"

definition validateCustomLine :: "string \<Rightarrow> error option" where
  "validateCustomLine line =
     (if CHR ''='' \<notin> set line then Some (Errorf ''custom line must contain '=': %q'')
      else map_option (\<lambda>c. Errorf (if line_control c then ''custom line contains forbidden control character: %q''
                                  else ''custom line contains forbidden shell metacharacter %q: %q''))
             (find (\<lambda>c. line_control c \<or> line_meta c) line))"

definition validateGlobals :: "GlobalsOpts \<Rightarrow> error option" where
  "validateGlobals o' =
     or_else (validateWorkgroup (goWorkgroup o')) (or_else (validateServerString (goServerString o'))
     (if goACLProfile o' \<notin> {''nfsv4'', ''posix''} then Some (Errorf ''aclProfile must be nfsv4 or posix: %q'')
      else if goSecurityMode o' \<notin> {''user'', ''ads''} then Some (Errorf ''securityMode must be user or ads: %q'')
      else or_else (validateRealm (goRealm o'))
        (if goSecurityMode o' = ''ads'' \<and> goRealm o' = [] then Some (Errorf ''realm required when securityMode=ads'')
         else validate_all ''customLines[%d]: %w'' validateCustomLine (goCustomLines o'))))"

definition profile_lines :: "string \<Rightarrow> (string \<times> string) list" where
  "profile_lines p =
     (if p = ''nfsv4''
      then [(''vfs objects'', ''zfsacl''), (''nfs4: chown'', ''yes''), (''nfs4: acedup'', ''merge''), (''nfs4: mode'', ''special''),
            (''nt acl support'', ''yes''), (''inherit acls'', ''yes''), (''map acl inherit'', ''yes''), (''store dos attributes'', ''yes''),
            (''ea support'', ''yes''), (''oplocks'', ''no''), (''level2 oplocks'', ''no''), (''kernel oplocks'', ''no''),
            (''idmap config * : backend'', ''tdb''), (''idmap config * : range'', ''100000-200000'')]
      else [(''vfs objects'', ''acl_xattr''), (''acl_xattr:ignore system acls'', ''yes''), (''nt acl support'', ''yes''),
            (''store dos attributes'', ''yes'')])"

definition globals_pairs :: "GlobalsOpts \<Rightarrow> (string \<times> string) list" where
  "globals_pairs o' =
     [(''workgroup'', goWorkgroup o'), (''server string'', goServerString o'), (''server min protocol'', ''SMB2''), (''server max protocol'', ''SMB3'')]
     @ (if goACLProfile o' = ''nfsv4'' then [(''client min protocol'', ''SMB2'')] else [])
     @ [(''security'', goSecurityMode o')]
     @ (if goSecurityMode o' = ''ads'' then [(''realm'', goRealm o')] else [])
     @ (if \<not> goEnableNetBIOS o' then [(''disable netbios'', ''yes'')] else [])
     @ profile_lines (goACLProfile o')"

definition renderGlobalsConf :: "GlobalsOpts \<Rightarrow> string" where
  "renderGlobalsConf o' =
     unlines ([''[global]''] @ map (\<lambda>(k, v). conf_line k v) (globals_pairs o') @ map (\<lambda>l. ''   '' @ TrimSpace l) (goCustomLines o'))"

definition SetGlobals :: "'x Manager \<Rightarrow> GlobalsOpts \<Rightarrow> 'x host \<Rightarrow> error option \<times> 'x host" where
  "SetGlobals m opts h =
     (let opts = applyGlobalsDefaults opts; path = globalsFilePath m
      in case validateGlobals opts of
           Some e \<Rightarrow> (Some e, h)
         | None \<Rightarrow>
             (case fw_ReadFile (smFaults m) path h of
                Inr prev \<Rightarrow>
                  write_validated m ''write globals: %w'' path (renderGlobalsConf opts) (\<lambda>h. snd (fw_Write (smFaults m) path prev h)) h
              | Inl e \<Rightarrow>
                  if \<not> errors_Is e ErrNotExist then (Some (Wrapf ''read existing globals: %w'' e), h)
                  else write_validated m ''write globals: %w'' path (renderGlobalsConf opts) (\<lambda>h. snd (fw_Remove (smFaults m) path h)) h))"

record globals_scan =
  gsOut :: GlobalsOpts
  gsHeader :: bool
  gsZFS :: bool
  gsACLXattr :: bool
  gsDisableNetBIOS :: bool

definition scan_global :: "string \<Rightarrow> string \<Rightarrow> globals_scan \<Rightarrow> globals_scan" where
  "scan_global key val g =
     (if key = ''workgroup'' then g\<lparr>gsOut := (gsOut g)\<lparr>goWorkgroup := val\<rparr>\<rparr>
      else if key = ''server string'' then g\<lparr>gsOut := (gsOut g)\<lparr>goServerString := val\<rparr>\<rparr>
      else if key = ''security'' then g\<lparr>gsOut := (gsOut g)\<lparr>goSecurityMode := val\<rparr>\<rparr>
      else if key = ''realm'' then g\<lparr>gsOut := (gsOut g)\<lparr>goRealm := val\<rparr>\<rparr>
      else if key = ''disable netbios'' then g\<lparr>gsDisableNetBIOS := parseBool val\<rparr>
      else if key = ''vfs objects''
      then g\<lparr>gsZFS := (gsZFS g \<or> Contains val ''zfsacl''), gsACLXattr := (gsACLXattr g \<or> Contains val ''acl_xattr'')\<rparr>
      else g)"

definition globals_step :: "string \<Rightarrow> globals_scan \<Rightarrow> globals_scan" where
  "globals_step raw g =
     (let line = TrimSpace raw
      in if skipped_line line then g
         else if header_line line then g\<lparr>gsHeader := True\<rparr>
         else if \<not> gsHeader g then g
         else case key_value line of None \<Rightarrow> g | Some (key, val) \<Rightarrow> scan_global key val g)"

definition no_globals :: GlobalsOpts where
  "no_globals = \<lparr>goWorkgroup = [], goServerString = [], goACLProfile = [], goSecurityMode = [], goRealm = [], goEnableNetBIOS = False, goCustomLines = []\<rparr>"

definition parseGlobalsConf :: "string \<Rightarrow> GlobalsOpts result" where
  "parseGlobalsConf dat =
     (case scan_lines conf_token_size dat of
        (ls, err) \<Rightarrow>
          (let g = fold globals_step ls \<lparr>gsOut = no_globals, gsHeader = False, gsZFS = False, gsACLXattr = False, gsDisableNetBIOS = False\<rparr>
           in check err
                (if \<not> gsHeader g then Inl (Errorf ''no [global] header found'')
                 else Inr ((gsOut g)\<lparr>goACLProfile := (if gsZFS g then ''nfsv4'' else if gsACLXattr g then ''posix'' else ''nfsv4''),
                                     goEnableNetBIOS := \<not> gsDisableNetBIOS g\<rparr>))))"

definition GetGlobals :: "'x Manager \<Rightarrow> 'x host \<Rightarrow> GlobalsOpts result" where
  "GetGlobals m h =
     (case fw_ReadFile (smFaults m) (globalsFilePath m) h of
        Inl e \<Rightarrow> if errors_Is e ErrNotExist then Inr no_globals else Inl (Wrapf ''read globals: %w'' e)
      | Inr d \<Rightarrow> wrapE ''parse globals: %w'' (parseGlobalsConf d))"

subsection \<open>The files of the shares\<close>

definition smb_ok :: "'x Manager \<Rightarrow> bool" where
  "smb_ok m \<longleftrightarrow> plain_errors (smFaults m) (smRunner m) ErrNotFound"

lemma smb_reload_files: "smb_reload m h = (r, h') \<Longrightarrow> hsFiles h' = hsFiles h"
  by (auto simp: smb_reload_def smb_run_def dest: host_run_eq split: prod.splits sum.splits)

lemma smb_testparm_files: "smb_testparm m h = (r, h') \<Longrightarrow> hsFiles h' = hsFiles h"
  by (auto simp: smb_testparm_def smb_run_def dest: host_run_eq split: prod.splits sum.splits)

lemma Wrapf_not_missing [simp]: "errors_Is (Wrapf f e) ErrNotFound \<longleftrightarrow> errors_Is e ErrNotFound"
  by (simp add: ErrNotFound_def)

lemma smb_errors:
  assumes "smb_ok m"
  shows "smb_reload m h = (Some e, h') \<Longrightarrow> \<not> errors_Is e ErrNotFound"
    and "smb_testparm m h = (Some e, h') \<Longrightarrow> \<not> errors_Is e ErrNotFound"
  using host_run_plain[OF assms[unfolded smb_ok_def]]
  by (auto simp: smb_reload_def smb_testparm_def smb_run_def simp del: errors_Is.simps split: prod.splits sum.splits)

text \<open>The outcomes of a validated write.\<close>

lemma write_validated_cases:
  assumes "write_validated m fmt path dat undo h = (r, h')"
  obtains (unwritten) e where "r = Some (Wrapf fmt e)" "fw_Write (smFaults m) path dat h = (Some e, h')"
  | (rejected) e h1 h2 where "r = Some (Wrapf ''testparm validation failed: %w'' e)" "fw_Write (smFaults m) path dat h = (None, h1)"
      "smb_testparm m h1 = (Some e, h2)" "h' = undo h2"
  | (written) h1 h2 e where "fw_Write (smFaults m) path dat h = (None, h1)" "smb_testparm m h1 = (None, h2)"
      "smb_reload m h2 = (e, h')" "r = wrap_err ''reload smbd: %w'' e"
proof -
  obtain r1 h1 where w: "fw_Write (smFaults m) path dat h = (r1, h1)" by fastforce
  obtain r2 h2 where t: "smb_testparm m h1 = (r2, h2)" by fastforce
  obtain r3 h3 where l: "smb_reload m h2 = (r3, h3)" by fastforce
  show ?thesis
  proof (cases r1)
    case (Some e)
    then show ?thesis using assms w unwritten[of e] by (simp add: write_validated_def)
  next
    case r1: None
    show ?thesis
    proof (cases r2)
      case (Some e)
      then show ?thesis using assms w t r1 rejected[of e h1 h2] by (simp add: write_validated_def)
    next
      case None
      then show ?thesis using assms w t l r1 written[of h1 h2 r3] by (simp add: write_validated_def)
    qed
  qed
qed

lemma write_validated_frame:
  assumes "write_validated m fmt path dat undo h = (r, h')" and "\<And>h p. p \<noteq> path \<Longrightarrow> hsFiles (undo h) p = hsFiles h p" and "p \<noteq> path"
  shows "hsFiles h' p = hsFiles h p"
  using assms(1)
proof (cases rule: write_validated_cases)
  case (unwritten e)
  then show ?thesis using fw_Write_frame assms(3) by blast
next
  case (rejected e h1 h2)
  then show ?thesis using fw_Write_frame[OF rejected(2) assms(3)] smb_testparm_files[OF rejected(3)] assms(2,3) by simp
next
  case (written h1 h2 e)
  then show ?thesis using fw_Write_frame[OF written(1) assms(3)] smb_testparm_files[OF written(2)] smb_reload_files[OF written(3)] by simp
qed

lemma write_validated_ok:
  assumes "write_validated m fmt path dat undo h = (None, h')"
  shows "hsFiles h' path = Some dat"
  using assms
proof (cases rule: write_validated_cases)
  case (written h1 h2 e)
  then show ?thesis using fw_Write_ok[OF written(1)] smb_testparm_files[OF written(2)] smb_reload_files[OF written(3)] by simp
qed auto

lemma write_validated_plain:
  assumes "write_validated m fmt path dat undo h = (Some err, h')" and "smb_ok m"
  shows "\<not> errors_Is err ErrNotFound"
  using assms(1)
proof (cases rule: write_validated_cases)
  case (unwritten e)
  then show ?thesis using fw_Write_plain[OF assms(2)[unfolded smb_ok_def] unwritten(2)] by (simp del: errors_Is.simps)
next
  case (rejected e h1 h2)
  then show ?thesis using smb_errors(2)[OF assms(2) rejected(3)] by (simp del: errors_Is.simps)
next
  case (written h1 h2 e)
  then show ?thesis using smb_errors(1)[OF assms(2)] by (cases e) (auto simp: wrap_err_def simp del: errors_Is.simps)
qed

text \<open>A rejected share is not taken for a missing one.\<close>

lemma validate_all_not_missing:
  assumes "\<And>x e. f x = Some e \<Longrightarrow> \<not> errors_Is e ErrNotFound" and "validate_all fmt f xs = Some err"
  shows "\<not> errors_Is err ErrNotFound"
  using assms(2) by (induction xs) (auto simp: or_else_def wrap_err_def assms(1) simp del: errors_Is.simps split: option.splits)

lemma validateShareName_not_missing: "validateShareName n = Some e \<Longrightarrow> \<not> errors_Is e ErrNotFound"
  by (auto simp: validateShareName_def validate_name_def ErrNotFound_def split: if_splits)

lemma validate_fields_not_missing:
  "validateSharePath p = Some e \<Longrightarrow> \<not> errors_Is e ErrNotFound"
  "validateComment c = Some e \<Longrightarrow> \<not> errors_Is e ErrNotFound"
  "validateMask k = Some e \<Longrightarrow> \<not> errors_Is e ErrNotFound"
  "validateUsername u = Some e \<Longrightarrow> \<not> errors_Is e ErrNotFound"
  "validateVetoEntry v = Some e \<Longrightarrow> \<not> errors_Is e ErrNotFound"
  by (auto simp: validateSharePath_def validateComment_def validateMask_def validateUsername_def validateVetoEntry_def ErrNotFound_def
      split: if_splits option.splits)

lemma validateShare_not_missing: "validateShare s = Some e \<Longrightarrow> \<not> errors_Is e ErrNotFound"
  unfolding validateShare_def
  by (elim or_else_not[rotated 2] validateShareName_not_missing validate_fields_not_missing validate_all_not_missing[rotated])

lemma undo_frames:
  "p \<noteq> path \<Longrightarrow> hsFiles (snd (fw_Remove f path h)) p = hsFiles h p"
  "p \<noteq> path \<Longrightarrow> hsFiles (snd (fw_Write f path d h)) p = hsFiles h p"
  by (auto simp: fw_Remove_def fw_Write_def split: option.splits)

lemma write_validated_frames:
  "p \<noteq> path \<Longrightarrow> hsFiles (snd (write_validated m fmt path dat (\<lambda>h. snd (fw_Remove f path h)) h)) p = hsFiles h p"
  "p \<noteq> path \<Longrightarrow> hsFiles (snd (write_validated m fmt path dat (\<lambda>h. snd (fw_Write f path d h)) h)) p = hsFiles h p"
  by (rule write_validated_frame[OF prod.collapse[symmetric]]; simp add: undo_frames)+

lemma CreateShare_cases:
  "(\<exists>err. CreateShare m s h = (Some err, h)) \<or>
   CreateShare m s h = write_validated m ''write share %q: %w'' (smb_filePath m (shName s)) (renderShareConf s)
     (\<lambda>h. snd (fw_Remove (smFaults m) (smb_filePath m (shName s)) h)) h"
  by (simp add: CreateShare_def Let_def split: option.split sum.split)

lemma UpdateShare_cases:
  "(\<exists>err. UpdateShare m s h = (Some err, h)) \<or>
   (\<exists>prev. hsFiles h (smb_filePath m (shName s)) = Some prev \<and>
      UpdateShare m s h = write_validated m ''write share %q: %w'' (smb_filePath m (shName s)) (renderShareConf s)
        (\<lambda>h. snd (fw_Write (smFaults m) (smb_filePath m (shName s)) prev h)) h)"
  by (auto simp: UpdateShare_def Let_def dest: fw_ReadFile_Inr split: option.split sum.split)

lemma CreateShare_taken:
  assumes "smb_ok m" and "hsFiles h (smb_filePath m (shName s)) \<noteq> None"
  shows "\<exists>err. CreateShare m s h = (Some err, h)"
proof (cases "fw_ReadFile (smFaults m) (smb_filePath m (shName s)) h")
  case (Inl err)
  then have "\<not> errors_Is err ErrNotExist" using assms fw_ReadFile_taken unfolding smb_ok_def by blast
  then show ?thesis using Inl by (auto simp: CreateShare_def Let_def split: option.splits)
qed (auto simp: CreateShare_def Let_def split: option.splits)

lemma UpdateShare_missing:
  assumes "smb_ok m" and "UpdateShare m s h = (Some err, h')" and "errors_Is err ErrNotFound"
  shows "h' = h \<and> hsFiles h (smb_filePath m (shName s)) = None"
proof -
  have v: "validateShare s = None"
    using assms(2,3) validateShare_not_missing by (fastforce simp: UpdateShare_def split: option.splits)
  have "hsFiles h (smb_filePath m (shName s)) = None"
  proof (rule ccontr)
    assume t: "hsFiles h (smb_filePath m (shName s)) \<noteq> None"
    show False
    proof (cases "fw_ReadFile (smFaults m) (smb_filePath m (shName s)) h")
      case (Inl e')
      then have "\<not> errors_Is e' ErrNotExist" "\<not> errors_Is e' ErrNotFound"
        using fw_ReadFile_taken[OF assms(1)[unfolded smb_ok_def] t] by auto
      then show False using assms(2,3) Inl v by (auto simp: UpdateShare_def Let_def simp del: errors_Is.simps)
    next
      case (Inr d)
      then show False using write_validated_plain[OF _ assms(1)] assms(2,3) v by (auto simp: UpdateShare_def Let_def)
    qed
  qed
  then show ?thesis using UpdateShare_cases[of m s h] assms(2) by auto
qed

lemma DeleteShare_files:
  assumes "DeleteShare m n h = (r, h')"
  shows "(r \<noteq> None \<and> h' = h) \<or> (\<exists>h1. fw_Remove (smFaults m) (smb_filePath m n) h = (None, h1) \<and> hsFiles h' = hsFiles h1)"
proof -
  have "(\<exists>err. DeleteShare m n h = (Some err, h)) \<or> (\<exists>h1. fw_Remove (smFaults m) (smb_filePath m n) h = (None, h1) \<and>
      DeleteShare m n h = (case smb_reload m h1 of (err, h) \<Rightarrow> (wrap_err ''reload smbd: %w'' err, h)))"
    by (auto simp: DeleteShare_def fw_Remove_def split: option.split)
  then show ?thesis
  proof (elim disjE exE conjE)
    fix h1 assume h: "fw_Remove (smFaults m) (smb_filePath m n) h = (None, h1)"
      "DeleteShare m n h = (case smb_reload m h1 of (err, h) \<Rightarrow> (wrap_err ''reload smbd: %w'' err, h))"
    obtain r2 h2 where l: "smb_reload m h1 = (r2, h2)" by fastforce
    then have "h2 = h'" using h(2) assms by simp
    then show ?thesis using h(1) smb_reload_files[OF l] by auto
  qed (use assms in auto)
qed

lemma DeleteShare_missing:
  assumes "smb_ok m" and "DeleteShare m n h = (Some err, h')" and "errors_Is err ErrNotFound"
  shows "h' = h \<and> hsFiles h (smb_filePath m n) = None"
proof -
  have v: "validateShareName n = None"
    using assms(2,3) validateShareName_not_missing by (fastforce simp: DeleteShare_def split: option.splits)
  obtain r1 h1 where r: "fw_Remove (smFaults m) (smb_filePath m n) h = (r1, h1)" by fastforce
  have "r1 \<noteq> None"
  proof
    assume n: "r1 = None"
    obtain r2 h2 where l: "smb_reload m h1 = (r2, h2)" by fastforce
    then obtain e where e: "r2 = Some e" "err = Wrapf ''reload smbd: %w'' e" using assms(2) v r n by (auto simp: DeleteShare_def wrap_err_def)
    then show False using assms(3) smb_errors(1)[OF assms(1)] l by (simp del: errors_Is.simps)
  qed
  then obtain e1 where e1: "r1 = Some e1" by auto
  note x = fw_Remove_missing[OF assms(1)[unfolded smb_ok_def] r[unfolded e1]]
  show ?thesis using assms(2,3) v r e1 x by (auto simp: DeleteShare_def simp del: errors_Is.simps split: if_splits)
qed

text \<open>Samba shares keep the contract.\<close>

interpretation smb: share_store smb_ok CreateShare UpdateShare DeleteShare smb_filePath shName "\<lambda>m. renderShareConf" ErrNotFound
proof unfold_locales
  fix m :: "'x Manager" and e :: Share and h r h' p
  assume p: "p \<noteq> smb_filePath m (shName e)"
  show "CreateShare m e h = (r, h') \<Longrightarrow> hsFiles h' p = hsFiles h p"
    using CreateShare_cases[of m e h] write_validated_frames(1)[OF p] by (metis snd_conv)
  show "UpdateShare m e h = (r, h') \<Longrightarrow> hsFiles h' p = hsFiles h p"
    using UpdateShare_cases[of m e h] write_validated_frames(2)[OF p] by (metis snd_conv)
next
  fix m :: "'x Manager" and e h h'
  show "CreateShare m e h = (None, h') \<Longrightarrow> hsFiles h' (smb_filePath m (shName e)) = Some (renderShareConf e)"
    using CreateShare_cases[of m e h] write_validated_ok by (metis Pair_inject option.distinct(1))
  show "UpdateShare m e h = (None, h') \<Longrightarrow> hsFiles h (smb_filePath m (shName e)) \<noteq> None \<and>
      hsFiles h' (smb_filePath m (shName e)) = Some (renderShareConf e)"
    using UpdateShare_cases[of m e h] write_validated_ok by (metis Pair_inject option.distinct(1))
next
  fix m :: "'x Manager" and n h r h' p
  show "DeleteShare m n h = (r, h') \<Longrightarrow> p \<noteq> smb_filePath m n \<Longrightarrow> hsFiles h' p = hsFiles h p"
    using DeleteShare_files[of m n h r h'] fw_Remove_frame by fastforce
next
  fix m :: "'x Manager" and n h h'
  show "DeleteShare m n h = (None, h') \<Longrightarrow> hsFiles h (smb_filePath m n) \<noteq> None \<and> hsFiles h' (smb_filePath m n) = None"
    using DeleteShare_files[of m n h None h'] fw_Remove_ok by fastforce
qed (use CreateShare_taken UpdateShare_missing DeleteShare_missing in blast)+

subsection \<open>What is rendered is parsed\<close>

text \<open>A value with no blanks around it, in a line after a key.\<close>

lemma trim_left_length: "length (trim_left s) \<le> length s \<and> (space_len s > 0 \<and> s \<noteq> [] \<longrightarrow> length (trim_left s) < length s)"
proof (induction s rule: trim_left.induct)
  case (1 s)
  then show ?case by (subst (1 2) trim_left.simps) (auto intro: le_less_trans)
qed

lemma trim_rev_length: "length (trim_rev s) \<le> length s \<and> (rspace_len s > 0 \<and> s \<noteq> [] \<longrightarrow> length (trim_rev s) < length s)"
proof (induction s rule: trim_rev.induct)
  case (1 s)
  then show ?case by (subst (1 2) trim_rev.simps) (auto intro: le_less_trans)
qed

lemma tidy_rspace:
  assumes "TrimSpace v = v" and "v \<noteq> []"
  shows "rspace_len (rev v) = 0"
proof -
  have l: "length (trim_rev (rev (trim_left v))) = length v" using assms(1) by (metis TrimSpace_def length_rev)
  have "length (trim_left v) \<ge> length v" using l trim_rev_length[of "rev (trim_left v)"] by simp
  then have "space_len v = 0" using trim_left_length[of v] assms(2) by auto
  then have "trim_left v = v" by (subst trim_left.simps) simp
  then show ?thesis using l trim_rev_length[of "rev v"] assms(2) by auto
qed

lemma encodings_no_blank: "e \<in> set space_encodings \<Longrightarrow> 0 < length e \<and> (1 < length e \<longrightarrow> CHR '' '' \<notin> set e)"
proof -
  have "list_all (\<lambda>e. 0 < length e \<and> (1 < length e \<longrightarrow> CHR '' '' \<notin> set e)) space_encodings" by (simp add: space_encodings_def)
  then show "e \<in> set space_encodings \<Longrightarrow> 0 < length e \<and> (1 < length e \<longrightarrow> CHR '' '' \<notin> set e)" by (simp add: list_all_iff)
qed

lemma rspace_len_append:
  assumes "rspace_len r = 0" and "r \<noteq> []"
  shows "rspace_len (r @ CHR '' '' # t) = 0"
proof -
  have no: "\<not> HasPrefix r (rev e)" if "e \<in> set space_encodings" for e
    using assms(1) that encodings_no_blank by (fastforce simp: rspace_len_def find_None_iff find_Some_iff split: option.splits)
  have "\<not> HasPrefix (r @ CHR '' '' # t) (rev e)" if e: "e \<in> set space_encodings" for e
  proof
    assume "HasPrefix (r @ CHR '' '' # t) (rev e)"
    then have t: "take (length e) (r @ CHR '' '' # t) = rev e" by (simp add: HasPrefix_def)
    show False
    proof (cases "length e \<le> length r")
      case True
      then show False using t no[OF e] by (simp add: HasPrefix_def)
    next
      case False
      then have "take (length e) (r @ CHR '' '' # t) = r @ CHR '' '' # take (length e - length r - 1) t"
        by (cases "length e - length r") simp_all
      then have "CHR '' '' \<in> set (rev e)" using t by (metis in_set_conv_decomp)
      moreover have "1 < length e" using False assms(2) by (cases r) auto
      ultimately show False using encodings_no_blank[OF e] by simp
    qed
  qed
  then have "find (HasPrefix (r @ CHR '' '' # t)) (map rev space_encodings) = None" by (auto simp: find_None_iff)
  then show ?thesis by (simp add: rspace_len_def)
qed

definition tidy :: "string \<Rightarrow> bool" where
  "tidy v \<longleftrightarrow> v \<noteq> [] \<and> TrimSpace v = v"

lemma TrimSpace_conf_line:
  assumes "tidy v" and "k \<noteq> []" and "plain_char (hd k)"
  shows "TrimSpace (conf_line k v) = k @ '' = '' @ v"
proof -
  let ?l = "k @ '' = '' @ v"
  have "rspace_len (rev ?l) = 0" using rspace_len_append[OF tidy_rspace] assms(1) by (simp add: tidy_def)
  then have r: "trim_rev (rev ?l) = rev ?l" by (subst trim_rev.simps) simp
  have "trim_left ?l = ?l" using assms(2,3) by (cases k) (simp_all add: trim_left_plain)
  then have "TrimSpace ?l = ?l" unfolding TrimSpace_def using r by simp
  then show ?thesis by (simp add: conf_line_def)
qed

definition conf_keys :: "string list" where
  "conf_keys = [''path'', ''comment'', ''browseable'', ''writable'', ''guest ok'', ''read only'', ''valid users'', ''write list'', ''admin users'',
     ''create mask'', ''directory mask'', ''veto files'']"

lemma conf_keys_plain:
  assumes "k \<in> set conf_keys"
  shows "k \<noteq> [] \<and> plain_char (hd k) \<and> plain_char (last k) \<and> CHR ''='' \<notin> set k \<and> ToLower (k @ '' '') = k @ '' '' \<and>
    hd k \<notin> {CHR ''['', CHR ''#'', CHR '';''} \<and> LF \<notin> set k \<and> CHR 0x0D \<notin> set k"
proof -
  have "list_all (\<lambda>k. k \<noteq> [] \<and> plain_char (hd k) \<and> plain_char (last k) \<and> CHR ''='' \<notin> set k \<and> ToLower (k @ '' '') = k @ '' '' \<and>
    hd k \<notin> {CHR ''['', CHR ''#'', CHR '';''} \<and> LF \<notin> set k \<and> CHR 0x0D \<notin> set k) conf_keys"
    by (simp add: conf_keys_def plain_char_def LF_def)
  then show ?thesis using assms by (simp add: list_all_iff)
qed

lemma TrimSpace_trailing_blank:
  assumes "k \<noteq> []" and "plain_char (hd k)" and "plain_char (last k)"
  shows "TrimSpace (k @ '' '') = k"
proof -
  have "trim_left (k @ '' '') = k @ '' ''" using assms(1,2) by (cases k) (simp_all add: trim_left_plain)
  moreover have "trim_rev (rev k) = rev k" using assms(1,3) by (cases k rule: rev_cases) (simp_all add: trim_rev_plain)
  ultimately show ?thesis by (simp add: TrimSpace_def trim_rev_blank)
qed

lemma share_loop_line:
  assumes "k \<in> set conf_keys" and "tidy v"
  shows "share_loop (conf_line k v # ls) err (Some sh) = share_loop ls err (Some (set_key k v sh))"
proof -
  note k = conf_keys_plain[OF assms(1)]
  let ?l = "k @ '' = '' @ v"
  have t: "TrimSpace (conf_line k v) = ?l" using TrimSpace_conf_line assms(2) k by blast
  have "\<not> skipped_line ?l \<and> \<not> header_line ?l" using k by (cases k) (auto simp: skipped_line_def header_line_def HasPrefix_def)
  moreover have "key_value ?l = Some (k, v)"
  proof -
    have "IndexByte ?l (CHR ''='') = Some (length k + 1)"
      using IndexByte_append[of "CHR ''=''" "k @ '' ''" "'' '' @ v"] k by simp
    moreover have "TrimSpace (ToLower (take (length k + 1) ?l)) = k" using k TrimSpace_trailing_blank by simp
    ultimately show ?thesis using assms(2) by (simp add: key_value_def tidy_def)
  qed
  ultimately show ?thesis by (simp add: t)
qed

lemma share_loop_lines:
  assumes "list_all (\<lambda>(k, v). k \<in> set conf_keys \<and> tidy v) ps"
  shows "share_loop (map (\<lambda>(k, v). conf_line k v) ps) None (Some sh) = Inr (fold (\<lambda>(k, v). set_key k v) ps sh)"
  using assms
proof (induction ps arbitrary: sh)
  case (Cons p ps)
  then show ?case by (cases p) (simp add: share_loop_line del: share_loop.simps(2))
qed simp

subsubsection \<open>The values\<close>

lemma user_word: "validateUsername u = None \<Longrightarrow> word u \<and> CHR '','' \<notin> set u"
proof -
  assume "validateUsername u = None"
  then have u: "u \<noteq> []" "list_all user_char u" by (auto simp: validateUsername_def split: if_splits)
  have "user_char c \<Longrightarrow> plain_char c \<and> c \<noteq> CHR '',''" for c by (auto simp: user_char_def alnum_def is_digit_def plain_char_def)
  then show "word u \<and> CHR '','' \<notin> set u" using u by (auto simp: word_def list_all_iff)
qed

lemma validate_all_None: "validate_all fmt f xs = None \<longleftrightarrow> list_all (\<lambda>x. f x = None) xs"
  by (induction xs) (auto simp: or_else_def wrap_err_def split: option.splits)

lemma tidy_plain: "v \<noteq> [] \<Longrightarrow> plain_char (hd v) \<Longrightarrow> plain_char (last v) \<Longrightarrow> tidy v"
  by (simp add: tidy_def TrimSpace_plain)

lemma users_value:
  assumes "list_all (\<lambda>u. validateUsername u = None) us" and "us \<noteq> []"
  shows "tidy (Join us '', '')" and "parseUserList (Join us '', '') = us" and "\<forall>c\<in>set (Join us '', ''). plain_char c \<or> c = CHR '' ''"
proof -
  have w: "list_all (\<lambda>u. word u \<and> CHR '','' \<notin> set u) us" using assms(1) user_word by (simp add: list_all_iff)
  have "Join us '', '' \<noteq> [] \<and> plain_char (hd (Join us '', '')) \<and> plain_char (last (Join us '', ''))" using w assms(2)
    by (induction us "'', ''" rule: Join.induct) (auto simp: word_def list_all_iff last_append hd_append)
  then show "tidy (Join us '', '')" by (simp add: tidy_plain)
  have "map (\<lambda>c. if c = CHR '','' then CHR '' '' else c) u = u" if "u \<in> set us" for u
    using w that by (intro map_idI) (auto simp: list_all_iff)
  then have "map (\<lambda>c. if c = CHR '','' then CHR '' '' else c) (Join us '', '') = Join us ''  ''"
    by (induction us "'', ''" rule: Join.induct) simp_all
  then show "parseUserList (Join us '', '') = us" using Fields_words[of us "''  ''"] w by (simp add: parseUserList_def list_all_iff)
  show "\<forall>c\<in>set (Join us '', ''). plain_char c \<or> c = CHR '' ''" using w
    by (induction us "'', ''" rule: Join.induct) (auto simp: word_def list_all_iff plain_char_def)
qed

lemma veto_value:
  assumes "list_all (\<lambda>v. validateVetoEntry v = None) vs" and "vs \<noteq> []"
  shows "tidy (''/'' @ Join vs ''/'' @ ''/'')" and "parseVetoList (''/'' @ Join vs ''/'' @ ''/'') = filter (\<lambda>p. p \<noteq> []) (map TrimSpace vs)"
proof -
  show "tidy (''/'' @ Join vs ''/'' @ ''/'')" by (rule tidy_plain) (simp_all add: plain_char_def)
  have "\<forall>v\<in>set vs. CHR ''/'' \<notin> set v" using assms(1) by (auto simp: validateVetoEntry_def list_all_iff list_ex_iff split: if_splits)
  then have j: "Split (Join vs ''/'') (CHR ''/'') = vs" using assms(2) Split_of_Join by blast
  have "Split (''/'' @ Join vs ''/'' @ ''/'') (CHR ''/'') = [] # vs @ [[]]"
    using Split_sep[of "Join vs ''/''" "CHR ''/''" "[]"] j by simp
  then show "parseVetoList (''/'' @ Join vs ''/'' @ ''/'') = filter (\<lambda>p. p \<noteq> []) (map TrimSpace vs)" by (simp add: parseVetoList_def)
qed

definition one_line :: "string \<Rightarrow> bool" where
  "one_line l \<longleftrightarrow> LF \<notin> set l \<and> CHR 0x0D \<notin> set l"

lemma one_line_plain: "\<forall>c\<in>set l. plain_char c \<or> c = CHR '' '' \<Longrightarrow> one_line l"
  using line_ends(1,2) by (auto simp: one_line_def)

lemma validateShare_None:
  assumes "validateShare s = None"
  shows "validateShareName (shName s) = None" and "validateSharePath (shPath s) = None" and "validateComment (shComment s) = None"
    and "validateMask (shCreateMask s) = None" and "validateMask (shDirectoryMask s) = None"
    and "list_all (\<lambda>u. validateUsername u = None) (shValidUsers s)" and "list_all (\<lambda>u. validateUsername u = None) (shWriteList s)"
    and "list_all (\<lambda>u. validateUsername u = None) (shAdminUsers s)" and "list_all (\<lambda>v. validateVetoEntry v = None) (shVeto s)"
proof -
  have "or_else a b = None \<longleftrightarrow> a = None \<and> b = None" for a b by (simp add: or_else_def split: option.splits)
  then show "validateShareName (shName s) = None" "validateSharePath (shPath s) = None" "validateComment (shComment s) = None"
    "validateMask (shCreateMask s) = None" "validateMask (shDirectoryMask s) = None"
    "list_all (\<lambda>u. validateUsername u = None) (shValidUsers s)" "list_all (\<lambda>u. validateUsername u = None) (shWriteList s)"
    "list_all (\<lambda>u. validateUsername u = None) (shAdminUsers s)" "list_all (\<lambda>v. validateVetoEntry v = None) (shVeto s)"
    using assms by (simp_all add: validateShare_def validate_all_None)
qed

lemma mask_value: "validateMask k = None \<Longrightarrow> k \<noteq> [] \<Longrightarrow> tidy k \<and> one_line k"
proof -
  assume "validateMask k = None" "k \<noteq> []"
  then have "\<forall>c\<in>set k. of_char c \<in> {48..(55::nat)}" "k \<noteq> []" by (auto simp: validateMask_def list_all_iff split: if_splits)
  moreover have "plain_char c" if "of_char c \<in> {48..(55::nat)}" for c using that by (simp add: plain_char_def)
  ultimately have "k \<noteq> []" "\<forall>c\<in>set k. plain_char c" by auto
  then show "tidy k \<and> one_line k" using one_line_plain by (simp add: tidy_plain)
qed

lemma yesno_value: "tidy (yesno b) \<and> one_line (yesno b) \<and> parseBool (yesno b) = b"
  by (cases b) (simp_all add: yesno_def tidy_plain one_line_def parseBool_def TrimSpace_plain plain_char_def LF_def)

lemma path_value: "validateSharePath p = None \<Longrightarrow> p \<noteq> [] \<and> one_line p"
proof -
  assume "validateSharePath p = None"
  then have "p \<noteq> []" "\<forall>c\<in>set p. \<not> control_char c" by (auto simp: validateSharePath_def find_None_iff split: if_splits option.splits)
  then show ?thesis using line_ends(3) by (auto simp: one_line_def)
qed

lemma comment_value: "validateComment c = None \<Longrightarrow> one_line c"
  by (auto simp: validateComment_def one_line_def LF_def list_ex_iff split: if_splits)

lemma veto_one_line: "list_all (\<lambda>v. validateVetoEntry v = None) vs \<Longrightarrow> one_line (''/'' @ Join vs ''/'' @ ''/'')"
proof -
  assume "list_all (\<lambda>v. validateVetoEntry v = None) vs"
  then have "\<forall>v\<in>set vs. one_line v" by (auto simp: validateVetoEntry_def list_all_iff list_ex_iff one_line_def LF_def split: if_splits)
  then have "one_line (Join vs ''/'')" using set_Join[of vs "''/''"] by (fastforce simp: one_line_def LF_def)
  then show "one_line (''/'' @ Join vs ''/'' @ ''/'')" by (simp add: one_line_def LF_def)
qed

definition tidy_share :: "Share \<Rightarrow> bool" where
  "tidy_share s \<longleftrightarrow> TrimSpace (shPath s) = shPath s \<and> TrimSpace (shComment s) = shComment s"

lemma conf_lines_good:
  assumes "validateShare s = None" and "tidy_share s"
  shows "list_all (\<lambda>(k, v). k \<in> set conf_keys \<and> tidy v \<and> one_line v) (conf_lines s)"
proof -
  note v = validateShare_None[OF assms(1)]
  have "tidy (shPath s)" "one_line (shPath s)" using path_value[OF v(2)] assms(2) by (simp_all add: tidy_def tidy_share_def)
  moreover have "shComment s \<noteq> [] \<Longrightarrow> tidy (shComment s)" "one_line (shComment s)"
    using comment_value[OF v(3)] assms(2) by (simp_all add: tidy_def tidy_share_def)
  ultimately show ?thesis
    using yesno_value mask_value[OF v(4)] mask_value[OF v(5)] veto_value(1)[OF v(9)] veto_one_line[OF v(9)]
      users_value(1)[OF v(6)] users_value(1)[OF v(7)] users_value(1)[OF v(8)]
      one_line_plain[OF users_value(3)[OF v(6)]] one_line_plain[OF users_value(3)[OF v(7)]] one_line_plain[OF users_value(3)[OF v(8)]]
    by (simp add: conf_lines_def conf_keys_def)
qed

lemma fold_optional: "fold f (if c then [x] else []) sh = (if c then f x sh else sh)"
  by simp

lemma set_key_optional:
  "(if c then set_key ''comment'' v sh else sh) = sh\<lparr>shComment := (if c then v else shComment sh)\<rparr>"
  "(if c then set_key ''valid users'' v sh else sh) = sh\<lparr>shValidUsers := (if c then parseUserList v else shValidUsers sh)\<rparr>"
  "(if c then set_key ''write list'' v sh else sh) = sh\<lparr>shWriteList := (if c then parseUserList v else shWriteList sh)\<rparr>"
  "(if c then set_key ''admin users'' v sh else sh) = sh\<lparr>shAdminUsers := (if c then parseUserList v else shAdminUsers sh)\<rparr>"
  "(if c then set_key ''create mask'' v sh else sh) = sh\<lparr>shCreateMask := (if c then v else shCreateMask sh)\<rparr>"
  "(if c then set_key ''directory mask'' v sh else sh) = sh\<lparr>shDirectoryMask := (if c then v else shDirectoryMask sh)\<rparr>"
  "(if c then set_key ''veto files'' v sh else sh) = sh\<lparr>shVeto := (if c then parseVetoList v else shVeto sh)\<rparr>"
  by (simp_all add: set_key_def)

lemma set_key_required:
  "set_key ''path'' v sh = sh\<lparr>shPath := v\<rparr>"
  "set_key ''browseable'' v sh = sh\<lparr>shBrowseable := parseBool v\<rparr>"
  "set_key ''writable'' v sh = sh\<lparr>shWritable := parseBool v\<rparr>"
  "set_key ''guest ok'' v sh = sh\<lparr>shGuestOK := parseBool v\<rparr>"
  "set_key ''read only'' v sh = sh\<lparr>shReadOnly := parseBool v\<rparr>"
  by (simp_all add: set_key_def)

text \<open>The vetoed names lose the blanks around them, and those that are blank.\<close>

definition read_share :: "Share \<Rightarrow> Share" where
  "read_share s = s\<lparr>shVeto := filter (\<lambda>p. p \<noteq> []) (map TrimSpace (shVeto s))\<rparr>"

lemma no_fields:
  "shComment (no_share\<lparr>shName := n\<rparr>) = []" "shValidUsers (no_share\<lparr>shName := n\<rparr>) = []" "shWriteList (no_share\<lparr>shName := n\<rparr>) = []"
  "shAdminUsers (no_share\<lparr>shName := n\<rparr>) = []" "shCreateMask (no_share\<lparr>shName := n\<rparr>) = []" "shDirectoryMask (no_share\<lparr>shName := n\<rparr>) = []"
  "shVeto (no_share\<lparr>shName := n\<rparr>) = []"
  by (simp_all add: no_share_def)

lemma fold_conf_lines:
  assumes "validateShare s = None"
  shows "fold (\<lambda>(k, v). set_key k v) (conf_lines s) (no_share\<lparr>shName := shName s\<rparr>) = read_share s"
proof -
  note v = validateShare_None[OF assms]
  have u: "(if us \<noteq> [] then parseUserList (Join us '', '') else []) = us" if "list_all (\<lambda>u. validateUsername u = None) us" for us
    using users_value(2)[OF that] by simp
  have w: "(if shVeto s \<noteq> [] then parseVetoList (''/'' @ Join (shVeto s) ''/'' @ ''/'') else []) = filter (\<lambda>p. p \<noteq> []) (map TrimSpace (shVeto s))"
    using veto_value(2)[OF v(9)] by simp
  have e: "(if x \<noteq> [] then x else []) = x" for x :: string by simp
  have "fold (\<lambda>(k, v). set_key k v) (conf_lines s) sh =
      sh\<lparr>shPath := shPath s, shComment := (if shComment s \<noteq> [] then shComment s else shComment sh), shBrowseable := shBrowseable s, shWritable := shWritable s,
        shGuestOK := shGuestOK s, shReadOnly := shReadOnly s,
        shValidUsers := (if shValidUsers s \<noteq> [] then parseUserList (Join (shValidUsers s) '', '') else shValidUsers sh),
        shWriteList := (if shWriteList s \<noteq> [] then parseUserList (Join (shWriteList s) '', '') else shWriteList sh),
        shAdminUsers := (if shAdminUsers s \<noteq> [] then parseUserList (Join (shAdminUsers s) '', '') else shAdminUsers sh),
        shCreateMask := (if shCreateMask s \<noteq> [] then shCreateMask s else shCreateMask sh),
        shDirectoryMask := (if shDirectoryMask s \<noteq> [] then shDirectoryMask s else shDirectoryMask sh),
        shVeto := (if shVeto s \<noteq> [] then parseVetoList (''/'' @ Join (shVeto s) ''/'' @ ''/'') else shVeto sh)\<rparr>" for sh
    by (simp only: conf_lines_def fold_append comp_apply fold_optional prod.case fold_Cons fold_Nil id_apply set_key_optional set_key_required)
       (simp add: yesno_value)
  then have "fold (\<lambda>(k, v). set_key k v) (conf_lines s) (no_share\<lparr>shName := shName s\<rparr>) =
      no_share\<lparr>shName := shName s, shPath := shPath s, shComment := shComment s, shBrowseable := shBrowseable s, shWritable := shWritable s,
        shGuestOK := shGuestOK s, shReadOnly := shReadOnly s, shValidUsers := shValidUsers s, shWriteList := shWriteList s,
        shAdminUsers := shAdminUsers s, shCreateMask := shCreateMask s, shDirectoryMask := shDirectoryMask s,
        shVeto := filter (\<lambda>p. p \<noteq> []) (map TrimSpace (shVeto s))\<rparr>"
    by (simp only: no_fields e u[OF v(6)] u[OF v(7)] u[OF v(8)] w)
  then show ?thesis by (simp add: no_share_def read_share_def)
qed

lemma parse_render_share:
  assumes "validateShare s = None" and "tidy_share s" and "list_all (\<lambda>l. int (length l) < conf_token_size) (share_lines s)"
  shows "parseShareConf (renderShareConf s) = Inr (read_share s)"
proof -
  note v = validateShare_None[OF assms(1)]
  have n: "shName s \<noteq> []" "\<forall>c\<in>set (shName s). plain_char c"
    using name_chars name_char_plain v(1) unfolding validateShareName_def by (auto simp: list_all_iff)
  let ?h = "''['' @ shName s @ '']''"
  note g = conf_lines_good[OF assms(1,2)]
  have "one_line (conf_line k w)" if "(k, w) \<in> set (conf_lines s)" for k w
    using g that conf_keys_plain[of k] by (auto simp: list_all_iff one_line_def conf_line_def LF_def)
  moreover have "one_line ?h" using n(2) one_line_plain[of ?h] by (auto simp: plain_char_def)
  ultimately have one: "list_all (\<lambda>l. LF \<notin> set l \<and> CHR 0x0D \<notin> set l) (share_lines s)"
    by (auto simp: share_lines_def list_all_iff one_line_def)
  have h: "TrimSpace ?h = ?h" by (rule TrimSpace_plain) (simp_all add: plain_char_def)
  have t: "TrimSpace (shName s) = shName s" using n by (simp add: TrimSpace_plain)
  have "share_loop (share_lines s) None None = Inr (fold (\<lambda>(k, v). set_key k v) (conf_lines s) (no_share\<lparr>shName := shName s\<rparr>))"
  proof -
    have "\<not> skipped_line ?h" "header_line ?h" by (simp_all add: skipped_line_def header_line_def HasPrefix_def HasSuffix_def)
    moreover have "butlast (tl ?h) = shName s" by (simp add: butlast_append)
    ultimately show ?thesis using g share_loop_lines[of "conf_lines s" "no_share\<lparr>shName := shName s\<rparr>"]
      by (simp only: share_lines_def share_loop.simps(2) h t Let_def if_True if_False option.case) (simp add: list_all_iff case_prod_beta)
  qed
  then show ?thesis using scan_unlines[OF one assms(3)] fold_conf_lines[OF assms(1)] by (simp add: parseShareConf_def renderShareConf_def)
qed

subsection \<open>Properties\<close>

lemma CreateShare_valid: "CreateShare m s h = (None, h') \<Longrightarrow> validateShare s = None"
  by (auto simp: CreateShare_def split: option.splits)


definition demo_faults :: "unit faults" where
  "demo_faults = \<lparr>ftWrite = (\<lambda>x p. None), ftRemove = (\<lambda>x p. None), ftRead = (\<lambda>x p. None), ftReadDir = (\<lambda>x p. None), ftNames = (\<lambda>d fs. [])\<rparr>"

text \<open>A host whose \<open>testparm\<close> rejects a configuration with a global section.\<close>

definition demo_manager :: "unit Manager" where
  "demo_manager = \<lparr>smSmbcontrolBin = [], smTestparmBin = [], smSmbpasswdBin = [], smPdbeditBin = [], smConfigDir = [], smFilePrefix = [],
     smRunner = (\<lambda>fs bin args x. (([], if args = [''-s''] \<and> fs ''/etc/samba/smb.conf.d/00-nova-globals.conf'' \<noteq> None
        then Some (HostError bin args 1 ''Unknown parameter'') else None), x)),
     smStdinRunner = (\<lambda>fs bin inp args x. (([], None), x)), smFaults = demo_faults\<rparr>"

definition demo_share :: Share where
  "demo_share = no_share\<lparr>shName := ''media'', shPath := ''/tank/media'', shComment := ''All films'', shBrowseable := True, shWritable := True,
     shValidUsers := [''ann'', ''bob''], shCreateMask := ''0664'', shVeto := ['' .tmp '', ''*.bak'']\<rparr>"

definition demo_host :: "unit host" where
  "demo_host = \<lparr>hsFiles = (\<lambda>p. None), hsRest = ()\<rparr>"


lemma write_validated_rejected:
  assumes "write_validated m fmt path dat undo h = (Some (Wrapf ''testparm validation failed: %w'' e), h')"
    and "fmt \<noteq> ''testparm validation failed: %w''"
  obtains h2 where "hsFiles h2 = (hsFiles h)(path \<mapsto> dat)" "h' = undo h2"
  using assms(1)
proof (cases rule: write_validated_cases)
  case (rejected e' h1 h2)
  have "hsFiles h2 = (hsFiles h)(path \<mapsto> dat)"
    using fw_Write_frame[OF rejected(2)] fw_Write_ok[OF rejected(2)] smb_testparm_files[OF rejected(3)] by auto
  then show ?thesis using rejected(4) that by blast
qed (use assms(2) in \<open>auto simp: wrap_err_def map_option_case split: option.splits\<close>)

lemma SetGlobals_cases:
  assumes "smb_ok m"
  shows "(\<exists>err. SetGlobals m g h = (Some err, h)) \<or>
   (\<exists>prev dat. hsFiles h (globalsFilePath m) = Some prev \<and>
      SetGlobals m g h = write_validated m ''write globals: %w'' (globalsFilePath m) dat (\<lambda>h. snd (fw_Write (smFaults m) (globalsFilePath m) prev h)) h) \<or>
   (\<exists>dat. hsFiles h (globalsFilePath m) = None \<and>
      SetGlobals m g h = write_validated m ''write globals: %w'' (globalsFilePath m) dat (\<lambda>h. snd (fw_Remove (smFaults m) (globalsFilePath m) h)) h)"
proof (cases "validateGlobals (applyGlobalsDefaults g)")
  case None
  show ?thesis
  proof (cases "fw_ReadFile (smFaults m) (globalsFilePath m) h")
    case (Inl e)
    then show ?thesis using None fw_ReadFile_missing[OF Inl assms[unfolded smb_ok_def]] by (auto simp: SetGlobals_def Let_def)
  next
    case (Inr prev)
    then show ?thesis using None fw_ReadFile_Inr[OF Inr] by (auto simp: SetGlobals_def Let_def)
  qed
qed (simp add: SetGlobals_def Let_def)

lemma undo_restores:
  assumes "hsFiles h2 = (hsFiles h)(path \<mapsto> dat)"
  shows "(\<And>x p. ftRemove f x p = None) \<Longrightarrow> hsFiles h path = None \<Longrightarrow> hsFiles (snd (fw_Remove f path h2)) = hsFiles h"
    and "(\<And>x p. ftWrite f x p = None) \<Longrightarrow> hsFiles h path = Some prev \<Longrightarrow> hsFiles (snd (fw_Write f path prev h2)) = hsFiles h"
  using assms by (auto simp: fw_Remove_def fw_Write_def)



end
