(* ===== verification/Spec2Isabelle.thy ===== *)
theory Spec2Isabelle
  imports SchedulerManager ZfsPoolStatus ZfsEncryption ZfsAcl ReplRetention Auth ScrubPolicy PluginPreview PluginSystemd Nfs Samba
begin

text \<open>
  NovaNAS: the storage control plane of a network attached storage system, in Go. One process (\<^verbatim>\<open>cmd/nova-api\<close>) serves a
  REST API, runs background jobs and periodic schedules, and drives the host by running commands (\<open>zfs\<close>, \<open>zpool\<close>, \<open>systemctl\<close>
  and so on). This library models the parts listed below and proves what they promise. Paths are below \<^verbatim>\<open>src/internal\<close>.

  \<^bold>\<open>Parts and how they interact.\<close>
  A request passes the token middleware (\<^verbatim>\<open>auth\<close>) and reaches a handler. Handlers that change storage do not run commands
  themselves: they insert a row into the jobs table and enqueue a task (\<^verbatim>\<open>jobs/dispatcher.go\<close>), which a worker takes up
  (\<^verbatim>\<open>jobs/worker.go\<close>), running the command through a manager (\<^verbatim>\<open>host/zfs\<close>) and recording its outcome in the row. A
  scheduler (\<^verbatim>\<open>host/scheduler\<close>) fires snapshots, prunes them by a retention policy and replicates them; \<^verbatim>\<open>scrubpolicy\<close>
  dispatches scrub jobs; \<^verbatim>\<open>replication\<close> runs replication jobs and trims their history. Keys of encrypted datasets are escrowed in a secret
  store (\<^verbatim>\<open>host/secrets\<close>), wrapped by the TPM (\<^verbatim>\<open>host/tpm\<close>). Plugins (\<^verbatim>\<open>plugins\<close>) come from signed packages of marketplaces,
  are unpacked, provided with what they need, mounted and started.

  \<^bold>\<open>How the code is translated.\<close>
  A Go string is a \<^typ>\<open>string\<close> of bytes, a struct a record, a tagged value a datatype, an \<open>int\<close> an \<^typ>\<open>int\<close> whose wrap-around is written out where it can
  happen. An error is a value of \<^typ>\<open>error\<close>, whose constructors keep the format of its message, and a fallible function
  returns \<^typ>\<open>'a result\<close>. Stateful code takes and returns its state. Interfaces and code outside the repository (commands, HTTP,
  files, cryptography, YAML, the semver library, databases) are records of functions on a world of any type; where a theorem relies on their
  behaviour it says so in a named hypothesis, and its witness gives an instance. A panic, and a call that never returns, is
  the value \<^const>\<open>None\<close>; loops that may not end are partial functions into options.

  \<^bold>\<open>Theories.\<close>
  \<^descr>[Shared] \<^verbatim>\<open>GoPrelude\<close> (strings, integers, errors, results), \<^verbatim>\<open>GoTime\<close> (calendar, zones), \<^verbatim>\<open>GoPath\<close> (file paths), \<^verbatim>\<open>GoJson\<close> (decoding),
    \<^verbatim>\<open>HostExec\<close> (commands, \<^verbatim>\<open>host/exec\<close>).
  \<^descr>[Schedules] \<^verbatim>\<open>Cron\<close> (\<^verbatim>\<open>scheduler/cron.go\<close>): a parsed field matches what its items admit, \<open>NextAfter\<close> is the least matching minute, and does not return where the clocks go back.
    \<^verbatim>\<open>Retention\<close> (\<^verbatim>\<open>scheduler/retention.go\<close>): which snapshots a policy keeps. \<^verbatim>\<open>SchedulerManager\<close> (\<^verbatim>\<open>manager.go\<close>, \<^verbatim>\<open>ssh.go\<close>): a tick fires what is due,
    destroys only expired snapshots of its own schedule, and returns.
  \<^descr>[ZFS] \<^verbatim>\<open>ZfsNames\<close>, \<^verbatim>\<open>ZfsSnapshot\<close>, \<^verbatim>\<open>ZfsPool\<close>, \<^verbatim>\<open>ZfsPoolStatus\<close>, \<^verbatim>\<open>ZfsDataset\<close>, \<^verbatim>\<open>ZfsAcl\<close> (\<^verbatim>\<open>host/zfs\<close>): names, command lines and the parsers of
    outputs; an operand of a command line is never taken for an option, and access control entries survive the wire format.
  \<^descr>[Keys] \<^verbatim>\<open>TpmWire\<close> (\<^verbatim>\<open>host/tpm\<close>: the blob and envelope formats), \<^verbatim>\<open>Secrets\<close> (\<^verbatim>\<open>host/secrets/file.go\<close> over an explicit file tree, refining a map from keys to values),
    \<^verbatim>\<open>ZfsEncryption\<close> (\<^verbatim>\<open>dataset/encryption.go\<close>: what is escrowed can be recovered).
  \<^descr>[Replication] \<^verbatim>\<open>ReplManager\<close>, \<^verbatim>\<open>ReplRetention\<close> (\<^verbatim>\<open>replication\<close>): runs of a job exclude each other and are recorded; which runs are kept.
  \<^descr>[Jobs] \<^verbatim>\<open>Jobs\<close>, \<^verbatim>\<open>JobsZfs\<close> (\<^verbatim>\<open>jobs\<close> with \<^verbatim>\<open>store/gen/jobs.sql.go\<close>): the life of a job row and the storage handlers. \<^verbatim>\<open>ScrubPolicy\<close> (\<^verbatim>\<open>scrubpolicy\<close>).
  \<^descr>[Access] \<^verbatim>\<open>Auth\<close> (\<^verbatim>\<open>auth\<close>): a protected route answers exactly the tokens it should.
  \<^descr>[Shares] \<^verbatim>\<open>ShareFiles\<close> (files and text that the managers share, and what a manager of shares promises), \<^verbatim>\<open>Nfs\<close> (\<^verbatim>\<open>host/nfs\<close>), \<^verbatim>\<open>Samba\<close> (\<^verbatim>\<open>host/samba\<close>): what is
    published is read back, and a configuration that is rejected is rolled back.
  \<^descr>[Plugins] \<^verbatim>\<open>PluginManifest\<close> (manifests and what they may ask for), \<^verbatim>\<open>PluginNeeds\<close> (provisioners and rollback), \<^verbatim>\<open>PluginMarket\<close> (marketplaces, signatures,
    the registry), \<^verbatim>\<open>PluginResolver\<close> (dependency plans), \<^verbatim>\<open>PluginServe\<close> (routes and files), \<^verbatim>\<open>PluginUnpack\<close> (archives), \<^verbatim>\<open>PluginPreview\<close> (what is shown before an
    installation), \<^verbatim>\<open>PluginLifecycle\<close> (the manager and its two tables), \<^verbatim>\<open>PluginTables\<close> (what its operations keep: only signed packages are installed, the
    tables agree with routes and directories, a failed installation leaves nothing), \<^verbatim>\<open>PluginSystemd\<close> (units).

  \<^bold>\<open>Interfaces.\<close>
  Contracts between components are locales, interpreted on the model's own definitions: \<^verbatim>\<open>secret_store\<close> (the file backend), \<^verbatim>\<open>snapshots_api\<close> (the \<open>zfs\<close>
  manager below the scheduler), \<^verbatim>\<open>repl_store\<close> (the in-memory store), \<^verbatim>\<open>scrub_services\<close> (pools and dispatcher), \<^verbatim>\<open>registry\<close> (the marketplaces), \<^verbatim>\<open>share_store\<close> (NFS exports and Samba shares), and
  \<^verbatim>\<open>steady_location\<close> (a zone with one offset).

  \<^bold>\<open>Bounds.\<close>
  No fuel is used: recursions are structural, have termination proofs, or are partial functions of which returning is a theorem (\<open>NextAfter\<close> in a zone with one
  offset) or whose failure to return is (\<open>NextAfter\<close> at a change of clocks, \<open>Install\<close> for plugins that depend on each other). Limits of the code (64 bit integers, 512 MiB of an archive, the sizes of
  downloads, eight years of search) appear as they are written.

  \<^bold>\<open>Not modelled.\<close>
  Concurrency below the level of whole operations, other than the locks and interleavings named above: goroutines of a
  tick run in sequence, and queries are atomic. Code that only moves data between a protocol and these components: HTTP handlers and generated types
  (\<^verbatim>\<open>api\<close>, \<^verbatim>\<open>clients\<close>), generated queries other than those of jobs, scrub policies and plugins (\<^verbatim>\<open>store/gen\<close>), the CSI driver (\<^verbatim>\<open>csi\<close>), and the programs below \<^verbatim>\<open>cmd\<close>. Drivers of
  other services of the host, which have their own formats and no part in the properties here: network, iSCSI, NVMe-oF, RDMA, Kerberos, SMART, mail,
  systemd and the kernel's configuration file system (\<^verbatim>\<open>host\<close>), virtual machines and Kubernetes workloads (\<^verbatim>\<open>vms\<close>, \<^verbatim>\<open>workloads\<close>), and the notification centre. The TPM, AES-GCM, signature schemes and
  TLS are parameters. The manifest lists every part with its reason.
\<close>

end
